(* ===== verification/Prelude.thy ===== *)
theory Prelude
  imports Main "HOL-Library.Word" "HOL-Library.Char_ord" "HOL-Library.List_Lexorder" "HOL-Library.Sublist"
begin

text \<open>
  Shared vocabulary of the development: the Rust integer types, the fragment of
  \<open>str\<close>/\<open>String\<close> that the agent uses, decimal printing and parsing, and \<open>Result\<close>.

  A Rust string is the \<open>string\<close> of its UTF-8 bytes. ASCII-only operations
  (\<open>to_ascii_lowercase\<close>, splitting at or trimming an ASCII character) are byte-wise, since
  no byte of a multi-byte sequence is ASCII. \<open>trim\<close> recognises the UTF-8 encodings of all
  the characters with the Unicode property White\_Space, as \<open>char::is_whitespace\<close> does.
  The order on \<open>string\<close> is the lexicographic order on bytes, which is Rust's order on
  \<open>str\<close> and so the key order of its \<open>BTreeMap\<close>.
\<close>

named_theorems rust_str "rewrite rules for the string operations"
named_theorems result_simps "rewrite rules for results and early returns"

type_synonym u8 = "8 word"
type_synonym u16 = "16 word"
type_synonym u32 = "32 word"
type_synonym u64 = "64 word"

text \<open>\<open>Result<T, String>\<close>: the error message on the left.\<close>

type_synonym 'a result = "string + 'a"

abbreviation Ok :: "'a \<Rightarrow> 'a result" where
  "Ok \<equiv> Inr"

abbreviation Err :: "string \<Rightarrow> 'a result" where
  "Err \<equiv> Inl"

fun is_ok :: "'e + 'a \<Rightarrow> bool" where
  "is_ok (Inl e) = False"
| "is_ok (Inr a) = True"

text \<open>The \<open>?\<close> operator: an early return on an error.\<close>

fun and_then :: "'e + 'a \<Rightarrow> ('a \<Rightarrow> 'e + 'b) \<Rightarrow> 'e + 'b" where
  "and_then (Inl e) f = Inl e"
| "and_then (Inr a) f = f a"

fun map_ok :: "('a \<Rightarrow> 'b) \<Rightarrow> 'e + 'a \<Rightarrow> 'e + 'b" where
  "map_ok f (Inl e) = Inl e"
| "map_ok f (Inr a) = Inr (f a)"

text \<open>\<open>collect::<Result<Vec<_>, _>>()\<close>: the first error, or all the values in order.\<close>

fun collect_results :: "('e + 'a) list \<Rightarrow> 'e + 'a list" where
  "collect_results [] = Inr []"
| "collect_results (r # rs) = and_then r (\<lambda>x. map_ok (\<lambda>xs. x # xs) (collect_results rs))"

text \<open>\<open>Option::unwrap_or\<close>.\<close>

fun unwrap_or :: "'a \<Rightarrow> 'a option \<Rightarrow> 'a" where
  "unwrap_or d None = d"
| "unwrap_or d (Some x) = x"

lemma and_then_Inr [result_simps]:
  "and_then r f = Inr b \<longleftrightarrow> (\<exists>a. r = Inr a \<and> f a = Inr b)"
  by (cases r) auto

lemma and_then_Inl [result_simps]:
  "and_then r f = Inl e \<longleftrightarrow> r = Inl e \<or> (\<exists>a. r = Inr a \<and> f a = Inl e)"
  by (cases r) auto

lemma map_ok_Inr [result_simps]: "map_ok f r = Inr b \<longleftrightarrow> (\<exists>a. r = Inr a \<and> b = f a)"
  by (cases r) auto

lemma map_ok_Inl [result_simps]: "map_ok f r = Inl e \<longleftrightarrow> r = Inl e"
  by (cases r) auto

lemma collect_results_Inr:
  "collect_results rs = Inr xs \<longleftrightarrow> rs = map Inr xs"
proof (induction rs arbitrary: xs)
  case (Cons r rs)
  then show ?case by (cases r; cases xs) (auto simp: result_simps)
qed auto

lemma collect_results_ok: "is_ok (collect_results rs) \<longleftrightarrow> (\<forall>r \<in> set rs. is_ok r)"
proof (induction rs)
  case (Cons r rs)
  then show ?case by (cases r; cases "collect_results rs") auto
qed simp

lemma is_ok_and_then: "is_ok (and_then r f) \<longleftrightarrow> (\<exists>a. r = Inr a \<and> is_ok (f a))"
  by (cases r) auto

lemma is_ok_iff: "is_ok r \<longleftrightarrow> (\<exists>a. r = Inr a)"
  by (cases r) auto

lemma is_ok_and_then_Inr [simp]: "is_ok (and_then r (\<lambda>x. Inr (f x))) = is_ok r"
  by (cases r) auto

lemma collect_results_map_Inr:
  "collect_results (map f xs) = Inr ys \<Longrightarrow> length ys = length xs \<and> (\<forall>i < length xs. f (xs ! i) = Inr (ys ! i))"
  by (auto simp: collect_results_Inr list_eq_iff_nth_eq)

lemma collect_results_map_in:
  "collect_results (map f xs) = Inr ys \<Longrightarrow> y \<in> set ys \<Longrightarrow> \<exists>x \<in> set xs. f x = Inr y"
  by (metis collect_results_map_Inr in_set_conv_nth)

section \<open>ASCII characters\<close>

definition char_code :: "char \<Rightarrow> nat" where
  "char_code c = of_char c"

lemma char_code_less_256: "char_code c < 256"
  by (simp add: char_code_def)

lemma char_code_char_of [simp]: "n < 256 \<Longrightarrow> char_code (char_of n) = n"
  by (simp add: char_code_def)

lemma char_code_inj [simp]: "char_code c = char_code d \<longleftrightarrow> c = d"
  by (simp add: char_code_def)

definition is_ascii_digit :: "char \<Rightarrow> bool" where
  "is_ascii_digit c \<longleftrightarrow> 48 \<le> char_code c \<and> char_code c \<le> 57"

definition is_ascii_uppercase :: "char \<Rightarrow> bool" where
  "is_ascii_uppercase c \<longleftrightarrow> 65 \<le> char_code c \<and> char_code c \<le> 90"

definition is_ascii_lowercase :: "char \<Rightarrow> bool" where
  "is_ascii_lowercase c \<longleftrightarrow> 97 \<le> char_code c \<and> char_code c \<le> 122"

definition is_ascii_alphanumeric :: "char \<Rightarrow> bool" where
  "is_ascii_alphanumeric c \<longleftrightarrow> is_ascii_digit c \<or> is_ascii_uppercase c \<or> is_ascii_lowercase c"

definition ascii_lower :: "char \<Rightarrow> char" where
  "ascii_lower c = (if is_ascii_uppercase c then char_of (char_code c + 32) else c)"

definition ascii_upper :: "char \<Rightarrow> char" where
  "ascii_upper c = (if is_ascii_lowercase c then char_of (char_code c - 32) else c)"

definition to_ascii_uppercase :: "string \<Rightarrow> string" where
  "to_ascii_uppercase s = map ascii_upper s"

definition to_ascii_lowercase :: "string \<Rightarrow> string" where
  "to_ascii_lowercase s = map ascii_lower s"

definition eq_ignore_ascii_case :: "string \<Rightarrow> string \<Rightarrow> bool" where
  "eq_ignore_ascii_case s t \<longleftrightarrow> to_ascii_lowercase s = to_ascii_lowercase t"

lemma ascii_lower_idem [simp]: "ascii_lower (ascii_lower c) = ascii_lower c"
  by (auto simp: ascii_lower_def is_ascii_uppercase_def)

lemma to_ascii_lowercase_idem [simp]:
  "to_ascii_lowercase (to_ascii_lowercase s) = to_ascii_lowercase s"
  by (simp add: to_ascii_lowercase_def)

lemma length_to_ascii_lowercase [simp]: "length (to_ascii_lowercase s) = length s"
  by (simp add: to_ascii_lowercase_def)

section \<open>Trimming\<close>

text \<open>
  The number of bytes of the White\_Space character a string starts with, 0 when it starts
  with none: U+0009 to U+000D and U+0020 (one byte), U+0085 and U+00A0 (two bytes), U+1680,
  U+2000 to U+200A, U+2028, U+2029, U+202F, U+205F and U+3000 (three bytes).
\<close>

definition is_ws1 :: "char \<Rightarrow> bool" where
  "is_ws1 c \<longleftrightarrow> char_code c = 32 \<or> (9 \<le> char_code c \<and> char_code c \<le> 13)"

definition is_ws2 :: "char \<Rightarrow> char \<Rightarrow> bool" where
  "is_ws2 c d \<longleftrightarrow> char_code c = 0xC2 \<and> (char_code d = 0x85 \<or> char_code d = 0xA0)"

definition is_ws3 :: "char \<Rightarrow> char \<Rightarrow> char \<Rightarrow> bool" where
  "is_ws3 c d e \<longleftrightarrow>
     (char_code c = 0xE1 \<and> char_code d = 0x9A \<and> char_code e = 0x80) \<or>
     (char_code c = 0xE2 \<and> char_code d = 0x80 \<and>
        ((0x80 \<le> char_code e \<and> char_code e \<le> 0x8A) \<or> char_code e = 0xA8 \<or>
         char_code e = 0xA9 \<or> char_code e = 0xAF)) \<or>
     (char_code c = 0xE2 \<and> char_code d = 0x81 \<and> char_code e = 0x9F) \<or>
     (char_code c = 0xE3 \<and> char_code d = 0x80 \<and> char_code e = 0x80)"

definition ws_len :: "string \<Rightarrow> nat" where
  "ws_len s =
     (case s of
        [] \<Rightarrow> 0
      | [c] \<Rightarrow> if is_ws1 c then 1 else 0
      | [c, d] \<Rightarrow> if is_ws1 c then 1 else if is_ws2 c d then 2 else 0
      | c # d # e # _ \<Rightarrow>
          if is_ws1 c then 1 else if is_ws2 c d then 2 else if is_ws3 c d e then 3 else 0)"

text \<open>The bytes of the White\_Space character a string ends with, read on the reversed bytes.\<close>

definition ws_len_rev :: "string \<Rightarrow> nat" where
  "ws_len_rev s =
     (case s of
        [] \<Rightarrow> 0
      | [c] \<Rightarrow> if is_ws1 c then 1 else 0
      | [c, d] \<Rightarrow> if is_ws1 c then 1 else if is_ws2 d c then 2 else 0
      | c # d # e # _ \<Rightarrow>
          if is_ws1 c then 1 else if is_ws2 d c then 2 else if is_ws3 e d c then 3 else 0)"

lemma ws_len_Nil [simp]: "ws_len [] = 0" "ws_len_rev [] = 0"
  by (simp_all add: ws_len_def ws_len_rev_def)

lemma ws_drop_less [termination_simp]:
  "0 < ws_len s \<Longrightarrow> length s - ws_len s < length s"
  "0 < ws_len_rev s \<Longrightarrow> length s - ws_len_rev s < length s"
  by (cases s; simp)+

fun trim_start :: "string \<Rightarrow> string" where
  "trim_start s = (if 0 < ws_len s then trim_start (drop (ws_len s) s) else s)"

fun trim_end_rev :: "string \<Rightarrow> string" where
  "trim_end_rev s = (if 0 < ws_len_rev s then trim_end_rev (drop (ws_len_rev s) s) else s)"

declare trim_start.simps [simp del] trim_end_rev.simps [simp del]

definition trim_end :: "string \<Rightarrow> string" where
  "trim_end s = rev (trim_end_rev (rev s))"

definition trim :: "string \<Rightarrow> string" where
  "trim s = trim_end (trim_start s)"

text \<open>Trimming removes the outer White\_Space and keeps what is between.\<close>

lemma ws_len_trim_start: "ws_len (trim_start s) = 0"
  by (induction s rule: trim_start.induct) (subst trim_start.simps, simp)

lemma trim_start_plain: "ws_len s = 0 \<Longrightarrow> trim_start s = s"
  by (simp add: trim_start.simps)

lemma ws_len_prefix: "ws_len (p @ q) = 0 \<Longrightarrow> ws_len p = 0"
  by (auto simp: ws_len_def split: list.splits if_splits)

lemma ws_len_trim_end_rev: "ws_len_rev (trim_end_rev s) = 0"
  by (induction s rule: trim_end_rev.induct) (subst trim_end_rev.simps, simp)

lemma trim_end_rev_plain: "ws_len_rev s = 0 \<Longrightarrow> trim_end_rev s = s"
  by (simp add: trim_end_rev.simps)

lemma suffix_trim_end_rev: "suffix (trim_end_rev s) s"
proof (induction s rule: trim_end_rev.induct)
  case (1 s)
  then show ?case
    by (subst trim_end_rev.simps) (auto intro: suffix_order.trans suffix_drop)
qed

lemma suffix_trim_start: "suffix (trim_start s) s"
proof (induction s rule: trim_start.induct)
  case (1 s)
  then show ?case
    by (subst trim_start.simps) (auto intro: suffix_order.trans suffix_drop)
qed

lemma prefix_trim_end: "prefix (trim_end s) s"
  using suffix_trim_end_rev [of "rev s"] by (simp add: trim_end_def suffix_to_prefix)

lemma trim_end_idem [simp]: "trim_end (trim_end s) = trim_end s"
  by (simp add: trim_end_def trim_end_rev_plain ws_len_trim_end_rev)

lemma ws_len_trim: "ws_len (trim s) = 0"
  unfolding trim_def by (metis prefixE prefix_trim_end ws_len_prefix ws_len_trim_start)

lemma set_trim_subset: "set (trim s) \<subseteq> set s"
  unfolding trim_def
  by (meson order_trans prefix_trim_end set_mono_prefix set_mono_suffix suffix_trim_start)

lemma trim_idem [simp, rust_str]: "trim (trim s) = trim s"
proof -
  have "trim_start (trim s) = trim s" by (rule trim_start_plain [OF ws_len_trim])
  then show ?thesis by (simp add: trim_def)
qed

lemma trim_Nil [simp, rust_str]: "trim [] = []"
  by (simp add: trim_def trim_end_def trim_start.simps trim_end_rev.simps)

text \<open>\<open>trim_start_matches\<close>, \<open>trim_end_matches\<close> and \<open>trim_matches\<close> at ASCII characters.\<close>

definition trim_start_matches :: "(char \<Rightarrow> bool) \<Rightarrow> string \<Rightarrow> string" where
  "trim_start_matches P s = dropWhile P s"

definition trim_end_matches :: "(char \<Rightarrow> bool) \<Rightarrow> string \<Rightarrow> string" where
  "trim_end_matches P s = rev (dropWhile P (rev s))"

definition trim_matches :: "(char \<Rightarrow> bool) \<Rightarrow> string \<Rightarrow> string" where
  "trim_matches P s = trim_end_matches P (trim_start_matches P s)"

lemma trim_end_matches_idem [simp, rust_str]:
  "trim_end_matches P (trim_end_matches P s) = trim_end_matches P s"
  by (simp add: trim_end_matches_def dropWhile_idem)

lemma trim_end_matches_last: "trim_end_matches P s \<noteq> [] \<Longrightarrow> \<not> P (last (trim_end_matches P s))"
  by (metis hd_dropWhile last_rev rev.simps(1) rev_rev_ident trim_end_matches_def)

lemma trim_end_matches_subset: "set (trim_end_matches P s) \<subseteq> set s"
  using set_dropWhileD by (fastforce simp: trim_end_matches_def)

lemma trim_matches_subset: "set (trim_matches P s) \<subseteq> set s"
  using trim_end_matches_subset set_dropWhileD
  by (fastforce simp: trim_matches_def trim_start_matches_def)

section \<open>Characters\<close>

text \<open>\<open>chars().take(n)\<close>: \<open>n\<close> UTF-8 sequences, each a byte and its continuation bytes.\<close>

definition is_continuation :: "char \<Rightarrow> bool" where
  "is_continuation c \<longleftrightarrow> 0x80 \<le> char_code c \<and> char_code c < 0xC0"

fun take_chars :: "nat \<Rightarrow> string \<Rightarrow> string" where
  "take_chars 0 s = []"
| "take_chars (Suc n) [] = []"
| "take_chars (Suc n) (c # s) =
     c # takeWhile is_continuation s @ take_chars n (dropWhile is_continuation s)"

text \<open>\<open>chars().count()\<close>: the bytes that start a character.\<close>

definition char_count :: "string \<Rightarrow> nat" where
  "char_count s = length (filter (\<lambda>c. \<not> is_continuation c) s)"

lemma char_count_le: "char_count s \<le> length s"
  by (simp add: char_count_def)

lemma char_count_append [simp]: "char_count (s @ t) = char_count s + char_count t"
  by (simp add: char_count_def)

lemma char_count_take_chars: "char_count (take_chars n s) \<le> n"
proof (induction n s rule: take_chars.induct)
  case (3 n c s)
  have "filter (\<lambda>c. \<not> is_continuation c) (takeWhile is_continuation s) = []"
    by (auto simp: filter_empty_conv dest: set_takeWhileD)
  with 3 show ?case by (simp add: char_count_def)
qed (simp_all add: char_count_def)

section \<open>Splitting and joining\<close>

text \<open>\<open>str::split\<close> at an ASCII character: one piece more than there are separators.\<close>

fun split_on :: "char \<Rightarrow> string \<Rightarrow> string list" where
  "split_on sep [] = [[]]"
| "split_on sep (c # s) =
     (if c = sep then [] # split_on sep s
      else case split_on sep s of [] \<Rightarrow> [[c]] | p # ps \<Rightarrow> (c # p) # ps)"

fun join :: "string \<Rightarrow> string list \<Rightarrow> string" where
  "join sep [] = []"
| "join sep [p] = p"
| "join sep (p # q # ps) = p @ sep @ join sep (q # ps)"

text \<open>\<open>split_once\<close> at an ASCII character.\<close>

fun split_once :: "char \<Rightarrow> string \<Rightarrow> (string \<times> string) option" where
  "split_once sep [] = None"
| "split_once sep (c # s) =
     (if c = sep then Some ([], s)
      else map_option (\<lambda>(a, b). (c # a, b)) (split_once sep s))"

text \<open>\<open>split_once\<close> at a non-empty string: at its first occurrence.\<close>

fun split_once_str :: "string \<Rightarrow> string \<Rightarrow> (string \<times> string) option" where
  "split_once_str pat [] = None"
| "split_once_str pat (c # s) =
     (if take (length pat) (c # s) = pat then Some ([], drop (length pat) (c # s))
      else map_option (\<lambda>(a, b). (c # a, b)) (split_once_str pat s))"

lemma split_on_not_Nil [simp]: "split_on sep s \<noteq> []"
  by (induction s) (auto split: list.splits)

lemma split_on_free: "p \<in> set (split_on sep s) \<Longrightarrow> sep \<notin> set p"
  by (induction s arbitrary: p) (fastforce split: list.splits if_splits)+

lemma split_on_plain: "sep \<notin> set p \<Longrightarrow> split_on sep p = [p]"
  by (induction p) auto

lemma split_on_append:
  "sep \<notin> set p \<Longrightarrow> split_on sep (p @ sep # s) = p # split_on sep s"
  by (induction p) auto

lemma split_on_join:
  "ps \<noteq> [] \<Longrightarrow> (\<And>p. p \<in> set ps \<Longrightarrow> sep \<notin> set p) \<Longrightarrow> split_on sep (join [sep] ps) = ps"
  by (induction "[sep]" ps rule: join.induct) (auto simp: split_on_plain split_on_append)

lemma join_split_on: "join [sep] (split_on sep s) = s"
proof (induction s)
  case (Cons c s)
  show ?case
  proof (cases "split_on sep s")
    case (Cons p ps)
    with Cons.IH show ?thesis by (cases ps) auto
  qed simp
qed simp

lemma split_once_Some:
  "split_once sep s = Some (a, b) \<longleftrightarrow> s = a @ sep # b \<and> sep \<notin> set a"
proof (induction s arbitrary: a)
  case (Cons c s)
  then show ?case by (cases a) auto
qed simp

lemma split_once_None: "split_once sep s = None \<longleftrightarrow> sep \<notin> set s"
  by (induction s) auto

section \<open>Decimal numbers\<close>

text \<open>\<open>to_string\<close> of an unsigned and of a signed integer.\<close>

fun nat_to_string :: "nat \<Rightarrow> string" where
  "nat_to_string n =
     (if n < 10 then [char_of (48 + n)]
      else nat_to_string (n div 10) @ [char_of (48 + n mod 10)])"

declare nat_to_string.simps [simp del]

definition int_to_string :: "int \<Rightarrow> string" where
  "int_to_string i = (if i < 0 then CHR ''-'' # nat_to_string (nat (- i)) else nat_to_string (nat i))"

definition digit_value :: "char \<Rightarrow> nat" where
  "digit_value c = char_code c - 48"

fun digits_value :: "nat \<Rightarrow> string \<Rightarrow> nat" where
  "digits_value acc [] = acc"
| "digits_value acc (c # s) = digits_value (10 * acc + digit_value c) s"

text \<open>
  \<open>str::parse\<close> into an unsigned integer of maximum \<open>mx\<close>: an optional \<open>+\<close>, then at least
  one digit and nothing else; a value above the maximum is an error.
\<close>

definition parse_digits :: "nat \<Rightarrow> string \<Rightarrow> nat option" where
  "parse_digits mx s =
     (if s \<noteq> [] \<and> list_all is_ascii_digit s \<and> digits_value 0 s \<le> mx
      then Some (digits_value 0 s) else None)"

definition parse_uint :: "nat \<Rightarrow> string \<Rightarrow> nat option" where
  "parse_uint mx s =
     (case s of
        [] \<Rightarrow> None
      | c # rest \<Rightarrow> if c = CHR ''+'' then parse_digits mx rest else parse_digits mx s)"

lemma digits_value_append:
  "digits_value acc (s @ t) = digits_value (digits_value acc s) t"
  by (induction s arbitrary: acc) auto

lemma digit_char: "d < 10 \<Longrightarrow> is_ascii_digit (char_of (48 + d)) \<and> digit_value (char_of (48 + d)) = d"
  by (simp add: is_ascii_digit_def digit_value_def)

lemma nat_to_string_digits: "list_all is_ascii_digit (nat_to_string n)"
proof (induction n rule: nat_to_string.induct)
  case (1 n)
  then show ?case
    by (subst nat_to_string.simps) (simp add: digit_char)
qed

lemma nat_to_string_not_Nil [simp]: "nat_to_string n \<noteq> []"
  by (subst nat_to_string.simps) simp

lemma digits_value_nat_to_string: "digits_value 0 (nat_to_string n) = n"
proof (induction n rule: nat_to_string.induct)
  case (1 n)
  then show ?case
    by (subst nat_to_string.simps) (simp add: digits_value_append digit_char)
qed

lemma parse_digits_nat_to_string: "n \<le> mx \<Longrightarrow> parse_digits mx (nat_to_string n) = Some n"
  by (simp add: parse_digits_def nat_to_string_digits digits_value_nat_to_string)

lemma digit_not_sign: "is_ascii_digit c \<Longrightarrow> c \<noteq> CHR ''+'' \<and> c \<noteq> CHR ''-'' \<and> c \<noteq> CHR '':'' \<and> c \<noteq> CHR '',''"
  by (auto simp: is_ascii_digit_def char_code_def)

lemma nat_to_string_hd: "\<exists>c s. nat_to_string n = c # s \<and> is_ascii_digit c"
  using nat_to_string_digits [of n] nat_to_string_not_Nil [of n] by (cases "nat_to_string n") auto

lemma parse_uint_nat_to_string: "n \<le> mx \<Longrightarrow> parse_uint mx (nat_to_string n) = Some n"
proof -
  assume le: "n \<le> mx"
  obtain c s where cs: "nat_to_string n = c # s" and "is_ascii_digit c"
    using nat_to_string_hd by blast
  then have "c \<noteq> CHR ''+''" using digit_not_sign by blast
  with le cs show ?thesis
    using parse_digits_nat_to_string [OF le] by (simp add: parse_uint_def)
qed

lemma parse_uint_le: "parse_uint mx s = Some n \<Longrightarrow> n \<le> mx"
  by (auto simp: parse_uint_def parse_digits_def split: list.splits if_splits)

lemma nat_to_string_inj [simp]: "nat_to_string a = nat_to_string b \<longleftrightarrow> a = b"
  by (metis digits_value_nat_to_string)

lemma nat_to_string_notin: "\<not> is_ascii_digit c \<Longrightarrow> c \<notin> set (nat_to_string n)"
  using nat_to_string_digits by (metis list_all_iff)

lemma parse_uint_above: "mx < n \<Longrightarrow> parse_uint mx (nat_to_string n) = None"
proof -
  assume "mx < n"
  obtain c s where cs: "nat_to_string n = c # s" and "is_ascii_digit c"
    using nat_to_string_hd by blast
  then have "c \<noteq> CHR ''+''" using digit_not_sign by blast
  with cs \<open>mx < n\<close> show ?thesis
    using digits_value_nat_to_string [of n] by (simp add: parse_uint_def parse_digits_def)
qed

text \<open>What follows the last character outside a class is determined by the whole string.\<close>

lemma suffix_unique:
  assumes "list_all P x" "list_all P y" "\<not> P c" and "p @ c # x = q @ c # y"
  shows "p = q \<and> x = y"
proof -
  have "takeWhile P (rev (p @ c # x)) = rev x" "takeWhile P (rev (q @ c # y)) = rev y"
    using assms(1-3) by (simp_all add: takeWhile_append list_all_iff takeWhile_eq_all_conv [THEN iffD2])
  with assms(4) have "x = y" by simp
  with assms(4) show ?thesis by simp
qed

end
