(* ===== verification/BTree.thy ===== *)
theory BTree
  imports Prelude
begin

text \<open>
  The ordered containers of the standard library the agent keeps its tables in:
  \<open>BTreeMap\<close> as the list of its entries in increasing key order, \<open>BTreeSet\<close> as the list of
  its elements in increasing order. Iteration (\<open>into_values\<close>, \<open>iter\<close>) is then the list
  itself, in the order the standard library documents.

  The locale \<open>ordered_map\<close> is the contract the components rely on: lookup after every
  operation, and that the entries are the graph of the lookup in key order. The lemmas
  that follow from the contract alone are proved inside it; the sorted list satisfies it
  (interpretation \<open>bt\<close> at the end).
\<close>

section \<open>The contract\<close>

locale ordered_map =
  fixes empty :: "'m"
    and insert :: "'k::linorder \<Rightarrow> 'v \<Rightarrow> 'm \<Rightarrow> 'm"
    and remove :: "'k \<Rightarrow> 'm \<Rightarrow> 'm"
    and get :: "'m \<Rightarrow> 'k \<Rightarrow> 'v option"
    and entries :: "'m \<Rightarrow> ('k \<times> 'v) list"
    and invar :: "'m \<Rightarrow> bool"
  assumes get_empty: "get empty k = None"
    and get_insert: "invar m \<Longrightarrow> get (insert k v m) k' = (if k' = k then Some v else get m k')"
    and get_remove: "invar m \<Longrightarrow> get (remove k m) k' = (if k' = k then None else get m k')"
    and invar_empty: "invar empty"
    and invar_insert: "invar m \<Longrightarrow> invar (insert k v m)"
    and invar_remove: "invar m \<Longrightarrow> invar (remove k m)"
    and entries_iff: "invar m \<Longrightarrow> (k, v) \<in> set (entries m) \<longleftrightarrow> get m k = Some v"
    and entries_ordered: "invar m \<Longrightarrow> sorted_wrt (<) (map fst (entries m))"
begin

lemma keys_distinct: "invar m \<Longrightarrow> distinct (map fst (entries m))"
  using entries_ordered strict_sorted_iff by blast

lemma entries_distinct: "invar m \<Longrightarrow> distinct (entries m)"
  using keys_distinct distinct_map by blast

lemma get_map_of: "invar m \<Longrightarrow> get m k = map_of (entries m) k"
proof (cases "map_of (entries m) k")
  case None
  assume "invar m"
  with None entries_iff [of m k] have "get m k \<noteq> Some v" for v
    by (metis image_eqI fst_conv map_of_eq_None_iff)
  with None show ?thesis by (cases "get m k") auto
next
  case (Some v)
  assume "invar m"
  with Some entries_iff [of m k v] show ?thesis by (simp add: map_of_SomeD)
qed

text \<open>Maps with the same lookups list the same entries: iteration depends on the contents only.\<close>

lemma entries_eqI:
  assumes "invar m" "invar m'" "\<And>k. get m k = get m' k"
  shows "entries m = entries m'"
proof -
  have eq: "set (entries m) = set (entries m')"
    using assms by (auto simp: entries_iff)
  have "inj_on fst (set (entries m) \<union> set (entries m'))"
    using keys_distinct [OF assms(1)] eq by (simp add: distinct_map)
  then show ?thesis
    using entries_ordered [OF assms(1)] entries_ordered [OF assms(2)] eq
    by (intro map_sorted_distinct_set_unique) (auto simp: strict_sorted_iff)
qed

lemma values_iff: "invar m \<Longrightarrow> v \<in> set (map snd (entries m)) \<longleftrightarrow> (\<exists>k. get m k = Some v)"
  by (auto simp: entries_iff simp flip: entries_iff intro: rev_image_eqI)

end

section \<open>BTreeMap as a sorted association list\<close>

type_synonym ('k, 'v) btmap = "('k \<times> 'v) list"

fun bt_insert :: "'k::linorder \<Rightarrow> 'v \<Rightarrow> ('k, 'v) btmap \<Rightarrow> ('k, 'v) btmap" where
  "bt_insert k v [] = [(k, v)]"
| "bt_insert k v ((k', v') # m) =
     (if k < k' then (k, v) # (k', v') # m
      else if k = k' then (k, v) # m
      else (k', v') # bt_insert k v m)"

fun bt_remove :: "'k::linorder \<Rightarrow> ('k, 'v) btmap \<Rightarrow> ('k, 'v) btmap" where
  "bt_remove k [] = []"
| "bt_remove k ((k', v') # m) = (if k = k' then m else (k', v') # bt_remove k m)"

definition bt_get :: "('k, 'v) btmap \<Rightarrow> 'k \<Rightarrow> 'v option" where
  "bt_get m k = map_of m k"

definition bt_contains_key :: "('k, 'v) btmap \<Rightarrow> 'k \<Rightarrow> bool" where
  "bt_contains_key m k \<longleftrightarrow> bt_get m k \<noteq> None"

definition bt_values :: "('k, 'v) btmap \<Rightarrow> 'v list" where
  "bt_values m = map snd m"

definition bt_keys :: "('k, 'v) btmap \<Rightarrow> 'k list" where
  "bt_keys m = map fst m"

text \<open>\<open>collect\<close> into a \<open>BTreeMap\<close>: the pairs are inserted in order, so the last one wins.\<close>

definition bt_collect :: "('k::linorder \<times> 'v) list \<Rightarrow> ('k, 'v) btmap" where
  "bt_collect kvs = fold (\<lambda>(k, v). bt_insert k v) kvs []"

definition bt_invar :: "('k::linorder, 'v) btmap \<Rightarrow> bool" where
  "bt_invar m \<longleftrightarrow> sorted_wrt (<) (map fst m)"

lemma set_bt_insert: "set (bt_insert k v m) \<subseteq> insert (k, v) (set m)"
  by (induction m) (auto split: if_splits)

lemma keys_bt_insert: "fst ` set (bt_insert k v m) = insert k (fst ` set m)"
proof (induction m)
  case (Cons kv m)
  then show ?case by (cases kv) (simp add: insert_commute)
qed simp

lemma bt_insert_invar: "bt_invar m \<Longrightarrow> bt_invar (bt_insert k v m)"
proof (induction m)
  case (Cons kv m)
  obtain k' v' where kv: "kv = (k', v')" by (cases kv)
  have inv: "bt_invar m" using Cons.prems by (simp add: bt_invar_def)
  have above: "\<forall>x \<in> set (map fst m). k' < x"
    using Cons.prems kv by (simp add: bt_invar_def)
  show ?case
    using Cons.IH [OF inv] above keys_bt_insert [of k v m] kv Cons.prems
    by (fastforce simp: bt_invar_def)
qed (simp add: bt_invar_def)

lemma set_bt_remove: "set (bt_remove k m) \<subseteq> set m"
proof (induction m)
  case (Cons kv m)
  then show ?case by (cases kv) auto
qed simp

lemma bt_remove_invar: "bt_invar m \<Longrightarrow> bt_invar (bt_remove k m)"
proof (induction m)
  case (Cons kv m)
  then show ?case
    using set_bt_remove [of k m] by (cases kv) (fastforce simp: bt_invar_def)
qed (simp add: bt_invar_def)

lemma bt_get_insert: "bt_get (bt_insert k v m) k' = (if k' = k then Some v else bt_get m k')"
  by (induction m) (auto simp: bt_get_def)

lemma map_of_below: "\<forall>x \<in> set (map fst m). k < x \<Longrightarrow> map_of m k = (None :: 'v option)"
  for k :: "'k::linorder"
  by (metis less_irrefl list.set_map map_of_eq_None_iff)

lemma bt_get_remove:
  "bt_invar m \<Longrightarrow> bt_get (bt_remove k m) k' = (if k' = k then None else bt_get m k')"
proof (induction m)
  case (Cons kv m)
  obtain k2 v2 where kv: "kv = (k2, v2)" by (cases kv)
  have inv: "bt_invar m" using Cons.prems by (simp add: bt_invar_def)
  have "map_of m k2 = None"
    using Cons.prems kv by (intro map_of_below) (simp add: bt_invar_def)
  with Cons.IH [OF inv] kv show ?case by (auto simp: bt_get_def)
qed (simp add: bt_get_def)

interpretation bt: ordered_map "[]" bt_insert bt_remove bt_get "\<lambda>m. m" bt_invar
proof unfold_locales
  fix m :: "('a::linorder \<times> 'b) list" and k v
  assume inv: "bt_invar m"
  show "((k, v) \<in> set m) = (bt_get m k = Some v)"
    using inv by (simp add: bt_get_def bt_invar_def map_of_eq_Some_iff strict_sorted_iff)
  show "sorted_wrt (<) (map fst m)" using inv by (simp add: bt_invar_def)
next
  show "bt_invar []" "\<And>k. bt_get [] k = None" by (simp_all add: bt_invar_def bt_get_def)
qed (simp_all add: bt_get_insert bt_get_remove bt_insert_invar bt_remove_invar)

lemma fold_bt_insert_invar: "bt_invar m \<Longrightarrow> bt_invar (fold (\<lambda>(k, v). bt_insert k v) kvs m)"
  by (induction kvs arbitrary: m) (auto simp: bt_insert_invar)

lemma bt_collect_invar [simp, intro]: "bt_invar (bt_collect kvs)"
  by (simp add: bt_collect_def fold_bt_insert_invar bt.invar_empty)

lemma fold_bt_insert_get:
  "bt_get (fold (\<lambda>(k, v). bt_insert k v) kvs m) k =
     (case map_of (rev kvs) k of Some v \<Rightarrow> Some v | None \<Rightarrow> bt_get m k)"
  by (induction kvs arbitrary: m)
    (auto simp: bt_get_insert map_add_def split: option.splits)

lemma bt_collect_get: "bt_get (bt_collect kvs) k = map_of (rev kvs) k"
  by (simp add: bt_collect_def fold_bt_insert_get bt.get_empty split: option.splits)

lemma bt_collect_snoc: "bt_collect (kvs @ [(k, v)]) = bt_insert k v (bt_collect kvs)"
  by (simp add: bt_collect_def)

section \<open>BTreeSet\<close>

type_synonym 'a btset = "'a list"

fun bs_insert :: "'a::linorder \<Rightarrow> 'a btset \<Rightarrow> 'a btset" where
  "bs_insert x [] = [x]"
| "bs_insert x (y # s) =
     (if x < y then x # y # s else if x = y then y # s else y # bs_insert x s)"

definition bs_collect :: "'a::linorder list \<Rightarrow> 'a btset" where
  "bs_collect xs = fold bs_insert xs []"

definition bs_contains :: "'a btset \<Rightarrow> 'a \<Rightarrow> bool" where
  "bs_contains s x \<longleftrightarrow> x \<in> set s"

lemma set_bs_insert [simp]: "set (bs_insert x s) = {x} \<union> set s"
  by (induction s) auto

lemma bs_insert_sorted: "sorted_wrt (<) s \<Longrightarrow> sorted_wrt (<) (bs_insert x s)"
  by (induction s) auto

lemma fold_bs_insert:
  "set (fold bs_insert xs s) = set xs \<union> set s"
  "sorted_wrt (<) s \<Longrightarrow> sorted_wrt (<) (fold bs_insert xs s)"
  by (induction xs arbitrary: s) (auto simp: bs_insert_sorted)

lemma set_bs_collect [simp]: "set (bs_collect xs) = set xs"
  by (simp add: bs_collect_def fold_bs_insert)

lemma bs_collect_sorted: "sorted_wrt (<) (bs_collect xs)"
  by (simp add: bs_collect_def fold_bs_insert)

lemma bs_collect_eq: "bs_collect xs = sorted_list_of_set (set xs)"
  by (metis bs_collect_sorted set_bs_collect sorted_list_of_set.idem_if_sorted_distinct strict_sorted_iff)

lemma bs_contains_collect [simp]: "bs_contains (bs_collect xs) x \<longleftrightarrow> x \<in> set xs"
  by (simp add: bs_contains_def)

end
