(* ===== verification/Config.thy ===== *)
theory Config
  imports Prelude
begin

text \<open>
  The configuration of the agent (\<open>src/src/config.rs\<close>): the structures a file is decoded
  into, the defaults, the normalisation of its strings, lists and paths, and
  \<open>AppConfig::resolve_runtime\<close>, which turns the decoded file into the nodes and machine
  profiles the runtime works with or refuses it with an error. Decoding the file itself is
  \<open>serde_yaml\<close>/\<open>serde_json\<close> and is not modelled.
\<close>

section \<open>Data\<close>

record panel_config =
  panel_url :: string
  panel_token :: string
  panel_node_id :: u32
  panel_machine_id :: u32
  panel_timeout :: u64

record kernel_config =
  kernel_type :: string
  core_command :: string
  kernel_config_dir :: string
  log_level :: string
  dns_servers :: "string list"
  dns_block_private_ips :: bool
  dns_private_ip_allowlist :: "string list"
  ip_strategy :: string

record realtime_config =
  rt_enabled :: bool
  rt_url :: string
  rt_ping_interval :: u64
  rt_reconnect_interval :: u64

record machine_profile_config =
  mp_name :: string
  mp_url :: string
  mp_token :: string
  mp_machine_id :: u32
  mp_timeout :: u64
  mp_config_dir :: string

record machine_config =
  machine_enabled :: bool
  machine_continue_on_error :: "bool option"
  machine_profiles :: "machine_profile_config list"

record subscription_proxy_zerossl_config =
  zs_status :: string
  zs_certificate_id :: string
  zs_validation_path :: string
  zs_validation_content :: string
  zs_certificate_pem :: string
  zs_ca_bundle_pem :: string
  zs_expires_at :: string

record subscription_proxy_profile =
  spp_site_id :: string
  spp_upstream_base_url :: string
  spp_subscribe_path :: string

record website_proxy_profile =
  wpp_site_id :: string
  wpp_upstream_base_url :: string
  wpp_path_prefix :: string

record subscription_proxy_config =
  sp_enabled :: bool
  sp_https_listen :: string
  sp_http_listen :: string
  sp_cert_file :: string
  sp_key_file :: string
  sp_certificate_domain :: string
  sp_challenge_dir :: string
  sp_zerossl :: subscription_proxy_zerossl_config
  sp_site_id :: string
  sp_upstream_base_url :: string
  sp_subscribe_path :: string
  sp_allow_http_fallback :: bool
  sp_max_response_bytes :: u64
  sp_profiles :: "subscription_proxy_profile list"
  sp_website_profiles :: "website_proxy_profile list"

record agent_config =
  subscription_proxy :: subscription_proxy_config

record node_config =
  nc_url :: string
  nc_token :: string
  nc_node_id :: u32
  nc_machine_id :: u32
  nc_timeout :: u64
  nc_config_dir :: string

record app_config =
  app_panel :: panel_config
  app_kernel :: kernel_config
  app_realtime :: realtime_config
  app_machine :: machine_config
  app_agent :: agent_config
  app_nodes :: "node_config list"

record resolved_machine_config =
  rm_enabled :: bool
  rm_continue_on_error :: bool
  rm_profiles :: "machine_profile_config list"

record resolved_config =
  rc_kernel :: kernel_config
  rc_realtime :: realtime_config
  rc_machine :: resolved_machine_config
  rc_agent :: agent_config
  rc_nodes :: "node_config list"

text \<open>The inputs \<open>validation_content\<close> is decoded from; the floating-point case is left out.\<close>

datatype validation_content_input =
    VText string
  | VLines "string list"
  | VBool bool
  | VSigned int
  | VUnsigned nat

section \<open>Defaults\<close>

definition DEFAULT_CONFIG_DIR :: string where
  "DEFAULT_CONFIG_DIR = ''/etc/kelinode''"

definition default_core_type :: string where
  "default_core_type = ''keli-core-rs''"

definition default_dns_block_private_ips :: bool where
  "default_dns_block_private_ips = True"

definition kernel_config_default :: kernel_config where
  "kernel_config_default =
     \<lparr>kernel_type = default_core_type, core_command = [], kernel_config_dir = DEFAULT_CONFIG_DIR,
      log_level = [], dns_servers = [], dns_block_private_ips = default_dns_block_private_ips,
      dns_private_ip_allowlist = [], ip_strategy = []\<rparr>"

section \<open>Strings, lists and numbers\<close>

definition bool_to_string :: "bool \<Rightarrow> string" where
  "bool_to_string b = (if b then ''true'' else ''false'')"

fun into_normalized_string :: "validation_content_input \<Rightarrow> string" where
  "into_normalized_string (VText v) = trim v"
| "into_normalized_string (VLines vs) = join [CHR 0x0A] (map trim vs)"
| "into_normalized_string (VBool b) = bool_to_string b"
| "into_normalized_string (VSigned i) = int_to_string i"
| "into_normalized_string (VUnsigned n) = nat_to_string n"

definition first_non_empty :: "string \<Rightarrow> string \<Rightarrow> string" where
  "first_non_empty value fallback = (if trim value = [] then trim fallback else trim value)"

definition first_positive :: "'n::len word \<Rightarrow> 'n word \<Rightarrow> 'n word" where
  "first_positive value fallback = (if value > 0 then value else fallback)"

fun normalize_string_list_loop :: "string list \<Rightarrow> string list \<Rightarrow> string list" where
  "normalize_string_list_loop [] output = output"
| "normalize_string_list_loop (value # values) output =
     (if trim value = [] \<or> trim value \<in> set output then normalize_string_list_loop values output
      else normalize_string_list_loop values (output @ [trim value]))"

definition normalize_string_list :: "string list \<Rightarrow> string list" where
  "normalize_string_list values = normalize_string_list_loop values []"

section \<open>Paths\<close>

abbreviation slash :: char where
  "slash \<equiv> CHR ''/''"

definition is_slash :: "char \<Rightarrow> bool" where
  "is_slash c \<longleftrightarrow> c = slash"

definition replace_backslashes :: "string \<Rightarrow> string" where
  "replace_backslashes s = map (\<lambda>c. if c = CHR 0x5C then slash else c) s"

definition starts_with_slash :: "string \<Rightarrow> bool" where
  "starts_with_slash s \<longleftrightarrow> (case s of [] \<Rightarrow> False | c # _ \<Rightarrow> c = slash)"

text \<open>The loop over the components; \<open>parts\<close> is the stack of the components kept so far.\<close>

fun clean_parts :: "bool \<Rightarrow> string list \<Rightarrow> string list \<Rightarrow> string list" where
  "clean_parts absolute [] parts = parts"
| "clean_parts absolute (part # rest) parts =
     (if part = [] \<or> part = ''.'' then clean_parts absolute rest parts
      else if part = ''..'' then
        (if parts \<noteq> [] \<and> last parts \<noteq> ''..'' then clean_parts absolute rest (butlast parts)
         else if \<not> absolute then clean_parts absolute rest (parts @ [part])
         else clean_parts absolute rest parts)
      else clean_parts absolute rest (parts @ [part]))"

definition clean_posix_path :: "string \<Rightarrow> string" where
  "clean_posix_path path0 =
     (let path = replace_backslashes path0;
          absolute = starts_with_slash path;
          parts = clean_parts absolute (split_on slash path) []
      in if absolute then (if parts = [] then ''/'' else slash # join ''/'' parts)
         else if parts = [] then ''.'' else join ''/'' parts)"

definition normalize_config_dir :: "string \<Rightarrow> string" where
  "normalize_config_dir path =
     (if trim path = [] then DEFAULT_CONFIG_DIR else clean_posix_path (trim path))"

definition normalize_optional_config_dir :: "string \<Rightarrow> string" where
  "normalize_optional_config_dir path = (if trim path = [] then [] else normalize_config_dir path)"

definition join_posix_path :: "string \<Rightarrow> string \<Rightarrow> string" where
  "join_posix_path root child =
     trim_end_matches is_slash root @ ''/'' @ trim_start_matches is_slash child"

definition resolve_node_config_dir :: "string \<Rightarrow> string \<Rightarrow> u32 \<Rightarrow> bool \<Rightarrow> string" where
  "resolve_node_config_dir base_dir override_dir node_id multi_node =
     (if trim override_dir \<noteq> [] then normalize_config_dir override_dir
      else
        let root = normalize_config_dir base_dir in
        if multi_node then join_posix_path root (''node-'' @ nat_to_string (unat node_id))
        else root)"

definition trim_trailing_slashes :: "string \<Rightarrow> string" where
  "trim_trailing_slashes s = trim_end_matches is_slash s"

definition normalize_proxy_path_prefix :: "string \<Rightarrow> string" where
  "normalize_proxy_path_prefix value0 =
     (let value = trim_end_matches is_slash (trim value0) in
      if value = [] \<or> value = ''/'' then ''/''
      else if starts_with_slash value then value
      else slash # value)"

section \<open>The subscription proxy section\<close>

definition normalize_subscription_proxy_zerossl ::
  "subscription_proxy_zerossl_config \<Rightarrow> subscription_proxy_zerossl_config" where
  "normalize_subscription_proxy_zerossl src =
     \<lparr>zs_status = trim (zs_status src),
      zs_certificate_id = trim (zs_certificate_id src),
      zs_validation_path = trim (zs_validation_path src),
      zs_validation_content = trim (zs_validation_content src),
      zs_certificate_pem = trim (zs_certificate_pem src),
      zs_ca_bundle_pem = trim (zs_ca_bundle_pem src),
      zs_expires_at = trim (zs_expires_at src)\<rparr>"

definition normalize_subscription_proxy ::
  "subscription_proxy_config \<Rightarrow> subscription_proxy_config" where
  "normalize_subscription_proxy src =
     (let profiles = map (\<lambda>row.
            \<lparr>spp_site_id = trim (spp_site_id row),
             spp_upstream_base_url = trim_trailing_slashes (trim (spp_upstream_base_url row)),
             spp_subscribe_path = trim_matches is_slash (trim (spp_subscribe_path row))\<rparr>)
            (sp_profiles src);
          website_profiles = map (\<lambda>row.
            \<lparr>wpp_site_id = trim (wpp_site_id row),
             wpp_upstream_base_url = trim_trailing_slashes (trim (wpp_upstream_base_url row)),
             wpp_path_prefix = normalize_proxy_path_prefix (wpp_path_prefix row)\<rparr>)
            (sp_website_profiles src)
      in \<lparr>sp_enabled = sp_enabled src \<or> profiles \<noteq> [] \<or> website_profiles \<noteq> [],
          sp_https_listen = trim (sp_https_listen src),
          sp_http_listen = trim (sp_http_listen src),
          sp_cert_file = trim (sp_cert_file src),
          sp_key_file = trim (sp_key_file src),
          sp_certificate_domain = trim (sp_certificate_domain src),
          sp_challenge_dir = trim (sp_challenge_dir src),
          sp_zerossl = normalize_subscription_proxy_zerossl (sp_zerossl src),
          sp_site_id = trim (sp_site_id src),
          sp_upstream_base_url = trim_trailing_slashes (trim (sp_upstream_base_url src)),
          sp_subscribe_path = trim_matches is_slash (trim (sp_subscribe_path src)),
          sp_allow_http_fallback = sp_allow_http_fallback src,
          sp_max_response_bytes = sp_max_response_bytes src,
          sp_profiles = profiles,
          sp_website_profiles = website_profiles\<rparr>)"

section \<open>Resolution\<close>

definition direct_node :: "app_config \<Rightarrow> node_config option" where
  "direct_node cfg =
     (if app_nodes cfg \<noteq> [] \<or> machine_profiles (app_machine cfg) \<noteq> [] then None
      else
        let api_host = trim (panel_url (app_panel cfg));
            token = trim (panel_token (app_panel cfg)) in
        if api_host = [] \<or> token = [] \<or> panel_node_id (app_panel cfg) = 0 then None
        else Some
          \<lparr>nc_url = api_host, nc_token = token, nc_node_id = panel_node_id (app_panel cfg),
           nc_machine_id = panel_machine_id (app_panel cfg),
           nc_timeout = panel_timeout (app_panel cfg),
           nc_config_dir = normalize_config_dir (kernel_config_dir (app_kernel cfg))\<rparr>)"

definition machine_mode_enabled :: "app_config \<Rightarrow> bool" where
  "machine_mode_enabled cfg \<longleftrightarrow>
     machine_enabled (app_machine cfg) \<or> machine_profiles (app_machine cfg) \<noteq> []"

definition resolve_kernel :: "kernel_config \<Rightarrow> kernel_config" where
  "resolve_kernel k =
     k\<lparr>kernel_type := trim (kernel_type k),
       core_command := trim (core_command k),
       kernel_config_dir := normalize_config_dir (kernel_config_dir k),
       dns_servers := normalize_string_list (dns_servers k),
       dns_private_ip_allowlist := normalize_string_list (dns_private_ip_allowlist k),
       ip_strategy := trim (ip_strategy k),
       log_level := trim (log_level k)\<rparr>"

text \<open>One row of \<open>machine.profiles\<close>; an incomplete row refuses the whole file.\<close>

definition resolve_profile ::
  "string \<Rightarrow> string \<Rightarrow> u64 \<Rightarrow> machine_profile_config \<Rightarrow> machine_profile_config result" where
  "resolve_profile base_api_host base_token base_timeout row =
     (let api_host = first_non_empty (trim (mp_url row)) base_api_host;
          token = first_non_empty (trim (mp_token row)) base_token;
          timeout = first_positive (mp_timeout row) base_timeout;
          name0 = trim (mp_name row);
          name = (if name0 = [] \<and> mp_machine_id row > 0
                  then ''machine-'' @ nat_to_string (unat (mp_machine_id row)) else name0)
      in if api_host = [] \<or> token = [] \<or> mp_machine_id row = 0
         then Err ''config v2 machine profiles require url, token and machine_id''
         else Ok \<lparr>mp_name = name, mp_url = api_host, mp_token = token,
                  mp_machine_id = mp_machine_id row, mp_timeout = timeout,
                  mp_config_dir = normalize_optional_config_dir (mp_config_dir row)\<rparr>)"

definition resolve_node ::
  "string \<Rightarrow> string \<Rightarrow> u64 \<Rightarrow> string \<Rightarrow> u32 \<Rightarrow> bool \<Rightarrow> node_config \<Rightarrow> node_config result" where
  "resolve_node base_api_host base_token base_timeout base_config_dir base_machine_id multi_node row =
     (let api_host = first_non_empty (trim (nc_url row)) base_api_host;
          token = first_non_empty (trim (nc_token row)) base_token;
          timeout = first_positive (nc_timeout row) base_timeout
      in if api_host = [] \<or> token = [] \<or> nc_node_id row = 0
         then Err ''config v2 nodes entries require node_id and inherit or define url/token''
         else Ok \<lparr>nc_url = api_host, nc_token = token, nc_node_id = nc_node_id row,
                  nc_machine_id = first_positive (nc_machine_id row) base_machine_id,
                  nc_timeout = timeout,
                  nc_config_dir =
                    resolve_node_config_dir base_config_dir (nc_config_dir row) (nc_node_id row) multi_node\<rparr>)"

definition resolve_runtime :: "app_config \<Rightarrow> resolved_config result" where
  "resolve_runtime cfg =
     (let kernel = resolve_kernel (app_kernel cfg);
          realtime = (app_realtime cfg)\<lparr>rt_url := trim (rt_url (app_realtime cfg))\<rparr>;
          base_api_host = trim (panel_url (app_panel cfg));
          base_token = trim (panel_token (app_panel cfg));
          base_timeout = panel_timeout (app_panel cfg);
          base_config_dir = kernel_config_dir kernel;
          enabled = machine_mode_enabled cfg
      in and_then (collect_results (map (resolve_profile base_api_host base_token base_timeout)
           (machine_profiles (app_machine cfg)))) (\<lambda>profiles.
         let machine = \<lparr>rm_enabled = enabled,
               rm_continue_on_error =
                 unwrap_or enabled (machine_continue_on_error (app_machine cfg)),
               rm_profiles = profiles\<rparr>;
             agent = \<lparr>subscription_proxy =
               normalize_subscription_proxy (subscription_proxy (app_agent cfg))\<rparr>
         in and_then
           (if app_nodes cfg = [] then
              (if profiles \<noteq> [] then Ok []
               else if base_api_host = [] \<or> base_token = [] \<or> panel_node_id (app_panel cfg) = 0
               then Err ''config v2 requires panel.url, panel.token and panel.node_id when nodes is empty''
               else Ok [\<lparr>nc_url = base_api_host, nc_token = base_token,
                         nc_node_id = panel_node_id (app_panel cfg),
                         nc_machine_id = panel_machine_id (app_panel cfg),
                         nc_timeout = base_timeout, nc_config_dir = base_config_dir\<rparr>])
            else collect_results (map (resolve_node base_api_host base_token base_timeout
              base_config_dir (panel_machine_id (app_panel cfg)) (length (app_nodes cfg) > 1))
              (app_nodes cfg)))
           (\<lambda>nodes. Ok \<lparr>rc_kernel = kernel, rc_realtime = realtime, rc_machine = machine,
                        rc_agent = agent, rc_nodes = nodes\<rparr>)))"

section \<open>Lists: trimmed, without duplicates, in order of first occurrence\<close>

lemma normalize_string_list_loop_eq:
  "distinct out \<Longrightarrow> normalize_string_list_loop vs out =
     out @ filter (\<lambda>s. s \<notin> set out) (rev (remdups (rev (filter (\<lambda>s. s \<noteq> []) (map trim vs)))))"
proof (induction vs arbitrary: out)
  case (Cons v vs)
  let ?rest = "rev (remdups (rev (filter (\<lambda>s. s \<noteq> []) (map trim vs))))"
  have cons: "rev (remdups (rev (x # xs))) = x # filter (\<lambda>y. y \<noteq> x) (rev (remdups (rev xs)))" for x :: string and xs
    by (induction xs rule: rev_induct) auto
  show ?case
  proof (cases "trim v = [] \<or> trim v \<in> set out")
    case True
    then have "filter (\<lambda>s. s \<notin> set out) (filter (\<lambda>y. y \<noteq> trim v) ?rest) =
        filter (\<lambda>s. s \<notin> set out) ?rest" if "trim v \<in> set out"
      using that by (auto intro!: filter_cong)
    with True Cons.IH [OF Cons.prems] show ?thesis
      by (cases "trim v = []") (auto simp: cons simp del: rev.simps)
  next
    case False
    with Cons.prems have "distinct (out @ [trim v])" by simp
    from Cons.IH [OF this] False show ?thesis
      by (auto simp: cons simp del: rev.simps intro!: filter_cong)
  qed
qed simp

section \<open>Paths: the cleaned form\<close>

definition plain_part :: "string \<Rightarrow> bool" where
  "plain_part p \<longleftrightarrow> p \<noteq> [] \<and> p \<noteq> ''.'' \<and> p \<noteq> ''..'' \<and> slash \<notin> set p \<and> CHR 0x5C \<notin> set p"

text \<open>
  The components of a cleaned path: none of them empty or \<open>.\<close>, and \<open>..\<close> only at the start
  of a relative path.
\<close>

definition canonical_parts :: "bool \<Rightarrow> string list \<Rightarrow> bool" where
  "canonical_parts absolute ps \<longleftrightarrow>
     (\<exists>n qs. ps = replicate n ''..'' @ qs \<and> list_all plain_part qs \<and> (absolute \<longrightarrow> n = 0))"

lemma canonical_Nil: "canonical_parts absolute []"
  by (auto simp: canonical_parts_def)

lemma canonical_snoc_plain: "canonical_parts absolute ps \<Longrightarrow> plain_part p \<Longrightarrow> canonical_parts absolute (ps @ [p])"
proof -
  assume "canonical_parts absolute ps" "plain_part p"
  then obtain n qs where "ps = replicate n ''..'' @ qs" "list_all plain_part qs" "absolute \<longrightarrow> n = 0"
    by (auto simp: canonical_parts_def)
  then show ?thesis
    using \<open>plain_part p\<close> unfolding canonical_parts_def
    by (intro exI [of _ n] exI [of _ "qs @ [p]"]) simp
qed

lemma canonical_butlast:
  assumes "canonical_parts absolute ps" "ps \<noteq> []" "last ps \<noteq> ''..''"
  shows "canonical_parts absolute (butlast ps)"
proof -
  obtain n qs where ps: "ps = replicate n ''..'' @ qs" "list_all plain_part qs" "absolute \<longrightarrow> n = 0"
    using assms(1) by (auto simp: canonical_parts_def)
  with assms have "qs \<noteq> []" by (cases qs) (auto split: if_splits)
  with ps have "butlast ps = replicate n ''..'' @ butlast qs" "list_all plain_part (butlast qs)"
    by (auto simp: butlast_append list_all_iff dest: in_set_butlastD)
  with ps(3) show ?thesis by (auto simp: canonical_parts_def)
qed

lemma canonical_snoc_dots:
  assumes "canonical_parts False ps" "ps = [] \<or> last ps = ''..''"
  shows "canonical_parts False (ps @ [''..''])"
proof -
  obtain n qs where ps: "ps = replicate n ''..'' @ qs" "list_all plain_part qs"
    using assms(1) by (auto simp: canonical_parts_def)
  have "qs = []"
    using assms(2) ps by (cases qs rule: rev_cases) (auto simp: plain_part_def)
  with ps have "ps @ [''..''] = replicate (Suc n) ''..'' @ []"
    by (simp add: replicate_append_same)
  then show ?thesis unfolding canonical_parts_def by fastforce
qed

lemma canonical_dots1: "canonical_parts False [''..'']"
  using canonical_snoc_dots [OF canonical_Nil] by simp

lemma clean_parts_canonical:
  assumes "canonical_parts absolute parts"
    and "\<And>p. p \<in> set ps \<Longrightarrow> slash \<notin> set p \<and> CHR 0x5C \<notin> set p"
  shows "canonical_parts absolute (clean_parts absolute ps parts)"
  using assms
proof (induction absolute ps parts rule: clean_parts.induct)
  case (2 absolute p ps parts)
  then show ?case
    by (auto simp: plain_part_def canonical_butlast canonical_snoc_dots canonical_dots1 canonical_snoc_plain)
qed simp

text \<open>Cleaning components that are canonical already changes nothing.\<close>

lemma clean_parts_plain:
  "list_all plain_part qs \<Longrightarrow> clean_parts absolute qs parts = parts @ qs"
  by (induction qs arbitrary: parts) (auto simp: plain_part_def)

lemma clean_parts_dots:
  "parts = replicate m ''..'' \<Longrightarrow>
     clean_parts False (replicate n ''..'' @ qs) parts = clean_parts False qs (replicate (m + n) ''..'')"
proof (induction n arbitrary: m parts)
  case (Suc n)
  have "parts @ [''..''] = replicate (Suc m) ''..''"
    using Suc.prems by (simp add: replicate_append_same)
  from Suc.IH [OF this] Suc.prems show ?case by (cases "m = 0") simp_all
qed simp

lemma clean_parts_fixed: "canonical_parts absolute ps \<Longrightarrow> clean_parts absolute ps [] = ps"
proof -
  assume "canonical_parts absolute ps"
  then obtain n qs where ps: "ps = replicate n ''..'' @ qs" "list_all plain_part qs" "absolute \<longrightarrow> n = 0"
    by (auto simp: canonical_parts_def)
  show ?thesis
  proof (cases absolute)
    case False
    with ps show ?thesis using clean_parts_dots [of "[]" 0 n qs] by (simp add: clean_parts_plain)
  qed (use ps in \<open>simp add: clean_parts_plain\<close>)
qed

lemma replace_backslashes_none: "CHR 0x5C \<notin> set (replace_backslashes s)"
  by (auto simp: replace_backslashes_def)

lemma replace_backslashes_id: "CHR 0x5C \<notin> set s \<Longrightarrow> replace_backslashes s = s"
  by (auto simp: replace_backslashes_def intro: map_idI)

lemma split_parts_ok:
  assumes "p \<in> set (split_on slash (replace_backslashes s))"
  shows "slash \<notin> set p \<and> CHR 0x5C \<notin> set p"
proof -
  have "set (split_on c t) \<subseteq> {p. set p \<subseteq> set t}" for c t
    by (induction t) (auto split: list.splits if_splits)
  with assms replace_backslashes_none show ?thesis by (blast dest: split_on_free)
qed

lemma canonical_part_chars:
  "canonical_parts absolute ps \<Longrightarrow> p \<in> set ps \<Longrightarrow> p \<noteq> [] \<and> slash \<notin> set p \<and> CHR 0x5C \<notin> set p"
proof -
  assume "canonical_parts absolute ps" and p: "p \<in> set ps"
  then obtain n qs where "ps = replicate n ''..'' @ qs" and qs: "list_all plain_part qs"
    unfolding canonical_parts_def by blast
  with p have "p = ''..'' \<or> p \<in> set qs" by (auto split: if_splits)
  then show ?thesis
  proof
    assume "p \<in> set qs"
    with qs have "plain_part p" by (simp add: list_all_iff)
    then show ?thesis by (simp add: plain_part_def)
  qed simp
qed

text \<open>Printing canonical components and cleaning the result gives them back.\<close>

definition print_path :: "bool \<Rightarrow> string list \<Rightarrow> string" where
  "print_path absolute ps =
     (if absolute then slash # join ''/'' ps else if ps = [] then ''.'' else join ''/'' ps)"

lemma set_join: "set (join sep ps) \<subseteq> set sep \<union> \<Union> (set ` set ps)"
  by (induction sep ps rule: join.induct) auto

lemma join_hd: "ps \<noteq> [] \<Longrightarrow> hd ps \<noteq> [] \<Longrightarrow> \<exists>c s t. hd ps = c # s \<and> join sep ps = c # t"
  by (cases ps; cases "tl ps"; cases "hd ps") simp_all

lemma clean_posix_path_print:
  assumes "canonical_parts absolute ps"
  shows "clean_posix_path (print_path absolute ps) = print_path absolute ps"
proof -
  note chars = canonical_part_chars [OF assms]
  have clean: "replace_backslashes (print_path absolute ps) = print_path absolute ps"
    using set_join [of "''/''" ps] chars
    by (intro replace_backslashes_id) (auto simp: print_path_def)
  have split: "ps \<noteq> [] \<Longrightarrow> split_on slash (join ''/'' ps) = ps"
    using chars by (intro split_on_join) auto
  have abs: "starts_with_slash (print_path absolute ps) = absolute"
  proof (cases "absolute \<or> ps = []")
    case False
    with chars have "hd ps \<noteq> []" by simp
    with False join_hd [of ps "''/''"] obtain c s t where "hd ps = c # s" "join ''/'' ps = c # t" by blast
    with False chars [OF hd_in_set] show ?thesis by (auto simp: print_path_def starts_with_slash_def)
  qed (auto simp: print_path_def starts_with_slash_def)
  have "clean_parts absolute (split_on slash (print_path absolute ps)) [] = ps"
    using clean_parts_fixed [OF assms] split
    by (cases "ps = []") (auto simp: print_path_def)
  then show ?thesis
    by (simp add: clean_posix_path_def clean abs) (auto simp: print_path_def)
qed

lemma clean_posix_path_eq:
  "\<exists>absolute ps. canonical_parts absolute ps \<and> absolute = starts_with_slash (replace_backslashes path) \<and>
     clean_posix_path path = print_path absolute ps"
proof -
  let ?a = "starts_with_slash (replace_backslashes path)"
  have "canonical_parts ?a (clean_parts ?a (split_on slash (replace_backslashes path)) [])"
    by (intro clean_parts_canonical canonical_Nil split_parts_ok)
  then show ?thesis
    unfolding clean_posix_path_def print_path_def Let_def
    by (intro exI [of _ ?a] exI [of _ "clean_parts ?a (split_on slash (replace_backslashes path)) []"])
      simp
qed

section \<open>Resolution\<close>

definition profile_complete :: "app_config \<Rightarrow> machine_profile_config \<Rightarrow> bool" where
  "profile_complete cfg row \<longleftrightarrow>
     first_non_empty (mp_url row) (panel_url (app_panel cfg)) \<noteq> [] \<and>
     first_non_empty (mp_token row) (panel_token (app_panel cfg)) \<noteq> [] \<and> mp_machine_id row \<noteq> 0"

definition node_complete :: "app_config \<Rightarrow> node_config \<Rightarrow> bool" where
  "node_complete cfg row \<longleftrightarrow>
     first_non_empty (nc_url row) (panel_url (app_panel cfg)) \<noteq> [] \<and>
     first_non_empty (nc_token row) (panel_token (app_panel cfg)) \<noteq> [] \<and> nc_node_id row \<noteq> 0"

definition panel_complete :: "app_config \<Rightarrow> bool" where
  "panel_complete cfg \<longleftrightarrow>
     trim (panel_url (app_panel cfg)) \<noteq> [] \<and> trim (panel_token (app_panel cfg)) \<noteq> [] \<and>
     panel_node_id (app_panel cfg) \<noteq> 0"

lemma first_non_empty_trim [simp]:
  "first_non_empty (trim v) w = first_non_empty v w"
  "first_non_empty v (trim w) = first_non_empty v w"
  by (simp_all add: first_non_empty_def)

lemma resolve_profile_ok:
  "is_ok (resolve_profile (trim (panel_url (app_panel cfg))) (trim (panel_token (app_panel cfg))) t row) \<longleftrightarrow>
     profile_complete cfg row"
  by (simp add: resolve_profile_def profile_complete_def Let_def)

lemma resolve_node_ok:
  "is_ok (resolve_node (trim (panel_url (app_panel cfg))) (trim (panel_token (app_panel cfg))) t d m b row) \<longleftrightarrow>
     node_complete cfg row"
  by (simp add: resolve_node_def node_complete_def Let_def)

lemma resolve_profile_Inr:
  "resolve_profile h k t row = Inr p \<Longrightarrow> mp_url p \<noteq> [] \<and> mp_token p \<noteq> [] \<and> mp_machine_id p \<noteq> 0 \<and> mp_name p \<noteq> []"
  by (auto simp: resolve_profile_def Let_def word_gt_0 split: if_splits)

lemma resolve_node_Inr:
  "resolve_node h k t d m b row = Inr n \<Longrightarrow> nc_url n \<noteq> [] \<and> nc_token n \<noteq> [] \<and> nc_node_id n = nc_node_id row \<and>
     nc_node_id n \<noteq> 0 \<and> nc_config_dir n = resolve_node_config_dir d (nc_config_dir row) (nc_node_id row) b"
  by (auto simp: resolve_node_def Let_def split: if_splits)

text \<open>A configuration with one panel node, on which the properties are evaluated.\<close>

definition sample_config :: app_config where
  "sample_config =
     \<lparr>app_panel = \<lparr>panel_url = ''https://p'', panel_token = ''t'', panel_node_id = 7,
        panel_machine_id = 0, panel_timeout = 0\<rparr>,
      app_kernel = kernel_config_default,
      app_realtime = \<lparr>rt_enabled = False, rt_url = [], rt_ping_interval = 0, rt_reconnect_interval = 0\<rparr>,
      app_machine = \<lparr>machine_enabled = False, machine_continue_on_error = None, machine_profiles = []\<rparr>,
      app_agent = \<lparr>subscription_proxy =
        \<lparr>sp_enabled = False, sp_https_listen = [], sp_http_listen = [], sp_cert_file = [],
         sp_key_file = [], sp_certificate_domain = [], sp_challenge_dir = [],
         sp_zerossl = \<lparr>zs_status = [], zs_certificate_id = [], zs_validation_path = [],
           zs_validation_content = [], zs_certificate_pem = [], zs_ca_bundle_pem = [], zs_expires_at = []\<rparr>,
         sp_site_id = [], sp_upstream_base_url = [], sp_subscribe_path = [],
         sp_allow_http_fallback = False, sp_max_response_bytes = 0, sp_profiles = [],
         sp_website_profiles = []\<rparr>\<rparr>,
      app_nodes = []\<rparr>"

lemma sample_config_direct: "\<exists>n. direct_node sample_config = Some n \<and> nc_node_id n = 7 \<and> nc_url n = ''https://p''"
proof -
  have "(case direct_node sample_config of Some n \<Rightarrow> nc_node_id n = 7 \<and> nc_url n = ''https://p'' | None \<Rightarrow> False)"
    by code_simp
  then show ?thesis by (simp split: option.splits)
qed

lemma sample_config_resolves: "\<exists>rc. resolve_runtime sample_config = Ok rc"
proof -
  have "is_ok (resolve_runtime sample_config)" by code_simp
  then show ?thesis by (simp add: is_ok_iff)
qed

section \<open>Properties\<close>

text \<open>
  C19: a cleaned path is in canonical form and cleaning it again changes nothing. An absolute
  path keeps no empty, \<open>.\<close> or \<open>..\<close> component, so it never leaves its root; a relative
  path has its \<open>..\<close> components at the front only.
\<close>

lemma clean_posix_path_canonical:
  "clean_posix_path (clean_posix_path path) = clean_posix_path path \<and>
   (\<exists>ps. canonical_parts (starts_with_slash (replace_backslashes path)) ps \<and>
     clean_posix_path path = print_path (starts_with_slash (replace_backslashes path)) ps)"
proof -
  obtain ps where ps: "canonical_parts (starts_with_slash (replace_backslashes path)) ps"
    "clean_posix_path path = print_path (starts_with_slash (replace_backslashes path)) ps"
    using clean_posix_path_eq by blast
  then show ?thesis using clean_posix_path_print [OF ps(1)] by auto
qed

text \<open>
  C16: \<open>resolve_runtime\<close> accepts a configuration exactly when every machine profile and
  every node row is complete (own or inherited url and token, a non-zero id) and, with no
  rows at all, the panel section is complete.
\<close>

lemma resolve_runtime_accepts:
  "is_ok (resolve_runtime cfg) \<longleftrightarrow>
     (\<forall>row \<in> set (machine_profiles (app_machine cfg)). profile_complete cfg row) \<and>
     (if app_nodes cfg = []
      then machine_profiles (app_machine cfg) \<noteq> [] \<or> panel_complete cfg
      else \<forall>row \<in> set (app_nodes cfg). node_complete cfg row)"
proof -
  let ?ps = "collect_results (map (resolve_profile (trim (panel_url (app_panel cfg)))
    (trim (panel_token (app_panel cfg))) (panel_timeout (app_panel cfg)))
    (machine_profiles (app_machine cfg)))"
  have ps: "is_ok ?ps \<longleftrightarrow> (\<forall>row \<in> set (machine_profiles (app_machine cfg)). profile_complete cfg row)"
    by (simp add: collect_results_ok resolve_profile_ok)
  show ?thesis
  proof (cases ?ps)
    case (Inl e)
    with ps show ?thesis by (auto simp: resolve_runtime_def Let_def is_ok_and_then)
  next
    case (Inr profiles)
    then have "profiles = [] \<longleftrightarrow> machine_profiles (app_machine cfg) = []"
      using collect_results_map_Inr by fastforce
    with ps Inr show ?thesis
      by (cases "app_nodes cfg = []")
        (simp_all add: resolve_runtime_def Let_def collect_results_ok resolve_node_ok panel_complete_def)
  qed
qed

lemma resolve_runtime_accepts_witness:
  "is_ok (resolve_runtime sample_config) \<and> panel_complete sample_config \<and>
   \<not> is_ok (resolve_runtime (sample_config\<lparr>app_panel := (app_panel sample_config)\<lparr>panel_node_id := 0\<rparr>\<rparr>))"
proof -
  have "panel_complete sample_config" "machine_profiles (app_machine sample_config) = []"
    "app_nodes sample_config = []" by code_simp+
  then show ?thesis
    using resolve_runtime_accepts [of sample_config]
      resolve_runtime_accepts [of "sample_config\<lparr>app_panel := (app_panel sample_config)\<lparr>panel_node_id := 0\<rparr>\<rparr>"]
    by (simp add: panel_complete_def)
qed

text \<open>
  when resolution succeeds there is something to run, and every resolved node and
  machine profile has a url, a token and a non-zero id.
\<close>

lemma resolve_runtime_complete:
  assumes "resolve_runtime cfg = Ok rc"
  shows "(rc_nodes rc \<noteq> [] \<or> rm_profiles (rc_machine rc) \<noteq> []) \<and>
    (\<forall>n \<in> set (rc_nodes rc). nc_url n \<noteq> [] \<and> nc_token n \<noteq> [] \<and> nc_node_id n \<noteq> 0) \<and>
    (\<forall>p \<in> set (rm_profiles (rc_machine rc)). mp_name p \<noteq> [] \<and> mp_url p \<noteq> [] \<and> mp_token p \<noteq> [] \<and> mp_machine_id p \<noteq> 0)"
proof -
  have nodes: "collect_results (map (resolve_node h k t d m b) xs) = Inr ys \<Longrightarrow>
      (\<forall>n \<in> set ys. nc_url n \<noteq> [] \<and> nc_token n \<noteq> [] \<and> nc_node_id n \<noteq> 0) \<and> (ys = [] \<longleftrightarrow> xs = [])"
    for h k t d m b xs ys
    using collect_results_map_in resolve_node_Inr collect_results_map_Inr by (metis length_0_conv)
  have profs: "collect_results (map (resolve_profile h k t) xs) = Inr ys \<Longrightarrow>
      \<forall>p \<in> set ys. mp_name p \<noteq> [] \<and> mp_url p \<noteq> [] \<and> mp_token p \<noteq> [] \<and> mp_machine_id p \<noteq> 0"
    for h k t xs ys
    using collect_results_map_in resolve_profile_Inr by metis
  from assms show ?thesis
    by (auto simp: resolve_runtime_def Let_def result_simps split: if_splits dest!: nodes profs)
qed

lemma resolve_runtime_complete_witness:
  "\<exists>rc. resolve_runtime sample_config = Ok rc \<and> (rc_nodes rc \<noteq> [] \<or> rm_profiles (rc_machine rc) \<noteq> [])"
  using sample_config_resolves resolve_runtime_complete by blast

text \<open>
  with several nodes and no directory of their own, nodes with different ids keep
  their files in different directories.
\<close>

lemma resolve_node_config_dir_separate:
  assumes "a \<noteq> b"
  shows "resolve_node_config_dir base [] a True \<noteq> resolve_node_config_dir base [] b True"
  using assms by (simp add: resolve_node_config_dir_def Let_def join_posix_path_def trim_start_matches_def is_slash_def
      word_unat_eq_iff)

lemma resolve_node_config_dir_separate_witness:
  "(1::u32) \<noteq> 2 \<and>
   resolve_node_config_dir ''/etc/kelinode'' [] 1 True \<noteq> resolve_node_config_dir ''/etc/kelinode'' [] 2 True"
  using resolve_node_config_dir_separate [of 1 2 "''/etc/kelinode''"] by simp

text \<open>
  C26: the direct-node shortcut agrees with full resolution: where it yields a node,
  \<open>resolve_runtime\<close> succeeds with exactly that node.
\<close>

lemma direct_node_resolves:
  assumes "direct_node cfg = Some n"
  shows "\<exists>rc. resolve_runtime cfg = Ok rc \<and> rc_nodes rc = [n] \<and> rm_profiles (rc_machine rc) = []"
  using assms
  by (auto simp: direct_node_def resolve_runtime_def resolve_kernel_def Let_def split: if_splits)

lemma direct_node_resolves_witness:
  "\<exists>n rc. direct_node sample_config = Some n \<and> nc_node_id n = 7 \<and>
     resolve_runtime sample_config = Ok rc \<and> rc_nodes rc = [n]"
  using sample_config_direct direct_node_resolves by blast

text \<open>
  list settings keep the trimmed non-empty values, each once, in the order of their
  first occurrence.
\<close>

lemma normalize_string_list_first_occurrences:
  "normalize_string_list vs = rev (remdups (rev (filter (\<lambda>s. s \<noteq> []) (map trim vs))))"
  unfolding normalize_string_list_def by (subst normalize_string_list_loop_eq) simp_all

end
