(* ===== verification/Panel_Types.thy ===== *)
theory Panel_Types
  imports BTree Config
begin

text \<open>
  The data the panel sends (\<open>src/src/panel/types.rs\<close>): JSON values, the lenient decoders of
  single fields (a port as a number or a string, a string from any scalar, a list from a
  string or an array), the protocols, and \<open>NodeInfo::from_common\<close>, which turns a decoded
  node into the one the runtime works with. The derived struct decoders are \<open>serde\<close>'s and
  are not modelled; only the hand-written field decoders are.
\<close>

section \<open>JSON values\<close>

text \<open>
  \<open>serde_json::Value\<close>. A number is a non-negative integer (at most \<open>u64::MAX\<close>), a negative
  integer, or a floating-point number, which is carried as the text \<open>serde_json\<close> prints.
  An object is the list of its members in the order of its map.
\<close>

datatype number = PosInt nat | NegInt int | Float string

datatype json =
    JNull
  | JBool bool
  | JNumber number
  | JString string
  | JArray "json list"
  | JObject "(string \<times> json) list"

abbreviation u16_max :: nat where
  "u16_max \<equiv> 65535"

abbreviation u64_max :: nat where
  "u64_max \<equiv> 18446744073709551615"

fun as_u64 :: "number \<Rightarrow> nat option" where
  "as_u64 (PosInt n) = (if n \<le> u64_max then Some n else None)"
| "as_u64 (NegInt i) = None"
| "as_u64 (Float t) = None"

fun number_to_string :: "number \<Rightarrow> string" where
  "number_to_string (PosInt n) = nat_to_string n"
| "number_to_string (NegInt i) = int_to_string i"
| "number_to_string (Float t) = t"

section \<open>Data\<close>

datatype protocol =
    Vmess | Vless | Trojan | Shadowsocks | Hysteria2 | Tuic | Anytls | Socks | Http | Naive | Mieru

datatype security = SecNone | SecTls | SecReality | SecOther u8

record route =
  route_id :: u32
  match_rules :: "string list"
  action :: string
  action_value :: "string option"

record realtime_base_config =
  rb_enabled :: bool
  rb_url :: string
  rb_ping_interval :: json

record base_config =
  push_interval_value :: json
  pull_interval_value :: json
  device_online_min_traffic :: nat
  node_report_min_traffic :: nat
  device_limit_fallback :: u32
  bc_realtime :: "realtime_base_config option"

record tls_settings =
  ts_server_name :: string
  ts_alpn :: "string list"
  ts_dest :: string
  ts_server_port :: string
  ts_short_id :: string
  ts_private_key :: string
  ts_mldsa65_seed :: string
  ts_xver :: json
  ts_cert_mode :: string
  ts_cert_file :: string
  ts_key_file :: string
  ts_provider :: string
  ts_dns_env :: string
  ts_reject_unknown_sni :: string

record cert_info =
  ci_cert_mode :: string
  ci_cert_file :: string
  ci_key_file :: string
  ci_cert_domain :: string
  ci_dns_env :: "(string, string) btmap"
  ci_provider :: string
  ci_reject_unknown_sni :: bool

record enc_settings =
  enc_mode :: string
  enc_ticket :: string
  enc_server_padding :: string
  enc_private_key :: string

record common_node =
  cn_protocol :: string
  cn_listen_ip :: string
  cn_server_port :: u16
  cn_port :: string
  cn_ports :: string
  cn_routes :: "route list"
  cn_base_config :: "base_config option"
  cn_tls :: u8
  cn_tls_settings :: tls_settings
  cn_cert_info :: "cert_info option"
  cn_network :: string
  cn_transport :: string
  cn_multiplexing :: string
  cn_network_settings :: json
  cn_encryption :: string
  cn_encryption_settings :: enc_settings
  cn_server_name :: string
  cn_flow :: string
  cn_cipher :: string
  cn_server_key :: string
  cn_congestion_control :: string
  cn_zero_rtt_handshake :: bool
  cn_padding_scheme :: "string list"
  cn_up_mbps :: u32
  cn_down_mbps :: u32
  cn_obfs :: string
  cn_obfs_password :: string
  cn_ignore_client_bandwidth :: bool

text \<open>A \<open>Duration\<close> is its number of whole seconds: every duration here is \<open>from_secs\<close>.\<close>

record node_info =
  ni_id :: u32
  ni_protocol :: protocol
  ni_security :: security
  ni_push_interval :: nat
  ni_pull_interval :: nat
  ni_tag :: string
  ni_common :: common_node

section \<open>Protocols\<close>

fun protocol_as_str :: "protocol \<Rightarrow> string" where
  "protocol_as_str Vmess = ''vmess''"
| "protocol_as_str Vless = ''vless''"
| "protocol_as_str Trojan = ''trojan''"
| "protocol_as_str Shadowsocks = ''shadowsocks''"
| "protocol_as_str Hysteria2 = ''hysteria2''"
| "protocol_as_str Tuic = ''tuic''"
| "protocol_as_str Anytls = ''anytls''"
| "protocol_as_str Socks = ''socks''"
| "protocol_as_str Http = ''http''"
| "protocol_as_str Naive = ''naive''"
| "protocol_as_str Mieru = ''mieru''"

definition protocol_parse :: "string \<Rightarrow> protocol option" where
  "protocol_parse value =
     (let v = to_ascii_lowercase (trim value) in
      if v = ''vmess'' then Some Vmess
      else if v = ''vless'' then Some Vless
      else if v = ''trojan'' then Some Trojan
      else if v = ''shadowsocks'' then Some Shadowsocks
      else if v = ''hysteria2'' then Some Hysteria2
      else if v = ''tuic'' then Some Tuic
      else if v = ''anytls'' then Some Anytls
      else if v = ''socks'' then Some Socks
      else if v = ''http'' then Some Http
      else if v = ''naive'' then Some Naive
      else if v = ''mieru'' then Some Mieru
      else None)"

definition security_from_tls_value :: "u8 \<Rightarrow> security" where
  "security_from_tls_value v =
     (if v = 0 then SecNone else if v = 1 then SecTls else if v = 2 then SecReality else SecOther v)"

section \<open>Sample nodes\<close>

text \<open>Nodes on which the properties are evaluated.\<close>

definition tls_settings_default :: tls_settings where
  "tls_settings_default =
     \<lparr>ts_server_name = [], ts_alpn = [], ts_dest = [], ts_server_port = [], ts_short_id = [],
      ts_private_key = [], ts_mldsa65_seed = [], ts_xver = JNull, ts_cert_mode = [], ts_cert_file = [],
      ts_key_file = [], ts_provider = [], ts_dns_env = [], ts_reject_unknown_sni = []\<rparr>"

definition enc_settings_default :: enc_settings where
  "enc_settings_default = \<lparr>enc_mode = [], enc_ticket = [], enc_server_padding = [], enc_private_key = []\<rparr>"

definition sample_node :: "protocol \<Rightarrow> u32 \<Rightarrow> u16 \<Rightarrow> string \<Rightarrow> node_info" where
  "sample_node pr i server_port ports =
     \<lparr>ni_id = i, ni_protocol = pr, ni_security = SecNone, ni_push_interval = 60, ni_pull_interval = 60,
      ni_tag = [],
      ni_common = \<lparr>cn_protocol = protocol_as_str pr, cn_listen_ip = [], cn_server_port = server_port,
        cn_port = ports, cn_ports = [], cn_routes = [], cn_base_config = None, cn_tls = 0,
        cn_tls_settings = tls_settings_default, cn_cert_info = None, cn_network = [], cn_transport = [],
        cn_multiplexing = [], cn_network_settings = JNull, cn_encryption = [],
        cn_encryption_settings = enc_settings_default, cn_server_name = [], cn_flow = [], cn_cipher = [],
        cn_server_key = [], cn_congestion_control = [], cn_zero_rtt_handshake = False,
        cn_padding_scheme = [], cn_up_mbps = 0, cn_down_mbps = 0, cn_obfs = [], cn_obfs_password = [],
        cn_ignore_client_bandwidth = False\<rparr>\<rparr>"

section \<open>Field decoders\<close>

text \<open>
  The decoder of \<open>PortValue\<close>. The message for the values its visitor does not accept is
  \<open>serde\<close>'s; only its expectation is the source's.
\<close>

fun deserialize_port_value :: "json \<Rightarrow> string result" where
  "deserialize_port_value JNull = Ok []"
| "deserialize_port_value (JNumber (PosInt n)) = Ok (nat_to_string n)"
| "deserialize_port_value (JNumber (NegInt i)) = Ok (int_to_string i)"
| "deserialize_port_value (JString s) = Ok s"
| "deserialize_port_value _ = Err ''null, a string port, or a numeric port''"

fun deserialize_u16_from_any :: "json \<Rightarrow> u16 result" where
  "deserialize_u16_from_any JNull = Ok 0"
| "deserialize_u16_from_any (JNumber num) =
     (case as_u64 num of
        Some v \<Rightarrow> if v \<le> u16_max then Ok (word_of_nat v) else Err ''port number is out of range''
      | None \<Rightarrow> Err ''port number is out of range'')"
| "deserialize_u16_from_any (JString text) =
     (if trim text = [] then Ok 0
      else case parse_uint u16_max (trim text) of
        Some v \<Rightarrow> Ok (word_of_nat v)
      | None \<Rightarrow> Err ''port string is not a valid u16'')"
| "deserialize_u16_from_any _ = Err ''port must be a string or number''"

fun deserialize_string_from_any :: "json \<Rightarrow> string result" where
  "deserialize_string_from_any JNull = Ok []"
| "deserialize_string_from_any (JString v) = Ok v"
| "deserialize_string_from_any (JNumber n) = Ok (number_to_string n)"
| "deserialize_string_from_any (JBool b) = Ok (bool_to_string b)"
| "deserialize_string_from_any _ = Err ''value must be a string, number, bool, or null''"

definition deserialize_option_string_from_any :: "json \<Rightarrow> string option result" where
  "deserialize_option_string_from_any j =
     and_then (deserialize_string_from_any j) (\<lambda>v. Ok (if v = [] then None else Some v))"

fun string_vec_element :: "json \<Rightarrow> string result" where
  "string_vec_element (JString v) = Ok v"
| "string_vec_element (JNumber n) = Ok (number_to_string n)"
| "string_vec_element (JBool b) = Ok (bool_to_string b)"
| "string_vec_element _ = Err ''array values must be strings, numbers, bools, or null''"

fun deserialize_string_vec_from_any :: "json \<Rightarrow> string list result" where
  "deserialize_string_vec_from_any JNull = Ok []"
| "deserialize_string_vec_from_any (JString v) = Ok (if v = [] then [] else [v])"
| "deserialize_string_vec_from_any (JArray vs) =
     collect_results (map string_vec_element (filter (\<lambda>v. v \<noteq> JNull) vs))"
| "deserialize_string_vec_from_any _ = Err ''value must be an array, string, or null''"

fun interval_to_duration :: "json \<Rightarrow> nat option" where
  "interval_to_duration (JNumber n) = as_u64 n"
| "interval_to_duration (JString text) = parse_uint u64_max text"
| "interval_to_duration _ = None"

section \<open>Certificates and nodes\<close>

definition types_first_non_empty :: "string \<Rightarrow> string \<Rightarrow> string" where
  "types_first_non_empty value fallback = (if value = [] then fallback else value)"

fun parse_dns_env_loop :: "string list \<Rightarrow> (string, string) btmap \<Rightarrow> (string, string) btmap" where
  "parse_dns_env_loop [] env = env"
| "parse_dns_env_loop (item # items) env =
     (case split_once (CHR ''='') item of
        None \<Rightarrow> parse_dns_env_loop items env
      | Some (key, value) \<Rightarrow>
          if trim key = [] then parse_dns_env_loop items env
          else parse_dns_env_loop items (bt_insert (trim key) (trim value) env))"

definition parse_dns_env :: "string \<Rightarrow> (string, string) btmap" where
  "parse_dns_env value = parse_dns_env_loop (split_on (CHR '','') value) []"

definition build_cert_info :: "common_node \<Rightarrow> protocol \<Rightarrow> u32 \<Rightarrow> string \<Rightarrow> cert_info" where
  "build_cert_info common protocol node_id config_dir =
     (let dir = normalize_config_dir config_dir;
          default_prefix = trim_end_matches is_slash dir @ ''/'' @ protocol_as_str protocol @
            nat_to_string (unat node_id);
          tls = cn_tls_settings common
      in \<lparr>ci_cert_mode = trim (ts_cert_mode tls),
          ci_cert_file = types_first_non_empty (trim (ts_cert_file tls)) (default_prefix @ ''.cer''),
          ci_key_file = types_first_non_empty (trim (ts_key_file tls)) (default_prefix @ ''.key''),
          ci_cert_domain = trim (ts_server_name tls),
          ci_dns_env = parse_dns_env (ts_dns_env tls),
          ci_provider = trim (ts_provider tls),
          ci_reject_unknown_sni = (trim (ts_reject_unknown_sni tls) = ''1'')\<rparr>)"

definition node_tag :: "string \<Rightarrow> protocol \<Rightarrow> u32 \<Rightarrow> string" where
  "node_tag api_host protocol node_id =
     ''['' @ trim_end_matches is_slash api_host @ '']-'' @ protocol_as_str protocol @ '':'' @
       nat_to_string (unat node_id)"

definition from_common_with_config_dir ::
  "string \<Rightarrow> u32 \<Rightarrow> string \<Rightarrow> common_node \<Rightarrow> node_info result" where
  "from_common_with_config_dir api_host node_id config_dir common =
     (case protocol_parse (cn_protocol common) of
        None \<Rightarrow> Err (''unsupported protocol: '' @ cn_protocol common)
      | Some protocol \<Rightarrow>
          let interval = (\<lambda>sel. unwrap_or 60
                (Option.bind (cn_base_config common) (\<lambda>bc. interval_to_duration (sel bc))))
          in Ok \<lparr>ni_id = node_id, ni_protocol = protocol,
                 ni_security = security_from_tls_value (cn_tls common),
                 ni_push_interval = interval push_interval_value,
                 ni_pull_interval = interval pull_interval_value,
                 ni_tag = node_tag api_host protocol node_id,
                 ni_common = common\<lparr>cn_cert_info :=
                   Some (build_cert_info common protocol node_id config_dir)\<rparr>\<rparr>)"

definition from_common :: "string \<Rightarrow> u32 \<Rightarrow> common_node \<Rightarrow> node_info result" where
  "from_common api_host node_id common =
     from_common_with_config_dir api_host node_id DEFAULT_CONFIG_DIR common"

section \<open>Lemmas\<close>

lemma protocol_as_str_plain:
  "\<forall>c \<in> set (protocol_as_str p). is_ascii_lowercase c \<or> is_ascii_digit c"
  by (cases p) (simp_all add: is_ascii_lowercase_def is_ascii_digit_def char_code_def)

lemma protocol_as_str_inj [simp]: "protocol_as_str p = protocol_as_str q \<longleftrightarrow> p = q"
  by (cases p; cases q) simp_all

text \<open>A plain ASCII word is its own trimmed and lowercased form.\<close>

lemma trim_plain:
  assumes "\<forall>c \<in> set s. \<not> is_ws1 c \<and> char_code c < 128"
  shows "trim s = s"
proof -
  have no: "\<not> is_ws2 c d" "\<not> is_ws3 c d e" if "char_code c < 128" for c d e
    using that by (auto simp: is_ws2_def is_ws3_def)
  have no': "\<not> is_ws2 d c" "\<not> is_ws3 e d c" if "char_code c < 128" for c d e
    using that by (auto simp: is_ws2_def is_ws3_def)
  have "ws_len t = 0" "ws_len_rev t = 0" if "set t \<subseteq> set s" for t
    using that assms no no' by (auto simp: ws_len_def ws_len_rev_def split: list.splits)
  then show ?thesis
    by (simp add: trim_def trim_end_def trim_start_plain trim_end_rev_plain)
qed

lemma lower_plain:
  "\<forall>c \<in> set s. is_ascii_lowercase c \<or> is_ascii_digit c \<Longrightarrow> trim s = s \<and> to_ascii_lowercase s = s"
  by (intro conjI trim_plain; (intro ballI)?)
    (auto simp: is_ascii_lowercase_def is_ascii_digit_def is_ws1_def to_ascii_lowercase_def
      ascii_lower_def is_ascii_uppercase_def intro!: map_idI)

lemma trim_digits: "list_all is_ascii_digit s \<Longrightarrow> trim s = s"
  by (intro trim_plain) (auto simp: list_all_iff is_ascii_digit_def is_ws1_def)

section \<open>Properties\<close>

text \<open>
  a protocol name is accepted in any ASCII case and with surrounding white space, and
  for nothing else; printing a protocol and parsing it gives the protocol back.
\<close>

lemma protocol_parse_as_str:
  "protocol_parse s = Some p \<longleftrightarrow> to_ascii_lowercase (trim s) = protocol_as_str p"
  by (cases p) (auto simp: protocol_parse_def Let_def)

text \<open>
  the runtime tag of a node identifies its panel, its protocol and its id: nodes of
  different sites, or of one site with different protocols or ids, never share a tag.
\<close>

lemma node_tag_identifies:
  "node_tag h p i = node_tag h' p' i' \<longleftrightarrow>
     trim_end_matches is_slash h = trim_end_matches is_slash h' \<and> p = p' \<and> i = i'"
proof
  assume eq: "node_tag h p i = node_tag h' p' i'"
  let ?P = "\<lambda>c. is_ascii_lowercase c \<or> is_ascii_digit c"
  have d: "\<not> is_ascii_digit (CHR '':'')" "\<not> ?P (CHR ''-'')"
    by (simp_all add: is_ascii_digit_def is_ascii_lowercase_def char_code_def)
  have "(''['' @ trim_end_matches is_slash h @ '']-'' @ protocol_as_str p) @ CHR '':'' # nat_to_string (unat i) =
    (''['' @ trim_end_matches is_slash h' @ '']-'' @ protocol_as_str p') @ CHR '':'' # nat_to_string (unat i')"
    using eq by (simp add: node_tag_def)
  from suffix_unique [OF nat_to_string_digits nat_to_string_digits d(1) this]
  have pre: "(''['' @ trim_end_matches is_slash h @ '']'') @ CHR ''-'' # protocol_as_str p =
      (''['' @ trim_end_matches is_slash h' @ '']'') @ CHR ''-'' # protocol_as_str p'"
    and "nat_to_string (unat i) = nat_to_string (unat i')" by simp_all
  then have "i = i'" by (simp add: word_unat_eq_iff)
  have "list_all ?P (protocol_as_str p)" "list_all ?P (protocol_as_str p')"
    using protocol_as_str_plain by (simp_all add: list_all_iff)
  from suffix_unique [OF this d(2) pre] \<open>i = i'\<close>
  show "trim_end_matches is_slash h = trim_end_matches is_slash h' \<and> p = p' \<and> i = i'" by simp
qed (simp add: node_tag_def)

text \<open>
  C24: a port decodes to the same value from its number and from its decimal text, and is
  refused in both forms above \<open>u16::MAX\<close>.
\<close>

lemma port_number_and_text_agree:
  "deserialize_u16_from_any (JString (nat_to_string n)) =
     (if n \<le> u16_max then Ok (word_of_nat n) else Err ''port string is not a valid u16'') \<and>
   deserialize_u16_from_any (JNumber (PosInt n)) =
     (if n \<le> u16_max then Ok (word_of_nat n) else Err ''port number is out of range'')"
proof -
  have "parse_uint u16_max (nat_to_string n) = (if n \<le> u16_max then Some n else None)"
    by (auto simp: parse_uint_nat_to_string parse_uint_above)
  then show ?thesis by (simp add: trim_digits nat_to_string_digits)
qed

end
