(* ===== verification/User_Sync.thy ===== *)
theory User_Sync
  imports BTree Config
begin

text \<open>
  The user-list synchronisation of \<open>src/src/user.rs\<close> with the data of
  \<open>src/src/panel/types.rs\<close>: a node keeps the users of its panel as a revision and a list;
  the panel answers a poll with a full list or with an incremental delta. This theory models
  the application of both, the diff the data plane is fed with, and the path of the state
  file. The environment variable \<open>V2NODE_STATE_DIR\<close> and the digest function of the
  \<open>sha1\<close> crate are arguments of the definitions that read them.
\<close>

section \<open>Data\<close>

record user_info =
  ui_id :: u32
  uuid :: string
  speed_limit :: u32
  device_limit :: u32

record user_delta_body =
  delta_full :: bool
  delta_revision :: int
  delta_users :: "user_info list"
  delta_deleted :: "user_info list"
  delta_upsert :: "user_info list"

record user_delta_apply_result =
  next_users :: "user_info list"
  deleted_applied :: "user_info list"
  res_added :: "user_info list"
  res_updated :: "user_info list"

record user_list_diff =
  diff_deleted :: "user_info list"
  diff_added :: "user_info list"
  diff_updated :: "user_info list"

record user_sync_state =
  st_revision :: int
  st_users :: "user_info list"
  updated_at :: "string option"

record user_sync_step_result =
  step_state :: user_sync_state
  step_diff :: user_list_diff

datatype user_delta_entry = Existing user_info | Upsert user_info

fun ude_user :: "user_delta_entry \<Rightarrow> user_info" where
  "ude_user (Existing u) = u"
| "ude_user (Upsert u) = u"

definition empty_diff :: user_list_diff where
  "empty_diff = \<lparr>diff_deleted = [], diff_added = [], diff_updated = []\<rparr>"

section \<open>Operations\<close>

definition user_changed :: "user_info \<Rightarrow> user_info \<Rightarrow> bool" where
  "user_changed old new \<longleftrightarrow>
     ui_id old \<noteq> ui_id new \<or> speed_limit old \<noteq> speed_limit new \<or>
     device_limit old \<noteq> device_limit new"

definition user_refs_by_uuid :: "user_info list \<Rightarrow> (string, user_info) btmap" where
  "user_refs_by_uuid us = bt_collect (map (\<lambda>u. (uuid u, u)) us)"

definition user_delta_entries_by_uuid :: "user_info list \<Rightarrow> (string, user_delta_entry) btmap" where
  "user_delta_entries_by_uuid us = bt_collect (map (\<lambda>u. (uuid u, Existing u)) us)"

text \<open>The loop over \<open>deleted\<close>: the entries that are left and the users that were removed.\<close>

fun delta_delete_loop ::
  "user_info list \<Rightarrow> (string, user_delta_entry) btmap \<Rightarrow> user_info list \<Rightarrow>
     (string, user_delta_entry) btmap \<times> user_info list" where
  "delta_delete_loop [] m out = (m, out)"
| "delta_delete_loop (u # us) m out =
     (case bt_get m (uuid u) of
        Some e \<Rightarrow> delta_delete_loop us (bt_remove (uuid u) m) (out @ [ude_user e])
      | None \<Rightarrow> delta_delete_loop us m out)"

text \<open>The loop over \<open>upsert\<close>: the map and the added and updated users so far.\<close>

fun delta_upsert_loop ::
  "user_info list \<Rightarrow> (string, user_delta_entry) btmap \<Rightarrow> user_info list \<Rightarrow> user_info list \<Rightarrow>
     (string, user_delta_entry) btmap \<times> user_info list \<times> user_info list" where
  "delta_upsert_loop [] m added updated = (m, added, updated)"
| "delta_upsert_loop (u # us) m added updated =
     (case bt_get m (uuid u) of
        Some e \<Rightarrow>
          delta_upsert_loop us (bt_insert (uuid u) (Upsert u) m) added
            (if user_changed (ude_user e) u then updated @ [u] else updated)
      | None \<Rightarrow>
          delta_upsert_loop us (bt_insert (uuid u) (Upsert u) m) (added @ [u]) updated)"

definition apply_user_delta ::
  "user_info list \<Rightarrow> user_info list \<Rightarrow> user_info list \<Rightarrow> user_delta_apply_result" where
  "apply_user_delta old dels ups =
     (let (m1, gone) = delta_delete_loop dels (user_delta_entries_by_uuid old) [];
          (m2, added, updated) = delta_upsert_loop ups m1 [] []
      in \<lparr>next_users = map ude_user (bt_values m2), deleted_applied = gone,
          res_added = added, res_updated = updated\<rparr>)"

text \<open>The loop over the new list: every user takes its old entry out of the map.\<close>

fun compare_loop ::
  "user_info list \<Rightarrow> (string, user_info) btmap \<Rightarrow> user_info list \<Rightarrow> user_info list \<Rightarrow>
     (string, user_info) btmap \<times> user_info list \<times> user_info list" where
  "compare_loop [] m added updated = (m, added, updated)"
| "compare_loop (u # us) m added updated =
     (case bt_get m (uuid u) of
        None \<Rightarrow> compare_loop us m (added @ [u]) updated
      | Some old_user \<Rightarrow>
          compare_loop us (bt_remove (uuid u) m) added
            (if user_changed old_user u then updated @ [u] else updated))"

definition compare_user_list :: "user_info list \<Rightarrow> user_info list \<Rightarrow> user_list_diff" where
  "compare_user_list old new =
     (let (m, added, updated) = compare_loop new (user_refs_by_uuid old) [] []
      in \<lparr>diff_deleted = bt_values m, diff_added = added, diff_updated = updated\<rparr>)"

definition apply_user_delta_body ::
  "user_sync_state \<Rightarrow> user_delta_body \<Rightarrow> user_sync_step_result" where
  "apply_user_delta_body state delta =
     (let next_state = state\<lparr>st_revision := delta_revision delta\<rparr> in
      if delta_full delta then
        (if delta_users delta = [] then \<lparr>step_state = next_state, step_diff = empty_diff\<rparr>
         else \<lparr>step_state = next_state\<lparr>st_users := delta_users delta\<rparr>,
               step_diff = compare_user_list (st_users state) (delta_users delta)\<rparr>)
      else if delta_deleted delta = [] \<and> delta_upsert delta = [] then
        \<lparr>step_state = next_state, step_diff = empty_diff\<rparr>
      else
        (let applied = apply_user_delta (st_users state) (delta_deleted delta) (delta_upsert delta)
         in \<lparr>step_state = next_state\<lparr>st_users := next_users applied\<rparr>,
             step_diff = \<lparr>diff_deleted = deleted_applied applied,
                          diff_added = res_added applied,
                          diff_updated = res_updated applied\<rparr>\<rparr>))"

definition apply_full_user_list :: "user_sync_state \<Rightarrow> user_info list \<Rightarrow> user_sync_step_result" where
  "apply_full_user_list state us =
     (if us = [] then \<lparr>step_state = state, step_diff = empty_diff\<rparr>
      else \<lparr>step_state = state\<lparr>st_users := us\<rparr>,
            step_diff = compare_user_list (st_users state) us\<rparr>)"

text \<open>The loop over the old list in the diff of an incremental delta.\<close>

fun incremental_loop ::
  "string btset \<Rightarrow> user_info list \<Rightarrow> (string, user_info) btmap \<Rightarrow> user_info list \<Rightarrow>
     user_info list \<Rightarrow> (string, user_info) btmap \<times> user_info list \<times> user_info list" where
  "incremental_loop dels [] m gone updated = (m, gone, updated)"
| "incremental_loop dels (u # us) m gone updated =
     (if bs_contains dels (uuid u) then incremental_loop dels us m (gone @ [u]) updated
      else case bt_get m (uuid u) of
        Some new_user \<Rightarrow>
          incremental_loop dels us (bt_remove (uuid u) m) gone
            (if user_changed u new_user then updated @ [new_user] else updated)
      | None \<Rightarrow> incremental_loop dels us m gone updated)"

definition compare_incremental_delta ::
  "user_info list \<Rightarrow> user_info list \<Rightarrow> user_info list \<Rightarrow> user_list_diff" where
  "compare_incremental_delta old dels ups =
     (let (m, gone, updated) =
        incremental_loop (bs_collect (map uuid dels)) old (user_refs_by_uuid ups) [] []
      in \<lparr>diff_deleted = gone, diff_added = bt_values m, diff_updated = updated\<rparr>)"

definition user_delta_body_diff :: "user_sync_state \<Rightarrow> user_delta_body \<Rightarrow> user_list_diff" where
  "user_delta_body_diff state delta =
     (if delta_full delta then
        (if delta_users delta = [] then empty_diff else compare_user_list (st_users state) (delta_users delta))
      else compare_incremental_delta (st_users state) (delta_deleted delta) (delta_upsert delta))"

text \<open>The state file of a node.\<close>

definition hex_digit :: "nat \<Rightarrow> char" where
  "hex_digit n = ''0123456789abcdef'' ! n"

definition hex_byte :: "u8 \<Rightarrow> string" where
  "hex_byte b = [hex_digit (unat b div 16), hex_digit (unat b mod 16)]"

definition sha1_hex :: "(string \<Rightarrow> u8 list) \<Rightarrow> string \<Rightarrow> string" where
  "sha1_hex digest d = concat (map hex_byte (digest d))"

definition user_sync_state_dir :: "string option \<Rightarrow> string" where
  "user_sync_state_dir env =
     (case env of
        Some value \<Rightarrow> if trim value \<noteq> [] then value else DEFAULT_CONFIG_DIR
      | None \<Rightarrow> DEFAULT_CONFIG_DIR)"

definition user_sync_state_path ::
  "(string \<Rightarrow> u8 list) \<Rightarrow> string option \<Rightarrow> string \<Rightarrow> string \<Rightarrow> u32 \<Rightarrow> string" where
  "user_sync_state_path digest env config_dir api_host node_id =
     (let normalized = normalize_config_dir config_dir;
          base_dir = (if normalized = DEFAULT_CONFIG_DIR then user_sync_state_dir env else normalized)
      in trim_end_matches is_slash base_dir @ ''/user_sync_'' @ sha1_hex digest api_host @ ''_'' @
         nat_to_string (unat node_id) @ ''.json'')"

section \<open>Lookups by uuid\<close>

text \<open>The user a list holds under a uuid: the last one wins, as collecting into the map does.\<close>

definition last_by_uuid :: "user_info list \<Rightarrow> string \<Rightarrow> user_info option" where
  "last_by_uuid us k = map_of (rev (map (\<lambda>u. (uuid u, u)) us)) k"

lemma last_by_uuid_Nil [simp]: "last_by_uuid [] k = None"
  by (simp add: last_by_uuid_def)

lemma last_by_uuid_Cons:
  "last_by_uuid (u # us) k =
     (case last_by_uuid us k of Some v \<Rightarrow> Some v | None \<Rightarrow> if k = uuid u then Some u else None)"
  by (auto simp: last_by_uuid_def map_add_def split: option.splits)

lemma last_by_uuid_append:
  "last_by_uuid (us @ vs) k =
     (case last_by_uuid vs k of Some v \<Rightarrow> Some v | None \<Rightarrow> last_by_uuid us k)"
  by (auto simp: last_by_uuid_def map_add_def split: option.splits)

lemma last_by_uuid_None: "last_by_uuid us k = None \<longleftrightarrow> k \<notin> uuid ` set us"
  by (induction us) (auto simp: last_by_uuid_Cons split: option.splits)

lemma last_by_uuid_SomeD: "last_by_uuid us k = Some u \<Longrightarrow> u \<in> set us \<and> uuid u = k"
  by (induction us) (auto simp: last_by_uuid_Cons split: option.splits if_splits)

lemma last_by_uuid_distinct:
  "distinct (map uuid us) \<Longrightarrow> last_by_uuid us k = Some u \<longleftrightarrow> u \<in> set us \<and> uuid u = k"
  unfolding last_by_uuid_def
  by (subst map_of_eq_Some_iff) (auto simp: rev_map comp_def distinct_rev simp flip: rev_map)

lemma user_refs_get: "bt_get (user_refs_by_uuid us) k = last_by_uuid us k"
  by (simp add: user_refs_by_uuid_def bt_collect_get last_by_uuid_def)

lemma user_refs_invar [simp]: "bt_invar (user_refs_by_uuid us)"
  by (simp add: user_refs_by_uuid_def)

lemma user_delta_entries_get:
  "bt_get (user_delta_entries_by_uuid us) k = map_option Existing (last_by_uuid us k)"
proof -
  have "map_of (rev (map (\<lambda>u. (uuid u, Existing u)) us)) k = map_option Existing (last_by_uuid us k)"
    by (induction us) (auto simp: last_by_uuid_def map_add_def split: option.splits)
  then show ?thesis by (simp add: user_delta_entries_by_uuid_def bt_collect_get)
qed

lemma user_delta_entries_invar [simp]: "bt_invar (user_delta_entries_by_uuid us)"
  by (simp add: user_delta_entries_by_uuid_def)

lemma user_changed_iff: "uuid old = uuid new \<Longrightarrow> user_changed old new \<longleftrightarrow> old \<noteq> new"
  by (auto simp: user_changed_def intro: user_info.equality)

text \<open>A list in strictly increasing uuid order is determined by its lookups.\<close>

lemma uuid_sorted_unique:
  assumes xs: "sorted_wrt (<) (map uuid xs)" and ys: "sorted_wrt (<) (map uuid ys)"
    and eq: "\<And>k. last_by_uuid xs k = last_by_uuid ys k"
  shows "xs = ys"
proof -
  have dx: "distinct (map uuid xs)" and dy: "distinct (map uuid ys)"
    using xs ys strict_sorted_iff by blast+
  have "u \<in> set xs \<longleftrightarrow> u \<in> set ys" for u
    using eq [of "uuid u"] last_by_uuid_distinct [OF dx, of "uuid u" u]
      last_by_uuid_distinct [OF dy, of "uuid u" u] by simp
  then have "set xs = set ys" by blast
  moreover have "inj_on uuid (set xs \<union> set ys)"
    using dx \<open>set xs = set ys\<close> by (simp add: distinct_map)
  ultimately show ?thesis
    using xs ys by (intro map_sorted_distinct_set_unique) (auto simp: strict_sorted_iff)
qed

text \<open>A map is keyed when every entry holds a user with the key as its uuid.\<close>

definition keyed :: "('v \<Rightarrow> user_info) \<Rightarrow> (string, 'v) btmap \<Rightarrow> bool" where
  "keyed f m \<longleftrightarrow> bt_invar m \<and> (\<forall>k v. bt_get m k = Some v \<longrightarrow> uuid (f v) = k)"

lemma keyed_remove: "keyed f m \<Longrightarrow> keyed f (bt_remove k m)"
  by (auto simp: keyed_def bt.get_remove bt_remove_invar split: if_splits)

lemma keyed_insert: "keyed f m \<Longrightarrow> uuid (f v) = k \<Longrightarrow> keyed f (bt_insert k v m)"
  by (auto simp: keyed_def bt_get_insert bt_insert_invar)

lemma keyed_user_refs: "keyed (\<lambda>u. u) (user_refs_by_uuid us)"
  by (simp add: keyed_def user_refs_get last_by_uuid_SomeD)

lemma keyed_delta_entries: "keyed ude_user (user_delta_entries_by_uuid us)"
  by (auto simp: keyed_def user_delta_entries_get last_by_uuid_SomeD)

lemma keyed_uuids: "keyed f m \<Longrightarrow> map uuid (map f (bt_values m)) = map fst m"
  by (auto simp: keyed_def bt_values_def simp flip: bt.entries_iff)

lemma keyed_values_sorted: "keyed f m \<Longrightarrow> sorted_wrt (<) (map uuid (map f (bt_values m)))"
  using keyed_uuids [of f m] by (simp add: keyed_def bt_invar_def)

lemma keyed_values_get:
  assumes "keyed f m"
  shows "last_by_uuid (map f (bt_values m)) k = map_option f (bt_get m k)"
proof -
  have d: "distinct (map uuid (map f (bt_values m)))"
    using keyed_values_sorted [OF assms] strict_sorted_iff by blast
  have "last_by_uuid (map f (bt_values m)) k = Some u \<longleftrightarrow> map_option f (bt_get m k) = Some u" for u
    unfolding last_by_uuid_distinct [OF d]
    using assms by (auto simp: keyed_def bt_values_def simp flip: bt.entries_iff) force
  then show ?thesis by (metis option.exhaust)
qed

section \<open>The loops\<close>

lemma delta_delete_loop_map:
  assumes "keyed ude_user m"
  shows "keyed ude_user (fst (delta_delete_loop us m out)) \<and>
    bt_get (fst (delta_delete_loop us m out)) k =
      (if k \<in> uuid ` set us then None else bt_get m k)"
  using assms
proof (induction us arbitrary: m out)
  case (Cons u us)
  show ?case
  proof (cases "bt_get m (uuid u)")
    case None
    with Cons.IH [OF Cons.prems, of out] show ?thesis by auto
  next
    case (Some e)
    have "bt_get (bt_remove (uuid u) m) k = (if k = uuid u then None else bt_get m k)"
      using Cons.prems by (simp add: keyed_def bt.get_remove)
    with Some Cons.IH [OF keyed_remove [OF Cons.prems], of "uuid u" "out @ [ude_user e]"]
    show ?thesis by auto
  qed
qed simp

lemma delta_upsert_loop_map:
  assumes "keyed ude_user m"
  shows "keyed ude_user (fst (delta_upsert_loop us m a p)) \<and>
    map_option ude_user (bt_get (fst (delta_upsert_loop us m a p)) k) =
      (case last_by_uuid us k of Some u \<Rightarrow> Some u | None \<Rightarrow> map_option ude_user (bt_get m k))"
  using assms
proof (induction us arbitrary: m a p)
  case (Cons u us)
  have k: "keyed ude_user (bt_insert (uuid u) (Upsert u) m)"
    by (intro keyed_insert Cons.prems) simp
  show ?case
    using Cons.IH [OF k]
    by (auto simp: last_by_uuid_Cons bt_get_insert split: option.splits)
qed simp

lemma apply_user_delta_lookup:
  "last_by_uuid (next_users (apply_user_delta old dels ups)) k =
     (case last_by_uuid ups k of
        Some u \<Rightarrow> Some u
      | None \<Rightarrow> if k \<in> uuid ` set dels then None else last_by_uuid old k)"
  and apply_user_delta_sorted:
  "sorted_wrt (<) (map uuid (next_users (apply_user_delta old dels ups)))"
proof -
  obtain m1 gone where d: "delta_delete_loop dels (user_delta_entries_by_uuid old) [] = (m1, gone)"
    by fastforce
  obtain m2 a p where u: "delta_upsert_loop ups m1 [] [] = (m2, a, p)"
    by (metis prod_cases3)
  note m1 = delta_delete_loop_map [OF keyed_delta_entries, of dels old "[]", unfolded d fst_conv]
  note m2 = delta_upsert_loop_map [OF conjunct1 [OF m1], of ups "[]" "[]", unfolded u fst_conv]
  have nxt: "next_users (apply_user_delta old dels ups) = map ude_user (bt_values m2)"
    by (simp add: apply_user_delta_def d u)
  show "sorted_wrt (<) (map uuid (next_users (apply_user_delta old dels ups)))"
    unfolding nxt using keyed_values_sorted m2 by blast
  have "last_by_uuid (map ude_user (bt_values m2)) k = map_option ude_user (bt_get m2 k)"
    using keyed_values_get m2 by blast
  then show "last_by_uuid (next_users (apply_user_delta old dels ups)) k =
     (case last_by_uuid ups k of
        Some u \<Rightarrow> Some u
      | None \<Rightarrow> if k \<in> uuid ` set dels then None else last_by_uuid old k)"
    unfolding nxt using m1 m2
    by (auto simp: user_delta_entries_get option.map_comp comp_def option.map_ident
        split: option.splits)
qed

text \<open>The accumulators of the compare loop only grow at their ends.\<close>

lemma compare_loop_acc:
  "compare_loop us m a p =
     (let (m', a', p') = compare_loop us m [] [] in (m', a @ a', p @ p'))"
proof (induction us arbitrary: m a p)
  case (Cons u us)
  show ?case
  proof (cases "bt_get m (uuid u)")
    case None
    then show ?thesis
      using Cons.IH [of m "a @ [u]" p] Cons.IH [of m "[u]" "[]"]
      by (simp add: Let_def split: prod.splits)
  next
    case (Some o1)
    let ?q = "if user_changed o1 u then [u] else []"
    have "compare_loop (u # us) m a p = compare_loop us (bt_remove (uuid u) m) a (p @ ?q)" for a p
      using Some by simp
    then show ?thesis
      using Cons.IH [of "bt_remove (uuid u) m" a "p @ ?q"]
        Cons.IH [of "bt_remove (uuid u) m" "[]" ?q]
      by (simp add: Let_def split: prod.splits)
  qed
qed simp

lemma compare_loop_ConsE [consumes 1, case_names fresh known]:
  assumes "compare_loop (u # us) m [] [] = (m', a, p)"
  obtains a' where "bt_get m (uuid u) = None" "compare_loop us m [] [] = (m', a', p)" "a = u # a'"
  | o1 p' where "bt_get m (uuid u) = Some o1"
      "compare_loop us (bt_remove (uuid u) m) [] [] = (m', a, p')"
      "p = (if user_changed o1 u then u # p' else p')"
proof (cases "bt_get m (uuid u)")
  case None
  with assms show ?thesis
    using compare_loop_acc [of us m "[u]" "[]"] that(1) by (auto simp: Let_def split: prod.splits)
next
  case (Some o1)
  obtain m2 a2 p2 where r: "compare_loop us (bt_remove (uuid u) m) [] [] = (m2, a2, p2)"
    by (metis prod_cases3)
  with Some assms have "m2 = m'" "a2 = a" "p = (if user_changed o1 u then u # p2 else p2)"
    using compare_loop_acc [of us "bt_remove (uuid u) m" "[]" "[u]"] by (auto split: if_splits)
  with r Some show ?thesis using that(2) by blast
qed

lemma compare_loop_map:
  assumes "keyed (\<lambda>u. u) m" and "compare_loop us m [] [] = (m', a, p)"
  shows "keyed (\<lambda>u. u) m' \<and> set p \<subseteq> set us \<and> set a \<subseteq> set us \<and>
    bt_get m' k = (if k \<in> uuid ` set us then None else bt_get m k) \<and>
    (bt_get m k = None \<longrightarrow> k \<notin> uuid ` set p)"
  using assms
proof (induction us arbitrary: m m' a p)
  case (Cons u us)
  from Cons.prems(2) show ?case
  proof (cases rule: compare_loop_ConsE)
    case (fresh a')
    with Cons.IH [OF Cons.prems(1) fresh(2)] show ?thesis by auto
  next
    case (known o1 p')
    have "bt_get (bt_remove (uuid u) m) k = (if k = uuid u then None else bt_get m k)"
      using Cons.prems(1) by (simp add: keyed_def bt.get_remove)
    with Cons.IH [OF keyed_remove [OF Cons.prems(1)] known(2)] known show ?thesis
      by (auto split: if_splits)
  qed
qed auto

text \<open>
  Upserting the updated and then the added users over the old map leads to the new list:
  every new user is in one of the two, unless the map already holds it unchanged.
\<close>

lemma compare_loop_upsert:
  assumes "keyed (\<lambda>u. u) m" and "compare_loop us m [] [] = (m', a, p)"
  shows "(case last_by_uuid (p @ a) k of Some v \<Rightarrow> Some v | None \<Rightarrow> bt_get m k) =
    (case last_by_uuid us k of Some v \<Rightarrow> Some v | None \<Rightarrow> bt_get m k)"
  using assms
proof (induction us arbitrary: m m' a p)
  case (Cons u us)
  from Cons.prems(2) show ?case
  proof (cases rule: compare_loop_ConsE)
    case (fresh a')
    have "last_by_uuid p (uuid u) = None"
      using compare_loop_map [OF Cons.prems(1) fresh(2), of "uuid u"] fresh(1)
      by (simp add: last_by_uuid_None)
    with Cons.IH [OF Cons.prems(1) fresh(2)] fresh show ?thesis
      by (auto simp: last_by_uuid_append last_by_uuid_Cons split: option.splits)
  next
    case (known o1 p')
    have get: "bt_get (bt_remove (uuid u) m) k = (if k = uuid u then None else bt_get m k)" for k
      using Cons.prems(1) by (simp add: keyed_def bt.get_remove)
    have "last_by_uuid p' (uuid u) = None"
      using compare_loop_map [OF keyed_remove [OF Cons.prems(1)] known(2), of "uuid u"]
      by (simp add: last_by_uuid_None get)
    moreover have "uuid o1 = uuid u" using known(1) Cons.prems(1) by (simp add: keyed_def)
    moreover note Cons.IH [OF keyed_remove [OF Cons.prems(1)] known(2)] get known
    ultimately show ?thesis
      by (cases "k = uuid u"; cases "bt_get m k")
        (auto simp: last_by_uuid_append last_by_uuid_Cons user_changed_iff
          split: option.splits if_splits)
  qed
qed auto

text \<open>C23: replaying the diff of two user lists on the old one yields the new one.\<close>

lemma compare_user_list_replay:
  "next_users (apply_user_delta old (diff_deleted (compare_user_list old new))
     (diff_updated (compare_user_list old new) @ diff_added (compare_user_list old new))) =
   bt_values (user_refs_by_uuid new)"
proof (rule uuid_sorted_unique)
  let ?d = "compare_user_list old new"
  show "sorted_wrt (<) (map uuid (next_users
     (apply_user_delta old (diff_deleted ?d) (diff_updated ?d @ diff_added ?d))))"
    by (rule apply_user_delta_sorted)
  show "sorted_wrt (<) (map uuid (bt_values (user_refs_by_uuid new)))"
    using keyed_values_sorted [OF keyed_user_refs, of new] by simp
  fix k
  obtain m a p where c: "compare_loop new (user_refs_by_uuid old) [] [] = (m, a, p)"
    by (metis prod_cases3)
  note m = compare_loop_map [OF keyed_user_refs c, of k]
  have del: "k \<in> uuid ` set (bt_values m) \<longleftrightarrow> bt_get m k \<noteq> None"
    using keyed_values_get [OF conjunct1 [OF m], of k] last_by_uuid_None [of "bt_values m" k]
    by simp
  have "last_by_uuid (p @ a) k \<noteq> None \<Longrightarrow> k \<in> uuid ` set new"
    using m by (auto simp: last_by_uuid_None)
  moreover have new: "last_by_uuid (bt_values (user_refs_by_uuid new)) k = last_by_uuid new k"
    using keyed_values_get [OF keyed_user_refs, of new k] by (simp add: user_refs_get option.map_ident)
  ultimately show "last_by_uuid (next_users
     (apply_user_delta old (diff_deleted ?d) (diff_updated ?d @ diff_added ?d))) k =
     last_by_uuid (bt_values (user_refs_by_uuid new)) k"
    using compare_loop_upsert [OF keyed_user_refs c, of k] m del last_by_uuid_None [of new k]
    by (auto simp: apply_user_delta_lookup compare_user_list_def c new user_refs_get
        split: option.splits if_splits)
qed

section \<open>The two incremental diffs agree\<close>

lemma delta_delete_loop_out:
  assumes "keyed ude_user m"
  shows "set (snd (delta_delete_loop us m out)) =
    set out \<union> {ude_user e | e k. k \<in> uuid ` set us \<and> bt_get m k = Some e}"
  using assms
proof (induction us arbitrary: m out)
  case (Cons u us)
  show ?case
  proof (cases "bt_get m (uuid u)")
    case None
    with Cons.IH [OF Cons.prems] show ?thesis by auto
  next
    case (Some e)
    have "bt_get (bt_remove (uuid u) m) k = (if k = uuid u then None else bt_get m k)" for k
      using Cons.prems by (simp add: keyed_def bt.get_remove)
    with Some Cons.IH [OF keyed_remove [OF Cons.prems], of "uuid u" "out @ [ude_user e]"]
    show ?thesis by auto (metis option.inject)
  qed
qed auto

lemma delta_upsert_loop_out:
  assumes "distinct (map uuid us)"
  shows "set (fst (snd (delta_upsert_loop us m a p))) =
      set a \<union> {u \<in> set us. bt_get m (uuid u) = None} \<and>
    set (snd (snd (delta_upsert_loop us m a p))) =
      set p \<union> {u \<in> set us. \<exists>e. bt_get m (uuid u) = Some e \<and> user_changed (ude_user e) u}"
  using assms
proof (induction us arbitrary: m a p)
  case (Cons u us)
  then have d: "distinct (map uuid us)" and fresh: "\<And>v. v \<in> set us \<Longrightarrow> uuid v \<noteq> uuid u"
    by (auto simp: rev_image_eqI)
  note IH = Cons.IH [OF d, of "bt_insert (uuid u) (Upsert u) m"]
  have "{v \<in> set us. bt_get (bt_insert (uuid u) (Upsert u) m) (uuid v) = None} =
      {v \<in> set us. bt_get m (uuid v) = None}"
    "{v \<in> set us. \<exists>e. bt_get (bt_insert (uuid u) (Upsert u) m) (uuid v) = Some e \<and> user_changed (ude_user e) v} =
      {v \<in> set us. \<exists>e. bt_get m (uuid v) = Some e \<and> user_changed (ude_user e) v}"
    using fresh by (auto simp: bt_get_insert)
  with IH show ?case by (cases "bt_get m (uuid u)") auto
qed simp

lemma incremental_loop_out:
  assumes "bt_invar m" "distinct (map uuid us)" "incremental_loop dels us m gone upd = (m', g, p)"
  shows "bt_invar m' \<and>
    (\<forall>k. bt_get m' k =
      (if \<exists>u \<in> set us. uuid u = k \<and> \<not> bs_contains dels k then None else bt_get m k)) \<and>
    set g = set gone \<union> {u \<in> set us. bs_contains dels (uuid u)} \<and>
    set p = set upd \<union> {n. \<exists>u \<in> set us. \<not> bs_contains dels (uuid u) \<and>
      bt_get m (uuid u) = Some n \<and> user_changed u n}"
  using assms
proof (induction us arbitrary: m gone upd)
  case (Cons u us)
  then have d: "distinct (map uuid us)" and fresh: "\<And>v. v \<in> set us \<Longrightarrow> uuid v \<noteq> uuid u"
    by (auto simp: rev_image_eqI)
  consider (del) "bs_contains dels (uuid u)"
    | (keep) "\<not> bs_contains dels (uuid u)" "bt_get m (uuid u) = None"
    | (upd) n where "\<not> bs_contains dels (uuid u)" "bt_get m (uuid u) = Some n"
    by (cases "bt_get m (uuid u)") auto
  then show ?case
  proof cases
    case del
    with Cons.prems(3) have "incremental_loop dels us m (gone @ [u]) upd = (m', g, p)" by simp
    from Cons.IH [OF Cons.prems(1) d this] del show ?thesis by auto
  next
    case keep
    with Cons.prems(3) have "incremental_loop dels us m gone upd = (m', g, p)" by simp
    from Cons.IH [OF Cons.prems(1) d this] keep show ?thesis by auto
  next
    case (upd n)
    have get: "bt_get (bt_remove (uuid u) m) k = (if k = uuid u then None else bt_get m k)" for k
      using Cons.prems(1) by (simp add: bt.get_remove)
    from upd Cons.prems(3)
    have "incremental_loop dels us (bt_remove (uuid u) m) gone
        (if user_changed u n then upd @ [n] else upd) = (m', g, p)" by simp
    from Cons.IH [OF bt_remove_invar [OF Cons.prems(1)] d this] upd fresh show ?thesis
      unfolding get by auto
  qed
qed simp

lemma apply_user_delta_diff:
  assumes "distinct (map uuid old)" "distinct (map uuid ups)"
  shows "set (deleted_applied (apply_user_delta old dels ups)) =
      {u \<in> set old. uuid u \<in> uuid ` set dels}"
    "set (res_added (apply_user_delta old dels ups)) =
      {u \<in> set ups. uuid u \<in> uuid ` set dels \<or> uuid u \<notin> uuid ` set old}"
    "set (res_updated (apply_user_delta old dels ups)) =
      {u \<in> set ups. uuid u \<notin> uuid ` set dels \<and>
        (\<exists>o1 \<in> set old. uuid o1 = uuid u \<and> user_changed o1 u)}"
proof -
  obtain m1 gone where d: "delta_delete_loop dels (user_delta_entries_by_uuid old) [] = (m1, gone)"
    by fastforce
  obtain m2 a p where u: "delta_upsert_loop ups m1 [] [] = (m2, a, p)"
    by (metis prod_cases3)
  note old = last_by_uuid_distinct [OF assms(1)]
  have get1: "bt_get m1 k = (if k \<in> uuid ` set dels then None else map_option Existing (last_by_uuid old k))" for k
    using delta_delete_loop_map [OF keyed_delta_entries, of dels old "[]" k, unfolded d]
    by (simp add: user_delta_entries_get)
  note out1 = delta_delete_loop_out [OF keyed_delta_entries, of dels old "[]", unfolded d snd_conv]
  note out2 = delta_upsert_loop_out [OF assms(2), of m1 "[]" "[]", unfolded u snd_conv fst_conv]
  have "set gone = {u \<in> set old. uuid u \<in> uuid ` set dels}"
    unfolding out1 user_delta_entries_get by (auto simp: old) (metis ude_user.simps(1))
  moreover have "set a = {u \<in> set ups. uuid u \<in> uuid ` set dels \<or> uuid u \<notin> uuid ` set old}"
    using out2 by (auto simp: get1 last_by_uuid_None)
  moreover have "set p = {u \<in> set ups. uuid u \<notin> uuid ` set dels \<and>
        (\<exists>o1 \<in> set old. uuid o1 = uuid u \<and> user_changed o1 u)}"
    using out2 by (auto simp: get1 old split: if_splits)
  ultimately show "set (deleted_applied (apply_user_delta old dels ups)) =
      {u \<in> set old. uuid u \<in> uuid ` set dels}"
    "set (res_added (apply_user_delta old dels ups)) =
      {u \<in> set ups. uuid u \<in> uuid ` set dels \<or> uuid u \<notin> uuid ` set old}"
    "set (res_updated (apply_user_delta old dels ups)) =
      {u \<in> set ups. uuid u \<notin> uuid ` set dels \<and>
        (\<exists>o1 \<in> set old. uuid o1 = uuid u \<and> user_changed o1 u)}"
    by (simp_all add: apply_user_delta_def d u)
qed

lemma compare_incremental_delta_sets:
  assumes "distinct (map uuid old)" "distinct (map uuid ups)"
  shows "set (diff_deleted (compare_incremental_delta old dels ups)) =
      {u \<in> set old. uuid u \<in> uuid ` set dels}"
    "set (diff_added (compare_incremental_delta old dels ups)) =
      {u \<in> set ups. uuid u \<in> uuid ` set dels \<or> uuid u \<notin> uuid ` set old}"
    "set (diff_updated (compare_incremental_delta old dels ups)) =
      {u \<in> set ups. uuid u \<notin> uuid ` set dels \<and>
        (\<exists>o1 \<in> set old. uuid o1 = uuid u \<and> user_changed o1 u)}"
proof -
  obtain m g p where l: "incremental_loop (bs_collect (map uuid dels)) old (user_refs_by_uuid ups) [] [] = (m, g, p)"
    by (metis prod_cases3)
  note out = incremental_loop_out [OF user_refs_invar assms(1) l, unfolded user_refs_get]
  note ups = last_by_uuid_distinct [OF assms(2)]
  have get: "bt_get m k = (if k \<in> uuid ` set old \<and> k \<notin> uuid ` set dels then None else last_by_uuid ups k)" for k
    using out by (auto simp: image_iff)
  have "u \<in> set (bt_values m) \<longleftrightarrow> (\<exists>k. bt_get m k = Some u)" for u
    using bt.values_iff [OF conjunct1 [OF out]] by (simp add: bt_values_def)
  then have "u \<in> set (bt_values m) \<longleftrightarrow> bt_get m (uuid u) = Some u" for u
    using get last_by_uuid_SomeD by (metis option.distinct(1))
  then have "set (bt_values m) = {u. bt_get m (uuid u) = Some u}" by blast
  moreover have "{u. bt_get m (uuid u) = Some u} =
      {u \<in> set ups. uuid u \<in> uuid ` set dels \<or> uuid u \<notin> uuid ` set old}"
    unfolding get by (auto simp: ups)
  moreover have "set p = {u \<in> set ups. uuid u \<notin> uuid ` set dels \<and>
        (\<exists>o1 \<in> set old. uuid o1 = uuid u \<and> user_changed o1 u)}"
  proof -
    have "set p = {n. \<exists>u \<in> set old. uuid u \<notin> uuid ` set dels \<and> n \<in> set ups \<and>
        uuid n = uuid u \<and> user_changed u n}"
      using out by (simp add: ups)
    moreover have "(\<exists>u \<in> set old. uuid u \<notin> D \<and> n \<in> set ups \<and> uuid n = uuid u \<and> user_changed u n) \<longleftrightarrow>
        n \<in> set ups \<and> uuid n \<notin> D \<and> (\<exists>o1 \<in> set old. uuid o1 = uuid n \<and> user_changed o1 n)" for n D
      by metis
    ultimately show ?thesis by simp
  qed
  ultimately show "set (diff_deleted (compare_incremental_delta old dels ups)) =
      {u \<in> set old. uuid u \<in> uuid ` set dels}"
    "set (diff_added (compare_incremental_delta old dels ups)) =
      {u \<in> set ups. uuid u \<in> uuid ` set dels \<or> uuid u \<notin> uuid ` set old}"
    "set (diff_updated (compare_incremental_delta old dels ups)) =
      {u \<in> set ups. uuid u \<notin> uuid ` set dels \<and>
        (\<exists>o1 \<in> set old. uuid o1 = uuid u \<and> user_changed o1 u)}"
    using out by (simp_all add: compare_incremental_delta_def l)
qed

section \<open>The state file\<close>

lemma hex_digit_inj: "a < 16 \<Longrightarrow> b < 16 \<Longrightarrow> hex_digit a = hex_digit b \<longleftrightarrow> a = b"
proof -
  have "distinct ''0123456789abcdef''" by simp
  then show "a < 16 \<Longrightarrow> b < 16 \<Longrightarrow> hex_digit a = hex_digit b \<longleftrightarrow> a = b"
    unfolding hex_digit_def by (intro nth_eq_iff_index_eq) simp_all
qed

lemma hex_byte_inj: "hex_byte a = hex_byte b \<longleftrightarrow> a = b"
proof -
  have lt: "unat x div 16 < 16" for x :: u8
  proof -
    have "unat x < 256" using unsigned_less [of x] by simp
    then show ?thesis by simp
  qed
  have "a = b" if "unat a div 16 = unat b div 16" "unat a mod 16 = unat b mod 16"
    using that by (metis div_mult_mod_eq word_unat_eq_iff)
  then show ?thesis by (auto simp: hex_byte_def hex_digit_inj lt)
qed

lemma length_hex: "length (concat (map hex_byte bs)) = 2 * length bs"
  by (induction bs) (simp_all add: hex_byte_def)

lemma hex_inj: "length as = length bs \<Longrightarrow> concat (map hex_byte as) = concat (map hex_byte bs) \<longleftrightarrow> as = bs"
proof (induction as bs rule: list_induct2)
  case (Cons a as b bs)
  have "length (hex_byte a) = length (hex_byte b)" by (simp add: hex_byte_def)
  with Cons show ?case by (simp add: hex_byte_inj)
qed simp

section \<open>Sequences of answers\<close>

text \<open>The answers of a panel, in the order they are applied: a delta body or a full list.\<close>

datatype sync_answer = DeltaBody user_delta_body | FullList "user_info list"

fun sync_step :: "user_sync_state \<Rightarrow> sync_answer \<Rightarrow> user_sync_step_result" where
  "sync_step st (DeltaBody d) = apply_user_delta_body st d"
| "sync_step st (FullList us) = apply_full_user_list st us"

definition sync_run :: "sync_answer list \<Rightarrow> user_sync_state \<Rightarrow> user_sync_state" where
  "sync_run as st = fold (\<lambda>a s. step_state (sync_step s a)) as st"

fun answer_distinct :: "sync_answer \<Rightarrow> bool" where
  "answer_distinct (DeltaBody d) \<longleftrightarrow> distinct (map uuid (delta_users d))"
| "answer_distinct (FullList us) \<longleftrightarrow> distinct (map uuid us)"

text \<open>A full list that an answer carries and that is taken over.\<close>

fun answer_full :: "sync_answer \<Rightarrow> user_info list" where
  "answer_full (DeltaBody d) = (if delta_full d then delta_users d else [])"
| "answer_full (FullList us) = us"

lemma sync_step_full:
  "answer_full a \<noteq> [] \<Longrightarrow> st_users (step_state (sync_step st a)) = answer_full a"
  by (cases a) (auto simp: apply_user_delta_body_def apply_full_user_list_def Let_def split: if_splits)

lemma sync_step_distinct:
  assumes "distinct (map uuid (st_users st))" "answer_distinct a"
  shows "distinct (map uuid (st_users (step_state (sync_step st a))))"
proof -
  have "distinct (map uuid (next_users (apply_user_delta old dels ups)))" for old dels ups
    using apply_user_delta_sorted strict_sorted_iff by blast
  then show ?thesis
    using assms by (cases a) (auto simp: apply_user_delta_body_def apply_full_user_list_def Let_def)
qed

lemma sync_run_distinct:
  "distinct (map uuid (st_users st)) \<Longrightarrow> list_all answer_distinct as \<Longrightarrow>
   distinct (map uuid (st_users (sync_run as st)))"
  by (induction as arbitrary: st) (auto simp: sync_run_def sync_step_distinct)

section \<open>Properties\<close>

text \<open>
  C37: applying a delta yields a list sorted by uuid without duplicates in which an upserted
  user (the last one given for its uuid) is found as given, a deleted one that is not
  upserted is gone, and every other user is the one of the old list.
\<close>

theorem apply_user_delta_spec:
  "sorted_wrt (<) (map uuid (next_users (apply_user_delta old dels ups))) \<and>
   last_by_uuid (next_users (apply_user_delta old dels ups)) k =
     (case last_by_uuid ups k of
        Some u \<Rightarrow> Some u
      | None \<Rightarrow> if k \<in> uuid ` set dels then None else last_by_uuid old k)"
  using apply_user_delta_lookup apply_user_delta_sorted by blast

text \<open>
  C26: the diff computed ahead of an update (\<open>user_delta_body_diff\<close>) names the same users
  as the diff the update itself reports, for every body, when no uuid occurs twice in the
  stored list or in the upserts.
\<close>

lemma user_delta_body_diff_agrees:
  assumes "distinct (map uuid (st_users st))" "distinct (map uuid (delta_upsert d))"
  shows "set (diff_deleted (user_delta_body_diff st d)) = set (diff_deleted (step_diff (apply_user_delta_body st d))) \<and>
    set (diff_added (user_delta_body_diff st d)) = set (diff_added (step_diff (apply_user_delta_body st d))) \<and>
    set (diff_updated (user_delta_body_diff st d)) = set (diff_updated (step_diff (apply_user_delta_body st d)))"
  using apply_user_delta_diff [OF assms, of "delta_deleted d"]
    compare_incremental_delta_sets [OF assms, of "delta_deleted d"]
  by (auto simp: user_delta_body_diff_def apply_user_delta_body_def Let_def empty_diff_def)

lemma user_delta_body_diff_agrees_witness:
  "\<exists>st d. distinct (map uuid (st_users st)) \<and> distinct (map uuid (delta_upsert d)) \<and> \<not> delta_full d \<and>
     map ui_id (diff_updated (user_delta_body_diff st d)) = [7] \<and>
     set (diff_updated (user_delta_body_diff st d)) = set (diff_updated (step_diff (apply_user_delta_body st d)))"
proof -
  let ?u = "\<lambda>i. \<lparr>ui_id = i, uuid = ''a'', speed_limit = 0, device_limit = 0\<rparr>"
  let ?st = "\<lparr>st_revision = 1, st_users = [?u 6], updated_at = None\<rparr>"
  let ?d = "\<lparr>delta_full = False, delta_revision = 2, delta_users = [], delta_deleted = [], delta_upsert = [?u 7]\<rparr>"
  have "map ui_id (diff_updated (user_delta_body_diff ?st ?d)) = [7]"
    by (simp add: user_delta_body_diff_def compare_incremental_delta_def bs_collect_def bs_contains_def
        user_refs_by_uuid_def bt_collect_def bt_get_def user_changed_def)
  then show ?thesis
    using user_delta_body_diff_agrees [of ?st ?d] by (intro exI [of _ ?st] exI [of _ ?d]) simp
qed

text \<open>
  over any sequence of answers whose own lists have no duplicate uuid, the stored list
  has none either; after a non-empty full list it is that list, whatever came before, and
  an empty full list never drops the users.
\<close>

lemma sync_run_users:
  assumes "distinct (map uuid (st_users st))" "list_all answer_distinct as"
  shows "distinct (map uuid (st_users (sync_run as st))) \<and>
    st_users (sync_run (as @ [a]) st) =
      (if answer_full a \<noteq> [] then answer_full a
       else case a of FullList _ \<Rightarrow> st_users (sync_run as st)
         | DeltaBody d \<Rightarrow>
             if delta_full d then st_users (sync_run as st)
             else if delta_deleted d = [] \<and> delta_upsert d = [] then st_users (sync_run as st)
             else next_users (apply_user_delta (st_users (sync_run as st)) (delta_deleted d) (delta_upsert d)))"
proof
  show "distinct (map uuid (st_users (sync_run as st)))" by (rule sync_run_distinct [OF assms])
  have step: "sync_run (as @ [a]) st = step_state (sync_step (sync_run as st) a)"
    by (simp add: sync_run_def)
  show "st_users (sync_run (as @ [a]) st) =
      (if answer_full a \<noteq> [] then answer_full a
       else case a of FullList _ \<Rightarrow> st_users (sync_run as st)
         | DeltaBody d \<Rightarrow>
             if delta_full d then st_users (sync_run as st)
             else if delta_deleted d = [] \<and> delta_upsert d = [] then st_users (sync_run as st)
             else next_users (apply_user_delta (st_users (sync_run as st)) (delta_deleted d) (delta_upsert d)))"
    unfolding step using sync_step_full
    by (cases a) (auto simp: apply_user_delta_body_def apply_full_user_list_def Let_def)
qed

lemma sync_run_users_witness:
  "\<exists>st as a. distinct (map uuid (st_users st)) \<and> list_all answer_distinct as \<and> as \<noteq> [] \<and>
     st_users (sync_run (as @ [a]) st) = st_users (sync_run as st) \<and> st_users (sync_run as st) \<noteq> []"
proof -
  let ?u = "\<lparr>ui_id = 6, uuid = ''a'', speed_limit = 0, device_limit = 0\<rparr>"
  let ?st = "\<lparr>st_revision = 1, st_users = [], updated_at = None\<rparr>"
  have "st_users (sync_run [FullList [?u]] ?st) = [?u]"
    by (simp add: sync_run_def apply_full_user_list_def)
  then show ?thesis
    using sync_run_users [of ?st "[FullList [?u]]" "FullList []"]
    by (intro exI [of _ ?st] exI [of _ "[FullList [?u]]"] exI [of _ "FullList []"]) simp
qed

text \<open>
  in one configuration directory, the state files of two nodes are the same file only
  for the same node id and api hosts with the same digest.
\<close>

lemma user_sync_state_path_separate:
  assumes "\<And>d. length (digest d) = 20"
  shows "user_sync_state_path digest env dir h1 n1 = user_sync_state_path digest env dir h2 n2 \<longleftrightarrow>
    digest h1 = digest h2 \<and> n1 = n2"
proof -
  have "length (sha1_hex digest h1) = length (sha1_hex digest h2)"
    by (simp add: sha1_hex_def length_hex assms)
  then show ?thesis
    by (auto simp: user_sync_state_path_def Let_def word_unat_eq_iff sha1_hex_def hex_inj assms)
qed

lemma user_sync_state_path_separate_witness:
  "\<exists>digest env. (\<forall>d. length (digest d) = 20) \<and>
     user_sync_state_path digest env ''/etc/x'' ''h'' 1 \<noteq> user_sync_state_path digest env ''/etc/x'' ''h'' 2"
  using user_sync_state_path_separate [of "\<lambda>_. replicate 20 0" None "''/etc/x''" "''h''" 1 "''h''" 2]
  by (intro exI [of _ "\<lambda>_. replicate 20 (0 :: u8)"] exI [of _ None]) simp

end
