(* ===== verification/Machine.thy ===== *)
theory Machine
  imports Panel_Types
begin

text \<open>
  Machine-bound deployments (\<open>src/src/machine.rs\<close>): the answer of the panel to the query for
  a machine's nodes, its resolution into node configurations, the merge of the subscription
  proxy settings of several profiles, and \<open>resolve_machine_profiles\<close>, which combines the
  answers of all the profiles of a machine. The query itself is an HTTP call; its result,
  a response or an error, is part of the input. \<open>first_non_empty\<close> and
  \<open>normalize_proxy_path_prefix\<close> of this file are those of \<open>config.rs\<close>, which the source
  repeats word for word.
\<close>

section \<open>Data\<close>

record machine_panel_node =
  mpn_id :: u32
  mpn_code :: string
  mpn_node_type :: string
  mpn_name :: string
  mpn_updated_at :: json

record machine_profile_base_config =
  mpb_realtime :: "realtime_base_config option"

record machine_agent_config =
  ma_subscription_proxy :: "subscription_proxy_config option"

record machine_nodes_response =
  mr_nodes :: "machine_panel_node list"
  mr_base_config :: "machine_profile_base_config option"
  mr_agent :: "machine_agent_config option"

record machine_nodes_envelope =
  me_nodes :: "machine_panel_node list"
  me_base_config :: "machine_profile_base_config option"
  me_agent :: "machine_agent_config option"
  me_data :: "machine_nodes_response option"

record machine_release_auth =
  ra_machine_id :: string
  ra_machine_token :: string

record machine_upgrade_command =
  uc_id :: string
  uc_target_version :: string
  uc_component :: string
  uc_release_source :: string
  uc_release_base_url :: string
  uc_release_auth :: machine_release_auth

record machine_status_response =
  ms_reload :: bool
  ms_upgrade :: "machine_upgrade_command option"

record machine_status_payload =
  msp_machine_id :: u32
  msp_status :: "(string, json) btmap"

record machine_resolve_failure =
  mrf_profile :: string
  mrf_machine_id :: u32
  mrf_error :: string

record machine_profile_realtime =
  mprt_profile :: string
  mprt_machine_id :: u32
  mprt_enabled :: bool
  mprt_url :: string
  mprt_ping_interval :: nat

record machine_resolve_result =
  mrr_nodes :: "node_config list"
  mrr_agent :: agent_config
  mrr_realtime :: "machine_profile_realtime option"

record machine_profile_input =
  mpi_profile :: machine_profile_config
  mpi_result :: "machine_nodes_response result"

record machine_resolve_summary =
  sum_nodes :: "node_config list"
  sum_agent :: agent_config
  sum_realtime :: "machine_profile_realtime list"
  sum_failures :: "machine_resolve_failure list"
  sum_subscription_proxy_only :: bool

definition zerossl_default :: subscription_proxy_zerossl_config where
  "zerossl_default =
     \<lparr>zs_status = [], zs_certificate_id = [], zs_validation_path = [], zs_validation_content = [],
      zs_certificate_pem = [], zs_ca_bundle_pem = [], zs_expires_at = []\<rparr>"

definition subscription_proxy_default :: subscription_proxy_config where
  "subscription_proxy_default =
     \<lparr>sp_enabled = False, sp_https_listen = [], sp_http_listen = [], sp_cert_file = [],
      sp_key_file = [], sp_certificate_domain = [], sp_challenge_dir = [],
      sp_zerossl = zerossl_default, sp_site_id = [], sp_upstream_base_url = [],
      sp_subscribe_path = [], sp_allow_http_fallback = False, sp_max_response_bytes = 0,
      sp_profiles = [], sp_website_profiles = []\<rparr>"

definition agent_default :: agent_config where
  "agent_default = \<lparr>subscription_proxy = subscription_proxy_default\<rparr>"

definition summary_default :: machine_resolve_summary where
  "summary_default =
     \<lparr>sum_nodes = [], sum_agent = agent_default, sum_realtime = [], sum_failures = [],
      sum_subscription_proxy_only = False\<rparr>"

section \<open>Names and keys\<close>

definition machine_profile_label :: "machine_profile_config \<Rightarrow> string" where
  "machine_profile_label profile =
     (if trim (mp_name profile) \<noteq> [] then trim (mp_name profile)
      else if mp_machine_id profile > 0
      then ''machine-'' @ nat_to_string (unat (mp_machine_id profile))
      else trim_end_matches is_slash (mp_url profile))"

definition allowed_name_char :: "char \<Rightarrow> bool" where
  "allowed_name_char c \<longleftrightarrow>
     is_ascii_alphanumeric c \<or> c = CHR ''.'' \<or> c = CHR ''_'' \<or> c = CHR ''-''"

fun sanitize_name_loop :: "string \<Rightarrow> string \<Rightarrow> bool \<Rightarrow> string" where
  "sanitize_name_loop [] output last_dash = output"
| "sanitize_name_loop (c # cs) output last_dash =
     (if allowed_name_char c then sanitize_name_loop cs (output @ [c]) False
      else if \<not> last_dash then sanitize_name_loop cs (output @ ''-'') True
      else sanitize_name_loop cs output last_dash)"

definition sanitize_machine_profile_name :: "string \<Rightarrow> string" where
  "sanitize_machine_profile_name name =
     (let trimmed = trim_matches (\<lambda>c. c = CHR ''-'') (sanitize_name_loop (trim name) [] False)
      in if trimmed = [] then ''machine'' else trimmed)"

definition machine_profile_node_config_dir :: "machine_profile_config \<Rightarrow> u32 \<Rightarrow> string" where
  "machine_profile_node_config_dir profile node_id =
     (let label = sanitize_machine_profile_name (machine_profile_label profile);
          root = (if trim (mp_config_dir profile) = [] then DEFAULT_CONFIG_DIR @ ''/'' @ label
                  else trim_end_matches (\<lambda>c. c = slash \<or> c = CHR 0x5C) (mp_config_dir profile))
      in root @ ''/node-'' @ nat_to_string (unat node_id))"

definition machine_node_key :: "node_config \<Rightarrow> string" where
  "machine_node_key node =
     trim_end_matches is_slash (nc_url node) @ ''#'' @ nat_to_string (unat (nc_machine_id node)) @
       ''#'' @ nat_to_string (unat (nc_node_id node))"

fun machine_realtime_interval_seconds :: "json \<Rightarrow> nat" where
  "machine_realtime_interval_seconds (JNumber n) = unwrap_or 0 (as_u64 n)"
| "machine_realtime_interval_seconds (JString text) = unwrap_or 0 (parse_uint u64_max (trim text))"
| "machine_realtime_interval_seconds _ = 0"

definition machine_profile_realtime_of ::
  "machine_profile_config \<Rightarrow> machine_nodes_response \<Rightarrow> machine_profile_realtime option" where
  "machine_profile_realtime_of profile response =
     Option.bind (mr_base_config response) (\<lambda>bc.
     Option.bind (mpb_realtime bc) (\<lambda>realtime. Some
       \<lparr>mprt_profile = machine_profile_label profile,
        mprt_machine_id = mp_machine_id profile,
        mprt_enabled = rb_enabled realtime,
        mprt_url = trim (rb_url realtime),
        mprt_ping_interval = machine_realtime_interval_seconds (rb_ping_interval realtime)\<rparr>))"

definition into_response :: "machine_nodes_envelope \<Rightarrow> machine_nodes_response" where
  "into_response env =
     (case me_data env of
        Some d \<Rightarrow> d
      | None \<Rightarrow> \<lparr>mr_nodes = me_nodes env, mr_base_config = me_base_config env, mr_agent = me_agent env\<rparr>)"

definition machine_status_payload_new :: "u32 \<Rightarrow> machine_status_payload" where
  "machine_status_payload_new machine_id = \<lparr>msp_machine_id = machine_id, msp_status = []\<rparr>"

definition insert_status :: "string \<Rightarrow> json \<Rightarrow> machine_status_payload \<Rightarrow> machine_status_payload" where
  "insert_status key value p = p\<lparr>msp_status := bt_insert key value (msp_status p)\<rparr>"

section \<open>Merging subscription proxy settings\<close>

definition fill_if_empty :: "string \<Rightarrow> string \<Rightarrow> string" where
  "fill_if_empty target value = (if trim target = [] then trim value else target)"

definition merge_subscription_proxy_zerossl ::
  "subscription_proxy_zerossl_config \<Rightarrow> subscription_proxy_zerossl_config \<Rightarrow>
     subscription_proxy_zerossl_config" where
  "merge_subscription_proxy_zerossl target source =
     \<lparr>zs_status = fill_if_empty (zs_status target) (zs_status source),
      zs_certificate_id = fill_if_empty (zs_certificate_id target) (zs_certificate_id source),
      zs_validation_path = fill_if_empty (zs_validation_path target) (zs_validation_path source),
      zs_validation_content = fill_if_empty (zs_validation_content target) (zs_validation_content source),
      zs_certificate_pem = fill_if_empty (zs_certificate_pem target) (zs_certificate_pem source),
      zs_ca_bundle_pem = fill_if_empty (zs_ca_bundle_pem target) (zs_ca_bundle_pem source),
      zs_expires_at = fill_if_empty (zs_expires_at target) (zs_expires_at source)\<rparr>"

definition valid_subscription_proxy_profile :: "string \<Rightarrow> string \<Rightarrow> bool" where
  "valid_subscription_proxy_profile site_id upstream_base_url =
     (let upstream = trim_end_matches is_slash upstream_base_url in
      if trim site_id = [] \<or> upstream = [] then False
      else case split_once_str ''://'' upstream of
        None \<Rightarrow> False
      | Some (scheme, rest) \<Rightarrow> scheme \<noteq> [] \<and> trim_matches is_slash rest \<noteq> [])"

definition website_proxy_profile_exists ::
  "website_proxy_profile list \<Rightarrow> website_proxy_profile \<Rightarrow> bool" where
  "website_proxy_profile_exists profiles profile =
     (let path_prefix = normalize_proxy_path_prefix (wpp_path_prefix profile) in
      list_ex (\<lambda>existing. eq_ignore_ascii_case (wpp_site_id existing) (wpp_site_id profile) \<and>
        normalize_proxy_path_prefix (wpp_path_prefix existing) = path_prefix) profiles)"

fun push_profiles ::
  "subscription_proxy_profile list \<Rightarrow> subscription_proxy_profile list \<Rightarrow>
     subscription_proxy_profile list" where
  "push_profiles target [] = target"
| "push_profiles target (p # ps) =
     (if list_ex (\<lambda>existing. eq_ignore_ascii_case (spp_site_id existing) (spp_site_id p)) target
      then push_profiles target ps else push_profiles (target @ [p]) ps)"

fun push_website_profiles ::
  "website_proxy_profile list \<Rightarrow> website_proxy_profile list \<Rightarrow> website_proxy_profile list" where
  "push_website_profiles target [] = target"
| "push_website_profiles target (p # ps) =
     (if website_proxy_profile_exists target p
      then push_website_profiles target ps else push_website_profiles (target @ [p]) ps)"

text \<open>The scalar settings: the source fills what the target leaves empty.\<close>

definition fill_proxy_settings ::
  "subscription_proxy_config \<Rightarrow> subscription_proxy_config \<Rightarrow> subscription_proxy_config" where
  "fill_proxy_settings target source =
     target\<lparr>sp_https_listen := fill_if_empty (sp_https_listen target) (sp_https_listen source),
       sp_http_listen := fill_if_empty (sp_http_listen target) (sp_http_listen source),
       sp_cert_file := fill_if_empty (sp_cert_file target) (sp_cert_file source),
       sp_key_file := fill_if_empty (sp_key_file target) (sp_key_file source),
       sp_certificate_domain :=
         fill_if_empty (sp_certificate_domain target) (sp_certificate_domain source),
       sp_challenge_dir := fill_if_empty (sp_challenge_dir target) (sp_challenge_dir source),
       sp_zerossl := merge_subscription_proxy_zerossl (sp_zerossl target) (sp_zerossl source),
       sp_max_response_bytes :=
         (if sp_max_response_bytes target = 0 then sp_max_response_bytes source
          else sp_max_response_bytes target)\<rparr>"

definition merged_site_id :: "machine_profile_config \<Rightarrow> string \<Rightarrow> string" where
  "merged_site_id profile site_id =
     sanitize_machine_profile_name (first_non_empty (trim site_id) (machine_profile_label profile))"

definition merged_upstream :: "machine_profile_config \<Rightarrow> string \<Rightarrow> string" where
  "merged_upstream profile upstream =
     first_non_empty (trim_end_matches is_slash upstream) (trim_end_matches is_slash (mp_url profile))"

definition merge_subscription_proxy ::
  "subscription_proxy_config \<Rightarrow> machine_profile_config \<Rightarrow> subscription_proxy_config \<Rightarrow>
     subscription_proxy_config" where
  "merge_subscription_proxy target profile source =
     (if \<not> sp_enabled source \<and> sp_profiles source = [] \<and> sp_website_profiles source = [] then target
      else
        let has_explicit = trim (sp_site_id source) \<noteq> [] \<or> trim (sp_upstream_base_url source) \<noteq> [] \<or>
              trim (sp_subscribe_path source) \<noteq> [];
            rows = (if sp_profiles source = [] \<and> (sp_website_profiles source = [] \<or> has_explicit)
              then [\<lparr>spp_site_id = sp_site_id source,
                     spp_upstream_base_url = sp_upstream_base_url source,
                     spp_subscribe_path = sp_subscribe_path source\<rparr>]
              else sp_profiles source);
            subscription_profiles = List.map_filter (\<lambda>row.
              let site_id = merged_site_id profile (spp_site_id row);
                  upstream = merged_upstream profile (spp_upstream_base_url row)
              in if \<not> valid_subscription_proxy_profile site_id upstream then None
                 else Some \<lparr>spp_site_id = site_id, spp_upstream_base_url = upstream,
                   spp_subscribe_path =
                     first_non_empty (trim_matches is_slash (spp_subscribe_path row)) ''s''\<rparr>) rows;
            website_profiles = List.map_filter (\<lambda>row.
              let site_id = merged_site_id profile (wpp_site_id row);
                  upstream = merged_upstream profile (wpp_upstream_base_url row)
              in if \<not> valid_subscription_proxy_profile site_id upstream then None
                 else Some \<lparr>wpp_site_id = site_id, wpp_upstream_base_url = upstream,
                   wpp_path_prefix = normalize_proxy_path_prefix (wpp_path_prefix row)\<rparr>)
              (sp_website_profiles source)
        in if subscription_profiles = [] \<and> website_profiles = [] then target
           else
             let target1 =
               (if \<not> sp_enabled target then
                  target\<lparr>sp_enabled := True,
                    sp_https_listen := trim (sp_https_listen source),
                    sp_http_listen := trim (sp_http_listen source),
                    sp_cert_file := trim (sp_cert_file source),
                    sp_key_file := trim (sp_key_file source),
                    sp_certificate_domain := trim (sp_certificate_domain source),
                    sp_challenge_dir := trim (sp_challenge_dir source),
                    sp_zerossl := sp_zerossl source,
                    sp_allow_http_fallback := sp_allow_http_fallback source,
                    sp_max_response_bytes := sp_max_response_bytes source\<rparr>
                else fill_proxy_settings target source)
             in target1\<lparr>sp_profiles := push_profiles (sp_profiles target1) subscription_profiles,
                  sp_website_profiles :=
                    push_website_profiles (sp_website_profiles target1) website_profiles\<rparr>)"

definition merge_runtime_agent :: "agent_config \<Rightarrow> agent_config \<Rightarrow> agent_config" where
  "merge_runtime_agent target source =
     (let tp = subscription_proxy target; spx = subscription_proxy source in
      if \<not> sp_enabled spx then target
      else if \<not> sp_enabled tp then target\<lparr>subscription_proxy := spx\<rparr>
      else
        let filled = fill_proxy_settings tp spx
        in target\<lparr>subscription_proxy :=
             filled\<lparr>sp_profiles := push_profiles (sp_profiles filled) (sp_profiles spx),
               sp_website_profiles :=
                 push_website_profiles (sp_website_profiles filled) (sp_website_profiles spx)\<rparr>\<rparr>)"

section \<open>Resolving profiles\<close>

definition can_run_subscription_proxy_only :: "agent_config \<Rightarrow> bool" where
  "can_run_subscription_proxy_only agent =
     (let p = subscription_proxy agent in
      if \<not> sp_enabled p then False
      else if valid_subscription_proxy_profile (sp_site_id p) (sp_upstream_base_url p) then True
      else list_ex (\<lambda>r. valid_subscription_proxy_profile (spp_site_id r) (spp_upstream_base_url r))
             (sp_profiles p) \<or>
           list_ex (\<lambda>r. valid_subscription_proxy_profile (wpp_site_id r) (wpp_upstream_base_url r))
             (sp_website_profiles p))"

definition resolve_machine_profile_result ::
  "machine_profile_config \<Rightarrow> machine_nodes_response \<Rightarrow> machine_resolve_result" where
  "resolve_machine_profile_result profile response =
     (let nodes = map (\<lambda>node.
            \<lparr>nc_url = trim_end_matches is_slash (mp_url profile), nc_token = mp_token profile,
             nc_node_id = mpn_id node, nc_machine_id = mp_machine_id profile,
             nc_timeout = mp_timeout profile,
             nc_config_dir = machine_profile_node_config_dir profile (mpn_id node)\<rparr>)
            (filter (\<lambda>node. mpn_id node > 0) (mr_nodes response));
          agent = (case Option.bind (mr_agent response) ma_subscription_proxy of
              None \<Rightarrow> agent_default
            | Some proxy \<Rightarrow> agent_default\<lparr>subscription_proxy :=
                merge_subscription_proxy (subscription_proxy agent_default) profile proxy\<rparr>)
      in \<lparr>mrr_nodes = nodes, mrr_agent = agent,
          mrr_realtime = machine_profile_realtime_of profile response\<rparr>)"

text \<open>The loop over the nodes of one profile; \<open>seen\<close> holds the keys of the nodes so far.\<close>

fun resolve_nodes_loop ::
  "bool \<Rightarrow> string \<Rightarrow> u32 \<Rightarrow> node_config list \<Rightarrow> string btset \<Rightarrow> machine_resolve_summary \<Rightarrow>
     (string btset \<times> machine_resolve_summary) result" where
  "resolve_nodes_loop cont label mid [] seen summary = Ok (seen, summary)"
| "resolve_nodes_loop cont label mid (node # nodes) seen summary =
     (let key = machine_node_key node in
      if bs_contains seen key then
        (let failure = \<lparr>mrf_profile = label, mrf_machine_id = mid,
               mrf_error = ''duplicate machine profile node: '' @ key\<rparr>
         in if \<not> cont then Err (mrf_error failure)
            else resolve_nodes_loop cont label mid nodes seen
              (summary\<lparr>sum_failures := sum_failures summary @ [failure]\<rparr>))
      else resolve_nodes_loop cont label mid nodes (bs_insert key seen)
        (summary\<lparr>sum_nodes := sum_nodes summary @ [node]\<rparr>))"

fun resolve_profiles_loop ::
  "bool \<Rightarrow> machine_profile_input list \<Rightarrow> string btset \<Rightarrow> nat \<Rightarrow> machine_resolve_summary \<Rightarrow>
     (nat \<times> machine_resolve_summary) result" where
  "resolve_profiles_loop cont [] seen successes summary = Ok (successes, summary)"
| "resolve_profiles_loop cont (inp # inputs) seen successes summary =
     (let profile_label = machine_profile_label (mpi_profile inp) in
      case mpi_result inp of
        Inl error \<Rightarrow>
          if \<not> cont then Err error
          else resolve_profiles_loop cont inputs seen successes
            (summary\<lparr>sum_failures := sum_failures summary @
              [\<lparr>mrf_profile = profile_label, mrf_machine_id = mp_machine_id (mpi_profile inp),
                mrf_error = error\<rparr>]\<rparr>)
      | Inr response \<Rightarrow>
          let resolved = resolve_machine_profile_result (mpi_profile inp) response;
              summary1 = summary\<lparr>sum_agent := merge_runtime_agent (sum_agent summary) (mrr_agent resolved)\<rparr>;
              summary2 = (case mrr_realtime resolved of
                  Some r \<Rightarrow> summary1\<lparr>sum_realtime := sum_realtime summary1 @ [r]\<rparr>
                | None \<Rightarrow> summary1)
          in and_then (resolve_nodes_loop cont profile_label (mp_machine_id (mpi_profile inp))
               (mrr_nodes resolved) seen summary2)
             (\<lambda>(seen', summary'). resolve_profiles_loop cont inputs seen' (Suc successes) summary'))"

definition resolve_machine_profiles ::
  "machine_profile_input list \<Rightarrow> bool \<Rightarrow> machine_resolve_summary result" where
  "resolve_machine_profiles inputs continue_on_error =
     and_then (resolve_profiles_loop continue_on_error inputs [] 0 summary_default)
     (\<lambda>(successes, summary).
        if sum_nodes summary = [] then
          (if successes > 0 \<and> can_run_subscription_proxy_only (sum_agent summary)
           then Ok (summary\<lparr>sum_subscription_proxy_only := True\<rparr>)
           else if successes > 0 then Ok summary
           else if sum_failures summary \<noteq> []
           then Err (''no machine nodes resolved: '' @
             join ''; '' (map (\<lambda>f. mrf_profile f @ '': '' @ mrf_error f) (sum_failures summary)))
           else Err ''no machine nodes resolved'')
        else Ok summary)"

section \<open>Lemmas on the loops\<close>

definition keys_ok :: "string btset \<Rightarrow> machine_resolve_summary \<Rightarrow> bool" where
  "keys_ok seen summary \<longleftrightarrow>
     set seen = machine_node_key ` set (sum_nodes summary) \<and>
     distinct (map machine_node_key (sum_nodes summary))"

lemma resolve_nodes_loop_inv:
  assumes "resolve_nodes_loop cont l m nodes seen s = Inr (seen', s')" "keys_ok seen s"
  shows "keys_ok seen' s' \<and>
    set (sum_nodes s) \<subseteq> set (sum_nodes s') \<and> set (sum_nodes s') \<subseteq> set (sum_nodes s) \<union> set nodes \<and>
    machine_node_key ` set nodes \<subseteq> machine_node_key ` set (sum_nodes s') \<and>
    (\<not> cont \<longrightarrow> sum_failures s' = sum_failures s)"
  using assms
proof (induction nodes arbitrary: seen s)
  case (Cons n nodes)
  show ?case
  proof (cases "machine_node_key n \<in> set seen")
    case True
    with Cons.prems obtain f where cont: "cont"
      and rec: "resolve_nodes_loop cont l m nodes seen (s\<lparr>sum_failures := f\<rparr>) = Inr (seen', s')"
      by (auto simp: Let_def bs_contains_def split: if_splits)
    have "keys_ok seen (s\<lparr>sum_failures := f\<rparr>)" using Cons.prems(2) by (simp add: keys_ok_def)
    note IH = Cons.IH [OF rec this]
    have "machine_node_key n \<in> machine_node_key ` set (sum_nodes s)"
      using True Cons.prems(2) by (simp add: keys_ok_def)
    then have "machine_node_key n \<in> machine_node_key ` set (sum_nodes s')"
      using IH by auto
    with IH cont show ?thesis by auto
  next
    case False
    let ?s = "s\<lparr>sum_nodes := sum_nodes s @ [n]\<rparr>"
    have rec: "resolve_nodes_loop cont l m nodes (bs_insert (machine_node_key n) seen) ?s = Inr (seen', s')"
      using False Cons.prems(1) by (simp add: Let_def bs_contains_def)
    have "keys_ok (bs_insert (machine_node_key n) seen) ?s"
      using Cons.prems(2) False by (auto simp: keys_ok_def)
    from Cons.IH [OF rec this] show ?thesis by auto
  qed
qed simp

lemma resolve_nodes_loop_total: "is_ok (resolve_nodes_loop True l m nodes seen s)"
  by (induction nodes arbitrary: seen s) (auto simp: Let_def)

definition input_nodes :: "machine_profile_input \<Rightarrow> node_config list" where
  "input_nodes inp =
     (case mpi_result inp of
        Inl e \<Rightarrow> []
      | Inr r \<Rightarrow> mrr_nodes (resolve_machine_profile_result (mpi_profile inp) r))"

lemma resolve_profiles_loop_ConsE [consumes 1, case_names failed resolved]:
  assumes "resolve_profiles_loop cont (inp # inputs) seen k s = Inr (k', s')"
  obtains e f where "mpi_result inp = Inl e" "cont"
      "resolve_profiles_loop cont inputs seen k (s\<lparr>sum_failures := f\<rparr>) = Inr (k', s')"
  | r a rt seen1 s1 where "mpi_result inp = Inr r"
      "resolve_nodes_loop cont (machine_profile_label (mpi_profile inp)) (mp_machine_id (mpi_profile inp))
         (input_nodes inp) seen (s\<lparr>sum_agent := a, sum_realtime := rt\<rparr>) = Inr (seen1, s1)"
      "resolve_profiles_loop cont inputs seen1 (Suc k) s1 = Inr (k', s')"
proof (cases "mpi_result inp")
  case (Inl e)
  with assms that(1) show ?thesis by (auto simp: Let_def split: if_splits)
next
  case (Inr r)
  let ?res = "resolve_machine_profile_result (mpi_profile inp) r"
  let ?a = "merge_runtime_agent (sum_agent s) (mrr_agent ?res)"
  let ?rt = "case mrr_realtime ?res of Some x \<Rightarrow> sum_realtime s @ [x] | None \<Rightarrow> sum_realtime s"
  have "(case mrr_realtime ?res of
       Some x \<Rightarrow> s\<lparr>sum_agent := ?a\<rparr>\<lparr>sum_realtime := sum_realtime (s\<lparr>sum_agent := ?a\<rparr>) @ [x]\<rparr>
     | None \<Rightarrow> s\<lparr>sum_agent := ?a\<rparr>) = s\<lparr>sum_agent := ?a, sum_realtime := ?rt\<rparr>"
    by (simp split: option.splits)
  with assms Inr obtain seen1 s1 where
    "resolve_nodes_loop cont (machine_profile_label (mpi_profile inp)) (mp_machine_id (mpi_profile inp))
       (input_nodes inp) seen (s\<lparr>sum_agent := ?a, sum_realtime := ?rt\<rparr>) = Inr (seen1, s1)"
    "resolve_profiles_loop cont inputs seen1 (Suc k) s1 = Inr (k', s')"
    by (auto simp: Let_def result_simps input_nodes_def)
  with that(2) [OF Inr] show ?thesis by blast
qed

lemma resolve_profiles_loop_inv:
  assumes "resolve_profiles_loop cont inputs seen k s = Inr (k', s')" "keys_ok seen s"
  shows "distinct (map machine_node_key (sum_nodes s')) \<and>
    set (sum_nodes s) \<subseteq> set (sum_nodes s') \<and>
    set (sum_nodes s') \<subseteq> set (sum_nodes s) \<union> (\<Union>inp \<in> set inputs. set (input_nodes inp)) \<and>
    (\<forall>inp \<in> set inputs. machine_node_key ` set (input_nodes inp) \<subseteq> machine_node_key ` set (sum_nodes s')) \<and>
    k' = k + length (filter (\<lambda>inp. is_ok (mpi_result inp)) inputs) \<and>
    (\<not> cont \<longrightarrow> sum_failures s' = sum_failures s \<and> (\<forall>inp \<in> set inputs. is_ok (mpi_result inp)))"
  using assms
proof (induction inputs arbitrary: seen k s)
  case (Cons inp inputs)
  from Cons.prems(1) show ?case
  proof (cases rule: resolve_profiles_loop_ConsE)
    case (failed e f)
    have "keys_ok seen (s\<lparr>sum_failures := f\<rparr>)" using Cons.prems(2) by (simp add: keys_ok_def)
    from Cons.IH [OF failed(3) this] failed show ?thesis by (auto simp: input_nodes_def)
  next
    case (resolved r a rt seen1 s1)
    let ?s = "s\<lparr>sum_agent := a, sum_realtime := rt\<rparr>"
    have "keys_ok seen ?s" using Cons.prems(2) by (simp add: keys_ok_def)
    note inv = resolve_nodes_loop_inv [OF resolved(2) this]
    note IH = Cons.IH [OF resolved(3) conjunct1 [OF inv]]
    have "machine_node_key ` set (sum_nodes s1) \<subseteq> machine_node_key ` set (sum_nodes s')"
      using IH by blast
    with inv have "machine_node_key ` set (input_nodes inp) \<subseteq> machine_node_key ` set (sum_nodes s')"
      by blast
    with IH inv resolved(1) show ?thesis by auto
  qed
qed (auto simp: keys_ok_def)

lemma resolve_profiles_loop_total: "is_ok (resolve_profiles_loop True inputs seen k s)"
proof (induction inputs arbitrary: seen k s)
  case (Cons inp inputs)
  have nodes: "\<exists>seen' s'. resolve_nodes_loop True l m ns seen s = Inr (seen', s')" for l m ns s
    using resolve_nodes_loop_total by (metis is_ok_iff surj_pair)
  show ?case
  proof (cases "mpi_result inp")
    case (Inl e)
    with Cons show ?thesis by (simp add: Let_def)
  next
    case (Inr r)
    then show ?thesis
      using Cons nodes by (fastforce simp: Let_def is_ok_and_then)
  qed
qed simp

lemma keys_ok_default: "keys_ok [] summary_default"
  by (simp add: keys_ok_def summary_default_def)

lemma resolve_machine_profiles_loop:
  assumes "resolve_machine_profiles inputs cont = Inr s"
  obtains k s0 where "resolve_profiles_loop cont inputs [] 0 summary_default = Inr (k, s0)"
    "sum_nodes s = sum_nodes s0" "sum_failures s = sum_failures s0"
  using assms by (auto simp: resolve_machine_profiles_def result_simps split: if_splits)

section \<open>Lemmas on names\<close>

lemma sanitize_name_loop_allowed:
  "\<forall>c \<in> set cs. allowed_name_char c \<Longrightarrow> sanitize_name_loop cs out d = out @ cs"
  by (induction cs arbitrary: out d) auto

lemma sanitize_name_loop_set:
  "\<forall>c \<in> set out. allowed_name_char c \<Longrightarrow> c \<in> set (sanitize_name_loop cs out d) \<Longrightarrow> allowed_name_char c"
proof (induction cs arbitrary: out d)
  case (Cons a cs)
  have "allowed_name_char (CHR ''-'')" by (simp add: allowed_name_char_def)
  then show ?case
    using Cons.IH [of "out @ [a]" False] Cons.IH [of "out @ ''-''" True] Cons.IH [of out d] Cons.prems
    by (auto split: if_splits)
qed simp

lemma allowed_name_plain: "allowed_name_char c \<Longrightarrow> \<not> is_ws1 c \<and> char_code c < 128"
  by (auto simp: allowed_name_char_def is_ascii_alphanumeric_def is_ascii_digit_def
      is_ascii_uppercase_def is_ascii_lowercase_def is_ws1_def char_code_def)

lemma trim_matches_idem: "trim_matches P (trim_matches P s) = trim_matches P s"
proof -
  let ?t = "trim_matches P s"
  have "dropWhile P ?t = ?t"
  proof (cases ?t)
    case (Cons c t)
    obtain w where w: "dropWhile P s = ?t @ w"
      unfolding trim_matches_def trim_end_matches_def trim_start_matches_def
      by (metis rev_append rev_rev_ident takeWhile_dropWhile_id)
    with Cons have "dropWhile P s = c # t @ w" by simp
    then have "\<not> P c" by (metis hd_dropWhile list.distinct(1) list.sel(1))
    with Cons show ?thesis by simp
  qed simp
  then have "trim_matches P ?t = trim_end_matches P ?t"
    by (simp add: trim_matches_def trim_start_matches_def)
  then show ?thesis by (simp add: trim_matches_def)
qed

section \<open>Lemmas on the merge\<close>

definition site_ids_distinct :: "subscription_proxy_config \<Rightarrow> bool" where
  "site_ids_distinct p \<longleftrightarrow>
     distinct (map (\<lambda>r. to_ascii_lowercase (spp_site_id r)) (sp_profiles p)) \<and>
     distinct (map (\<lambda>r. (to_ascii_lowercase (wpp_site_id r), normalize_proxy_path_prefix (wpp_path_prefix r)))
       (sp_website_profiles p))"

lemma push_profiles_distinct:
  "distinct (map (\<lambda>r. to_ascii_lowercase (spp_site_id r)) t) \<Longrightarrow>
     distinct (map (\<lambda>r. to_ascii_lowercase (spp_site_id r)) (push_profiles t ps))"
proof (induction ps arbitrary: t)
  case (Cons p ps)
  show ?case
    using Cons.IH [of t] Cons.IH [of "t @ [p]"] Cons.prems
    by (force simp: list_ex_iff eq_ignore_ascii_case_def)
qed simp

lemma push_website_profiles_distinct:
  "distinct (map (\<lambda>r. (to_ascii_lowercase (wpp_site_id r), normalize_proxy_path_prefix (wpp_path_prefix r))) t) \<Longrightarrow>
     distinct (map (\<lambda>r. (to_ascii_lowercase (wpp_site_id r), normalize_proxy_path_prefix (wpp_path_prefix r)))
       (push_website_profiles t ps))"
proof (induction ps arbitrary: t)
  case (Cons p ps)
  show ?case
    using Cons.IH [of t] Cons.IH [of "t @ [p]"] Cons.prems
    by (force simp: website_proxy_profile_exists_def Let_def list_ex_iff eq_ignore_ascii_case_def)
qed simp

lemma prefix_push_profiles: "prefix t (push_profiles t ps)"
proof (induction ps arbitrary: t)
  case (Cons p ps)
  show ?case using Cons.IH [of t] Cons.IH [of "t @ [p]"] by (auto dest: append_prefixD)
qed simp

lemma prefix_push_website_profiles: "prefix t (push_website_profiles t ps)"
proof (induction ps arbitrary: t)
  case (Cons p ps)
  show ?case using Cons.IH [of t] Cons.IH [of "t @ [p]"] by (auto dest: append_prefixD)
qed simp

text \<open>A profile whose panel names one node, on which the properties are evaluated.\<close>

definition sample_input :: machine_profile_input where
  "sample_input =
     \<lparr>mpi_profile = \<lparr>mp_name = ''m'', mp_url = ''https://p'', mp_token = ''t'', mp_machine_id = 3,
        mp_timeout = 0, mp_config_dir = []\<rparr>,
      mpi_result = Ok \<lparr>mr_nodes = [\<lparr>mpn_id = 9, mpn_code = [], mpn_node_type = [], mpn_name = [],
        mpn_updated_at = JNull\<rparr>], mr_base_config = None, mr_agent = None\<rparr>\<rparr>"

lemma sample_inputs_resolve:
  "\<exists>s. resolve_machine_profiles [sample_input, sample_input] True = Ok s \<and> length (sum_nodes s) = 1"
proof -
  have "(case resolve_machine_profiles [sample_input, sample_input] True of Inr s \<Rightarrow> length (sum_nodes s) = 1 | Inl _ \<Rightarrow> False)"
    by code_simp
  then show ?thesis by (simp split: sum.splits)
qed

section \<open>Properties\<close>

text \<open>
  the resolved nodes have pairwise different keys (site, machine, node), every node
  any answering profile names is among them under its key, and none is made up.
\<close>

lemma resolve_machine_profiles_nodes:
  assumes "resolve_machine_profiles inputs cont = Ok s"
  shows "distinct (map machine_node_key (sum_nodes s)) \<and>
    machine_node_key ` set (sum_nodes s) =
      (\<Union>inp \<in> set inputs. machine_node_key ` set (input_nodes inp)) \<and>
    set (sum_nodes s) \<subseteq> (\<Union>inp \<in> set inputs. set (input_nodes inp))"
proof -
  from assms obtain k s0 where l: "resolve_profiles_loop cont inputs [] 0 summary_default = Inr (k, s0)"
    and n: "sum_nodes s = sum_nodes s0"
    by (rule resolve_machine_profiles_loop)
  have "sum_nodes summary_default = []" by (simp add: summary_default_def)
  with resolve_profiles_loop_inv [OF l keys_ok_default] n show ?thesis by fastforce
qed

lemma resolve_machine_profiles_nodes_witness:
  "\<exists>s. resolve_machine_profiles [sample_input, sample_input] True = Ok s \<and> length (sum_nodes s) = 1 \<and>
     distinct (map machine_node_key (sum_nodes s))"
  using sample_inputs_resolve resolve_machine_profiles_nodes by blast

text \<open>
  when errors are tolerated, resolution fails only if no profile answered at all; when
  they are not, success means that every profile answered and nothing failed.
\<close>

lemma resolve_machine_profiles_errors:
  "(is_ok (resolve_machine_profiles inputs True) \<longleftrightarrow> (\<exists>inp \<in> set inputs. is_ok (mpi_result inp))) \<and>
   (\<forall>s. resolve_machine_profiles inputs False = Ok s \<longrightarrow>
      sum_failures s = [] \<and> (\<forall>inp \<in> set inputs. is_ok (mpi_result inp)))"
proof
  obtain k s0 where l: "resolve_profiles_loop True inputs [] 0 summary_default = Inr (k, s0)"
    using resolve_profiles_loop_total by (metis is_ok_iff surj_pair)
  note inv = resolve_profiles_loop_inv [OF l keys_ok_default]
  have k: "0 < k \<longleftrightarrow> (\<exists>inp \<in> set inputs. is_ok (mpi_result inp))"
    using inv by (auto simp: filter_empty_conv)
  have "sum_nodes s0 \<noteq> [] \<longrightarrow> 0 < k"
    using inv unfolding k by (auto simp: summary_default_def input_nodes_def neq_Nil_conv split: sum.splits)
      (metis UN_E empty_iff is_ok.simps(2) list.set(1) list.set_intros(1) subsetD sum.exhaust)
  then show "is_ok (resolve_machine_profiles inputs True) \<longleftrightarrow> (\<exists>inp \<in> set inputs. is_ok (mpi_result inp))"
    unfolding k [symmetric] by (auto simp: resolve_machine_profiles_def l split: if_splits)
next
  show "\<forall>s. resolve_machine_profiles inputs False = Ok s \<longrightarrow>
      sum_failures s = [] \<and> (\<forall>inp \<in> set inputs. is_ok (mpi_result inp))"
  proof (intro allI impI)
    fix s assume "resolve_machine_profiles inputs False = Ok s"
    then obtain k s0 where l: "resolve_profiles_loop False inputs [] 0 summary_default = Inr (k, s0)"
      and f: "sum_failures s = sum_failures s0"
      by (rule resolve_machine_profiles_loop)
    have "sum_failures summary_default = []" by (simp add: summary_default_def)
    with resolve_profiles_loop_inv [OF l keys_ok_default] f
    show "sum_failures s = [] \<and> (\<forall>inp \<in> set inputs. is_ok (mpi_result inp))" by simp
  qed
qed

lemma resolve_machine_profiles_errors_witness:
  "is_ok (resolve_machine_profiles [sample_input, sample_input\<lparr>mpi_result := Err ''down''\<rparr>] True) \<and>
   \<not> is_ok (resolve_machine_profiles [sample_input, sample_input\<lparr>mpi_result := Err ''down''\<rparr>] False)"
proof -
  have "is_ok (mpi_result sample_input)" by (simp add: sample_input_def)
  then show ?thesis
    using resolve_machine_profiles_errors [of "[sample_input, sample_input\<lparr>mpi_result := Err ''down''\<rparr>]"]
    by (auto simp: is_ok_iff)
qed

text \<open>
  C24: a sanitised profile name is not empty, holds only ASCII letters, digits, \<open>.\<close>,
  \<open>_\<close> and \<open>-\<close> (no path separator), and sanitising it again changes nothing.
\<close>

lemma sanitize_machine_profile_name_safe:
  "sanitize_machine_profile_name name \<noteq> [] \<and>
   (\<forall>c \<in> set (sanitize_machine_profile_name name). allowed_name_char c) \<and>
   sanitize_machine_profile_name (sanitize_machine_profile_name name) = sanitize_machine_profile_name name"
proof -
  let ?r = "sanitize_machine_profile_name name"
  have m: "\<forall>c \<in> set ''machine''. allowed_name_char c"
    by (simp add: allowed_name_char_def is_ascii_alphanumeric_def is_ascii_lowercase_def char_code_def)
  have "allowed_name_char c" if "c \<in> set (trim_matches P (sanitize_name_loop (trim name) [] False))" for c P
  proof -
    from that have "c \<in> set (sanitize_name_loop (trim name) [] False)"
      by (rule subsetD [OF trim_matches_subset])
    then show ?thesis by (rule sanitize_name_loop_set [rotated]) simp
  qed
  with m have ok: "\<forall>c \<in> set ?r. allowed_name_char c"
    by (simp add: sanitize_machine_profile_name_def Let_def)
  have "trim ?r = ?r" using ok allowed_name_plain by (intro trim_plain) blast
  then have "sanitize_name_loop (trim ?r) [] False = ?r"
    using sanitize_name_loop_allowed [OF ok, of "[]" False] by simp
  moreover have "trim_matches (\<lambda>c. c = CHR ''-'') ?r = ?r"
  proof -
    let ?t = "trim_matches (\<lambda>c. c = CHR ''-'') (sanitize_name_loop (trim name) [] False)"
    have r: "?r = (if ?t = [] then ''machine'' else ?t)"
      by (simp only: sanitize_machine_profile_name_def Let_def)
    have "trim_matches (\<lambda>c. c = CHR ''-'') ''machine'' = ''machine''"
      by (simp add: trim_matches_def trim_start_matches_def trim_end_matches_def)
    then show ?thesis unfolding r by (auto simp only: trim_matches_idem split: if_split)
  qed
  moreover have "?r \<noteq> []" by (simp add: sanitize_machine_profile_name_def Let_def)
  ultimately have "sanitize_machine_profile_name ?r = ?r"
    unfolding sanitize_machine_profile_name_def [of ?r] by simp
  with ok \<open>?r \<noteq> []\<close> show ?thesis by blast
qed

lemma sanitize_machine_profile_name_safe_witness:
  "sanitize_machine_profile_name ''a/../b'' = ''a-..-b'' \<and>
   CHR ''/'' \<notin> set (sanitize_machine_profile_name ''a/../b'')"
proof -
  have "\<not> allowed_name_char (CHR ''/'')" "sanitize_machine_profile_name ''a/../b'' = ''a-..-b''"
    by code_simp+
  then show ?thesis using sanitize_machine_profile_name_safe [of "''a/../b''"] by metis
qed

text \<open>
  merging the proxy settings of another profile keeps the profiles already there at
  the front and unchanged, and never makes two profiles share a site id (in any ASCII
  case) or a site id and path prefix.
\<close>

lemma merge_runtime_agent_keeps:
  assumes "site_ids_distinct (subscription_proxy target)" "site_ids_distinct (subscription_proxy source)"
  shows "site_ids_distinct (subscription_proxy (merge_runtime_agent target source)) \<and>
    (sp_enabled (subscription_proxy target) \<longrightarrow>
      sp_enabled (subscription_proxy (merge_runtime_agent target source)) \<and>
      prefix (sp_profiles (subscription_proxy target))
        (sp_profiles (subscription_proxy (merge_runtime_agent target source))) \<and>
      prefix (sp_website_profiles (subscription_proxy target))
        (sp_website_profiles (subscription_proxy (merge_runtime_agent target source))))"
  using assms
  by (auto simp: merge_runtime_agent_def Let_def fill_proxy_settings_def site_ids_distinct_def
      push_profiles_distinct push_website_profiles_distinct prefix_push_profiles
      prefix_push_website_profiles)

lemma merge_runtime_agent_keeps_witness:
  "site_ids_distinct subscription_proxy_default \<and>
   site_ids_distinct (subscription_proxy (merge_runtime_agent agent_default agent_default))"
proof -
  have "site_ids_distinct subscription_proxy_default" "subscription_proxy agent_default = subscription_proxy_default"
    by (simp_all add: site_ids_distinct_def subscription_proxy_default_def agent_default_def)
  then show ?thesis using merge_runtime_agent_keeps [of agent_default agent_default] by simp
qed

end
