(* ===== verification/Upgrade.thy ===== *)
theory Upgrade
  imports Machine
begin

text \<open>
  Self-upgrade (\<open>src/src/upgrade.rs\<close>): the manager that accepts an upgrade command of the
  panel, launches it once and tracks its status; the release the command stands for; and the
  shell script and launcher invocation that carry it out. The executor that runs the
  launcher is a parameter: a function from its own state and the plan to a result and its
  next state. Whether \<open>systemd-run\<close> is on the \<open>PATH\<close> is a parameter as well.
\<close>

section \<open>Data\<close>

record upgrade_status =
  us_id :: string
  us_status :: string
  us_component :: string
  us_target_version :: string
  us_error :: string
  us_started_at :: int
  us_finished_at :: int
  us_updated_at :: int

record upgrade_launch_plan =
  lp_target_version :: string
  lp_command :: string
  lp_args :: "string list"
  lp_log_path :: "string option"

record release_upgrade_spec =
  rs_name :: string
  rs_asset_name :: string
  rs_owner :: string
  rs_repository :: string
  rs_binary :: string
  rs_install_dir :: string
  rs_service_name :: string
  rs_platform :: string

record release_source =
  src_source :: string
  src_base_url :: string
  src_machine_id :: string
  src_machine_token :: string

datatype upgrade_component = NodeComponent | CoreComponent

record upgrade_manager =
  um_status :: "upgrade_status option"

text \<open>\<open>MemoryUpgradeExecutor\<close>: records the launches and fails with a fixed error, if any.\<close>

record memory_upgrade_executor =
  launches :: "upgrade_launch_plan list"
  fail_with :: "string option"

definition DEFAULT_RELEASE_OWNER :: string where
  "DEFAULT_RELEASE_OWNER = ''keli-123456''"

definition DEFAULT_RELEASE_PLATFORM :: string where
  "DEFAULT_RELEASE_PLATFORM = ''linux-x86_64''"

section \<open>Versions, quoting and names\<close>

definition version_char :: "char \<Rightarrow> bool" where
  "version_char c \<longleftrightarrow> is_ascii_alphanumeric c \<or> c = CHR ''.'' \<or> c = CHR ''_'' \<or> c = CHR ''-''"

definition valid_kelinode_version :: "string \<Rightarrow> bool" where
  "valid_kelinode_version version0 =
     (let version = trim version0 in
      case version of
        [] \<Rightarrow> False
      | first # _ \<Rightarrow>
          if \<not> is_ascii_alphanumeric first \<and> first \<noteq> CHR ''v'' \<and> first \<noteq> CHR ''V'' then False
          else length version \<le> 64 \<and> list_all version_char version)"

definition trim_version_prefix :: "string \<Rightarrow> string" where
  "trim_version_prefix value =
     trim_start_matches (\<lambda>c. c = CHR ''v'' \<or> c = CHR ''V'') (trim value)"

definition versions_equal :: "string \<Rightarrow> string \<Rightarrow> bool" where
  "versions_equal current target \<longleftrightarrow> trim_version_prefix current = trim_version_prefix target"

fun sanitize_unit_loop :: "string \<Rightarrow> string \<Rightarrow> string" where
  "sanitize_unit_loop [] output = output"
| "sanitize_unit_loop (c # cs) output =
     (if version_char c then sanitize_unit_loop cs (output @ [c])
      else if \<not> (output \<noteq> [] \<and> last output = CHR ''-'') then sanitize_unit_loop cs (output @ ''-'')
      else sanitize_unit_loop cs output)"

definition sanitize_systemd_unit_part :: "string \<Rightarrow> string" where
  "sanitize_systemd_unit_part value =
     (let output = trim_matches (\<lambda>c. c = CHR ''.'' \<or> c = CHR ''-'') (sanitize_unit_loop value [])
      in if output = [] then ''latest'' else output)"

abbreviation squote :: char where
  "squote \<equiv> CHR 0x27"

abbreviation dquote :: char where
  "dquote \<equiv> CHR 0x22"

definition shell_quote :: "string \<Rightarrow> string" where
  "shell_quote value =
     [squote] @
     concat (map (\<lambda>c. if c = squote then [squote, dquote, squote, dquote, squote] else [c]) value) @
     [squote]"

definition truncate_upgrade_error :: "string \<Rightarrow> string" where
  "truncate_upgrade_error value0 =
     (let value = trim value0 in if length value \<le> 1000 then value else take_chars 1000 value)"

section \<open>Releases\<close>

definition native_node :: release_upgrade_spec where
  "native_node =
     \<lparr>rs_name = ''kelinode-rs'', rs_asset_name = ''keli-native-node'',
      rs_owner = DEFAULT_RELEASE_OWNER, rs_repository = ''kelinode-rs'', rs_binary = ''kelinode'',
      rs_install_dir = ''/usr/local/kelinode'', rs_service_name = ''kelinode'',
      rs_platform = DEFAULT_RELEASE_PLATFORM\<rparr>"

definition native_core :: release_upgrade_spec where
  "native_core =
     \<lparr>rs_name = ''keli-core-rs'', rs_asset_name = ''keli-core-rs'',
      rs_owner = DEFAULT_RELEASE_OWNER, rs_repository = ''keli-core-rs'', rs_binary = ''keli-core-rs'',
      rs_install_dir = ''/usr/local/kelinode'', rs_service_name = ''kelinode'',
      rs_platform = DEFAULT_RELEASE_PLATFORM\<rparr>"

definition component_from_command_value :: "string \<Rightarrow> upgrade_component result" where
  "component_from_command_value value0 =
     (let value = to_ascii_lowercase (trim value0) in
      if value = [] \<or> value = ''node'' \<or> value = ''agent'' \<or> value = ''v2node'' \<or>
         value = ''kelinode'' \<or> value = ''kelinode-rs'' then Ok NodeComponent
      else if value = ''core'' \<or> value = ''keli-core'' \<or> value = ''keli-core-rs'' then Ok CoreComponent
      else Err ''invalid upgrade component'')"

fun component_status_name :: "upgrade_component \<Rightarrow> string" where
  "component_status_name NodeComponent = ''node''"
| "component_status_name CoreComponent = ''core''"

fun component_release_spec :: "upgrade_component \<Rightarrow> release_upgrade_spec" where
  "component_release_spec NodeComponent = native_node"
| "component_release_spec CoreComponent = native_core"

definition asset_prefix :: "release_upgrade_spec \<Rightarrow> string \<Rightarrow> string" where
  "asset_prefix spec target_version =
     rs_asset_name spec @ ''-'' @ target_version @ ''-'' @ rs_platform spec"

definition release_asset_url :: "release_upgrade_spec \<Rightarrow> string \<Rightarrow> string \<Rightarrow> string" where
  "release_asset_url spec target_version sfx =
     ''https://github.com/'' @ rs_owner spec @ ''/'' @ rs_repository spec @ ''/releases/download/'' @
     target_version @ ''/'' @ asset_prefix spec target_version @ sfx"

definition release_source_from_command :: "machine_upgrade_command \<Rightarrow> release_source" where
  "release_source_from_command command =
     \<lparr>src_source = trim (uc_release_source command),
      src_base_url = trim_end_matches is_slash (trim (uc_release_base_url command)),
      src_machine_id = trim (ra_machine_id (uc_release_auth command)),
      src_machine_token = trim (ra_machine_token (uc_release_auth command))\<rparr>"

definition is_panel_like :: "release_source \<Rightarrow> bool" where
  "is_panel_like source \<longleftrightarrow> src_base_url source \<noteq> []"

definition source_query :: "release_source \<Rightarrow> string" where
  "source_query source =
     (if src_machine_id source = [] \<or> src_machine_token source = [] then []
      else ''?machine_id='' @ src_machine_id source @ ''&machine_token='' @ src_machine_token source)"

definition asset_url :: "release_source \<Rightarrow> release_upgrade_spec \<Rightarrow> string \<Rightarrow> string \<Rightarrow> string" where
  "asset_url source spec target_version sfx =
     (if \<not> is_panel_like source then release_asset_url spec target_version sfx
      else
        let endpoint = (if sfx = ''.manifest.json'' then ''manifest.json'' else ''archive.tar.gz'')
        in src_base_url source @ ''/'' @ rs_name spec @ ''/'' @ target_version @ ''/'' @
           rs_platform spec @ ''/'' @ endpoint @ source_query source)"

section \<open>The script and the launcher\<close>

text \<open>The lines that bind the parameters of the script, each value quoted.\<close>

definition script_bindings ::
  "string \<Rightarrow> release_upgrade_spec \<Rightarrow> release_source \<Rightarrow> string list" where
  "script_bindings target_version spec source =
     [
      ''set -eu'',
      ''target_version='' @ shell_quote (target_version),
      ''component='' @ shell_quote (rs_name spec),
      ''binary_name='' @ shell_quote (rs_binary spec),
      ''asset_prefix='' @ shell_quote (asset_prefix spec target_version),
      ''manifest_url='' @ shell_quote (asset_url source spec target_version ''.manifest.json''),
      ''archive_url='' @ shell_quote (asset_url source spec target_version ''.tar.gz''),
      ''install_dir='' @ shell_quote (rs_install_dir spec),
      ''service_name='' @ shell_quote (rs_service_name spec)]"

text \<open>The fixed lines: backup, download, checksum, install, version check, rollback.\<close>

definition script_body :: "string list" where
  "script_body =
     [
      ''work_dir=$(mktemp -d '' @ [CHR 0x22] @ ''/tmp/${component}.upgrade.XXXXXX'' @ [CHR 0x22] @ '')'',
      ''cleanup() { rm -rf '' @ [CHR 0x22] @ ''$work_dir'' @ [CHR 0x22] @ ''; }'',
      ''trap cleanup EXIT'',
      ''backup_dir='' @ [CHR 0x22] @ ''${install_dir}.backup.${component}.${target_version}.$(date +%Y%m%d%H%M%S)'' @ [CHR 0x22],
      ''restore_backup() {'',
      ''  if [ -d '' @ [CHR 0x22] @ ''$backup_dir'' @ [CHR 0x22] @ '' ]; then'',
      ''    rm -rf '' @ [CHR 0x22] @ ''$install_dir'' @ [CHR 0x22],
      ''    mv '' @ [CHR 0x22] @ ''$backup_dir'' @ [CHR 0x22] @ '' '' @ [CHR 0x22] @ ''$install_dir'' @ [CHR 0x22],
      ''    restart_service || true'',
      ''  fi'',
      ''}'',
      ''restart_service() {'',
      ''  if [ -n '' @ [CHR 0x22] @ ''$service_name'' @ [CHR 0x22] @ '' ] && command -v systemctl >/dev/null 2>&1; then'',
      ''    systemctl restart '' @ [CHR 0x22] @ ''$service_name'' @ [CHR 0x22] @ '' >/dev/null 2>&1 && return 0'',
      ''  fi'',
      ''  if [ -n '' @ [CHR 0x22] @ ''$service_name'' @ [CHR 0x22] @ '' ] && command -v service >/dev/null 2>&1; then'',
      ''    service '' @ [CHR 0x22] @ ''$service_name'' @ [CHR 0x22] @ '' restart >/dev/null 2>&1 && return 0'',
      ''  fi'',
      ''  return 0'',
      ''}'',
      ''if ! command -v curl >/dev/null 2>&1; then exit 1; fi'',
      ''if ! command -v tar >/dev/null 2>&1; then exit 1; fi'',
      ''if ! command -v sha256sum >/dev/null 2>&1; then exit 1; fi'',
      ''if [ -d '' @ [CHR 0x22] @ ''$install_dir'' @ [CHR 0x22] @ '' ]; then'',
      ''  cp -a '' @ [CHR 0x22] @ ''$install_dir'' @ [CHR 0x22] @ '' '' @ [CHR 0x22] @ ''$backup_dir'' @ [CHR 0x22],
      ''fi'',
      ''mkdir -p '' @ [CHR 0x22] @ ''$install_dir'' @ [CHR 0x22],
      ''manifest_file='' @ [CHR 0x22] @ ''$work_dir/${asset_prefix}.manifest.json'' @ [CHR 0x22],
      ''archive_file='' @ [CHR 0x22] @ ''$work_dir/${asset_prefix}.tar.gz'' @ [CHR 0x22],
      ''if ! curl -fsSL '' @ [CHR 0x22] @ ''$manifest_url'' @ [CHR 0x22] @ '' -o '' @ [CHR 0x22] @ ''$manifest_file'' @ [CHR 0x22] @ ''; then restore_backup; exit 1; fi'',
      ''manifest_sha=$(sed -n '' @ [CHR 0x27] @ ''s/.*'' @ [CHR 0x22] @ ''sha256'' @ [CHR 0x22] @ ''[[:space:]]*:[[:space:]]*'' @ [CHR 0x22] @ [CHR 0x5C] @ ''([0-9a-fA-F]'' @ [CHR 0x5C] @ ''{64'' @ [CHR 0x5C] @ ''}'' @ [CHR 0x5C] @ '')'' @ [CHR 0x22] @ ''.*/'' @ [CHR 0x5C] @ ''1/p'' @ [CHR 0x27] @ '' '' @ [CHR 0x22] @ ''$manifest_file'' @ [CHR 0x22] @ '' | head -n 1)'',
      ''manifest_binary=$(sed -n '' @ [CHR 0x27] @ ''s/.*'' @ [CHR 0x22] @ ''binary'' @ [CHR 0x22] @ ''[[:space:]]*:[[:space:]]*'' @ [CHR 0x22] @ [CHR 0x5C] @ ''([^'' @ [CHR 0x22] @ '']*'' @ [CHR 0x5C] @ '')'' @ [CHR 0x22] @ ''.*/'' @ [CHR 0x5C] @ ''1/p'' @ [CHR 0x27] @ '' '' @ [CHR 0x22] @ ''$manifest_file'' @ [CHR 0x22] @ '' | head -n 1)'',
      ''if [ -z '' @ [CHR 0x22] @ ''$manifest_sha'' @ [CHR 0x22] @ '' ]; then restore_backup; exit 1; fi'',
      ''if [ -n '' @ [CHR 0x22] @ ''$manifest_binary'' @ [CHR 0x22] @ '' ] && [ '' @ [CHR 0x22] @ ''$manifest_binary'' @ [CHR 0x22] @ '' != '' @ [CHR 0x22] @ ''$binary_name'' @ [CHR 0x22] @ '' ]; then restore_backup; exit 1; fi'',
      ''if ! curl -fsSL '' @ [CHR 0x22] @ ''$archive_url'' @ [CHR 0x22] @ '' -o '' @ [CHR 0x22] @ ''$archive_file'' @ [CHR 0x22] @ ''; then restore_backup; exit 1; fi'',
      ''(cd '' @ [CHR 0x22] @ ''$work_dir'' @ [CHR 0x22] @ '' && printf '' @ [CHR 0x27] @ ''%s  %s'' @ [CHR 0x5C] @ ''n'' @ [CHR 0x27] @ '' '' @ [CHR 0x22] @ ''$manifest_sha'' @ [CHR 0x22] @ '' '' @ [CHR 0x22] @ ''${asset_prefix}.tar.gz'' @ [CHR 0x22] @ '' | sha256sum -c -) || { restore_backup; exit 1; }'',
      ''if ! tar -xzf '' @ [CHR 0x22] @ ''$archive_file'' @ [CHR 0x22] @ '' -C '' @ [CHR 0x22] @ ''$work_dir'' @ [CHR 0x22] @ ''; then restore_backup; exit 1; fi'',
      ''extracted_binary=$(find '' @ [CHR 0x22] @ ''$work_dir'' @ [CHR 0x22] @ '' -type f -name '' @ [CHR 0x22] @ ''$binary_name'' @ [CHR 0x22] @ '' | head -n 1)'',
      ''if [ -z '' @ [CHR 0x22] @ ''$extracted_binary'' @ [CHR 0x22] @ '' ]; then restore_backup; exit 1; fi'',
      ''cp '' @ [CHR 0x22] @ ''$extracted_binary'' @ [CHR 0x22] @ '' '' @ [CHR 0x22] @ ''$install_dir/$binary_name'' @ [CHR 0x22],
      ''chmod 0755 '' @ [CHR 0x22] @ ''$install_dir/$binary_name'' @ [CHR 0x22],
      ''installed_version='' @ [CHR 0x22] @ [CHR 0x22],
      ''if [ -x '' @ [CHR 0x22] @ ''$install_dir/$binary_name'' @ [CHR 0x22] @ '' ]; then'',
      ''  installed_version=$('' @ [CHR 0x22] @ ''$install_dir/$binary_name'' @ [CHR 0x22] @ '' version 2>/dev/null | awk '' @ [CHR 0x27] @ ''{print $2}'' @ [CHR 0x27] @ '' | head -n 1 || true)'',
      ''fi'',
      ''normalize_version() {'',
      ''  printf '' @ [CHR 0x27] @ ''%s'' @ [CHR 0x27] @ '' '' @ [CHR 0x22] @ ''$1'' @ [CHR 0x22] @ '' | sed '' @ [CHR 0x27] @ ''s/^[vV]//'' @ [CHR 0x27],
      ''}'',
      ''if [ '' @ [CHR 0x22] @ ''$(normalize_version '' @ [CHR 0x22] @ ''$installed_version'' @ [CHR 0x22] @ '')'' @ [CHR 0x22] @ '' != '' @ [CHR 0x22] @ ''$(normalize_version '' @ [CHR 0x22] @ ''$target_version'' @ [CHR 0x22] @ '')'' @ [CHR 0x22] @ '' ]; then'',
      ''  restore_backup'',
      ''  exit 1'',
      ''fi'',
      ''if [ '' @ [CHR 0x22] @ ''$component'' @ [CHR 0x22] @ '' = '' @ [CHR 0x22] @ ''kelinode-rs'' @ [CHR 0x22] @ '' ]; then'',
      ''  printf '' @ [CHR 0x27] @ ''%s'' @ [CHR 0x5C] @ ''n'' @ [CHR 0x27] @ '' '' @ [CHR 0x22] @ ''$target_version'' @ [CHR 0x22] @ '' > '' @ [CHR 0x22] @ ''$install_dir/.installed_version'' @ [CHR 0x22],
      ''fi'',
      ''printf '' @ [CHR 0x27] @ ''%s'' @ [CHR 0x5C] @ ''n'' @ [CHR 0x27] @ '' '' @ [CHR 0x22] @ ''$target_version'' @ [CHR 0x22] @ '' > '' @ [CHR 0x22] @ ''$install_dir/.${component}_version'' @ [CHR 0x22],
      ''restart_service'',
      ''rm -rf '' @ [CHR 0x22] @ ''$backup_dir'' @ [CHR 0x22]]"

definition release_upgrade_shell_script_with_source ::
  "string \<Rightarrow> release_upgrade_spec \<Rightarrow> release_source \<Rightarrow> string" where
  "release_upgrade_shell_script_with_source target_version spec source =
     join [CHR 0x0A] (script_bindings target_version spec source @ script_body)"

definition release_upgrade_launch_plan_with_source ::
  "(string \<Rightarrow> bool) \<Rightarrow> string \<Rightarrow> release_upgrade_spec \<Rightarrow> release_source \<Rightarrow> upgrade_launch_plan" where
  "release_upgrade_launch_plan_with_source tool_exists target_version0 spec source =
     (let target_version = trim target_version0;
          script = release_upgrade_shell_script_with_source target_version spec source
      in if tool_exists ''systemd-run'' then
           \<lparr>lp_target_version = target_version, lp_command = ''systemd-run'',
            lp_args = [''--unit'',
              sanitize_systemd_unit_part (rs_name spec) @ ''-self-update-'' @
                sanitize_systemd_unit_part target_version,
              ''--description='' @ rs_name spec @ '' self update'',
              ''/bin/sh'', ''-c'', script],
            lp_log_path = None\<rparr>
         else
           let log = ''/tmp/'' @ sanitize_systemd_unit_part (rs_name spec) @ ''-self-update.log'' in
           \<lparr>lp_target_version = target_version, lp_command = ''/bin/sh'',
            lp_args = [''-c'',
              ''nohup /bin/sh -c '' @ shell_quote (''sleep 1; '' @ script) @ '' >'' @ log @ '' 2>&1 &''],
            lp_log_path = Some log\<rparr>)"

section \<open>The manager\<close>

definition memory_launch ::
  "memory_upgrade_executor \<Rightarrow> upgrade_launch_plan \<Rightarrow> unit result \<times> memory_upgrade_executor" where
  "memory_launch ex plan =
     ((case fail_with ex of Some e \<Rightarrow> Err e | None \<Rightarrow> Ok ()),
      ex\<lparr>launches := launches ex @ [plan]\<rparr>)"

definition upgrade_request ::
  "(string \<Rightarrow> bool) \<Rightarrow> ('x \<Rightarrow> upgrade_launch_plan \<Rightarrow> unit result \<times> 'x) \<Rightarrow> machine_upgrade_command \<Rightarrow>
     string \<Rightarrow> int \<Rightarrow> upgrade_manager \<times> 'x \<Rightarrow>
     upgrade_status option result \<times> upgrade_manager \<times> 'x" where
  "upgrade_request tool_exists launch command current_version now st =
     (let (um, ex) = st;
          cid = trim (uc_id command);
          target_version = trim (uc_target_version command)
      in case component_from_command_value (uc_component command) of
           Inl e \<Rightarrow> (Err e, um, ex)
         | Inr component \<Rightarrow>
             if cid = [] \<or> \<not> valid_kelinode_version target_version
             then (Err ''invalid upgrade command'', um, ex)
             else if (case um_status um of
                        Some s \<Rightarrow> us_id s = cid \<and> (us_status s = ''running'' \<or> us_status s = ''succeeded'')
                      | None \<Rightarrow> False)
             then (Ok (um_status um), um, ex)
             else
               let status = \<lparr>us_id = cid, us_status = ''running'',
                     us_component = component_status_name component,
                     us_target_version = target_version, us_error = [], us_started_at = now,
                     us_finished_at = 0, us_updated_at = now\<rparr>
               in if component = NodeComponent \<and> versions_equal current_version target_version
                  then
                    let status' = status\<lparr>us_status := ''succeeded'', us_finished_at := now\<rparr>
                    in (Ok (Some status'), um\<lparr>um_status := Some status'\<rparr>, ex)
                  else
                    let plan = release_upgrade_launch_plan_with_source tool_exists target_version
                          (component_release_spec component) (release_source_from_command command);
                        (r, ex') = launch ex plan;
                        status' = (case r of
                            Inl error \<Rightarrow> status\<lparr>us_status := ''failed'',
                              us_error := truncate_upgrade_error error, us_finished_at := now,
                              us_updated_at := now\<rparr>
                          | Inr _ \<Rightarrow> status)
                    in (Ok (Some status'), um\<lparr>um_status := Some status'\<rparr>, ex'))"

text \<open>A sequence of requests: command, current version and time of each.\<close>

fun upgrade_run ::
  "(string \<Rightarrow> bool) \<Rightarrow> ('x \<Rightarrow> upgrade_launch_plan \<Rightarrow> unit result \<times> 'x) \<Rightarrow>
     (machine_upgrade_command \<times> string \<times> int) list \<Rightarrow> upgrade_manager \<times> 'x \<Rightarrow> upgrade_manager \<times> 'x" where
  "upgrade_run tool_exists launch [] st = st"
| "upgrade_run tool_exists launch ((command, version, now) # rs) st =
     upgrade_run tool_exists launch rs
       (snd (upgrade_request tool_exists launch command version now st))"

section \<open>Quoting against the shell's rules\<close>

text \<open>
  How a POSIX shell reads a word made of quoted parts: nothing is special between single
  quotes; between double quotes every character but \<open>$\<close>, the back quote and the backslash
  is literal. Outside quotes only the start of a quoted part is accepted here.
\<close>

datatype sh_state = ShPlain | ShSingle | ShDouble

fun sh_read :: "sh_state \<Rightarrow> string \<Rightarrow> string option" where
  "sh_read ShPlain [] = Some []"
| "sh_read ShPlain (c # s) =
     (if c = squote then sh_read ShSingle s else if c = dquote then sh_read ShDouble s else None)"
| "sh_read ShSingle [] = None"
| "sh_read ShSingle (c # s) =
     (if c = squote then sh_read ShPlain s else map_option (\<lambda>w. c # w) (sh_read ShSingle s))"
| "sh_read ShDouble [] = None"
| "sh_read ShDouble (c # s) =
     (if c = dquote then sh_read ShPlain s
      else if c = CHR ''$'' \<or> c = CHR 0x60 \<or> c = CHR 0x5C then None
      else map_option (\<lambda>w. c # w) (sh_read ShDouble s))"

lemma sh_read_quoted:
  "sh_read ShSingle
     (concat (map (\<lambda>c. if c = squote then [squote, dquote, squote, dquote, squote] else [c]) s) @ squote # t) =
   map_option (\<lambda>w. s @ w) (sh_read ShPlain t)"
  by (induction s) (auto simp: option.map_comp comp_def option.map_ident)

section \<open>The manager\<close>

definition command_refused :: "machine_upgrade_command \<Rightarrow> bool" where
  "command_refused command \<longleftrightarrow>
     \<not> is_ok (component_from_command_value (uc_component command)) \<or> trim (uc_id command) = [] \<or>
     \<not> valid_kelinode_version (trim (uc_target_version command))"

definition already_handled :: "upgrade_manager \<Rightarrow> machine_upgrade_command \<Rightarrow> bool" where
  "already_handled um command \<longleftrightarrow>
     (\<exists>s. um_status um = Some s \<and> us_id s = trim (uc_id command) \<and>
        (us_status s = ''running'' \<or> us_status s = ''succeeded''))"

text \<open>What a stored status may look like.\<close>

definition status_ok :: "upgrade_status \<Rightarrow> bool" where
  "status_ok s \<longleftrightarrow>
     us_id s \<noteq> [] \<and> valid_kelinode_version (us_target_version s) \<and>
     us_component s \<in> {''node'', ''core''} \<and> us_updated_at s = us_started_at s \<and>
     (us_status s = ''running'' \<and> us_finished_at s = 0 \<and> us_error s = [] \<or>
      us_status s = ''succeeded'' \<and> us_finished_at s = us_started_at s \<and> us_error s = [] \<or>
      us_status s = ''failed'' \<and> us_finished_at s = us_started_at s)"

definition fresh_status :: "upgrade_component \<Rightarrow> machine_upgrade_command \<Rightarrow> int \<Rightarrow> upgrade_status" where
  "fresh_status component command now =
     \<lparr>us_id = trim (uc_id command), us_status = ''running'',
      us_component = component_status_name component,
      us_target_version = trim (uc_target_version command), us_error = [], us_started_at = now,
      us_finished_at = 0, us_updated_at = now\<rparr>"

definition command_plan ::
  "(string \<Rightarrow> bool) \<Rightarrow> upgrade_component \<Rightarrow> machine_upgrade_command \<Rightarrow> upgrade_launch_plan" where
  "command_plan tool_exists component command =
     release_upgrade_launch_plan_with_source tool_exists (trim (uc_target_version command))
       (component_release_spec component) (release_source_from_command command)"

text \<open>The five ways a request can go.\<close>

lemma upgrade_request_cases [consumes 0, case_names refused handled uptodate launched failed]:
  obtains
    e where "command_refused command"
      "upgrade_request te launch command v now (um, ex) = (Inl e, um, ex)"
  | s where "\<not> command_refused command" "um_status um = Some s" "us_id s = trim (uc_id command)"
      "us_status s = ''running'' \<or> us_status s = ''succeeded''"
      "upgrade_request te launch command v now (um, ex) = (Inr (Some s), um, ex)"
  | s where "\<not> command_refused command" "\<not> already_handled um command"
      "s = (fresh_status NodeComponent command now)\<lparr>us_status := ''succeeded'', us_finished_at := now\<rparr>"
      "upgrade_request te launch command v now (um, ex) = (Inr (Some s), um\<lparr>um_status := Some s\<rparr>, ex)"
  | c s ex' u where "\<not> command_refused command" "\<not> already_handled um command"
      "component_from_command_value (uc_component command) = Inr c"
      "s = fresh_status c command now" "launch ex (command_plan te c command) = (Inr u, ex')"
      "upgrade_request te launch command v now (um, ex) = (Inr (Some s), um\<lparr>um_status := Some s\<rparr>, ex')"
  | c s ex' e where "\<not> command_refused command" "\<not> already_handled um command"
      "component_from_command_value (uc_component command) = Inr c"
      "s = (fresh_status c command now)\<lparr>us_status := ''failed'', us_error := truncate_upgrade_error e,
         us_finished_at := now, us_updated_at := now\<rparr>"
      "launch ex (command_plan te c command) = (Inl e, ex')"
      "upgrade_request te launch command v now (um, ex) = (Inr (Some s), um\<lparr>um_status := Some s\<rparr>, ex')"
proof (cases "command_refused command")
  case True
  then have "\<exists>e. upgrade_request te launch command v now (um, ex) = (Inl e, um, ex)"
    by (cases "component_from_command_value (uc_component command)")
      (auto simp: command_refused_def upgrade_request_def Let_def)
  with True show ?thesis using that(1) by blast
next
  case False
  then obtain c where c: "component_from_command_value (uc_component command) = Inr c"
    and v: "trim (uc_id command) \<noteq> []" "valid_kelinode_version (trim (uc_target_version command))"
    by (auto simp: command_refused_def is_ok_iff)
  show ?thesis
  proof (cases "already_handled um command")
    case True
    then show ?thesis
      using that(2) [OF False] c v by (auto simp: already_handled_def upgrade_request_def Let_def)
  next
    case nh: False
    then have not: "\<not> (case um_status um of
        Some s \<Rightarrow> us_id s = trim (uc_id command) \<and> (us_status s = ''running'' \<or> us_status s = ''succeeded'')
      | None \<Rightarrow> False)"
      by (auto simp: already_handled_def split: option.splits)
    show ?thesis
    proof (cases "c = NodeComponent \<and> versions_equal v (trim (uc_target_version command))")
      case True
      with not c v show ?thesis
        using that(3) [OF False nh] by (simp add: upgrade_request_def Let_def fresh_status_def)
    next
      case neq: False
      obtain r ex' where l: "launch ex (command_plan te c command) = (r, ex')" by fastforce
      show ?thesis
        using that(4,5) [OF False nh c] not c v neq l
        by (cases r) (simp_all add: upgrade_request_def Let_def fresh_status_def command_plan_def)
    qed
  qed
qed

lemma valid_version_trim: "valid_kelinode_version (trim v) = valid_kelinode_version v"
  by (simp add: valid_kelinode_version_def)

lemma fresh_status_ok:
  "\<not> command_refused command \<Longrightarrow> status_ok (fresh_status c command now) \<and>
   status_ok ((fresh_status c command now)\<lparr>us_status := ''succeeded'', us_finished_at := now\<rparr>) \<and>
   status_ok ((fresh_status c command now)\<lparr>us_status := ''failed'', us_error := e, us_finished_at := now,
     us_updated_at := now\<rparr>)"
  by (cases c) (auto simp: command_refused_def status_ok_def fresh_status_def)

lemma upgrade_request_status_ok:
  assumes "\<forall>s. um_status um = Some s \<longrightarrow> status_ok s"
    and "upgrade_request te launch command v now (um, ex) = (r, um', ex')"
  shows "\<forall>s. um_status um' = Some s \<longrightarrow> status_ok s"
  by (rule upgrade_request_cases [of command te launch v now um ex])
    (use assms fresh_status_ok in auto)

text \<open>A command and a launcher that accepts it, on which the properties are evaluated.\<close>

definition sample_command :: machine_upgrade_command where
  "sample_command =
     \<lparr>uc_id = ''u1'', uc_target_version = ''v2.0.0'', uc_component = ''core'', uc_release_source = [],
      uc_release_base_url = [], uc_release_auth = \<lparr>ra_machine_id = [], ra_machine_token = []\<rparr>\<rparr>"

lemma sample_command_launches:
  "\<exists>s um ex. upgrade_request (\<lambda>_. False) memory_launch sample_command ''1.0.0'' 5
       (\<lparr>um_status = None\<rparr>, \<lparr>launches = [], fail_with = None\<rparr>) = (Ok (Some s), um, ex) \<and>
     um_status um = Some s \<and> us_status s \<noteq> ''failed''"
proof -
  have ok: "\<not> command_refused sample_command" by code_simp
  have "\<not> already_handled \<lparr>um_status = None\<rparr> sample_command" by (simp add: already_handled_def)
  then show ?thesis
    using ok
    by (cases rule: upgrade_request_cases [of sample_command "\<lambda>_. False" memory_launch "''1.0.0''" 5
          "\<lparr>um_status = None\<rparr>" "\<lparr>launches = [], fail_with = None\<rparr>"])
      (auto simp: fresh_status_def memory_launch_def)
qed

section \<open>Properties\<close>

text \<open>
  C39: a shell reads a quoted value back as exactly that value and then goes on with what
  follows it: no value can end its own quotes.
\<close>

theorem shell_quote_reads_back:
  "sh_read ShPlain (shell_quote s @ t) = map_option (\<lambda>w. s @ w) (sh_read ShPlain t)"
  using sh_read_quoted [of s t] by (simp add: shell_quote_def)

text \<open>
  C38: once a request succeeded in launching (or found nothing to do), any number of
  repetitions of the same command, at any time and version, launch nothing and change
  nothing: an upgrade command is carried out at most once.
\<close>

theorem upgrade_command_once:
  assumes "upgrade_request te launch command v now (um, ex) = (Ok (Some s), um', ex')"
    and "us_status s \<noteq> ''failed''"
    and "\<forall>r \<in> set rs. fst r = command"
  shows "upgrade_run te launch rs (um', ex') = (um', ex')"
proof -
  have "\<not> command_refused command \<and> already_handled um' command"
    using assms(1,2)
    by (cases rule: upgrade_request_cases [of command te launch v now um ex])
      (auto simp: already_handled_def fresh_status_def)
  then have "snd (upgrade_request te launch command v2 now2 (um', ex')) = (um', ex')" for v2 now2
    by (cases rule: upgrade_request_cases [of command te launch v2 now2 um' ex']) auto
  with assms(3) show ?thesis by (induction rs) auto
qed

theorem upgrade_command_once_witness:
  "\<exists>s um ex. upgrade_request (\<lambda>_. False) memory_launch sample_command ''1.0.0'' 5
       (\<lparr>um_status = None\<rparr>, \<lparr>launches = [], fail_with = None\<rparr>) = (Ok (Some s), um, ex) \<and>
     us_status s \<noteq> ''failed'' \<and>
     upgrade_run (\<lambda>_. False) memory_launch [(sample_command, ''1.0.0'', 6), (sample_command, ''2.0.0'', 7)] (um, ex) =
       (um, ex)"
proof -
  obtain s um ex where r: "upgrade_request (\<lambda>_. False) memory_launch sample_command ''1.0.0'' 5
      (\<lparr>um_status = None\<rparr>, \<lparr>launches = [], fail_with = None\<rparr>) = (Ok (Some s), um, ex)"
    and f: "us_status s \<noteq> ''failed''"
    using sample_command_launches by blast
  from r f upgrade_command_once [OF r f, of "[(sample_command, ''1.0.0'', 6), (sample_command, ''2.0.0'', 7)]"]
  show ?thesis by auto
qed

text \<open>
  C40: whatever commands arrive, in whatever order and with whatever launcher, the stored
  status is well formed: a known state, a non-empty id and a valid version, a finish time
  exactly when it is over, an error text only when it failed.
\<close>

theorem upgrade_run_status_ok:
  assumes "um_status (fst (upgrade_run te launch rs (\<lparr>um_status = None\<rparr>, ex))) = Some s"
  shows "status_ok s"
proof -
  have "\<forall>s. um_status um = Some s \<longrightarrow> status_ok s \<Longrightarrow>
      \<forall>s. um_status (fst (upgrade_run te launch rs (um, ex))) = Some s \<longrightarrow> status_ok s" for um ex
  proof (induction rs arbitrary: um ex)
    case (Cons r rs)
    obtain c v now where r: "r = (c, v, now)" by (cases r)
    obtain x um' ex' where q: "upgrade_request te launch c v now (um, ex) = (x, um', ex')"
      by (metis prod_cases3)
    from Cons.IH [OF upgrade_request_status_ok [OF Cons.prems q]] r q show ?case by simp
  qed simp
  from this [of "\<lparr>um_status = None\<rparr>" ex] assms show ?thesis by simp
qed

theorem upgrade_run_status_ok_witness:
  "\<exists>s. um_status (fst (upgrade_run (\<lambda>_. False) memory_launch [(sample_command, ''1.0.0'', 5)]
       (\<lparr>um_status = None\<rparr>, \<lparr>launches = [], fail_with = None\<rparr>))) = Some s \<and> status_ok s"
proof -
  obtain s where s: "um_status (fst (upgrade_run (\<lambda>_. False) memory_launch [(sample_command, ''1.0.0'', 5)]
      (\<lparr>um_status = None\<rparr>, \<lparr>launches = [], fail_with = None\<rparr>))) = Some s"
    using sample_command_launches by auto
  from s upgrade_run_status_ok [OF s] show ?thesis by blast
qed

text \<open>
  a request is refused exactly when its component is unknown, its id is blank or its
  version is malformed, and a refused request neither launches anything nor touches the
  stored status.
\<close>

lemma upgrade_request_refused:
  "(fst (upgrade_request te launch command v now (um, ex)) \<in> range Inl) = command_refused command \<and>
   (command_refused command \<longrightarrow> snd (upgrade_request te launch command v now (um, ex)) = (um, ex))"
  by (cases rule: upgrade_request_cases [of command te launch v now um ex]) auto

lemma upgrade_request_refused_witness:
  "command_refused (sample_command\<lparr>uc_id := []\<rparr>) \<and>
   snd (upgrade_request (\<lambda>_. False) memory_launch (sample_command\<lparr>uc_id := []\<rparr>) ''1.0.0'' 5
     (\<lparr>um_status = None\<rparr>, \<lparr>launches = [], fail_with = None\<rparr>)) =
     (\<lparr>um_status = None\<rparr>, \<lparr>launches = [], fail_with = None\<rparr>)"
proof -
  have "command_refused (sample_command\<lparr>uc_id := []\<rparr>)" by (simp add: command_refused_def)
  then show ?thesis
    using upgrade_request_refused [of "\<lambda>_. False" memory_launch "sample_command\<lparr>uc_id := []\<rparr>"] by blast
qed

text \<open>
  the stored error text has at most 1000 characters.
\<close>

lemma truncate_upgrade_error_bound:
  "char_count (truncate_upgrade_error e) \<le> 1000"
  using char_count_take_chars char_count_le [of "trim e"]
  by (auto simp: truncate_upgrade_error_def Let_def)

end
