(* ===== verification/Port_Ranges.thy ===== *)
theory Port_Ranges
  imports Panel_Types
begin

text \<open>
  The planning half of \<open>src/src/port_forward.rs\<close>: from the port settings of the nodes to
  the redirect rules. Port texts are parsed into ranges of 16-bit ports and matchers; the
  ranges of a node lose the target ports of the other nodes and the ranges already taken for
  another target; the rest becomes one rule per matcher. The rendering \<open>{:?}\<close> of a string in
  an error message is the argument \<open>dbg\<close>.
\<close>

section \<open>Data\<close>

record port_forward_matcher =
  pm_args :: "string list"
  pm_single_port :: "u16 option"

record port_forward_rule =
  pr_matcher :: port_forward_matcher
  pr_target_port :: u16
  pr_protocol :: string
  pr_comment :: string

record firewall_allow_rule =
  fa_protocol :: string
  fa_port :: u16
  fa_comment :: string

record port_forward_range =
  range_start :: u16
  range_end :: u16

record allocated_port_forward_range =
  al_node_id :: u32
  al_target_port :: u16
  al_protocol :: string
  al_range :: port_forward_range

record hysteria_port_forward_plan =
  plan_nat_rules :: "port_forward_rule list"
  plan_allow_rules :: "firewall_allow_rule list"
  plan_errors :: "string list"

definition HYSTERIA_PORT_FORWARD_COMMENT :: string where
  "HYSTERIA_PORT_FORWARD_COMMENT = ''V2NODE-HY2''"

definition MIERU_PORT_FORWARD_COMMENT :: string where
  "MIERU_PORT_FORWARD_COMMENT = ''V2NODE-MIERU''"

abbreviation port_text :: "u16 \<Rightarrow> string" where
  "port_text p \<equiv> nat_to_string (unat p)"

abbreviation mk_range :: "u16 \<Rightarrow> u16 \<Rightarrow> port_forward_range" where
  "mk_range a b \<equiv> \<lparr>range_start = a, range_end = b\<rparr>"

section \<open>Parsing\<close>

definition parse_port_number :: "(string \<Rightarrow> string) \<Rightarrow> string \<Rightarrow> u16 result" where
  "parse_port_number dbg token =
     (if token = [] then Err ''empty port''
      else case parse_uint (2 ^ 32 - 1) token of
        None \<Rightarrow> Err (''invalid port '' @ dbg token)
      | Some port \<Rightarrow>
          if port = 0 \<or> port > u16_max then Err (''port out of range '' @ dbg token)
          else Ok (word_of_nat port))"

definition parse_port_range :: "(string \<Rightarrow> string) \<Rightarrow> string \<Rightarrow> (u16 \<times> u16) result" where
  "parse_port_range dbg token =
     (let separator = (if CHR ''-'' \<in> set token then CHR ''-'' else CHR '':'')
      in case split_on separator token of
           [a, b] \<Rightarrow>
             and_then (parse_port_number dbg a) (\<lambda>start.
             and_then (parse_port_number dbg b) (\<lambda>end_port.
               if start > end_port then Err (''invalid reversed range '' @ dbg token)
               else Ok (start, end_port)))
         | _ \<Rightarrow> Err (''invalid range '' @ dbg token))"

definition single_matcher :: "u16 \<Rightarrow> port_forward_matcher" where
  "single_matcher p = \<lparr>pm_args = [''--dport'', port_text p], pm_single_port = Some p\<rparr>"

definition range_matcher :: "u16 \<Rightarrow> u16 \<Rightarrow> port_forward_matcher" where
  "range_matcher a b = \<lparr>pm_args = [''--dport'', port_text a @ '':'' @ port_text b], pm_single_port = None\<rparr>"

definition multiport_matcher :: "u16 list \<Rightarrow> port_forward_matcher" where
  "multiport_matcher ps =
     \<lparr>pm_args = [''-m'', ''multiport'', ''--dports'', join '','' (map port_text ps)], pm_single_port = None\<rparr>"

text \<open>\<open>flush_singles\<close>: the pending single ports in chunks of at most fifteen.\<close>

fun flush_singles :: "u16 list \<Rightarrow> port_forward_matcher list \<Rightarrow> port_forward_matcher list" where
  "flush_singles [] matchers = matchers"
| "flush_singles (p # ps) matchers =
     (let chunk = take 15 (p # ps)
      in flush_singles (drop 15 (p # ps))
           (matchers @ [if length chunk = 1 then single_matcher p else multiport_matcher chunk]))"

definition add_single ::
  "u16 \<Rightarrow> u16 \<Rightarrow> u16 list \<times> port_forward_range list \<Rightarrow> u16 list \<times> port_forward_range list" where
  "add_single port excluded_port st =
     (let (singles, ranges) = st
      in if port = excluded_port then (singles, ranges)
         else (singles @ [port], ranges @ [mk_range port port]))"

text \<open>\<open>add_range\<close>: the parts of a range around the excluded port, with their matchers.\<close>

definition range_parts :: "u16 \<Rightarrow> u16 \<Rightarrow> u16 \<Rightarrow> (u16 \<times> u16) list" where
  "range_parts start end_port excluded_port =
     (if excluded_port > 0 \<and> start \<le> excluded_port \<and> excluded_port \<le> end_port
      then (if start < excluded_port then [(start, excluded_port - 1)] else []) @
           (if excluded_port < end_port then [(excluded_port + 1, end_port)] else [])
      else [(start, end_port)])"

definition add_range ::
  "u16 \<Rightarrow> u16 \<Rightarrow> u16 \<Rightarrow> port_forward_matcher list \<times> port_forward_range list \<Rightarrow>
     port_forward_matcher list \<times> port_forward_range list" where
  "add_range start end_port excluded_port st =
     (let (matchers, ranges) = st; parts = range_parts start end_port excluded_port
      in (matchers @ map (\<lambda>(a, b). range_matcher a b) parts, ranges @ map (\<lambda>(a, b). mk_range a b) parts))"

fun parse_tokens ::
  "(string \<Rightarrow> string) \<Rightarrow> u16 \<Rightarrow> string list \<Rightarrow> u16 list \<Rightarrow> port_forward_matcher list \<Rightarrow>
     port_forward_range list \<Rightarrow> (port_forward_matcher list \<times> port_forward_range list) result" where
  "parse_tokens dbg excluded_port [] singles matchers ranges = Ok (flush_singles singles matchers, ranges)"
| "parse_tokens dbg excluded_port (token # tokens) singles matchers ranges =
     (if token = [] then Err ''empty token''
      else if CHR ''-'' \<in> set token \<or> CHR '':'' \<in> set token then
        and_then (parse_port_range dbg token) (\<lambda>(start, end_port).
          if start = end_port then
            (let (singles', ranges') = add_single start excluded_port (singles, ranges)
             in parse_tokens dbg excluded_port tokens singles' matchers ranges')
          else
            (let (matchers', ranges') =
                 add_range start end_port excluded_port (flush_singles singles matchers, ranges)
             in parse_tokens dbg excluded_port tokens [] matchers' ranges'))
      else
        and_then (parse_port_number dbg token) (\<lambda>port.
          let (singles', ranges') = add_single port excluded_port (singles, ranges)
          in parse_tokens dbg excluded_port tokens singles' matchers ranges'))"

definition parse_port_forward_matchers_and_ranges_except ::
  "(string \<Rightarrow> string) \<Rightarrow> string \<Rightarrow> u16 \<Rightarrow> (port_forward_matcher list \<times> port_forward_range list) result" where
  "parse_port_forward_matchers_and_ranges_except dbg raw excluded_port =
     (let cleaned = filter (\<lambda>c. c \<noteq> CHR '' '') (trim raw)
      in if cleaned = [] then Err ''empty port''
         else parse_tokens dbg excluded_port (split_on (CHR '','') cleaned) [] [] [])"

definition parse_port_forward_matchers_except ::
  "(string \<Rightarrow> string) \<Rightarrow> string \<Rightarrow> u16 \<Rightarrow> port_forward_matcher list result" where
  "parse_port_forward_matchers_except dbg raw excluded_port =
     map_ok fst (parse_port_forward_matchers_and_ranges_except dbg raw excluded_port)"

definition parse_port_forward_matchers :: "(string \<Rightarrow> string) \<Rightarrow> string \<Rightarrow> port_forward_matcher list result" where
  "parse_port_forward_matchers dbg raw = parse_port_forward_matchers_except dbg raw 0"

section \<open>Ranges\<close>

definition overlaps :: "port_forward_range \<Rightarrow> port_forward_range \<Rightarrow> bool" where
  "overlaps r other \<longleftrightarrow> range_start r \<le> range_end other \<and> range_start other \<le> range_end r"

text \<open>\<open>u16::saturating_sub(1)\<close> and \<open>u16::saturating_add(1)\<close>.\<close>

definition saturating_dec :: "u16 \<Rightarrow> u16" where
  "saturating_dec p = (if p = 0 then 0 else p - 1)"

definition saturating_inc :: "u16 \<Rightarrow> u16" where
  "saturating_inc p = (if p = - 1 then - 1 else p + 1)"

definition subtract_one :: "port_forward_range \<Rightarrow> port_forward_range \<Rightarrow> port_forward_range list" where
  "subtract_one blocked r =
     (if \<not> overlaps r blocked then [r]
      else (if range_start r < range_start blocked
            then [mk_range (range_start r) (saturating_dec (range_start blocked))] else []) @
           (if range_end blocked < range_end r
            then [mk_range (saturating_inc (range_end blocked)) (range_end r)] else []))"

definition subtract_range :: "port_forward_range list \<Rightarrow> port_forward_range \<Rightarrow> port_forward_range list" where
  "subtract_range ranges blocked = concat (map (subtract_one blocked) ranges)"

definition subtract_single_port :: "port_forward_range list \<Rightarrow> u16 \<Rightarrow> port_forward_range list" where
  "subtract_single_port ranges port = subtract_range ranges (mk_range port port)"

definition trim_target_port_conflicts ::
  "port_forward_range list \<Rightarrow> u16 \<Rightarrow> (u16, u32) btmap \<Rightarrow> port_forward_range list" where
  "trim_target_port_conflicts ranges target_port target_ports =
     fold (\<lambda>port rs. if port = target_port then rs else subtract_single_port rs port)
       (bt_keys target_ports) ranges"

definition trim_allocated_range_conflicts ::
  "port_forward_range list \<Rightarrow> u16 \<Rightarrow> string \<Rightarrow> allocated_port_forward_range list \<Rightarrow> port_forward_range list" where
  "trim_allocated_range_conflicts ranges target_port protocol allocated =
     fold (\<lambda>existing rs.
         if al_target_port existing = target_port \<or> al_protocol existing \<noteq> protocol then rs
         else subtract_range rs (al_range existing))
       allocated ranges"

fun matchers_loop :: "port_forward_range list \<Rightarrow> u16 list \<Rightarrow> port_forward_matcher list \<Rightarrow> port_forward_matcher list" where
  "matchers_loop [] singles matchers = flush_singles singles matchers"
| "matchers_loop (r # ranges) singles matchers =
     (if range_start r = range_end r
      then matchers_loop ranges (singles @ [range_start r]) matchers
      else matchers_loop ranges []
             (flush_singles singles matchers @ [range_matcher (range_start r) (range_end r)]))"

definition port_forward_matchers_from_ranges :: "port_forward_range list \<Rightarrow> port_forward_matcher list" where
  "port_forward_matchers_from_ranges ranges = matchers_loop ranges [] []"

section \<open>Target ports\<close>

definition collect_hysteria_target_ports :: "node_info list \<Rightarrow> (u16, u32) btmap" where
  "collect_hysteria_target_ports infos =
     bt_collect (map (\<lambda>info. (cn_server_port (ni_common info), ni_id info))
       (filter (\<lambda>info. cn_server_port (ni_common info) > 0)
         (filter (\<lambda>info. ni_protocol info = Hysteria2) infos)))"

definition mieru_port_forward_protocol :: "string \<Rightarrow> string result" where
  "mieru_port_forward_protocol raw =
     (let value = trim raw
      in if value = [] then Ok ''tcp''
         else let upper = to_ascii_uppercase value
           in if upper = ''TCP'' then Ok ''tcp''
              else if upper = ''UDP'' then Ok ''udp''
              else Err (''unsupported transport '' @ upper))"

fun mieru_targets_loop ::
  "node_info list \<Rightarrow> (string, (u16, u32) btmap) btmap \<Rightarrow> (string, (u16, u32) btmap) btmap" where
  "mieru_targets_loop [] out = out"
| "mieru_targets_loop (info # infos) out =
     (if ni_protocol info \<noteq> Mieru \<or> cn_server_port (ni_common info) = 0 then mieru_targets_loop infos out
      else case mieru_port_forward_protocol (cn_transport (ni_common info)) of
        Inl _ \<Rightarrow> mieru_targets_loop infos out
      | Inr protocol \<Rightarrow>
          mieru_targets_loop infos
            (bt_insert protocol
              (bt_insert (cn_server_port (ni_common info)) (ni_id info) (unwrap_or [] (bt_get out protocol)))
              out))"

definition collect_mieru_target_ports_by_protocol :: "node_info list \<Rightarrow> (string, (u16, u32) btmap) btmap" where
  "collect_mieru_target_ports_by_protocol infos = mieru_targets_loop infos []"

section \<open>The rules\<close>

record build_state =
  pb_rules :: "port_forward_rule list"
  pb_errors :: "string list"
  pb_seen :: "string btset"
  pb_allocated :: "allocated_port_forward_range list"

definition build_state_init :: build_state where
  "build_state_init = \<lparr>pb_rules = [], pb_errors = [], pb_seen = [], pb_allocated = []\<rparr>"

definition push_error :: "string \<Rightarrow> build_state \<Rightarrow> build_state" where
  "push_error e st = st\<lparr>pb_errors := pb_errors st @ [e]\<rparr>"

text \<open>The loop over the matchers of a node: a rule for every key not seen before.\<close>

definition push_rule ::
  "(port_forward_matcher \<Rightarrow> string) \<Rightarrow> (port_forward_matcher \<Rightarrow> port_forward_rule) \<Rightarrow> port_forward_matcher \<Rightarrow>
     build_state \<Rightarrow> build_state" where
  "push_rule key rule matcher st =
     (if bs_contains (pb_seen st) (key matcher) then st
      else st\<lparr>pb_seen := bs_insert (key matcher) (pb_seen st), pb_rules := pb_rules st @ [rule matcher]\<rparr>)"

text \<open>The tail both builders share: trim, allocate, and add the rules.\<close>

definition allocate_and_push ::
  "string \<Rightarrow> u16 \<Rightarrow> u32 \<Rightarrow> string \<Rightarrow> (port_forward_matcher \<Rightarrow> string) \<Rightarrow> (u16, u32) btmap \<Rightarrow> string \<Rightarrow>
     port_forward_range list \<Rightarrow> build_state \<Rightarrow> build_state" where
  "allocate_and_push covered target_port node_id protocol key target_ports comment ranges0 st =
     (let ranges = trim_allocated_range_conflicts (trim_target_port_conflicts ranges0 target_port target_ports)
            target_port protocol (pb_allocated st)
      in if ranges = [] then push_error covered st
         else
           fold (push_rule key (\<lambda>m. \<lparr>pr_matcher = m, pr_target_port = target_port, pr_protocol = protocol,
                                   pr_comment = comment\<rparr>))
             (port_forward_matchers_from_ranges ranges)
             (st\<lparr>pb_allocated := pb_allocated st @
                map (\<lambda>r. \<lparr>al_node_id = node_id, al_target_port = target_port, al_protocol = protocol,
                          al_range = r\<rparr>) ranges\<rparr>))"

definition node_text :: "node_info \<Rightarrow> string" where
  "node_text info = ''node '' @ nat_to_string (unat (ni_id info))"

definition build_hysteria_step ::
  "(string \<Rightarrow> string) \<Rightarrow> (u16, u32) btmap \<Rightarrow> node_info \<Rightarrow> build_state \<Rightarrow> build_state" where
  "build_hysteria_step dbg target_ports info st =
     (let target_port = cn_server_port (ni_common info);
          external_port =
            types_first_non_empty (trim (cn_port (ni_common info))) (trim (cn_ports (ni_common info)))
      in if ni_protocol info \<noteq> Hysteria2 then st
         else if target_port = 0
         then push_error (node_text info @ '' has invalid server_port '' @ port_text target_port) st
         else if external_port = [] then st
         else case parse_port_forward_matchers_and_ranges_except dbg external_port target_port of
           Inl error \<Rightarrow>
             push_error (node_text info @ '' has invalid port '' @ dbg external_port @ '': '' @ error) st
         | Inr (_, ranges) \<Rightarrow>
             if ranges = [] then st
             else allocate_and_push
               (node_text info @ '' port '' @ dbg external_port @
                  '' is fully covered by other HY2 port-forward ranges'')
               target_port (ni_id info) ''udp''
               (\<lambda>m. port_text target_port @ ''|'' @ join [CHR 0x00] (pm_args m))
               target_ports HYSTERIA_PORT_FORWARD_COMMENT ranges st)"

definition build_hysteria_port_forward_rules ::
  "(string \<Rightarrow> string) \<Rightarrow> node_info list \<Rightarrow> port_forward_rule list \<times> string list" where
  "build_hysteria_port_forward_rules dbg infos =
     (let st = fold (build_hysteria_step dbg (collect_hysteria_target_ports infos)) infos build_state_init
      in (pb_rules st, pb_errors st))"

definition build_mieru_step ::
  "(string \<Rightarrow> string) \<Rightarrow> (string, (u16, u32) btmap) btmap \<Rightarrow> node_info \<Rightarrow> build_state \<Rightarrow> build_state" where
  "build_mieru_step dbg target_ports info st =
     (let target_port = cn_server_port (ni_common info);
          external_port =
            types_first_non_empty (trim (cn_ports (ni_common info))) (trim (cn_port (ni_common info)))
      in if ni_protocol info \<noteq> Mieru then st
         else if target_port = 0
         then push_error (node_text info @ '' has invalid server_port '' @ port_text target_port) st
         else if external_port = [] then st
         else case mieru_port_forward_protocol (cn_transport (ni_common info)) of
           Inl error \<Rightarrow> push_error (node_text info @ '' has invalid Mieru transport: '' @ error) st
         | Inr protocol \<Rightarrow>
           (case parse_port_forward_matchers_and_ranges_except dbg external_port target_port of
              Inl error \<Rightarrow>
                push_error (node_text info @ '' has invalid port '' @ dbg external_port @ '': '' @ error) st
            | Inr (_, ranges) \<Rightarrow>
                if ranges = [] then st
                else allocate_and_push
                  (node_text info @ '' port '' @ dbg external_port @
                     '' is fully covered by other Mieru port-forward ranges'')
                  target_port (ni_id info) protocol
                  (\<lambda>m. protocol @ ''|'' @ port_text target_port @ ''|'' @ join [CHR 0x00] (pm_args m))
                  (unwrap_or [] (bt_get target_ports protocol)) MIERU_PORT_FORWARD_COMMENT ranges st))"

definition build_mieru_port_forward_rules ::
  "(string \<Rightarrow> string) \<Rightarrow> node_info list \<Rightarrow> port_forward_rule list \<times> string list" where
  "build_mieru_port_forward_rules dbg infos =
     (let st = fold (build_mieru_step dbg (collect_mieru_target_ports_by_protocol infos)) infos build_state_init
      in (pb_rules st, pb_errors st))"

section \<open>The plans\<close>

definition build_hysteria_port_forward_plan ::
  "(string \<Rightarrow> string) \<Rightarrow> node_info list \<Rightarrow> hysteria_port_forward_plan" where
  "build_hysteria_port_forward_plan dbg infos =
     (let (nat_rules, errors) = build_hysteria_port_forward_rules dbg infos
      in \<lparr>plan_nat_rules = nat_rules,
          plan_allow_rules =
            map (\<lambda>port. \<lparr>fa_protocol = ''udp'', fa_port = port, fa_comment = HYSTERIA_PORT_FORWARD_COMMENT\<rparr>)
              (bt_keys (collect_hysteria_target_ports infos)),
          plan_errors = errors\<rparr>)"

text \<open>The allow rules of the Mieru plan: one per protocol, target port and comment of a rule.\<close>

fun allow_rules_loop :: "port_forward_rule list \<Rightarrow> string btset \<Rightarrow> firewall_allow_rule list" where
  "allow_rules_loop [] seen = []"
| "allow_rules_loop (rule # rules) seen =
     (let key = pr_protocol rule @ ''|'' @ port_text (pr_target_port rule) @ ''|'' @ pr_comment rule
      in if bs_contains seen key then allow_rules_loop rules seen
         else \<lparr>fa_protocol = pr_protocol rule, fa_port = pr_target_port rule, fa_comment = pr_comment rule\<rparr> #
              allow_rules_loop rules (bs_insert key seen))"

definition build_mieru_port_forward_plan ::
  "(string \<Rightarrow> string) \<Rightarrow> node_info list \<Rightarrow> hysteria_port_forward_plan" where
  "build_mieru_port_forward_plan dbg infos =
     (let (nat_rules, errors) = build_mieru_port_forward_rules dbg infos
      in \<lparr>plan_nat_rules = nat_rules, plan_allow_rules = allow_rules_loop nat_rules [], plan_errors = errors\<rparr>)"

section \<open>The ports of ranges\<close>

definition range_ports :: "port_forward_range \<Rightarrow> u16 set" where
  "range_ports r = {p. range_start r \<le> p \<and> p \<le> range_end r}"

definition ports_of :: "port_forward_range list \<Rightarrow> u16 set" where
  "ports_of rs = (\<Union>r \<in> set rs. range_ports r)"

definition wf_range :: "port_forward_range \<Rightarrow> bool" where
  "wf_range r \<longleftrightarrow> range_start r \<le> range_end r"

lemma ports_of_simps [simp]:
  "ports_of [] = {}" "ports_of (r # rs) = range_ports r \<union> ports_of rs"
  "ports_of (rs @ qs) = ports_of rs \<union> ports_of qs"
  by (auto simp: ports_of_def)

lemma range_ports_mk [simp]: "range_ports (mk_range a b) = {p. a \<le> p \<and> p \<le> b}"
  by (simp add: range_ports_def)

lemma wf_range_ports: "wf_range r \<Longrightarrow> range_ports r \<noteq> {}"
  by (auto simp: wf_range_def range_ports_def)

lemma le_minus_one: "(b :: u16) \<noteq> 0 \<Longrightarrow> p \<le> b - 1 \<longleftrightarrow> p < b"
  by (simp add: word_le_nat_alt word_less_nat_alt unat_minus_one unat_eq_0 [symmetric]) arith

lemma plus_one_le: "(b :: u16) < e \<Longrightarrow> b + 1 \<le> p \<longleftrightarrow> b < p"
proof -
  assume "b < e"
  moreover have "unat e < 65536" using unsigned_less [of e] by simp
  ultimately have "unat b + 1 < 2 ^ 16" by (simp add: word_less_nat_alt)
  then have "unat (b + 1) = unat b + 1" by (simp add: unat_word_ariths)
  then show ?thesis by (simp add: word_le_nat_alt word_less_nat_alt Suc_le_eq)
qed

lemma saturating_dec_le: "a < b \<Longrightarrow> p \<le> saturating_dec b \<longleftrightarrow> p < b"
  by (auto simp: saturating_dec_def le_minus_one)

lemma saturating_inc_le: "b < e \<Longrightarrow> saturating_inc b \<le> p \<longleftrightarrow> b < p"
  by (auto simp: saturating_inc_def plus_one_le)

lemma subtract_one_ports:
  assumes "wf_range r" "wf_range blocked"
  shows "ports_of (subtract_one blocked r) = range_ports r - range_ports blocked \<and>
    list_all wf_range (subtract_one blocked r)"
  using assms
  by (auto simp: subtract_one_def overlaps_def range_ports_def wf_range_def saturating_dec_le
      saturating_inc_le)

lemma subtract_range_set:
  assumes "list_all wf_range rs" "wf_range blocked"
  shows "ports_of (subtract_range rs blocked) = ports_of rs - range_ports blocked \<and>
    list_all wf_range (subtract_range rs blocked)"
  using assms
  by (induction rs) (simp_all add: subtract_range_def subtract_one_ports Un_Diff)

lemma subtract_single_port_set:
  assumes "list_all wf_range rs"
  shows "ports_of (subtract_single_port rs p) = ports_of rs - {p} \<and>
    list_all wf_range (subtract_single_port rs p)"
proof -
  have "{q. p \<le> q \<and> q \<le> p} = {p}" by auto
  then show ?thesis
    using subtract_range_set [OF assms, of "mk_range p p"]
    by (simp add: subtract_single_port_def wf_range_def)
qed

lemma trim_target_port_conflicts_set:
  assumes "list_all wf_range rs"
  shows "ports_of (trim_target_port_conflicts rs t m) = ports_of rs - (set (bt_keys m) - {t}) \<and>
    list_all wf_range (trim_target_port_conflicts rs t m)"
proof -
  have "ports_of (fold (\<lambda>p rs. if p = t then rs else subtract_single_port rs p) ks rs) =
      ports_of rs - (set ks - {t}) \<and>
      list_all wf_range (fold (\<lambda>p rs. if p = t then rs else subtract_single_port rs p) ks rs)" for ks
    using assms
  proof (induction ks arbitrary: rs)
    case (Cons k ks)
    show ?case
      using Cons.IH [OF Cons.prems] Cons.IH [of "subtract_single_port rs k"]
        subtract_single_port_set [OF Cons.prems, of k]
      by auto
  qed simp
  then show ?thesis by (simp add: trim_target_port_conflicts_def)
qed

lemma trim_allocated_set:
  assumes "list_all wf_range rs" "list_all (\<lambda>al. wf_range (al_range al)) als"
  shows "ports_of (trim_allocated_range_conflicts rs t pr als) =
      ports_of rs - (\<Union>al \<in> {al \<in> set als. al_target_port al \<noteq> t \<and> al_protocol al = pr}. range_ports (al_range al)) \<and>
    list_all wf_range (trim_allocated_range_conflicts rs t pr als)"
  using assms unfolding trim_allocated_range_conflicts_def
proof (induction als arbitrary: rs)
  case (Cons al als)
  show ?case
  proof (cases "al_target_port al = t \<or> al_protocol al \<noteq> pr")
    case True
    then have "{x \<in> set (al # als). al_target_port x \<noteq> t \<and> al_protocol x = pr} =
        {x \<in> set als. al_target_port x \<noteq> t \<and> al_protocol x = pr}" by auto
    with Cons True show ?thesis by simp
  next
    case False
    then have "{x \<in> set (al # als). al_target_port x \<noteq> t \<and> al_protocol x = pr} =
        insert al {x \<in> set als. al_target_port x \<noteq> t \<and> al_protocol x = pr}" by auto
    moreover have "ports_of (subtract_range rs (al_range al)) = ports_of rs - range_ports (al_range al) \<and>
        list_all wf_range (subtract_range rs (al_range al))"
      using Cons.prems by (intro subtract_range_set) simp_all
    ultimately show ?thesis
      using Cons.IH [of "subtract_range rs (al_range al)"] Cons.prems(2) False by auto
  qed
qed simp

section \<open>How iptables reads a matcher\<close>

text \<open>
  \<open>--dport\<close> takes a port or a range \<open>a:b\<close>; \<open>-m multiport --dports\<close> takes up to fifteen
  ports separated by commas.
\<close>

definition dport_matches :: "string \<Rightarrow> u16 \<Rightarrow> bool" where
  "dport_matches t p =
     (case map (parse_uint u16_max) (split_on (CHR '':'') t) of
        [Some a] \<Rightarrow> unat p = a
      | [Some a, Some b] \<Rightarrow> a \<le> unat p \<and> unat p \<le> b
      | _ \<Rightarrow> False)"

definition matcher_matches :: "port_forward_matcher \<Rightarrow> u16 \<Rightarrow> bool" where
  "matcher_matches m p =
     (case pm_args m of
        [f, t] \<Rightarrow> f = ''--dport'' \<and> dport_matches t p
      | [f, x, g, t] \<Rightarrow> f = ''-m'' \<and> x = ''multiport'' \<and> g = ''--dports'' \<and>
          length (split_on (CHR '','') t) \<le> 15 \<and>
          list_ex (\<lambda>u. dport_matches u p) (split_on (CHR '','') t)
      | _ \<Rightarrow> False)"

definition matchers_match :: "port_forward_matcher list \<Rightarrow> u16 \<Rightarrow> bool" where
  "matchers_match ms p \<longleftrightarrow> list_ex (\<lambda>m. matcher_matches m p) ms"

lemma matchers_match_append [simp]:
  "matchers_match (ms @ ns) p \<longleftrightarrow> matchers_match ms p \<or> matchers_match ns p"
  "\<not> matchers_match [] p"
  "matchers_match (m # ms) p \<longleftrightarrow> matcher_matches m p \<or> matchers_match ms p"
  by (auto simp: matchers_match_def)

lemma port_text_free: "\<not> is_ascii_digit c \<Longrightarrow> c \<notin> set (port_text p)"
  by (rule nat_to_string_notin)

lemma sep_not_digit [simp]:
  "\<not> is_ascii_digit (CHR '':'')" "\<not> is_ascii_digit (CHR '','')" "\<not> is_ascii_digit (CHR ''-'')"
  "\<not> is_ascii_digit (CHR '' '')" "\<not> is_ascii_digit (CHR ''|'')" "\<not> is_ascii_digit (CHR 0x00)"
  by (simp_all add: is_ascii_digit_def char_code_def)

lemma parse_port_text: "65535 \<le> mx \<Longrightarrow> parse_uint mx (port_text p) = Some (unat p)"
proof -
  assume "65535 \<le> mx"
  moreover have "unat p < 65536" using unsigned_less [of p] by simp
  ultimately show ?thesis by (intro parse_uint_nat_to_string) linarith
qed

lemma dport_matches_port: "dport_matches (port_text a) p \<longleftrightarrow> p = a"
  by (simp add: dport_matches_def split_on_plain port_text_free parse_port_text word_unat_eq_iff)

lemma single_matcher_matches [simp]: "matcher_matches (single_matcher a) p \<longleftrightarrow> p = a"
  by (simp add: single_matcher_def matcher_matches_def dport_matches_port)

lemma range_matcher_matches [simp]: "matcher_matches (range_matcher a b) p \<longleftrightarrow> a \<le> p \<and> p \<le> b"
  by (simp add: range_matcher_def matcher_matches_def dport_matches_def split_on_append split_on_plain
      port_text_free parse_port_text word_le_nat_alt)

lemma multiport_matcher_matches:
  assumes "ps \<noteq> []" "length ps \<le> 15"
  shows "matcher_matches (multiport_matcher ps) p \<longleftrightarrow> p \<in> set ps"
proof -
  have "split_on (CHR '','') (join '','' (map port_text ps)) = map port_text ps"
    using assms by (intro split_on_join) (auto simp: port_text_free)
  with assms show ?thesis
    by (auto simp: multiport_matcher_def matcher_matches_def list_ex_iff dport_matches_port)
qed

lemma flush_singles_matches: "matchers_match (flush_singles ps ms) p \<longleftrightarrow> matchers_match ms p \<or> p \<in> set ps"
proof (induction ps ms rule: flush_singles.induct)
  case (2 q qs ms)
  let ?c = "take 15 (q # qs)"
  let ?m = "if length ?c = 1 then single_matcher q else multiport_matcher ?c"
  have "matcher_matches ?m p \<longleftrightarrow> p \<in> set ?c"
  proof (cases "length ?c = 1")
    case True
    then have "?c = [q]" by (cases qs) simp_all
    then show ?thesis by simp
  next
    case False
    have "?c \<noteq> []" "length ?c \<le> 15" by simp_all
    from multiport_matcher_matches [OF this, of p] False show ?thesis by (simp only: if_False)
  qed
  moreover have "set (q # qs) = set ?c \<union> set (drop 15 (q # qs))"
    by (metis append_take_drop_id set_append)
  moreover have "flush_singles (q # qs) ms = flush_singles (drop 15 (q # qs)) (ms @ [?m])"
    by (simp only: flush_singles.simps Let_def)
  ultimately show ?case
    using "2.IH" [OF refl] by (simp only: matchers_match_append) blast
qed simp

lemma matchers_loop_matches:
  "matchers_match (matchers_loop rs singles ms) p \<longleftrightarrow> matchers_match ms p \<or> p \<in> set singles \<or> p \<in> ports_of rs"
  by (induction rs singles ms rule: matchers_loop.induct)
    (auto simp: flush_singles_matches range_ports_def)

lemma matchers_from_ranges_matches:
  "matchers_match (port_forward_matchers_from_ranges rs) p \<longleftrightarrow> p \<in> ports_of rs"
  by (simp add: port_forward_matchers_from_ranges_def matchers_loop_matches)

text \<open>No generated argument holds a zero byte, so the joined key determines the arguments.\<close>

definition plain_args :: "port_forward_matcher \<Rightarrow> bool" where
  "plain_args m \<longleftrightarrow> pm_args m \<noteq> [] \<and> list_all (\<lambda>a. CHR 0x00 \<notin> set a) (pm_args m)"

lemma join_ports_plain: "CHR 0x00 \<notin> set (join '','' (map port_text ps))"
  by (induction ps rule: induct_list012) (auto simp: port_text_free)

lemma matcher_plain [simp]:
  "plain_args (single_matcher a)" "plain_args (range_matcher a b)" "plain_args (multiport_matcher ps)"
  by (simp_all add: plain_args_def single_matcher_def range_matcher_def multiport_matcher_def port_text_free
      join_ports_plain)

lemma flush_singles_plain: "list_all plain_args ms \<Longrightarrow> list_all plain_args (flush_singles ps ms)"
  by (induction ps ms rule: flush_singles.induct) (simp_all add: Let_def)

lemma matchers_loop_plain: "list_all plain_args ms \<Longrightarrow> list_all plain_args (matchers_loop rs singles ms)"
  by (induction rs singles ms rule: matchers_loop.induct) (simp_all add: flush_singles_plain)

lemma matchers_from_ranges_plain: "list_all plain_args (port_forward_matchers_from_ranges rs)"
  by (simp add: port_forward_matchers_from_ranges_def matchers_loop_plain)

section \<open>The builders\<close>

text \<open>Which target a port of a protocol is redirected to, by the rules and by the allocation.\<close>

definition forwards :: "port_forward_rule list \<Rightarrow> string \<Rightarrow> u16 \<Rightarrow> u16 \<Rightarrow> bool" where
  "forwards rules pr t p \<longleftrightarrow>
     (\<exists>r \<in> set rules. pr_protocol r = pr \<and> pr_target_port r = t \<and> matcher_matches (pr_matcher r) p)"

definition takes :: "allocated_port_forward_range list \<Rightarrow> string \<Rightarrow> u16 \<Rightarrow> u16 \<Rightarrow> bool" where
  "takes als pr t p \<longleftrightarrow>
     (\<exists>al \<in> set als. al_protocol al = pr \<and> al_target_port al = t \<and> p \<in> range_ports (al_range al))"

lemma forwards_append [simp]:
  "forwards (rs @ qs) pr t p \<longleftrightarrow> forwards rs pr t p \<or> forwards qs pr t p" "\<not> forwards [] pr t p"
  "forwards (r # rs) pr t p \<longleftrightarrow>
     pr_protocol r = pr \<and> pr_target_port r = t \<and> matcher_matches (pr_matcher r) p \<or> forwards rs pr t p"
  by (auto simp: forwards_def)

lemma takes_append [simp]:
  "takes (as @ bs) pr t p \<longleftrightarrow> takes as pr t p \<or> takes bs pr t p" "\<not> takes [] pr t p"
  by (auto simp: takes_def)

lemma takes_map [simp]:
  "takes (map (\<lambda>r. \<lparr>al_node_id = i, al_target_port = t, al_protocol = pr, al_range = r\<rparr>) rs) pr' t' p \<longleftrightarrow>
     pr' = pr \<and> t' = t \<and> p \<in> ports_of rs"
  by (auto simp: takes_def ports_of_def)

text \<open>
  The invariant of the building loop, for the keys of a builder, its protocols and the target
  ports \<open>T\<close> of each protocol: the seen keys are those of the rules, rules and allocation
  redirect the same ports, only to target ports and never from one, and every port of a
  protocol to one target only.
\<close>

definition rules_keyed ::
  "(string \<Rightarrow> u16 \<Rightarrow> port_forward_matcher \<Rightarrow> string) \<Rightarrow> string set \<Rightarrow> build_state \<Rightarrow> bool" where
  "rules_keyed key protos st \<longleftrightarrow>
     set (pb_seen st) = (\<lambda>r. key (pr_protocol r) (pr_target_port r) (pr_matcher r)) ` set (pb_rules st) \<and>
     list_all (\<lambda>r. pr_protocol r \<in> protos \<and> plain_args (pr_matcher r)) (pb_rules st)"

definition build_ok ::
  "(string \<Rightarrow> u16 \<Rightarrow> port_forward_matcher \<Rightarrow> string) \<Rightarrow> string set \<Rightarrow> (string \<Rightarrow> u16 set) \<Rightarrow> build_state \<Rightarrow> bool" where
  "build_ok key protos T st \<longleftrightarrow>
     rules_keyed key protos st \<and>
     list_all (\<lambda>al. wf_range (al_range al)) (pb_allocated st) \<and>
     (\<forall>pr t p. forwards (pb_rules st) pr t p \<longleftrightarrow> takes (pb_allocated st) pr t p) \<and>
     (\<forall>pr t p. takes (pb_allocated st) pr t p \<longrightarrow> t \<in> T pr \<and> p \<notin> T pr \<and> p \<noteq> 0) \<and>
     (\<forall>pr t t' p. takes (pb_allocated st) pr t p \<longrightarrow> takes (pb_allocated st) pr t' p \<longrightarrow> t = t')"

lemma build_ok_init: "build_ok key protos T build_state_init"
  by (simp add: build_ok_def rules_keyed_def build_state_init_def)

lemma push_error_simps [simp]:
  "pb_rules (push_error e st) = pb_rules st" "pb_seen (push_error e st) = pb_seen st"
  "pb_allocated (push_error e st) = pb_allocated st" "pb_errors (push_error e st) = pb_errors st @ [e]"
  "build_ok key protos T (push_error e st) = build_ok key protos T st"
  by (simp_all add: push_error_def build_ok_def rules_keyed_def)

text \<open>
  The contract a builder's key has to keep: within its protocols it tells rules apart by
  protocol, target port and matcher arguments.
\<close>

locale port_forward_builder =
  fixes key :: "string \<Rightarrow> u16 \<Rightarrow> port_forward_matcher \<Rightarrow> string"
    and protos :: "string set"
  assumes key_inj:
    "\<lbrakk>pr \<in> protos; pr' \<in> protos; plain_args m; plain_args m'; key pr t m = key pr' t' m'\<rbrakk> \<Longrightarrow>
       pr = pr' \<and> t = t' \<and> pm_args m = pm_args m'"
begin

lemma push_rule_forwards:
  assumes "rules_keyed key protos st" "pr \<in> protos" "plain_args m"
    and st': "st' = push_rule (key pr t)
      (\<lambda>m. \<lparr>pr_matcher = m, pr_target_port = t, pr_protocol = pr, pr_comment = c\<rparr>) m st"
  shows "rules_keyed key protos st'" "pb_allocated st' = pb_allocated st"
    "forwards (pb_rules st') pr' t' p \<longleftrightarrow>
       forwards (pb_rules st) pr' t' p \<or> pr' = pr \<and> t' = t \<and> matcher_matches m p"
proof -
  show "rules_keyed key protos st'" "pb_allocated st' = pb_allocated st"
    using assms by (auto simp: push_rule_def rules_keyed_def)
  show "forwards (pb_rules st') pr' t' p \<longleftrightarrow>
       forwards (pb_rules st) pr' t' p \<or> pr' = pr \<and> t' = t \<and> matcher_matches m p"
  proof (cases "key pr t m \<in> set (pb_seen st)")
    case True
    then obtain r where r: "r \<in> set (pb_rules st)"
      "key pr t m = key (pr_protocol r) (pr_target_port r) (pr_matcher r)"
      using assms(1) by (auto simp: rules_keyed_def)
    moreover from r(1) assms(1) have "pr_protocol r \<in> protos" "plain_args (pr_matcher r)"
      by (auto simp: rules_keyed_def list_all_iff)
    ultimately have "pr = pr_protocol r \<and> t = pr_target_port r \<and> pm_args m = pm_args (pr_matcher r)"
      using key_inj [OF assms(2) _ assms(3)] by blast
    then have "matcher_matches m p \<Longrightarrow> forwards (pb_rules st) pr t p"
      using r(1) by (auto simp: forwards_def matcher_matches_def)
    with True st' show ?thesis by (auto simp: push_rule_def bs_contains_def)
  next
    case False
    with st' show ?thesis by (auto simp: push_rule_def bs_contains_def)
  qed
qed

lemma push_rules_forwards:
  assumes "rules_keyed key protos st" "pr \<in> protos" "list_all plain_args ms"
    and "st' = fold (push_rule (key pr t)
      (\<lambda>m. \<lparr>pr_matcher = m, pr_target_port = t, pr_protocol = pr, pr_comment = c\<rparr>)) ms st"
  shows "rules_keyed key protos st' \<and> pb_allocated st' = pb_allocated st \<and>
    (\<forall>pr' t' p. forwards (pb_rules st') pr' t' p \<longleftrightarrow>
       forwards (pb_rules st) pr' t' p \<or> pr' = pr \<and> t' = t \<and> matchers_match ms p)"
  using assms
proof (induction ms arbitrary: st)
  case (Cons m ms)
  define st1 where "st1 = push_rule (key pr t)
      (\<lambda>m. \<lparr>pr_matcher = m, pr_target_port = t, pr_protocol = pr, pr_comment = c\<rparr>) m st"
  have "plain_args m" using Cons.prems(3) by simp
  note one = push_rule_forwards [OF Cons.prems(1,2) this st1_def]
  have "st' = fold (push_rule (key pr t)
      (\<lambda>m. \<lparr>pr_matcher = m, pr_target_port = t, pr_protocol = pr, pr_comment = c\<rparr>)) ms st1"
    using Cons.prems(4) by (simp add: st1_def)
  from Cons.IH [OF one(1) Cons.prems(2) _ this] Cons.prems(3) one show ?case by auto
qed simp

text \<open>One node: the invariant is kept, and every port it asks for ends up with a target.\<close>

lemma allocate_and_push_ok:
  assumes inv: "build_ok key protos T st" and pr: "pr \<in> protos" and t: "t \<in> T pr"
    and m: "set (bt_keys m) = T pr"
    and rs: "list_all wf_range rs" "t \<notin> ports_of rs" "0 \<notin> ports_of rs"
    and st': "st' = allocate_and_push cov t i pr (key pr t) m c rs st"
  shows "build_ok key protos T st' \<and>
    (\<forall>pr' t' p. takes (pb_allocated st) pr' t' p \<longrightarrow> takes (pb_allocated st') pr' t' p) \<and>
    (\<forall>p \<in> ports_of rs - T pr. \<exists>t'. takes (pb_allocated st') pr t' p)"
proof -
  define rs1 where "rs1 = trim_target_port_conflicts rs t m"
  define rs2 where "rs2 = trim_allocated_range_conflicts rs1 t pr (pb_allocated st)"
  note old = inv [unfolded build_ok_def]
  have rs1: "ports_of rs1 = ports_of rs - T pr" "list_all wf_range rs1"
    using trim_target_port_conflicts_set [OF rs(1), of t m] rs(2) by (auto simp: rs1_def m)
  have rs2: "ports_of rs2 = {p \<in> ports_of rs1. \<forall>t'. takes (pb_allocated st) pr t' p \<longrightarrow> t' = t}"
    "list_all wf_range rs2"
    using trim_allocated_set [OF rs1(2), of "pb_allocated st" t pr] old
    by (auto simp: rs2_def takes_def)
  show ?thesis
  proof (cases "rs2 = []")
    case True
    then have "st' = push_error cov st" using st' by (simp add: allocate_and_push_def rs1_def rs2_def)
    moreover have "\<exists>t'. takes (pb_allocated st) pr t' p" if "p \<in> ports_of rs - T pr" for p
      using that True rs1(1) rs2(1) by auto
    ultimately show ?thesis using inv by simp
  next
    case False
    define st1 where "st1 = st\<lparr>pb_allocated := pb_allocated st @
        map (\<lambda>r. \<lparr>al_node_id = i, al_target_port = t, al_protocol = pr, al_range = r\<rparr>) rs2\<rparr>"
    have "rules_keyed key protos st1" using old by (simp add: st1_def rules_keyed_def)
    moreover have "st' = fold (push_rule (key pr t)
        (\<lambda>m. \<lparr>pr_matcher = m, pr_target_port = t, pr_protocol = pr, pr_comment = c\<rparr>))
        (port_forward_matchers_from_ranges rs2) st1"
      using False st' by (simp add: allocate_and_push_def Let_def rs1_def rs2_def st1_def)
    ultimately have new: "rules_keyed key protos st'" "pb_allocated st' = pb_allocated st1"
      "\<And>pr' t' p. forwards (pb_rules st') pr' t' p \<longleftrightarrow>
         forwards (pb_rules st) pr' t' p \<or> pr' = pr \<and> t' = t \<and> p \<in> ports_of rs2"
      using push_rules_forwards [OF _ pr matchers_from_ranges_plain, of st1 st' t c rs2]
      by (auto simp: matchers_from_ranges_matches st1_def)
    have al: "takes (pb_allocated st') pr' t' p \<longleftrightarrow>
        takes (pb_allocated st) pr' t' p \<or> pr' = pr \<and> t' = t \<and> p \<in> ports_of rs2" for pr' t' p
      by (simp add: new(2) st1_def)
    have "list_all (\<lambda>al. wf_range (al_range al)) (pb_allocated st')"
      using old rs2(2) by (simp add: new(2) st1_def list.pred_map comp_def)
    moreover have "t' \<in> T pr' \<and> p \<notin> T pr' \<and> p \<noteq> 0" if "takes (pb_allocated st') pr' t' p" for pr' t' p
      using that t rs(3) rs1(1) rs2(1) old unfolding al by blast
    moreover have "t1 = t2" if "takes (pb_allocated st') pr' t1 p" "takes (pb_allocated st') pr' t2 p"
      for pr' t1 t2 p
      using that rs2(1) old unfolding al by blast
    ultimately have "build_ok key protos T st'"
      unfolding build_ok_def using new(1,3) old by (simp add: al)
    moreover have "\<exists>t'. takes (pb_allocated st') pr t' p" if "p \<in> ports_of rs - T pr" for p
      using that rs1(1) rs2(1) unfolding al by blast
    ultimately show ?thesis by (simp add: al)
  qed
qed

end

section \<open>Keys\<close>

lemma prefix_unique:
  assumes "list_all P x" "list_all P y" "\<not> P c" and "x @ c # p = y @ c # q"
  shows "x = y \<and> p = q"
proof -
  have "takeWhile P (x @ c # p) = x" "takeWhile P (y @ c # q) = y"
    using assms(1-3) by (simp_all add: takeWhile_append list_all_iff takeWhile_eq_all_conv [THEN iffD2])
  with assms(4) show ?thesis by simp
qed

lemma args_key:
  assumes "plain_args m" "plain_args m'"
    and "port_text t @ ''|'' @ join [CHR 0x00] (pm_args m) = port_text t' @ ''|'' @ join [CHR 0x00] (pm_args m')"
  shows "t = t' \<and> pm_args m = pm_args m'"
proof -
  have "port_text t = port_text t' \<and> join [CHR 0x00] (pm_args m) = join [CHR 0x00] (pm_args m')"
    using assms(3) by (intro prefix_unique [where P = is_ascii_digit and c = "CHR ''|''"])
      (simp_all add: nat_to_string_digits)
  moreover have "split_on (CHR 0x00) (join [CHR 0x00] (pm_args x)) = pm_args x" if "plain_args x" for x
    using that by (intro split_on_join) (auto simp: plain_args_def list_all_iff)
  ultimately show ?thesis using assms(1,2) by (metis nat_to_string_inj word_unat_eq_iff)
qed

definition hysteria_key :: "string \<Rightarrow> u16 \<Rightarrow> port_forward_matcher \<Rightarrow> string" where
  "hysteria_key pr t m = port_text t @ ''|'' @ join [CHR 0x00] (pm_args m)"

definition mieru_key :: "string \<Rightarrow> u16 \<Rightarrow> port_forward_matcher \<Rightarrow> string" where
  "mieru_key pr t m = pr @ ''|'' @ port_text t @ ''|'' @ join [CHR 0x00] (pm_args m)"

interpretation hy: port_forward_builder hysteria_key "{''udp''}"
  by unfold_locales (use args_key in \<open>auto simp: hysteria_key_def\<close>)

interpretation mi: port_forward_builder mieru_key "{''tcp'', ''udp''}"
proof
  fix pr pr' t t' m m'
  assume pr: "pr \<in> {''tcp'', ''udp''}" "pr' \<in> {''tcp'', ''udp''}"
    and m: "plain_args m" "plain_args m'" and k: "mieru_key pr t m = mieru_key pr' t' m'"
  have "pr = pr'" using pr k by (auto simp: mieru_key_def)
  with k have "port_text t @ ''|'' @ join [CHR 0x00] (pm_args m) = port_text t' @ ''|'' @ join [CHR 0x00] (pm_args m')"
    by (simp add: mieru_key_def)
  from args_key [OF m this] \<open>pr = pr'\<close> show "pr = pr' \<and> t = t' \<and> pm_args m = pm_args m'" by blast
qed

section \<open>Parsing\<close>

lemma parse_port_number_Inr: "parse_port_number dbg t = Inr p \<Longrightarrow> p \<noteq> 0"
proof -
  have "word_of_nat n \<noteq> (0 :: u16)" if "n \<noteq> 0" "n \<le> u16_max" for n
  proof
    assume "word_of_nat n = (0 :: u16)"
    then have "unat (word_of_nat n :: u16) = 0" by simp
    moreover have "unat (word_of_nat n :: u16) = n" using that by (simp add: unat_of_nat)
    ultimately show False using that by simp
  qed
  then show "parse_port_number dbg t = Inr p \<Longrightarrow> p \<noteq> 0"
    by (auto simp: parse_port_number_def not_less split: if_splits option.splits)
qed

lemma parse_port_range_Inr: "parse_port_range dbg t = Inr (a, b) \<Longrightarrow> a \<noteq> 0 \<and> a \<le> b"
  by (auto simp: parse_port_range_def Let_def result_simps not_less dest: parse_port_number_Inr
      split: list.splits if_splits)

lemma range_parts_ports:
  assumes "a \<le> b" "a \<noteq> 0"
  shows "ports_of (map (\<lambda>(x, y). mk_range x y) (range_parts a b e)) = {p. a \<le> p \<and> p \<le> b} - {e} \<and>
    list_all wf_range (map (\<lambda>(x, y). mk_range x y) (range_parts a b e))"
proof (cases "e > 0 \<and> a \<le> e \<and> e \<le> b")
  case True
  then have dec: "p \<le> e - 1 \<longleftrightarrow> p < e" for p by (intro le_minus_one) auto
  have inc: "e < b \<Longrightarrow> e + 1 \<le> p \<longleftrightarrow> e < p" for p by (rule plus_one_le)
  have rp: "range_parts a b e = (if a < e then [(a, e - 1)] else []) @ (if e < b then [(e + 1, b)] else [])"
    using True by (simp add: range_parts_def)
  have split: "a \<le> p \<and> p < e \<or> e < p \<and> p \<le> b \<longleftrightarrow> a \<le> p \<and> p \<le> b \<and> p \<noteq> e" for p
    using True unfolding word_le_nat_alt word_less_nat_alt word_unat_eq_iff by arith
  have "p \<in> ports_of (map (\<lambda>(x, y). mk_range x y) (range_parts a b e)) \<longleftrightarrow>
      a < e \<and> a \<le> p \<and> p < e \<or> e < b \<and> e < p \<and> p \<le> b" for p
    unfolding rp by (simp add: dec inc)
  then have "p \<in> ports_of (map (\<lambda>(x, y). mk_range x y) (range_parts a b e)) \<longleftrightarrow> a \<le> p \<and> p \<le> b \<and> p \<noteq> e" for p
    using split [of p] le_less_trans less_le_trans by blast
  moreover have "list_all wf_range (map (\<lambda>(x, y). mk_range x y) (range_parts a b e))"
    unfolding rp by (simp add: wf_range_def dec inc)
  ultimately show ?thesis by blast
next
  case False
  then have "range_parts a b e = [(a, b)]" unfolding range_parts_def by (simp only: if_False)
  moreover have "\<not> (a \<le> e \<and> e \<le> b)" using False assms by (auto simp: word_gt_0)
  ultimately show ?thesis using assms by (auto simp: wf_range_def)
qed

lemma range_matchers_match:
  "matchers_match (map (\<lambda>(x, y). range_matcher x y) xs) p \<longleftrightarrow> p \<in> ports_of (map (\<lambda>(x, y). mk_range x y) xs)"
  by (induction xs) auto

text \<open>The range one token of the text stands for.\<close>

definition token_range :: "(string \<Rightarrow> string) \<Rightarrow> string \<Rightarrow> (u16 \<times> u16) result" where
  "token_range dbg t =
     (if t = [] then Err ''empty token''
      else if CHR ''-'' \<in> set t \<or> CHR '':'' \<in> set t then parse_port_range dbg t
      else map_ok (\<lambda>p. (p, p)) (parse_port_number dbg t))"

definition pair_ports :: "(u16 \<times> u16) list \<Rightarrow> u16 set" where
  "pair_ports xs = {p. \<exists>(a, b) \<in> set xs. a \<le> p \<and> p \<le> b}"

lemma pair_ports_simps [simp]:
  "pair_ports [] = {}" "pair_ports ((a, b) # xs) = {p. a \<le> p \<and> p \<le> b} \<union> pair_ports xs"
  by (auto simp: pair_ports_def)

lemma token_range_Inr: "token_range dbg t = Inr (a, b) \<Longrightarrow> a \<noteq> 0 \<and> a \<le> b"
  using parse_port_number_Inr parse_port_range_Inr
  by (fastforce simp: token_range_def result_simps split: if_splits)

text \<open>One step of the parser, by the range of its token.\<close>

lemma parse_tokens_step:
  "parse_tokens dbg e (t # ts) singles ms rs =
     and_then (token_range dbg t) (\<lambda>(a, b).
       if a = b
       then (if a = e then parse_tokens dbg e ts singles ms rs
             else parse_tokens dbg e ts (singles @ [a]) ms (rs @ [mk_range a a]))
       else parse_tokens dbg e ts []
         (flush_singles singles ms @ map (\<lambda>(x, y). range_matcher x y) (range_parts a b e))
         (rs @ map (\<lambda>(x, y). mk_range x y) (range_parts a b e)))"
  by (cases "parse_port_range dbg t"; cases "parse_port_number dbg t")
    (auto simp: token_range_def add_single_def add_range_def Let_def)

declare parse_tokens.simps(2) [simp del]

lemma parse_tokens_ports:
  assumes "parse_tokens dbg e ts singles ms rs = Inr (ms', rs')" "list_all wf_range rs"
  shows "\<exists>xs. collect_results (map (token_range dbg) ts) = Inr xs \<and> list_all wf_range rs' \<and>
    ports_of rs' = ports_of rs \<union> (pair_ports xs - {e}) \<and>
    (\<forall>p. matchers_match ms' p \<longleftrightarrow> matchers_match ms p \<or> p \<in> set singles \<or> p \<in> pair_ports xs - {e})"
  using assms
proof (induction ts arbitrary: singles ms rs)
  case Nil
  then show ?case by (auto simp: flush_singles_matches)
next
  case (Cons t ts)
  from Cons.prems(1) obtain a b where t: "token_range dbg t = Inr (a, b)"
    by (auto simp: parse_tokens_step result_simps)
  have ab: "a \<noteq> 0" "a \<le> b" using token_range_Inr [OF t] by simp_all
  consider (skip) "a = b" "a = e" | (single) "a = b" "a \<noteq> e" | (range) "a \<noteq> b" by blast
  then show ?case
  proof cases
    case skip
    with Cons.prems(1) t have "parse_tokens dbg e ts singles ms rs = Inr (ms', rs')"
      by (simp add: parse_tokens_step)
    from Cons.IH [OF this Cons.prems(2)] skip t show ?thesis by auto
  next
    case single
    with Cons.prems(1) t have "parse_tokens dbg e ts (singles @ [a]) ms (rs @ [mk_range a a]) = Inr (ms', rs')"
      by (simp add: parse_tokens_step)
    from Cons.IH [OF this] Cons.prems(2) single t show ?thesis by (auto simp: wf_range_def)
  next
    case range
    with Cons.prems(1) t have "parse_tokens dbg e ts []
         (flush_singles singles ms @ map (\<lambda>(x, y). range_matcher x y) (range_parts a b e))
         (rs @ map (\<lambda>(x, y). mk_range x y) (range_parts a b e)) = Inr (ms', rs')"
      by (simp add: parse_tokens_step)
    note ih = Cons.IH [OF this]
    have "list_all wf_range (rs @ map (\<lambda>(x, y). mk_range x y) (range_parts a b e))"
      using Cons.prems(2) range_parts_ports [OF ab(2,1), of e] by simp
    from ih [OF this] t show ?thesis
      using range_parts_ports [OF ab(2,1), of e]
      by (auto simp: flush_singles_matches range_matchers_match)
  qed
qed

lemma parse_tokens_ok:
  "is_ok (parse_tokens dbg e ts singles ms rs) \<longleftrightarrow> list_all (\<lambda>t. is_ok (token_range dbg t)) ts"
proof (induction ts arbitrary: singles ms rs)
  case (Cons t ts)
  then show ?case
    by (cases "token_range dbg t") (auto simp: parse_tokens_step split: prod.splits)
qed simp

lemma parse_ranges_ok:
  assumes "parse_port_forward_matchers_and_ranges_except dbg raw e = Inr (ms, rs)"
  shows "list_all wf_range rs \<and> e \<notin> ports_of rs \<and> 0 \<notin> ports_of rs \<and>
    (\<forall>p. matchers_match ms p \<longleftrightarrow> p \<in> ports_of rs)"
proof -
  let ?ts = "split_on (CHR '','') (filter (\<lambda>c. c \<noteq> CHR '' '') (trim raw))"
  have "parse_tokens dbg e ?ts [] [] [] = Inr (ms, rs)"
    using assms by (auto simp: parse_port_forward_matchers_and_ranges_except_def Let_def split: if_splits)
  from parse_tokens_ports [OF this] obtain xs where xs: "collect_results (map (token_range dbg) ?ts) = Inr xs"
    "list_all wf_range rs" "ports_of rs = pair_ports xs - {e}"
    "\<forall>p. matchers_match ms p \<longleftrightarrow> p \<in> pair_ports xs - {e}" by auto
  have "a \<noteq> 0" if "(a, b) \<in> set xs" for a b
    using collect_results_map_in [OF xs(1) that] token_range_Inr by blast
  then have "0 \<notin> pair_ports xs" by (auto simp: pair_ports_def)
  with xs show ?thesis by simp
qed

section \<open>Printed ranges\<close>

fun print_range :: "u16 \<times> u16 \<Rightarrow> string" where
  "print_range (a, b) = (if a = b then port_text a else port_text a @ ''-'' @ port_text b)"

lemma parse_port_number_text: "a \<noteq> 0 \<Longrightarrow> parse_port_number dbg (port_text a) = Inr a"
proof -
  assume "a \<noteq> 0"
  moreover have "unat a < 65536" using unsigned_less [of a] by simp
  ultimately show ?thesis
    by (simp add: parse_port_number_def parse_port_text unat_eq_0)
qed

lemma token_range_print:
  assumes "a \<noteq> 0" "a \<le> b"
  shows "token_range dbg (print_range (a, b)) = Inr (a, b)"
proof -
  have "b \<noteq> 0" using assms by auto
  then show ?thesis
    using assms by (auto simp: token_range_def port_text_free parse_port_number_text parse_port_range_def
        split_on_append split_on_plain)
qed

lemma print_range_plain: "\<not> is_ascii_digit c \<Longrightarrow> c \<noteq> CHR ''-'' \<Longrightarrow> c \<notin> set (print_range x)"
  by (cases x) (simp add: port_text_free)

section \<open>The targets of a protocol\<close>

definition hysteria_targets :: "node_info list \<Rightarrow> u16 set" where
  "hysteria_targets infos =
     {t. t \<noteq> 0 \<and> (\<exists>info \<in> set infos. ni_protocol info = Hysteria2 \<and> cn_server_port (ni_common info) = t)}"

definition mieru_targets :: "node_info list \<Rightarrow> string \<Rightarrow> u16 set" where
  "mieru_targets infos pr =
     {t. t \<noteq> 0 \<and> (\<exists>info \<in> set infos. ni_protocol info = Mieru \<and> cn_server_port (ni_common info) = t \<and>
        mieru_port_forward_protocol (cn_transport (ni_common info)) = Inr pr)}"

lemma keys_bt_collect: "set (bt_keys (bt_collect kvs)) = fst ` set kvs"
proof -
  have "fst ` set (fold (\<lambda>(k, v). bt_insert k v) kvs m) = fst ` set kvs \<union> fst ` set m" for m
    by (induction kvs arbitrary: m) (simp_all add: keys_bt_insert case_prod_beta)
  then show ?thesis by (simp add: bt_keys_def bt_collect_def)
qed

lemma collect_hysteria_target_ports_keys:
  "set (bt_keys (collect_hysteria_target_ports infos)) = hysteria_targets infos"
  by (auto simp: collect_hysteria_target_ports_def keys_bt_collect hysteria_targets_def word_gt_0 image_image)

lemma keys_bt_keys_insert: "set (bt_keys (bt_insert k v m)) = insert k (set (bt_keys m))"
  by (simp add: bt_keys_def keys_bt_insert)

lemma bt_keys_Nil [simp]: "bt_keys [] = []"
  by (simp add: bt_keys_def)

lemma mieru_targets_loop_keys:
  "set (bt_keys (unwrap_or [] (bt_get (mieru_targets_loop infos out) pr))) =
     mieru_targets infos pr \<union> set (bt_keys (unwrap_or [] (bt_get out pr)))"
proof (induction infos arbitrary: out)
  case (Cons info infos)
  show ?case
  proof (cases "ni_protocol info \<noteq> Mieru \<or> cn_server_port (ni_common info) = 0")
    case True
    then have "mieru_targets (info # infos) pr = mieru_targets infos pr" by (auto simp: mieru_targets_def)
    with True Cons.IH show ?thesis by simp
  next
    case False
    show ?thesis
    proof (cases "mieru_port_forward_protocol (cn_transport (ni_common info))")
      case (Inl e)
      then have "mieru_targets (info # infos) pr = mieru_targets infos pr" by (auto simp: mieru_targets_def)
      with False Inl Cons.IH show ?thesis by simp
    next
      case (Inr pr')
      then have "mieru_targets (info # infos) pr =
          (if pr = pr' then {cn_server_port (ni_common info)} else {}) \<union> mieru_targets infos pr"
        using False by (auto simp: mieru_targets_def)
      with False Inr show ?thesis
        by (simp add: Cons.IH bt_get_insert keys_bt_keys_insert)
    qed
  qed
qed (simp add: mieru_targets_def)

lemma collect_mieru_target_ports_keys:
  "set (bt_keys (unwrap_or [] (bt_get (collect_mieru_target_ports_by_protocol infos) pr))) = mieru_targets infos pr"
  by (simp add: collect_mieru_target_ports_by_protocol_def mieru_targets_loop_keys) (simp add: bt_get_def)

lemma mieru_protocol_cases:
  "mieru_port_forward_protocol s = Inr pr \<Longrightarrow> pr \<in> {''tcp'', ''udp''}"
  by (auto simp: mieru_port_forward_protocol_def Let_def split: if_splits)

section \<open>The whole build\<close>

text \<open>The ports a node asks for, by its settings.\<close>

definition hysteria_wants :: "(string \<Rightarrow> string) \<Rightarrow> node_info \<Rightarrow> u16 \<Rightarrow> bool" where
  "hysteria_wants dbg info p \<longleftrightarrow>
     ni_protocol info = Hysteria2 \<and> cn_server_port (ni_common info) \<noteq> 0 \<and>
     (\<exists>ms rs. parse_port_forward_matchers_and_ranges_except dbg
        (types_first_non_empty (trim (cn_port (ni_common info))) (trim (cn_ports (ni_common info))))
        (cn_server_port (ni_common info)) = Inr (ms, rs) \<and> p \<in> ports_of rs)"

definition mieru_wants :: "(string \<Rightarrow> string) \<Rightarrow> node_info \<Rightarrow> string \<Rightarrow> u16 \<Rightarrow> bool" where
  "mieru_wants dbg info pr p \<longleftrightarrow>
     ni_protocol info = Mieru \<and> cn_server_port (ni_common info) \<noteq> 0 \<and>
     mieru_port_forward_protocol (cn_transport (ni_common info)) = Inr pr \<and>
     (\<exists>ms rs. parse_port_forward_matchers_and_ranges_except dbg
        (types_first_non_empty (trim (cn_ports (ni_common info))) (trim (cn_port (ni_common info))))
        (cn_server_port (ni_common info)) = Inr (ms, rs) \<and> p \<in> ports_of rs)"

lemma parse_Nil: "parse_port_forward_matchers_and_ranges_except dbg [] e = Inl ''empty port''"
  by (simp add: parse_port_forward_matchers_and_ranges_except_def)

lemma hysteria_key_fun: "hysteria_key pr t = (\<lambda>m. port_text t @ ''|'' @ join [CHR 0x00] (pm_args m))"
  by (simp add: fun_eq_iff hysteria_key_def)

lemma mieru_key_fun:
  "mieru_key pr t = (\<lambda>m. pr @ ''|'' @ port_text t @ ''|'' @ join [CHR 0x00] (pm_args m))"
  by (simp add: fun_eq_iff mieru_key_def)

lemma build_hysteria_step_ok:
  assumes inv: "build_ok hysteria_key {''udp''} (\<lambda>_. T) st"
    and m: "set (bt_keys m) = T"
    and t: "ni_protocol info = Hysteria2 \<Longrightarrow> cn_server_port (ni_common info) \<noteq> 0 \<Longrightarrow> cn_server_port (ni_common info) \<in> T"
    and st': "st' = build_hysteria_step dbg m info st"
  shows "build_ok hysteria_key {''udp''} (\<lambda>_. T) st' \<and>
    (\<forall>pr t p. takes (pb_allocated st) pr t p \<longrightarrow> takes (pb_allocated st') pr t p) \<and>
    (\<forall>p. hysteria_wants dbg info p \<longrightarrow> p \<notin> T \<longrightarrow> (\<exists>t. takes (pb_allocated st') ''udp'' t p))"
proof -
  let ?t = "cn_server_port (ni_common info)"
  let ?x = "types_first_non_empty (trim (cn_port (ni_common info))) (trim (cn_ports (ni_common info)))"
  show ?thesis
  proof (cases "ni_protocol info = Hysteria2 \<and> ?t \<noteq> 0 \<and>
      (\<exists>ms rs. parse_port_forward_matchers_and_ranges_except dbg ?x ?t = Inr (ms, rs) \<and> rs \<noteq> [])")
    case True
    then obtain ms rs where p: "parse_port_forward_matchers_and_ranges_except dbg ?x ?t = Inr (ms, rs)"
      "rs \<noteq> []" by blast
    then have "?x \<noteq> []" using parse_Nil by (metis Inl_Inr_False)
    with True p st' have "\<exists>cov. st' = allocate_and_push cov ?t (ni_id info) ''udp'' (hysteria_key ''udp'' ?t) m
        HYSTERIA_PORT_FORWARD_COMMENT rs st"
      by (auto simp: build_hysteria_step_def Let_def hysteria_key_fun)
    then obtain cov where "st' = allocate_and_push cov ?t (ni_id info) ''udp'' (hysteria_key ''udp'' ?t) m
        HYSTERIA_PORT_FORWARD_COMMENT rs st" ..
    note ok = hy.allocate_and_push_ok [OF inv _ _ _ _ _ _ this]
    from parse_ranges_ok [OF p(1)] have "list_all wf_range rs" "?t \<notin> ports_of rs" "0 \<notin> ports_of rs" by auto
    from ok [OF _ _ m this] t True p(1) show ?thesis by (auto simp: hysteria_wants_def)
  next
    case False
    then have "st' = st \<or> (\<exists>e. st' = push_error e st)"
      using st' by (auto simp: build_hysteria_step_def Let_def split: sum.splits prod.splits)
    moreover have "\<not> hysteria_wants dbg info p" for p
      using False by (auto simp: hysteria_wants_def)
    ultimately show ?thesis using inv by auto
  qed
qed

lemma build_mieru_step_ok:
  assumes inv: "build_ok mieru_key {''tcp'', ''udp''} T st"
    and m: "\<And>pr. set (bt_keys (unwrap_or [] (bt_get m pr))) = T pr"
    and t: "\<And>pr. ni_protocol info = Mieru \<Longrightarrow> cn_server_port (ni_common info) \<noteq> 0 \<Longrightarrow>
      mieru_port_forward_protocol (cn_transport (ni_common info)) = Inr pr \<Longrightarrow> cn_server_port (ni_common info) \<in> T pr"
    and st': "st' = build_mieru_step dbg m info st"
  shows "build_ok mieru_key {''tcp'', ''udp''} T st' \<and>
    (\<forall>pr t p. takes (pb_allocated st) pr t p \<longrightarrow> takes (pb_allocated st') pr t p) \<and>
    (\<forall>pr p. mieru_wants dbg info pr p \<longrightarrow> p \<notin> T pr \<longrightarrow> (\<exists>t. takes (pb_allocated st') pr t p))"
proof -
  let ?t = "cn_server_port (ni_common info)"
  let ?x = "types_first_non_empty (trim (cn_ports (ni_common info))) (trim (cn_port (ni_common info)))"
  show ?thesis
  proof (cases "ni_protocol info = Mieru \<and> ?t \<noteq> 0 \<and>
      (\<exists>pr ms rs. mieru_port_forward_protocol (cn_transport (ni_common info)) = Inr pr \<and>
        parse_port_forward_matchers_and_ranges_except dbg ?x ?t = Inr (ms, rs) \<and> rs \<noteq> [])")
    case True
    then obtain pr ms rs where pr: "mieru_port_forward_protocol (cn_transport (ni_common info)) = Inr pr"
      and p: "parse_port_forward_matchers_and_ranges_except dbg ?x ?t = Inr (ms, rs)" "rs \<noteq> []" by blast
    then have "?x \<noteq> []" using parse_Nil by (metis Inl_Inr_False)
    with True p pr st' have "\<exists>cov. st' = allocate_and_push cov ?t (ni_id info) pr (mieru_key pr ?t)
        (unwrap_or [] (bt_get m pr)) MIERU_PORT_FORWARD_COMMENT rs st"
      by (auto simp: build_mieru_step_def Let_def mieru_key_fun)
    then obtain cov where "st' = allocate_and_push cov ?t (ni_id info) pr (mieru_key pr ?t)
        (unwrap_or [] (bt_get m pr)) MIERU_PORT_FORWARD_COMMENT rs st" ..
    note ok = mi.allocate_and_push_ok [OF inv _ _ _ _ _ _ this]
    from parse_ranges_ok [OF p(1)] have "list_all wf_range rs" "?t \<notin> ports_of rs" "0 \<notin> ports_of rs" by auto
    from ok [OF mieru_protocol_cases [OF pr] _ m this] t True pr p(1) show ?thesis
      by (auto simp: mieru_wants_def)
  next
    case False
    then have "st' = st \<or> (\<exists>e. st' = push_error e st)"
      using st' by (auto simp: build_mieru_step_def Let_def split: sum.splits prod.splits)
    moreover have "\<not> mieru_wants dbg info pr p" for pr p
      using False by (auto simp: mieru_wants_def)
    ultimately show ?thesis using inv by auto
  qed
qed

text \<open>Folding a step that keeps an invariant and settles what its element asks for.\<close>

lemma fold_keeps:
  assumes "I st"
    and step: "\<And>x st. x \<in> set xs \<Longrightarrow> I st \<Longrightarrow> I (f x st) \<and> (\<forall>q. D st q \<longrightarrow> D (f x st) q) \<and> (\<forall>q. W x q \<longrightarrow> D (f x st) q)"
  shows "I (fold f xs st) \<and> (\<forall>q. D st q \<longrightarrow> D (fold f xs st) q) \<and>
    (\<forall>x \<in> set xs. \<forall>q. W x q \<longrightarrow> D (fold f xs st) q)"
  using assms
proof (induction xs arbitrary: st)
  case (Cons x xs)
  have x: "I (f x st)" "\<forall>q. D st q \<longrightarrow> D (f x st) q" "\<forall>q. W x q \<longrightarrow> D (f x st) q"
    using Cons.prems(2) [of x st] Cons.prems(1) by simp_all
  have "I (fold f xs (f x st)) \<and> (\<forall>q. D (f x st) q \<longrightarrow> D (fold f xs (f x st)) q) \<and>
    (\<forall>y \<in> set xs. \<forall>q. W y q \<longrightarrow> D (fold f xs (f x st)) q)"
    by (rule Cons.IH [OF x(1)]) (simp add: Cons.prems(2))
  with x show ?case by simp
qed simp

lemma build_hysteria_all:
  fixes dbg infos
  defines "st \<equiv> fold (build_hysteria_step dbg (collect_hysteria_target_ports infos)) infos build_state_init"
  shows "build_ok hysteria_key {''udp''} (\<lambda>_. hysteria_targets infos) st \<and>
    (\<forall>info \<in> set infos. \<forall>p. hysteria_wants dbg info p \<and> p \<notin> hysteria_targets infos \<longrightarrow>
      (\<exists>t. takes (pb_allocated st) ''udp'' t p))"
proof -
  let ?I = "build_ok hysteria_key {''udp''} (\<lambda>_. hysteria_targets infos)"
  let ?f = "build_hysteria_step dbg (collect_hysteria_target_ports infos)"
  let ?D = "\<lambda>st p. \<exists>t. takes (pb_allocated st) ''udp'' t p"
  have step: "?I (?f x st) \<and> (\<forall>p. ?D st p \<longrightarrow> ?D (?f x st) p) \<and>
      (\<forall>p. hysteria_wants dbg x p \<and> p \<notin> hysteria_targets infos \<longrightarrow> ?D (?f x st) p)"
    if "x \<in> set infos" "?I st" for x st
  proof -
    have "cn_server_port (ni_common x) \<in> hysteria_targets infos"
      if "ni_protocol x = Hysteria2" "cn_server_port (ni_common x) \<noteq> 0"
      using that \<open>x \<in> set infos\<close> by (auto simp: hysteria_targets_def)
    from build_hysteria_step_ok [OF that(2) collect_hysteria_target_ports_keys this refl]
    show ?thesis by blast
  qed
  show ?thesis
    unfolding st_def
    using fold_keeps [where I = ?I and D = ?D and W = "\<lambda>x p. hysteria_wants dbg x p \<and> p \<notin> hysteria_targets infos",
        OF build_ok_init step] by blast
qed

lemma build_mieru_all:
  fixes dbg infos
  defines "st \<equiv> fold (build_mieru_step dbg (collect_mieru_target_ports_by_protocol infos)) infos build_state_init"
  shows "build_ok mieru_key {''tcp'', ''udp''} (mieru_targets infos) st \<and>
    (\<forall>info \<in> set infos. \<forall>q. mieru_wants dbg info (fst q) (snd q) \<and> snd q \<notin> mieru_targets infos (fst q) \<longrightarrow>
      (\<exists>t. takes (pb_allocated st) (fst q) t (snd q)))"
proof -
  let ?I = "build_ok mieru_key {''tcp'', ''udp''} (mieru_targets infos)"
  let ?f = "build_mieru_step dbg (collect_mieru_target_ports_by_protocol infos)"
  let ?D = "\<lambda>st q. \<exists>t. takes (pb_allocated st) (fst q) t (snd q)"
  let ?W = "\<lambda>x q. mieru_wants dbg x (fst q) (snd q) \<and> snd q \<notin> mieru_targets infos (fst q)"
  have step: "?I (?f x st) \<and> (\<forall>q. ?D st q \<longrightarrow> ?D (?f x st) q) \<and> (\<forall>q. ?W x q \<longrightarrow> ?D (?f x st) q)"
    if "x \<in> set infos" "?I st" for x st
  proof -
    have "cn_server_port (ni_common x) \<in> mieru_targets infos pr"
      if "ni_protocol x = Mieru" "cn_server_port (ni_common x) \<noteq> 0"
        "mieru_port_forward_protocol (cn_transport (ni_common x)) = Inr pr" for pr
      using that \<open>x \<in> set infos\<close> by (auto simp: mieru_targets_def)
    from build_mieru_step_ok [OF that(2) collect_mieru_target_ports_keys this refl]
    show ?thesis by blast
  qed
  show ?thesis
    unfolding st_def using fold_keeps [where I = ?I and D = ?D and W = ?W, OF build_ok_init step] by blast
qed

section \<open>Sample nodes\<close>

text \<open>Nodes on which the properties are evaluated.\<close>

abbreviation sample_nodes :: "protocol \<Rightarrow> node_info list" where
  "sample_nodes pr \<equiv> [sample_node pr 1 443 ''20000-20010'', sample_node pr 2 444 ''20005-20020,443'']"

lemmas eval_ports = parse_port_number_def parse_uint_def parse_digits_def is_ascii_digit_def
  digit_value_def char_code_def

lemma trim_sample: "trim ''20005-20020,443'' = ''20005-20020,443''" "trim ''80, 90-92'' = ''80, 90-92''"
  by code_simp+

lemma sample_ranges:
  "map_ok snd (parse_port_forward_matchers_and_ranges_except (\<lambda>s. s) ''20005-20020,443'' 444) =
     Ok [mk_range 20005 20020, mk_range 443 443]"
  "map_ok snd (parse_port_forward_matchers_and_ranges_except (\<lambda>s. s) ''80, 90-92'' 91) =
     Ok [mk_range 80 80, mk_range 90 90, mk_range 92 92]"
  by (simp_all add: parse_port_forward_matchers_and_ranges_except_def trim_sample parse_tokens_step token_range_def
      parse_port_range_def eval_ports range_parts_def)

lemma sample_wants:
  "hysteria_wants (\<lambda>s. s) (sample_node Hysteria2 2 444 ''20005-20020,443'') 20012"
  "mieru_wants (\<lambda>s. s) (sample_node Mieru 2 444 ''20005-20020,443'') ''tcp'' 20012"
proof -
  obtain ms where "parse_port_forward_matchers_and_ranges_except (\<lambda>s. s) ''20005-20020,443'' 444 =
      Inr (ms, [mk_range 20005 20020, mk_range 443 443])"
    using sample_ranges(1) by (auto simp: map_ok_Inr)
  then show "hysteria_wants (\<lambda>s. s) (sample_node Hysteria2 2 444 ''20005-20020,443'') 20012"
    "mieru_wants (\<lambda>s. s) (sample_node Mieru 2 444 ''20005-20020,443'') ''tcp'' 20012"
    by (simp_all add: hysteria_wants_def mieru_wants_def sample_node_def trim_sample types_first_non_empty_def
        mieru_port_forward_protocol_def)
qed

lemma hysteria_redirected:
  assumes "info \<in> set infos" "hysteria_wants dbg info p" "p \<notin> hysteria_targets infos"
  shows "\<exists>r \<in> set (fst (build_hysteria_port_forward_rules dbg infos)). matcher_matches (pr_matcher r) p"
proof -
  let ?st = "fold (build_hysteria_step dbg (collect_hysteria_target_ports infos)) infos build_state_init"
  note all = build_hysteria_all [where dbg = dbg and infos = infos]
  obtain t where "takes (pb_allocated ?st) ''udp'' t p" using all assms by blast
  then have "forwards (pb_rules ?st) ''udp'' t p" using all unfolding build_ok_def by blast
  then show ?thesis by (auto simp: forwards_def build_hysteria_port_forward_rules_def Let_def)
qed

lemma mieru_redirected:
  assumes "info \<in> set infos" "mieru_wants dbg info pr p" "p \<notin> mieru_targets infos pr"
  shows "\<exists>r \<in> set (fst (build_mieru_port_forward_rules dbg infos)).
    pr_protocol r = pr \<and> matcher_matches (pr_matcher r) p"
proof -
  let ?st = "fold (build_mieru_step dbg (collect_mieru_target_ports_by_protocol infos)) infos build_state_init"
  note all = build_mieru_all [where dbg = dbg and infos = infos]
  obtain t where "takes (pb_allocated ?st) pr t p" using all assms by (metis fst_conv snd_conv)
  then have "forwards (pb_rules ?st) pr t p" using all unfolding build_ok_def by blast
  then show ?thesis by (auto simp: forwards_def build_mieru_port_forward_rules_def Let_def)
qed

lemma sample_not_targets:
  "20012 \<notin> hysteria_targets (sample_nodes Hysteria2)" "20012 \<notin> mieru_targets (sample_nodes Mieru) ''tcp''"
  by (simp_all add: hysteria_targets_def mieru_targets_def sample_node_def)

section \<open>Properties\<close>

text \<open>
  subtracting a range removes exactly its ports: nothing wraps around at 0 or 65535, no
  other port is lost, and the remaining ranges are well formed.
\<close>

lemma subtract_range_ports:
  assumes "list_all wf_range rs" "wf_range blocked"
  shows "ports_of (subtract_range rs blocked) = ports_of rs - range_ports blocked \<and>
    list_all wf_range (subtract_range rs blocked)"
  by (rule subtract_range_set [OF assms])

lemma subtract_range_ports_witness:
  "subtract_range [mk_range 0 10, mk_range 65530 65535] (mk_range 5 65535) = [mk_range 0 4] \<and>
   65535 \<notin> ports_of (subtract_range [mk_range 0 10, mk_range 65530 65535] (mk_range 5 65535))"
proof -
  have "subtract_range [mk_range 0 10, mk_range 65530 65535] (mk_range 5 65535) = [mk_range 0 4]"
    by (simp add: subtract_range_def subtract_one_def overlaps_def saturating_dec_def)
  moreover have "list_all wf_range [mk_range 0 10, mk_range 65530 65535]" "wf_range (mk_range 5 65535)"
    by (simp_all add: wf_range_def)
  ultimately show ?thesis
    using subtract_range_ports [of "[mk_range 0 10, mk_range 65530 65535]" "mk_range 5 65535"] by simp
qed

text \<open>
  the matchers made from ranges match, as iptables reads them (at most fifteen ports in a
  multiport list), exactly the ports of the ranges.
\<close>

lemma port_forward_matchers_exact:
  "matchers_match (port_forward_matchers_from_ranges rs) p \<longleftrightarrow> p \<in> ports_of rs"
  by (rule matchers_from_ranges_matches)

text \<open>
  a port text that parses never yields port 0 or the excluded port, and its matchers and
  its ranges stand for the same ports.
\<close>

lemma parse_ports_sound:
  assumes "parse_port_forward_matchers_and_ranges_except dbg raw e = Ok (ms, rs)"
  shows "list_all wf_range rs \<and> e \<notin> ports_of rs \<and> 0 \<notin> ports_of rs \<and>
    (\<forall>p. matchers_match ms p \<longleftrightarrow> p \<in> ports_of rs)"
  by (rule parse_ranges_ok [OF assms])

lemma parse_ports_sound_witness:
  "\<exists>ms rs. parse_port_forward_matchers_and_ranges_except (\<lambda>s. s) ''80, 90-92'' 91 = Ok (ms, rs) \<and>
     rs = [mk_range 80 80, mk_range 90 90, mk_range 92 92] \<and> 91 \<notin> ports_of rs"
proof -
  obtain ms where "parse_port_forward_matchers_and_ranges_except (\<lambda>s. s) ''80, 90-92'' 91 =
      Ok (ms, [mk_range 80 80, mk_range 90 90, mk_range 92 92])"
    using sample_ranges(2) by (auto simp: map_ok_Inr)
  with parse_ports_sound [OF this] show ?thesis by blast
qed

text \<open>
  printing a list of ranges and parsing the text gives exactly their ports back, less the
  excluded one.
\<close>

lemma parse_ports_print:
  assumes "xs \<noteq> []" "list_all (\<lambda>(a, b). a \<noteq> 0 \<and> a \<le> b) xs"
  shows "\<exists>ms rs. parse_port_forward_matchers_and_ranges_except dbg (join '','' (map print_range xs)) e = Ok (ms, rs) \<and>
    ports_of rs = pair_ports xs - {e}"
proof -
  let ?s = "join '','' (map print_range xs)"
  let ?digit = "\<lambda>c. is_ascii_digit c \<or> c = CHR ''-'' \<or> c = CHR '',''"
  have "?digit c" if "c \<in> set ?s" for c
    using that
    by (induction xs rule: induct_list012) (use print_range_plain in \<open>fastforce split: if_splits\<close>)+
  moreover have "\<not> is_ws1 c \<and> char_code c < 128 \<and> c \<noteq> CHR '' ''" if "?digit c" for c
    using that by (auto simp: is_ascii_digit_def is_ws1_def char_code_def)
  ultimately have plain: "trim ?s = ?s" "filter (\<lambda>c. c \<noteq> CHR '' '') ?s = ?s"
    by (metis trim_plain, simp add: filter_id_conv)
  have tr: "token_range dbg (print_range x) = Inr x" if "x \<in> set xs" for x
    using assms(2) that by (cases x) (auto simp: list_all_iff simp del: print_range.simps intro: token_range_print)
  then have ok: "collect_results (map (token_range dbg) (map print_range xs)) = Inr xs"
    by (induction xs) (simp_all del: print_range.simps)
  have sp: "split_on (CHR '','') ?s = map print_range xs"
    using assms(1) print_range_plain by (intro split_on_join) auto
  have "print_range x \<noteq> []" for x by (cases x) simp
  then have "[] \<notin> set (map print_range xs)" by (metis imageE set_map)
  then have "?s \<noteq> []" using sp by (metis list.set_intros(1) split_on.simps(1))
  have "is_ok (parse_tokens dbg e (map print_range xs) [] [] [])"
    by (simp add: parse_tokens_ok list_all_iff tr del: print_range.simps)
  then obtain ms rs where p: "parse_tokens dbg e (map print_range xs) [] [] [] = Inr (ms, rs)"
    by (auto simp: is_ok_iff)
  with parse_tokens_ports [OF p] ok plain sp \<open>?s \<noteq> []\<close> show ?thesis
    by (auto simp: parse_port_forward_matchers_and_ranges_except_def)
qed

lemma parse_ports_print_witness:
  "\<exists>ms rs. parse_port_forward_matchers_and_ranges_except (\<lambda>s. s) (join '','' (map print_range [(80, 80), (90, 92)])) 91 =
     Ok (ms, rs) \<and> ports_of rs = pair_ports [(80, 80), (90, 92)] - {91}"
  by (rule parse_ports_print) simp_all

text \<open>
  C1: the redirect rules of the Hysteria2 nodes are unambiguous: two rules that match one port
  send it to the same target port, the target is the server port of a node, and no rule
  captures port 0 or the server port of any node.
\<close>

theorem hysteria_rules_unambiguous:
  assumes "r \<in> set (fst (build_hysteria_port_forward_rules dbg infos))"
    and "r' \<in> set (fst (build_hysteria_port_forward_rules dbg infos))"
    and "matcher_matches (pr_matcher r) p" "matcher_matches (pr_matcher r') p"
  shows "pr_target_port r = pr_target_port r' \<and> pr_target_port r \<in> hysteria_targets infos \<and>
    p \<notin> hysteria_targets infos \<and> p \<noteq> 0"
proof -
  let ?st = "fold (build_hysteria_step dbg (collect_hysteria_target_ports infos)) infos build_state_init"
  have ok: "build_ok hysteria_key {''udp''} (\<lambda>_. hysteria_targets infos) ?st"
    using build_hysteria_all by blast
  have "x \<in> set (pb_rules ?st) \<Longrightarrow> matcher_matches (pr_matcher x) p \<Longrightarrow>
      takes (pb_allocated ?st) ''udp'' (pr_target_port x) p" for x
    using ok by (fastforce simp: build_ok_def rules_keyed_def list_all_iff forwards_def)
  with assms have "takes (pb_allocated ?st) ''udp'' (pr_target_port r) p"
    "takes (pb_allocated ?st) ''udp'' (pr_target_port r') p"
    by (simp_all add: build_hysteria_port_forward_rules_def Let_def)
  with ok show ?thesis unfolding build_ok_def by blast
qed

theorem hysteria_rules_unambiguous_witness:
  "\<exists>r \<in> set (fst (build_hysteria_port_forward_rules (\<lambda>s. s) (sample_nodes Hysteria2))).
     matcher_matches (pr_matcher r) 20012 \<and> pr_target_port r \<in> hysteria_targets (sample_nodes Hysteria2)"
proof -
  obtain r where r: "r \<in> set (fst (build_hysteria_port_forward_rules (\<lambda>s. s) (sample_nodes Hysteria2)))"
    "matcher_matches (pr_matcher r) 20012"
    using hysteria_redirected [OF _ sample_wants(1) sample_not_targets(1)] by auto
  from hysteria_rules_unambiguous [OF r(1) r(1) r(2) r(2)] r show ?thesis by blast
qed

text \<open>
  no requested port is dropped: every port a Hysteria2 node asks for is either the server
  port of a node or redirected by some rule.
\<close>

lemma hysteria_rules_complete:
  assumes "info \<in> set infos" "hysteria_wants dbg info p" "p \<notin> hysteria_targets infos"
  shows "\<exists>r \<in> set (fst (build_hysteria_port_forward_rules dbg infos)). matcher_matches (pr_matcher r) p"
  by (rule hysteria_redirected [OF assms])

lemma hysteria_rules_complete_witness:
  "hysteria_wants (\<lambda>s. s) (sample_node Hysteria2 2 444 ''20005-20020,443'') 20012 \<and>
   (\<exists>r \<in> set (fst (build_hysteria_port_forward_rules (\<lambda>s. s) (sample_nodes Hysteria2))).
      matcher_matches (pr_matcher r) 20012)"
  using hysteria_rules_complete [OF _ sample_wants(1) sample_not_targets(1)] sample_wants(1) by simp

text \<open>
  the redirect rules of the Mieru nodes are unambiguous within each transport protocol:
  two rules of one protocol that match one port send it to the same target, which is the
  server port of a node of that protocol, and no rule captures such a server port.
\<close>

lemma mieru_rules_unambiguous:
  assumes "r \<in> set (fst (build_mieru_port_forward_rules dbg infos))"
    and "r' \<in> set (fst (build_mieru_port_forward_rules dbg infos))"
    and "pr_protocol r = pr_protocol r'"
    and "matcher_matches (pr_matcher r) p" "matcher_matches (pr_matcher r') p"
  shows "pr_target_port r = pr_target_port r' \<and> pr_target_port r \<in> mieru_targets infos (pr_protocol r) \<and>
    p \<notin> mieru_targets infos (pr_protocol r) \<and> p \<noteq> 0"
proof -
  let ?st = "fold (build_mieru_step dbg (collect_mieru_target_ports_by_protocol infos)) infos build_state_init"
  have ok: "build_ok mieru_key {''tcp'', ''udp''} (mieru_targets infos) ?st"
    using build_mieru_all by blast
  have al: "x \<in> set (pb_rules ?st) \<Longrightarrow> matcher_matches (pr_matcher x) p \<Longrightarrow>
      takes (pb_allocated ?st) (pr_protocol x) (pr_target_port x) p" for x
    using ok by (auto simp: build_ok_def forwards_def)
  have "takes (pb_allocated ?st) (pr_protocol r) (pr_target_port r) p"
    "takes (pb_allocated ?st) (pr_protocol r) (pr_target_port r') p"
    using al [of r] al [of r'] assms by (simp_all add: build_mieru_port_forward_rules_def Let_def)
  with ok show ?thesis unfolding build_ok_def by blast
qed

lemma mieru_rules_unambiguous_witness:
  "\<exists>r \<in> set (fst (build_mieru_port_forward_rules (\<lambda>s. s) (sample_nodes Mieru))).
     matcher_matches (pr_matcher r) 20012 \<and> pr_target_port r \<in> mieru_targets (sample_nodes Mieru) (pr_protocol r)"
proof -
  obtain r where r: "r \<in> set (fst (build_mieru_port_forward_rules (\<lambda>s. s) (sample_nodes Mieru)))"
    "matcher_matches (pr_matcher r) 20012"
    using mieru_redirected [OF _ sample_wants(2) sample_not_targets(2)] by auto
  from mieru_rules_unambiguous [OF r(1) r(1) refl r(2) r(2)] r show ?thesis by blast
qed

text \<open>
  no requested port is dropped: every port a Mieru node asks for is either the server port
  of a node of its transport protocol or redirected by some rule of that protocol.
\<close>

lemma mieru_rules_complete:
  assumes "info \<in> set infos" "mieru_wants dbg info pr p" "p \<notin> mieru_targets infos pr"
  shows "\<exists>r \<in> set (fst (build_mieru_port_forward_rules dbg infos)).
    pr_protocol r = pr \<and> matcher_matches (pr_matcher r) p"
  by (rule mieru_redirected [OF assms])

lemma mieru_rules_complete_witness:
  "mieru_wants (\<lambda>s. s) (sample_node Mieru 2 444 ''20005-20020,443'') ''tcp'' 20012 \<and>
   (\<exists>r \<in> set (fst (build_mieru_port_forward_rules (\<lambda>s. s) (sample_nodes Mieru))).
      pr_protocol r = ''tcp'' \<and> matcher_matches (pr_matcher r) 20012)"
  using mieru_rules_complete [OF _ sample_wants(2) sample_not_targets(2)] sample_wants(2) by simp

end
