(* ===== verification/Port_Forward.thy ===== *)
theory Port_Forward
  imports Port_Ranges
begin

text \<open>
  The managing half of \<open>src/src/port_forward.rs\<close>: the iptables specs a plan expects, the
  listing and comparison of what is installed, the commands that reconcile or clean up, and
  the inspect, repair and cleanup operations over the two tools. The
  \<open>PortForwardExecutor\<close> trait, whose system instance starts processes, is a record of
  functions on an executor state; every operation threads that state.
\<close>

section \<open>Data\<close>

record hysteria_port_forward_rule_spec =
  rsp_protocol :: string
  rsp_match_rule :: string
  rsp_target_port :: u16
  rsp_spec :: string

record hysteria_port_forward_tool_status =
  tst_tool :: string
  tst_available :: bool
  tst_current :: "string list"
  tst_expected :: "string list"
  tst_missing :: "string list"
  tst_extra :: "string list"
  tst_stale_chain :: bool
  tst_error :: string

record hysteria_port_forward_status =
  pst_enabled :: bool
  pst_running_as_root :: bool
  pst_expected_rules :: "hysteria_port_forward_rule_spec list"
  pst_tools :: "hysteria_port_forward_tool_status list"
  pst_errors :: "string list"

record port_forward_command =
  pc_tool :: string
  pc_args :: "string list"

record 'x port_forward_executor =
  is_tool_available :: "'x \<Rightarrow> string \<Rightarrow> bool \<times> 'x"
  command_output :: "'x \<Rightarrow> port_forward_command \<Rightarrow> string result \<times> 'x"
  run_command :: "'x \<Rightarrow> port_forward_command \<Rightarrow> unit result \<times> 'x"
  running_as_root :: "'x \<Rightarrow> bool"

definition HYSTERIA_PORT_FORWARD_CHAIN :: string where
  "HYSTERIA_PORT_FORWARD_CHAIN = ''V2NODE-HY2''"

definition HYSTERIA_PORT_FORWARD_TOOLS :: "string list" where
  "HYSTERIA_PORT_FORWARD_TOOLS = [''iptables'', ''ip6tables'']"

section \<open>Text\<close>

text \<open>\<open>str::lines\<close>: a line ends at a newline, with a carriage return before it removed.\<close>

definition strip_cr :: "string \<Rightarrow> string" where
  "strip_cr l = (if l \<noteq> [] \<and> last l = CHR 0x0D then butlast l else l)"

definition lines :: "string \<Rightarrow> string list" where
  "lines s = (let ps = split_on (CHR 0x0A) s
     in map strip_cr (butlast ps) @ (if last ps = [] then [] else [last ps]))"

definition is_quote :: "char \<Rightarrow> bool" where
  "is_quote c \<longleftrightarrow> c = CHR 0x22 \<or> c = CHR 0x27"

text \<open>The loop over the characters of a line: open quote, field being built, flds so far.\<close>

fun parse_spec_loop :: "string \<Rightarrow> char option \<Rightarrow> string \<Rightarrow> string list \<Rightarrow> string list" where
  "parse_spec_loop [] quote builder flds = (if builder \<noteq> [] then flds @ [builder] else flds)"
| "parse_spec_loop (c # cs) quote builder flds =
     (case quote of
        Some active_quote \<Rightarrow>
          if c = active_quote then parse_spec_loop cs None builder flds
          else parse_spec_loop cs quote (builder @ [c]) flds
      | None \<Rightarrow>
          if is_quote c then parse_spec_loop cs (Some c) builder flds
          else if c = CHR '' '' \<or> c = CHR 0x09 then
            (if builder \<noteq> [] then parse_spec_loop cs None [] (flds @ [builder])
             else parse_spec_loop cs None builder flds)
          else parse_spec_loop cs None (builder @ [c]) flds)"

definition parse_iptables_spec :: "string \<Rightarrow> string list" where
  "parse_iptables_spec line = (if line = [] then [] else parse_spec_loop line None [] [])"

text \<open>The loop of \<open>normalize_port_forward_spec_fields\<close>; \<open>prev\<close> is the field before the current one.\<close>

fun normalize_loop :: "string option \<Rightarrow> string list \<Rightarrow> string list" where
  "normalize_loop prev [] = []"
| "normalize_loop prev (f # fs) =
     (if f = ''-m'' \<and> fs \<noteq> [] \<and> (hd fs = ''udp'' \<or> hd fs = ''tcp'')
      then normalize_loop (Some (hd fs)) (tl fs)
      else (if prev = Some ''--comment'' then trim_matches is_quote f else f) # normalize_loop (Some f) fs)"

definition normalize_port_forward_spec_fields :: "string list \<Rightarrow> string list" where
  "normalize_port_forward_spec_fields flds = normalize_loop None flds"

definition port_forward_fields_key :: "string list \<Rightarrow> string" where
  "port_forward_fields_key flds = join [CHR 0x00] (normalize_port_forward_spec_fields flds)"

section \<open>Recognising managed rules\<close>

text \<open>The pairs of neighbouring flds from index 2 on.\<close>

definition field_pairs :: "string list \<Rightarrow> (string \<times> string) list" where
  "field_pairs flds = zip (drop 2 flds) (drop 3 flds)"

definition is_port_forward_rule_spec_with_comment :: "string list \<Rightarrow> string \<Rightarrow> bool" where
  "is_port_forward_rule_spec_with_comment flds comment \<longleftrightarrow>
     \<not> (length flds < 4 \<or> flds ! 0 \<noteq> ''-A'' \<or> flds ! 1 \<noteq> ''PREROUTING'') \<and>
     list_ex (\<lambda>(a, b).
         comment = HYSTERIA_PORT_FORWARD_COMMENT \<and> a = ''-j'' \<and> b = HYSTERIA_PORT_FORWARD_CHAIN \<or>
         a = ''--comment'' \<and> trim_matches is_quote b = comment)
       (field_pairs flds)"

definition is_port_forward_rule_spec :: "string list \<Rightarrow> bool" where
  "is_port_forward_rule_spec flds \<longleftrightarrow>
     is_port_forward_rule_spec_with_comment flds HYSTERIA_PORT_FORWARD_COMMENT"

definition is_firewall_allow_rule_spec_with_comment :: "string list \<Rightarrow> string \<Rightarrow> bool" where
  "is_firewall_allow_rule_spec_with_comment flds comment \<longleftrightarrow>
     \<not> (length flds < 4 \<or> flds ! 0 \<noteq> ''-A'' \<or> flds ! 1 \<noteq> ''INPUT'') \<and>
     list_ex (\<lambda>(a, b). a = ''--comment'' \<and> trim_matches is_quote b = comment) (field_pairs flds) \<and>
     list_ex (\<lambda>(a, b). a = ''-j'' \<and> b = ''ACCEPT'') (field_pairs flds)"

section \<open>Specs\<close>

definition expected_port_forward_spec_fields :: "port_forward_rule \<Rightarrow> string list" where
  "expected_port_forward_spec_fields rule =
     normalize_port_forward_spec_fields
       ([''-A'', ''PREROUTING'', ''-p'', pr_protocol rule] @ pm_args (pr_matcher rule) @
        [''-m'', ''comment'', ''--comment'', pr_comment rule, ''-j'', ''REDIRECT'', ''--to-ports'',
         port_text (pr_target_port rule)])"

definition expected_firewall_allow_spec_fields :: "firewall_allow_rule \<Rightarrow> string list" where
  "expected_firewall_allow_spec_fields rule =
     normalize_port_forward_spec_fields
       [''-A'', ''INPUT'', ''-p'', fa_protocol rule, ''--dport'', port_text (fa_port rule),
        ''-m'', ''comment'', ''--comment'', fa_comment rule, ''-j'', ''ACCEPT'']"

definition expected_port_forward_specs :: "port_forward_rule list \<Rightarrow> string list" where
  "expected_port_forward_specs rules = map (\<lambda>rule. join '' '' (expected_port_forward_spec_fields rule)) rules"

definition expected_hysteria_managed_specs :: "port_forward_rule list \<Rightarrow> firewall_allow_rule list \<Rightarrow> string list" where
  "expected_hysteria_managed_specs nat_rules allow_rules =
     expected_port_forward_specs nat_rules @
     map (\<lambda>rule. join '' '' (expected_firewall_allow_spec_fields rule)) allow_rules"

definition describe_port_forward_rules :: "port_forward_rule list \<Rightarrow> hysteria_port_forward_rule_spec list" where
  "describe_port_forward_rules rules =
     map (\<lambda>rule. \<lparr>rsp_protocol = pr_protocol rule, rsp_match_rule = join '' '' (pm_args (pr_matcher rule)),
            rsp_target_port = pr_target_port rule,
            rsp_spec = join '' '' (expected_port_forward_spec_fields rule)\<rparr>) rules"

definition describe_hysteria_managed_rules ::
  "port_forward_rule list \<Rightarrow> firewall_allow_rule list \<Rightarrow> hysteria_port_forward_rule_spec list" where
  "describe_hysteria_managed_rules nat_rules allow_rules =
     describe_port_forward_rules nat_rules @
     map (\<lambda>rule. \<lparr>rsp_protocol = fa_protocol rule, rsp_match_rule = ''INPUT --dport '' @ port_text (fa_port rule),
            rsp_target_port = fa_port rule,
            rsp_spec = join '' '' (expected_firewall_allow_spec_fields rule)\<rparr>) allow_rules"

definition list_specs :: "(string list \<Rightarrow> bool) \<Rightarrow> string \<Rightarrow> string list" where
  "list_specs managed text =
     map (\<lambda>flds. join '' '' (normalize_port_forward_spec_fields flds))
       (filter managed (map (\<lambda>line. parse_iptables_spec (trim line)) (lines text)))"

definition list_port_forward_specs_from_output_with_comment :: "string \<Rightarrow> string \<Rightarrow> string list" where
  "list_port_forward_specs_from_output_with_comment text comment =
     list_specs (\<lambda>flds. is_port_forward_rule_spec_with_comment flds comment) text"

definition list_port_forward_specs_from_output :: "string \<Rightarrow> string list" where
  "list_port_forward_specs_from_output text =
     list_port_forward_specs_from_output_with_comment text HYSTERIA_PORT_FORWARD_COMMENT"

definition list_firewall_allow_specs_from_output_with_comment :: "string \<Rightarrow> string \<Rightarrow> string list" where
  "list_firewall_allow_specs_from_output_with_comment text comment =
     list_specs (\<lambda>flds. is_firewall_allow_rule_spec_with_comment flds comment) text"

definition list_firewall_allow_specs_from_output :: "string \<Rightarrow> string list" where
  "list_firewall_allow_specs_from_output text =
     list_firewall_allow_specs_from_output_with_comment text HYSTERIA_PORT_FORWARD_COMMENT"

section \<open>Comparison\<close>

definition keyed_specs :: "string list \<Rightarrow> (string, string) btmap" where
  "keyed_specs specs = bt_collect (map (\<lambda>spec. (port_forward_fields_key (parse_iptables_spec spec), spec)) specs)"

definition inspect_managed_specs_with_comment ::
  "string \<Rightarrow> port_forward_rule list \<Rightarrow> firewall_allow_rule list \<Rightarrow> string \<Rightarrow> string \<Rightarrow> bool \<Rightarrow> string \<Rightarrow>
     hysteria_port_forward_tool_status" where
  "inspect_managed_specs_with_comment tool rules allow_rules prerouting_text input_text stale_chain comment =
     (let current0 = (if comment \<noteq> HYSTERIA_PORT_FORWARD_COMMENT
            then list_port_forward_specs_from_output_with_comment prerouting_text comment
            else list_port_forward_specs_from_output prerouting_text);
          current = current0 @ (if comment = HYSTERIA_PORT_FORWARD_COMMENT
            then list_firewall_allow_specs_from_output input_text
            else list_firewall_allow_specs_from_output_with_comment input_text comment);
          expected = expected_hysteria_managed_specs rules allow_rules;
          expected_keys = keyed_specs expected;
          current_keys = keyed_specs current
      in \<lparr>tst_tool = tool, tst_available = True, tst_current = current, tst_expected = expected,
          tst_missing = map snd (filter (\<lambda>(key, _). \<not> bt_contains_key current_keys key) expected_keys),
          tst_extra = map snd (filter (\<lambda>(key, _). \<not> bt_contains_key expected_keys key) current_keys),
          tst_stale_chain = stale_chain, tst_error = []\<rparr>)"

definition inspect_hysteria_managed_specs ::
  "string \<Rightarrow> port_forward_rule list \<Rightarrow> firewall_allow_rule list \<Rightarrow> string \<Rightarrow> string \<Rightarrow> bool \<Rightarrow>
     hysteria_port_forward_tool_status" where
  "inspect_hysteria_managed_specs tool rules allow_rules prerouting_text input_text stale_chain =
     inspect_managed_specs_with_comment tool rules allow_rules prerouting_text input_text stale_chain
       HYSTERIA_PORT_FORWARD_COMMENT"

definition inspect_port_forward_specs ::
  "string \<Rightarrow> port_forward_rule list \<Rightarrow> string \<Rightarrow> bool \<Rightarrow> hysteria_port_forward_tool_status" where
  "inspect_port_forward_specs tool rules prerouting_text stale_chain =
     inspect_hysteria_managed_specs tool rules [] prerouting_text [] stale_chain"

definition tool_needs_repair :: "hysteria_port_forward_tool_status \<Rightarrow> bool" where
  "tool_needs_repair t \<longleftrightarrow> tst_error t = [] \<and> (tst_missing t \<noteq> [] \<or> tst_extra t \<noteq> [] \<or> tst_stale_chain t)"

definition hysteria_port_forward_needs_repair :: "hysteria_port_forward_status \<Rightarrow> bool" where
  "hysteria_port_forward_needs_repair status \<longleftrightarrow>
     list_ex (\<lambda>t. tst_available t \<and> tool_needs_repair t) (pst_tools status)"

section \<open>Commands\<close>

definition command :: "string \<Rightarrow> string list \<Rightarrow> port_forward_command" where
  "command tool args = \<lparr>pc_tool = tool, pc_args = args\<rparr>"

definition delete_port_forward_commands_with_comment ::
  "string \<Rightarrow> string \<Rightarrow> string \<Rightarrow> port_forward_command list" where
  "delete_port_forward_commands_with_comment tool prerouting_text comment =
     map (\<lambda>flds. command tool ([''-t'', ''nat''] @ flds[0 := ''-D'']))
       (filter (\<lambda>flds. is_port_forward_rule_spec_with_comment flds comment)
         (map (\<lambda>line. parse_iptables_spec (trim line)) (lines prerouting_text)))"

definition delete_port_forward_commands :: "string \<Rightarrow> string \<Rightarrow> port_forward_command list" where
  "delete_port_forward_commands tool prerouting_text =
     delete_port_forward_commands_with_comment tool prerouting_text HYSTERIA_PORT_FORWARD_COMMENT"

definition delete_firewall_allow_commands_with_comment ::
  "string \<Rightarrow> string \<Rightarrow> string \<Rightarrow> port_forward_command list" where
  "delete_firewall_allow_commands_with_comment tool input_text comment =
     map (\<lambda>flds. command tool (flds[0 := ''-D'']))
       (filter (\<lambda>flds. is_firewall_allow_rule_spec_with_comment flds comment)
         (map (\<lambda>line. parse_iptables_spec (trim line)) (lines input_text)))"

definition delete_firewall_allow_commands :: "string \<Rightarrow> string \<Rightarrow> port_forward_command list" where
  "delete_firewall_allow_commands tool input_text =
     delete_firewall_allow_commands_with_comment tool input_text HYSTERIA_PORT_FORWARD_COMMENT"

definition chain_commands :: "string \<Rightarrow> bool \<Rightarrow> port_forward_command list" where
  "chain_commands tool chain_exists =
     (if chain_exists
      then [command tool [''-t'', ''nat'', ''-F'', HYSTERIA_PORT_FORWARD_CHAIN],
            command tool [''-t'', ''nat'', ''-X'', HYSTERIA_PORT_FORWARD_CHAIN]]
      else [])"

definition add_rule_command :: "string \<Rightarrow> port_forward_rule \<Rightarrow> port_forward_command" where
  "add_rule_command tool rule =
     command tool ([''-t'', ''nat'', ''-A'', ''PREROUTING'', ''-p'', pr_protocol rule] @ pm_args (pr_matcher rule) @
       [''-m'', ''comment'', ''--comment'', pr_comment rule, ''-j'', ''REDIRECT'', ''--to-ports'',
        port_text (pr_target_port rule)])"

definition add_allow_command :: "string \<Rightarrow> firewall_allow_rule \<Rightarrow> port_forward_command" where
  "add_allow_command tool rule =
     command tool [''-I'', ''INPUT'', ''-p'', fa_protocol rule, ''--dport'', port_text (fa_port rule),
       ''-m'', ''comment'', ''--comment'', fa_comment rule, ''-j'', ''ACCEPT'']"

definition reconcile_port_forward_commands_with_allow_ports ::
  "string \<Rightarrow> port_forward_rule list \<Rightarrow> firewall_allow_rule list \<Rightarrow> string \<Rightarrow> string \<Rightarrow> bool \<Rightarrow>
     port_forward_command list" where
  "reconcile_port_forward_commands_with_allow_ports tool rules allow_rules prerouting_text input_text chain_exists =
     delete_port_forward_commands tool prerouting_text @ delete_firewall_allow_commands tool input_text @
     chain_commands tool chain_exists @
     map (add_rule_command tool) rules @ map (add_allow_command tool) allow_rules"

definition reconcile_port_forward_commands ::
  "string \<Rightarrow> port_forward_rule list \<Rightarrow> string \<Rightarrow> bool \<Rightarrow> port_forward_command list" where
  "reconcile_port_forward_commands tool rules prerouting_text chain_exists =
     reconcile_port_forward_commands_with_allow_ports tool rules [] prerouting_text [] chain_exists"

definition reconcile_port_forward_commands_for_comment ::
  "string \<Rightarrow> port_forward_rule list \<Rightarrow> firewall_allow_rule list \<Rightarrow> string \<Rightarrow> string \<Rightarrow> string \<Rightarrow>
     port_forward_command list" where
  "reconcile_port_forward_commands_for_comment tool rules allow_rules prerouting_text input_text comment =
     delete_port_forward_commands_with_comment tool prerouting_text comment @
     delete_firewall_allow_commands_with_comment tool input_text comment @
     map (add_rule_command tool) rules @ map (add_allow_command tool) allow_rules"

definition cleanup_port_forward_commands_with_filter ::
  "string \<Rightarrow> string \<Rightarrow> string \<Rightarrow> bool \<Rightarrow> port_forward_command list" where
  "cleanup_port_forward_commands_with_filter tool prerouting_text input_text chain_exists =
     delete_port_forward_commands tool prerouting_text @ delete_firewall_allow_commands tool input_text @
     chain_commands tool chain_exists"

definition cleanup_port_forward_commands :: "string \<Rightarrow> string \<Rightarrow> bool \<Rightarrow> port_forward_command list" where
  "cleanup_port_forward_commands tool prerouting_text chain_exists =
     cleanup_port_forward_commands_with_filter tool prerouting_text [] chain_exists"

section \<open>Running commands\<close>

fun execute_port_forward_commands ::
  "'x port_forward_executor \<Rightarrow> port_forward_command list \<Rightarrow> 'x \<Rightarrow> unit result \<times> 'x" where
  "execute_port_forward_commands ex [] x = (Ok (), x)"
| "execute_port_forward_commands ex (c # cs) x =
     (case run_command ex x c of
        (Inl e, x') \<Rightarrow> (Err e, x')
      | (Inr _, x') \<Rightarrow> execute_port_forward_commands ex cs x')"

definition prerouting_command :: "string \<Rightarrow> port_forward_command" where
  "prerouting_command tool = command tool [''-t'', ''nat'', ''-S'', ''PREROUTING'']"

definition input_command :: "string \<Rightarrow> port_forward_command" where
  "input_command tool = command tool [''-S'', ''INPUT'']"

definition chain_command :: "string \<Rightarrow> port_forward_command" where
  "chain_command tool = command tool [''-t'', ''nat'', ''-S'', HYSTERIA_PORT_FORWARD_CHAIN]"

definition unwrap_or_default :: "string result \<Rightarrow> string" where
  "unwrap_or_default r = (case r of Inr s \<Rightarrow> s | Inl _ \<Rightarrow> [])"

definition execute_reconcile_port_forward_tool ::
  "'x port_forward_executor \<Rightarrow> string \<Rightarrow> port_forward_rule list \<Rightarrow> firewall_allow_rule list \<Rightarrow> 'x \<Rightarrow>
     unit result \<times> 'x" where
  "execute_reconcile_port_forward_tool ex tool rules allow_rules x =
     (let (prerouting, x1) = command_output ex x (prerouting_command tool);
          (input, x2) = command_output ex x1 (input_command tool);
          (chain, x3) = command_output ex x2 (chain_command tool)
      in execute_port_forward_commands ex
           (reconcile_port_forward_commands_with_allow_ports tool rules allow_rules
             (unwrap_or_default prerouting) (unwrap_or_default input) (is_ok chain)) x3)"

definition execute_cleanup_port_forward_tool ::
  "'x port_forward_executor \<Rightarrow> string \<Rightarrow> 'x \<Rightarrow> unit result \<times> 'x" where
  "execute_cleanup_port_forward_tool ex tool x =
     (let (prerouting, x1) = command_output ex x (prerouting_command tool);
          (input, x2) = command_output ex x1 (input_command tool);
          (chain, x3) = command_output ex x2 (chain_command tool)
      in execute_port_forward_commands ex
           (cleanup_port_forward_commands_with_filter tool
             (unwrap_or_default prerouting) (unwrap_or_default input) (is_ok chain)) x3)"

definition execute_mieru_port_forward_tool ::
  "'x port_forward_executor \<Rightarrow> string \<Rightarrow> port_forward_rule list \<Rightarrow> firewall_allow_rule list \<Rightarrow> 'x \<Rightarrow>
     unit result \<times> 'x" where
  "execute_mieru_port_forward_tool ex tool rules allow_rules x =
     (let (prerouting, x1) = command_output ex x (prerouting_command tool);
          (input, x2) = command_output ex x1 (input_command tool)
      in execute_port_forward_commands ex
           (reconcile_port_forward_commands_for_comment tool rules allow_rules
             (unwrap_or_default prerouting) (unwrap_or_default input) MIERU_PORT_FORWARD_COMMENT) x2)"

section \<open>Inspecting a tool\<close>

definition tool_status_new ::
  "string \<Rightarrow> port_forward_rule list \<Rightarrow> firewall_allow_rule list \<Rightarrow> hysteria_port_forward_tool_status" where
  "tool_status_new tool rules allow_rules =
     \<lparr>tst_tool = tool, tst_available = False, tst_current = [],
      tst_expected = expected_hysteria_managed_specs rules allow_rules, tst_missing = [], tst_extra = [],
      tst_stale_chain = False, tst_error = []\<rparr>"

definition inspect_port_forward_tool_with_allow_rules ::
  "'x port_forward_executor \<Rightarrow> string \<Rightarrow> port_forward_rule list \<Rightarrow> firewall_allow_rule list \<Rightarrow> 'x \<Rightarrow>
     hysteria_port_forward_tool_status \<times> 'x" where
  "inspect_port_forward_tool_with_allow_rules ex tool rules allow_rules x =
     (let status = tool_status_new tool rules allow_rules;
          (available, x1) = is_tool_available ex x tool
      in if \<not> available then (status, x1)
         else
           let status = status\<lparr>tst_available := True\<rparr>;
               (prerouting, x2) = command_output ex x1 (prerouting_command tool)
           in case prerouting of
                Inl error \<Rightarrow> (status\<lparr>tst_error := error\<rparr>, x2)
              | Inr prerouting_text \<Rightarrow>
                  let (input, x3) = command_output ex x2 (input_command tool)
                  in case input of
                       Inl error \<Rightarrow> (status\<lparr>tst_error := error\<rparr>, x3)
                     | Inr input_text \<Rightarrow>
                         let (chain, x4) = command_output ex x3 (chain_command tool)
                         in ((inspect_hysteria_managed_specs tool rules allow_rules prerouting_text input_text
                               (is_ok chain))\<lparr>tst_available := True\<rparr>, x4))"

definition inspect_port_forward_tool ::
  "'x port_forward_executor \<Rightarrow> string \<Rightarrow> port_forward_rule list \<Rightarrow> 'x \<Rightarrow> hysteria_port_forward_tool_status \<times> 'x" where
  "inspect_port_forward_tool ex tool rules x = inspect_port_forward_tool_with_allow_rules ex tool rules [] x"

definition inspect_port_forward_tool_with_comment ::
  "'x port_forward_executor \<Rightarrow> string \<Rightarrow> port_forward_rule list \<Rightarrow> firewall_allow_rule list \<Rightarrow> string \<Rightarrow> 'x \<Rightarrow>
     hysteria_port_forward_tool_status \<times> 'x" where
  "inspect_port_forward_tool_with_comment ex tool rules allow_rules comment x =
     (let status = tool_status_new tool rules allow_rules;
          (available, x1) = is_tool_available ex x tool
      in if \<not> available then (status, x1)
         else
           let status = status\<lparr>tst_available := True\<rparr>;
               (prerouting, x2) = command_output ex x1 (prerouting_command tool)
           in case prerouting of
                Inl error \<Rightarrow> (status\<lparr>tst_error := error\<rparr>, x2)
              | Inr prerouting_text \<Rightarrow>
                  let (input, x3) = command_output ex x2 (input_command tool)
                  in case input of
                       Inl error \<Rightarrow> (status\<lparr>tst_error := error\<rparr>, x3)
                     | Inr input_text \<Rightarrow>
                         ((inspect_managed_specs_with_comment tool rules allow_rules prerouting_text input_text
                             False comment)\<lparr>tst_available := True\<rparr>, x3))"

section \<open>The operations over all tools\<close>

definition new_hysteria_port_forward_status ::
  "port_forward_rule list \<Rightarrow> string list \<Rightarrow> bool \<Rightarrow> hysteria_port_forward_status" where
  "new_hysteria_port_forward_status rules errors root =
     \<lparr>pst_enabled = True, pst_running_as_root = root, pst_expected_rules = describe_port_forward_rules rules,
      pst_tools = [], pst_errors = errors\<rparr>"

definition new_hysteria_port_forward_status_from_plan ::
  "hysteria_port_forward_plan \<Rightarrow> bool \<Rightarrow> hysteria_port_forward_status" where
  "new_hysteria_port_forward_status_from_plan plan root =
     \<lparr>pst_enabled = True, pst_running_as_root = root,
      pst_expected_rules = describe_hysteria_managed_rules (plan_nat_rules plan) (plan_allow_rules plan),
      pst_tools = [], pst_errors = plan_errors plan\<rparr>"

definition new_mieru_port_forward_status_from_plan ::
  "hysteria_port_forward_plan \<Rightarrow> bool \<Rightarrow> hysteria_port_forward_status" where
  "new_mieru_port_forward_status_from_plan plan root =
     \<lparr>pst_enabled = plan_nat_rules plan \<noteq> [], pst_running_as_root = root,
      pst_expected_rules = describe_hysteria_managed_rules (plan_nat_rules plan) (plan_allow_rules plan),
      pst_tools = [], pst_errors = plan_errors plan\<rparr>"

definition new_mieru_port_forward_status ::
  "(string \<Rightarrow> string) \<Rightarrow> node_info list \<Rightarrow> bool \<Rightarrow> hysteria_port_forward_status" where
  "new_mieru_port_forward_status dbg infos root =
     new_mieru_port_forward_status_from_plan (build_mieru_port_forward_plan dbg infos) root"

definition set_hysteria_port_forward_disabled :: "bool \<Rightarrow> hysteria_port_forward_status" where
  "set_hysteria_port_forward_disabled root =
     \<lparr>pst_enabled = False, pst_running_as_root = root, pst_expected_rules = [], pst_tools = [], pst_errors = []\<rparr>"

definition push_tool :: "hysteria_port_forward_tool_status \<Rightarrow> hysteria_port_forward_status \<Rightarrow> hysteria_port_forward_status" where
  "push_tool t status = status\<lparr>pst_tools := pst_tools status @ [t]\<rparr>"

definition push_status_error :: "string \<Rightarrow> hysteria_port_forward_status \<Rightarrow> hysteria_port_forward_status" where
  "push_status_error e status = status\<lparr>pst_errors := pst_errors status @ [e]\<rparr>"

text \<open>The loop that inspects every tool.\<close>

fun inspect_tools ::
  "(string \<Rightarrow> 'x \<Rightarrow> hysteria_port_forward_tool_status \<times> 'x) \<Rightarrow> string list \<Rightarrow>
     hysteria_port_forward_status \<Rightarrow> 'x \<Rightarrow> hysteria_port_forward_status \<times> 'x" where
  "inspect_tools inspect [] status x = (status, x)"
| "inspect_tools inspect (tool # tools) status x =
     (let (t, x') = inspect tool x in inspect_tools inspect tools (push_tool t status) x')"

text \<open>The loop that brings every tool into its expected state: inspect, act when due, inspect again.\<close>

fun apply_tools ::
  "(string \<Rightarrow> 'x \<Rightarrow> hysteria_port_forward_tool_status \<times> 'x) \<Rightarrow>
     (hysteria_port_forward_tool_status \<Rightarrow> bool) \<Rightarrow> (string \<Rightarrow> 'x \<Rightarrow> unit result \<times> 'x) \<Rightarrow> string list \<Rightarrow>
     hysteria_port_forward_status \<Rightarrow> 'x \<Rightarrow> hysteria_port_forward_status \<times> 'x" where
  "apply_tools inspect due act [] status x = (status, x)"
| "apply_tools inspect due act (tool # tools) status x =
     (let (t, x1) = inspect tool x
      in if tst_available t \<and> due t then
           (case act tool x1 of
              (Inr _, x2) \<Rightarrow>
                let (t', x3) = inspect tool x2
                in apply_tools inspect due act tools (push_tool t' status) x3
            | (Inl error, x2) \<Rightarrow>
                apply_tools inspect due act tools
                  (push_tool (t\<lparr>tst_error := error\<rparr>) (push_status_error (tool @ '': '' @ error) status)) x2)
         else apply_tools inspect due act tools (push_tool t status) x1)"

definition inspect_hysteria_port_forward ::
  "(string \<Rightarrow> string) \<Rightarrow> 'x port_forward_executor \<Rightarrow> node_info list \<Rightarrow> 'x \<Rightarrow> hysteria_port_forward_status \<times> 'x" where
  "inspect_hysteria_port_forward dbg ex infos x =
     (let plan = build_hysteria_port_forward_plan dbg infos
      in inspect_tools
           (\<lambda>tool. inspect_port_forward_tool_with_allow_rules ex tool (plan_nat_rules plan) (plan_allow_rules plan))
           HYSTERIA_PORT_FORWARD_TOOLS
           (new_hysteria_port_forward_status_from_plan plan (running_as_root ex x)) x)"

definition repair_hysteria_port_forward ::
  "(string \<Rightarrow> string) \<Rightarrow> 'x port_forward_executor \<Rightarrow> node_info list \<Rightarrow> 'x \<Rightarrow> hysteria_port_forward_status \<times> 'x" where
  "repair_hysteria_port_forward dbg ex infos x =
     (let plan = build_hysteria_port_forward_plan dbg infos;
          status = new_hysteria_port_forward_status_from_plan plan (running_as_root ex x);
          inspect = (\<lambda>tool. inspect_port_forward_tool_with_allow_rules ex tool (plan_nat_rules plan)
            (plan_allow_rules plan))
      in if \<not> pst_running_as_root status then
           let (status', x') = inspect_tools inspect HYSTERIA_PORT_FORWARD_TOOLS status x
           in (if plan_nat_rules plan \<noteq> [] \<or> plan_allow_rules plan \<noteq> [] \<or>
                  hysteria_port_forward_needs_repair status'
               then push_status_error ''HY2 port forwarding repair requires root'' status' else status', x')
         else
           apply_tools inspect tool_needs_repair
             (\<lambda>tool. execute_reconcile_port_forward_tool ex tool (plan_nat_rules plan) (plan_allow_rules plan))
             HYSTERIA_PORT_FORWARD_TOOLS status x)"

definition cleanup_hysteria_port_forward ::
  "'x port_forward_executor \<Rightarrow> 'x \<Rightarrow> hysteria_port_forward_status \<times> 'x" where
  "cleanup_hysteria_port_forward ex x =
     (let status = set_hysteria_port_forward_disabled (running_as_root ex x)
      in if \<not> pst_running_as_root status then
           inspect_tools (\<lambda>tool. inspect_port_forward_tool ex tool []) HYSTERIA_PORT_FORWARD_TOOLS
             (push_status_error ''HY2 port forwarding cleanup requires root'' status) x
         else
           apply_tools (\<lambda>tool. inspect_port_forward_tool_with_allow_rules ex tool [] []) (\<lambda>_. True)
             (execute_cleanup_port_forward_tool ex) HYSTERIA_PORT_FORWARD_TOOLS status x)"

definition inspect_mieru_port_forward ::
  "(string \<Rightarrow> string) \<Rightarrow> 'x port_forward_executor \<Rightarrow> node_info list \<Rightarrow> 'x \<Rightarrow> hysteria_port_forward_status \<times> 'x" where
  "inspect_mieru_port_forward dbg ex infos x =
     (let plan = build_mieru_port_forward_plan dbg infos
      in inspect_tools
           (\<lambda>tool. inspect_port_forward_tool_with_comment ex tool (plan_nat_rules plan) (plan_allow_rules plan)
              MIERU_PORT_FORWARD_COMMENT)
           HYSTERIA_PORT_FORWARD_TOOLS
           (new_mieru_port_forward_status_from_plan plan (running_as_root ex x)) x)"

definition repair_mieru_port_forward ::
  "(string \<Rightarrow> string) \<Rightarrow> 'x port_forward_executor \<Rightarrow> node_info list \<Rightarrow> 'x \<Rightarrow> hysteria_port_forward_status \<times> 'x" where
  "repair_mieru_port_forward dbg ex infos x =
     (let plan = build_mieru_port_forward_plan dbg infos;
          status = new_mieru_port_forward_status_from_plan plan (running_as_root ex x);
          inspect = (\<lambda>tool. inspect_port_forward_tool_with_comment ex tool (plan_nat_rules plan)
            (plan_allow_rules plan) MIERU_PORT_FORWARD_COMMENT)
      in if \<not> pst_running_as_root status then
           let (status', x') = inspect_tools inspect HYSTERIA_PORT_FORWARD_TOOLS status x
           in (if plan_nat_rules plan \<noteq> [] \<or> plan_allow_rules plan \<noteq> [] \<or>
                  hysteria_port_forward_needs_repair status'
               then push_status_error ''Mieru port forwarding repair requires root'' status' else status', x')
         else
           apply_tools inspect tool_needs_repair
             (\<lambda>tool. execute_mieru_port_forward_tool ex tool (plan_nat_rules plan) (plan_allow_rules plan))
             HYSTERIA_PORT_FORWARD_TOOLS status x)"

section \<open>Reading printed lines back\<close>

text \<open>A field as it is generated: not empty, ASCII, no white space, no quote.\<close>

definition plain_char :: "char \<Rightarrow> bool" where
  "plain_char c \<longleftrightarrow> \<not> is_ws1 c \<and> char_code c < 128 \<and> \<not> is_quote c \<and> c \<noteq> CHR 0x00"

definition plain_field :: "string \<Rightarrow> bool" where
  "plain_field f \<longleftrightarrow> f \<noteq> [] \<and> list_all plain_char f"

definition plain_line :: "string list \<Rightarrow> bool" where
  "plain_line flds \<longleftrightarrow> flds \<noteq> [] \<and> list_all plain_field flds"

definition print_lines :: "string list list \<Rightarrow> string" where
  "print_lines ls = join [CHR 0x0A] (map (join '' '') ls)"

lemma plain_char_not:
  "plain_char c \<Longrightarrow> c \<noteq> CHR '' '' \<and> c \<noteq> CHR 0x09 \<and> c \<noteq> CHR 0x0A \<and> c \<noteq> CHR 0x0D \<and> \<not> is_quote c \<and> c \<noteq> CHR 0x00"
  by (auto simp: plain_char_def is_ws1_def char_code_def)

lemma parse_spec_loop_plain:
  "list_all plain_char f \<Longrightarrow> parse_spec_loop (f @ s) None b flds = parse_spec_loop s None (b @ f) flds"
proof (induction f arbitrary: b)
  case (Cons c f)
  then show ?case using plain_char_not [of c] by simp
qed simp

lemma parse_spec_loop_join:
  "plain_line ls \<Longrightarrow> parse_spec_loop (join '' '' ls) None [] flds = flds @ ls"
proof (induction ls arbitrary: flds rule: induct_list012)
  case (2 f)
  then show ?case
    using parse_spec_loop_plain [of f "[]"] by (simp add: plain_line_def plain_field_def)
next
  case (3 f g ls)
  have f: "f \<noteq> []" "list_all plain_char f" "plain_line (g # ls)"
    using "3.prems" by (simp_all add: plain_line_def plain_field_def)
  have "parse_spec_loop (join '' '' (f # g # ls)) None [] flds =
      parse_spec_loop (join '' '' (g # ls)) None [] (flds @ [f])"
    using parse_spec_loop_plain [OF f(2), of "CHR '' '' # join '' '' (g # ls)" "[]" flds] f(1)
    by (simp add: is_quote_def)
  with "3.IH"(2) [OF f(3)] show ?case by simp
qed (simp add: plain_line_def)

lemma join_ends:
  assumes "plain_line ls"
  shows "join '' '' ls \<noteq> []" "plain_char (hd (join '' '' ls))" "plain_char (last (join '' '' ls))"
    "c \<in> set (join '' '' ls) \<Longrightarrow> plain_char c \<or> c = CHR '' ''"
proof -
  have "join '' '' ls \<noteq> [] \<and> plain_char (hd (join '' '' ls)) \<and> plain_char (last (join '' '' ls)) \<and>
      (c \<in> set (join '' '' ls) \<longrightarrow> plain_char c \<or> c = CHR '' '')"
    using assms
  proof (induction ls rule: induct_list012)
    case (2 f)
    then show ?case by (auto simp: plain_line_def plain_field_def list_all_iff)
  next
    case (3 f g ls)
    then have "plain_line (g # ls)" "f \<noteq> []" "list_all plain_char f"
      by (simp_all add: plain_line_def plain_field_def)
    with "3.IH"(2) show ?case by (auto simp: list_all_iff)
  qed (simp add: plain_line_def)
  then show "join '' '' ls \<noteq> []" "plain_char (hd (join '' '' ls))" "plain_char (last (join '' '' ls))"
    "c \<in> set (join '' '' ls) \<Longrightarrow> plain_char c \<or> c = CHR '' ''" by blast+
qed

lemma trim_ends:
  assumes "plain_char (hd s)" "plain_char (last s)" "s \<noteq> []"
  shows "trim s = s"
proof -
  have no: "\<not> is_ws2 c d" "\<not> is_ws3 c d e" "\<not> is_ws2 d c" "\<not> is_ws3 e d c" if "char_code c < 128" for c d e
    using that by (auto simp: is_ws2_def is_ws3_def)
  have "ws_len s = 0"
    using assms(1,3) no by (cases s) (auto simp: ws_len_def plain_char_def split: list.splits)
  moreover have "ws_len_rev (rev s) = 0"
    using assms(2,3) no by (cases "rev s") (auto simp: ws_len_rev_def plain_char_def hd_rev [symmetric] split: list.splits)
  ultimately show ?thesis
    by (simp add: trim_def trim_end_def trim_start_plain trim_end_rev_plain)
qed

lemma parse_printed: "plain_line ls \<Longrightarrow> parse_iptables_spec (trim (join '' '' ls)) = ls"
  using parse_spec_loop_join [of ls "[]"] join_ends [of ls]
  by (simp add: trim_ends parse_iptables_spec_def)

lemma parse_printed': "plain_line ls \<Longrightarrow> parse_iptables_spec (join '' '' ls) = ls"
  using parse_spec_loop_join [of ls "[]"] join_ends [of ls] by (simp add: parse_iptables_spec_def)

lemma lines_join:
  assumes "\<And>l. l \<in> set ls \<Longrightarrow> l \<noteq> [] \<and> CHR 0x0A \<notin> set l \<and> last l \<noteq> CHR 0x0D"
  shows "lines (join [CHR 0x0A] ls) = ls"
proof (cases "ls = []")
  case False
  then have sp: "split_on (CHR 0x0A) (join [CHR 0x0A] ls) = ls"
    using assms by (intro split_on_join) auto
  have "map strip_cr (butlast ls) = butlast ls"
    using assms by (intro map_idI) (auto simp: strip_cr_def dest: in_set_butlastD)
  moreover have "last ls \<noteq> []" using assms False by auto
  ultimately show ?thesis using False by (simp add: lines_def sp)
qed (simp add: lines_def)

lemma parse_print_lines:
  assumes "list_all plain_line ls"
  shows "map (\<lambda>line. parse_iptables_spec (trim line)) (lines (print_lines ls)) = ls"
proof -
  have "lines (print_lines ls) = map (join '' '') ls"
    unfolding print_lines_def
  proof (rule lines_join)
    fix l assume "l \<in> set (map (join '' '') ls)"
    then obtain f where f: "l = join '' '' f" "plain_line f" using assms by (auto simp: list_all_iff)
    note e = join_ends [OF f(2), folded f(1)]
    have "CHR 0x0A \<notin> set l" using e(4) [of "CHR 0x0A"] plain_char_not [of "CHR 0x0A"] by auto
    with e plain_char_not [of "last l"] show "l \<noteq> [] \<and> CHR 0x0A \<notin> set l \<and> last l \<noteq> CHR 0x0D" by blast
  qed
  then show ?thesis
    using assms by (simp add: list_all_iff parse_printed map_idI)
qed

lemma list_specs_printed:
  "list_all plain_line ls \<Longrightarrow>
   list_specs managed (print_lines ls) = map (\<lambda>f. join '' '' (normalize_port_forward_spec_fields f)) (filter managed ls)"
  by (simp add: list_specs_def parse_print_lines)

section \<open>The rules of a plan as iptables lists them\<close>

text \<open>
  iptables may list the protocol match of a rule with an implicit \<open>-m udp\<close> or \<open>-m tcp\<close>;
  \<open>b\<close> says whether it does.
\<close>

definition implicit_match :: "bool \<Rightarrow> string \<Rightarrow> string list" where
  "implicit_match b pr = (if b then [''-m'', pr] else [])"

definition listed_rule :: "bool \<Rightarrow> port_forward_rule \<Rightarrow> string list" where
  "listed_rule b r = [''-A'', ''PREROUTING'', ''-p'', pr_protocol r] @ implicit_match b (pr_protocol r) @
     pm_args (pr_matcher r) @
     [''-m'', ''comment'', ''--comment'', pr_comment r, ''-j'', ''REDIRECT'', ''--to-ports'',
      port_text (pr_target_port r)]"

definition listed_allow :: "bool \<Rightarrow> firewall_allow_rule \<Rightarrow> string list" where
  "listed_allow b r = [''-A'', ''INPUT'', ''-p'', fa_protocol r] @ implicit_match b (fa_protocol r) @
     [''--dport'', port_text (fa_port r), ''-m'', ''comment'', ''--comment'', fa_comment r, ''-j'', ''ACCEPT'']"

definition plan_matcher :: "port_forward_matcher \<Rightarrow> bool" where
  "plan_matcher m \<longleftrightarrow>
     (\<exists>p. m = single_matcher p) \<or> (\<exists>a b. m = range_matcher a b) \<or> (\<exists>ps. ps \<noteq> [] \<and> m = multiport_matcher ps)"

definition plan_comment :: "string \<Rightarrow> bool" where
  "plan_comment c \<longleftrightarrow> c = HYSTERIA_PORT_FORWARD_COMMENT \<or> c = MIERU_PORT_FORWARD_COMMENT"

definition plan_rule :: "string \<Rightarrow> port_forward_rule \<Rightarrow> bool" where
  "plan_rule comment r \<longleftrightarrow> pr_protocol r \<in> {''tcp'', ''udp''} \<and> pr_comment r = comment \<and> plan_matcher (pr_matcher r)"

definition plan_allow :: "string \<Rightarrow> firewall_allow_rule \<Rightarrow> bool" where
  "plan_allow comment r \<longleftrightarrow> fa_protocol r \<in> {''tcp'', ''udp''} \<and> fa_comment r = comment"

lemma plain_fields [simp]:
  "plain_field ''-A''" "plain_field ''PREROUTING''" "plain_field ''INPUT''" "plain_field ''-p''" "plain_field ''-m''"
  "plain_field ''comment''" "plain_field ''--comment''" "plain_field ''-j''" "plain_field ''REDIRECT''"
  "plain_field ''--to-ports''" "plain_field ''ACCEPT''" "plain_field ''tcp''" "plain_field ''udp''"
  "plain_field ''--dport''" "plain_field ''--dports''" "plain_field ''multiport''"
  by (simp_all add: plain_field_def plain_char_def is_ws1_def is_quote_def char_code_def)

lemma plain_comment: "plan_comment c \<Longrightarrow> plain_field c \<and> trim_matches is_quote c = c"
  by (auto simp: plan_comment_def HYSTERIA_PORT_FORWARD_COMMENT_def MIERU_PORT_FORWARD_COMMENT_def plain_field_def
      plain_char_def is_ws1_def is_quote_def char_code_def trim_matches_def trim_start_matches_def trim_end_matches_def)

lemma plain_sep [simp]: "plain_char (CHR '':'')" "plain_char (CHR '','')"
  by (simp_all add: plain_char_def is_ws1_def is_quote_def char_code_def)

lemma plain_digit: "is_ascii_digit c \<Longrightarrow> plain_char c"
  by (auto simp: plain_char_def is_ws1_def is_quote_def char_code_def is_ascii_digit_def)

lemma plain_port [simp]: "plain_field (port_text p)" "list_all plain_char (port_text p)"
  using nat_to_string_digits [of "unat p"] plain_digit by (auto simp: plain_field_def list_all_iff)

lemma plain_ports: "ps \<noteq> [] \<Longrightarrow> plain_field (join '','' (map port_text ps))"
proof (induction ps rule: induct_list012)
  case (3 p q ps)
  then show ?case by (simp add: plain_field_def)
qed simp_all

lemma plan_matcher_plain: "plan_matcher m \<Longrightarrow> list_all plain_field (pm_args m)"
  by (auto simp: plan_matcher_def single_matcher_def range_matcher_def multiport_matcher_def plain_ports)
    (simp add: plain_field_def)

lemma plain_protocol: "pr = ''tcp'' \<or> pr = ''udp'' \<Longrightarrow> plain_field pr"
  by auto

lemma listed_plain:
  "plan_comment c \<Longrightarrow> plan_rule c r \<Longrightarrow> plain_line (listed_rule b r)"
  "plan_comment c \<Longrightarrow> plan_allow c a \<Longrightarrow> plain_line (listed_allow b a)"
  using plan_matcher_plain [of "pr_matcher r"] plain_comment [of c] plain_protocol
  by (simp_all add: plan_rule_def plan_allow_def plain_line_def listed_rule_def listed_allow_def implicit_match_def)

text \<open>Normalising removes the implicit match and nothing else.\<close>

lemma port_text_not_flag: "port_text p \<noteq> ''-m''" "port_text p \<noteq> ''--comment''"
  "port_text a @ CHR '':'' # s \<noteq> ''-m''" "port_text a @ CHR '':'' # s \<noteq> ''--comment''"
proof -
  obtain c t where "port_text p = c # t" "is_ascii_digit c" using nat_to_string_hd by blast
  then show "port_text p \<noteq> ''-m''" "port_text p \<noteq> ''--comment''" using digit_not_sign by force+
  obtain c t where "port_text a = c # t" "is_ascii_digit c" using nat_to_string_hd by blast
  then show "port_text a @ CHR '':'' # s \<noteq> ''-m''" "port_text a @ CHR '':'' # s \<noteq> ''--comment''"
    using digit_not_sign by force+
qed

lemma ports_not_flag:
  "ps \<noteq> [] \<Longrightarrow> join '','' (map port_text ps) \<noteq> ''-m'' \<and> join '','' (map port_text ps) \<noteq> ''--comment''"
proof -
  assume "ps \<noteq> []"
  then obtain p qs where ps: "ps = p # qs" by (cases ps) auto
  obtain c t where "port_text p = c # t" "is_ascii_digit c" using nat_to_string_hd by blast
  then have "\<exists>u. join '','' (map port_text ps) = c # u" "c \<noteq> CHR ''-''"
    using ps digit_not_sign by (cases qs; auto)+
  then show ?thesis by auto
qed

lemma normalize_tail:
  assumes "plan_comment c" "x \<noteq> ''--comment''"
  shows "normalize_loop (Some x) [''-m'', ''comment'', ''--comment'', c, ''-j'', ''REDIRECT'', ''--to-ports'', port_text p] =
      [''-m'', ''comment'', ''--comment'', c, ''-j'', ''REDIRECT'', ''--to-ports'', port_text p]"
    "normalize_loop (Some x) [''-m'', ''comment'', ''--comment'', c, ''-j'', ''ACCEPT''] =
      [''-m'', ''comment'', ''--comment'', c, ''-j'', ''ACCEPT'']"
proof -
  have c: "trim_matches is_quote c = c" "c \<noteq> ''-m''" "c \<noteq> ''--comment''"
    using plain_comment [OF assms(1)] assms(1)
    by (auto simp: plan_comment_def HYSTERIA_PORT_FORWARD_COMMENT_def MIERU_PORT_FORWARD_COMMENT_def)
  show "normalize_loop (Some x) [''-m'', ''comment'', ''--comment'', c, ''-j'', ''REDIRECT'', ''--to-ports'', port_text p] =
      [''-m'', ''comment'', ''--comment'', c, ''-j'', ''REDIRECT'', ''--to-ports'', port_text p]"
    "normalize_loop (Some x) [''-m'', ''comment'', ''--comment'', c, ''-j'', ''ACCEPT''] =
      [''-m'', ''comment'', ''--comment'', c, ''-j'', ''ACCEPT'']"
    using assms(2) c port_text_not_flag by simp_all
qed

lemma normalize_args:
  assumes "plan_matcher m" "x \<noteq> ''--comment''"
    and tail: "\<And>x. x \<noteq> ''--comment'' \<Longrightarrow> normalize_loop (Some x) tail = tail"
  shows "normalize_loop (Some x) (pm_args m @ tail) = pm_args m @ tail"
proof -
  consider (single) p where "m = single_matcher p" | (range) a b where "m = range_matcher a b"
    | (multi) ps where "ps \<noteq> []" "m = multiport_matcher ps"
    using assms(1) by (auto simp: plan_matcher_def)
  then show ?thesis
  proof cases
    case single
    then show ?thesis using assms(2) port_text_not_flag tail by (simp add: single_matcher_def)
  next
    case range
    then show ?thesis using assms(2) port_text_not_flag tail by (simp add: range_matcher_def)
  next
    case multi
    then show ?thesis using assms(2) ports_not_flag [OF multi(1)] tail by (simp add: multiport_matcher_def)
  qed
qed

lemma normalize_listed:
  assumes c: "plan_comment c"
  shows "plan_rule c r \<Longrightarrow> normalize_port_forward_spec_fields (listed_rule b r) = listed_rule False r"
    "plan_allow c a \<Longrightarrow> normalize_port_forward_spec_fields (listed_allow b a) = listed_allow False a"
proof -
  assume r: "plan_rule c r"
  then have pr: "pr_protocol r = ''tcp'' \<or> pr_protocol r = ''udp''" and m: "plan_matcher (pr_matcher r)"
    and co: "pr_comment r = c" by (auto simp: plan_rule_def)
  note args = normalize_args [OF m _ normalize_tail(1) [OF c]]
  show "normalize_port_forward_spec_fields (listed_rule b r) = listed_rule False r"
    using pr args [of "''tcp''"] args [of "''udp''"] co
    by (cases b) (auto simp: listed_rule_def implicit_match_def normalize_port_forward_spec_fields_def)
next
  assume a: "plan_allow c a"
  then have pr: "fa_protocol a = ''tcp'' \<or> fa_protocol a = ''udp''" and co: "fa_comment a = c"
    by (auto simp: plan_allow_def)
  note tail = normalize_tail(2) [OF c port_text_not_flag(2), of "fa_port a"]
  show "normalize_port_forward_spec_fields (listed_allow b a) = listed_allow False a"
    using pr tail co port_text_not_flag(1) [of "fa_port a"]
    by (cases b) (auto simp: listed_allow_def implicit_match_def normalize_port_forward_spec_fields_def)
qed

lemma expected_is_listed:
  "plan_comment c \<Longrightarrow> plan_rule c r \<Longrightarrow> expected_port_forward_spec_fields r = listed_rule False r"
  "plan_comment c \<Longrightarrow> plan_allow c a \<Longrightarrow> expected_firewall_allow_spec_fields a = listed_allow False a"
  using normalize_listed(1) [of c r False] normalize_listed(2) [of c a False]
  by (simp_all add: expected_port_forward_spec_fields_def expected_firewall_allow_spec_fields_def
      listed_rule_def listed_allow_def implicit_match_def)

section \<open>Managed lines\<close>

lemma zip_tl_mem: "(a, b) \<in> set (zip (p @ a # b # q) (tl (p @ a # b # q)))"
proof (induction p)
  case (Cons c p)
  then show ?case by (cases p) auto
qed simp

lemma field_pairs_mem: "2 \<le> length pre \<Longrightarrow> (a, b) \<in> set (field_pairs (pre @ a # b # post))"
proof -
  assume "2 \<le> length pre"
  moreover have "drop 3 l = tl (drop 2 l)" for l :: "string list" by (metis drop_Suc numeral_3_eq_3 numeral_2_eq_2 tl_drop)
  moreover have "drop 2 (pre @ a # b # post) = drop 2 pre @ a # b # post" using calculation by simp
  ultimately show ?thesis using zip_tl_mem [of a b "drop 2 pre" post] by (simp only: field_pairs_def)
qed

lemma listed_managed:
  assumes "plan_comment c"
  shows "plan_rule c r \<Longrightarrow> is_port_forward_rule_spec_with_comment (listed_rule b r) c"
    "plan_allow c a \<Longrightarrow> is_firewall_allow_rule_spec_with_comment (listed_allow b a) c"
proof -
  have q: "trim_matches is_quote c = c" using plain_comment [OF assms] by simp
  assume "plan_rule c r"
  then have co: "pr_comment r = c" by (simp add: plan_rule_def)
  let ?pre = "[''-A'', ''PREROUTING'', ''-p'', pr_protocol r] @ implicit_match b (pr_protocol r) @
    pm_args (pr_matcher r) @ [''-m'', ''comment'']"
  have "listed_rule b r = ?pre @ ''--comment'' # c # [''-j'', ''REDIRECT'', ''--to-ports'', port_text (pr_target_port r)]"
    by (simp add: listed_rule_def co)
  then have "(''--comment'', c) \<in> set (field_pairs (listed_rule b r))"
    using field_pairs_mem [of ?pre] by simp
  then show "is_port_forward_rule_spec_with_comment (listed_rule b r) c"
    using q by (auto simp: is_port_forward_rule_spec_with_comment_def list_ex_iff listed_rule_def)
next
  have q: "trim_matches is_quote c = c" using plain_comment [OF assms] by simp
  assume "plan_allow c a"
  then have co: "fa_comment a = c" by (simp add: plan_allow_def)
  let ?pre = "[''-A'', ''INPUT'', ''-p'', fa_protocol a] @ implicit_match b (fa_protocol a) @
    [''--dport'', port_text (fa_port a), ''-m'', ''comment'']"
  have e: "listed_allow b a = ?pre @ ''--comment'' # c # [''-j'', ''ACCEPT'']"
    "listed_allow b a = (?pre @ [''--comment'', c]) @ ''-j'' # ''ACCEPT'' # []"
    by (simp_all add: listed_allow_def co)
  have "(''--comment'', c) \<in> set (field_pairs (listed_allow b a))"
    "(''-j'', ''ACCEPT'') \<in> set (field_pairs (listed_allow b a))"
    using field_pairs_mem [of ?pre "''--comment''" c] field_pairs_mem [of "?pre @ [''--comment'', c]" "''-j''"]
    unfolding e [symmetric] by (simp_all add: e(2))
  then show "is_firewall_allow_rule_spec_with_comment (listed_allow b a) c"
    using q by (auto simp: is_firewall_allow_rule_spec_with_comment_def list_ex_iff listed_allow_def)
qed

lemma list_specs_listed:
  assumes "plan_comment c" "list_all plain_line foreign" "list_all (\<lambda>f. \<not> managed f) foreign"
    and "\<And>x. x \<in> set xs \<Longrightarrow> plain_line (listed x) \<and> managed (listed x) \<and>
      normalize_port_forward_spec_fields (listed x) = expected x"
  shows "list_specs managed (print_lines (foreign @ map listed xs)) = map (\<lambda>x. join '' '' (expected x)) xs"
proof -
  have "list_all plain_line (foreign @ map listed xs)" using assms(2,4) by (auto simp: list_all_iff)
  moreover have "filter managed foreign = []" using assms(3) by (simp add: filter_empty_conv list_all_iff)
  moreover have "filter managed (map listed xs) = map listed xs" using assms(4) by (auto intro: filter_True)
  ultimately show ?thesis using assms(4) by (simp add: list_specs_printed)
qed

lemma inspect_same_specs:
  assumes "current = expected"
  shows "map snd (filter (\<lambda>(key, _). \<not> bt_contains_key (keyed_specs current) key) (keyed_specs expected)) = []"
  using assms by (auto simp: filter_empty_conv bt_contains_key_def bt_get_def map_of_eq_None_iff intro: rev_image_eqI)

lemma inspect_installed:
  assumes c: "plan_comment c" and rules: "list_all (plan_rule c) rules" "list_all (plan_allow c) allows"
    and fp: "list_all plain_line fp" "list_all (\<lambda>f. \<not> is_port_forward_rule_spec_with_comment f c) fp"
    and fi: "list_all plain_line fi" "list_all (\<lambda>f. \<not> is_firewall_allow_rule_spec_with_comment f c) fi"
  shows "tst_current (inspect_managed_specs_with_comment tool rules allows
      (print_lines (fp @ map (listed_rule b) rules)) (print_lines (fi @ map (listed_allow b) allows)) stale c) =
    expected_hysteria_managed_specs rules allows"
proof -
  have "list_specs (\<lambda>f. is_port_forward_rule_spec_with_comment f c) (print_lines (fp @ map (listed_rule b) rules)) =
      map (\<lambda>r. join '' '' (expected_port_forward_spec_fields r)) rules"
    using rules(1) listed_plain(1) [OF c] listed_managed(1) [OF c] normalize_listed(1) [OF c] expected_is_listed(1) [OF c]
    by (intro list_specs_listed [OF c fp]) (auto simp: list_all_iff)
  moreover have "list_specs (\<lambda>f. is_firewall_allow_rule_spec_with_comment f c) (print_lines (fi @ map (listed_allow b) allows)) =
      map (\<lambda>r. join '' '' (expected_firewall_allow_spec_fields r)) allows"
    using rules(2) listed_plain(2) [OF c] listed_managed(2) [OF c] normalize_listed(2) [OF c] expected_is_listed(2) [OF c]
    by (intro list_specs_listed [OF c fi]) (auto simp: list_all_iff)
  ultimately show ?thesis
    by (auto simp: inspect_managed_specs_with_comment_def Let_def list_port_forward_specs_from_output_def
        list_port_forward_specs_from_output_with_comment_def list_firewall_allow_specs_from_output_def
        list_firewall_allow_specs_from_output_with_comment_def expected_hysteria_managed_specs_def
        expected_port_forward_specs_def)
qed

section \<open>The rules of the plans\<close>

lemma flush_singles_plan: "list_all plan_matcher ms \<Longrightarrow> list_all plan_matcher (flush_singles ps ms)"
proof (induction ps ms rule: flush_singles.induct)
  case (2 p ps ms)
  have "plan_matcher (if length (take 15 (p # ps)) = 1 then single_matcher p else multiport_matcher (take 15 (p # ps)))"
    using exI [of "\<lambda>qs. qs \<noteq> [] \<and> multiport_matcher (take 15 (p # ps)) = multiport_matcher qs" "take 15 (p # ps)"]
    by (auto simp: plan_matcher_def simp del: take_Suc_Cons)
  with "2.prems" have "list_all plan_matcher (ms @
      [if length (take 15 (p # ps)) = 1 then single_matcher p else multiport_matcher (take 15 (p # ps))])"
    by (simp only: list_all_append list.pred_inject simp_thms)
  from "2.IH" [OF refl this] show ?case by (simp only: flush_singles.simps Let_def)
qed simp

lemma matchers_loop_plan: "list_all plan_matcher ms \<Longrightarrow> list_all plan_matcher (matchers_loop rs singles ms)"
  by (induction rs singles ms rule: matchers_loop.induct) (auto simp: flush_singles_plan plan_matcher_def)

lemma push_rules_plan:
  assumes "list_all (plan_rule c) (pb_rules st)" "list_all plan_matcher ms" "pr \<in> {''tcp'', ''udp''}"
  shows "list_all (plan_rule c) (pb_rules (fold (push_rule key
      (\<lambda>m. \<lparr>pr_matcher = m, pr_target_port = t, pr_protocol = pr, pr_comment = c\<rparr>)) ms st))"
  using assms by (induction ms arbitrary: st) (simp_all add: push_rule_def plan_rule_def)

lemma allocate_and_push_plan:
  assumes "list_all (plan_rule c) (pb_rules st)" "pr \<in> {''tcp'', ''udp''}"
  shows "list_all (plan_rule c) (pb_rules (allocate_and_push cov t i pr key m c rs st))"
  using assms
  by (simp add: allocate_and_push_def Let_def push_rules_plan port_forward_matchers_from_ranges_def matchers_loop_plan
      del: insert_iff)

lemma hysteria_rules_plan:
  "list_all (plan_rule HYSTERIA_PORT_FORWARD_COMMENT) (fst (build_hysteria_port_forward_rules dbg infos))"
proof -
  have step: "list_all (plan_rule HYSTERIA_PORT_FORWARD_COMMENT) (pb_rules (build_hysteria_step dbg m info st))"
    if "list_all (plan_rule HYSTERIA_PORT_FORWARD_COMMENT) (pb_rules st)" for m info st
    using that allocate_and_push_plan
    by (auto simp: build_hysteria_step_def Let_def split: sum.splits)
  have "list_all (plan_rule HYSTERIA_PORT_FORWARD_COMMENT) (pb_rules (fold (build_hysteria_step dbg m) xs st))"
    if "list_all (plan_rule HYSTERIA_PORT_FORWARD_COMMENT) (pb_rules st)" for m xs st
    using that by (induction xs arbitrary: st) (simp_all add: step)
  then show ?thesis by (simp add: build_hysteria_port_forward_rules_def Let_def build_state_init_def)
qed

lemma mieru_rules_plan:
  "list_all (plan_rule MIERU_PORT_FORWARD_COMMENT) (fst (build_mieru_port_forward_rules dbg infos))"
proof -
  have step: "list_all (plan_rule MIERU_PORT_FORWARD_COMMENT) (pb_rules (build_mieru_step dbg m info st))"
    if "list_all (plan_rule MIERU_PORT_FORWARD_COMMENT) (pb_rules st)" for m info st
    using that allocate_and_push_plan mieru_protocol_cases
    by (auto simp: build_mieru_step_def Let_def split: sum.splits)
  have "list_all (plan_rule MIERU_PORT_FORWARD_COMMENT) (pb_rules (fold (build_mieru_step dbg m) xs st))"
    if "list_all (plan_rule MIERU_PORT_FORWARD_COMMENT) (pb_rules st)" for m xs st
    using that by (induction xs arbitrary: st) (simp_all add: step)
  then show ?thesis by (simp add: build_mieru_port_forward_rules_def Let_def build_state_init_def)
qed

lemma allow_rules_loop_plan:
  "list_all (plan_rule c) rules \<Longrightarrow> list_all (plan_allow c) (allow_rules_loop rules seen)"
  by (induction rules arbitrary: seen) (auto simp: Let_def plan_rule_def plan_allow_def)

lemma hysteria_plan_ok:
  "list_all (plan_rule HYSTERIA_PORT_FORWARD_COMMENT) (plan_nat_rules (build_hysteria_port_forward_plan dbg infos))"
  "list_all (plan_allow HYSTERIA_PORT_FORWARD_COMMENT) (plan_allow_rules (build_hysteria_port_forward_plan dbg infos))"
  using hysteria_rules_plan [of dbg infos]
  by (auto simp: build_hysteria_port_forward_plan_def plan_allow_def list_all_iff split: prod.splits)

lemma mieru_plan_ok:
  "list_all (plan_rule MIERU_PORT_FORWARD_COMMENT) (plan_nat_rules (build_mieru_port_forward_plan dbg infos))"
  "list_all (plan_allow MIERU_PORT_FORWARD_COMMENT) (plan_allow_rules (build_mieru_port_forward_plan dbg infos))"
  using mieru_rules_plan [of dbg infos] allow_rules_loop_plan
  by (auto simp: build_mieru_port_forward_plan_def split: prod.splits)

lemma plan_comments [simp]:
  "plan_comment HYSTERIA_PORT_FORWARD_COMMENT" "plan_comment MIERU_PORT_FORWARD_COMMENT"
  by (simp_all add: plan_comment_def)

section \<open>Owned commands\<close>

text \<open>
  The commands the manager of a comment may run: adding or deleting a rule that carries the
  comment, and for Hysteria2 emptying and removing its own chain.
\<close>

lemma list_two_cases: "(xs = [] \<Longrightarrow> P) \<Longrightarrow> (\<And>x. xs = [x] \<Longrightarrow> P) \<Longrightarrow> (\<And>x y ys. xs = x # y # ys \<Longrightarrow> P) \<Longrightarrow> P"
  by (cases xs; cases "tl xs") auto

definition option_is :: "string \<Rightarrow> (string \<Rightarrow> bool) \<Rightarrow> string list \<Rightarrow> bool" where
  "option_is opt P args \<longleftrightarrow> list_ex (\<lambda>(name, val). name = opt \<and> P val) (zip args (tl args))"

definition has_comment :: "string \<Rightarrow> string list \<Rightarrow> bool" where
  "has_comment comment = option_is ''--comment'' (\<lambda>val. trim_matches is_quote val = comment)"

definition jumps_to :: "string \<Rightarrow> string list \<Rightarrow> bool" where
  "jumps_to target = option_is ''-j'' (\<lambda>val. val = target)"

definition owned_command :: "string \<Rightarrow> port_forward_command \<Rightarrow> bool" where
  "owned_command comment c =
     (case pc_args c of
        t # n # a # rest \<Rightarrow>
          t = ''-t'' \<and> n = ''nat'' \<and>
            ((a = ''-D'' \<or> a = ''-A'') \<and> take 1 rest = [''PREROUTING''] \<and>
               (has_comment comment (tl rest) \<or> comment = HYSTERIA_PORT_FORWARD_COMMENT \<and> jumps_to HYSTERIA_PORT_FORWARD_CHAIN (tl rest)) \<or>
             (a = ''-F'' \<or> a = ''-X'') \<and> comment = HYSTERIA_PORT_FORWARD_COMMENT \<and>
               rest = [HYSTERIA_PORT_FORWARD_CHAIN]) \<or>
          (t = ''-D'' \<or> t = ''-I'') \<and> n = ''INPUT'' \<and> has_comment comment (a # rest) \<and> jumps_to ''ACCEPT'' (a # rest)
      | _ \<Rightarrow> False)"

lemma rule_spec_owned:
  assumes "is_port_forward_rule_spec_with_comment flds c"
  shows "\<exists>rest. flds = ''-A'' # ''PREROUTING'' # rest \<and>
    (has_comment c rest \<or> c = HYSTERIA_PORT_FORWARD_COMMENT \<and> jumps_to HYSTERIA_PORT_FORWARD_CHAIN rest)"
  using assms by (cases flds rule: list_two_cases)
    (auto simp: is_port_forward_rule_spec_with_comment_def field_pairs_def has_comment_def jumps_to_def option_is_def list_ex_iff drop_Suc)

lemma allow_spec_owned:
  assumes "is_firewall_allow_rule_spec_with_comment flds c"
  shows "\<exists>rest. flds = ''-A'' # ''INPUT'' # rest \<and> rest \<noteq> [] \<and> has_comment c rest \<and> jumps_to ''ACCEPT'' rest"
  using assms by (cases flds rule: list_two_cases)
    (auto simp: is_firewall_allow_rule_spec_with_comment_def field_pairs_def has_comment_def jumps_to_def option_is_def drop_Suc)

lemma delete_rule_owned:
  assumes "is_port_forward_rule_spec_with_comment flds c"
  shows "owned_command c (command tool ([''-t'', ''nat''] @ flds[0 := ''-D'']))"
  using rule_spec_owned [OF assms] by (auto simp: owned_command_def command_def)

lemma delete_allow_owned:
  assumes "is_firewall_allow_rule_spec_with_comment flds c"
  shows "owned_command c (command tool (flds[0 := ''-D'']))"
  using allow_spec_owned [OF assms] by (auto simp: owned_command_def command_def neq_Nil_conv)

lemma add_rule_owned:
  assumes "plan_comment c" "plan_rule c r"
  shows "owned_command c (add_rule_command tool r)"
  using rule_spec_owned [OF listed_managed(1) [OF assms, of False]]
  by (simp add: owned_command_def add_rule_command_def command_def listed_rule_def implicit_match_def)

lemma add_allow_owned:
  assumes "plan_comment c" "plan_allow c a"
  shows "owned_command c (add_allow_command tool a)"
  using allow_spec_owned [OF listed_managed(2) [OF assms, of False]]
  by (simp add: owned_command_def add_allow_command_def command_def listed_allow_def implicit_match_def)

lemma chain_commands_owned: "list_all (owned_command HYSTERIA_PORT_FORWARD_COMMENT) (chain_commands tool b)"
  by (simp add: chain_commands_def owned_command_def command_def)

lemma delete_commands_owned:
  "list_all (owned_command c) (delete_port_forward_commands_with_comment tool s c)"
  "list_all (owned_command c) (delete_firewall_allow_commands_with_comment tool s c)"
  using delete_rule_owned delete_allow_owned
  by (auto simp: delete_port_forward_commands_with_comment_def delete_firewall_allow_commands_with_comment_def
      list_all_iff simp del: append.simps)

lemma add_commands_owned:
  assumes "plan_comment c" "list_all (plan_rule c) rules" "list_all (plan_allow c) allows"
  shows "list_all (owned_command c) (map (add_rule_command tool) rules @ map (add_allow_command tool) allows)"
  using assms add_rule_owned [OF assms(1)] add_allow_owned [OF assms(1)] by (auto simp: list_all_iff)

lemma reconcile_owned:
  assumes "list_all (plan_rule HYSTERIA_PORT_FORWARD_COMMENT) rules"
    "list_all (plan_allow HYSTERIA_PORT_FORWARD_COMMENT) allows"
  shows "list_all (owned_command HYSTERIA_PORT_FORWARD_COMMENT)
    (reconcile_port_forward_commands_with_allow_ports tool rules allows s t b)"
  using add_commands_owned [OF _ assms, of tool] delete_commands_owned chain_commands_owned
  by (simp add: reconcile_port_forward_commands_with_allow_ports_def delete_port_forward_commands_def
      delete_firewall_allow_commands_def)

lemma cleanup_owned:
  "list_all (owned_command HYSTERIA_PORT_FORWARD_COMMENT) (cleanup_port_forward_commands_with_filter tool s t b)"
  using delete_commands_owned chain_commands_owned
  by (simp add: cleanup_port_forward_commands_with_filter_def delete_port_forward_commands_def
      delete_firewall_allow_commands_def)

lemma reconcile_for_comment_owned:
  assumes "plan_comment c" "list_all (plan_rule c) rules" "list_all (plan_allow c) allows"
  shows "list_all (owned_command c) (reconcile_port_forward_commands_for_comment tool rules allows s t c)"
  using add_commands_owned [OF assms, of tool] delete_commands_owned
  by (simp add: reconcile_port_forward_commands_for_comment_def)

section \<open>What an operation does to its executor\<close>

text \<open>
  The contract of a client of the executor: a property of the executor state that queries
  keep, and that every command the client may run keeps.
\<close>

locale executor_client =
  fixes ex :: "'x port_forward_executor" and P :: "'x \<Rightarrow> bool" and may_run :: "port_forward_command \<Rightarrow> bool"
  assumes available_keeps: "P x \<Longrightarrow> P (snd (is_tool_available ex x tool))"
    and output_keeps: "P x \<Longrightarrow> P (snd (command_output ex x c))"
    and run_keeps: "P x \<Longrightarrow> may_run c \<Longrightarrow> P (snd (run_command ex x c))"
begin

lemma execute_keeps:
  "list_all may_run cs \<Longrightarrow> P x \<Longrightarrow> P (snd (execute_port_forward_commands ex cs x))"
proof (induction cs arbitrary: x)
  case (Cons c cs)
  obtain r x' where r: "run_command ex x c = (r, x')" by fastforce
  with run_keeps [OF Cons.prems(2), of c] Cons show ?case by (cases r) auto
qed simp

lemma inspect_keeps:
  assumes "P x"
  shows "P (snd (inspect_port_forward_tool_with_allow_rules ex tool rules allows x))"
    "P (snd (inspect_port_forward_tool_with_comment ex tool rules allows comment x))"
proof -
  obtain a x1 where 1: "is_tool_available ex x tool = (a, x1)" by fastforce
  obtain p x2 where 2: "command_output ex x1 (prerouting_command tool) = (p, x2)" by fastforce
  obtain i x3 where 3: "command_output ex x2 (input_command tool) = (i, x3)" by fastforce
  obtain ch x4 where 4: "command_output ex x3 (chain_command tool) = (ch, x4)" by fastforce
  have "P x1" using available_keeps [OF assms, of tool] 1 by simp
  moreover from this have "P x2" using output_keeps 2 by (metis snd_conv)
  moreover from this have "P x3" using output_keeps 3 by (metis snd_conv)
  moreover from this have "P x4" using output_keeps 4 by (metis snd_conv)
  ultimately show "P (snd (inspect_port_forward_tool_with_allow_rules ex tool rules allows x))"
    "P (snd (inspect_port_forward_tool_with_comment ex tool rules allows comment x))"
    using 1 2 3 4
    by (auto simp: inspect_port_forward_tool_with_allow_rules_def inspect_port_forward_tool_with_comment_def Let_def
        split: sum.splits)
qed

lemma inspect_tools_keeps:
  assumes "\<And>tool x. P x \<Longrightarrow> P (snd (inspect tool x))" "P x"
  shows "P (snd (inspect_tools inspect tools status x))"
  using assms(2)
proof (induction tools arbitrary: status x)
  case (Cons tool tools)
  obtain t x' where "inspect tool x = (t, x')" by fastforce
  with assms(1) [OF Cons.prems, of tool] Cons.IH show ?case by simp
qed simp

lemma apply_tools_keeps:
  assumes i: "\<And>tool x. P x \<Longrightarrow> P (snd (inspect tool x))" and a: "\<And>tool x. P x \<Longrightarrow> P (snd (act tool x))" and "P x"
  shows "P (snd (apply_tools inspect due act tools status x))"
  using assms(3)
proof (induction tools arbitrary: status x)
  case (Cons tool tools)
  obtain t x1 where 1: "inspect tool x = (t, x1)" by fastforce
  obtain r x2 where 2: "act tool x1 = (r, x2)" by fastforce
  obtain t' x3 where 3: "inspect tool x2 = (t', x3)" by fastforce
  have "P x1" using i [OF Cons.prems, of tool] 1 by simp
  moreover from this have "P x2" using a 2 by (metis snd_conv)
  moreover from this have "P x3" using i 3 by (metis snd_conv)
  ultimately show ?case using 1 2 3 Cons.IH by (cases r) simp_all
qed simp

lemma execute_reconcile_keeps:
  assumes "\<And>s t b. list_all may_run (reconcile_port_forward_commands_with_allow_ports tool rules allows s t b)" "P x"
  shows "P (snd (execute_reconcile_port_forward_tool ex tool rules allows x))"
  using assms execute_keeps output_keeps
  by (simp add: execute_reconcile_port_forward_tool_def Let_def split: prod.splits) (metis snd_conv)

lemma execute_cleanup_keeps:
  assumes "\<And>s t b. list_all may_run (cleanup_port_forward_commands_with_filter tool s t b)" "P x"
  shows "P (snd (execute_cleanup_port_forward_tool ex tool x))"
  using assms execute_keeps output_keeps
  by (simp add: execute_cleanup_port_forward_tool_def Let_def split: prod.splits) (metis snd_conv)

lemma execute_mieru_keeps:
  assumes "\<And>s t. list_all may_run (reconcile_port_forward_commands_for_comment tool rules allows s t
      MIERU_PORT_FORWARD_COMMENT)" "P x"
  shows "P (snd (execute_mieru_port_forward_tool ex tool rules allows x))"
  using assms execute_keeps output_keeps
  by (simp add: execute_mieru_port_forward_tool_def Let_def split: prod.splits) (metis snd_conv)

end

text \<open>An executor that also records the commands that are run.\<close>

definition logging :: "'x port_forward_executor \<Rightarrow> ('x \<times> port_forward_command list) port_forward_executor" where
  "logging ex =
     \<lparr>is_tool_available = (\<lambda>(x, l) tool. let (r, x') = is_tool_available ex x tool in (r, (x', l))),
      command_output = (\<lambda>(x, l) c. let (r, x') = command_output ex x c in (r, (x', l))),
      run_command = (\<lambda>(x, l) c. let (r, x') = run_command ex x c in (r, (x', l @ [c]))),
      running_as_root = (\<lambda>(x, l). running_as_root ex x)\<rparr>"

abbreviation log_of :: "'s \<times> 'x \<times> port_forward_command list \<Rightarrow> port_forward_command list" where
  "log_of r \<equiv> snd (snd r)"

interpretation logged: executor_client "logging ex" "\<lambda>x. list_all may_run (snd x)" may_run
  for ex :: "'x port_forward_executor" and may_run
  by unfold_locales (auto simp: logging_def Let_def split: prod.splits)

lemma inspect_tools_grows: "set (pst_tools status) \<subseteq> set (pst_tools (fst (inspect_tools inspect tools status x)))"
proof (induction tools arbitrary: status x)
  case (Cons tool tools)
  obtain t x' where "inspect tool x = (t, x')" by fastforce
  with Cons.IH [of "push_tool t status" x'] show ?case by (simp add: push_tool_def)
qed simp

lemma apply_tools_idle:
  "\<forall>t \<in> set (pst_tools (fst (inspect_tools inspect tools status x))). \<not> (tst_available t \<and> due t) \<Longrightarrow>
   apply_tools inspect due act tools status x = inspect_tools inspect tools status x"
proof (induction tools arbitrary: status x)
  case (Cons tool tools)
  obtain t x' where t: "inspect tool x = (t, x')" by fastforce
  have "t \<in> set (pst_tools (fst (inspect_tools inspect tools (push_tool t status) x')))"
    using inspect_tools_grows [of "push_tool t status" inspect tools x'] by (simp add: push_tool_def)
  with Cons.prems t have "\<not> (tst_available t \<and> due t)" by simp
  moreover have "apply_tools inspect due act tools (push_tool t status) x' = inspect_tools inspect tools (push_tool t status) x'"
    using Cons.IH [of "push_tool t status" x'] Cons.prems t by simp
  ultimately show ?case using t by auto
qed simp

lemma inspect_port_forward_tool_eq:
  "inspect_port_forward_tool ex tool rules = inspect_port_forward_tool_with_allow_rules ex tool rules []"
  by (simp add: fun_eq_iff inspect_port_forward_tool_def)

lemma root_status [simp]:
  "pst_running_as_root (new_hysteria_port_forward_status_from_plan plan b) = b"
  "pst_running_as_root (new_mieru_port_forward_status_from_plan plan b) = b"
  "pst_running_as_root (set_hysteria_port_forward_disabled b) = b"
  "running_as_root (logging ex) (x, l) = running_as_root ex x"
  by (simp_all add: new_hysteria_port_forward_status_from_plan_def new_mieru_port_forward_status_from_plan_def
      set_hysteria_port_forward_disabled_def logging_def)

text \<open>An executor on a machine without either tool, on which the properties are evaluated.\<close>

definition idle_executor :: "unit port_forward_executor" where
  "idle_executor =
     \<lparr>is_tool_available = (\<lambda>x _. (False, x)), command_output = (\<lambda>x _. (Err ''no tool'', x)),
      run_command = (\<lambda>x _. (Err ''no tool'', x)), running_as_root = (\<lambda>_. False)\<rparr>"

section \<open>Properties\<close>

text \<open>
  inspecting a table that holds exactly the rules of the plan, listed with or without the
  implicit protocol match and among any foreign lines, reports them as the expected ones and
  nothing missing or extra: a repaired table does not ask for another repair.
\<close>

lemma inspect_installed_clean:
  assumes "list_all (plan_rule c) rules" "list_all (plan_allow c) allows" "plan_comment c"
    and "list_all plain_line fp" "list_all (\<lambda>f. \<not> is_port_forward_rule_spec_with_comment f c) fp"
    and "list_all plain_line fi" "list_all (\<lambda>f. \<not> is_firewall_allow_rule_spec_with_comment f c) fi"
  shows "let t = inspect_managed_specs_with_comment tool rules allows
      (print_lines (fp @ map (listed_rule b) rules)) (print_lines (fi @ map (listed_allow b) allows)) False c
    in tst_current t = tst_expected t \<and> tst_missing t = [] \<and> tst_extra t = [] \<and> \<not> tool_needs_repair t"
proof -
  define t where "t = inspect_managed_specs_with_comment tool rules allows
      (print_lines (fp @ map (listed_rule b) rules)) (print_lines (fi @ map (listed_allow b) allows)) False c"
  have cur: "tst_current t = expected_hysteria_managed_specs rules allows"
    unfolding t_def by (rule inspect_installed [OF assms(3,1,2,4-7)])
  have e: "tst_expected t = expected_hysteria_managed_specs rules allows"
    and mi: "tst_missing t = map snd (filter (\<lambda>(key, _). \<not> bt_contains_key (keyed_specs (tst_current t)) key)
        (keyed_specs (tst_expected t)))"
    and ex: "tst_extra t = map snd (filter (\<lambda>(key, _). \<not> bt_contains_key (keyed_specs (tst_expected t)) key)
        (keyed_specs (tst_current t)))"
    and st: "\<not> tst_stale_chain t"
    unfolding t_def inspect_managed_specs_with_comment_def by (simp_all add: Let_def)
  have "tst_missing t = []" "tst_extra t = []"
    unfolding mi ex using inspect_same_specs cur e by metis+
  with cur e st have "tst_current t = tst_expected t \<and> tst_missing t = [] \<and> tst_extra t = [] \<and> \<not> tool_needs_repair t"
    by (simp add: tool_needs_repair_def)
  then show ?thesis unfolding Let_def t_def [symmetric] .
qed

lemma inspect_installed_clean_witness:
  "\<exists>r a. plan_rule MIERU_PORT_FORWARD_COMMENT r \<and> plan_allow MIERU_PORT_FORWARD_COMMENT a \<and>
     \<not> tool_needs_repair (inspect_managed_specs_with_comment ''iptables'' [r] [a]
       (print_lines ([[''-P'', ''PREROUTING'', ''ACCEPT'']] @ map (listed_rule True) [r]))
       (print_lines ([[''-P'', ''INPUT'', ''ACCEPT'']] @ map (listed_allow True) [a])) False MIERU_PORT_FORWARD_COMMENT)"
proof -
  let ?r = "\<lparr>pr_matcher = range_matcher 100 200, pr_target_port = 443, pr_protocol = ''tcp'',
     pr_comment = MIERU_PORT_FORWARD_COMMENT\<rparr>"
  let ?a = "\<lparr>fa_protocol = ''tcp'', fa_port = 443, fa_comment = MIERU_PORT_FORWARD_COMMENT\<rparr>"
  have r: "plan_rule MIERU_PORT_FORWARD_COMMENT ?r" "plan_allow MIERU_PORT_FORWARD_COMMENT ?a"
    by (auto simp: plan_rule_def plan_allow_def plan_matcher_def)
  have f: "list_all plain_line [[''-P'', ''PREROUTING'', ''ACCEPT'']]" "list_all plain_line [[''-P'', ''INPUT'', ''ACCEPT'']]"
    "list_all (\<lambda>f. \<not> is_port_forward_rule_spec_with_comment f MIERU_PORT_FORWARD_COMMENT) [[''-P'', ''PREROUTING'', ''ACCEPT'']]"
    "list_all (\<lambda>f. \<not> is_firewall_allow_rule_spec_with_comment f MIERU_PORT_FORWARD_COMMENT) [[''-P'', ''INPUT'', ''ACCEPT'']]"
    by (simp_all add: plain_line_def is_port_forward_rule_spec_with_comment_def
        is_firewall_allow_rule_spec_with_comment_def) (simp_all add: plain_field_def plain_char_def is_ws1_def is_quote_def char_code_def)
  from inspect_installed_clean [of MIERU_PORT_FORWARD_COMMENT "[?r]" "[?a]", OF _ _ _ f(1,3,2,4), of "''iptables''" True] r
  show ?thesis unfolding Let_def by (intro exI [of _ ?r] exI [of _ ?a]) simp
qed

text \<open>
  the rules a plan contains are such rules: the Hysteria2 plan carries the Hysteria2
  comment on every redirect and allow rule, the Mieru plan the Mieru comment, and every
  matcher is a port, a range or a multiport list.
\<close>

lemma plans_well_formed:
  "list_all (plan_rule HYSTERIA_PORT_FORWARD_COMMENT) (plan_nat_rules (build_hysteria_port_forward_plan dbg infos)) \<and>
   list_all (plan_allow HYSTERIA_PORT_FORWARD_COMMENT) (plan_allow_rules (build_hysteria_port_forward_plan dbg infos)) \<and>
   list_all (plan_rule MIERU_PORT_FORWARD_COMMENT) (plan_nat_rules (build_mieru_port_forward_plan dbg infos)) \<and>
   list_all (plan_allow MIERU_PORT_FORWARD_COMMENT) (plan_allow_rules (build_mieru_port_forward_plan dbg infos))"
  using hysteria_plan_ok mieru_plan_ok by blast

text \<open>
  C2: whatever the tools answer, repairing or cleaning up Hysteria2 forwarding runs only
  commands that add or delete rules with its own comment or remove its own chain; foreign
  rules are never touched.
\<close>

theorem hysteria_commands_owned:
  "list_all (owned_command HYSTERIA_PORT_FORWARD_COMMENT)
     (log_of (repair_hysteria_port_forward dbg (logging ex) infos (x, []))) \<and>
   list_all (owned_command HYSTERIA_PORT_FORWARD_COMMENT) (log_of (cleanup_hysteria_port_forward (logging ex) (x, [])))"
proof
  let ?P = "\<lambda>x. list_all (owned_command HYSTERIA_PORT_FORWARD_COMMENT) (snd x)"
  let ?plan = "build_hysteria_port_forward_plan dbg infos"
  let ?i = "\<lambda>tool. inspect_port_forward_tool_with_allow_rules (logging ex) tool (plan_nat_rules ?plan) (plan_allow_rules ?plan)"
  have i: "?P y \<Longrightarrow> ?P (snd (?i tool y))" for tool y by (rule logged.inspect_keeps)
  have a: "?P y \<Longrightarrow> ?P (snd (execute_reconcile_port_forward_tool (logging ex) tool (plan_nat_rules ?plan)
      (plan_allow_rules ?plan) y))" for tool y
    by (rule logged.execute_reconcile_keeps) (rule reconcile_owned [OF hysteria_plan_ok])
  have "?P (snd (inspect_tools ?i tools status (x, [])))" for tools status
    by (rule logged.inspect_tools_keeps [OF i]) simp_all
  moreover have "?P (snd (apply_tools ?i tool_needs_repair
      (\<lambda>tool. execute_reconcile_port_forward_tool (logging ex) tool (plan_nat_rules ?plan) (plan_allow_rules ?plan))
      tools status (x, [])))" for tools status
    by (rule logged.apply_tools_keeps [OF i a]) simp_all
  ultimately show "?P (snd (repair_hysteria_port_forward dbg (logging ex) infos (x, [])))"
    by (auto simp: repair_hysteria_port_forward_def Let_def split: prod.splits) (metis snd_conv)
  let ?j = "\<lambda>tool. inspect_port_forward_tool_with_allow_rules (logging ex) tool [] []"
  have j: "?P y \<Longrightarrow> ?P (snd (?j tool y))" for tool y by (rule logged.inspect_keeps)
  have b: "?P y \<Longrightarrow> ?P (snd (execute_cleanup_port_forward_tool (logging ex) tool y))" for tool y
    by (rule logged.execute_cleanup_keeps) (rule cleanup_owned)
  have "?P (snd (inspect_tools ?j tools status (x, [])))" for tools status
    by (rule logged.inspect_tools_keeps [OF j]) simp_all
  moreover have "?P (snd (apply_tools ?j due (execute_cleanup_port_forward_tool (logging ex)) tools status (x, [])))"
    for tools status due
    by (rule logged.apply_tools_keeps [OF j b]) simp_all
  ultimately show "?P (snd (cleanup_hysteria_port_forward (logging ex) (x, [])))"
    by (simp add: cleanup_hysteria_port_forward_def inspect_port_forward_tool_eq Let_def)
qed

text \<open>
  whatever the tools answer, repairing Mieru forwarding runs only commands that add or
  delete rules with the Mieru comment, never those of Hysteria2 or of anyone else.
\<close>

lemma mieru_commands_owned:
  "list_all (owned_command MIERU_PORT_FORWARD_COMMENT)
     (log_of (repair_mieru_port_forward dbg (logging ex) infos (x, [])))"
proof -
  let ?P = "\<lambda>x. list_all (owned_command MIERU_PORT_FORWARD_COMMENT) (snd x)"
  let ?plan = "build_mieru_port_forward_plan dbg infos"
  let ?i = "\<lambda>tool. inspect_port_forward_tool_with_comment (logging ex) tool (plan_nat_rules ?plan)
    (plan_allow_rules ?plan) MIERU_PORT_FORWARD_COMMENT"
  have i: "?P y \<Longrightarrow> ?P (snd (?i tool y))" for tool y by (rule logged.inspect_keeps)
  have a: "?P y \<Longrightarrow> ?P (snd (execute_mieru_port_forward_tool (logging ex) tool (plan_nat_rules ?plan)
      (plan_allow_rules ?plan) y))" for tool y
    by (rule logged.execute_mieru_keeps) (rule reconcile_for_comment_owned [OF _ mieru_plan_ok], simp)
  have "?P (snd (inspect_tools ?i tools status (x, [])))" for tools status
    by (rule logged.inspect_tools_keeps [OF i]) simp_all
  moreover have "?P (snd (apply_tools ?i tool_needs_repair
      (\<lambda>tool. execute_mieru_port_forward_tool (logging ex) tool (plan_nat_rules ?plan) (plan_allow_rules ?plan))
      tools status (x, [])))" for tools status
    by (rule logged.apply_tools_keeps [OF i a]) simp_all
  ultimately show ?thesis
    by (auto simp: repair_mieru_port_forward_def Let_def split: prod.splits) (metis snd_conv)
qed

text \<open>
  without root, repair and cleanup run no command at all, and inspecting never does.
\<close>

lemma port_forward_read_only:
  "log_of (inspect_hysteria_port_forward dbg (logging ex) infos (x, [])) = [] \<and>
   log_of (inspect_mieru_port_forward dbg (logging ex) infos (x, [])) = [] \<and>
   (\<not> running_as_root ex x \<longrightarrow>
     log_of (repair_hysteria_port_forward dbg (logging ex) infos (x, [])) = [] \<and>
     log_of (repair_mieru_port_forward dbg (logging ex) infos (x, [])) = [] \<and>
     log_of (cleanup_hysteria_port_forward (logging ex) (x, [])) = [])"
proof -
  have nil: "list_all (\<lambda>_. False) l \<longleftrightarrow> l = []" for l :: "port_forward_command list" by (cases l) simp_all
  have 1: "log_of (inspect_tools (\<lambda>tool. inspect_port_forward_tool_with_allow_rules (logging ex) tool rules allows)
      tools status (x, [])) = []" for rules allows tools status
    by (rule logged.inspect_tools_keeps [where may_run = "\<lambda>_. False", unfolded nil, OF
          logged.inspect_keeps(1) [where may_run = "\<lambda>_. False", unfolded nil]]) simp_all
  have 2: "log_of (inspect_tools (\<lambda>tool. inspect_port_forward_tool_with_comment (logging ex) tool rules allows c)
      tools status (x, [])) = []" for rules allows tools status c
    by (rule logged.inspect_tools_keeps [where may_run = "\<lambda>_. False", unfolded nil, OF
          logged.inspect_keeps(2) [where may_run = "\<lambda>_. False", unfolded nil]]) simp_all
  show ?thesis
    using 1 2
    by (simp add: inspect_hysteria_port_forward_def inspect_mieru_port_forward_def repair_hysteria_port_forward_def
        repair_mieru_port_forward_def cleanup_hysteria_port_forward_def inspect_port_forward_tool_eq Let_def
        split: prod.splits) (metis snd_conv)
qed

lemma port_forward_read_only_witness:
  "\<not> running_as_root idle_executor () \<and>
   log_of (repair_hysteria_port_forward (\<lambda>s. s) (logging idle_executor) (sample_nodes Hysteria2) ((), [])) = []"
proof -
  have "\<not> running_as_root idle_executor ()" by (simp add: idle_executor_def)
  then show ?thesis
    using port_forward_read_only [of "\<lambda>s. s" idle_executor "sample_nodes Hysteria2" "()"] by blast
qed

text \<open>
  repair leaves a healthy machine alone: when inspection finds nothing to repair, repair
  as root does exactly what inspection does, with the same report.
\<close>

lemma repair_when_clean:
  assumes "running_as_root ex x"
  shows "(\<not> hysteria_port_forward_needs_repair (fst (inspect_hysteria_port_forward dbg ex infos x)) \<longrightarrow>
      repair_hysteria_port_forward dbg ex infos x = inspect_hysteria_port_forward dbg ex infos x) \<and>
    (\<not> hysteria_port_forward_needs_repair (fst (inspect_mieru_port_forward dbg ex infos x)) \<longrightarrow>
      repair_mieru_port_forward dbg ex infos x = inspect_mieru_port_forward dbg ex infos x)"
  using assms
  by (auto simp: hysteria_port_forward_needs_repair_def list_ex_iff repair_hysteria_port_forward_def
      inspect_hysteria_port_forward_def repair_mieru_port_forward_def inspect_mieru_port_forward_def Let_def
      intro!: apply_tools_idle)

lemma repair_when_clean_witness:
  "let ex = idle_executor\<lparr>running_as_root := (\<lambda>_. True)\<rparr> in running_as_root ex () \<and>
   \<not> hysteria_port_forward_needs_repair (fst (inspect_hysteria_port_forward (\<lambda>s. s) ex (sample_nodes Hysteria2) ())) \<and>
   repair_hysteria_port_forward (\<lambda>s. s) ex (sample_nodes Hysteria2) () =
     inspect_hysteria_port_forward (\<lambda>s. s) ex (sample_nodes Hysteria2) ()"
proof -
  let ?ex = "idle_executor\<lparr>running_as_root := (\<lambda>_. True)\<rparr>"
  have "\<not> hysteria_port_forward_needs_repair (fst (inspect_hysteria_port_forward (\<lambda>s. s) ?ex (sample_nodes Hysteria2) ()))"
    by (simp add: inspect_hysteria_port_forward_def HYSTERIA_PORT_FORWARD_TOOLS_def Let_def
        inspect_port_forward_tool_with_allow_rules_def tool_status_new_def idle_executor_def push_tool_def
        new_hysteria_port_forward_status_from_plan_def hysteria_port_forward_needs_repair_def tool_needs_repair_def)
  then show ?thesis
    using repair_when_clean [of ?ex "()" "\<lambda>s. s" "sample_nodes Hysteria2"] by (simp add: Let_def)
qed

end
