(* ===== verification/Realtime.thy ===== *)
theory Realtime
  imports Panel_Types
begin

text \<open>
  The realtime channel of \<open>src/src/realtime.rs\<close>: its messages, the resolution of its options
  from the local configuration and the panel, the classification of inbound messages, and the
  receipts. The \<open>Url\<close> type of the \<open>url\<close> crate is an argument: a record of its operations.
\<close>

section \<open>Data\<close>

record realtime_message =
  msg_type :: string
  msg_message :: string
  msg_event_id :: string
  msg_topic :: string
  msg_reason :: string
  msg_status :: string
  msg_revision :: int
  msg_ts :: int
  msg_server_id :: u32
  msg_token :: string
  msg_node_id :: string
  msg_machine_id :: u32
  msg_node_type :: string
  msg_health :: "json option"

definition message_default :: realtime_message where
  "message_default =
     \<lparr>msg_type = [], msg_message = [], msg_event_id = [], msg_topic = [], msg_reason = [], msg_status = [],
      msg_revision = 0, msg_ts = 0, msg_server_id = 0, msg_token = [], msg_node_id = [], msg_machine_id = 0,
      msg_node_type = [], msg_health = None\<rparr>"

text \<open>Durations are whole seconds.\<close>

record realtime_options =
  ro_url :: string
  ro_token :: string
  ro_node_id :: u32
  ro_machine_id :: u32
  ro_node_type :: string
  ro_ping_interval :: nat
  ro_reconnect_delay :: nat
  ro_log_tag :: string

record realtime_user_summary =
  rus_deleted :: nat
  rus_added :: nat
  rus_updated :: nat

datatype realtime_action =
    ActIgnore | ActPong | ActConfigCheck | ActForceReload | ActUserSync | ActError string | ActHelloAck

datatype realtime_task =
    TaskIgnore | TaskPong realtime_message | TaskConfigCheck | TaskForceReload | TaskUserSync
  | TaskError string | TaskHelloAck

definition REASON_SUBSCRIPTION_PROXY_CERT_STATE_CHANGED :: string where
  "REASON_SUBSCRIPTION_PROXY_CERT_STATE_CHANGED = ''subscription_proxy.cert_state_changed''"

definition REASON_SERVER_MACHINE_BOUND :: string where
  "REASON_SERVER_MACHINE_BOUND = ''admin.server_machine.bound''"

text \<open>The operations of \<open>url::Url\<close> that are used; a refused \<open>set_scheme\<close> leaves the URL as it is.\<close>

record 'u url_ops =
  url_parse :: "string \<Rightarrow> 'u result"
  url_scheme :: "'u \<Rightarrow> string"
  url_set_scheme :: "string \<Rightarrow> 'u \<Rightarrow> 'u"
  url_set_path :: "string \<Rightarrow> 'u \<Rightarrow> 'u"
  url_clear_query :: "'u \<Rightarrow> 'u"
  url_clear_fragment :: "'u \<Rightarrow> 'u"
  url_append_pair :: "string \<Rightarrow> string \<Rightarrow> 'u \<Rightarrow> 'u"
  url_to_string :: "'u \<Rightarrow> string"

section \<open>Options\<close>

definition realtime_options_default :: realtime_options where
  "realtime_options_default =
     \<lparr>ro_url = [], ro_token = [], ro_node_id = 0, ro_machine_id = 0, ro_node_type = ''v2node'',
      ro_ping_interval = 30, ro_reconnect_delay = 5, ro_log_tag = []\<rparr>"

fun realtime_interval_to_duration :: "json \<Rightarrow> nat" where
  "realtime_interval_to_duration (JNumber n) = unwrap_or 0 (as_u64 n)"
| "realtime_interval_to_duration (JString s) = unwrap_or 0 (parse_uint u64_max (trim s))"
| "realtime_interval_to_duration _ = 0"

definition derive_realtime_url :: "'u url_ops \<Rightarrow> string \<Rightarrow> string" where
  "derive_realtime_url ops api_host =
     (case url_parse ops (trim api_host) of
        Inl _ \<Rightarrow> []
      | Inr parsed \<Rightarrow>
          let parsed =
            (if url_scheme ops parsed = ''http'' then url_set_scheme ops ''ws'' parsed
             else if url_scheme ops parsed = ''https'' then url_set_scheme ops ''wss'' parsed
             else if url_scheme ops parsed = ''ws'' \<or> url_scheme ops parsed = ''wss'' then parsed
             else url_set_scheme ops ''ws'' parsed)
          in url_to_string ops (url_clear_fragment ops (url_clear_query ops (url_set_path ops ''/ws/node'' parsed))))"

definition resolve_realtime_options ::
  "'u url_ops \<Rightarrow> realtime_config \<Rightarrow> node_config \<Rightarrow> node_info \<Rightarrow> realtime_options option" where
  "resolve_realtime_options ops local node_config node_info =
     (let panel_realtime = Option.bind (cn_base_config (ni_common node_info)) bc_realtime;
          panel_enabled = (case panel_realtime of Some c \<Rightarrow> rb_enabled c | None \<Rightarrow> False);
          panel_url = (case panel_realtime of Some c \<Rightarrow> trim (rb_url c) | None \<Rightarrow> []);
          panel_ping = (case panel_realtime of Some c \<Rightarrow> realtime_interval_to_duration (rb_ping_interval c) | None \<Rightarrow> 0);
          url0 = trim (rt_url local);
          enabled = (rt_enabled local \<or> url0 \<noteq> [] \<or> panel_enabled)
      in if \<not> enabled then None
         else
           let url1 = (if url0 = [] then panel_url else url0);
               url = (if url1 = [] then derive_realtime_url ops (nc_url node_config) else url1)
           in if url = [] then None
              else
                let ping0 = (if rt_ping_interval local > 0 then unat (rt_ping_interval local) else panel_ping);
                    ping_interval = (if ping0 = 0 then 30 else ping0);
                    reconnect_delay =
                      (if rt_reconnect_interval local > 0 then unat (rt_reconnect_interval local) else 5)
                in Some \<lparr>ro_url = url, ro_token = trim (nc_token node_config), ro_node_id = nc_node_id node_config,
                         ro_machine_id = nc_machine_id node_config, ro_node_type = ''v2node'',
                         ro_ping_interval = ping_interval, ro_reconnect_delay = reconnect_delay,
                         ro_log_tag = ni_tag node_info\<rparr>)"

definition build_realtime_dial_url :: "'u url_ops \<Rightarrow> realtime_options \<Rightarrow> string result" where
  "build_realtime_dial_url ops options =
     (case url_parse ops (trim (ro_url options)) of
        Inl err \<Rightarrow> Err (''parse realtime url: '' @ err)
      | Inr parsed \<Rightarrow>
          let p1 = url_append_pair ops ''token'' (ro_token options) parsed;
              p2 = url_append_pair ops ''node_id'' (nat_to_string (unat (ro_node_id options))) p1;
              p3 = url_append_pair ops ''node_type'' (ro_node_type options) p2;
              p4 = (if ro_machine_id options > 0
                    then url_append_pair ops ''machine_id'' (nat_to_string (unat (ro_machine_id options))) p3 else p3)
          in Ok (url_to_string ops p4))"

section \<open>Messages\<close>

definition message_ping :: "realtime_options \<Rightarrow> int \<Rightarrow> json option \<Rightarrow> realtime_message" where
  "message_ping options ts health =
     message_default\<lparr>msg_type := ''ping'', msg_ts := ts, msg_token := ro_token options,
       msg_node_id := nat_to_string (unat (ro_node_id options)), msg_machine_id := ro_machine_id options,
       msg_node_type := ro_node_type options, msg_health := health\<rparr>"

definition message_pong :: "int \<Rightarrow> realtime_message" where
  "message_pong ts = message_default\<lparr>msg_type := ''pong'', msg_ts := ts\<rparr>"

definition should_force_realtime_config_reload :: "realtime_message \<Rightarrow> bool" where
  "should_force_realtime_config_reload message \<longleftrightarrow>
     msg_reason message = REASON_SUBSCRIPTION_PROXY_CERT_STATE_CHANGED \<or>
     msg_reason message = REASON_SERVER_MACHINE_BOUND"

definition realtime_invalidate_action :: "realtime_message \<Rightarrow> realtime_action" where
  "realtime_invalidate_action message =
     (if msg_topic message = ''config'' \<and> should_force_realtime_config_reload message then ActForceReload
      else if msg_topic message = ''config'' then ActConfigCheck
      else if msg_topic message = ''users'' then ActUserSync
      else ActIgnore)"

definition realtime_inbound_action :: "realtime_message \<Rightarrow> realtime_action" where
  "realtime_inbound_action message =
     (if msg_type message = ''hello_ack'' then ActHelloAck
      else if msg_type message = ''ping'' then ActPong
      else if msg_type message = ''error'' then ActError (msg_message message)
      else if msg_type message = ''invalidate'' then realtime_invalidate_action message
      else ActIgnore)"

definition realtime_runtime_task :: "realtime_message \<Rightarrow> int \<Rightarrow> realtime_task" where
  "realtime_runtime_task message now_ts =
     (case realtime_inbound_action message of
        ActIgnore \<Rightarrow> TaskIgnore
      | ActPong \<Rightarrow> TaskPong (message_pong now_ts)
      | ActConfigCheck \<Rightarrow> TaskConfigCheck
      | ActForceReload \<Rightarrow> TaskForceReload
      | ActUserSync \<Rightarrow> TaskUserSync
      | ActError e \<Rightarrow> TaskError e
      | ActHelloAck \<Rightarrow> TaskHelloAck)"

definition truncate_realtime_receipt_message :: "string \<Rightarrow> string" where
  "truncate_realtime_receipt_message message0 =
     (let message = trim message0
      in if char_count message \<le> 240 then message else take_chars 237 message @ ''...'')"

definition build_realtime_receipt ::
  "string \<Rightarrow> realtime_message \<Rightarrow> string \<Rightarrow> string \<Rightarrow> int \<Rightarrow> realtime_message" where
  "build_realtime_receipt topic source status message ts =
     message_default\<lparr>msg_type := ''receipt'', msg_topic := topic, msg_event_id := msg_event_id source,
       msg_reason := msg_reason source, msg_status := status,
       msg_message := truncate_realtime_receipt_message message, msg_ts := ts\<rparr>"

definition format_realtime_user_summary :: "realtime_user_summary \<Rightarrow> string" where
  "format_realtime_user_summary summary =
     ''deleted='' @ nat_to_string (rus_deleted summary) @ '' added='' @ nat_to_string (rus_added summary) @
     '' updated='' @ nat_to_string (rus_updated summary)"

section \<open>Lemmas\<close>

lemma receipt_message_bound: "char_count (truncate_realtime_receipt_message m) \<le> 240"
proof -
  have "char_count ''...'' = 3" by (simp add: char_count_def is_continuation_def char_code_def)
  then show ?thesis
    using char_count_take_chars [of 237 "trim m"] by (simp add: truncate_realtime_receipt_message_def Let_def)
qed

section \<open>Properties\<close>

text \<open>
  the channel is opened exactly when it is enabled locally, by a local URL or by the panel,
  and some URL is known; the options then have a URL, positive intervals, and the identity of
  the node.
\<close>

lemma resolve_realtime_options_usable:
  "(case resolve_realtime_options ops local nc ni of
      None \<Rightarrow>
        \<not> (rt_enabled local \<or> trim (rt_url local) \<noteq> [] \<or>
           (\<exists>b c. cn_base_config (ni_common ni) = Some b \<and> bc_realtime b = Some c \<and> rb_enabled c)) \<or>
        trim (rt_url local) = [] \<and> derive_realtime_url ops (nc_url nc) = []
    | Some ro \<Rightarrow>
        ro_url ro \<noteq> [] \<and> 0 < ro_ping_interval ro \<and> 0 < ro_reconnect_delay ro \<and>
        ro_node_id ro = nc_node_id nc \<and> ro_machine_id ro = nc_machine_id nc \<and> ro_log_tag ro = ni_tag ni \<and>
        (trim (rt_url local) \<noteq> [] \<longrightarrow> ro_url ro = trim (rt_url local)))"
  by (auto simp: resolve_realtime_options_def Let_def word_gt_0 unat_gt_0 Option.bind_eq_None_conv
      split: option.splits if_splits)

text \<open>
  a receipt message has at most 240 characters and is the trimmed text itself when that
  fits; receipts carry the event id and the reason of the message they answer.
\<close>

lemma realtime_receipt_bounded:
  "char_count (msg_message (build_realtime_receipt topic source status message ts)) \<le> 240 \<and>
   (char_count (trim message) \<le> 240 \<longrightarrow> msg_message (build_realtime_receipt topic source status message ts) = trim message) \<and>
   msg_event_id (build_realtime_receipt topic source status message ts) = msg_event_id source \<and>
   msg_reason (build_realtime_receipt topic source status message ts) = msg_reason source"
  using receipt_message_bound
  by (simp add: build_realtime_receipt_def truncate_realtime_receipt_message_def Let_def)

section \<open>Witnesses\<close>

text \<open>URLs as their text: enough of \<open>url::Url\<close> to evaluate the definitions.\<close>

definition text_urls :: "string url_ops" where
  "text_urls =
     \<lparr>url_parse = (\<lambda>s. if s = [] then Err ''relative URL without a base'' else Ok s),
      url_scheme = takeWhile (\<lambda>c. c \<noteq> CHR '':''), url_set_scheme = (\<lambda>v s. v @ dropWhile (\<lambda>c. c \<noteq> CHR '':'') s),
      url_set_path = (\<lambda>v s. s @ v), url_clear_query = id, url_clear_fragment = id,
      url_append_pair = (\<lambda>k v s. s @ ''&'' @ k @ ''='' @ v), url_to_string = id\<rparr>"

lemma resolve_realtime_options_usable_witness:
  "\<exists>ro. resolve_realtime_options text_urls
       \<lparr>rt_enabled = True, rt_url = '' wss://r '', rt_ping_interval = 0, rt_reconnect_interval = 0\<rparr>
       \<lparr>nc_url = ''https://p'', nc_token = ''t'', nc_node_id = 7, nc_machine_id = 0, nc_timeout = 0, nc_config_dir = []\<rparr>
       (sample_node Vless 7 443 []) = Some ro \<and> ro_url ro = ''wss://r'' \<and> 0 < ro_ping_interval ro"
proof -
  let ?l = "\<lparr>rt_enabled = True, rt_url = '' wss://r '', rt_ping_interval = 0, rt_reconnect_interval = 0\<rparr> :: realtime_config"
  let ?n = "\<lparr>nc_url = ''https://p'', nc_token = ''t'', nc_node_id = 7, nc_machine_id = 0, nc_timeout = 0, nc_config_dir = []\<rparr> :: node_config"
  have "trim (rt_url ?l) = ''wss://r''" by code_simp
  then show ?thesis
    using resolve_realtime_options_usable [where ops = text_urls and local = ?l and nc = ?n and ni = "sample_node Vless 7 443 []"]
    by (auto split: option.splits)
qed

lemma realtime_receipt_bounded_witness:
  "char_count (trim '' ok '') \<le> 240 \<and> msg_message (build_realtime_receipt ''users'' message_default ''done'' '' ok '' 1) = ''ok''"
proof -
  have "char_count (trim '' ok '') \<le> 240" "trim '' ok '' = ''ok''" by code_simp+
  then show ?thesis using realtime_receipt_bounded [where topic = "''users''" and source = message_default and status = "''done''" and message = "'' ok ''" and ts = 1] by simp
qed

end
