(* ===== verification/Node_Manager.thy ===== *)
theory Node_Manager
  imports Panel_Types User_Sync
begin

text \<open>
  The node manager of \<open>src/src/node.rs\<close>: the running nodes of an agent, built from their
  configurations and reconciled with a changed set of configurations. What fetches the node
  information from the panel is an argument (\<open>load\<close>, a closure with a state of its own), as in
  \<open>build_with_loader\<close> and \<open>reconcile_with_loader\<close>; the panel-backed variant runs the same loop.
\<close>

section \<open>Data\<close>

record node_manager_options =
  nmo_continue_on_error :: bool

record node_runtime =
  nr_config :: node_config
  nr_info :: node_info

record node_failure =
  nf_config :: node_config
  nf_error :: string

record node_user_set =
  nus_api_host :: string
  nus_node_id :: u32
  nus_machine_id :: u32
  nus_tag :: string
  nus_users :: "user_info list"

record node_activity_target =
  nat_tag :: string
  nat_config :: node_config

record reconcile_result =
  rr_added :: nat
  rr_removed :: nat
  rr_restarted :: nat
  rr_unchanged :: nat
  rr_skipped :: nat
  rr_full_reload_required :: bool
  rr_failures :: "node_failure list"

record node_manager =
  nm_runtimes :: "node_runtime list"
  nm_failures :: "node_failure list"
  nm_realtime :: realtime_config
  nm_continue_on_error :: bool

type_synonym 'l node_loader = "'l \<Rightarrow> node_config \<Rightarrow> node_info option result \<times> 'l"

definition reconcile_result_default :: reconcile_result where
  "reconcile_result_default =
     \<lparr>rr_added = 0, rr_removed = 0, rr_restarted = 0, rr_unchanged = 0, rr_skipped = 0,
      rr_full_reload_required = False, rr_failures = []\<rparr>"

section \<open>Helpers\<close>

definition node_key :: "node_config \<Rightarrow> string" where
  "node_key config =
     (let api_host = trim_end_matches is_slash (trim (nc_url config))
      in if api_host = [] \<or> nc_node_id config = 0 then []
         else api_host @ ''#'' @ nat_to_string (unat (nc_node_id config)))"

definition format_node_error :: "string \<Rightarrow> node_config \<Rightarrow> string \<Rightarrow> string" where
  "format_node_error act config error =
     act @ '' ['' @ trim_end_matches is_slash (nc_url config) @ ''-'' @
     nat_to_string (unat (nc_node_id config)) @ ''] error: '' @ error"

definition record_failure :: "node_config \<Rightarrow> string \<Rightarrow> node_manager \<Rightarrow> node_manager" where
  "record_failure config error m = m\<lparr>nm_failures := nm_failures m @ [\<lparr>nf_config = config, nf_error = error\<rparr>]\<rparr>"

definition node_has_custom_routes :: "node_info \<Rightarrow> bool" where
  "node_has_custom_routes info \<longleftrightarrow> cn_routes (ni_common info) \<noteq> []"

definition node_user_set_of :: "node_config \<Rightarrow> node_info \<Rightarrow> user_info list \<Rightarrow> node_user_set" where
  "node_user_set_of config info users =
     \<lparr>nus_api_host = trim_end_matches is_slash (nc_url config), nus_node_id = nc_node_id config,
      nus_machine_id = nc_machine_id config, nus_tag = ni_tag info, nus_users = users\<rparr>"

definition users_by_node_tag :: "node_user_set list \<Rightarrow> (string, user_info list) btmap" where
  "users_by_node_tag sets = bt_collect (map (\<lambda>s. (nus_tag s, nus_users s)) sets)"

definition active_configs :: "node_manager \<Rightarrow> node_config list" where
  "active_configs m = map nr_config (nm_runtimes m)"

definition node_infos :: "node_manager \<Rightarrow> node_info list" where
  "node_infos m = map nr_info (nm_runtimes m)"

definition activity_targets :: "node_manager \<Rightarrow> node_activity_target list" where
  "activity_targets m = map (\<lambda>r. \<lparr>nat_tag = ni_tag (nr_info r), nat_config = nr_config r\<rparr>) (nm_runtimes m)"

text \<open>\<open>load_user_sets_with_loader\<close>: stops at the first node whose users cannot be loaded.\<close>

fun load_user_sets_loop ::
  "('l \<Rightarrow> node_config \<Rightarrow> user_info list result \<times> 'l) \<Rightarrow> node_runtime list \<Rightarrow> 'l \<Rightarrow> node_user_set list \<Rightarrow>
     node_user_set list result \<times> 'l" where
  "load_user_sets_loop load [] l sets = (Ok sets, l)"
| "load_user_sets_loop load (r # rs) l sets =
     (case load l (nr_config r) of
        (Inl err, l') \<Rightarrow> (Err (format_node_error ''get user list'' (nr_config r) err), l')
      | (Inr users, l') \<Rightarrow>
          load_user_sets_loop load rs l' (sets @ [node_user_set_of (nr_config r) (nr_info r) users]))"

definition load_user_sets_with_loader ::
  "('l \<Rightarrow> node_config \<Rightarrow> user_info list result \<times> 'l) \<Rightarrow> node_manager \<Rightarrow> 'l \<Rightarrow> node_user_set list result \<times> 'l" where
  "load_user_sets_with_loader load m l = load_user_sets_loop load (nm_runtimes m) l []"

section \<open>Building\<close>

fun build_loop ::
  "'l node_loader \<Rightarrow> bool \<Rightarrow> node_config list \<Rightarrow> 'l \<Rightarrow> node_manager \<Rightarrow> node_manager result \<times> 'l" where
  "build_loop load cont [] l m = (Ok m, l)"
| "build_loop load cont (config # configs) l m =
     (case load l config of
        (Inr (Some info), l') \<Rightarrow>
          build_loop load cont configs l'
            (m\<lparr>nm_runtimes := nm_runtimes m @ [\<lparr>nr_config = config, nr_info = info\<rparr>]\<rparr>)
      | (Inr None, l') \<Rightarrow>
          if \<not> cont then (Err (format_node_error ''get node info'' config ''received empty node info''), l')
          else build_loop load cont configs l' (record_failure config ''received empty node info'' m)
      | (Inl error, l') \<Rightarrow>
          if \<not> cont then (Err (format_node_error ''get node info'' config error), l')
          else build_loop load cont configs l' (record_failure config error m))"

definition build_with_loader ::
  "'l node_loader \<Rightarrow> node_config list \<Rightarrow> realtime_config \<Rightarrow> node_manager_options \<Rightarrow> 'l \<Rightarrow> node_manager result \<times> 'l" where
  "build_with_loader load nodes rt options l =
     build_loop load (nmo_continue_on_error options) nodes l
       \<lparr>nm_runtimes = [], nm_failures = [], nm_realtime = rt,
        nm_continue_on_error = nmo_continue_on_error options\<rparr>"

section \<open>Reconciling\<close>

text \<open>\<open>current_slots\<close>; the rendering \<open>{:?}\<close> of a configuration is the argument \<open>dbg\<close>.\<close>

fun current_slots_loop ::
  "(node_config \<Rightarrow> string) \<Rightarrow> node_runtime list \<Rightarrow> (string, node_runtime) btmap \<Rightarrow> (string, node_runtime) btmap result" where
  "current_slots_loop dbg [] current = Ok current"
| "current_slots_loop dbg (r # rs) current =
     (let key = node_key (nr_config r)
      in if key = [] then Err (''current node config requires api host and node id: '' @ dbg (nr_config r))
         else if bt_contains_key current key then Err (''duplicate current node config: '' @ key)
         else current_slots_loop dbg rs (bt_insert key r current))"

definition current_slots :: "(node_config \<Rightarrow> string) \<Rightarrow> node_manager \<Rightarrow> (string, node_runtime) btmap result" where
  "current_slots dbg m = current_slots_loop dbg (nm_runtimes m) []"

definition handle_reconcile_failure ::
  "reconcile_result \<Rightarrow> node_config \<Rightarrow> string \<Rightarrow> bool \<Rightarrow> reconcile_result result" where
  "handle_reconcile_failure r config error cont =
     (if cont then Ok (r\<lparr>rr_skipped := rr_skipped r + 1,
        rr_failures := rr_failures r @ [\<lparr>nf_config = config, nf_error = error\<rparr>]\<rparr>)
      else Err error)"

record reconcile_state =
  rs_result :: reconcile_result
  rs_desired_keys :: "string btset"
  rs_candidates :: "(string, node_runtime) btmap"
  rs_ordered_keys :: "string list"

text \<open>One desired configuration.\<close>

definition reconcile_desired ::
  "'l node_loader \<Rightarrow> bool \<Rightarrow> (string, node_runtime) btmap \<Rightarrow> node_config \<Rightarrow> reconcile_state \<Rightarrow> 'l \<Rightarrow>
     reconcile_state result \<times> 'l" where
  "reconcile_desired load cont current config st l =
     (let key = node_key config;
          fail = (\<lambda>st error. map_ok (\<lambda>r. st\<lparr>rs_result := r\<rparr>) (handle_reconcile_failure (rs_result st) config error cont))
      in if key = [] then (fail st ''node config requires api host and node id'', l)
         else if bs_contains (rs_desired_keys st) key then (fail st (''duplicate node config: '' @ key), l)
         else
           let st1 = st\<lparr>rs_desired_keys := bs_insert key (rs_desired_keys st),
                 rs_ordered_keys := rs_ordered_keys st @ [key]\<rparr>
           in case load l config of
                (Inr (Some info), l') \<Rightarrow>
                  (Ok (st1\<lparr>rs_candidates := bt_insert key \<lparr>nr_config = config, nr_info = info\<rparr> (rs_candidates st1)\<rparr>), l')
              | (Inr None, l') \<Rightarrow>
                  if bt_contains_key current key
                  then (Ok (st1\<lparr>rs_result := (rs_result st1)\<lparr>rr_skipped := rr_skipped (rs_result st1) + 1\<rparr>\<rparr>), l')
                  else (fail st1 ''received empty node info'', l')
              | (Inl error, l') \<Rightarrow> (fail st1 error, l'))"

fun reconcile_loop ::
  "'l node_loader \<Rightarrow> bool \<Rightarrow> (string, node_runtime) btmap \<Rightarrow> node_config list \<Rightarrow> reconcile_state \<Rightarrow> 'l \<Rightarrow>
     reconcile_state result \<times> 'l" where
  "reconcile_loop load cont current [] st l = (Ok st, l)"
| "reconcile_loop load cont current (config # configs) st l =
     (case reconcile_desired load cont current config st l of
        (Inl e, l') \<Rightarrow> (Err e, l')
      | (Inr st', l') \<Rightarrow> reconcile_loop load cont current configs st' l')"

definition machine_reconcile_needs_full_reload ::
  "(string, node_runtime) btmap \<Rightarrow> string btset \<Rightarrow> (string, node_runtime) btmap \<Rightarrow> bool" where
  "machine_reconcile_needs_full_reload current desired_keys candidates \<longleftrightarrow>
     list_ex (\<lambda>(key, slot). \<not> bs_contains desired_keys key \<and> node_has_custom_routes (nr_info slot)) current \<or>
     list_ex (\<lambda>(key, candidate).
         case bt_get current key of
           None \<Rightarrow> node_has_custom_routes (nr_info candidate)
         | Some slot \<Rightarrow> slot \<noteq> candidate \<and>
             (node_has_custom_routes (nr_info slot) \<or> node_has_custom_routes (nr_info candidate)))
       candidates"

text \<open>The final loop over the desired keys, in their order.\<close>

fun next_runtimes ::
  "(string, node_runtime) btmap \<Rightarrow> (string, node_runtime) btmap \<Rightarrow> string list \<Rightarrow> node_runtime list \<Rightarrow> reconcile_result \<Rightarrow>
     node_runtime list \<times> reconcile_result" where
  "next_runtimes current candidates [] next_nodes r = (next_nodes, r)"
| "next_runtimes current candidates (key # keys) next_nodes r =
     (case (bt_get candidates key, bt_get current key) of
        (None, Some existing) \<Rightarrow>
          next_runtimes current candidates keys (next_nodes @ [existing]) (r\<lparr>rr_unchanged := rr_unchanged r + 1\<rparr>)
      | (None, None) \<Rightarrow> next_runtimes current candidates keys next_nodes r
      | (Some candidate, Some existing) \<Rightarrow>
          if candidate = existing
          then next_runtimes current candidates keys (next_nodes @ [existing]) (r\<lparr>rr_unchanged := rr_unchanged r + 1\<rparr>)
          else next_runtimes current candidates keys (next_nodes @ [candidate]) (r\<lparr>rr_restarted := rr_restarted r + 1\<rparr>)
      | (Some candidate, None) \<Rightarrow>
          next_runtimes current candidates keys (next_nodes @ [candidate]) (r\<lparr>rr_added := rr_added r + 1\<rparr>))"

definition reconcile_with_loader ::
  "(node_config \<Rightarrow> string) \<Rightarrow> 'l node_loader \<Rightarrow> node_config list \<Rightarrow> realtime_config \<Rightarrow> node_manager_options \<Rightarrow>
     node_manager \<Rightarrow> 'l \<Rightarrow> reconcile_result result \<times> node_manager \<times> 'l" where
  "reconcile_with_loader dbg load desired rt options m l =
     (let cont = nmo_continue_on_error options
      in case current_slots dbg m of
           Inl e \<Rightarrow> (Err e, m, l)
         | Inr current \<Rightarrow>
             (case reconcile_loop load cont current desired
                \<lparr>rs_result = reconcile_result_default, rs_desired_keys = [], rs_candidates = [], rs_ordered_keys = []\<rparr> l of
                (Inl e, l') \<Rightarrow> (Err e, m, l')
              | (Inr st, l') \<Rightarrow>
                  let r = rs_result st
                  in if rs_candidates st = [] \<and> rr_failures r \<noteq> [] \<and> cont
                     then (Ok r, m\<lparr>nm_failures := rr_failures r\<rparr>, l')
                     else if machine_reconcile_needs_full_reload current (rs_desired_keys st) (rs_candidates st)
                     then (Ok (r\<lparr>rr_full_reload_required := True\<rparr>), m, l')
                     else
                       let r1 = r\<lparr>rr_removed := rr_removed r +
                             length (filter (\<lambda>key. \<not> bs_contains (rs_desired_keys st) key) (bt_keys current))\<rparr>;
                           (next_nodes, r2) = next_runtimes current (rs_candidates st) (rs_ordered_keys st) [] r1
                       in (Ok r2, m\<lparr>nm_runtimes := next_nodes, nm_failures := rr_failures r2, nm_realtime := rt,
                                    nm_continue_on_error := cont\<rparr>, l')))"

section \<open>Slots\<close>

abbreviation runtime_key :: "node_runtime \<Rightarrow> string" where
  "runtime_key r \<equiv> node_key (nr_config r)"

text \<open>The invariant of a manager: its nodes have usable, pairwise different keys.\<close>

definition slots_ok :: "node_manager \<Rightarrow> bool" where
  "slots_ok m \<longleftrightarrow> distinct (map runtime_key (nm_runtimes m)) \<and> [] \<notin> runtime_key ` set (nm_runtimes m)"

lemma current_slots_loop_Inr:
  assumes "bt_invar current" "\<And>k r. bt_get current k = Some r \<Longrightarrow> runtime_key r = k"
    and "current_slots_loop dbg rs current = Inr slots"
  shows "bt_invar slots \<and> distinct (map runtime_key rs) \<and> [] \<notin> runtime_key ` set rs \<and>
    (\<forall>r \<in> set rs. bt_get current (runtime_key r) = None) \<and>
    (\<forall>k r. bt_get slots k = Some r \<longleftrightarrow> bt_get current k = Some r \<or> r \<in> set rs \<and> runtime_key r = k)"
  using assms
proof (induction rs arbitrary: current)
  case (Cons r rs)
  let ?k = "runtime_key r" and ?c = "bt_insert (runtime_key r) r current"
  from Cons.prems(3) have k: "?k \<noteq> []" "bt_get current ?k = None"
    and rest: "current_slots_loop dbg rs ?c = Inr slots"
    by (auto simp: Let_def bt_contains_key_def split: if_splits)
  have inv: "bt_invar ?c" by (intro bt_insert_invar Cons.prems(1))
  have get: "bt_get ?c k = (if k = ?k then Some r else bt_get current k)" for k by (rule bt_get_insert)
  have keys: "bt_get ?c k = Some x \<Longrightarrow> runtime_key x = k" for k x
    using Cons.prems(2) by (auto simp: get split: if_splits)
  from Cons.IH [OF inv keys rest] k get show ?case by (auto simp: get split: if_splits)
qed auto

lemma current_slots_Inr:
  assumes "current_slots dbg m = Inr slots"
  shows "slots_ok m" "bt_invar slots"
    "bt_get slots k = Some r \<longleftrightarrow> r \<in> set (nm_runtimes m) \<and> runtime_key r = k"
proof -
  have "bt_invar []" by (simp add: bt_invar_def)
  note s = current_slots_loop_Inr [OF this _ assms [unfolded current_slots_def]]
  show "slots_ok m" "bt_invar slots" using s by (auto simp: slots_ok_def bt_get_def)
  show "bt_get slots k = Some r \<longleftrightarrow> r \<in> set (nm_runtimes m) \<and> runtime_key r = k"
    using s by (auto simp: bt_get_def)
qed

lemma current_slots_loop_ok:
  assumes "distinct (map runtime_key rs)" "[] \<notin> runtime_key ` set rs"
    "\<And>r. r \<in> set rs \<Longrightarrow> bt_get current (runtime_key r) = None"
  shows "is_ok (current_slots_loop dbg rs current)"
  using assms
proof (induction rs arbitrary: current)
  case (Cons r rs)
  have "is_ok (current_slots_loop dbg rs (bt_insert (runtime_key r) r current))"
    using Cons.prems by (intro Cons.IH) (auto simp: bt_get_insert intro: rev_image_eqI)
  with Cons.prems show ?case by (auto simp: Let_def bt_contains_key_def)
qed simp

lemma current_slots_ok: "is_ok (current_slots dbg m) \<longleftrightarrow> slots_ok m"
proof
  assume "is_ok (current_slots dbg m)"
  then show "slots_ok m" using current_slots_Inr(1) by (auto simp: is_ok_iff)
next
  assume "slots_ok m"
  then show "is_ok (current_slots dbg m)"
    unfolding current_slots_def slots_ok_def by (intro current_slots_loop_ok) (auto simp: bt_get_def)
qed

section \<open>The loop over the desired configurations\<close>

text \<open>The failures of a result never count as work done.\<close>

definition reconcile_inv :: "reconcile_state \<Rightarrow> bool" where
  "reconcile_inv st \<longleftrightarrow>
     distinct (rs_ordered_keys st) \<and> [] \<notin> set (rs_ordered_keys st) \<and>
     set (rs_desired_keys st) = set (rs_ordered_keys st) \<and>
     bt_invar (rs_candidates st) \<and>
     (\<forall>k r. bt_get (rs_candidates st) k = Some r \<longrightarrow> runtime_key r = k \<and> k \<in> set (rs_ordered_keys st)) \<and>
     rr_added (rs_result st) = 0 \<and> rr_removed (rs_result st) = 0 \<and> rr_restarted (rs_result st) = 0 \<and>
     rr_unchanged (rs_result st) = 0 \<and> \<not> rr_full_reload_required (rs_result st)"

lemma handle_failure_Inr:
  "handle_reconcile_failure r config error cont = Inr r' \<Longrightarrow> cont \<and>
     rr_added r' = rr_added r \<and> rr_removed r' = rr_removed r \<and> rr_restarted r' = rr_restarted r \<and>
     rr_unchanged r' = rr_unchanged r \<and> rr_full_reload_required r' = rr_full_reload_required r"
  by (auto simp: handle_reconcile_failure_def split: if_splits)

lemma reconcile_desired_inv:
  assumes "reconcile_inv st" "reconcile_desired load cont current config st l = (Inr st', l')"
  shows "reconcile_inv st' \<and> set (rs_ordered_keys st) \<subseteq> set (rs_ordered_keys st') \<and>
    (node_key config \<noteq> [] \<longrightarrow> node_key config \<in> set (rs_ordered_keys st')) \<and>
    set (rs_ordered_keys st') \<subseteq> insert (node_key config) (set (rs_ordered_keys st))"
proof -
  let ?k = "node_key config"
  let ?st1 = "st\<lparr>rs_desired_keys := bs_insert ?k (rs_desired_keys st), rs_ordered_keys := rs_ordered_keys st @ [?k]\<rparr>"
  consider (old) "?k = [] \<or> ?k \<in> set (rs_desired_keys st)" | (new) "?k \<noteq> []" "?k \<notin> set (rs_desired_keys st)"
    by blast
  then show ?thesis
  proof cases
    case old
    with assms(2) obtain r where "st' = st\<lparr>rs_result := r\<rparr>"
      "\<exists>e. handle_reconcile_failure (rs_result st) config e cont = Inr r"
      by (auto simp: reconcile_desired_def Let_def bs_contains_def map_ok_Inr split: if_splits)
    with old assms(1) show ?thesis by (auto simp: reconcile_inv_def dest: handle_failure_Inr)
  next
    case new
    have inv1: "reconcile_inv ?st1"
      using new assms(1) by (auto simp: reconcile_inv_def)
    obtain x l1 where x: "load l config = (x, l1)" by fastforce
    have "\<exists>r info. st' = ?st1\<lparr>rs_result := r\<rparr> \<and> rr_added r = 0 \<and> rr_removed r = 0 \<and> rr_restarted r = 0 \<and>
          rr_unchanged r = 0 \<and> \<not> rr_full_reload_required r \<or>
        st' = ?st1\<lparr>rs_candidates := bt_insert ?k \<lparr>nr_config = config, nr_info = info\<rparr> (rs_candidates ?st1)\<rparr>"
    proof (cases x)
      case (Inl e)
      with new assms(2) x obtain r where "st' = ?st1\<lparr>rs_result := r\<rparr>"
        "handle_reconcile_failure (rs_result st) config e cont = Inr r"
        by (auto simp: reconcile_desired_def Let_def bs_contains_def map_ok_Inr)
      with assms(1) handle_failure_Inr [OF this(2)] show ?thesis by (auto simp: reconcile_inv_def)
    next
      case (Inr o1)
      show ?thesis
      proof (cases o1)
        case None
        show ?thesis
        proof (cases "bt_contains_key current ?k")
          case True
          with None Inr new assms x show ?thesis
            by (auto simp: reconcile_desired_def Let_def bs_contains_def reconcile_inv_def)
        next
          case False
          with None Inr new assms(2) x obtain r where "st' = ?st1\<lparr>rs_result := r\<rparr>"
            "handle_reconcile_failure (rs_result st) config ''received empty node info'' cont = Inr r"
            by (auto simp: reconcile_desired_def Let_def bs_contains_def map_ok_Inr)
          with assms(1) handle_failure_Inr [OF this(2)] show ?thesis by (auto simp: reconcile_inv_def)
        qed
      next
        case (Some info)
        with Inr new assms(2) x show ?thesis
          by (auto simp: reconcile_desired_def Let_def bs_contains_def)
      qed
    qed
    then show ?thesis
      using inv1 by (auto simp: reconcile_inv_def bt_insert_invar bt_get_insert split: if_splits) blast
  qed
qed

lemma reconcile_loop_inv:
  assumes "reconcile_inv st" "reconcile_loop load cont current desired st l = (Inr st', l')"
  shows "reconcile_inv st' \<and>
    set (rs_ordered_keys st') = set (rs_ordered_keys st) \<union> (node_key ` set desired - {[]})"
  using assms
proof (induction desired arbitrary: st l)
  case (Cons config desired)
  from Cons.prems(2) obtain st1 l1 where s: "reconcile_desired load cont current config st l = (Inr st1, l1)"
    and rest: "reconcile_loop load cont current desired st1 l1 = (Inr st', l')"
    by (auto split: prod.splits sum.splits)
  have one: "reconcile_inv st1" "set (rs_ordered_keys st) \<subseteq> set (rs_ordered_keys st1)"
    "node_key config \<noteq> [] \<longrightarrow> node_key config \<in> set (rs_ordered_keys st1)"
    "set (rs_ordered_keys st1) \<subseteq> insert (node_key config) (set (rs_ordered_keys st))"
    using reconcile_desired_inv [OF Cons.prems(1) s] by blast+
  have "[] \<notin> set (rs_ordered_keys st1)" using one(1) by (simp add: reconcile_inv_def)
  with one have "set (rs_ordered_keys st1) = set (rs_ordered_keys st) \<union> ({node_key config} - {[]})" by blast
  with Cons.IH [OF one(1) rest] show ?case by auto
qed auto

lemma reconcile_loop_total: "is_ok (fst (reconcile_loop load True current desired st l))"
proof (induction desired arbitrary: st l)
  case (Cons config desired)
  obtain x l1 where x: "load l config = (x, l1)" by fastforce
  have "\<exists>st1 l1. reconcile_desired load True current config st l = (Inr st1, l1)"
    using x by (auto simp: reconcile_desired_def Let_def handle_reconcile_failure_def split: sum.splits option.splits)
  with Cons.IH show ?case by fastforce
qed simp

section \<open>The next runtimes\<close>

lemma next_runtimes_spec:
  assumes "\<And>k r. bt_get current k = Some r \<Longrightarrow> runtime_key r = k" "\<And>k r. bt_get cands k = Some r \<Longrightarrow> runtime_key r = k"
    and "next_runtimes current cands keys acc r = (next_nodes, r')"
  shows "map runtime_key next_nodes =
      map runtime_key acc @ filter (\<lambda>k. bt_get cands k \<noteq> None \<or> bt_get current k \<noteq> None) keys \<and>
    rr_unchanged r' + rr_restarted r' + rr_added r' + length acc =
      rr_unchanged r + rr_restarted r + rr_added r + length next_nodes \<and>
    rr_removed r' = rr_removed r \<and> rr_failures r' = rr_failures r \<and>
    rr_full_reload_required r' = rr_full_reload_required r"
  using assms(3)
proof (induction keys arbitrary: acc r)
  case (Cons k keys)
  show ?case
  proof (cases "bt_get cands k"; cases "bt_get current k")
    assume "bt_get cands k = None" "bt_get current k = None"
    with Cons show ?thesis by auto
  next
    fix e assume e: "bt_get cands k = None" "bt_get current k = Some e"
    from e Cons.prems have "next_runtimes current cands keys (acc @ [e]) (r\<lparr>rr_unchanged := rr_unchanged r + 1\<rparr>) =
        (next_nodes, r')" by simp
    from Cons.IH [OF this] e assms(1) [OF e(2)] show ?thesis by simp
  next
    fix c assume c: "bt_get cands k = Some c" "bt_get current k = None"
    from c Cons.prems have "next_runtimes current cands keys (acc @ [c]) (r\<lparr>rr_added := rr_added r + 1\<rparr>) =
        (next_nodes, r')" by simp
    from Cons.IH [OF this] c assms(2) [OF c(1)] show ?thesis by simp
  next
    fix c e assume ce: "bt_get cands k = Some c" "bt_get current k = Some e"
    show ?thesis
    proof (cases "c = e")
      case True
      with ce Cons.prems have "next_runtimes current cands keys (acc @ [e]) (r\<lparr>rr_unchanged := rr_unchanged r + 1\<rparr>) =
          (next_nodes, r')" by simp
      from Cons.IH [OF this] ce assms(1) [OF ce(2)] show ?thesis by simp
    next
      case False
      with ce Cons.prems have "next_runtimes current cands keys (acc @ [c]) (r\<lparr>rr_restarted := rr_restarted r + 1\<rparr>) =
          (next_nodes, r')" by simp
      from Cons.IH [OF this] ce assms(2) [OF ce(1)] show ?thesis by simp
    qed
  qed
qed auto

section \<open>Reconciling a manager\<close>

abbreviation desired_keys :: "node_config list \<Rightarrow> string set" where
  "desired_keys desired \<equiv> node_key ` set desired - {[]}"

text \<open>What a reconcile does, by the five ways it can end.\<close>

lemma reconcile_cases:
  assumes "reconcile_with_loader dbg load desired rt options m l = (res, m', l')"
  obtains (bad_slots) e where "res = Inl e" "m' = m" "\<not> slots_ok m"
  | (fail_fast) e where "res = Inl e" "m' = m" "\<not> nmo_continue_on_error options"
  | (nothing_loaded) r where "res = Inr r" "slots_ok m" "m' = m\<lparr>nm_failures := rr_failures r\<rparr>" "rr_failures r \<noteq> []"
      "nmo_continue_on_error options" "rr_added r + rr_removed r + rr_restarted r + rr_unchanged r = 0"
      "\<not> rr_full_reload_required r"
  | (full_reload) r where "res = Inr r" "slots_ok m" "m' = m" "rr_full_reload_required r"
      "rr_added r + rr_removed r + rr_restarted r + rr_unchanged r = 0"
  | (applied) r current st r1 where "res = Inr r" "slots_ok m" "current_slots dbg m = Inr current" "reconcile_inv st"
      "set (rs_ordered_keys st) = desired_keys desired"
      "\<not> machine_reconcile_needs_full_reload current (rs_desired_keys st) (rs_candidates st)"
      "next_runtimes current (rs_candidates st) (rs_ordered_keys st) [] r1 = (nm_runtimes m', r)"
      "rr_removed r1 = length (filter (\<lambda>key. \<not> bs_contains (rs_desired_keys st) key) (bt_keys current))"
      "rr_added r1 + rr_restarted r1 + rr_unchanged r1 = 0" "\<not> rr_full_reload_required r1"
      "nm_failures m' = rr_failures r" "nm_realtime m' = rt" "nm_continue_on_error m' = nmo_continue_on_error options"
proof (cases "current_slots dbg m")
  case (Inl e)
  then have "\<not> slots_ok m" using current_slots_ok [of dbg m] by simp
  with Inl assms show ?thesis by (intro bad_slots) (auto simp: reconcile_with_loader_def)
next
  case (Inr current)
  note ok = current_slots_Inr(1) [OF Inr]
  let ?st0 = "\<lparr>rs_result = reconcile_result_default, rs_desired_keys = [], rs_candidates = [], rs_ordered_keys = []\<rparr>"
  obtain x l1 where x: "reconcile_loop load (nmo_continue_on_error options) current desired ?st0 l = (x, l1)" by fastforce
  show ?thesis
  proof (cases x)
    case (Inl e)
    then have "\<not> nmo_continue_on_error options"
      using reconcile_loop_total [of load current desired ?st0 l] x by (cases "nmo_continue_on_error options") auto
    with Inl Inr x assms show ?thesis by (intro fail_fast) (auto simp: reconcile_with_loader_def)
  next
    case st: (Inr st)
    have inv0: "reconcile_inv ?st0" by (auto simp: reconcile_inv_def reconcile_result_default_def bt_get_def bt_invar_def)
    have inv: "reconcile_inv st" and keys: "set (rs_ordered_keys st) = desired_keys desired"
      using reconcile_loop_inv [OF inv0 x [unfolded st]] by auto
    let ?r = "rs_result st"
    consider (a) "rs_candidates st = [] \<and> rr_failures ?r \<noteq> [] \<and> nmo_continue_on_error options"
      | (b) "\<not> (rs_candidates st = [] \<and> rr_failures ?r \<noteq> [] \<and> nmo_continue_on_error options)"
            "machine_reconcile_needs_full_reload current (rs_desired_keys st) (rs_candidates st)"
      | (c) "\<not> (rs_candidates st = [] \<and> rr_failures ?r \<noteq> [] \<and> nmo_continue_on_error options)"
            "\<not> machine_reconcile_needs_full_reload current (rs_desired_keys st) (rs_candidates st)" by blast
    then show ?thesis
    proof cases
      case a
      with Inr st x assms inv show ?thesis
        by (intro nothing_loaded [of ?r] ok) (auto simp: reconcile_with_loader_def Let_def reconcile_inv_def)
    next
      case b
      with Inr st x assms inv show ?thesis
        by (intro full_reload [of "?r\<lparr>rr_full_reload_required := True\<rparr>"] ok)
           (auto simp: reconcile_with_loader_def Let_def reconcile_inv_def)
    next
      case c
      let ?r1 = "?r\<lparr>rr_removed := rr_removed ?r +
         length (filter (\<lambda>key. \<not> bs_contains (rs_desired_keys st) key) (bt_keys current))\<rparr>"
      obtain nodes r where n: "next_runtimes current (rs_candidates st) (rs_ordered_keys st) [] ?r1 = (nodes, r)" by fastforce
      have eqs: "res = Inr r" "m' = m\<lparr>nm_runtimes := nodes, nm_failures := rr_failures r, nm_realtime := rt,
          nm_continue_on_error := nmo_continue_on_error options\<rparr>"
        using Inr st x assms c n unfolding reconcile_with_loader_def Let_def by (auto simp del: next_runtimes.simps)
      have nr: "next_runtimes current (rs_candidates st) (rs_ordered_keys st) [] ?r1 = (nm_runtimes m', r)"
        using n eqs(2) by simp
      show ?thesis
        by (rule applied [OF eqs(1) ok Inr inv keys c(2) nr]) (use inv eqs(2) in \<open>auto simp: reconcile_inv_def\<close>)
    qed
  qed
qed

lemma slots_key_iff:
  assumes "current_slots dbg m = Inr current"
  shows "bt_get current k \<noteq> None \<longleftrightarrow> k \<in> runtime_key ` set (nm_runtimes m)"
  using current_slots_Inr(3) [OF assms, of k] by (cases "bt_get current k"; simp; blast)

text \<open>The node of a key after an applied reconcile: the loaded one, or the running one when the
  load gave none.\<close>

lemma next_runtimes_nodes:
  "fst (next_runtimes current cands keys acc r) =
     acc @ List.map_filter (\<lambda>k. case bt_get cands k of None \<Rightarrow> bt_get current k | Some c \<Rightarrow> Some c) keys"
proof (induction keys arbitrary: acc r)
  case (Cons k keys)
  then show ?case by (cases "bt_get cands k"; cases "bt_get current k") (auto simp: List.map_filter_simps)
qed (simp add: List.map_filter_simps)

lemma in_next_runtimes:
  assumes "next_runtimes current cands keys [] r = (nodes, r')"
  shows "x \<in> set nodes \<longleftrightarrow>
    (\<exists>k \<in> set keys. bt_get cands k = Some x \<or> bt_get cands k = None \<and> bt_get current k = Some x)"
  using next_runtimes_nodes [of current cands keys "[]" r] assms
  by (auto simp: List.map_filter_def split: option.splits) (force split: option.splits)+

lemma bt_get_Some_in: "bt_get m k = Some v \<Longrightarrow> (k, v) \<in> set m"
  by (simp add: bt_get_def map_of_SomeD)

lemma full_reload_not_needed:
  assumes "\<not> machine_reconcile_needs_full_reload current desired candidates"
  shows "bt_get current k = Some slot \<Longrightarrow> k \<notin> set desired \<Longrightarrow> \<not> node_has_custom_routes (nr_info slot)"
    "bt_get candidates k = Some c \<Longrightarrow> bt_get current k = None \<Longrightarrow> \<not> node_has_custom_routes (nr_info c)"
    "bt_get candidates k = Some c \<Longrightarrow> bt_get current k = Some slot \<Longrightarrow> slot \<noteq> c \<Longrightarrow>
       \<not> node_has_custom_routes (nr_info slot) \<and> \<not> node_has_custom_routes (nr_info c)"
proof -
  have drop: "\<forall>(key, slot) \<in> set current. key \<notin> set desired \<longrightarrow> \<not> node_has_custom_routes (nr_info slot)"
    and cand: "\<forall>(key, c) \<in> set candidates. case bt_get current key of None \<Rightarrow> \<not> node_has_custom_routes (nr_info c)
      | Some slot \<Rightarrow> slot \<noteq> c \<longrightarrow> \<not> node_has_custom_routes (nr_info slot) \<and> \<not> node_has_custom_routes (nr_info c)"
    using assms by (auto simp: machine_reconcile_needs_full_reload_def list_ex_iff bs_contains_def split: option.splits)
  show "bt_get current k = Some slot \<Longrightarrow> k \<notin> set desired \<Longrightarrow> \<not> node_has_custom_routes (nr_info slot)"
    using drop bt_get_Some_in by fastforce
  show "bt_get candidates k = Some c \<Longrightarrow> bt_get current k = None \<Longrightarrow> \<not> node_has_custom_routes (nr_info c)"
    using cand bt_get_Some_in [of candidates k c] by auto
  show "bt_get candidates k = Some c \<Longrightarrow> bt_get current k = Some slot \<Longrightarrow> slot \<noteq> c \<Longrightarrow>
       \<not> node_has_custom_routes (nr_info slot) \<and> \<not> node_has_custom_routes (nr_info c)"
    using cand bt_get_Some_in [of candidates k c] by auto
qed

lemma slot_values:
  assumes "current_slots dbg m = Inr current"
  shows "bt_get current k = Some r \<Longrightarrow> runtime_key r = k"
  using current_slots_Inr(3) [OF assms] by simp

lemma candidate_keys:
  "reconcile_inv st \<Longrightarrow> bt_get (rs_candidates st) k = Some r \<Longrightarrow> runtime_key r = k"
  by (simp add: reconcile_inv_def)

text \<open>C35: However a reconcile ends - with an error, with nothing loaded, asking for a full reload,
  or applied - the keys of the manager's nodes stay usable and pairwise different, so that the next
  reconcile finds its slots again.\<close>

theorem reconcile_keeps_slots:
  assumes "slots_ok m" "reconcile_with_loader dbg load desired rt options m l = (res, m', l')"
  shows "slots_ok m'"
  using assms(2)
proof (cases rule: reconcile_cases)
  case (nothing_loaded r)
  with assms(1) show ?thesis by (simp add: slots_ok_def)
next
  case (applied r current st r1)
  have "map runtime_key (nm_runtimes m') =
      filter (\<lambda>k. bt_get (rs_candidates st) k \<noteq> None \<or> bt_get current k \<noteq> None) (rs_ordered_keys st)"
    using next_runtimes_spec [OF slot_values [OF applied(3)] candidate_keys [OF applied(4)] applied(7)] by simp
  then have "distinct (map runtime_key (nm_runtimes m'))" "[] \<notin> set (map runtime_key (nm_runtimes m'))"
    using applied(4) by (simp_all add: reconcile_inv_def)
  then show ?thesis by (simp add: slots_ok_def)
qed (use assms in auto)

text \<open>C36: A node that is running and still desired is never lost by a reconcile: whatever the panel
  answers for it - an error, nothing, or a new description - a node with its key runs afterwards.\<close>

theorem reconcile_keeps_desired_nodes:
  assumes "reconcile_with_loader dbg load desired rt options m l = (res, m', l')"
    and "k \<in> runtime_key ` set (nm_runtimes m)" "k \<in> desired_keys desired"
  shows "k \<in> runtime_key ` set (nm_runtimes m')"
  using assms(1)
proof (cases rule: reconcile_cases)
  case (applied r current st r1)
  have "map runtime_key (nm_runtimes m') =
      filter (\<lambda>k. bt_get (rs_candidates st) k \<noteq> None \<or> bt_get current k \<noteq> None) (rs_ordered_keys st)"
    using next_runtimes_spec [OF slot_values [OF applied(3)] candidate_keys [OF applied(4)] applied(7)] by simp
  then have "runtime_key ` set (nm_runtimes m') =
      set (filter (\<lambda>k. bt_get (rs_candidates st) k \<noteq> None \<or> bt_get current k \<noteq> None) (rs_ordered_keys st))"
    by (metis set_map)
  then show ?thesis using assms(2,3) applied(5) slots_key_iff [OF applied(3)] by auto
qed (use assms in auto)

text \<open>Nodes with custom routes are never changed in place: a node that a reconcile adds, drops or
  replaces has no custom routes (otherwise the reconcile asks for a full reload and changes no node).\<close>

lemma reconcile_respects_custom_routes:
  assumes "reconcile_with_loader dbg load desired rt options m l = (res, m', l')"
    and "(x \<in> set (nm_runtimes m)) \<noteq> (x \<in> set (nm_runtimes m'))"
  shows "\<not> node_has_custom_routes (nr_info x)"
  using assms(1)
proof (cases rule: reconcile_cases)
  case (applied r current st r1)
  let ?c = "rs_candidates st" and ?k = "runtime_key x"
  have dk: "set (rs_desired_keys st) = set (rs_ordered_keys st)"
    and ck: "bt_get ?c k = Some y \<Longrightarrow> runtime_key y = k \<and> k \<in> set (rs_ordered_keys st)" for k y
    using applied(4) by (auto simp: reconcile_inv_def)
  note slot = current_slots_Inr(3) [OF applied(3)]
  note new = in_next_runtimes [OF applied(7)]
  note safe = full_reload_not_needed [OF applied(6)]
  show ?thesis
  proof (cases "x \<in> set (nm_runtimes m)")
    case True
    then have cur: "bt_get current ?k = Some x" using slot by simp
    show ?thesis
    proof (cases "?k \<in> set (rs_ordered_keys st)")
      case False
      with safe(1) [OF cur] dk show ?thesis by simp
    next
      case key: True
      with True assms(2) new cur obtain y where "bt_get ?c ?k = Some y" "y \<noteq> x"
        by (cases "bt_get ?c ?k") auto
      with safe(3) [OF this(1) cur] show ?thesis by simp
    qed
  next
    case False
    with assms(2) new slot obtain k where k: "bt_get ?c k = Some x" by auto
    show ?thesis
    proof (cases "bt_get current k")
      case None
      with safe(2) [OF k] show ?thesis by simp
    next
      case (Some y)
      with False slot have "y \<noteq> x" by auto
      with safe(3) [OF k Some] show ?thesis by simp
    qed
  qed
qed (use assms in auto)

text \<open>The counters of a reconcile account for every node: either no node was touched and all the
  counters are zero, or each remaining node was counted once as unchanged, restarted or added, the
  removed ones are exactly the running keys that are not desired, and only desired keys run.\<close>

lemma reconcile_accounting:
  assumes "reconcile_with_loader dbg load desired rt options m l = (Ok r, m', l')"
  shows "nm_runtimes m' = nm_runtimes m \<and> rr_added r + rr_removed r + rr_restarted r + rr_unchanged r = 0 \<or>
    rr_unchanged r + rr_restarted r + rr_added r = length (nm_runtimes m') \<and>
    rr_removed r = card (runtime_key ` set (nm_runtimes m) - desired_keys desired) \<and>
    runtime_key ` set (nm_runtimes m') \<subseteq> desired_keys desired \<and> \<not> rr_full_reload_required r"
  using assms
proof (cases rule: reconcile_cases)
  case (applied r0 current st r1)
  then have r0: "r0 = r" by simp
  let ?live = "\<lambda>k. bt_get (rs_candidates st) k \<noteq> None \<or> bt_get current k \<noteq> None"
  let ?gone = "filter (\<lambda>key. \<not> bs_contains (rs_desired_keys st) key) (bt_keys current)"
  have spec: "map runtime_key (nm_runtimes m') = filter ?live (rs_ordered_keys st)"
      "rr_unchanged r + rr_restarted r + rr_added r = length (nm_runtimes m')"
      "rr_removed r = length ?gone" "\<not> rr_full_reload_required r"
    using next_runtimes_spec [OF slot_values [OF applied(3)] candidate_keys [OF applied(4)] applied(7)]
      applied(8-10) r0 by simp_all
  have keys: "set (bt_keys current) = runtime_key ` set (nm_runtimes m)" (is "?A = ?B")
  proof -
    have "k \<in> ?A \<longleftrightarrow> k \<in> ?B" for k
      using slots_key_iff [OF applied(3), of k] by (auto simp: bt_keys_def bt_get_def map_of_eq_None_iff)
    then show ?thesis by blast
  qed
  have "distinct ?gone"
    using current_slots_Inr(2) [OF applied(3)] by (auto simp: bt_keys_def bt_invar_def strict_sorted_iff)
  then have "length ?gone = card (set ?gone)" by (rule distinct_card [symmetric])
  also have "set ?gone = ?B - desired_keys desired"
    using keys applied(4,5) by (auto simp: bs_contains_def reconcile_inv_def)
  finally have "rr_removed r = card (?B - desired_keys desired)" using spec(3) by simp
  moreover have "set (map runtime_key (nm_runtimes m')) \<subseteq> desired_keys desired"
    using applied(5) by (simp only: spec(1)) (auto simp: subset_iff)
  ultimately show ?thesis using spec(2,4) by simp
qed auto

text \<open>C32: With \<open>continue_on_error\<close> a reconcile of a manager with usable keys always returns a result;
  without usable, pairwise different keys it always fails and changes nothing.\<close>

lemma reconcile_total:
  assumes "nmo_continue_on_error options"
  shows "is_ok (fst (reconcile_with_loader dbg load desired rt options m l)) = slots_ok m \<and>
    (if slots_ok m then True else fst (snd (reconcile_with_loader dbg load desired rt options m l)) = m)"
proof -
  obtain res m' l' where e: "reconcile_with_loader dbg load desired rt options m l = (res, m', l')"
    by (metis surj_pair)
  then show ?thesis by (cases rule: reconcile_cases) (use e assms in auto)
qed

section \<open>Witnesses\<close>

definition sample_node_config :: "string \<Rightarrow> u32 \<Rightarrow> node_config" where
  "sample_node_config url i =
     \<lparr>nc_url = url, nc_token = ''t'', nc_node_id = i, nc_machine_id = 0, nc_timeout = 0, nc_config_dir = []\<rparr>"

text \<open>The panel answers for every node but the first.\<close>

definition sample_loader :: "unit node_loader" where
  "sample_loader l config =
     (if nc_node_id config = 1 then Err ''down'' else Ok (Some (sample_node Vless (nc_node_id config) 443 [])), l)"

definition sample_manager :: node_manager where
  "sample_manager =
     \<lparr>nm_runtimes = [\<lparr>nr_config = sample_node_config ''https://p/'' 1, nr_info = sample_node Vless 1 443 []\<rparr>,
        \<lparr>nr_config = sample_node_config ''https://p/'' 3, nr_info = sample_node Vless 3 443 []\<rparr>],
      nm_failures = [], nm_realtime = app_realtime sample_config, nm_continue_on_error = True\<rparr>"

definition sample_reconcile :: "reconcile_result result \<times> node_manager \<times> unit" where
  "sample_reconcile = reconcile_with_loader (\<lambda>_. []) sample_loader
     [sample_node_config ''https://p'' 1, sample_node_config ''https://p'' 2] (app_realtime sample_config)
     \<lparr>nmo_continue_on_error = True\<rparr> sample_manager ()"

lemma sample_reconcile_result:
  "\<exists>r m'. sample_reconcile = (Ok r, m', ()) \<and> rr_added r = 1 \<and> rr_removed r = 1 \<and> rr_unchanged r = 1 \<and>
     map runtime_key (nm_runtimes m') = [''https://p#1'', ''https://p#2'']"
proof -
  have "(case sample_reconcile of
      (Inr r, m', _) \<Rightarrow> rr_added r = 1 \<and> rr_removed r = 1 \<and> rr_unchanged r = 1 \<and>
        map runtime_key (nm_runtimes m') = [''https://p#1'', ''https://p#2'']
    | (Inl _, _, _) \<Rightarrow> False)" by code_simp
  then show ?thesis by (cases sample_reconcile; cases "fst sample_reconcile") (fastforce split: prod.splits sum.splits)+
qed

lemma sample_manager_slots: "slots_ok sample_manager"
  "map runtime_key (nm_runtimes sample_manager) = [''https://p#1'', ''https://p#3'']"
  by code_simp+

theorem reconcile_keeps_slots_witness:
  "slots_ok sample_manager \<and> (\<exists>r m'. sample_reconcile = (Ok r, m', ()) \<and> slots_ok m')"
  using sample_manager_slots(1) sample_reconcile_result unfolding sample_reconcile_def
  by (blast dest: reconcile_keeps_slots)

theorem reconcile_keeps_desired_nodes_witness:
  "\<exists>r m'. sample_reconcile = (Ok r, m', ()) \<and> ''https://p#1'' \<in> runtime_key ` set (nm_runtimes m')"
proof -
  obtain r m' where e: "sample_reconcile = (Ok r, m', ())" using sample_reconcile_result by blast
  have "''https://p#1'' \<in> set (map runtime_key (nm_runtimes sample_manager))"
    by (simp add: sample_manager_slots(2))
  moreover have "''https://p#1'' \<in> desired_keys [sample_node_config ''https://p'' 1, sample_node_config ''https://p'' 2]"
    by code_simp
  ultimately have "''https://p#1'' \<in> runtime_key ` set (nm_runtimes m')"
    using reconcile_keeps_desired_nodes [OF e [unfolded sample_reconcile_def]] by simp
  with e show ?thesis by blast
qed

lemma reconcile_respects_custom_routes_witness:
  "\<exists>r m' x. sample_reconcile = (Ok r, m', ()) \<and> x \<in> set (nm_runtimes sample_manager) \<and> x \<notin> set (nm_runtimes m') \<and>
     \<not> node_has_custom_routes (nr_info x)"
proof -
  obtain r m' where e: "sample_reconcile = (Ok r, m', ())"
    and keys: "map runtime_key (nm_runtimes m') = [''https://p#1'', ''https://p#2'']"
    using sample_reconcile_result by metis
  let ?x = "last (nm_runtimes sample_manager)"
  have x: "?x \<in> set (nm_runtimes sample_manager)" "runtime_key ?x \<notin> set [''https://p#1'', ''https://p#2'']"
    by code_simp+
  have "runtime_key ?x \<notin> set (map runtime_key (nm_runtimes m'))" using x(2) by (simp only: keys not_False_eq_True)
  then have "?x \<notin> set (nm_runtimes m')" by auto
  with x(1) reconcile_respects_custom_routes [OF e [unfolded sample_reconcile_def], of ?x] e
  show ?thesis by blast
qed

lemma reconcile_accounting_witness:
  "\<exists>r m'. sample_reconcile = (Ok r, m', ()) \<and>
     rr_unchanged r + rr_restarted r + rr_added r = length (nm_runtimes m') \<and>
     rr_removed r = 1 \<and> \<not> rr_full_reload_required r"
proof -
  obtain r m' where e: "sample_reconcile = (Ok r, m', ())" "rr_removed r = 1"
    using sample_reconcile_result by blast
  have "rr_unchanged r + rr_restarted r + rr_added r = length (nm_runtimes m') \<and> \<not> rr_full_reload_required r"
    using reconcile_accounting [OF e(1) [unfolded sample_reconcile_def]] e(2) by auto
  with e show ?thesis by blast
qed

lemma reconcile_total_witness:
  "is_ok (fst sample_reconcile) \<and>
   \<not> is_ok (fst (reconcile_with_loader (\<lambda>_. []) sample_loader [] (app_realtime sample_config) \<lparr>nmo_continue_on_error = True\<rparr>
     (sample_manager\<lparr>nm_runtimes := nm_runtimes sample_manager @ nm_runtimes sample_manager\<rparr>) ()))"
proof -
  have "\<not> slots_ok (sample_manager\<lparr>nm_runtimes := nm_runtimes sample_manager @ nm_runtimes sample_manager\<rparr>)"
    by code_simp
  moreover have "nmo_continue_on_error \<lparr>nmo_continue_on_error = True\<rparr>" by simp
  note t = reconcile_total [OF this, THEN conjunct1]
  show ?thesis unfolding sample_reconcile_def t using calculation sample_manager_slots(1) by blast
qed

end
