(* ===== verification/Capability.thy ===== *)
theory Capability
  imports Prelude
begin

text \<open>
  The native capability matrix (\<open>src/src/native_capability.rs\<close>): which combinations of
  protocol, transport, security and UDP mode the agent lets the native core render, with the
  evidence recorded for each, and the explicit allow list that opens canary rows.
\<close>

section \<open>Data\<close>

datatype native_protocol =
    NpSocks | NpHttp | NpShadowsocks | NpVless | NpVmess | NpTrojan | NpAnyTls | NpHysteria2 | NpTuic
  | NpNaive | NpMieru | NpDirect | NpDns | NpRoute

datatype capability_direction = DirInbound | DirOutbound

datatype capability_transport =
    TrTcp | TrUdp | TrWs | TrHttpUpgrade | TrH2 | TrGrpc | TrQuic | TrOldQuic | TrDirect

datatype capability_security = CsNone | CsTls | CsReality

datatype udp_mode = UmNone | UmNativeUdp | UmUdpAssociate | UmUdpOverStream

datatype capability_status =
    StStable | StUsableNeedsSoak | StCanaryOnly | StExperimental | StBroken | StUnsupported

datatype render_decision = RenderNative | RenderNativeWithWarning | FallbackGo | Reject string

datatype baseline_source =
    BsGoLegacyBaseline | BsOfficialUpstreamBaseline | BsEcosystemInteropBaseline | BsMixed

datatype evidence_level =
    EvUnitOnly | EvLocalLoopback | EvOfficialClientInterop | EvThirdPartyClientInterop | EvSoakTested
  | EvProductionObserved

record capability_key =
  ck_protocol :: native_protocol
  ck_direction :: capability_direction
  ck_transport :: capability_transport
  ck_security :: capability_security
  ck_udp_mode :: udp_mode
  ck_flow :: string
  ck_user_model :: string
  ck_route_outbound :: string

record capability_entry =
  ce_key :: capability_key
  ce_status :: capability_status
  ce_decision :: render_decision
  ce_baseline_source :: baseline_source
  ce_baseline_reference :: string
  ce_baseline_gap :: string
  ce_evidence_level :: evidence_level
  ce_reason :: string
  ce_required_tests :: "string list"
  ce_current_evidence :: "string list"
  ce_next_action :: string

section \<open>Names\<close>

fun native_protocol_as_str :: "native_protocol \<Rightarrow> string" where
  "native_protocol_as_str NpSocks = ''socks''"
| "native_protocol_as_str NpHttp = ''http''"
| "native_protocol_as_str NpShadowsocks = ''shadowsocks''"
| "native_protocol_as_str NpVless = ''vless''"
| "native_protocol_as_str NpVmess = ''vmess''"
| "native_protocol_as_str NpTrojan = ''trojan''"
| "native_protocol_as_str NpAnyTls = ''anytls''"
| "native_protocol_as_str NpHysteria2 = ''hysteria2''"
| "native_protocol_as_str NpTuic = ''tuic''"
| "native_protocol_as_str NpNaive = ''naive''"
| "native_protocol_as_str NpMieru = ''mieru''"
| "native_protocol_as_str NpDirect = ''direct''"
| "native_protocol_as_str NpDns = ''dns''"
| "native_protocol_as_str NpRoute = ''route''"

fun direction_as_str :: "capability_direction \<Rightarrow> string" where
  "direction_as_str DirInbound = ''inbound''"
| "direction_as_str DirOutbound = ''outbound''"

fun transport_as_str :: "capability_transport \<Rightarrow> string" where
  "transport_as_str TrTcp = ''tcp''"
| "transport_as_str TrUdp = ''udp''"
| "transport_as_str TrWs = ''ws''"
| "transport_as_str TrHttpUpgrade = ''httpupgrade''"
| "transport_as_str TrH2 = ''h2''"
| "transport_as_str TrGrpc = ''grpc''"
| "transport_as_str TrQuic = ''quic''"
| "transport_as_str TrOldQuic = ''old_quic''"
| "transport_as_str TrDirect = ''direct''"

fun cap_security_as_str :: "capability_security \<Rightarrow> string" where
  "cap_security_as_str CsNone = ''none''"
| "cap_security_as_str CsTls = ''tls''"
| "cap_security_as_str CsReality = ''reality''"

fun udp_mode_as_str :: "udp_mode \<Rightarrow> string" where
  "udp_mode_as_str UmNone = ''none''"
| "udp_mode_as_str UmNativeUdp = ''native_udp''"
| "udp_mode_as_str UmUdpAssociate = ''udp_associate''"
| "udp_mode_as_str UmUdpOverStream = ''udp_over_stream''"

fun status_as_str :: "capability_status \<Rightarrow> string" where
  "status_as_str StStable = ''stable''"
| "status_as_str StUsableNeedsSoak = ''usable_needs_soak''"
| "status_as_str StCanaryOnly = ''canary_only''"
| "status_as_str StExperimental = ''experimental''"
| "status_as_str StBroken = ''broken''"
| "status_as_str StUnsupported = ''unsupported''"

fun decision_as_str :: "render_decision \<Rightarrow> string" where
  "decision_as_str RenderNative = ''render_native''"
| "decision_as_str RenderNativeWithWarning = ''render_native_with_warning''"
| "decision_as_str FallbackGo = ''fallback_go''"
| "decision_as_str (Reject r) = ''reject''"

fun decision_reason :: "render_decision \<Rightarrow> string option" where
  "decision_reason (Reject r) = Some r"
| "decision_reason _ = None"

fun baseline_source_fmt :: "baseline_source \<Rightarrow> string" where
  "baseline_source_fmt BsGoLegacyBaseline = ''GoLegacyBaseline''"
| "baseline_source_fmt BsOfficialUpstreamBaseline = ''OfficialUpstreamBaseline''"
| "baseline_source_fmt BsEcosystemInteropBaseline = ''EcosystemInteropBaseline''"
| "baseline_source_fmt BsMixed = ''Mixed''"

fun evidence_level_fmt :: "evidence_level \<Rightarrow> string" where
  "evidence_level_fmt EvUnitOnly = ''UnitOnly''"
| "evidence_level_fmt EvLocalLoopback = ''LocalLoopback''"
| "evidence_level_fmt EvOfficialClientInterop = ''OfficialClientInterop''"
| "evidence_level_fmt EvThirdPartyClientInterop = ''ThirdPartyClientInterop''"
| "evidence_level_fmt EvSoakTested = ''SoakTested''"
| "evidence_level_fmt EvProductionObserved = ''ProductionObserved''"

definition dimension_summary :: "capability_key \<Rightarrow> string" where
  "dimension_summary k =
     ''protocol='' @ native_protocol_as_str (ck_protocol k) @ '' direction='' @ direction_as_str (ck_direction k) @
     '' transport='' @ transport_as_str (ck_transport k) @ '' security='' @ cap_security_as_str (ck_security k) @
     '' udp_mode='' @ udp_mode_as_str (ck_udp_mode k) @ '' flow='' @ ck_flow k @
     '' user_model='' @ ck_user_model k @ '' route_outbound='' @ ck_route_outbound k"

definition gate_message :: "capability_entry \<Rightarrow> string" where
  "gate_message e =
     dimension_summary (ce_key e) @ '' status='' @ status_as_str (ce_status e) @
     '' decision='' @ decision_as_str (ce_decision e) @
     '' baseline_source='' @ baseline_source_fmt (ce_baseline_source e) @
     '' evidence_level='' @ evidence_level_fmt (ce_evidence_level e) @ '' reason='' @ ce_reason e @
     (case decision_reason (ce_decision e) of Some r \<Rightarrow> '' decision_reason='' @ r | None \<Rightarrow> [])"

section \<open>The canary allow list\<close>

definition NATIVE_CANARY_ALLOW_ENV :: string where
  "NATIVE_CANARY_ALLOW_ENV = ''KELI_NATIVE_CANARY_ALLOW''"

fun split_where :: "(char \<Rightarrow> bool) \<Rightarrow> string \<Rightarrow> string list" where
  "split_where P [] = [[]]"
| "split_where P (c # s) =
     (if P c then [] # split_where P s
      else case split_where P s of p # ps \<Rightarrow> (c # p) # ps | [] \<Rightarrow> [[c]])"

definition is_ascii_whitespace :: "char \<Rightarrow> bool" where
  "is_ascii_whitespace c \<longleftrightarrow> char_code c \<in> set [9, 10, 12, 13, 32]"

text \<open>A character that is not ASCII is one underscore: its continuation bytes are dropped.\<close>

definition normalize_canary_allow_token :: "string \<Rightarrow> string" where
  "normalize_canary_allow_token token =
     map (\<lambda>c. if is_ascii_alphanumeric c then ascii_lower c else CHR ''_'')
       (filter (\<lambda>c. \<not> is_continuation c) (trim token))"

definition canary_allow_tokens :: "capability_entry \<Rightarrow> string list" where
  "canary_allow_tokens e =
     (let protocol = native_protocol_as_str (ck_protocol (ce_key e));
          transport = transport_as_str (ck_transport (ce_key e));
          security = cap_security_as_str (ck_security (ce_key e))
      in if ck_security (ce_key e) = CsNone then [protocol @ ''_'' @ transport]
         else [protocol @ ''_'' @ security @ ''_'' @ transport, protocol @ ''_'' @ transport @ ''_'' @ security])"

fun is_reject :: "render_decision \<Rightarrow> bool" where
  "is_reject (Reject r) = True"
| "is_reject _ = False"

definition entry_allowed_by_explicit_canary_allow_list :: "capability_entry \<Rightarrow> string option \<Rightarrow> bool" where
  "entry_allowed_by_explicit_canary_allow_list e allow_list =
     (if ce_status e \<noteq> StCanaryOnly then False
      else if \<not> is_reject (ce_decision e) then False
      else case allow_list of
             None \<Rightarrow> False
           | Some list \<Rightarrow>
               list_ex (\<lambda>token. token \<noteq> [] \<and> token \<in> set (canary_allow_tokens e))
                 (map normalize_canary_allow_token
                   (split_where (\<lambda>c. c = CHR '','' \<or> c = CHR '';'' \<or> is_ascii_whitespace c) list)))"

section \<open>The matrix\<close>

fun route_outbound_label :: "capability_direction \<Rightarrow> string" where
  "route_outbound_label DirInbound = ''per_inbound_routes''"
| "route_outbound_label DirOutbound = ''outbound''"

definition capability_row_with_flow ::
  "native_protocol \<Rightarrow> capability_direction \<Rightarrow> capability_transport \<Rightarrow> capability_security \<Rightarrow> udp_mode \<Rightarrow> string \<Rightarrow>
   string \<Rightarrow> capability_status \<Rightarrow> render_decision \<Rightarrow> baseline_source \<Rightarrow> evidence_level \<Rightarrow> string \<Rightarrow> string \<Rightarrow>
   string \<Rightarrow> string list \<Rightarrow> string list \<Rightarrow> string \<Rightarrow> capability_entry" where
  "capability_row_with_flow protocol direction transport security udp flow user_model status decision
     source evidence reference gap reason tests current_evidence next_action =
     \<lparr>ce_key = \<lparr>ck_protocol = protocol, ck_direction = direction, ck_transport = transport, ck_security = security,
        ck_udp_mode = udp, ck_flow = flow, ck_user_model = user_model,
        ck_route_outbound = route_outbound_label direction\<rparr>,
      ce_status = status, ce_decision = decision, ce_baseline_source = source,
      ce_baseline_reference = reference, ce_baseline_gap = gap, ce_evidence_level = evidence,
      ce_reason = reason, ce_required_tests = tests, ce_current_evidence = current_evidence,
      ce_next_action = next_action\<rparr>"

definition capability_row ::
  "native_protocol \<Rightarrow> capability_direction \<Rightarrow> capability_transport \<Rightarrow> capability_security \<Rightarrow> udp_mode \<Rightarrow>
   string \<Rightarrow> capability_status \<Rightarrow> render_decision \<Rightarrow> baseline_source \<Rightarrow> evidence_level \<Rightarrow> string \<Rightarrow> string \<Rightarrow>
   string \<Rightarrow> string list \<Rightarrow> string list \<Rightarrow> string \<Rightarrow> capability_entry" where
  "capability_row protocol direction transport security udp user_model =
     capability_row_with_flow protocol direction transport security udp ''none'' user_model"

definition capability_matrix_1 :: "capability_entry list" where
  "capability_matrix_1 =
   [capability_row NpSocks DirInbound TrTcp CsNone UmUdpAssociate ''password'' StUsableNeedsSoak RenderNativeWithWarning BsGoLegacyBaseline EvThirdPartyClientInterop
      ''kelinode/keli-core Xray SOCKS inbound behavior''
      ''needs longer mixed TCP/UDP gray soak''
      ''SOCKS TCP renders native and passed short sing-box interop but still needs soak''
      [''socks auth tcp relay'',
        ''socks udp associate relay'']
      [''renderer coverage'',
        ''local listener smoke'',
        ''2026-05-24 sing-box v1.12.22 remote 1-round socks-tcp probe passed on 2.56.116.39'']
      ''run longer real client TCP/UDP soak before stable'',
    capability_row NpHttp DirInbound TrTcp CsNone UmNone ''password'' StUsableNeedsSoak RenderNativeWithWarning BsGoLegacyBaseline EvThirdPartyClientInterop
      ''kelinode/keli-core Xray HTTP proxy inbound behavior''
      ''needs longer CONNECT/plain HTTP gray soak''
      ''HTTP proxy renders native and passed short sing-box interop but still needs soak''
      [''http connect relay'',
        ''plain http forwarding'']
      [''renderer coverage'',
        ''local listener smoke'',
        ''2026-05-24 sing-box v1.12.22 remote 1-round http-proxy-tcp probe passed on 2.56.116.39'']
      ''run longer real client HTTP proxy soak before stable'',
    capability_row NpShadowsocks DirInbound TrTcp CsNone UmNativeUdp ''password'' StUsableNeedsSoak RenderNativeWithWarning BsGoLegacyBaseline EvThirdPartyClientInterop
      ''kelinode/keli-core Xray Shadowsocks AEAD behavior''
      ''needs third-party client TCP/UDP soak''
      ''AEAD TCP/UDP is native-rendered and passed short sing-box interop''
      [''shadowsocks aead tcp relay'',
        ''shadowsocks udp relay'']
      [''renderer coverage'',
        ''cipher validation coverage'',
        ''2026-05-24 sing-box v1.12.22 remote 1-round shadowsocks-tcp and shadowsocks-udp probes passed on 2.56.116.39'']
      ''run longer AEAD TCP/UDP client soak before stable'',
    capability_row NpVless DirInbound TrTcp CsTls UmUdpOverStream ''uuid'' StUsableNeedsSoak RenderNativeWithWarning BsGoLegacyBaseline EvThirdPartyClientInterop
      ''kelinode/keli-core Xray VLESS TCP TLS behavior''
      ''needs longer client TLS soak and broader SNI/ALPN evidence''
      ''VLESS TCP TLS passed short sing-box interop but still needs soak''
      [''vless tls auth'',
        ''vless tls relay'',
        ''vless tls cert behavior'']
      [''renderer coverage'',
        ''TLS config write coverage'',
        ''2026-05-24 sing-box v1.12.22 remote 1-round vless-tcp-tls probe passed on 2.56.116.39'']
      ''run longer VLESS TCP TLS real-client soak before stable'',
    capability_row NpVless DirInbound TrTcp CsNone UmUdpOverStream ''uuid'' StUsableNeedsSoak RenderNativeWithWarning BsGoLegacyBaseline EvThirdPartyClientInterop
      ''kelinode/keli-core Xray VLESS TCP behavior''
      ''needs broad client soak for TCP and UDP command''
      ''VLESS TCP native path passed short sing-box interop''
      [''vless tcp auth'',
        ''vless tcp relay'',
        ''vless udp command'']
      [''renderer coverage'',
        ''local loopback tests'',
        ''2026-05-24 sing-box v1.12.22 remote 1-round vless-tcp-none probe passed on 2.56.116.39'']
      ''run gray TCP/UDP client soak before stable'',
    capability_row_with_flow NpVless DirInbound TrTcp CsTls UmUdpOverStream ''xtls-rprx-vision'' ''uuid'' StCanaryOnly RenderNativeWithWarning BsGoLegacyBaseline EvThirdPartyClientInterop
      ''kelinode/keli-core Xray VLESS TLS Vision behavior''
      ''needs longer real client Vision TLS soak''
      ''VLESS TLS Vision passed short sing-box interop but remains canary-gated''
      [''vless vision tls validation'',
        ''vless vision tls loopback'']
      [''renderer coverage'',
        ''flow validation coverage'',
        ''2026-05-24 sing-box v1.12.22 remote 1-round vless-tcp-tls-vision probe passed on 2.56.116.39'']
      ''run longer VLESS Vision TLS real-client soak'']"

definition capability_matrix_2 :: "capability_entry list" where
  "capability_matrix_2 =
   [capability_row_with_flow NpVless DirInbound TrTcp CsReality UmUdpOverStream ''xtls-rprx-vision'' ''uuid'' StCanaryOnly RenderNativeWithWarning BsMixed EvThirdPartyClientInterop
      ''Xray VLESS REALITY Vision behavior plus ecosystem clients''
      ''needs longer real client REALITY Vision soak''
      ''REALITY Vision passed short sing-box interop but remains canary-gated''
      [''vless reality vision validation'',
        ''vless reality loopback'']
      [''renderer coverage'',
        ''local reality listener tests'',
        ''2026-05-24 sing-box v1.12.22 remote 1-round vless-reality-vision probe passed on 2.56.116.39'']
      ''run longer v2rayN/NekoBox/sing-box REALITY soak'',
    capability_row NpVless DirInbound TrWs CsNone UmUdpOverStream ''uuid'' StCanaryOnly RenderNativeWithWarning BsGoLegacyBaseline EvThirdPartyClientInterop
      ''kelinode/keli-core Xray VLESS WebSocket behavior''
      ''needs WebSocket fragmentation and browser/CDN soak''
      ''VLESS WS passed short sing-box interop but needs soak''
      [''vless ws upgrade'',
        ''vless ws relay'']
      [''renderer coverage'',
        ''websocket runtime tests'',
        ''2026-05-24 sing-box v1.12.22 remote 1-round vless-ws-none probe passed on 2.56.116.39'']
      ''run CDN-shaped WS client soak before stable'',
    capability_row NpVless DirInbound TrWs CsTls UmUdpOverStream ''uuid'' StCanaryOnly RenderNativeWithWarning BsGoLegacyBaseline EvThirdPartyClientInterop
      ''kelinode/keli-core Xray VLESS WebSocket behavior''
      ''needs WebSocket fragmentation and browser/CDN soak''
      ''VLESS WS/TLS passed short sing-box interop but needs soak''
      [''vless ws upgrade'',
        ''vless tls ws relay'']
      [''renderer coverage'',
        ''websocket runtime tests'',
        ''2026-05-24 sing-box v1.12.22 remote 1-round vless-ws-tls probe passed on 2.56.116.39'']
      ''run CDN-shaped WS client soak before stable'',
    capability_row NpVless DirInbound TrHttpUpgrade CsNone UmUdpOverStream ''uuid'' StCanaryOnly RenderNativeWithWarning BsGoLegacyBaseline EvThirdPartyClientInterop
      ''kelinode/keli-core Xray VLESS HTTPUpgrade behavior''
      ''needs HTTPUpgrade real-client soak''
      ''VLESS HTTPUpgrade passed short sing-box interop but needs soak''
      [''vless httpupgrade upgrade'',
        ''vless httpupgrade relay'']
      [''renderer coverage'',
        ''2026-05-24 sing-box v1.12.22 remote 1-round vless-httpupgrade-none probe passed on 2.56.116.39'']
      ''run HTTPUpgrade real-client soak before stable'',
    capability_row NpVless DirInbound TrHttpUpgrade CsTls UmUdpOverStream ''uuid'' StCanaryOnly RenderNativeWithWarning BsGoLegacyBaseline EvThirdPartyClientInterop
      ''kelinode/keli-core Xray VLESS HTTPUpgrade TLS behavior''
      ''needs HTTPUpgrade TLS real-client soak''
      ''VLESS HTTPUpgrade TLS passed short sing-box interop but needs soak''
      [''vless httpupgrade tls upgrade'',
        ''vless httpupgrade tls relay'']
      [''renderer coverage'',
        ''2026-05-24 sing-box v1.12.22 remote 1-round vless-httpupgrade-tls probe passed on 2.56.116.39'']
      ''run HTTPUpgrade TLS real-client soak before stable'',
    capability_row NpVless DirInbound TrGrpc CsNone UmUdpOverStream ''uuid'' StCanaryOnly RenderNativeWithWarning BsGoLegacyBaseline EvThirdPartyClientInterop
      ''kelinode/keli-core Xray VLESS gRPC behavior''
      ''needs gRPC real-client soak''
      ''VLESS gRPC passed short sing-box interop but needs soak''
      [''vless grpc relay'']
      [''renderer coverage'',
        ''local grpc runtime tests'',
        ''2026-05-24 sing-box v1.12.22 remote 1-round vless-grpc-none probe passed on 2.56.116.39'']
      ''run gRPC real-client soak before stable'']"

definition capability_matrix_3 :: "capability_entry list" where
  "capability_matrix_3 =
   [capability_row NpVless DirInbound TrGrpc CsTls UmUdpOverStream ''uuid'' StCanaryOnly RenderNativeWithWarning BsGoLegacyBaseline EvThirdPartyClientInterop
      ''kelinode/keli-core Xray VLESS gRPC TLS behavior''
      ''needs gRPC TLS real-client soak''
      ''VLESS gRPC TLS passed short sing-box interop but needs soak''
      [''vless grpc tls relay'']
      [''renderer coverage'',
        ''local grpc runtime tests'',
        ''2026-05-24 sing-box v1.12.22 remote 1-round vless-grpc-tls probe passed on 2.56.116.39'']
      ''run gRPC TLS real-client soak before stable'',
    capability_row NpVmess DirInbound TrTcp CsTls UmUdpOverStream ''uuid'' StCanaryOnly RenderNativeWithWarning BsGoLegacyBaseline EvThirdPartyClientInterop
      ''kelinode/keli-core Xray VMess TLS behavior''
      ''needs longer VMess TLS real-client soak''
      ''VMess TLS passed short sing-box interop but remains canary-gated''
      [''vmess tls auth'',
        ''vmess tls relay'']
      [''renderer coverage'',
        ''tls validation coverage'',
        ''2026-05-24 sing-box v1.12.22 remote 1-round vmess-tcp-tls probe passed on 2.56.116.39'']
      ''run VMess TLS real-client soak before stable'',
    capability_row NpVmess DirInbound TrTcp CsNone UmUdpOverStream ''uuid'' StUsableNeedsSoak RenderNativeWithWarning BsGoLegacyBaseline EvThirdPartyClientInterop
      ''kelinode/keli-core Xray VMess AEAD behavior''
      ''needs legacy and AEAD mixed client soak''
      ''VMess TCP native path passed short sing-box interop''
      [''vmess aead auth'',
        ''vmess tcp relay'',
        ''vmess udp over stream'']
      [''renderer coverage'',
        ''local listener smoke'',
        ''2026-05-24 sing-box v1.12.22 remote 1-round vmess-tcp-none probe passed on 2.56.116.39'']
      ''run VMess AEAD and legacy route-outbound soak'',
    capability_row NpVmess DirInbound TrWs CsNone UmUdpOverStream ''uuid'' StCanaryOnly RenderNativeWithWarning BsGoLegacyBaseline EvThirdPartyClientInterop
      ''kelinode/keli-core Xray VMess WebSocket behavior''
      ''needs longer WebSocket third-party client soak''
      ''VMess WS passed short sing-box interop but still needs soak''
      [''vmess ws upgrade'',
        ''vmess ws relay'']
      [''renderer coverage'',
        ''websocket runtime tests'',
        ''2026-05-24 sing-box v1.12.22 remote 1-round vmess-ws-none probe passed on 2.56.116.39'']
      ''run VMess WS real-client soak'',
    capability_row NpVmess DirInbound TrWs CsTls UmUdpOverStream ''uuid'' StCanaryOnly RenderNativeWithWarning BsGoLegacyBaseline EvThirdPartyClientInterop
      ''kelinode/keli-core Xray VMess WebSocket behavior''
      ''needs longer WebSocket third-party client soak''
      ''VMess WS/TLS passed short sing-box interop but still needs soak''
      [''vmess ws upgrade'',
        ''vmess tls ws relay'']
      [''renderer coverage'',
        ''websocket runtime tests'',
        ''2026-05-24 sing-box v1.12.22 remote 1-round vmess-ws-tls probe passed on 2.56.116.39'']
      ''run VMess WS/TLS real-client soak'',
    capability_row NpVmess DirInbound TrHttpUpgrade CsNone UmUdpOverStream ''uuid'' StCanaryOnly RenderNativeWithWarning BsGoLegacyBaseline EvThirdPartyClientInterop
      ''kelinode/keli-core Xray VMess HTTPUpgrade behavior''
      ''needs longer HTTPUpgrade real-client soak''
      ''VMess HTTPUpgrade passed short sing-box interop but still needs soak''
      [''vmess httpupgrade relay'']
      [''renderer coverage'',
        ''2026-05-24 sing-box v1.12.22 remote 1-round vmess-httpupgrade-none probe passed on 2.56.116.39'']
      ''run VMess HTTPUpgrade real-client soak'']"

definition capability_matrix_4 :: "capability_entry list" where
  "capability_matrix_4 =
   [capability_row NpVmess DirInbound TrHttpUpgrade CsTls UmUdpOverStream ''uuid'' StCanaryOnly RenderNativeWithWarning BsGoLegacyBaseline EvThirdPartyClientInterop
      ''kelinode/keli-core Xray VMess HTTPUpgrade TLS behavior''
      ''needs longer HTTPUpgrade TLS real-client soak''
      ''VMess HTTPUpgrade TLS passed short sing-box interop but still needs soak''
      [''vmess httpupgrade tls relay'']
      [''renderer coverage'',
        ''2026-05-24 sing-box v1.12.22 remote 1-round vmess-httpupgrade-tls probe passed on 2.56.116.39'']
      ''run VMess HTTPUpgrade TLS real-client soak'',
    capability_row NpVmess DirInbound TrGrpc CsNone UmUdpOverStream ''uuid'' StCanaryOnly RenderNativeWithWarning BsGoLegacyBaseline EvThirdPartyClientInterop
      ''kelinode/keli-core Xray VMess gRPC behavior''
      ''needs longer gRPC real-client soak''
      ''VMess gRPC passed short sing-box interop but still needs soak''
      [''vmess grpc relay'']
      [''renderer coverage'',
        ''2026-05-24 sing-box v1.12.22 remote 1-round vmess-grpc-none probe passed on 2.56.116.39'']
      ''run VMess gRPC real-client soak'',
    capability_row NpVmess DirInbound TrGrpc CsTls UmUdpOverStream ''uuid'' StCanaryOnly RenderNativeWithWarning BsGoLegacyBaseline EvThirdPartyClientInterop
      ''kelinode/keli-core Xray VMess gRPC TLS behavior''
      ''needs longer gRPC TLS real-client soak''
      ''VMess gRPC TLS passed short sing-box interop but still needs soak''
      [''vmess grpc tls relay'']
      [''renderer coverage'',
        ''2026-05-24 sing-box v1.12.22 remote 1-round vmess-grpc-tls probe passed on 2.56.116.39'']
      ''run VMess gRPC TLS real-client soak'',
    capability_row NpTrojan DirInbound TrTcp CsNone UmUdpOverStream ''password'' StUsableNeedsSoak RenderNativeWithWarning BsGoLegacyBaseline EvThirdPartyClientInterop
      ''kelinode/keli-core Xray Trojan TCP behavior''
      ''needs tail-traffic and mixed-route soak''
      ''Trojan TCP passed short sing-box interop but is not yet stable''
      [''trojan tcp auth'',
        ''trojan tcp relay'',
        ''trojan accounting'']
      [''renderer coverage'',
        ''local auth smoke'',
        ''2026-05-24 sing-box v1.12.22 remote 1-round trojan-tcp-plain probe passed on 2.56.116.39'']
      ''complete longer Trojan TCP accounting and user-delta soak'',
    capability_row NpTrojan DirInbound TrTcp CsTls UmUdpOverStream ''password'' StCanaryOnly RenderNativeWithWarning BsGoLegacyBaseline EvThirdPartyClientInterop
      ''kelinode/keli-core Xray Trojan TLS behavior''
      ''needs longer SNI/ALPN/cert interop and soak''
      ''Trojan TLS passed short sing-box interop but remains canary-only''
      [''trojan tls auth'',
        ''trojan sni cert behavior'']
      [''renderer coverage'',
        ''TLS validation coverage'',
        ''2026-05-24 sing-box v1.12.22 remote 1-round trojan-tcp-tls probe passed on 2.56.116.39'']
      ''run longer Trojan TLS client soak before widening'',
    capability_row NpTrojan DirInbound TrWs CsNone UmUdpOverStream ''password'' StUsableNeedsSoak RenderNativeWithWarning BsGoLegacyBaseline EvProductionObserved
      ''kelinode/keli-core Xray Trojan WebSocket behavior''
      ''needs longer CDN-shaped Host/path/header soak before stable''
      ''Trojan WS passed sing-box interop and real Cloudflare/Sparkle playback on problem-node, but still needs soak''
      [''trojan ws upgrade'',
        ''trojan ws split frames'',
        ''trojan ws close'']
      [''local websocket runtime regression suite'',
        ''2026-05-24 sing-box v1.12.22 remote 3-round trojan-ws-plain probe passed on 2.56.116.39'',
        ''2026-05-25 Sparkle/Chrome YouTube playback via Cloudflare CNAME path passed on problem-node 2.56.116.39'']
      ''run 24-48h CDN-shaped Trojan WS soak before marking stable'']"

definition capability_matrix_5 :: "capability_entry list" where
  "capability_matrix_5 =
   [capability_row NpTrojan DirInbound TrWs CsTls UmUdpOverStream ''password'' StUsableNeedsSoak RenderNativeWithWarning BsGoLegacyBaseline EvProductionObserved
      ''kelinode/keli-core Xray Trojan TLS WebSocket behavior''
      ''needs longer TLS/SNI/ALPN and CDN-shaped client soak before stable''
      ''Trojan TLS WS passed sing-box interop and real Cloudflare/Sparkle playback on problem-node, but still needs soak''
      [''trojan tls ws upgrade'',
        ''trojan ws frame split'',
        ''trojan ping pong'']
      [''local TLS websocket runtime regression suite'',
        ''2026-05-24 sing-box v1.12.22 remote 3-round trojan-ws-tls probe passed on 2.56.116.39'',
        ''2026-05-25 Sparkle/Chrome YouTube playback via Cloudflare CNAME path passed on problem-node 2.56.116.39'']
      ''run 24-48h TLS/CDN-shaped Trojan WS soak before marking stable'',
    capability_row NpTrojan DirInbound TrGrpc CsNone UmUdpOverStream ''password'' StCanaryOnly (Reject ''trojan grpc native inbound requires explicit canary gate and soak'') BsGoLegacyBaseline EvThirdPartyClientInterop
      ''kelinode/keli-core Xray Trojan gRPC behavior''
      ''missing explicit canary gate and longer gRPC client soak''
      ''Trojan plain gRPC passed short sing-box interop but is not production-gated native yet''
      [''trojan grpc relay'']
      [''renderer evidence'',
        ''2026-05-24 sing-box v1.12.22 remote 1-round trojan-grpc-plain probe passed on 2.56.116.39'']
      ''add explicit canary switch and longer Trojan plain gRPC soak'',
    capability_row NpTrojan DirInbound TrGrpc CsTls UmUdpOverStream ''password'' StCanaryOnly (Reject ''trojan grpc native inbound requires explicit canary gate and soak'') BsGoLegacyBaseline EvThirdPartyClientInterop
      ''kelinode/keli-core Xray Trojan gRPC behavior''
      ''missing explicit canary gate and longer gRPC client soak''
      ''Trojan gRPC passed short sing-box interop but is not production-gated native yet''
      [''trojan grpc relay'',
        ''trojan grpc tls relay'']
      [''renderer evidence'',
        ''2026-05-24 sing-box v1.12.22 remote 1-round trojan-grpc-tls probe passed on 2.56.116.39'']
      ''add explicit canary switch and longer Trojan gRPC soak'',
    capability_row NpTrojan DirInbound TrHttpUpgrade CsNone UmUdpOverStream ''password'' StCanaryOnly (Reject ''trojan httpupgrade native inbound requires explicit canary gate and soak'') BsGoLegacyBaseline EvThirdPartyClientInterop
      ''kelinode/keli-core Xray Trojan HTTPUpgrade behavior''
      ''missing explicit canary gate and longer HTTPUpgrade client soak''
      ''Trojan plain HTTPUpgrade passed short sing-box interop but is not production-gated native yet''
      [''trojan httpupgrade relay'']
      [''renderer evidence'',
        ''2026-05-24 sing-box v1.12.22 remote 1-round trojan-httpupgrade-plain probe passed on 2.56.116.39'']
      ''add explicit canary switch and longer Trojan plain HTTPUpgrade soak'',
    capability_row NpTrojan DirInbound TrHttpUpgrade CsTls UmUdpOverStream ''password'' StCanaryOnly (Reject ''trojan httpupgrade native inbound requires explicit canary gate and soak'') BsGoLegacyBaseline EvThirdPartyClientInterop
      ''kelinode/keli-core Xray Trojan HTTPUpgrade behavior''
      ''missing explicit canary gate and longer HTTPUpgrade client soak''
      ''Trojan HTTPUpgrade passed short sing-box interop but is not production-gated native yet''
      [''trojan httpupgrade relay'',
        ''trojan httpupgrade tls relay'']
      [''renderer evidence'',
        ''2026-05-24 sing-box v1.12.22 remote 1-round trojan-httpupgrade-tls probe passed on 2.56.116.39'']
      ''add explicit canary switch and longer Trojan HTTPUpgrade soak'',
    capability_row NpAnyTls DirInbound TrTcp CsNone UmUdpOverStream ''password'' StCanaryOnly RenderNativeWithWarning BsEcosystemInteropBaseline EvThirdPartyClientInterop
      ''sing-box AnyTLS behavior and ecosystem clients''
      ''needs real-client padding and soak evidence''
      ''AnyTLS plain listener is accepted for panel compatibility but canary-only''
      [''anytls auth'',
        ''anytls relay'']
      [''renderer coverage'',
        ''local listener smoke'']
      ''prefer TLS AnyTLS and run ecosystem client soak'']"

definition capability_matrix_6 :: "capability_entry list" where
  "capability_matrix_6 =
   [capability_row NpAnyTls DirInbound TrTcp CsTls UmUdpOverStream ''password'' StCanaryOnly RenderNativeWithWarning BsEcosystemInteropBaseline EvLocalLoopback
      ''sing-box AnyTLS behavior and ecosystem clients''
      ''needs longer real-client padding and soak evidence''
      ''AnyTLS TLS passed short sing-box interop but remains canary-only''
      [''anytls auth'',
        ''anytls padding'',
        ''anytls relay'']
      [''renderer coverage'',
        ''local listener smoke'',
        ''2026-05-24 sing-box v1.12.22 remote 1-round anytls-tls probe passed on 2.56.116.39'']
      ''run longer ecosystem client AnyTLS soak'',
    capability_row NpHysteria2 DirInbound TrQuic CsTls UmNativeUdp ''password'' StUsableNeedsSoak RenderNativeWithWarning BsMixed EvThirdPartyClientInterop
      ''Go legacy HY2 behavior plus official/third-party QUIC clients''
      ''needs longer TCP/UDP QUIC soak and congestion evidence''
      ''HY2 TCP/UDP native path passed short sing-box QUIC interop''
      [''hy2 password auth'',
        ''hy2 tcp relay'',
        ''hy2 udp relay'']
      [''renderer coverage'',
        ''local QUIC regression tests'',
        ''2026-05-24 sing-box v1.12.22 remote 1-round hy2-tls and hy2-salamander probes passed on 2.56.116.39'']
      ''run longer remote QUIC soak on high ports before stable'',
    capability_row NpTuic DirInbound TrQuic CsTls UmNativeUdp ''uuid_password'' StUsableNeedsSoak RenderNativeWithWarning BsMixed EvThirdPartyClientInterop
      ''TUIC protocol behavior plus ecosystem clients''
      ''needs longer TCP/UDP QUIC soak and zero-RTT rejection evidence''
      ''TUIC TCP/UDP native path passed short sing-box QUIC interop''
      [''tuic auth'',
        ''tuic tcp relay'',
        ''tuic udp relay'']
      [''renderer coverage'',
        ''local QUIC regression tests'',
        ''2026-05-24 sing-box v1.12.22 remote 1-round tuic-tls probe passed on 2.56.116.39'']
      ''run longer TUIC remote soak before stable'',
    capability_row NpNaive DirInbound TrH2 CsTls UmNone ''basic_auth'' StCanaryOnly RenderNativeWithWarning BsOfficialUpstreamBaseline EvOfficialClientInterop
      ''official NaiveProxy H2/TLS CONNECT behavior''
      ''missing SoakTested evidence''
      ''Naive H2/TLS passed short official-client interop but cannot be Stable without soak''
      [''naive h2 connect'',
        ''naive basic auth'',
        ''naive padding'']
      [''local h2 listener tests'',
        ''2026-05-24 official NaiveProxy remote 3-round H2/TLS probe passed on 2.56.116.39'']
      ''run official NaiveProxy client script and soak'',
    capability_row NpNaive DirInbound TrQuic CsTls UmNone ''basic_auth'' StCanaryOnly RenderNativeWithWarning BsOfficialUpstreamBaseline EvLocalLoopback
      ''official NaiveProxy H3/QUIC CONNECT behavior''
      ''official-client H3 probe failed certificate validation; missing OfficialClientInterop + SoakTested evidence''
      ''Naive H3/QUIC remains canary until official-client certificate validation and soak pass''
      [''naive h3 connect'',
        ''naive h3 reconnect'',
        ''naive h3 auth'']
      [''local h3 loopback tests'',
        ''2026-05-24 official NaiveProxy remote H3/QUIC probe failed certificate unknown on 2.56.116.39'']
      ''run official NaiveProxy H3 client and soak before widening'',
    capability_row NpMieru DirInbound TrTcp CsNone UmUdpOverStream ''username_password'' StCanaryOnly RenderNativeWithWarning BsOfficialUpstreamBaseline EvOfficialClientInterop
      ''official Mieru TCP underlay protocol behavior''
      ''missing SoakTested evidence''
      ''Mieru TCP underlay passed short official-client interop but cannot be Stable without soak''
      [''mieru tcp underlay'',
        ''mieru stream demux'',
        ''mieru udp associate over tcp'']
      [''renderer coverage'',
        ''local listener smoke'',
        ''2026-05-24 official Mieru v3.32.0 remote 3-round TCP/UDP-associate probe passed on 2.56.116.39'']
      ''run longer official Mieru soak before widening'']"

definition capability_matrix_7 :: "capability_entry list" where
  "capability_matrix_7 =
   [capability_row NpMieru DirInbound TrUdp CsNone UmNativeUdp ''username_password'' StUnsupported (Reject ''mieru udp underlay is not implemented in native core'') BsOfficialUpstreamBaseline EvUnitOnly
      ''official Mieru UDP underlay protocol behavior''
      ''implementation missing; OfficialClientInterop + SoakTested impossible yet''
      ''Mieru UDP underlay is explicitly unsupported''
      [''mieru udp underlay reject'']
      [''capability matrix evidence'']
      ''implement UDP underlay before adding interop'',
    capability_row NpDirect DirOutbound TrDirect CsNone UmNativeUdp ''none'' StUsableNeedsSoak RenderNative BsGoLegacyBaseline EvLocalLoopback
      ''keli-core freedom/direct outbound behavior''
      ''needs longer route soak''
      ''Direct outbound is the native default outbound''
      [''direct tcp route'',
        ''direct udp route'']
      [''renderer coverage'']
      ''keep route soak evidence current'',
    capability_row NpDns DirOutbound TrUdp CsNone UmNativeUdp ''none'' StUsableNeedsSoak RenderNativeWithWarning BsGoLegacyBaseline EvLocalLoopback
      ''Go/Xray DNS route behavior''
      ''DoH/DoT and production resolver soak still missing''
      ''DNS UDP/tcp route rendering is partial but explicit''
      [''dns udp resolution'',
        ''dns private ip guard'']
      [''renderer coverage'',
        ''local resolver tests'']
      ''run DNS route soak with production resolver set'',
    capability_row NpRoute DirInbound TrDirect CsNone UmNativeUdp ''none'' StUsableNeedsSoak RenderNativeWithWarning BsGoLegacyBaseline EvLocalLoopback
      ''Go/Xray route, block, and custom outbound behavior''
      ''geo data and custom outbound soak still partial''
      ''Route/block/custom outbound rendering rejects unsupported options loudly''
      [''domain block'',
        ''ip cidr block'',
        ''custom outbound route'']
      [''renderer coverage'',
        ''route validation coverage'']
      ''run route matrix soak with geosite/geoip fixtures'']"

definition native_capability_matrix :: "capability_entry list" where
  "native_capability_matrix =
     capability_matrix_1 @ capability_matrix_2 @ capability_matrix_3 @ capability_matrix_4 @
     capability_matrix_5 @ capability_matrix_6 @ capability_matrix_7"

definition capability_key_matches :: "capability_key \<Rightarrow> capability_key \<Rightarrow> bool" where
  "capability_key_matches matrix_key requested \<longleftrightarrow>
     ck_protocol matrix_key = ck_protocol requested \<and>
     ck_direction matrix_key = ck_direction requested \<and>
     ck_transport matrix_key = ck_transport requested \<and>
     ck_security matrix_key = ck_security requested \<and>
     ck_udp_mode matrix_key = ck_udp_mode requested \<and>
     ck_flow matrix_key = ck_flow requested"

definition lookup_capability_entry :: "capability_key \<Rightarrow> capability_entry option" where
  "lookup_capability_entry key = find (\<lambda>e. capability_key_matches (ce_key e) key) native_capability_matrix"

definition unsupported_capability_entry :: "capability_key \<Rightarrow> string \<Rightarrow> capability_entry" where
  "unsupported_capability_entry key reason =
     \<lparr>ce_key = key, ce_status = StUnsupported, ce_decision = Reject reason, ce_baseline_source = BsMixed,
      ce_baseline_reference = ''native capability matrix'', ce_baseline_gap = ''no matching capability entry'',
      ce_evidence_level = EvUnitOnly, ce_reason = reason,
      ce_required_tests = [''add explicit capability matrix entry''],
      ce_current_evidence = [''capability lookup miss''],
      ce_next_action = ''classify this combination before native rendering''\<rparr>"

section \<open>Rows\<close>

lemmas capability_rows =
  native_capability_matrix_def capability_matrix_1_def capability_matrix_2_def capability_matrix_3_def
  capability_matrix_4_def capability_matrix_5_def capability_matrix_6_def capability_matrix_7_def

text \<open>The dimensions by which a row is found.\<close>

definition key_dimensions ::
  "capability_key \<Rightarrow> native_protocol \<times> capability_direction \<times> capability_transport \<times> capability_security \<times>
     udp_mode \<times> string" where
  "key_dimensions k = (ck_protocol k, ck_direction k, ck_transport k, ck_security k, ck_udp_mode k, ck_flow k)"

lemma capability_key_matches_iff: "capability_key_matches a b \<longleftrightarrow> key_dimensions a = key_dimensions b"
  by (auto simp: capability_key_matches_def key_dimensions_def)

fun renders :: "render_decision \<Rightarrow> bool" where
  "renders RenderNative = True"
| "renders RenderNativeWithWarning = True"
| "renders _ = False"

text \<open>What the gate and the reports read of a row, for all the rows.\<close>

definition row_gist ::
  "capability_entry \<Rightarrow> (native_protocol \<times> capability_direction \<times> capability_transport \<times> capability_security \<times>
     udp_mode \<times> string) \<times> capability_status \<times> bool \<times> evidence_level" where
  "row_gist e = (key_dimensions (ce_key e), ce_status e, renders (ce_decision e), ce_evidence_level e)"

lemma row_gist_row:
  "row_gist (capability_row p d t s u um st dec bs ev a b c ts es n) =
     ((p, d, t, s, u, ''none''), st, renders dec, ev)"
  "row_gist (capability_row_with_flow p d t s u f um st dec bs ev a b c ts es n) =
     ((p, d, t, s, u, f), st, renders dec, ev)"
  by (simp_all add: row_gist_def key_dimensions_def capability_row_def capability_row_with_flow_def)

lemma matrix_gists:
  "map row_gist native_capability_matrix =
     [((NpSocks, DirInbound, TrTcp, CsNone, UmUdpAssociate, ''none''), StUsableNeedsSoak, True, EvThirdPartyClientInterop),
      ((NpHttp, DirInbound, TrTcp, CsNone, UmNone, ''none''), StUsableNeedsSoak, True, EvThirdPartyClientInterop),
      ((NpShadowsocks, DirInbound, TrTcp, CsNone, UmNativeUdp, ''none''), StUsableNeedsSoak, True, EvThirdPartyClientInterop),
      ((NpVless, DirInbound, TrTcp, CsTls, UmUdpOverStream, ''none''), StUsableNeedsSoak, True, EvThirdPartyClientInterop),
      ((NpVless, DirInbound, TrTcp, CsNone, UmUdpOverStream, ''none''), StUsableNeedsSoak, True, EvThirdPartyClientInterop),
      ((NpVless, DirInbound, TrTcp, CsTls, UmUdpOverStream, ''xtls-rprx-vision''), StCanaryOnly, True, EvThirdPartyClientInterop),
      ((NpVless, DirInbound, TrTcp, CsReality, UmUdpOverStream, ''xtls-rprx-vision''), StCanaryOnly, True, EvThirdPartyClientInterop),
      ((NpVless, DirInbound, TrWs, CsNone, UmUdpOverStream, ''none''), StCanaryOnly, True, EvThirdPartyClientInterop),
      ((NpVless, DirInbound, TrWs, CsTls, UmUdpOverStream, ''none''), StCanaryOnly, True, EvThirdPartyClientInterop),
      ((NpVless, DirInbound, TrHttpUpgrade, CsNone, UmUdpOverStream, ''none''), StCanaryOnly, True, EvThirdPartyClientInterop),
      ((NpVless, DirInbound, TrHttpUpgrade, CsTls, UmUdpOverStream, ''none''), StCanaryOnly, True, EvThirdPartyClientInterop),
      ((NpVless, DirInbound, TrGrpc, CsNone, UmUdpOverStream, ''none''), StCanaryOnly, True, EvThirdPartyClientInterop),
      ((NpVless, DirInbound, TrGrpc, CsTls, UmUdpOverStream, ''none''), StCanaryOnly, True, EvThirdPartyClientInterop),
      ((NpVmess, DirInbound, TrTcp, CsTls, UmUdpOverStream, ''none''), StCanaryOnly, True, EvThirdPartyClientInterop),
      ((NpVmess, DirInbound, TrTcp, CsNone, UmUdpOverStream, ''none''), StUsableNeedsSoak, True, EvThirdPartyClientInterop),
      ((NpVmess, DirInbound, TrWs, CsNone, UmUdpOverStream, ''none''), StCanaryOnly, True, EvThirdPartyClientInterop),
      ((NpVmess, DirInbound, TrWs, CsTls, UmUdpOverStream, ''none''), StCanaryOnly, True, EvThirdPartyClientInterop),
      ((NpVmess, DirInbound, TrHttpUpgrade, CsNone, UmUdpOverStream, ''none''), StCanaryOnly, True, EvThirdPartyClientInterop),
      ((NpVmess, DirInbound, TrHttpUpgrade, CsTls, UmUdpOverStream, ''none''), StCanaryOnly, True, EvThirdPartyClientInterop),
      ((NpVmess, DirInbound, TrGrpc, CsNone, UmUdpOverStream, ''none''), StCanaryOnly, True, EvThirdPartyClientInterop),
      ((NpVmess, DirInbound, TrGrpc, CsTls, UmUdpOverStream, ''none''), StCanaryOnly, True, EvThirdPartyClientInterop),
      ((NpTrojan, DirInbound, TrTcp, CsNone, UmUdpOverStream, ''none''), StUsableNeedsSoak, True, EvThirdPartyClientInterop),
      ((NpTrojan, DirInbound, TrTcp, CsTls, UmUdpOverStream, ''none''), StCanaryOnly, True, EvThirdPartyClientInterop),
      ((NpTrojan, DirInbound, TrWs, CsNone, UmUdpOverStream, ''none''), StUsableNeedsSoak, True, EvProductionObserved),
      ((NpTrojan, DirInbound, TrWs, CsTls, UmUdpOverStream, ''none''), StUsableNeedsSoak, True, EvProductionObserved),
      ((NpTrojan, DirInbound, TrGrpc, CsNone, UmUdpOverStream, ''none''), StCanaryOnly, False, EvThirdPartyClientInterop),
      ((NpTrojan, DirInbound, TrGrpc, CsTls, UmUdpOverStream, ''none''), StCanaryOnly, False, EvThirdPartyClientInterop),
      ((NpTrojan, DirInbound, TrHttpUpgrade, CsNone, UmUdpOverStream, ''none''), StCanaryOnly, False, EvThirdPartyClientInterop),
      ((NpTrojan, DirInbound, TrHttpUpgrade, CsTls, UmUdpOverStream, ''none''), StCanaryOnly, False, EvThirdPartyClientInterop),
      ((NpAnyTls, DirInbound, TrTcp, CsNone, UmUdpOverStream, ''none''), StCanaryOnly, True, EvThirdPartyClientInterop),
      ((NpAnyTls, DirInbound, TrTcp, CsTls, UmUdpOverStream, ''none''), StCanaryOnly, True, EvLocalLoopback),
      ((NpHysteria2, DirInbound, TrQuic, CsTls, UmNativeUdp, ''none''), StUsableNeedsSoak, True, EvThirdPartyClientInterop),
      ((NpTuic, DirInbound, TrQuic, CsTls, UmNativeUdp, ''none''), StUsableNeedsSoak, True, EvThirdPartyClientInterop),
      ((NpNaive, DirInbound, TrH2, CsTls, UmNone, ''none''), StCanaryOnly, True, EvOfficialClientInterop),
      ((NpNaive, DirInbound, TrQuic, CsTls, UmNone, ''none''), StCanaryOnly, True, EvLocalLoopback),
      ((NpMieru, DirInbound, TrTcp, CsNone, UmUdpOverStream, ''none''), StCanaryOnly, True, EvOfficialClientInterop),
      ((NpMieru, DirInbound, TrUdp, CsNone, UmNativeUdp, ''none''), StUnsupported, False, EvUnitOnly),
      ((NpDirect, DirOutbound, TrDirect, CsNone, UmNativeUdp, ''none''), StUsableNeedsSoak, True, EvLocalLoopback),
      ((NpDns, DirOutbound, TrUdp, CsNone, UmNativeUdp, ''none''), StUsableNeedsSoak, True, EvLocalLoopback),
      ((NpRoute, DirInbound, TrDirect, CsNone, UmNativeUdp, ''none''), StUsableNeedsSoak, True, EvLocalLoopback)]"
  by (simp add: capability_rows row_gist_row)

lemma matrix_dimensions: "map (\<lambda>e. key_dimensions (ce_key e)) native_capability_matrix = map fst (map row_gist native_capability_matrix)"
  by (simp add: row_gist_def)

lemma matrix_dimensions_distinct: "distinct (map (\<lambda>e. key_dimensions (ce_key e)) native_capability_matrix)"
  by (simp add: matrix_dimensions matrix_gists del: map_map)

lemma row_gist_in: "e \<in> set native_capability_matrix \<Longrightarrow> row_gist e \<in> set (map row_gist native_capability_matrix)"
  by simp

lemma distinct_map_inj: "distinct (map f xs) \<Longrightarrow> x \<in> set xs \<Longrightarrow> y \<in> set xs \<Longrightarrow> f x = f y \<Longrightarrow> x = y"
  by (simp add: distinct_map inj_on_def)

text \<open>
  no row of the matrix is shadowed by another: the lookup of a combination gives a row exactly
  when the matrix has that row for it, and no combination has two.
\<close>

lemma lookup_capability_entry_iff:
  "lookup_capability_entry key = Some e \<longleftrightarrow>
     e \<in> set native_capability_matrix \<and> capability_key_matches (ce_key e) key"
proof
  assume "lookup_capability_entry key = Some e"
  then show "e \<in> set native_capability_matrix \<and> capability_key_matches (ce_key e) key"
    by (auto simp: lookup_capability_entry_def find_Some_iff)
next
  assume e: "e \<in> set native_capability_matrix \<and> capability_key_matches (ce_key e) key"
  then have "lookup_capability_entry key \<noteq> None"
    by (auto simp: lookup_capability_entry_def find_None_iff)
  then obtain e' where e': "lookup_capability_entry key = Some e'" by blast
  then have "e' \<in> set native_capability_matrix" "capability_key_matches (ce_key e') key"
    by (auto simp: lookup_capability_entry_def find_Some_iff)
  with e have "e' = e"
    by (intro distinct_map_inj [OF matrix_dimensions_distinct]) (auto simp: capability_key_matches_iff)
  with e' show "lookup_capability_entry key = Some e" by simp
qed

text \<open>The rows that are not rendered, and the ones with a flow or with Reality.\<close>

lemma matrix_refused_rows:
  assumes "e \<in> set native_capability_matrix" "\<not> renders (ce_decision e)"
  shows "ck_protocol (ce_key e) = NpTrojan \<and> ce_status e = StCanaryOnly \<and>
      (ck_transport (ce_key e) = TrGrpc \<or> ck_transport (ce_key e) = TrHttpUpgrade) \<or>
    ck_protocol (ce_key e) = NpMieru \<and> ce_status e = StUnsupported \<and> ck_transport (ce_key e) = TrUdp"
  using row_gist_in [OF assms(1)] assms(2) unfolding matrix_gists by (auto simp: row_gist_def key_dimensions_def)

lemma matrix_flow_rows:
  assumes "e \<in> set native_capability_matrix" "ck_flow (ce_key e) \<noteq> ''none'' \<or> ck_security (ce_key e) = CsReality"
  shows "ck_protocol (ce_key e) = NpVless \<and> ck_transport (ce_key e) = TrTcp \<and> ck_flow (ce_key e) = ''xtls-rprx-vision'' \<and>
    (ck_security (ce_key e) = CsTls \<or> ck_security (ce_key e) = CsReality)"
  using row_gist_in [OF assms(1)] assms(2) unfolding matrix_gists by (auto simp: row_gist_def key_dimensions_def)

text \<open>
  The rows of Trojan over WebSocket are rendered by default, and the AnyTLS row with TLS records
  loopback evidence only, where \<open>docs/NATIVE_CORE_CAPABILITY_MATRIX.md\<close> says otherwise.
\<close>

lemma matrix_differs_from_document:
  "[((NpTrojan, DirInbound, TrWs, CsNone, UmUdpOverStream, ''none''), StUsableNeedsSoak, True, EvProductionObserved),
    ((NpTrojan, DirInbound, TrWs, CsTls, UmUdpOverStream, ''none''), StUsableNeedsSoak, True, EvProductionObserved),
    ((NpAnyTls, DirInbound, TrTcp, CsTls, UmUdpOverStream, ''none''), StCanaryOnly, True, EvLocalLoopback)] =
   filter (\<lambda>(d, _). fst d = NpTrojan \<and> fst (snd (snd d)) = TrWs \<or> fst d = NpAnyTls \<and> fst (snd (snd (snd d))) = CsTls)
     (map row_gist native_capability_matrix)"
  by (simp add: matrix_gists)

text \<open>An allow list opens canary rows only, and never an empty token.\<close>

lemma allow_list_canary_only:
  "entry_allowed_by_explicit_canary_allow_list e allow_list \<Longrightarrow>
     ce_status e = StCanaryOnly \<and> is_reject (ce_decision e) \<and> allow_list \<noteq> None"
  by (auto simp: entry_allowed_by_explicit_canary_allow_list_def split: if_splits option.splits)

end
