(* ===== verification/Json.thy ===== *)
theory Json
  imports Panel_Types
begin

text \<open>
  The operations of \<open>serde_json::Value\<close> that the renderers use, and the early-return checks.
  An object is a \<open>BTreeMap\<close> (the crate is built without \<open>preserve_order\<close>), so building one
  sorts its members by key and keeps the last value of a repeated key.
\<close>

fun json_get :: "json \<Rightarrow> string \<Rightarrow> json option" where
  "json_get (JObject m) key = bt_get m key"
| "json_get _ key = None"

fun json_as_str :: "json \<Rightarrow> string option" where
  "json_as_str (JString s) = Some s"
| "json_as_str _ = None"

fun json_as_u64 :: "json \<Rightarrow> nat option" where
  "json_as_u64 (JNumber n) = as_u64 n"
| "json_as_u64 _ = None"

fun json_as_bool :: "json \<Rightarrow> bool option" where
  "json_as_bool (JBool b) = Some b"
| "json_as_bool _ = None"

fun json_as_array :: "json \<Rightarrow> json list option" where
  "json_as_array (JArray vs) = Some vs"
| "json_as_array _ = None"

fun json_as_object :: "json \<Rightarrow> (string \<times> json) list option" where
  "json_as_object (JObject m) = Some m"
| "json_as_object _ = None"

abbreviation json_is_string :: "json \<Rightarrow> bool" where
  "json_is_string v \<equiv> json_as_str v \<noteq> None"

abbreviation json_is_object :: "json \<Rightarrow> bool" where
  "json_is_object v \<equiv> json_as_object v \<noteq> None"

abbreviation json_is_boolean :: "json \<Rightarrow> bool" where
  "json_is_boolean v \<equiv> json_as_bool v \<noteq> None"

definition json_obj :: "(string \<times> json) list \<Rightarrow> json" where
  "json_obj members = JObject (bt_collect members)"

definition json_nat :: "nat \<Rightarrow> json" where
  "json_nat n = JNumber (PosInt n)"

definition json_opt :: "('a \<Rightarrow> json) \<Rightarrow> 'a option \<Rightarrow> json" where
  "json_opt f v = (case v of Some x \<Rightarrow> f x | None \<Rightarrow> JNull)"

definition json_strings :: "string list \<Rightarrow> json" where
  "json_strings ss = JArray (map JString ss)"

lemma json_get_obj: "json_get (json_obj members) key = map_of (rev members) key"
  by (simp add: json_obj_def bt_collect_get)

text \<open>\<open>Option::or_else\<close> and \<open>Option::filter\<close>.\<close>

fun or_else :: "'a option \<Rightarrow> 'a option \<Rightarrow> 'a option" where
  "or_else (Some x) b = Some x"
| "or_else None b = b"

definition opt_filter :: "('a \<Rightarrow> bool) \<Rightarrow> 'a option \<Rightarrow> 'a option" where
  "opt_filter P v = (case v of Some x \<Rightarrow> if P x then Some x else None | None \<Rightarrow> None)"

text \<open>A sequence of \<open>if condition { return Err(message) }\<close>.\<close>

fun checks :: "(bool \<times> string) list \<Rightarrow> unit result" where
  "checks [] = Ok ()"
| "checks ((failed, message) # rest) = (if failed then Err message else checks rest)"

lemma checks_ok [simp]: "is_ok (checks cs) \<longleftrightarrow> (\<forall>c \<in> set cs. \<not> fst c)"
  by (induction cs rule: checks.induct) auto

lemma checks_Inr [simp]: "checks cs = Inr u \<longleftrightarrow> (\<forall>c \<in> set cs. \<not> fst c)"
  by (induction cs rule: checks.induct) auto

text \<open>A loop that stops at the first error of a check.\<close>

fun check_each :: "('a \<Rightarrow> unit result) \<Rightarrow> 'a list \<Rightarrow> unit result" where
  "check_each f [] = Ok ()"
| "check_each f (x # xs) = and_then (f x) (\<lambda>_. check_each f xs)"

lemma check_each_ok [simp]: "is_ok (check_each f xs) \<longleftrightarrow> (\<forall>x \<in> set xs. is_ok (f x))"
proof (induction xs)
  case (Cons x xs)
  then show ?case by (cases "f x") auto
qed simp

lemma check_each_Inr: "check_each f xs = Inr u \<longleftrightarrow> (\<forall>x \<in> set xs. f x = Inr ())"
proof (induction xs)
  case (Cons x xs)
  then show ?case by (cases "f x") auto
qed simp

text \<open>\<open>str::strip_prefix\<close>.\<close>

fun strip_prefix :: "string \<Rightarrow> string \<Rightarrow> string option" where
  "strip_prefix [] s = Some s"
| "strip_prefix (p # ps) [] = None"
| "strip_prefix (p # ps) (c # s) = (if p = c then strip_prefix ps s else None)"

lemma strip_prefix_Some: "strip_prefix p s = Some r \<longleftrightarrow> s = p @ r"
  by (induction p s rule: strip_prefix.induct) auto

lemma strip_prefix_None: "strip_prefix p s = None \<longleftrightarrow> \<not> prefix p s"
  by (metis (no_types, lifting) not_Some_eq prefixE prefixI strip_prefix_Some)

end
