(* ===== verification/Ip_Addr.thy ===== *)
theory Ip_Addr
  imports Prelude
begin

text \<open>
  The textual addresses of \<open>std::net::IpAddr\<close>, as its \<open>FromStr\<close> reads them: four decimal octets
  without leading zeros, or up to eight groups of one to four hexadecimal digits with at most one
  \<open>::\<close> and an optional dotted tail. A reader takes the text and gives the value read with what is
  left of the text; a reader that fails consumes nothing.
\<close>

datatype ip_addr = IpV4 "nat list" | IpV6 "nat list"

definition radix_digit :: "nat \<Rightarrow> char \<Rightarrow> nat option" where
  "radix_digit radix c =
     (let n = char_code c;
          d = (if 48 \<le> n \<and> n \<le> 57 then Some (n - 48)
               else if 97 \<le> n \<and> n \<le> 122 then Some (n - 97 + 10)
               else if 65 \<le> n \<and> n \<le> 90 then Some (n - 65 + 10)
               else None)
      in case d of Some k \<Rightarrow> if k < radix then Some k else None | None \<Rightarrow> None)"

fun radix_value :: "nat \<Rightarrow> nat \<Rightarrow> string \<Rightarrow> nat" where
  "radix_value radix acc [] = acc"
| "radix_value radix acc (c # s) =
     (case radix_digit radix c of Some d \<Rightarrow> radix_value radix (acc * radix + d) s | None \<Rightarrow> acc)"

definition read_number :: "nat \<Rightarrow> nat \<Rightarrow> bool \<Rightarrow> nat \<Rightarrow> string \<Rightarrow> (nat \<times> string) option" where
  "read_number radix max_digits allow_zero_prefix limit s =
     (let digits = takeWhile (\<lambda>c. radix_digit radix c \<noteq> None) s; n = radix_value radix 0 digits
      in if length digits > max_digits then None
         else if digits = [] then None
         else if \<not> allow_zero_prefix \<and> hd digits = CHR ''0'' \<and> length digits > 1 then None
         else if n \<le> limit then Some (n, drop (length digits) s) else None)"

definition read_separator :: "char \<Rightarrow> nat \<Rightarrow> (string \<Rightarrow> ('a \<times> string) option) \<Rightarrow> string \<Rightarrow> ('a \<times> string) option" where
  "read_separator sep i inner s =
     (if i = 0 then inner s
      else case s of c # r \<Rightarrow> if c = sep then inner r else None | [] \<Rightarrow> None)"

fun read_octets :: "nat \<Rightarrow> nat \<Rightarrow> string \<Rightarrow> (nat list \<times> string) option" where
  "read_octets 0 i s = Some ([], s)"
| "read_octets (Suc k) i s =
     (case read_separator (CHR ''.'') i (read_number 10 3 False 255) s of
        None \<Rightarrow> None
      | Some (n, s') \<Rightarrow>
          (case read_octets k (i + 1) s' of None \<Rightarrow> None | Some (ns, s'') \<Rightarrow> Some (n # ns, s'')))"

definition read_ipv4_addr :: "string \<Rightarrow> (nat list \<times> string) option" where
  "read_ipv4_addr = read_octets 4 0"

text \<open>Up to \<open>r\<close> more groups after \<open>i\<close> groups; the flag says that a dotted tail was read.\<close>

fun read_groups :: "nat \<Rightarrow> nat \<Rightarrow> string \<Rightarrow> nat list \<times> bool \<times> string" where
  "read_groups 0 i s = ([], False, s)"
| "read_groups (Suc r) i s =
     (case (if 0 < r then read_separator (CHR '':'') i read_ipv4_addr s else None) of
        Some (ns, s') \<Rightarrow> ([ns ! 0 * 256 + ns ! 1, ns ! 2 * 256 + ns ! 3], True, s')
      | None \<Rightarrow>
          (case read_separator (CHR '':'') i (read_number 16 4 True 65535) s of
             None \<Rightarrow> ([], False, s)
           | Some (n, s') \<Rightarrow> (case read_groups r (i + 1) s' of (ns, v4, s'') \<Rightarrow> (n # ns, v4, s''))))"

definition read_ipv6_addr :: "string \<Rightarrow> (nat list \<times> string) option" where
  "read_ipv6_addr s =
     (case read_groups 8 0 s of
        (head, head_ipv4, s1) \<Rightarrow>
          if length head = 8 then Some (head, s1)
          else if head_ipv4 then None
          else case s1 of
            c # d # s2 \<Rightarrow>
              if c = CHR '':'' \<and> d = CHR '':''
              then (case read_groups (8 - (length head + 1)) 0 s2 of
                      (tail, _, s3) \<Rightarrow> Some (head @ replicate (8 - length head - length tail) 0 @ tail, s3))
              else None
          | _ \<Rightarrow> None)"

definition parse_ip_addr :: "string \<Rightarrow> ip_addr option" where
  "parse_ip_addr s =
     (case (case read_ipv4_addr s of
              Some (ns, r) \<Rightarrow> Some (IpV4 ns, r)
            | None \<Rightarrow> (case read_ipv6_addr s of Some (ns, r) \<Rightarrow> Some (IpV6 ns, r) | None \<Rightarrow> None)) of
        Some (addr, []) \<Rightarrow> Some addr
      | _ \<Rightarrow> None)"

section \<open>What is read\<close>

lemma read_octets_bounds:
  "read_octets k i s = Some (ns, r) \<Longrightarrow> length ns = k \<and> (\<forall>n \<in> set ns. n \<le> 255)"
proof (induction k i s arbitrary: ns r rule: read_octets.induct)
  case (2 k i s)
  then obtain n s' ms where n: "read_separator (CHR ''.'') i (read_number 10 3 False 255) s = Some (n, s')"
    "read_octets k (i + 1) s' = Some (ms, r)" "ns = n # ms" by (auto split: option.splits)
  have "n \<le> 255" using n(1)
    by (auto simp: read_separator_def read_number_def Let_def split: if_splits list.splits)
  with 2 n show ?case by auto
qed auto

lemma read_groups_bounds:
  "read_groups k i s = (ns, v4, r) \<Longrightarrow> length ns \<le> k \<and> (\<forall>n \<in> set ns. n \<le> 65535)"
proof (induction k i s arbitrary: ns v4 r rule: read_groups.induct)
  case (2 k i s)
  show ?case
  proof (cases "if 0 < k then read_separator (CHR '':'') i read_ipv4_addr s else None")
    case (Some p)
    then obtain os s' where o: "read_separator (CHR '':'') i read_ipv4_addr s = Some (os, s')" "0 < k"
      by (cases p) (auto split: if_splits)
    then obtain t where "read_octets 4 0 t = Some (os, s')"
      by (auto simp: read_separator_def read_ipv4_addr_def split: if_splits list.splits)
    from read_octets_bounds [OF this] have "length os = 4" "\<forall>n \<in> set os. n \<le> 255" by auto
    then have "os ! 0 \<le> 255" "os ! 1 \<le> 255" "os ! 2 \<le> 255" "os ! 3 \<le> 255" by auto
    then show ?thesis using o 2(2) by (auto simp: Some)
  next
    case None
    show ?thesis
    proof (cases "read_separator (CHR '':'') i (read_number 16 4 True 65535) s")
      case (Some p)
      obtain n s' where p: "p = (n, s')" by (cases p)
      obtain ms v s'' where m: "read_groups k (i + 1) s' = (ms, v, s'')" by (metis prod.exhaust)
      have "n \<le> 65535" using Some p
        by (auto simp: read_separator_def read_number_def Let_def split: if_splits list.splits)
      moreover have "length ms \<le> k \<and> (\<forall>n \<in> set ms. n \<le> 65535)" using 2(1) [OF None Some p [symmetric] m] .
      ultimately show ?thesis using 2(2) None Some p m by auto
    qed (use 2(2) None in auto)
  qed
qed auto

text \<open>An address is four octets or eight groups, each within its range.\<close>

fun ip_ok :: "ip_addr \<Rightarrow> bool" where
  "ip_ok (IpV4 ns) \<longleftrightarrow> length ns = 4 \<and> list_all (\<lambda>n. n \<le> 255) ns"
| "ip_ok (IpV6 ns) \<longleftrightarrow> length ns = 8 \<and> list_all (\<lambda>n. n \<le> 65535) ns"

lemma read_ipv6_bounds:
  assumes "read_ipv6_addr s = Some (ns, r)"
  shows "length ns = 8 \<and> (\<forall>n \<in> set ns. n \<le> 65535)"
proof -
  obtain h v s1 where h: "read_groups 8 0 s = (h, v, s1)" by (metis prod.exhaust)
  note hb = read_groups_bounds [OF h]
  show ?thesis
  proof (cases "length h = 8")
    case True
    with assms h hb show ?thesis by (auto simp: read_ipv6_addr_def)
  next
    case False
    with assms h obtain s2 t v' s3 where t: "read_groups (8 - (length h + 1)) 0 s2 = (t, v', s3)"
      "ns = h @ replicate (8 - length h - length t) 0 @ t"
      by (auto simp: read_ipv6_addr_def split: if_splits list.splits prod.splits)
    from read_groups_bounds [OF t(1)] hb False t(2) show ?thesis by auto
  qed
qed

lemma parse_ip_addr_ok: "parse_ip_addr s = Some a \<Longrightarrow> ip_ok a"
  by (auto simp: parse_ip_addr_def read_ipv4_addr_def list_all_iff
      split: option.splits prod.splits list.splits dest: read_octets_bounds read_ipv6_bounds)

section \<open>Dotted addresses read back\<close>

lemma radix_digit_ten: "is_ascii_digit c \<Longrightarrow> radix_digit 10 c = Some (digit_value c)"
  by (auto simp: radix_digit_def Let_def is_ascii_digit_def digit_value_def)

lemma radix_digit_dot: "radix_digit 10 (CHR ''.'') = None"
  by (simp add: radix_digit_def char_code_def)

lemma radix_value_ten: "list_all is_ascii_digit s \<Longrightarrow> radix_value 10 acc s = digits_value acc s"
  by (induction s arbitrary: acc) (simp_all add: radix_digit_ten mult.commute)

lemma nat_to_string_octet:
  assumes "n \<le> 255"
  shows "length (nat_to_string n) \<le> 3" "hd (nat_to_string n) = CHR ''0'' \<Longrightarrow> length (nat_to_string n) = 1"
proof -
  have n: "n < 10 \<or> 10 \<le> n \<and> n < 100 \<or> 100 \<le> n \<and> n < 1000" using assms by linarith
  have small: "m < 10 \<Longrightarrow> nat_to_string m = [char_of (48 + m)]" for m by (simp add: nat_to_string.simps)
  have step: "10 \<le> m \<Longrightarrow> nat_to_string m = nat_to_string (m div 10) @ [char_of (48 + m mod 10)]" for m
    by (subst nat_to_string.simps) simp
  have hd: "hd (nat_to_string m) \<noteq> CHR ''0''" if "0 < m" "m < 10" for m
  proof -
    have "char_code (char_of (48 + m)) = 48 + m" using that by (intro char_code_char_of) simp
    moreover have "char_code (CHR ''0'') = 48" by (simp add: char_code_def)
    ultimately have "char_of (48 + m) \<noteq> CHR ''0''" using that by (metis add_cancel_left_right less_numeral_extra(3))
    then show ?thesis using that small by simp
  qed
  from n show "length (nat_to_string n) \<le> 3" by (auto simp: small step)
  from n show "hd (nat_to_string n) = CHR ''0'' \<Longrightarrow> length (nat_to_string n) = 1"
    using hd [of "n div 10"] hd [of "n div 10 div 10"] by (auto simp: small step hd_append)
qed

lemma read_number_octet:
  assumes "n \<le> 255" "r = [] \<or> hd r = CHR ''.''"
  shows "read_number 10 3 False 255 (nat_to_string n @ r) = Some (n, r)"
proof -
  let ?s = "nat_to_string n"
  have d: "list_all is_ascii_digit ?s" by (rule nat_to_string_digits)
  have "takeWhile (\<lambda>c. radix_digit 10 c \<noteq> None) (?s @ r) = ?s @ takeWhile (\<lambda>c. radix_digit 10 c \<noteq> None) r"
    using d by (intro takeWhile_append2) (simp add: list_all_iff radix_digit_ten)
  also have "takeWhile (\<lambda>c. radix_digit 10 c \<noteq> None) r = []"
    using assms(2) by (cases r) (auto simp: radix_digit_dot)
  finally have t: "takeWhile (\<lambda>c. radix_digit 10 c \<noteq> None) (?s @ r) = ?s" by simp
  have v: "radix_value 10 0 ?s = n" using d by (simp add: radix_value_ten digits_value_nat_to_string)
  show ?thesis
    unfolding read_number_def t Let_def v using nat_to_string_octet [OF assms(1)] assms(1) by auto
qed

lemma read_octets_step:
  assumes "n \<le> 255" "r = [] \<or> hd r = CHR ''.''" "read_octets k (i + 1) r = Some (ns, t)"
  shows "read_octets (Suc k) i ((if i = 0 then [] else ''.'') @ nat_to_string n @ r) = Some (n # ns, t)"
  using read_number_octet [OF assms(1,2)] assms(3) by (cases i) (simp_all add: read_separator_def)

text \<open>
  the dotted text of four octets reads back as the address of these octets, and whatever is read
  is an address: four octets of at most 255 or eight groups of at most 65535.
\<close>

lemma parse_ip_addr_roundtrip:
  assumes "a \<le> 255" "b \<le> 255" "c \<le> 255" "d \<le> 255"
  shows "parse_ip_addr (join ''.'' (map nat_to_string [a, b, c, d])) = Some (IpV4 [a, b, c, d]) \<and>
    (parse_ip_addr s = Some x \<longrightarrow> ip_ok x)"
proof -
  let ?d = "''.'' @ nat_to_string d" let ?c = "''.'' @ nat_to_string c @ ?d" let ?b = "''.'' @ nat_to_string b @ ?c"
  have "read_octets (Suc 0) (Suc (Suc (Suc 0))) ?d = Some ([d], [])"
    using read_octets_step [OF assms(4), of "[]" 0 "Suc (Suc (Suc 0))"] by simp
  then have "read_octets (Suc (Suc 0)) (Suc (Suc 0)) ?c = Some ([c, d], [])"
    using read_octets_step [OF assms(3), of ?d "Suc 0" "Suc (Suc 0)"] by (simp del: read_octets.simps)
  then have "read_octets (Suc (Suc (Suc 0))) (Suc 0) ?b = Some ([b, c, d], [])"
    using read_octets_step [OF assms(2), of ?c "Suc (Suc 0)" "Suc 0"] by (simp del: read_octets.simps)
  then have "read_octets (Suc (Suc (Suc (Suc 0)))) 0 (nat_to_string a @ ?b) = Some ([a, b, c, d], [])"
    using read_octets_step [OF assms(1), of ?b "Suc (Suc (Suc 0))" 0] by (simp del: read_octets.simps)
  moreover have "Suc (Suc (Suc (Suc 0))) = 4" by simp
  ultimately have "read_octets 4 0 (nat_to_string a @ ?b) = Some ([a, b, c, d], [])" by (simp only:)
  then show ?thesis by (auto simp: parse_ip_addr_def read_ipv4_addr_def parse_ip_addr_ok)
qed

lemma parse_ip_addr_roundtrip_witness:
  "parse_ip_addr (join ''.'' (map nat_to_string [10, 0, 255, 1])) = Some (IpV4 [10, 0, 255, 1]) \<and> ip_ok (IpV4 [10, 0, 255, 1])"
  using parse_ip_addr_roundtrip [of 10 0 255 1 "join ''.'' (map nat_to_string [10, 0, 255, 1])" "IpV4 [10, 0, 255, 1]"] by simp

end
