(* ===== verification/Rust_Path.thy ===== *)
theory Rust_Path
  imports Config
begin

text \<open>
  The operations of \<open>std::path\<close> on Unix paths that the agent uses. A path is its text; its
  components are the parts between slashes, without empty parts and without the part \<open>.\<close> after
  the first one.
\<close>

text \<open>The text up to the end of the last component, on the reversed text.\<close>

fun drop_tail_rev :: "string \<Rightarrow> string" where
  "drop_tail_rev [] = []"
| "drop_tail_rev [c] = (if c = slash then [] else [c])"
| "drop_tail_rev (c # d # s) =
     (if c = slash then drop_tail_rev (d # s)
      else if c = CHR ''.'' \<and> d = slash then drop_tail_rev (d # s)
      else c # d # s)"

definition path_core :: "string \<Rightarrow> string" where
  "path_core s = rev (drop_tail_rev (rev s))"

definition last_part :: "string \<Rightarrow> string" where
  "last_part s = rev (takeWhile (\<lambda>c. c \<noteq> slash) (rev (path_core s)))"

definition before_last_part :: "string \<Rightarrow> string" where
  "before_last_part s = rev (dropWhile (\<lambda>c. c \<noteq> slash) (rev (path_core s)))"

definition file_name :: "string \<Rightarrow> string option" where
  "file_name s = (if last_part s \<in> set [[], ''.'', ''..''] then None else Some (last_part s))"

text \<open>The file name at its last dot, unless that is its first character.\<close>

definition split_at_dot :: "string \<Rightarrow> string \<times> string option" where
  "split_at_dot name =
     (let after = rev (takeWhile (\<lambda>c. c \<noteq> CHR ''.'') (rev name));
          before = rev (tl (dropWhile (\<lambda>c. c \<noteq> CHR ''.'') (rev name)))
      in if CHR ''.'' \<notin> set name \<or> before = [] then (name, None) else (before, Some after))"

definition file_stem :: "string \<Rightarrow> string option" where
  "file_stem s = map_option (\<lambda>name. fst (split_at_dot name)) (file_name s)"

definition extension :: "string \<Rightarrow> string option" where
  "extension s = (case file_name s of Some name \<Rightarrow> snd (split_at_dot name) | None \<Rightarrow> None)"

definition path_parent :: "string \<Rightarrow> string option" where
  "path_parent s =
     (if path_core s = [] then None
      else
        let p = path_core (before_last_part s)
        in Some (if p = [] \<and> before_last_part s \<noteq> [] then [slash] else p))"

text \<open>\<open>PathBuf::push\<close> and \<open>Path::join\<close>.\<close>

definition path_push :: "string \<Rightarrow> string \<Rightarrow> string" where
  "path_push s name =
     (if name \<noteq> [] \<and> hd name = slash then name
      else if s = [] \<or> last s = slash then s @ name
      else s @ [slash] @ name)"

definition with_file_name :: "string \<Rightarrow> string \<Rightarrow> string" where
  "with_file_name s name =
     (let base = (case file_name s of
            None \<Rightarrow> s
          | Some _ \<Rightarrow> (case path_parent s of Some p \<Rightarrow> p | None \<Rightarrow> s))
      in path_push base name)"

definition with_extension :: "string \<Rightarrow> string \<Rightarrow> string" where
  "with_extension s ext =
     (case file_stem s of
        None \<Rightarrow> s
      | Some stem \<Rightarrow> before_last_part s @ stem @ (if ext = [] then [] else CHR ''.'' # ext))"

section \<open>Plain files\<close>

text \<open>A path that ends in a file name, and its parts.\<close>

lemma path_core_plain:
  assumes "s \<noteq> []" "last s \<noteq> slash" "last s \<noteq> CHR ''.''"
  shows "path_core s = s"
proof -
  obtain c r where r: "rev s = c # r" using assms(1) by (cases "rev s") auto
  then have c: "c \<noteq> slash" "c \<noteq> CHR ''.''" using assms by (metis last_rev list.sel(1) rev_rev_ident)+
  have "drop_tail_rev (c # r) = c # r" using c by (cases r) auto
  then show ?thesis using r by (metis path_core_def rev_rev_ident)
qed

lemma path_core_parts: "before_last_part s @ last_part s = path_core s"
  by (metis before_last_part_def last_part_def rev_append rev_rev_ident takeWhile_dropWhile_id)

lemma last_part_no_slash: "slash \<notin> set (last_part s)"
  by (auto simp: last_part_def dest: set_takeWhileD)

lemma before_last_part_end: "before_last_part s = [] \<or> last (before_last_part s) = slash"
proof -
  have "dropWhile (\<lambda>c. c \<noteq> slash) t = [] \<or> hd (dropWhile (\<lambda>c. c \<noteq> slash) t) = slash" for t
    using hd_dropWhile [of "\<lambda>c. c \<noteq> slash" t] by blast
  then show ?thesis by (metis before_last_part_def last_rev rev_is_Nil_conv)
qed

lemma file_parts_unique:
  assumes "d = [] \<or> last d = slash" "slash \<notin> set n" "d @ n = s" "path_core s = s"
  shows "last_part s = n" "before_last_part s = d"
proof -
  have "takeWhile (\<lambda>c. c \<noteq> slash) (rev n @ rev d) = rev n"
    using assms(1,2) by (subst takeWhile_append2) (auto, cases d rule: rev_cases, auto)
  moreover have "dropWhile (\<lambda>c. c \<noteq> slash) (rev n @ rev d) = rev d"
    using assms(1,2) by (subst dropWhile_append2) (auto, cases d rule: rev_cases, auto)
  ultimately show "last_part s = n" "before_last_part s = d"
    using assms(3,4) by (auto simp: last_part_def before_last_part_def)
qed

lemma file_stem_subset: "file_stem s = Some stem \<Longrightarrow> set stem \<subseteq> set (last_part s)"
proof -
  have "set (fst (split_at_dot name)) \<subseteq> set name" for name
    by (auto simp: split_at_dot_def Let_def dest!: list.set_sel(2) [rotated] set_dropWhileD split: if_splits)
  then show "file_stem s = Some stem \<Longrightarrow> set stem \<subseteq> set (last_part s)"
    by (auto simp: file_stem_def file_name_def split: if_splits)
qed

lemma with_extension_file:
  assumes "file_stem s = Some stem" "ext \<noteq> []" "slash \<notin> set ext" "last ext \<noteq> CHR ''.''"
  shows "with_extension s ext = before_last_part s @ stem @ CHR ''.'' # ext"
    "file_name (with_extension s ext) = Some (stem @ CHR ''.'' # ext)"
proof -
  let ?n = "stem @ CHR ''.'' # ext" and ?p = "with_extension s ext"
  show p: "?p = before_last_part s @ ?n" using assms by (simp add: with_extension_def)
  have "last ext \<noteq> slash" using assms(2,3) last_in_set by metis
  then have "path_core ?p = ?p" using p assms(2,4) by (intro path_core_plain) simp_all
  moreover have "slash \<notin> set ?n" using assms(3) file_stem_subset [OF assms(1)] last_part_no_slash by auto
  ultimately have "last_part ?p = ?n"
    using file_parts_unique(1) [OF before_last_part_end, where n = ?n and s1 = s and s = ?p] p by simp
  moreover have "?n \<notin> set [[], ''.'', ''..'']"
  proof -
    have "last ?n \<noteq> CHR ''.''" using assms(2,4) by simp
    moreover have "?n \<noteq> []" by simp
    moreover have "last n = CHR ''.''" if "n \<in> set [''.'', ''..'']" for n using that by auto
    ultimately show ?thesis by (metis list.set_intros set_ConsD)
  qed
  ultimately show "file_name ?p = Some ?n" by (simp add: file_name_def)
qed

lemma last_path_push: "name \<noteq> [] \<Longrightarrow> last (path_push s name) = last name"
  by (simp add: path_push_def)

end
