(* ===== verification/Files.thy ===== *)
theory Files
  imports Config
begin

text \<open>
  The part of \<open>std::fs\<close> the program uses, on a store that maps a path to the content of the file.
  Every operation may fail: the store carries the faults of the coming operations, in order, and a
  failed write may have written a prefix of its data. Directories are not kept; creating them can only
  fail. A path is the text it is written as, so one file has one path.
\<close>

record io_fault =
  fault_text :: string
  fault_written :: "nat option"

datatype io_error = NotFound | IoError string

definition NOT_FOUND_TEXT :: string where
  "NOT_FOUND_TEXT = ''No such file or directory (os error 2)''"

fun io_error_text :: "io_error \<Rightarrow> string" where
  "io_error_text NotFound = NOT_FOUND_TEXT"
| "io_error_text (IoError text) = text"

record file_store =
  fs_files :: "string \<Rightarrow> string option"
  fs_faults :: "io_fault option list"

definition next_fault :: "file_store \<Rightarrow> io_fault option \<times> file_store" where
  "next_fault fs = (case fs_faults fs of [] \<Rightarrow> (None, fs) | f # rest \<Rightarrow> (f, fs\<lparr>fs_faults := rest\<rparr>))"

definition set_file :: "string \<Rightarrow> string option \<Rightarrow> file_store \<Rightarrow> file_store" where
  "set_file path content fs = fs\<lparr>fs_files := (fs_files fs)(path := content)\<rparr>"

definition fs_read :: "string \<Rightarrow> file_store \<Rightarrow> (io_error + string) \<times> file_store" where
  "fs_read path fs =
     (case next_fault fs of
        (Some f, fs') \<Rightarrow> (Inl (IoError (fault_text f)), fs')
      | (None, fs') \<Rightarrow> (case fs_files fs path of None \<Rightarrow> Inl NotFound | Some content \<Rightarrow> Inr content, fs'))"

definition fs_write :: "string \<Rightarrow> string \<Rightarrow> file_store \<Rightarrow> (io_error + unit) \<times> file_store" where
  "fs_write path content fs =
     (case next_fault fs of
        (Some f, fs') \<Rightarrow>
          (Inl (IoError (fault_text f)),
           case fault_written f of None \<Rightarrow> fs' | Some n \<Rightarrow> set_file path (Some (take n content)) fs')
      | (None, fs') \<Rightarrow> (Inr (), set_file path (Some content) fs'))"

definition fs_remove_file :: "string \<Rightarrow> file_store \<Rightarrow> (io_error + unit) \<times> file_store" where
  "fs_remove_file path fs =
     (case next_fault fs of
        (Some f, fs') \<Rightarrow> (Inl (IoError (fault_text f)), fs')
      | (None, fs') \<Rightarrow> (case fs_files fs path of None \<Rightarrow> (Inl NotFound, fs') | Some _ \<Rightarrow> (Inr (), set_file path None fs')))"

definition fs_rename :: "string \<Rightarrow> string \<Rightarrow> file_store \<Rightarrow> (io_error + unit) \<times> file_store" where
  "fs_rename source target fs =
     (case next_fault fs of
        (Some f, fs') \<Rightarrow> (Inl (IoError (fault_text f)), fs')
      | (None, fs') \<Rightarrow>
          (case fs_files fs source of
             None \<Rightarrow> (Inl NotFound, fs')
           | Some content \<Rightarrow>
               (Inr (), if source = target then fs' else set_file target (Some content) (set_file source None fs'))))"

definition fs_create_dir_all :: "string \<Rightarrow> file_store \<Rightarrow> (io_error + unit) \<times> file_store" where
  "fs_create_dir_all path fs =
     (case next_fault fs of
        (Some f, fs') \<Rightarrow> (Inl (IoError (fault_text f)), fs')
      | (None, fs') \<Rightarrow> (Inr (), fs'))"

text \<open>\<open>fs::read_to_string\<close> refuses a file that is not UTF-8.\<close>

definition byte_in :: "nat \<Rightarrow> nat \<Rightarrow> char \<Rightarrow> bool" where
  "byte_in lo hi c \<longleftrightarrow> lo \<le> char_code c \<and> char_code c \<le> hi"

abbreviation utf8_cont :: "char \<Rightarrow> bool" where
  "utf8_cont \<equiv> byte_in 128 191"

fun utf8_valid :: "string \<Rightarrow> bool" where
  "utf8_valid [] = True"
| "utf8_valid (a # s) =
     (if char_code a < 128 then utf8_valid s
      else case s of
        [] \<Rightarrow> False
      | b # s2 \<Rightarrow>
          if byte_in 194 223 a then utf8_cont b \<and> utf8_valid s2
          else case s2 of
            [] \<Rightarrow> False
          | c # s3 \<Rightarrow>
              if byte_in 224 239 a
              then (if char_code a = 224 then byte_in 160 191 b else if char_code a = 237 then byte_in 128 159 b else utf8_cont b) \<and>
                utf8_cont c \<and> utf8_valid s3
              else case s3 of
                [] \<Rightarrow> False
              | d # s4 \<Rightarrow>
                  byte_in 240 244 a \<and>
                  (if char_code a = 240 then byte_in 144 191 b else if char_code a = 244 then byte_in 128 143 b else utf8_cont b) \<and>
                  utf8_cont c \<and> utf8_cont d \<and> utf8_valid s4)"

definition fs_read_to_string :: "string \<Rightarrow> file_store \<Rightarrow> (io_error + string) \<times> file_store" where
  "fs_read_to_string path fs =
     (case fs_read path fs of
        (Inl e, fs') \<Rightarrow> (Inl e, fs')
      | (Inr content, fs') \<Rightarrow>
          (if utf8_valid content then Inr content else Inl (IoError ''stream did not contain valid UTF-8''), fs'))"

lemma utf8_ascii: "list_all (\<lambda>c. char_code c < 128) s \<Longrightarrow> utf8_valid s"
  by (induction s) auto

text \<open>Changing the mode of a file can only fail: modes are not kept.\<close>

definition fs_set_permissions :: "string \<Rightarrow> file_store \<Rightarrow> (io_error + unit) \<times> file_store" where
  "fs_set_permissions path fs =
     (case next_fault fs of
        (Some f, fs') \<Rightarrow> (Inl (IoError (fault_text f)), fs')
      | (None, fs') \<Rightarrow> (case fs_files fs path of None \<Rightarrow> Inl NotFound | Some _ \<Rightarrow> Inr (), fs'))"

text \<open>Running a fallible step and going on with its value, in the state it leaves.\<close>

fun io_then :: "('e + 'a) \<times> 's \<Rightarrow> ('a \<Rightarrow> 's \<Rightarrow> ('e + 'b) \<times> 's) \<Rightarrow> ('e + 'b) \<times> 's" where
  "io_then (Inl e, s) k = (Inl e, s)"
| "io_then (Inr a, s) k = k a s"

definition io_map_err :: "('e \<Rightarrow> 'f) \<Rightarrow> ('e + 'a) \<times> 's \<Rightarrow> ('f + 'a) \<times> 's" where
  "io_map_err f r = (case r of (Inl e, s) \<Rightarrow> (Inl (f e), s) | (Inr a, s) \<Rightarrow> (Inr a, s))"

lemma io_map_err_simps [simp]: "io_map_err f (Inl e, s) = (Inl (f e), s)" "io_map_err f (Inr a, s) = (Inr a, s)"
  by (simp_all add: io_map_err_def)

lemma io_then_Inr: "io_then r k = (Inr b, s') \<longleftrightarrow> (\<exists>a s. r = (Inr a, s) \<and> k a s = (Inr b, s'))"
  by (cases "(r, k)" rule: io_then.cases) auto

lemma io_map_err_Inr [simp]: "io_map_err f r = (Inr a, s) \<longleftrightarrow> r = (Inr a, s)"
  by (cases r; cases "fst r") (auto simp: io_map_err_def)

section \<open>What each operation leaves alone\<close>

named_theorems file_frame

lemma next_fault_files: "next_fault fs = (f, fs') \<Longrightarrow> fs_files fs' = fs_files fs"
  by (auto simp: next_fault_def split: list.splits)

lemma set_file_get [simp]: "fs_files (set_file path content fs) q = (if q = path then content else fs_files fs q)"
  by (simp add: set_file_def)

lemma fs_read_files [simp]: "fs_files (snd (fs_read path fs)) = fs_files fs"
  by (auto dest: next_fault_files simp: fs_read_def split: prod.splits option.splits)

lemma fs_create_dir_all_files [simp]: "fs_files (snd (fs_create_dir_all path fs)) = fs_files fs"
  by (auto dest: next_fault_files simp: fs_create_dir_all_def split: prod.splits option.splits)

lemma fs_set_permissions_files [simp]: "fs_files (snd (fs_set_permissions path fs)) = fs_files fs"
  by (auto dest: next_fault_files simp: fs_set_permissions_def split: prod.splits option.splits)

lemma fs_read_to_string_files [simp]: "fs_files (snd (fs_read_to_string path fs)) = fs_files fs"
  using fs_read_files [of path fs] by (cases "fs_read path fs"; cases "fst (fs_read path fs)") (auto simp: fs_read_to_string_def)

lemma fs_write_frame [file_frame]: "q \<noteq> path \<Longrightarrow> fs_files (snd (fs_write path content fs)) q = fs_files fs q"
  by (auto dest: next_fault_files simp: fs_write_def split: prod.splits option.splits)

lemma fs_remove_frame [file_frame]: "q \<noteq> path \<Longrightarrow> fs_files (snd (fs_remove_file path fs)) q = fs_files fs q"
  by (auto dest: next_fault_files simp: fs_remove_file_def split: prod.splits option.splits)

lemma fs_rename_frame [file_frame]:
  "q \<noteq> source \<Longrightarrow> q \<noteq> target \<Longrightarrow> fs_files (snd (fs_rename source target fs)) q = fs_files fs q"
  by (auto dest: next_fault_files simp: fs_rename_def split: prod.splits option.splits)

lemma fs_write_Inr: "fs_write path content fs = (Inr u, fs') \<Longrightarrow> fs_files fs' = (fs_files fs)(path := Some content)"
  by (auto dest: next_fault_files simp: fs_write_def set_file_def split: prod.splits option.splits)

lemma fs_rename_Inr:
  "fs_rename source target fs = (Inr u, fs') \<Longrightarrow> source \<noteq> target \<Longrightarrow>
     fs_files fs' = (fs_files fs)(source := None, target := fs_files fs source) \<and> fs_files fs source \<noteq> None"
  by (auto dest: next_fault_files simp: fs_rename_def set_file_def fun_eq_iff split: prod.splits option.splits if_splits)

lemma fs_rename_Inl: "fs_rename source target fs = (Inl e, fs') \<Longrightarrow> fs_files fs' = fs_files fs"
  by (auto dest: next_fault_files simp: fs_rename_def split: prod.splits option.splits if_splits)

lemma fs_remove_Inr: "fs_remove_file path fs = (Inr u, fs') \<Longrightarrow> fs_files fs' = (fs_files fs)(path := None)"
  by (auto dest: next_fault_files simp: fs_remove_file_def set_file_def split: prod.splits option.splits if_splits)

lemma fs_remove_Inl:
  "fs_remove_file path fs = (Inl e, fs') \<Longrightarrow> fs_files fs' = fs_files fs \<and> (e = NotFound \<longrightarrow> fs_files fs path = None)"
  by (auto dest: next_fault_files simp: fs_remove_file_def split: prod.splits option.splits if_splits)

lemma fs_read_Inr: "fs_read path fs = (Inr content, fs') \<Longrightarrow> fs_files fs path = Some content \<and> fs_files fs' = fs_files fs"
  by (auto dest: next_fault_files simp: fs_read_def split: prod.splits option.splits)

lemma fs_read_NotFound: "fs_read path fs = (Inl NotFound, fs') \<Longrightarrow> fs_files fs path = None \<and> fs_files fs' = fs_files fs"
  by (auto dest: next_fault_files simp: fs_read_def split: prod.splits option.splits)

lemma fs_read_same: "fs_read path fs = (r, fs') \<Longrightarrow> fs_files fs' = fs_files fs"
  by (auto dest: next_fault_files simp: fs_read_def split: prod.splits option.splits)

lemma fs_create_dir_all_same: "fs_create_dir_all path fs = (r, fs') \<Longrightarrow> fs_files fs' = fs_files fs"
  by (auto dest: next_fault_files simp: fs_create_dir_all_def split: prod.splits option.splits)

lemma io_map_err_snd [simp]: "snd (io_map_err f r) = snd r"
  by (simp add: io_map_err_def split: prod.splits sum.splits)

lemma io_map_err_Inl: "io_map_err f r = (Inl e, s) \<Longrightarrow> \<exists>e'. r = (Inl e', s) \<and> e = f e'"
  by (cases r; cases "fst r") (auto simp: io_map_err_def)

lemma io_then_Inl:
  "io_then r k = (Inl e, s') \<longleftrightarrow> r = (Inl e, s') \<or> (\<exists>a s. r = (Inr a, s) \<and> k a s = (Inl e, s'))"
  by (cases "(r, k)" rule: io_then.cases) auto

section \<open>Replacing a file through a temporary one\<close>

definition fs_replace ::
  "(io_error \<Rightarrow> 'e) \<Rightarrow> (io_error \<Rightarrow> 'e) \<Rightarrow> string \<Rightarrow> string \<Rightarrow> string \<Rightarrow> file_store \<Rightarrow> ('e + unit) \<times> file_store" where
  "fs_replace write_error rename_error tmp path content fs =
     io_then (io_map_err write_error (fs_write tmp content fs)) (\<lambda>_ fs. io_map_err rename_error (fs_rename tmp path fs))"

lemma fs_replace_files:
  assumes r: "fs_replace we re tmp path content fs = (r, fs')" and ne: "tmp \<noteq> path"
  shows "fs_files fs' path = (if is_ok r then Some content else fs_files fs path) \<and>
    (q \<noteq> path \<longrightarrow> q \<noteq> tmp \<longrightarrow> fs_files fs' q = fs_files fs q)"
proof -
  obtain wr fs1 where w: "fs_write tmp content fs = (wr, fs1)" by (rule prod.exhaust)
  have fs1: "fs_files fs1 p = fs_files fs p" if "p \<noteq> tmp" for p using fs_write_frame [OF that, of content fs] w by simp
  obtain rr fs2 where rn: "fs_rename tmp path fs1 = (rr, fs2)" by (rule prod.exhaust)
  show ?thesis
  proof (cases wr)
    case (Inl e)
    then have "\<not> is_ok r" "fs' = fs1" using r w by (auto simp: fs_replace_def)
    then show ?thesis using fs1 ne by auto
  next
    case (Inr u)
    then have eq: "fs' = fs2" "is_ok r = is_ok rr" using r w rn by (cases rr; auto simp: fs_replace_def)+
    have "fs_files fs1 tmp = Some content" using fs_write_Inr w Inr by fastforce
    moreover have "fs_files fs2 = (if is_ok rr then (fs_files fs1)(tmp := None, path := fs_files fs1 tmp) else fs_files fs1)"
      using rn fs_rename_Inl fs_rename_Inr [OF _ ne] by (cases rr) fastforce+
    ultimately show ?thesis using eq fs1 [of path] fs1 [of q] ne by simp
  qed
qed

end
