(* ===== verification/Core_Plan.thy ===== *)
theory Core_Plan
  imports Panel_Types User_Sync
begin

text \<open>
  The plan of the proxy core (\<open>src/src/core.rs\<close>, first and last part): how the nodes the panel
  describes and the users of each become the inbounds of a \<open>CorePlan\<close>. An \<open>Arc<str>\<close> and an
  \<open>Arc<[T]>\<close> are their contents; the pool that shares equal uuids and the buckets that share
  equal user lists are modelled, and shown not to change the plan.
\<close>

section \<open>Data\<close>

datatype core_kind = KeliCoreRs

record inbound_user_plan =
  iu_id :: u32
  iu_uuid :: string
  iu_email :: string
  iu_speed_limit :: u32
  iu_device_limit :: u32

record route_plan =
  rp_id :: u32
  rp_action :: string
  rp_match_rules :: "string list"
  rp_action_value :: "string option"

record inbound_plan =
  ib_tag :: string
  ib_protocol :: string
  ib_listen :: string
  ib_port :: u16
  ib_port_range :: string
  ib_security :: string
  ib_network :: string
  ib_multiplexing :: string
  ib_network_settings :: json
  ib_flow :: string
  ib_cipher :: string
  ib_server_key :: string
  ib_vless_decryption :: string
  ib_padding_scheme :: "string list"
  ib_congestion_control :: string
  ib_zero_rtt_handshake :: bool
  ib_up_mbps :: u32
  ib_down_mbps :: u32
  ib_obfs :: string
  ib_obfs_password :: string
  ib_ignore_client_bandwidth :: bool
  ib_alpn :: "string list"
  ib_fallback_to_ipv4 :: bool
  ib_cert_file :: string
  ib_key_file :: string
  ib_reject_unknown_sni :: bool
  ib_server_name :: string
  ib_reality_dest :: string
  ib_reality_xver :: nat
  ib_reality_private_key :: string
  ib_reality_short_id :: string
  ib_reality_mldsa65_seed :: string
  ib_users :: "inbound_user_plan list"
  ib_routes :: "route_plan list"

record core_plan_dns_options =
  dns_plan_servers :: "string list"
  dns_query_strategy :: string
  dns_plan_block_private_ips :: bool
  dns_plan_private_ip_allowlist :: "string list"

record core_plan =
  cp_kind :: core_kind
  cp_config_path :: string
  cp_listen_tags :: "string list"
  cp_inbounds :: "inbound_plan list"
  cp_dns :: core_plan_dns_options

record core_plan_bundle =
  cpb_core :: "core_plan option"

definition dns_options_default :: core_plan_dns_options where
  "dns_options_default =
     \<lparr>dns_plan_servers = [], dns_query_strategy = [], dns_plan_block_private_ips = False,
      dns_plan_private_ip_allowlist = []\<rparr>"

section \<open>Strategies and kinds\<close>

text \<open>
  \<open>normalized_strategy_key\<close> lowers by \<open>char::to_lowercase\<close>. Its result is only compared with
  ASCII words without the letter k, so that lowering the ASCII letters alone gives the same answer.
\<close>

definition normalized_strategy_key :: "string \<Rightarrow> string" where
  "normalized_strategy_key v = to_ascii_lowercase (filter (\<lambda>c. c \<noteq> CHR ''_'' \<and> c \<noteq> CHR ''-'') (trim v))"

definition keli_core_rs_query_strategy :: "string \<Rightarrow> string" where
  "keli_core_rs_query_strategy v =
     (let key = normalized_strategy_key v
      in if key = ''asis'' then ''AsIs''
         else if key = ''useip'' then ''UseIP''
         else if key = ''useipv6'' \<or> key = ''ipv6'' then ''UseIPv6''
         else if key = ''useipv4v6'' \<or> key = ''ipv4v6'' then ''UseIPv4v6''
         else if key = ''useipv6v4'' \<or> key = ''ipv6v4'' then ''UseIPv6v4''
         else ''UseIPv4'')"

definition apply_kernel_dns_options :: "kernel_config \<Rightarrow> core_plan \<Rightarrow> core_plan" where
  "apply_kernel_dns_options kc plan =
     plan\<lparr>cp_dns := \<lparr>dns_plan_servers = dns_servers kc,
        dns_query_strategy = keli_core_rs_query_strategy (ip_strategy kc),
        dns_plan_block_private_ips = dns_block_private_ips kc,
        dns_plan_private_ip_allowlist = dns_private_ip_allowlist kc\<rparr>\<rparr>"

text \<open>\<open>str::replace\<close> of one character by another.\<close>

definition replace_char :: "char \<Rightarrow> char \<Rightarrow> string \<Rightarrow> string" where
  "replace_char a b s = map (\<lambda>c. if c = a then b else c) s"

definition core_kind_from_name :: "string \<Rightarrow> core_kind result" where
  "core_kind_from_name v =
     (let normalized = replace_char (CHR ''_'') (CHR ''-'') (to_ascii_lowercase (trim v))
      in if normalized = [] then Ok KeliCoreRs
         else if normalized \<in> set [''keli-core-rs'', ''kelicore-rs'', ''kelicorers''] then Ok KeliCoreRs
         else if normalized \<in> set [''xray'', ''sing-box'', ''singbox'', ''mihomo'', ''clash-meta'']
         then Err ''legacy external core types are no longer supported; use keli-core-rs''
         else Err (''unsupported core type '' @ normalized @ ''; use keli-core-rs''))"

section \<open>Fields of an inbound\<close>

definition is_char :: "char \<Rightarrow> char \<Rightarrow> bool" where
  "is_char a c \<longleftrightarrow> c = a"

definition normalize_node_listen_ip :: "string \<Rightarrow> string" where
  "normalize_node_listen_ip raw =
     (let listen_ip = trim raw
      in if prefix ''['' listen_ip \<and> suffix '']'' listen_ip
         then trim_end_matches (is_char (CHR '']'')) (trim_start_matches (is_char (CHR ''['')) listen_ip)
         else listen_ip)"

definition resolve_node_listen_ip :: "string \<Rightarrow> string" where
  "resolve_node_listen_ip raw =
     (let ip = normalize_node_listen_ip raw in if ip = [] then ''0.0.0.0'' else ip)"

definition should_fallback_node_listen_ip :: "string \<Rightarrow> bool" where
  "should_fallback_node_listen_ip raw \<longleftrightarrow>
     (let ip = normalize_node_listen_ip raw in ip = [] \<or> ip = ''0.0.0.0'' \<or> ip = ''::'')"

fun tls_alpn_loop :: "string list \<Rightarrow> string list \<Rightarrow> string list" where
  "tls_alpn_loop [] alpn = alpn"
| "tls_alpn_loop (v # vs) alpn =
     (let txt = trim v
      in if txt = [] \<or> txt \<in> set alpn then tls_alpn_loop vs alpn else tls_alpn_loop vs (alpn @ [txt]))"

definition resolve_tls_alpn :: "node_info \<Rightarrow> string list" where
  "resolve_tls_alpn node =
     (let alpn = tls_alpn_loop (ts_alpn (cn_tls_settings (ni_common node))) []
      in if alpn = [] \<and> (ni_protocol node = Hysteria2 \<or> ni_protocol node = Tuic) then [''h3''] else alpn)"

definition core_protocol_name :: "protocol \<Rightarrow> string" where
  "core_protocol_name p = (if p = Hysteria2 then ''hysteria'' else protocol_as_str p)"

definition resolve_mieru_transport :: "string \<Rightarrow> string result" where
  "resolve_mieru_transport v =
     (let transport = trim v
      in if transport = [] then Ok ''TCP''
         else
           let transport = to_ascii_uppercase transport
           in if transport = ''TCP'' \<or> transport = ''UDP'' then Ok transport
              else Err (''mieru transport '' @ transport @ '' is not supported''))"

definition core_network_name :: "node_info \<Rightarrow> string result" where
  "core_network_name node =
     (let network = trim (cn_network (ni_common node))
      in if network \<noteq> [] then Ok network
         else case ni_protocol node of
                Trojan \<Rightarrow> Ok ''tcp''
              | Hysteria2 \<Rightarrow> Ok ''hysteria''
              | Tuic \<Rightarrow> Ok ''tuic''
              | Mieru \<Rightarrow> resolve_mieru_transport (cn_transport (ni_common node))
              | _ \<Rightarrow> Ok [])"

definition resolve_node_port_range :: "node_info \<Rightarrow> string" where
  "resolve_node_port_range node =
     (let ports = trim (cn_ports (ni_common node)); port = trim (cn_port (ni_common node))
      in if ports \<noteq> [] then ports else if CHR ''-'' \<in> set port then port else [])"

fun security_name :: "security \<Rightarrow> string" where
  "security_name SecNone = ''none''"
| "security_name SecTls = ''tls''"
| "security_name SecReality = ''reality''"
| "security_name (SecOther v) = ''other-'' @ nat_to_string (unat v)"

definition panel_tls_cert_mode_disables_stream_tls :: "node_info \<Rightarrow> bool" where
  "panel_tls_cert_mode_disables_stream_tls node =
     (if cn_tls (ni_common node) = 0 then False
      else if ni_protocol node \<notin> set [Vmess, Vless, Trojan] then False
      else
        let cert_mode = to_ascii_lowercase (trim (case cn_cert_info (ni_common node) of
               Some cert \<Rightarrow> ci_cert_mode cert | None \<Rightarrow> ts_cert_mode (cn_tls_settings (ni_common node))))
        in cert_mode = [] \<or> cert_mode = ''none'')"

definition inbound_security_name :: "node_info \<Rightarrow> string" where
  "inbound_security_name node =
     (if ni_security node = SecTls \<and> panel_tls_cert_mode_disables_stream_tls node then ''none''
      else security_name (ni_security node))"

definition resolve_vless_decryption :: "node_info \<Rightarrow> string result" where
  "resolve_vless_decryption node =
     (if ni_protocol node \<noteq> Vless then Ok []
      else
        let encryption = trim (cn_encryption (ni_common node))
        in if encryption = [] then Ok ''none''
           else if encryption = ''mlkem768x25519plus''
           then
             let settings = cn_encryption_settings (ni_common node);
                 parts = [encryption, trim (enc_mode settings), trim (enc_ticket settings)] @
                   (if trim (enc_server_padding settings) \<noteq> [] then [trim (enc_server_padding settings)] else []) @
                   [trim (enc_private_key settings)]
             in Ok (join ''.'' parts)
           else Err (''vless decryption method '' @ encryption @ '' is not support''))"

definition core_first_non_empty :: "string \<Rightarrow> string \<Rightarrow> string" where
  "core_first_non_empty v fallback = (if v = [] then fallback else v)"

definition resolve_reality_dest :: "tls_settings \<Rightarrow> string" where
  "resolve_reality_dest settings =
     (let host = core_first_non_empty (trim (ts_dest settings)) (trim (ts_server_name settings));
          port = trim (ts_server_port settings)
      in if host = [] \<or> port = [] then host
         else if CHR '':'' \<in> set host \<and> \<not> prefix ''['' host then ''['' @ host @ '']:'' @ port
         else host @ '':'' @ port)"

fun value_to_u64 :: "json \<Rightarrow> nat" where
  "value_to_u64 (JNumber n) = unwrap_or 0 (as_u64 n)"
| "value_to_u64 (JString s) = unwrap_or 0 (parse_uint u64_max (trim s))"
| "value_to_u64 _ = 0"

definition node_device_limit_fallback :: "node_info \<Rightarrow> u32" where
  "node_device_limit_fallback node =
     (case cn_base_config (ni_common node) of Some config \<Rightarrow> device_limit_fallback config | None \<Rightarrow> 0)"

definition effective_device_limit :: "u32 \<Rightarrow> u32 \<Rightarrow> u32" where
  "effective_device_limit limit fallback = (if limit > 0 then limit else fallback)"

definition user_tag :: "string \<Rightarrow> string \<Rightarrow> string" where
  "user_tag tag user_id = tag @ ''|'' @ user_id"

definition route_plan_of :: "route \<Rightarrow> route_plan" where
  "route_plan_of r =
     \<lparr>rp_id = route_id r, rp_action = trim (action r),
      rp_match_rules = filter (\<lambda>s. s \<noteq> []) (map trim (match_rules r)),
      rp_action_value = (case action_value r of
          None \<Rightarrow> None | Some v \<Rightarrow> let trimmed = trim v in if trimmed = [] then None else Some trimmed)\<rparr>"

section \<open>Users of an inbound\<close>

text \<open>\<open>InboundUserStringPool\<close>: one shared string per uuid.\<close>

type_synonym string_pool = "(string, string) btmap"

definition intern_uuid :: "string_pool \<Rightarrow> string \<Rightarrow> string \<times> string_pool" where
  "intern_uuid pool v =
     (case bt_get pool v of Some existing \<Rightarrow> (existing, pool) | None \<Rightarrow> (v, bt_insert v v pool))"

definition inbound_user_plan_of ::
  "string \<Rightarrow> user_info \<Rightarrow> u32 \<Rightarrow> string_pool \<Rightarrow> inbound_user_plan \<times> string_pool" where
  "inbound_user_plan_of tag user fallback pool =
     (let (shared, pool') = intern_uuid pool (trim (uuid user))
      in (\<lparr>iu_id = ui_id user, iu_uuid = shared, iu_email = user_tag tag shared, iu_speed_limit = speed_limit user,
           iu_device_limit = effective_device_limit (device_limit user) fallback\<rparr>, pool'))"

fun inbound_users_loop ::
  "string \<Rightarrow> u32 \<Rightarrow> user_info list \<Rightarrow> string_pool \<Rightarrow> inbound_user_plan list \<times> string_pool" where
  "inbound_users_loop tag fallback [] pool = ([], pool)"
| "inbound_users_loop tag fallback (user # users) pool =
     (if trim (uuid user) = [] then inbound_users_loop tag fallback users pool
      else
        let (plan, pool1) = inbound_user_plan_of tag user fallback pool;
            (plans, pool2) = inbound_users_loop tag fallback users pool1
        in (plan # plans, pool2))"

definition build_inbound_plan_with_users_and_pool ::
  "node_info \<Rightarrow> user_info list \<Rightarrow> string_pool \<Rightarrow> (inbound_plan \<times> string_pool) result" where
  "build_inbound_plan_with_users_and_pool node users pool =
     (let common = ni_common node; tls = cn_tls_settings common; cert = cn_cert_info common
      in if cn_server_port common = 0 then Err (''node '' @ ni_tag node @ '' has empty server port'')
         else
           and_then (core_network_name node) (\<lambda>network.
           and_then (resolve_vless_decryption node) (\<lambda>decryption.
             let (plans, pool') = inbound_users_loop (ni_tag node) (node_device_limit_fallback node) users pool
             in Ok
               (\<lparr>ib_tag = ni_tag node,
                 ib_protocol = core_protocol_name (ni_protocol node),
                 ib_listen = resolve_node_listen_ip (cn_listen_ip common),
                 ib_port = cn_server_port common,
                 ib_port_range = resolve_node_port_range node,
                 ib_security = inbound_security_name node,
                 ib_network = network,
                 ib_multiplexing = trim (cn_multiplexing common),
                 ib_network_settings = cn_network_settings common,
                 ib_flow = trim (cn_flow common),
                 ib_cipher = trim (cn_cipher common),
                 ib_server_key = trim (cn_server_key common),
                 ib_vless_decryption = decryption,
                 ib_padding_scheme = filter (\<lambda>s. s \<noteq> []) (map trim (cn_padding_scheme common)),
                 ib_congestion_control = trim (cn_congestion_control common),
                 ib_zero_rtt_handshake = cn_zero_rtt_handshake common,
                 ib_up_mbps = cn_up_mbps common,
                 ib_down_mbps = cn_down_mbps common,
                 ib_obfs = trim (cn_obfs common),
                 ib_obfs_password = trim (cn_obfs_password common),
                 ib_ignore_client_bandwidth = cn_ignore_client_bandwidth common,
                 ib_alpn = resolve_tls_alpn node,
                 ib_fallback_to_ipv4 = should_fallback_node_listen_ip (cn_listen_ip common),
                 ib_cert_file = (case cert of Some c \<Rightarrow> ci_cert_file c | None \<Rightarrow> []),
                 ib_key_file = (case cert of Some c \<Rightarrow> ci_key_file c | None \<Rightarrow> []),
                 ib_reject_unknown_sni = (case cert of Some c \<Rightarrow> ci_reject_unknown_sni c | None \<Rightarrow> False),
                 ib_server_name = (case cert of Some c \<Rightarrow> ci_cert_domain c
                   | None \<Rightarrow> core_first_non_empty (trim (ts_server_name tls)) (trim (cn_server_name common))),
                 ib_reality_dest = resolve_reality_dest tls,
                 ib_reality_xver = value_to_u64 (ts_xver tls),
                 ib_reality_private_key = trim (ts_private_key tls),
                 ib_reality_short_id = trim (ts_short_id tls),
                 ib_reality_mldsa65_seed = trim (ts_mldsa65_seed tls),
                 ib_users = plans,
                 ib_routes = filter (\<lambda>r. rp_action r \<noteq> []) (map route_plan_of (cn_routes common))\<rparr>, pool'))))"

definition build_inbound_plan_with_users :: "node_info \<Rightarrow> user_info list \<Rightarrow> inbound_plan result" where
  "build_inbound_plan_with_users node users =
     map_ok fst (build_inbound_plan_with_users_and_pool node users [])"

definition build_inbound_plan :: "node_info \<Rightarrow> inbound_plan result" where
  "build_inbound_plan node = build_inbound_plan_with_users node []"

definition strip_native_user_emails :: "inbound_plan list \<Rightarrow> inbound_plan list" where
  "strip_native_user_emails = map (\<lambda>inbound. inbound\<lparr>ib_users := map (\<lambda>user. user\<lparr>iu_email := []\<rparr>) (ib_users inbound)\<rparr>)"

section \<open>Sharing equal user lists\<close>

unbundle bit_operations_syntax

definition fnv1a64 :: "u8 list \<Rightarrow> u64" where
  "fnv1a64 bytes = fold (\<lambda>byte hash. (hash XOR ucast byte) * 0x100000001b3) bytes 0xcbf29ce484222325"

text \<open>\<open>to_le_bytes\<close> of an integer of \<open>n\<close> bytes.\<close>

fun le_bytes :: "nat \<Rightarrow> 'a::len word \<Rightarrow> u8 list" where
  "le_bytes 0 w = []"
| "le_bytes (Suc n) w = ucast w # le_bytes n (drop_bit 8 w)"

definition str_bytes :: "string \<Rightarrow> u8 list" where
  "str_bytes s = map (\<lambda>c. word_of_nat (char_code c)) s"

definition inbound_user_list_fingerprint :: "inbound_user_plan list \<Rightarrow> u64" where
  "inbound_user_list_fingerprint users =
     fnv1a64 (concat (map (\<lambda>user.
       le_bytes 4 (iu_id user) @
       le_bytes 8 (word_of_nat (length (iu_uuid user)) :: u64) @ str_bytes (iu_uuid user) @
       le_bytes 8 (word_of_nat (length (iu_email user)) :: u64) @ str_bytes (iu_email user) @
       le_bytes 4 (iu_speed_limit user) @ le_bytes 4 (iu_device_limit user)) users))"

type_synonym user_buckets = "(u64, inbound_user_plan list list) btmap"

fun share_loop :: "inbound_plan list \<Rightarrow> user_buckets \<Rightarrow> inbound_plan list" where
  "share_loop [] buckets = []"
| "share_loop (inbound # inbounds) buckets =
     (let fingerprint = inbound_user_list_fingerprint (ib_users inbound);
          bucket = unwrap_or [] (bt_get buckets fingerprint)
      in case find (\<lambda>candidate. candidate = ib_users inbound) bucket of
           Some existing \<Rightarrow>
             inbound\<lparr>ib_users := existing\<rparr> # share_loop inbounds (bt_insert fingerprint bucket buckets)
         | None \<Rightarrow>
             inbound # share_loop inbounds (bt_insert fingerprint (bucket @ [ib_users inbound]) buckets))"

definition share_identical_inbound_user_lists :: "inbound_plan list \<Rightarrow> inbound_plan list" where
  "share_identical_inbound_user_lists inbounds = share_loop inbounds []"

section \<open>The plan\<close>

fun inbounds_loop ::
  "(string, user_info list) btmap \<Rightarrow> node_info list \<Rightarrow> string_pool \<Rightarrow> inbound_plan list result" where
  "inbounds_loop users [] pool = Ok []"
| "inbounds_loop users (node # nodes) pool =
     and_then (build_inbound_plan_with_users_and_pool node (unwrap_or [] (bt_get users (ni_tag node))) pool)
       (\<lambda>(inbound, pool'). map_ok (\<lambda>inbounds. inbound # inbounds) (inbounds_loop users nodes pool'))"

definition from_nodes_with_users ::
  "core_kind \<Rightarrow> string \<Rightarrow> node_info list \<Rightarrow> (string, user_info list) btmap \<Rightarrow> core_plan result" where
  "from_nodes_with_users kind config_path nodes users =
     map_ok (\<lambda>built.
         let inbounds = share_identical_inbound_user_lists (strip_native_user_emails built)
         in \<lparr>cp_kind = kind, cp_config_path = config_path, cp_listen_tags = map ib_tag inbounds,
             cp_inbounds = inbounds, cp_dns = dns_options_default\<rparr>)
       (inbounds_loop users nodes [])"

definition from_nodes :: "core_kind \<Rightarrow> string \<Rightarrow> node_info list \<Rightarrow> core_plan result" where
  "from_nodes kind config_path nodes = from_nodes_with_users kind config_path nodes []"

definition keli_core_rs_protocol_requires_users :: "protocol \<Rightarrow> bool" where
  "keli_core_rs_protocol_requires_users p \<longleftrightarrow> p \<in> set [Vmess, Shadowsocks, Anytls, Mieru, Naive]"

definition node_has_keli_core_rs_users :: "string \<Rightarrow> (string, user_info list) btmap \<Rightarrow> bool" where
  "node_has_keli_core_rs_users tag users =
     (case bt_get users tag of Some list \<Rightarrow> list_ex (\<lambda>user. trim (uuid user) \<noteq> []) list | None \<Rightarrow> False)"

section \<open>Sharing is invisible\<close>

lemma share_loop_same: "share_loop inbounds buckets = inbounds"
  by (induction inbounds arbitrary: buckets) (auto simp: Let_def find_Some_iff split: option.splits)

lemma share_identical_same [simp]: "share_identical_inbound_user_lists inbounds = inbounds"
  by (simp add: share_identical_inbound_user_lists_def share_loop_same)

text \<open>A pool holds every string under itself.\<close>

definition pool_ok :: "string_pool \<Rightarrow> bool" where
  "pool_ok pool \<longleftrightarrow> (\<forall>k v. bt_get pool k = Some v \<longrightarrow> v = k)"

lemma pool_ok_Nil [simp]: "pool_ok []"
  by (simp add: pool_ok_def bt_get_def)

lemma intern_uuid_ok:
  assumes "pool_ok pool" "intern_uuid pool v = (s, pool')"
  shows "s = v \<and> pool_ok pool'"
  using assms by (auto simp: intern_uuid_def pool_ok_def bt_get_insert split: option.splits if_splits)

text \<open>The users of an inbound without a pool.\<close>

definition plain_user_plan :: "string \<Rightarrow> u32 \<Rightarrow> user_info \<Rightarrow> inbound_user_plan" where
  "plain_user_plan tag fallback user =
     \<lparr>iu_id = ui_id user, iu_uuid = trim (uuid user), iu_email = user_tag tag (trim (uuid user)),
      iu_speed_limit = speed_limit user, iu_device_limit = effective_device_limit (device_limit user) fallback\<rparr>"

abbreviation named_users :: "user_info list \<Rightarrow> user_info list" where
  "named_users users \<equiv> filter (\<lambda>user. trim (uuid user) \<noteq> []) users"

lemma inbound_users_loop_pure:
  assumes "pool_ok pool" "inbound_users_loop tag fallback users pool = (plans, pool')"
  shows "plans = map (plain_user_plan tag fallback) (named_users users) \<and> pool_ok pool'"
  using assms
proof (induction users arbitrary: pool plans pool')
  case (Cons user users)
  show ?case
  proof (cases "trim (uuid user) = []")
    case False
    obtain s pool1 where s: "intern_uuid pool (trim (uuid user)) = (s, pool1)" by fastforce
    from intern_uuid_ok [OF Cons.prems(1) s] have s1: "s = trim (uuid user)" "pool_ok pool1" by auto
    obtain rest pool2 where r: "inbound_users_loop tag fallback users pool1 = (rest, pool2)" by fastforce
    from Cons.IH [OF s1(2) r] Cons.prems(2) False s s1(1) r show ?thesis
      by (auto simp: inbound_user_plan_of_def plain_user_plan_def)
  qed (use Cons in auto)
qed auto

lemma build_pool_irrelevant:
  assumes "pool_ok pool"
  shows "map_ok fst (build_inbound_plan_with_users_and_pool node users pool) = build_inbound_plan_with_users node users"
    and "build_inbound_plan_with_users_and_pool node users pool = Inr (inbound, pool') \<Longrightarrow> pool_ok pool'"
proof -
  obtain a p where a: "inbound_users_loop (ni_tag node) (node_device_limit_fallback node) users pool = (a, p)" by fastforce
  obtain b q where b: "inbound_users_loop (ni_tag node) (node_device_limit_fallback node) users [] = (b, q)" by fastforce
  have "a = b" "pool_ok p"
    using inbound_users_loop_pure [OF assms a] inbound_users_loop_pure [OF pool_ok_Nil b] by auto
  then show "map_ok fst (build_inbound_plan_with_users_and_pool node users pool) = build_inbound_plan_with_users node users"
    by (cases "core_network_name node"; cases "resolve_vless_decryption node")
      (simp_all add: build_inbound_plan_with_users_def build_inbound_plan_with_users_and_pool_def Let_def a b)
  show "build_inbound_plan_with_users_and_pool node users pool = Inr (inbound, pool') \<Longrightarrow> pool_ok pool'"
    using \<open>pool_ok p\<close>
    by (auto simp: build_inbound_plan_with_users_and_pool_def Let_def a result_simps split: if_splits)
qed

lemma inbounds_loop_pure:
  "pool_ok pool \<Longrightarrow> inbounds_loop users nodes pool =
     collect_results (map (\<lambda>node. build_inbound_plan_with_users node (unwrap_or [] (bt_get users (ni_tag node)))) nodes)"
proof (induction nodes arbitrary: pool)
  case (Cons node nodes)
  let ?us = "unwrap_or [] (bt_get users (ni_tag node))"
  show ?case
  proof (cases "build_inbound_plan_with_users_and_pool node ?us pool")
    case (Inl e)
    with build_pool_irrelevant(1) [OF Cons.prems, of node ?us] have "build_inbound_plan_with_users node ?us = Inl e"
      by simp
    with Inl show ?thesis by simp
  next
    case (Inr x)
    obtain i p where x: "x = (i, p)" by (cases x)
    with Inr build_pool_irrelevant(1) [OF Cons.prems, of node ?us] have "build_inbound_plan_with_users node ?us = Inr i"
      by simp
    moreover have "pool_ok p" using build_pool_irrelevant(2) [OF Cons.prems] Inr x by simp
    ultimately show ?thesis using Inr x Cons.IH by simp
  qed
qed simp

text \<open>What an inbound of a plan has of its node and of the users of that node.\<close>

lemma build_inbound_plan_Inr:
  assumes "build_inbound_plan_with_users node users = Inr inbound"
  shows "ib_tag inbound = ni_tag node" "ib_port inbound = cn_server_port (ni_common node)" "ib_port inbound \<noteq> 0"
    "ib_users inbound = map (plain_user_plan (ni_tag node) (node_device_limit_fallback node)) (named_users users)"
    "core_network_name node = Inr (ib_network inbound)" "resolve_vless_decryption node = Inr (ib_vless_decryption inbound)"
    "ib_protocol inbound = core_protocol_name (ni_protocol node)" "ib_security inbound = inbound_security_name node"
proof -
  obtain b q where b: "inbound_users_loop (ni_tag node) (node_device_limit_fallback node) users [] = (b, q)" by fastforce
  have "b = map (plain_user_plan (ni_tag node) (node_device_limit_fallback node)) (named_users users)"
    using inbound_users_loop_pure [OF pool_ok_Nil b] by simp
  with assms show "ib_tag inbound = ni_tag node" "ib_port inbound = cn_server_port (ni_common node)" "ib_port inbound \<noteq> 0"
    "ib_users inbound = map (plain_user_plan (ni_tag node) (node_device_limit_fallback node)) (named_users users)"
    "core_network_name node = Inr (ib_network inbound)" "resolve_vless_decryption node = Inr (ib_vless_decryption inbound)"
    "ib_protocol inbound = core_protocol_name (ni_protocol node)" "ib_security inbound = inbound_security_name node"
    by (auto simp: build_inbound_plan_with_users_def build_inbound_plan_with_users_and_pool_def Let_def b result_simps
        split: if_splits)
qed

lemma from_nodes_with_users_eq:
  "from_nodes_with_users kind path nodes users =
     map_ok (\<lambda>built.
         \<lparr>cp_kind = kind, cp_config_path = path, cp_listen_tags = map ib_tag built,
          cp_inbounds = strip_native_user_emails built, cp_dns = dns_options_default\<rparr>)
       (collect_results
         (map (\<lambda>node. build_inbound_plan_with_users node (unwrap_or [] (bt_get users (ni_tag node)))) nodes))"
  by (simp add: from_nodes_with_users_def inbounds_loop_pure [OF pool_ok_Nil] strip_native_user_emails_def Let_def comp_def)

text \<open>
  the plan is the list of the inbounds built for each node on its own, without the users' mail
  tags: interning the uuids over all nodes and sharing equal user lists by their fingerprint never
  changes a plan, whatever fingerprints collide.
\<close>

lemma from_nodes_with_users_pure:
  "from_nodes_with_users kind path nodes users =
     map_ok (\<lambda>built.
         \<lparr>cp_kind = kind, cp_config_path = path, cp_listen_tags = map ib_tag built,
          cp_inbounds = strip_native_user_emails built, cp_dns = dns_options_default\<rparr>)
       (collect_results
         (map (\<lambda>node. build_inbound_plan_with_users node (unwrap_or [] (bt_get users (ni_tag node)))) nodes))"
  by (rule from_nodes_with_users_eq)

lemma query_strategy_idem:
  "keli_core_rs_query_strategy (keli_core_rs_query_strategy v) = keli_core_rs_query_strategy v"
proof -
  have "keli_core_rs_query_strategy x = x"
    if "x \<in> {''AsIs'', ''UseIP'', ''UseIPv6'', ''UseIPv4v6'', ''UseIPv6v4'', ''UseIPv4''}" for x
    using that by (elim insertE emptyE) (hypsubst, code_simp)+
  then show ?thesis by (simp add: keli_core_rs_query_strategy_def [of v] Let_def)
qed

end
