(* ===== verification/Core_Validate.thy ===== *)
theory Core_Validate
  imports Core_Plan Capability Json
begin

text \<open>
  Which inbounds the native core may render (\<open>src/src/core.rs\<close>, the \<open>validate_keli_core_rs_*\<close>
  functions and the capability gate). The environment variable \<open>KELI_NATIVE_CANARY_ALLOW\<close> is the
  argument \<open>allow\<close>.
\<close>

section \<open>Names and small predicates\<close>

definition keli_core_rs_transport_network :: "inbound_plan \<Rightarrow> string" where
  "keli_core_rs_transport_network inbound =
     (if ib_protocol inbound = ''shadowsocks'' \<and> trim (ib_network inbound) = [] then ''tcp,udp''
      else
        let network = to_ascii_lowercase (core_first_non_empty (trim (ib_network inbound)) ''tcp'')
        in if network = ''websocket'' then ''ws''
           else if network \<in> set [''http_upgrade'', ''http-upgrade'', ''httpupgrade''] then ''httpupgrade''
           else if network = ''gun'' then ''grpc''
           else network)"

definition json_value_is_empty :: "json \<Rightarrow> bool" where
  "json_value_is_empty v \<longleftrightarrow> v = JNull \<or> v = JObject []"

definition is_ascii_hexdigit :: "char \<Rightarrow> bool" where
  "is_ascii_hexdigit c \<longleftrightarrow> is_ascii_digit c \<or>
     (97 \<le> char_code c \<and> char_code c \<le> 102) \<or> (65 \<le> char_code c \<and> char_code c \<le> 70)"

definition is_uuid_like :: "string \<Rightarrow> bool" where
  "is_uuid_like v \<longleftrightarrow>
     (let compact = filter (\<lambda>c. c \<noteq> CHR ''-'') (trim v)
      in length compact = 32 \<and> list_all is_ascii_hexdigit compact)"

definition is_keli_core_rs_shadowsocks_cipher :: "string \<Rightarrow> bool" where
  "is_keli_core_rs_shadowsocks_cipher cipher \<longleftrightarrow>
     replace_char (CHR ''_'') (CHR ''-'') (to_ascii_lowercase (trim cipher)) \<in>
       set [''aes-128-gcm'', ''aes-256-gcm'', ''chacha20-ietf-poly1305'']"

definition is_keli_core_rs_quic_congestion_supported :: "string \<Rightarrow> bool" where
  "is_keli_core_rs_quic_congestion_supported v \<longleftrightarrow>
     map (\<lambda>c. if c = CHR ''-'' \<or> c = CHR '' '' then CHR ''_'' else c) (to_ascii_lowercase (trim v)) \<in>
       set [[], ''cubic'', ''bbr'', ''new_reno'', ''newreno'', ''reno'']"

section \<open>Field checks\<close>

definition validate_keli_core_rs_protocol_scoped_fields :: "inbound_plan \<Rightarrow> unit result" where
  "validate_keli_core_rs_protocol_scoped_fields inbound =
     (let protocol = ib_protocol inbound; tag = ib_tag inbound;
          has_hysteria2_options = (ib_up_mbps inbound > 0 \<or> ib_down_mbps inbound > 0 \<or>
            ib_ignore_client_bandwidth inbound \<or> trim (ib_obfs inbound) \<noteq> [] \<or> trim (ib_obfs_password inbound) \<noteq> [])
      in checks
        [(protocol \<noteq> ''shadowsocks'' \<and> trim (ib_cipher inbound) \<noteq> [],
          ''keli-core-rs '' @ protocol @ '' does not support cipher on inbound '' @ tag),
         (protocol \<noteq> ''anytls'' \<and> ib_padding_scheme inbound \<noteq> [],
          ''keli-core-rs '' @ protocol @ '' does not support paddingScheme on inbound '' @ tag),
         (protocol \<noteq> ''hysteria'' \<and> has_hysteria2_options,
          ''keli-core-rs '' @ protocol @ '' does not support hysteria2 bandwidth/obfs options on inbound '' @ tag),
         (trim (ib_congestion_control inbound) \<noteq> [] \<and> protocol \<notin> set [''tuic'', ''hysteria''],
          ''keli-core-rs '' @ protocol @ '' does not support congestion_control on inbound '' @ tag),
         (protocol \<noteq> ''tuic'' \<and> ib_zero_rtt_handshake inbound,
          ''keli-core-rs '' @ protocol @ '' does not support tuic zero-rtt options on inbound '' @ tag)])"

definition validate_keli_core_rs_flow :: "inbound_plan \<Rightarrow> string \<Rightarrow> unit result" where
  "validate_keli_core_rs_flow inbound network =
     (let flow = trim (ib_flow inbound); tag = ib_tag inbound
      in if flow = [] then Ok ()
         else checks
           [(ib_protocol inbound \<noteq> ''vless'',
             ''keli-core-rs '' @ ib_protocol inbound @ '' currently does not support flow '' @ ib_flow inbound @
             ''; inbound '' @ tag),
            (flow \<noteq> ''xtls-rprx-vision'',
             ''keli-core-rs vless currently supports only xtls-rprx-vision flow; inbound '' @ tag @ '' uses '' @ ib_flow inbound),
            (network \<noteq> ''tcp'',
             ''keli-core-rs vless vision currently requires tcp transport; inbound '' @ tag @ '' uses '' @ network),
            (ib_security inbound \<notin> set [''tls'', ''reality''],
             ''keli-core-rs vless vision currently requires tls or reality security; inbound '' @ tag @ '' uses '' @
             ib_security inbound)])"

definition validate_keli_core_rs_plain_tcp_inbound :: "inbound_plan \<Rightarrow> unit result" where
  "validate_keli_core_rs_plain_tcp_inbound inbound =
     (let protocol = ib_protocol inbound; tag = ib_tag inbound;
          network = to_ascii_lowercase (core_first_non_empty (trim (ib_network inbound)) ''tcp'');
          network_supported = (if protocol = ''shadowsocks'' then network = ''tcp'' \<or> network = ''tcp,udp'' else network = ''tcp'');
          expected = (if protocol = ''shadowsocks'' then ''tcp or tcp,udp'' else ''tcp'')
      in and_then (checks
           [(\<not> network_supported,
             ''keli-core-rs '' @ protocol @ '' currently supports only '' @ expected @ '' transport; inbound '' @ tag @
             '' uses '' @ network),
            (ib_security inbound \<noteq> ''none'' \<and> \<not> (protocol = ''anytls'' \<and> ib_security inbound = ''tls''),
             ''keli-core-rs '' @ protocol @ '' currently supports only security none'' @
             (if protocol = ''anytls'' then ''/tls'' else []) @ ''; inbound '' @ tag @ '' uses '' @ ib_security inbound),
            (protocol \<noteq> ''mieru'' \<and> trim (ib_port_range inbound) \<noteq> [],
             ''keli-core-rs '' @ protocol @ '' currently supports only a single port; inbound '' @ tag @
             '' uses port range '' @ ib_port_range inbound)])
         (\<lambda>_. and_then (validate_keli_core_rs_flow inbound network)
         (\<lambda>_. checks
           [(\<not> json_value_is_empty (ib_network_settings inbound),
             ''keli-core-rs '' @ protocol @ '' currently does not support transport settings on inbound '' @ tag)])))"

definition validate_keli_core_rs_tls_inbound :: "inbound_plan \<Rightarrow> unit result" where
  "validate_keli_core_rs_tls_inbound inbound =
     (let protocol = ib_protocol inbound; tag = ib_tag inbound;
          network = keli_core_rs_transport_network inbound;
          supports_transport = (network \<in> set [''tcp'', ''ws'', ''httpupgrade'', ''grpc''] \<or>
            (protocol = ''naive'' \<and> network = ''quic''));
          expected = (if protocol = ''naive'' then ''tcp/quic'' else ''tcp/ws/httpupgrade/grpc'')
      in checks
        [(\<not> supports_transport,
          ''keli-core-rs '' @ protocol @ '' tls currently supports only '' @ expected @ '' transport; inbound '' @ tag @
          '' uses '' @ network),
         (trim (ib_cert_file inbound) = [] \<or> trim (ib_key_file inbound) = [],
          ''keli-core-rs '' @ protocol @ '' tls requires cert_file and key_file on inbound '' @ tag),
         (ib_reject_unknown_sni inbound \<and> trim (ib_server_name inbound) = [],
          ''keli-core-rs '' @ protocol @ '' reject_unknown_sni requires server_name on inbound '' @ tag)])"

definition validate_keli_core_rs_naive_inbound :: "inbound_plan \<Rightarrow> unit result" where
  "validate_keli_core_rs_naive_inbound inbound =
     (let tag = ib_tag inbound;
          network = to_ascii_lowercase (core_first_non_empty (trim (ib_network inbound)) ''tcp'')
      in and_then (checks
           [(network \<notin> set [''tcp'', ''quic''],
             ''keli-core-rs naive currently supports only tcp or quic transport; inbound '' @ tag @ '' uses '' @ network),
            (ib_security inbound \<noteq> ''tls'',
             ''keli-core-rs naive currently requires tls security; inbound '' @ tag @ '' uses '' @ ib_security inbound)])
         (\<lambda>_. and_then (validate_keli_core_rs_tls_inbound inbound)
         (\<lambda>_. checks
           [(trim (ib_port_range inbound) \<noteq> [],
             ''keli-core-rs naive currently supports only a single port; inbound '' @ tag @ '' uses port range '' @
             ib_port_range inbound),
            (trim (ib_flow inbound) \<noteq> [],
             ''keli-core-rs naive does not support flow; inbound '' @ tag @ '' uses '' @ ib_flow inbound),
            (\<not> json_value_is_empty (ib_network_settings inbound),
             ''keli-core-rs naive currently does not support transport settings on inbound '' @ tag)])))"

definition validate_keli_core_rs_reality_inbound :: "inbound_plan \<Rightarrow> unit result" where
  "validate_keli_core_rs_reality_inbound inbound =
     (let tag = ib_tag inbound; network = keli_core_rs_transport_network inbound
      in checks
        [(ib_protocol inbound \<noteq> ''vless'',
          ''keli-core-rs reality currently supports only vless; inbound '' @ tag @ '' uses '' @ ib_protocol inbound),
         (network \<noteq> ''tcp'',
          ''keli-core-rs vless reality currently requires tcp transport; inbound '' @ tag @ '' uses '' @ network),
         (trim (ib_server_name inbound) = [], ''keli-core-rs vless reality requires server_name on inbound '' @ tag),
         (trim (ib_reality_dest inbound) = [], ''keli-core-rs vless reality requires dest on inbound '' @ tag),
         (trim (ib_reality_private_key inbound) = [],
          ''keli-core-rs vless reality requires private_key on inbound '' @ tag),
         (trim (ib_reality_short_id inbound) = [], ''keli-core-rs vless reality requires short_id on inbound '' @ tag),
         (trim (ib_reality_mldsa65_seed inbound) \<noteq> [],
          ''keli-core-rs vless reality mldsa65Seed is not supported yet on inbound '' @ tag)])"

section \<open>Transport settings\<close>

definition validate_http_header :: "inbound_plan \<Rightarrow> string \<Rightarrow> string \<times> json \<Rightarrow> unit result" where
  "validate_http_header inbound network = (\<lambda>(key, v). checks
     [(key \<notin> set [''Host'', ''host''],
       ''keli-core-rs '' @ network @ '' header '' @ key @ '' on inbound '' @ ib_tag inbound @ '' is not supported yet''),
      (\<not> json_is_string v,
       ''keli-core-rs '' @ network @ '' header '' @ key @ '' on inbound '' @ ib_tag inbound @ '' must be a string'')])"

definition validate_keli_core_rs_http_transport_headers :: "inbound_plan \<Rightarrow> string \<Rightarrow> json \<Rightarrow> unit result" where
  "validate_keli_core_rs_http_transport_headers inbound network headers =
     (case json_as_object headers of
        None \<Rightarrow> Err (''keli-core-rs '' @ network @ '' headers on inbound '' @ ib_tag inbound @ '' must be an object'')
      | Some members \<Rightarrow> check_each (validate_http_header inbound network) members)"

definition validate_http_setting :: "inbound_plan \<Rightarrow> string \<Rightarrow> string \<times> json \<Rightarrow> unit result" where
  "validate_http_setting inbound network = (\<lambda>(key, v).
     if key \<in> set [''path'', ''Host'', ''host'']
     then checks [(\<not> json_is_string v,
       ''keli-core-rs '' @ network @ '' setting '' @ key @ '' on inbound '' @ ib_tag inbound @ '' must be a string'')]
     else if key = ''headers'' then validate_keli_core_rs_http_transport_headers inbound network v
     else if key \<in> set [''ipaddress'', ''ipAddress'', ''ip_address''] then Ok ()
     else Err (''keli-core-rs '' @ network @ '' setting '' @ key @ '' on inbound '' @ ib_tag inbound @
       '' is not supported yet''))"

definition validate_keli_core_rs_http_transport_settings :: "inbound_plan \<Rightarrow> string \<Rightarrow> unit result" where
  "validate_keli_core_rs_http_transport_settings inbound network =
     (if json_value_is_empty (ib_network_settings inbound) then Ok ()
      else case json_as_object (ib_network_settings inbound) of
             None \<Rightarrow> Err (''keli-core-rs '' @ network @ '' settings on inbound '' @ ib_tag inbound @ '' must be an object'')
           | Some members \<Rightarrow> check_each (validate_http_setting inbound network) members)"

definition validate_grpc_setting :: "inbound_plan \<Rightarrow> string \<times> json \<Rightarrow> unit result" where
  "validate_grpc_setting inbound = (\<lambda>(key, v).
     if key \<in> set [''serviceName'', ''service_name'']
     then checks [(\<not> json_is_string v,
       ''keli-core-rs grpc setting '' @ key @ '' on inbound '' @ ib_tag inbound @ '' must be a string'')]
     else if key \<in> set [''multiMode'', ''multi_mode'']
     then checks [(unwrap_or False (json_as_bool v),
       ''keli-core-rs grpc TunMulti is not supported yet on inbound '' @ ib_tag inbound)]
     else Err (''keli-core-rs grpc setting '' @ key @ '' on inbound '' @ ib_tag inbound @ '' is not supported yet''))"

definition validate_keli_core_rs_grpc_transport_settings :: "inbound_plan \<Rightarrow> unit result" where
  "validate_keli_core_rs_grpc_transport_settings inbound =
     (if json_value_is_empty (ib_network_settings inbound) then Ok ()
      else case json_as_object (ib_network_settings inbound) of
             None \<Rightarrow> Err (''keli-core-rs grpc settings on inbound '' @ ib_tag inbound @ '' must be an object'')
           | Some members \<Rightarrow> check_each (validate_grpc_setting inbound) members)"

definition validate_keli_core_rs_tcp_or_ws_inbound :: "inbound_plan \<Rightarrow> unit result" where
  "validate_keli_core_rs_tcp_or_ws_inbound inbound =
     (let protocol = ib_protocol inbound; tag = ib_tag inbound; network = keli_core_rs_transport_network inbound
      in and_then (checks
           [(network \<notin> set [''tcp'', ''ws'', ''httpupgrade'', ''grpc''],
             ''keli-core-rs '' @ protocol @ '' currently supports only tcp/ws/httpupgrade/grpc transport; inbound '' @ tag @
             '' uses '' @ network),
            (ib_security inbound \<notin> set [''none'', ''tls'', ''reality''],
             ''keli-core-rs '' @ protocol @ '' currently supports only security none/tls/reality; inbound '' @ tag @
             '' uses '' @ ib_security inbound)])
         (\<lambda>_. and_then
           (if ib_security inbound = ''reality'' then validate_keli_core_rs_reality_inbound inbound
            else if ib_security inbound = ''tls'' then validate_keli_core_rs_tls_inbound inbound
            else Ok ())
         (\<lambda>_. and_then (validate_keli_core_rs_flow inbound network)
         (\<lambda>_.
           if network = ''tcp''
           then checks [(\<not> json_value_is_empty (ib_network_settings inbound),
             ''keli-core-rs '' @ protocol @ '' currently does not support transport settings on tcp inbound '' @ tag)]
           else if network = ''grpc'' then validate_keli_core_rs_grpc_transport_settings inbound
           else validate_keli_core_rs_http_transport_settings inbound network))))"

section \<open>TUIC and Hysteria2\<close>

definition validate_keli_core_rs_tuic_inbound :: "inbound_plan \<Rightarrow> unit result" where
  "validate_keli_core_rs_tuic_inbound inbound =
     (let tag = ib_tag inbound; congestion = trim (ib_congestion_control inbound)
      in checks
        [(keli_core_rs_transport_network inbound \<noteq> ''tuic'',
          ''keli-core-rs tuic currently requires tuic transport; inbound '' @ tag @ '' uses '' @ ib_network inbound),
         (ib_security inbound \<noteq> ''tls'',
          ''keli-core-rs tuic currently requires tls security; inbound '' @ tag @ '' uses '' @ ib_security inbound),
         (trim (ib_cert_file inbound) = [] \<or> trim (ib_key_file inbound) = [],
          ''keli-core-rs tuic tls requires cert_file and key_file on inbound '' @ tag),
         (ib_reject_unknown_sni inbound \<and> trim (ib_server_name inbound) = [],
          ''keli-core-rs tuic reject_unknown_sni requires server_name on inbound '' @ tag),
         (trim (ib_flow inbound) \<noteq> [],
          ''keli-core-rs tuic currently does not support flow '' @ ib_flow inbound @ ''; inbound '' @ tag),
         (\<not> json_value_is_empty (ib_network_settings inbound),
          ''keli-core-rs tuic currently does not support transport settings on inbound '' @ tag),
         (congestion \<noteq> [] \<and> \<not> is_keli_core_rs_quic_congestion_supported congestion,
          ''keli-core-rs tuic congestion_control '' @ ib_congestion_control inbound @ '' is not supported on inbound '' @ tag),
         (ib_zero_rtt_handshake inbound, ''keli-core-rs tuic currently does not support zero-rtt on inbound '' @ tag),
         (list_ex (\<lambda>user. \<not> is_uuid_like (iu_uuid user)) (ib_users inbound),
          ''keli-core-rs tuic currently requires UUID users on inbound '' @ tag)])"

definition validate_keli_core_rs_hysteria2_inbound :: "inbound_plan \<Rightarrow> unit result" where
  "validate_keli_core_rs_hysteria2_inbound inbound =
     (let tag = ib_tag inbound; congestion = trim (ib_congestion_control inbound);
          obfs = trim (ib_obfs inbound); obfs_password = trim (ib_obfs_password inbound)
      in checks
        [(keli_core_rs_transport_network inbound \<notin> set [''hysteria'', ''hysteria2''],
          ''keli-core-rs hysteria2 currently requires hysteria transport; inbound '' @ tag @ '' uses '' @ ib_network inbound),
         (ib_security inbound \<noteq> ''tls'',
          ''keli-core-rs hysteria2 currently requires tls security; inbound '' @ tag @ '' uses '' @ ib_security inbound),
         (trim (ib_cert_file inbound) = [] \<or> trim (ib_key_file inbound) = [],
          ''keli-core-rs hysteria2 tls requires cert_file and key_file on inbound '' @ tag),
         (ib_reject_unknown_sni inbound \<and> trim (ib_server_name inbound) = [],
          ''keli-core-rs hysteria2 reject_unknown_sni requires server_name on inbound '' @ tag),
         (trim (ib_flow inbound) \<noteq> [],
          ''keli-core-rs hysteria2 currently does not support flow '' @ ib_flow inbound @ ''; inbound '' @ tag),
         (\<not> json_value_is_empty (ib_network_settings inbound),
          ''keli-core-rs hysteria2 currently does not support transport settings on inbound '' @ tag),
         (congestion \<noteq> [] \<and> \<not> is_keli_core_rs_quic_congestion_supported congestion,
          ''keli-core-rs hysteria2 congestion_control '' @ ib_congestion_control inbound @ '' is not supported on inbound '' @ tag),
         ((obfs \<noteq> [] \<or> obfs_password \<noteq> []) \<and> \<not> eq_ignore_ascii_case obfs ''salamander'',
          ''keli-core-rs hysteria2 only supports salamander obfs on inbound '' @ tag),
         ((obfs \<noteq> [] \<or> obfs_password \<noteq> []) \<and> length obfs_password < 4,
          ''keli-core-rs hysteria2 salamander obfs password must be at least 4 bytes on inbound '' @ tag)])"

section \<open>The capability gate\<close>

definition capability_protocol_for_inbound :: "inbound_plan \<Rightarrow> native_protocol result" where
  "capability_protocol_for_inbound inbound =
     (let p = ib_protocol inbound
      in if p = ''socks'' then Ok NpSocks
         else if p = ''http'' then Ok NpHttp
         else if p = ''shadowsocks'' then Ok NpShadowsocks
         else if p = ''vless'' then Ok NpVless
         else if p = ''vmess'' then Ok NpVmess
         else if p = ''trojan'' then Ok NpTrojan
         else if p = ''anytls'' then Ok NpAnyTls
         else if p = ''hysteria'' \<or> p = ''hysteria2'' then Ok NpHysteria2
         else if p = ''tuic'' then Ok NpTuic
         else if p = ''naive'' then Ok NpNaive
         else if p = ''mieru'' then Ok NpMieru
         else Err (''keli-core-rs native capability gate cannot classify protocol '' @ p @ '' on inbound '' @ ib_tag inbound))"

definition capability_transport_for_inbound :: "inbound_plan \<Rightarrow> capability_transport result" where
  "capability_transport_for_inbound inbound =
     (let network = keli_core_rs_transport_network inbound
      in if ib_protocol inbound = ''naive'' \<and> network = ''tcp'' then Ok TrH2
         else if network = ''tcp'' \<or> network = ''tcp,udp'' then Ok TrTcp
         else if network = ''udp'' then Ok TrUdp
         else if network = ''ws'' then Ok TrWs
         else if network = ''httpupgrade'' then Ok TrHttpUpgrade
         else if network = ''h2'' \<or> network = ''http'' then Ok TrH2
         else if network = ''grpc'' then Ok TrGrpc
         else if network \<in> set [''quic'', ''hysteria'', ''hysteria2'', ''tuic''] then Ok TrQuic
         else Err (''keli-core-rs native capability gate cannot classify transport '' @ network @ '' on inbound '' @
           ib_tag inbound))"

definition capability_security_for_inbound :: "inbound_plan \<Rightarrow> capability_security result" where
  "capability_security_for_inbound inbound =
     (let s = ib_security inbound
      in if s = ''none'' then Ok CsNone
         else if s = ''tls'' then Ok CsTls
         else if s = ''reality'' then Ok CsReality
         else Err (''keli-core-rs native capability gate cannot classify security '' @ s @ '' on inbound '' @ ib_tag inbound))"

definition capability_udp_mode_for_inbound :: "inbound_plan \<Rightarrow> udp_mode" where
  "capability_udp_mode_for_inbound inbound =
     (let p = ib_protocol inbound
      in if p = ''socks'' then UmUdpAssociate
         else if p \<in> set [''http'', ''naive''] then UmNone
         else if p \<in> set [''shadowsocks'', ''hysteria'', ''hysteria2'', ''tuic''] then UmNativeUdp
         else if p = ''mieru'' \<and> keli_core_rs_transport_network inbound = ''udp'' then UmNativeUdp
         else if p \<in> set [''vless'', ''vmess'', ''trojan'', ''anytls'', ''mieru''] then UmUdpOverStream
         else UmNone)"

definition capability_user_model_for_inbound :: "inbound_plan \<Rightarrow> string" where
  "capability_user_model_for_inbound inbound =
     (let p = ib_protocol inbound
      in if p \<in> set [''socks'', ''http'', ''trojan'', ''anytls'', ''hysteria'', ''hysteria2''] then ''password''
         else if p \<in> set [''vless'', ''vmess''] then ''uuid''
         else if p = ''tuic'' then ''uuid_password''
         else if p = ''naive'' then ''basic_auth''
         else if p = ''mieru'' then ''username_password''
         else if p = ''shadowsocks'' then ''password''
         else ''none'')"

definition capability_key_for_inbound :: "inbound_plan \<Rightarrow> capability_key result" where
  "capability_key_for_inbound inbound =
     and_then (capability_protocol_for_inbound inbound) (\<lambda>protocol.
     and_then (capability_transport_for_inbound inbound) (\<lambda>transport.
     and_then (capability_security_for_inbound inbound) (\<lambda>security.
       Ok \<lparr>ck_protocol = protocol, ck_direction = DirInbound, ck_transport = transport, ck_security = security,
           ck_udp_mode = capability_udp_mode_for_inbound inbound,
           ck_flow = core_first_non_empty (trim (ib_flow inbound)) ''none'',
           ck_user_model = capability_user_model_for_inbound inbound,
           ck_route_outbound = ''per_inbound_routes''\<rparr>)))"

definition keli_core_rs_inbound_capability :: "inbound_plan \<Rightarrow> capability_entry result" where
  "keli_core_rs_inbound_capability inbound =
     map_ok (\<lambda>key. case lookup_capability_entry key of
          Some e \<Rightarrow> e
        | None \<Rightarrow> unsupported_capability_entry key
            (''keli-core-rs native renderer has no verified capability entry for inbound '' @ ib_tag inbound))
       (capability_key_for_inbound inbound)"

definition validate_keli_core_rs_inbound_capability_with_canary_allow_list ::
  "inbound_plan \<Rightarrow> string option \<Rightarrow> unit result" where
  "validate_keli_core_rs_inbound_capability_with_canary_allow_list inbound allow_list =
     and_then (keli_core_rs_inbound_capability inbound) (\<lambda>e.
       case ce_decision e of
         RenderNative \<Rightarrow> Ok ()
       | RenderNativeWithWarning \<Rightarrow> Ok ()
       | FallbackGo \<Rightarrow> Err (gate_message e)
       | Reject _ \<Rightarrow> if entry_allowed_by_explicit_canary_allow_list e allow_list then Ok () else Err (gate_message e))"

section \<open>An inbound\<close>

definition validate_keli_core_rs_protocol :: "inbound_plan \<Rightarrow> unit result" where
  "validate_keli_core_rs_protocol inbound =
     (let p = ib_protocol inbound
      in if p \<in> set [''socks'', ''http''] then validate_keli_core_rs_plain_tcp_inbound inbound
         else if p = ''shadowsocks''
         then and_then (validate_keli_core_rs_plain_tcp_inbound inbound) (\<lambda>_. checks
           [(\<not> is_keli_core_rs_shadowsocks_cipher (ib_cipher inbound),
             ''keli-core-rs shadowsocks cipher '' @ ib_cipher inbound @ '' on inbound '' @ ib_tag inbound @
             '' is not supported yet'')])
         else if p = ''anytls''
         then and_then (validate_keli_core_rs_plain_tcp_inbound inbound) (\<lambda>_.
           if ib_security inbound = ''tls'' then validate_keli_core_rs_tls_inbound inbound else Ok ())
         else if p = ''mieru'' then validate_keli_core_rs_plain_tcp_inbound inbound
         else if p = ''naive'' then validate_keli_core_rs_naive_inbound inbound
         else if p \<in> set [''vless'', ''trojan'', ''vmess''] then validate_keli_core_rs_tcp_or_ws_inbound inbound
         else if p = ''tuic'' then validate_keli_core_rs_tuic_inbound inbound
         else if p = ''hysteria'' then validate_keli_core_rs_hysteria2_inbound inbound
         else Err (''keli-core-rs native renderer only supports socks/http/shadowsocks/vmess/vless/trojan/anytls/mieru tcp, naive h2/h3 tls, vmess/vless/trojan ws/httpupgrade/grpc, tuic tcp/udp relay, and hysteria2 tcp/udp relay today; inbound '' @
           ib_tag inbound @ '' uses '' @ p))"

definition validate_keli_core_rs_inbound :: "string option \<Rightarrow> inbound_plan \<Rightarrow> unit result" where
  "validate_keli_core_rs_inbound allow inbound =
     and_then (validate_keli_core_rs_protocol_scoped_fields inbound) (\<lambda>_.
     and_then (validate_keli_core_rs_protocol inbound) (\<lambda>_.
       validate_keli_core_rs_inbound_capability_with_canary_allow_list inbound allow))"

section \<open>Splitting the nodes\<close>

definition node_supported_by_keli_core_rs ::
  "string option \<Rightarrow> string \<Rightarrow> node_info \<Rightarrow> (string, user_info list) btmap \<Rightarrow> unit result" where
  "node_supported_by_keli_core_rs allow config_path node users =
     (if keli_core_rs_protocol_requires_users (ni_protocol node) \<and> \<not> node_has_keli_core_rs_users (ni_tag node) users
      then Err (''keli-core-rs '' @ core_protocol_name (ni_protocol node) @ '' inbound '' @ ni_tag node @
        '' requires panel users before rendering'')
      else and_then (from_nodes_with_users KeliCoreRs config_path [node] users) (\<lambda>probe.
        check_each (validate_keli_core_rs_inbound allow) (cp_inbounds probe)))"

fun split_nodes_loop ::
  "string option \<Rightarrow> string \<Rightarrow> (string, user_info list) btmap \<Rightarrow> node_info list \<Rightarrow> node_info list \<Rightarrow> node_info list result" where
  "split_nodes_loop allow config_path users [] core_nodes = Ok core_nodes"
| "split_nodes_loop allow config_path users (node # nodes) core_nodes =
     (if keli_core_rs_protocol_requires_users (ni_protocol node) \<and> \<not> node_has_keli_core_rs_users (ni_tag node) users
      then split_nodes_loop allow config_path users nodes core_nodes
      else and_then (node_supported_by_keli_core_rs allow config_path node users) (\<lambda>_.
        split_nodes_loop allow config_path users nodes (core_nodes @ [node])))"

definition split_core_plans_for_nodes_with_kind ::
  "string option \<Rightarrow> core_kind \<Rightarrow> string \<Rightarrow> node_info list \<Rightarrow> (string, user_info list) btmap \<Rightarrow> core_plan_bundle result" where
  "split_core_plans_for_nodes_with_kind allow kind config_path nodes users =
     and_then (split_nodes_loop allow config_path users nodes []) (\<lambda>core_nodes.
       if core_nodes = [] then Ok \<lparr>cpb_core = None\<rparr>
       else map_ok (\<lambda>plan. \<lparr>cpb_core = Some plan\<rparr>) (from_nodes_with_users kind config_path core_nodes users))"

definition split_core_plans_for_nodes ::
  "string option \<Rightarrow> string \<Rightarrow> node_info list \<Rightarrow> (string, user_info list) btmap \<Rightarrow> core_plan_bundle result" where
  "split_core_plans_for_nodes allow = split_core_plans_for_nodes_with_kind allow KeliCoreRs"

section \<open>What an accepted inbound has\<close>

lemma validate_inbound_Inr:
  "validate_keli_core_rs_inbound allow inbound = Inr () \<longleftrightarrow>
     validate_keli_core_rs_protocol_scoped_fields inbound = Inr () \<and> validate_keli_core_rs_protocol inbound = Inr () \<and>
     validate_keli_core_rs_inbound_capability_with_canary_allow_list inbound allow = Inr ()"
  by (auto simp: validate_keli_core_rs_inbound_def result_simps)

lemma capability_gate_Inr:
  assumes "validate_keli_core_rs_inbound_capability_with_canary_allow_list inbound allow = Inr ()"
  obtains key e where "capability_key_for_inbound inbound = Inr key" "lookup_capability_entry key = Some e"
    "renders (ce_decision e) \<or> entry_allowed_by_explicit_canary_allow_list e allow"
proof -
  from assms obtain key where key: "capability_key_for_inbound inbound = Inr key"
    by (auto simp: validate_keli_core_rs_inbound_capability_with_canary_allow_list_def
        keli_core_rs_inbound_capability_def result_simps)
  show ?thesis
  proof (cases "lookup_capability_entry key")
    case None
    with key assms show ?thesis
      by (auto simp: validate_keli_core_rs_inbound_capability_with_canary_allow_list_def
          keli_core_rs_inbound_capability_def unsupported_capability_entry_def
          entry_allowed_by_explicit_canary_allow_list_def)
  next
    case (Some e)
    with key assms have "renders (ce_decision e) \<or> entry_allowed_by_explicit_canary_allow_list e allow"
      by (auto simp: validate_keli_core_rs_inbound_capability_with_canary_allow_list_def
          keli_core_rs_inbound_capability_def split: render_decision.splits if_splits)
    with key Some show ?thesis using that by blast
  qed
qed

lemma lookup_in_matrix:
  "lookup_capability_entry key = Some e \<Longrightarrow> e \<in> set native_capability_matrix \<and> capability_key_matches (ce_key e) key"
  by (auto simp: lookup_capability_entry_def find_Some_iff)

lemma capability_key_fields:
  assumes "capability_key_for_inbound inbound = Inr key"
  shows "capability_security_for_inbound inbound = Inr (ck_security key)"
    "capability_transport_for_inbound inbound = Inr (ck_transport key)"
    "capability_protocol_for_inbound inbound = Inr (ck_protocol key)"
    "ck_flow key = core_first_non_empty (trim (ib_flow inbound)) ''none''"
  using assms by (auto simp: capability_key_for_inbound_def result_simps)

text \<open>
  C5: an inbound is accepted for rendering only if the matrix has a row for its combination that
  either renders it or is one of the Trojan gRPC and HTTPUpgrade canary rows opened by the allow
  list; without an allow list only rows that render are left.
\<close>

theorem accepted_inbound_capable:
  assumes "validate_keli_core_rs_inbound allow inbound = Ok ()"
  shows "\<exists>key e. capability_key_for_inbound inbound = Ok key \<and> lookup_capability_entry key = Some e \<and>
    (renders (ce_decision e) \<or>
     allow \<noteq> None \<and> entry_allowed_by_explicit_canary_allow_list e allow \<and> ck_protocol key = NpTrojan \<and>
     (ck_transport key = TrGrpc \<or> ck_transport key = TrHttpUpgrade))"
proof -
  from assms obtain key e where k: "capability_key_for_inbound inbound = Inr key" "lookup_capability_entry key = Some e"
    and d: "renders (ce_decision e) \<or> entry_allowed_by_explicit_canary_allow_list e allow"
    by (auto simp: validate_inbound_Inr elim: capability_gate_Inr)
  have e: "e \<in> set native_capability_matrix" "capability_key_matches (ce_key e) key"
    using lookup_in_matrix [OF k(2)] by auto
  show ?thesis
  proof (cases "renders (ce_decision e)")
    case True
    with k show ?thesis by blast
  next
    case False
    with d have a: "entry_allowed_by_explicit_canary_allow_list e allow" by simp
    from matrix_refused_rows [OF e(1) False] allow_list_canary_only [OF a] e(2)
    have "ck_protocol key = NpTrojan \<and> (ck_transport key = TrGrpc \<or> ck_transport key = TrHttpUpgrade) \<and> allow \<noteq> None"
      by (auto simp: capability_key_matches_def)
    with k a show ?thesis by blast
  qed
qed

lemmas accept_simps = validate_keli_core_rs_protocol_def validate_keli_core_rs_plain_tcp_inbound_def
  validate_keli_core_rs_naive_inbound_def validate_keli_core_rs_tcp_or_ws_inbound_def
  validate_keli_core_rs_tuic_inbound_def validate_keli_core_rs_hysteria2_inbound_def
  validate_keli_core_rs_reality_inbound_def validate_keli_core_rs_tls_inbound_def

lemma accepted_tls_files:
  assumes "validate_keli_core_rs_protocol inbound = Inr ()" "ib_security inbound = ''tls''"
  shows "trim (ib_cert_file inbound) \<noteq> [] \<and> trim (ib_key_file inbound) \<noteq> []"
  using assms by (auto simp: accept_simps Let_def result_simps split: if_splits)

lemma accepted_reality:
  assumes "validate_keli_core_rs_protocol inbound = Inr ()" "ib_security inbound = ''reality''"
  shows "ib_protocol inbound = ''vless'' \<and> keli_core_rs_transport_network inbound = ''tcp'' \<and>
    trim (ib_server_name inbound) \<noteq> [] \<and> trim (ib_reality_dest inbound) \<noteq> [] \<and>
    trim (ib_reality_private_key inbound) \<noteq> [] \<and> trim (ib_reality_short_id inbound) \<noteq> []"
  using assms by (auto simp: accept_simps Let_def result_simps split: if_splits)

lemma accepted_flow:
  assumes "validate_keli_core_rs_protocol inbound = Inr ()"
  shows "trim (ib_flow inbound) = [] \<or> trim (ib_flow inbound) = ''xtls-rprx-vision'' \<and> ib_protocol inbound = ''vless'' \<and>
    (ib_security inbound = ''tls'' \<or> ib_security inbound = ''reality'')"
  using assms by (auto simp: accept_simps validate_keli_core_rs_flow_def Let_def result_simps split: if_splits)

text \<open>
  C4: an accepted inbound never lacks what its security needs: with TLS it names a certificate and a
  key file; with Reality it is VLESS over TCP with the Vision flow, a server name, a destination, a
  private key and a short id; any other security is refused, and a flow is Vision over TLS or Reality.
\<close>

theorem accepted_inbound_secure:
  assumes "validate_keli_core_rs_inbound allow inbound = Ok ()"
  shows "(ib_security inbound = ''none'' \<and> trim (ib_flow inbound) = [] \<or>
      ib_security inbound = ''tls'' \<and> trim (ib_cert_file inbound) \<noteq> [] \<and> trim (ib_key_file inbound) \<noteq> [] \<or>
      ib_security inbound = ''reality'' \<and> ib_protocol inbound = ''vless'' \<and> trim (ib_flow inbound) = ''xtls-rprx-vision'' \<and>
      keli_core_rs_transport_network inbound = ''tcp'' \<and> trim (ib_server_name inbound) \<noteq> [] \<and>
      trim (ib_reality_dest inbound) \<noteq> [] \<and> trim (ib_reality_private_key inbound) \<noteq> [] \<and>
      trim (ib_reality_short_id inbound) \<noteq> []) \<and>
    (trim (ib_flow inbound) = [] \<or> trim (ib_flow inbound) = ''xtls-rprx-vision'' \<and> ib_protocol inbound = ''vless'')"
proof -
  have v: "validate_keli_core_rs_protocol inbound = Inr ()" using assms by (simp add: validate_inbound_Inr)
  from assms obtain key e where k: "capability_key_for_inbound inbound = Inr key" "lookup_capability_entry key = Some e"
    by (auto simp: validate_inbound_Inr elim: capability_gate_Inr)
  note f = capability_key_fields [OF k(1)]
  have e: "e \<in> set native_capability_matrix" "capability_key_matches (ce_key e) key"
    using lookup_in_matrix [OF k(2)] by auto
  have "ck_security key = CsReality \<Longrightarrow> ck_flow key = ''xtls-rprx-vision''"
    using matrix_flow_rows [OF e(1)] e(2) by (auto simp: capability_key_matches_def)
  then have flow: "ib_security inbound = ''reality'' \<Longrightarrow> trim (ib_flow inbound) = ''xtls-rprx-vision''"
    using f(1,4) by (auto simp: capability_security_for_inbound_def Let_def core_first_non_empty_def split: if_splits)
  have sec: "ib_security inbound = ''none'' \<or> ib_security inbound = ''tls'' \<or> ib_security inbound = ''reality''"
    using f(1) by (auto simp: capability_security_for_inbound_def Let_def split: if_splits)
  then show ?thesis
    using accepted_flow [OF v] accepted_tls_files [OF v] accepted_reality [OF v] flow by auto
qed

section \<open>The split\<close>

abbreviation waits_for_users :: "(string, user_info list) btmap \<Rightarrow> node_info \<Rightarrow> bool" where
  "waits_for_users users node \<equiv>
     keli_core_rs_protocol_requires_users (ni_protocol node) \<and> \<not> node_has_keli_core_rs_users (ni_tag node) users"

abbreviation eligible_nodes :: "(string, user_info list) btmap \<Rightarrow> node_info list \<Rightarrow> node_info list" where
  "eligible_nodes users nodes \<equiv> filter (\<lambda>node. \<not> waits_for_users users node) nodes"

lemma split_nodes_loop_Inr:
  "split_nodes_loop allow path users nodes acc = Inr core_nodes \<longleftrightarrow>
     core_nodes = acc @ eligible_nodes users nodes \<and>
     (\<forall>node \<in> set (eligible_nodes users nodes). node_supported_by_keli_core_rs allow path node users = Inr ())"
proof (induction nodes arbitrary: acc)
  case (Cons node nodes)
  show ?case
  proof (cases "waits_for_users users node")
    case True
    with Cons.IH show ?thesis by auto
  next
    case False
    then show ?thesis
      by (cases "node_supported_by_keli_core_rs allow path node users") (auto simp: Cons.IH)
  qed
qed auto

abbreviation built_inbound :: "(string, user_info list) btmap \<Rightarrow> node_info \<Rightarrow> inbound_plan result" where
  "built_inbound users node \<equiv> build_inbound_plan_with_users node (unwrap_or [] (bt_get users (ni_tag node)))"

lemma node_supported_Inr:
  assumes "\<not> waits_for_users users node"
  shows "node_supported_by_keli_core_rs allow path node users = Inr () \<longleftrightarrow>
    (\<exists>inbound. built_inbound users node = Inr inbound \<and>
       validate_keli_core_rs_inbound allow (hd (strip_native_user_emails [inbound])) = Inr ())"
  using assms
  by (cases "built_inbound users node")
    (auto simp: node_supported_by_keli_core_rs_def from_nodes_with_users_eq strip_native_user_emails_def check_each_Inr result_simps)

lemma supported_nodes_build:
  assumes "\<forall>node \<in> set nodes. \<not> waits_for_users users node \<and> node_supported_by_keli_core_rs allow path node users = Inr ()"
  shows "\<exists>built. collect_results (map (built_inbound users) nodes) = Inr built \<and> map ib_tag built = map ni_tag nodes \<and>
    (\<forall>inbound \<in> set (strip_native_user_emails built). validate_keli_core_rs_inbound allow inbound = Inr ())"
  using assms
proof (induction nodes)
  case Nil
  show ?case by (intro exI [of _ "[]"]) (simp add: strip_native_user_emails_def)
next
  case (Cons node nodes)
  have n: "\<not> waits_for_users users node" "node_supported_by_keli_core_rs allow path node users = Inr ()"
    using Cons.prems by simp_all
  obtain inbound where i: "built_inbound users node = Inr inbound"
    "validate_keli_core_rs_inbound allow (hd (strip_native_user_emails [inbound])) = Inr ()"
    using node_supported_Inr [OF n(1)] n(2) by blast
  have "\<forall>node \<in> set nodes. \<not> waits_for_users users node \<and> node_supported_by_keli_core_rs allow path node users = Inr ()"
    using Cons.prems by simp
  from Cons.IH [OF this] obtain built where b: "collect_results (map (built_inbound users) nodes) = Inr built"
    "map ib_tag built = map ni_tag nodes"
    "\<forall>inbound \<in> set (strip_native_user_emails built). validate_keli_core_rs_inbound allow inbound = Inr ()" by blast
  have "collect_results (map (built_inbound users) (node # nodes)) = Inr (inbound # built)" using i(1) b(1) by simp
  moreover have "map ib_tag (inbound # built) = map ni_tag (node # nodes)"
    using b(2) build_inbound_plan_Inr(1) [OF i(1)] by simp
  moreover have "\<forall>x \<in> set (strip_native_user_emails (inbound # built)). validate_keli_core_rs_inbound allow x = Inr ()"
    using i(2) b(3) by (simp add: strip_native_user_emails_def)
  ultimately show ?case by blast
qed

lemma split_core_plans_iff:
  "split_core_plans_for_nodes_with_kind allow kind path nodes users = Ok bundle \<longleftrightarrow>
     list_all (\<lambda>node. is_ok (node_supported_by_keli_core_rs allow path node users)) (eligible_nodes users nodes) \<and>
     (case cpb_core bundle of
        None \<Rightarrow> eligible_nodes users nodes = []
      | Some plan \<Rightarrow> eligible_nodes users nodes \<noteq> [] \<and>
          from_nodes_with_users kind path (eligible_nodes users nodes) users = Ok plan \<and>
          cp_listen_tags plan = map ni_tag (eligible_nodes users nodes) \<and>
          list_all (\<lambda>inbound. is_ok (validate_keli_core_rs_inbound allow inbound)) (cp_inbounds plan))"
  (is "_ \<longleftrightarrow> ?A \<and> _")
proof -
  let ?ns = "eligible_nodes users nodes"
  have A: "?A \<longleftrightarrow> (\<forall>node \<in> set ?ns. node_supported_by_keli_core_rs allow path node users = Inr ())"
    by (auto simp: list_all_iff is_ok_iff)
  show ?thesis
  proof (cases "?A")
    case False
    then have "split_nodes_loop allow path users nodes [] \<noteq> Inr ns" for ns
      using A by (auto simp: split_nodes_loop_Inr)
    with False show ?thesis by (auto simp: split_core_plans_for_nodes_with_kind_def result_simps)
  next
    case True
    then have loop: "split_nodes_loop allow path users nodes [] = Inr ?ns" using A by (auto simp: split_nodes_loop_Inr)
    obtain built where b: "collect_results (map (built_inbound users) ?ns) = Inr built" "map ib_tag built = map ni_tag ?ns"
      "\<forall>inbound \<in> set (strip_native_user_emails built). validate_keli_core_rs_inbound allow inbound = Inr ()"
      using supported_nodes_build [where nodes = ?ns and users = users and allow = allow and path = path] True A by auto
    have plan: "from_nodes_with_users kind path ?ns users =
        Inr \<lparr>cp_kind = kind, cp_config_path = path, cp_listen_tags = map ni_tag ?ns,
          cp_inbounds = strip_native_user_emails built, cp_dns = dns_options_default\<rparr>"
      using b by (simp add: from_nodes_with_users_eq)
    show ?thesis
      using True b(3) plan loop
      by (cases "cpb_core bundle"; cases "bundle")
        (auto simp: split_core_plans_for_nodes_with_kind_def list_all_iff is_ok_iff)
  qed
qed

text \<open>The inbound a plan holds for a node that builds.\<close>

definition node_inbound :: "(string, user_info list) btmap \<Rightarrow> node_info \<Rightarrow> inbound_plan" where
  "node_inbound users node = hd (strip_native_user_emails [projr (built_inbound users node)])"

lemma built_node_inbounds:
  assumes "collect_results (map (built_inbound users) nodes) = Inr built"
  shows "strip_native_user_emails built = map (node_inbound users) nodes"
  using assms
proof (induction nodes arbitrary: built)
  case (Cons node nodes)
  then show ?case
    by (cases "built_inbound users node") (auto simp: result_simps node_inbound_def strip_native_user_emails_def)
qed (simp add: strip_native_user_emails_def)

lemma split_core_plans_eq:
  assumes "\<forall>node \<in> set (eligible_nodes users nodes). node_supported_by_keli_core_rs allow path node users = Inr ()"
  shows "split_core_plans_for_nodes_with_kind allow kind path nodes users =
      Inr \<lparr>cpb_core = (if eligible_nodes users nodes = [] then None else Some
        \<lparr>cp_kind = kind, cp_config_path = path, cp_listen_tags = map ni_tag (eligible_nodes users nodes),
         cp_inbounds = map (node_inbound users) (eligible_nodes users nodes), cp_dns = dns_options_default\<rparr>)\<rparr>"
    "\<forall>node \<in> set (eligible_nodes users nodes). ib_tag (node_inbound users node) = ni_tag node \<and>
       validate_keli_core_rs_inbound allow (node_inbound users node) = Inr ()"
proof -
  let ?ns = "eligible_nodes users nodes"
  have loop: "split_nodes_loop allow path users nodes [] = Inr ?ns" using assms by (auto simp: split_nodes_loop_Inr)
  obtain built where b: "collect_results (map (built_inbound users) ?ns) = Inr built" "map ib_tag built = map ni_tag ?ns"
    "\<forall>inbound \<in> set (strip_native_user_emails built). validate_keli_core_rs_inbound allow inbound = Inr ()"
    using supported_nodes_build [where nodes = ?ns and users = users and allow = allow and path = path] assms by auto
  show "split_core_plans_for_nodes_with_kind allow kind path nodes users =
      Inr \<lparr>cpb_core = (if ?ns = [] then None else Some
        \<lparr>cp_kind = kind, cp_config_path = path, cp_listen_tags = map ni_tag ?ns,
         cp_inbounds = map (node_inbound users) ?ns, cp_dns = dns_options_default\<rparr>)\<rparr>"
    using loop b(1,2) built_node_inbounds [OF b(1)]
    by (simp add: split_core_plans_for_nodes_with_kind_def from_nodes_with_users_eq)
  have "map ib_tag (strip_native_user_emails built) = map ni_tag ?ns"
    using b(2) by (simp add: strip_native_user_emails_def comp_def)
  with b(3) show "\<forall>node \<in> set ?ns. ib_tag (node_inbound users node) = ni_tag node \<and>
       validate_keli_core_rs_inbound allow (node_inbound users node) = Inr ()"
    unfolding built_node_inbounds [OF b(1)] by (simp add: comp_def)
qed

lemma split_core_plans_supported:
  assumes "split_core_plans_for_nodes_with_kind allow kind path nodes users = Inr b"
  shows "\<forall>node \<in> set (eligible_nodes users nodes). node_supported_by_keli_core_rs allow path node users = Inr ()"
  using assms by (auto simp: split_core_plans_for_nodes_with_kind_def result_simps split_nodes_loop_Inr)

text \<open>
  splitting the nodes succeeds exactly when every node that is not waiting for its users is
  supported on its own; the plan then listens for exactly these nodes, in order, every inbound of it
  passes validation, and there is no plan exactly when no node is left.
\<close>

lemma split_core_plans_spec:
  "split_core_plans_for_nodes_with_kind allow kind path nodes users = Ok bundle \<longleftrightarrow>
     list_all (\<lambda>node. is_ok (node_supported_by_keli_core_rs allow path node users)) (eligible_nodes users nodes) \<and>
     (case cpb_core bundle of
        None \<Rightarrow> eligible_nodes users nodes = []
      | Some plan \<Rightarrow> eligible_nodes users nodes \<noteq> [] \<and>
          from_nodes_with_users kind path (eligible_nodes users nodes) users = Ok plan \<and>
          cp_listen_tags plan = map ni_tag (eligible_nodes users nodes) \<and>
          list_all (\<lambda>inbound. is_ok (validate_keli_core_rs_inbound allow inbound)) (cp_inbounds plan))"
  by (rule split_core_plans_iff)

section \<open>Witnesses\<close>

definition sample_tls_node :: node_info where
  "sample_tls_node =
     (let n = sample_node Vless 7 443 []
      in n\<lparr>ni_security := SecTls, ni_common := (ni_common n)\<lparr>cn_cert_info := Some
           \<lparr>ci_cert_mode = ''file'', ci_cert_file = ''c.pem'', ci_key_file = ''k.pem'', ci_cert_domain = ''p'',
            ci_dns_env = [], ci_provider = [], ci_reject_unknown_sni = False\<rparr>\<rparr>\<rparr>)"

lemma sample_tls_accepted:
  "\<exists>i. build_inbound_plan sample_tls_node = Ok i \<and> ib_security i = ''tls'' \<and> validate_keli_core_rs_inbound None i = Ok ()"
proof -
  have "(case build_inbound_plan sample_tls_node of
      Inr i \<Rightarrow> ib_security i = ''tls'' \<and> validate_keli_core_rs_inbound None i = Ok () | Inl _ \<Rightarrow> False)" by code_simp
  then show ?thesis by (auto split: sum.splits)
qed

theorem accepted_inbound_capable_witness:
  "\<exists>i key e. build_inbound_plan sample_tls_node = Ok i \<and> capability_key_for_inbound i = Ok key \<and>
     lookup_capability_entry key = Some e \<and> renders (ce_decision e)"
  using sample_tls_accepted accepted_inbound_capable [where allow = None] by blast

theorem accepted_inbound_secure_witness:
  "\<exists>i. build_inbound_plan sample_tls_node = Ok i \<and> ib_security i = ''tls'' \<and> trim (ib_cert_file i) \<noteq> []"
proof -
  obtain i where i: "build_inbound_plan sample_tls_node = Ok i" "ib_security i = ''tls''"
    "validate_keli_core_rs_inbound None i = Ok ()" using sample_tls_accepted by blast
  from accepted_inbound_secure [OF i(3)] i(2) have "trim (ib_cert_file i) \<noteq> []" by auto
  with i show ?thesis by blast
qed

end
