(* ===== verification/Core_Routes.thy ===== *)
theory Core_Routes
  imports Core_Validate Ip_Addr Rust_Path
begin

text \<open>
  The rendering of routes, outbounds, DNS and inbounds into the configuration of the native core
  (\<open>src/src/core.rs\<close>, the \<open>render_*\<close>, \<open>collect_*\<close> and \<open>keli_core_rs_route_*\<close> functions). What
  \<open>serde_json::from_str\<close> reads is the argument \<open>pj\<close>, \<open>None\<close> for a text that is not JSON.
\<close>

section \<open>Reading settings\<close>

fun is_empty_json :: "json \<Rightarrow> bool" where
  "is_empty_json JNull = True"
| "is_empty_json (JString s) = (trim s = [])"
| "is_empty_json (JArray vs) = (vs = [])"
| "is_empty_json (JObject m) = (m = [])"
| "is_empty_json _ = False"

abbreviation non_empty :: "string \<Rightarrow> bool" where
  "non_empty s \<equiv> s \<noteq> []"

definition outbound_string :: "json \<Rightarrow> string \<Rightarrow> string option" where
  "outbound_string v key = opt_filter non_empty (map_option trim (Option.bind (json_get v key) json_as_str))"

definition outbound_string_or_first_array :: "json \<Rightarrow> string \<Rightarrow> string option" where
  "outbound_string_or_first_array v key =
     or_else (outbound_string v key)
       (opt_filter non_empty (map_option trim (Option.bind (json_get v key) (\<lambda>a.
          Option.bind (json_as_array a) (\<lambda>vs. case vs of [] \<Rightarrow> None | x # _ \<Rightarrow> json_as_str x)))))"

definition outbound_u16 :: "json \<Rightarrow> string \<Rightarrow> nat option" where
  "outbound_u16 v key =
     opt_filter (\<lambda>n. n \<le> u16_max) (Option.bind (json_get v key) (\<lambda>x.
       or_else (json_as_u64 x) (Option.bind (json_as_str x) (\<lambda>s. parse_uint u64_max (trim s)))))"

definition outbound_string_array :: "json \<Rightarrow> string \<Rightarrow> string list" where
  "outbound_string_array v key =
     (case Option.bind (json_get v key) json_as_array of
        Some vs \<Rightarrow> filter non_empty (map trim (List.map_filter json_as_str vs))
      | None \<Rightarrow> [])"

definition first_of :: "json option \<Rightarrow> json option" where
  "first_of v = Option.bind v (\<lambda>x. Option.bind (json_as_array x) (\<lambda>vs. case vs of [] \<Rightarrow> None | y # _ \<Rightarrow> Some y))"

definition rsplit_once :: "char \<Rightarrow> string \<Rightarrow> (string \<times> string) option" where
  "rsplit_once sep s = map_option (\<lambda>(a, b). (rev b, rev a)) (split_once sep (rev s))"

definition is_bracket :: "char \<Rightarrow> bool" where
  "is_bracket c \<longleftrightarrow> c = CHR ''['' \<or> c = CHR '']''"

definition some_non_empty :: "string \<Rightarrow> string option" where
  "some_non_empty s = (if s = [] then None else Some s)"

definition parse_route_redirect_endpoint :: "string \<Rightarrow> string option \<times> nat option" where
  "parse_route_redirect_endpoint v =
     (let tail = (case rsplit_once (CHR '':'') v of
            Some (host, port) \<Rightarrow>
              (case parse_uint u16_max port of
                 Some p \<Rightarrow> (some_non_empty (trim_matches is_bracket (trim host)), Some p)
               | None \<Rightarrow> (Some (trim_matches is_bracket v), None))
          | None \<Rightarrow> (Some (trim_matches is_bracket v), None))
      in case strip_prefix ''['' v of
           None \<Rightarrow> tail
         | Some rest \<Rightarrow>
             (case split_once (CHR '']'') rest of
                None \<Rightarrow> tail
              | Some (host, after) \<Rightarrow>
                  (some_non_empty (trim host), Option.bind (strip_prefix '':'' after) (parse_uint u16_max))))"

section \<open>The outbound of a route\<close>

definition parse_route_outbound :: "(string \<Rightarrow> json option) \<Rightarrow> route_plan \<Rightarrow> (string \<times> json) option" where
  "parse_route_outbound pj route =
     Option.bind (rp_action_value route) (\<lambda>v.
       let raw = trim v
       in if raw = [] then None
          else Option.bind (pj raw) (\<lambda>outbound.
            Option.bind (Option.bind (json_get outbound ''tag'') json_as_str) (\<lambda>t.
              let tag = trim t in if tag = [] then None else Some (tag, outbound))))"

definition keli_core_rs_route_outbound_is_blackhole :: "(string \<Rightarrow> json option) \<Rightarrow> route_plan \<Rightarrow> bool" where
  "keli_core_rs_route_outbound_is_blackhole pj route =
     (case parse_route_outbound pj route of
        None \<Rightarrow> False
      | Some (_, outbound) \<Rightarrow>
          (case Option.bind (json_get outbound ''protocol'') json_as_str of
             None \<Rightarrow> False | Some p \<Rightarrow> eq_ignore_ascii_case (trim p) ''blackhole''))"

type_synonym endpoint =
  "string option \<times> nat option \<times> string option \<times> string option \<times> string option \<times> nat option"

definition keli_core_rs_route_outbound_server_endpoint :: "json \<Rightarrow> endpoint" where
  "keli_core_rs_route_outbound_server_endpoint server =
     (let user = first_of (json_get server ''users'');
          s = outbound_string server; u = (\<lambda>key. Option.bind user (\<lambda>x. outbound_string x key));
          n = outbound_u16 server; m = (\<lambda>key. Option.bind user (\<lambda>x. outbound_u16 x key))
      in (s ''address'',
          opt_filter (\<lambda>p. p \<le> u16_max) (Option.bind (json_get server ''port'') json_as_u64),
          or_else (s ''username'') (or_else (s ''user'') (or_else (u ''user'') (or_else (u ''username'') (u ''id'')))),
          or_else (s ''password'') (or_else (s ''pass'') (or_else (u ''pass'') (u ''password''))),
          or_else (s ''method'') (or_else (s ''cipher'') (or_else (s ''security'')
            (or_else (u ''method'') (or_else (u ''cipher'') (or_else (u ''security'') (u ''flow'')))))),
          or_else (n ''alter_id'') (or_else (n ''alterId'') (or_else (m ''alter_id'') (m ''alterId'')))))"

definition with_settings_fallback :: "string option \<Rightarrow> nat option \<Rightarrow> endpoint \<Rightarrow> endpoint" where
  "with_settings_fallback settings_method settings_alter_id =
     (\<lambda>(address, port, username, password, meth, alter_id).
        (address, port, username, password, or_else meth settings_method, or_else alter_id settings_alter_id))"

definition keli_core_rs_route_outbound_endpoint :: "json \<Rightarrow> endpoint" where
  "keli_core_rs_route_outbound_endpoint outbound =
     (let address = outbound_string outbound ''address'';
          port = opt_filter (\<lambda>p. p \<le> u16_max) (Option.bind (json_get outbound ''port'') json_as_u64);
          s = outbound_string outbound
      in if address \<noteq> None \<or> port \<noteq> None
         then (address, port, or_else (s ''username'') (s ''user''), or_else (s ''password'') (s ''pass''),
               or_else (s ''method'') (s ''cipher''),
               or_else (outbound_u16 outbound ''alter_id'') (outbound_u16 outbound ''alterId''))
         else
           let settings = json_get outbound ''settings'';
               in_settings = (\<lambda>key. Option.bind settings (\<lambda>x. json_get x key));
               redirect = opt_filter non_empty (map_option trim (Option.bind (in_settings ''redirect'') json_as_str))
           in case redirect of
                Some r \<Rightarrow> (case parse_route_redirect_endpoint r of (a, p) \<Rightarrow> (a, p, None, None, None, None))
              | None \<Rightarrow>
                  let st = (\<lambda>key. Option.bind settings (\<lambda>x. outbound_string x key));
                      nt = (\<lambda>key. Option.bind settings (\<lambda>x. outbound_u16 x key));
                      settings_method = or_else (st ''method'') (st ''cipher'');
                      settings_alter_id = or_else (nt ''alter_id'') (nt ''alterId'');
                      fill = with_settings_fallback settings_method settings_alter_id
                  in case first_of (in_settings ''servers'') of
                       Some server \<Rightarrow> fill (keli_core_rs_route_outbound_server_endpoint server)
                     | None \<Rightarrow>
                         (case first_of (in_settings ''vnext'') of
                            Some server \<Rightarrow> fill (keli_core_rs_route_outbound_server_endpoint server)
                          | None \<Rightarrow> (None, None, None, None, settings_method, settings_alter_id)))"

section \<open>Stream settings of an outbound\<close>

definition outbound_error :: "inbound_plan \<Rightarrow> string \<Rightarrow> string \<Rightarrow> string" where
  "outbound_error inbound tag rest =
     ''keli-core-rs route outbound '' @ tag @ '' on inbound '' @ ib_tag inbound @ '' '' @ rest"

definition validate_ignored_object_if_present ::
  "inbound_plan \<Rightarrow> string \<Rightarrow> string \<Rightarrow> json option \<Rightarrow> unit result" where
  "validate_ignored_object_if_present inbound tag key v =
     (case opt_filter (\<lambda>x. \<not> is_empty_json x) v of
        None \<Rightarrow> Ok ()
      | Some x \<Rightarrow> if json_is_object x then Ok () else Err (outbound_error inbound tag (key @ '' must be an object'')))"

definition validate_xhttp_header :: "inbound_plan \<Rightarrow> string \<Rightarrow> string \<Rightarrow> string \<times> json \<Rightarrow> unit result" where
  "validate_xhttp_header inbound tag network = (\<lambda>(name, v). checks
     [(trim name = [], outbound_error inbound tag (network @ ''Settings.headers contains an empty header name'')),
      (\<not> json_is_string v \<and> \<not> is_empty_json v,
       outbound_error inbound tag (network @ ''Settings.headers.'' @ name @ '' must be a string''))])"

definition validate_xhttp_stream_one_settings ::
  "inbound_plan \<Rightarrow> string \<Rightarrow> string \<Rightarrow> json \<Rightarrow> unit result" where
  "validate_xhttp_stream_one_settings inbound tag network settings =
     (case json_as_object settings of
        None \<Rightarrow> if settings = JNull then Ok ()
          else Err (outbound_error inbound tag (network @ '' settings must be an object''))
      | Some object \<Rightarrow>
          and_then (check_each (\<lambda>(key, v). checks
             [(\<not> (key \<in> set [''path'', ''host'', ''mode'', ''headers'', ''noGRPCHeader'', ''noGrpcHeader'', ''method'',
                  ''uplinkHTTPMethod''] \<or> is_empty_json v),
               outbound_error inbound tag (''does not support '' @ network @ ''Settings.'' @ key @ '' yet''))]) object)
          (\<lambda>_. and_then
            (case opt_filter (\<lambda>x. \<not> is_empty_json x) (json_get settings ''headers'') of
               None \<Rightarrow> Ok ()
             | Some v \<Rightarrow>
                 (case json_as_object v of
                    None \<Rightarrow> Err (outbound_error inbound tag (network @ ''Settings.headers must be an object''))
                  | Some headers \<Rightarrow> check_each (validate_xhttp_header inbound tag network) headers))
          (\<lambda>_. check_each (\<lambda>key.
             case opt_filter (\<lambda>x. \<not> is_empty_json x) (json_get settings key) of
               None \<Rightarrow> Ok ()
             | Some v \<Rightarrow> if json_is_boolean v then Ok ()
                 else Err (outbound_error inbound tag (network @ ''Settings.'' @ key @ '' must be a boolean'')))
             [''noGRPCHeader'', ''noGrpcHeader''])))"

definition validate_quic_settings :: "inbound_plan \<Rightarrow> string \<Rightarrow> json \<Rightarrow> unit result" where
  "validate_quic_settings inbound tag settings =
     (case json_as_object settings of
        None \<Rightarrow> if settings = JNull then Ok () else Err (outbound_error inbound tag ''quicSettings must be an object'')
      | Some object \<Rightarrow>
          and_then (check_each (\<lambda>(key, v). checks
             [(\<not> (key \<in> set [''security'', ''key'', ''header''] \<or> is_empty_json v),
               outbound_error inbound tag (''does not support quicSettings.'' @ key @ '' yet''))]) object)
          (\<lambda>_.
            let security_lc = to_ascii_lowercase (unwrap_or ''none'' (outbound_string settings ''security''))
            in and_then (checks
                 [(security_lc \<notin> set [''none'', ''aes-128-gcm'', ''aes128-gcm'', ''chacha20-poly1305'', ''chacha20-ietf-poly1305''],
                   outbound_error inbound tag ''supports only quicSettings.security none/aes-128-gcm/chacha20-poly1305 today''),
                  (security_lc = ''none'' \<and>
                     (case outbound_string settings ''key'' of Some k \<Rightarrow> trim k \<noteq> [] | None \<Rightarrow> False),
                   outbound_error inbound tag ''supports quicSettings.key only with encrypted quic security'')])
               (\<lambda>_. case opt_filter (\<lambda>x. \<not> is_empty_json x) (json_get settings ''header'') of
                  None \<Rightarrow> Ok ()
                | Some h \<Rightarrow>
                    (case json_as_object h of
                       None \<Rightarrow> Err (outbound_error inbound tag ''quicSettings.header must be an object'')
                     | Some header \<Rightarrow>
                         and_then (check_each (\<lambda>(key, v). checks
                            [(\<not> (key = ''type'' \<or> is_empty_json v),
                              outbound_error inbound tag (''does not support quicSettings.header.'' @ key @ '' yet''))]) header)
                         (\<lambda>_.
                           let header_type = unwrap_or ''none'' (opt_filter non_empty
                                 (map_option trim (Option.bind (bt_get header ''type'') json_as_str)))
                           in checks [(\<not> eq_ignore_ascii_case header_type ''none'',
                              outbound_error inbound tag ''supports quicSettings.header.type none only today'')])))))"

definition normalize_xhttp_stream_one_path :: "string \<Rightarrow> string" where
  "normalize_xhttp_stream_one_path v =
     (let t = trim v;
          (path0, query) = (case split_once (CHR ''?'') t of Some (p, q) \<Rightarrow> (p, q) | None \<Rightarrow> (t, []));
          p1 = trim path0;
          p2 = (if p1 = [] then [slash] else if \<not> prefix [slash] p1 then slash # p1 else p1);
          p3 = (if \<not> suffix [slash] p2 then p2 @ [slash] else p2)
      in if query = [] then p3 else p3 @ ''?'' @ query)"

fun xhttp_headers_loop :: "(string \<times> json) list \<Rightarrow> (string, string) btmap \<Rightarrow> (string, string) btmap" where
  "xhttp_headers_loop [] headers = headers"
| "xhttp_headers_loop ((name, v) # rest) headers =
     (if eq_ignore_ascii_case name ''host'' \<or> is_empty_json v then xhttp_headers_loop rest headers
      else case json_as_str v of
             None \<Rightarrow> xhttp_headers_loop rest headers
           | Some s \<Rightarrow> xhttp_headers_loop rest (bt_insert (to_ascii_lowercase (trim name)) (trim s) headers))"

definition xhttp_stream_one_headers :: "json \<Rightarrow> string option \<Rightarrow> (string, string) btmap" where
  "xhttp_stream_one_headers settings path0 =
     (let h0 = (case Option.bind (opt_filter (\<lambda>x. \<not> is_empty_json x) (json_get settings ''headers'')) json_as_object of
            Some object \<Rightarrow> xhttp_headers_loop object [] | None \<Rightarrow> []);
          path = unwrap_or [slash] path0;
          separator = (if CHR ''?'' \<in> set path then ''&'' else ''?'');
          h1 = bt_insert ''referer''
            (''https:'' @ [slash, slash] @ ''keli.local'' @ path @ separator @ ''x_padding='' @ replicate 128 (CHR ''X'')) h0;
          no_grpc_header = unwrap_or False (Option.bind
            (or_else (json_get settings ''noGRPCHeader'') (json_get settings ''noGrpcHeader'')) json_as_bool)
      in if no_grpc_header then h1 else bt_insert ''content-type'' ''application/grpc'' h1)"

text \<open>The key under which the settings of a network are found, in \<open>streamSettings\<close>.\<close>

definition network_settings_key :: "string \<Rightarrow> string option" where
  "network_settings_key network =
     (if network = ''ws'' then Some ''wsSettings''
      else if network = ''httpupgrade'' then Some ''httpupgradeSettings''
      else if network = ''grpc'' then Some ''grpcSettings''
      else if network \<in> set [''h2'', ''http''] then Some ''httpSettings''
      else if network = ''xhttp'' then Some ''xhttpSettings''
      else if network = ''splithttp'' then Some ''splithttpSettings''
      else if network = ''quic'' then Some ''quicSettings''
      else None)"

definition stream_setting_ok :: "string \<Rightarrow> string \<Rightarrow> string \<times> json \<Rightarrow> bool" where
  "stream_setting_ok network security = (\<lambda>(key, v).
     key \<in> set [''network'', ''security'', ''sockopt'', ''mux''] \<or>
     (security = ''tls'' \<and> key = ''tlsSettings'') \<or>
     network_settings_key network = Some key \<or> is_empty_json v)"

definition outbound_tls :: "json \<Rightarrow> json" where
  "outbound_tls tls_settings =
     json_obj [(''server_name'', json_opt JString (outbound_string tls_settings ''serverName'')),
       (''allow_insecure'', JBool (unwrap_or False (Option.bind (json_get tls_settings ''allowInsecure'') json_as_bool))),
       (''alpn'', json_strings (outbound_string_array tls_settings ''alpn''))]"

definition outbound_transport :: "string \<Rightarrow> bool \<Rightarrow> json \<Rightarrow> json" where
  "outbound_transport network xhttp settings =
     (let header = (\<lambda>key. Option.bind (json_get settings ''headers'') (\<lambda>h. outbound_string h key));
          host = or_else (outbound_string_or_first_array settings ''host'') (or_else (header ''Host'') (header ''host''));
          service_name = or_else (outbound_string settings ''serviceName'') (outbound_string settings ''service_name'');
          meth = or_else (outbound_string settings ''method'') (outbound_string settings ''uplinkHTTPMethod'');
          has_path = network \<in> set [''ws'', ''httpupgrade'', ''h2'', ''http'', ''xhttp'', ''splithttp''];
          path = (if has_path
            then map_option (\<lambda>p. if xhttp then normalize_xhttp_stream_one_path p else p) (outbound_string settings ''path'')
            else None);
          headers = (if xhttp then xhttp_stream_one_headers settings path else []);
          quic = (network = ''quic'')
      in json_obj
        [(''network'', JString (if xhttp then ''h2'' else network)),
         (''path'', json_opt JString (if has_path then path else None)),
         (''host'', json_opt JString (if has_path then host else None)),
         (''service_name'', json_opt JString (if network = ''grpc'' then service_name else None)),
         (''method'', json_opt JString
            (if xhttp then Some (unwrap_or ''POST'' meth) else if network \<in> set [''h2'', ''http''] then meth else None)),
         (''headers'', JObject (map (\<lambda>(k, v). (k, JString v)) headers)),
         (''quic_security'', json_opt JString
            (if quic then or_else (outbound_string settings ''security'') (Some ''none'') else None)),
         (''quic_key'', json_opt JString (if quic then outbound_string settings ''key'' else None)),
         (''quic_header_type'', json_opt JString
            (if quic then or_else (Option.bind (json_get settings ''header'') (\<lambda>h. outbound_string h ''type'')) (Some ''none'')
             else None))])"

definition keli_core_rs_route_outbound_stream ::
  "inbound_plan \<Rightarrow> string \<Rightarrow> json \<Rightarrow> (json option \<times> json option) result" where
  "keli_core_rs_route_outbound_stream inbound tag outbound =
     (case opt_filter (\<lambda>v. v \<noteq> JNull) (json_get outbound ''streamSettings'') of
        None \<Rightarrow> Ok (None, None)
      | Some stream \<Rightarrow>
          let str = (\<lambda>key d. unwrap_or d (opt_filter non_empty (map_option trim (Option.bind (json_get stream key) json_as_str))));
              network = str ''network'' ''tcp''; security = str ''security'' ''none''
          in if network \<notin> set [''tcp'', ''ws'', ''httpupgrade'', ''grpc'', ''h2'', ''http'', ''xhttp'', ''splithttp'', ''quic'']
             then Err (outbound_error inbound tag
               (''supports only tcp/ws/httpupgrade/grpc/h2/xhttp stream-one/quic today; network '' @ network @ '' is not supported yet''))
             else if security \<notin> set [''none'', ''tls'']
             then Err (outbound_error inbound tag
               (''supports only security none/tls today; security '' @ security @ '' is not supported yet''))
             else
               and_then (case json_as_object stream of
                   None \<Rightarrow> Ok ()
                 | Some object \<Rightarrow> check_each (\<lambda>(key, v). checks
                     [(\<not> stream_setting_ok network security (key, v),
                       outbound_error inbound tag (''does not support streamSettings.'' @ key @ '' yet''))]) object) (\<lambda>_.
               and_then (validate_ignored_object_if_present inbound tag ''sockopt'' (json_get stream ''sockopt'')) (\<lambda>_.
               and_then (validate_ignored_object_if_present inbound tag ''mux'' (json_get stream ''mux'')) (\<lambda>_.
               and_then (validate_ignored_object_if_present inbound tag ''mux'' (json_get outbound ''mux'')) (\<lambda>_.
                 let tls_settings = unwrap_or JNull (json_get stream ''tlsSettings'');
                     tls = (if security = ''tls'' then Some (outbound_tls tls_settings) else None);
                     transport_settings = (case network_settings_key network of
                         Some key \<Rightarrow> unwrap_or JNull (json_get stream key) | None \<Rightarrow> JNull);
                     xhttp = network \<in> set [''xhttp'', ''splithttp'']
                 in and_then
                     (if xhttp
                      then and_then (validate_xhttp_stream_one_settings inbound tag network transport_settings) (\<lambda>_. checks
                        [(\<not> eq_ignore_ascii_case (unwrap_or [] (outbound_string transport_settings ''mode'')) ''stream-one'',
                          outbound_error inbound tag ''supports xhttp only in stream-one mode today''),
                         (security \<noteq> ''tls'',
                          outbound_error inbound tag ''supports xhttp stream-one only with tls/h2 today'')])
                      else Ok ()) (\<lambda>_.
                    and_then (if network = ''quic'' then validate_quic_settings inbound tag transport_settings else Ok ()) (\<lambda>_.
                      Ok (tls,
                          if network = ''tcp'' then None else Some (outbound_transport network xhttp transport_settings)))))))))"

definition blank :: "string option \<Rightarrow> bool" where
  "blank v = (case v of Some s \<Rightarrow> trim s = [] | None \<Rightarrow> True)"

definition rendered_outbound ::
  "string \<Rightarrow> string \<Rightarrow> string option \<Rightarrow> nat option \<Rightarrow> string option \<Rightarrow> nat option \<Rightarrow> string option \<Rightarrow> string option \<Rightarrow>
   json option \<Rightarrow> json option \<Rightarrow> json" where
  "rendered_outbound tag protocol meth alter_id address port username password tls transport = json_obj
     [(''tag'', JString tag), (''protocol'', JString protocol), (''method'', json_opt JString meth),
      (''alter_id'', json_opt json_nat alter_id), (''address'', json_opt JString address),
      (''port'', json_opt json_nat port), (''username'', json_opt JString username),
      (''password'', json_opt JString password), (''tls'', json_opt id tls), (''transport'', json_opt id transport)]"

definition finish_route_outbound ::
  "inbound_plan \<Rightarrow> string \<Rightarrow> string \<Rightarrow> json option \<times> json option \<Rightarrow> endpoint \<Rightarrow> (string \<times> json) option result" where
  "finish_route_outbound inbound tag protocol = (\<lambda>(tls, transport) (address, port, username, password, meth, alter_id).
     and_then (checks
       [(protocol = ''vless'' \<and> (blank address \<or> port = None), outbound_error inbound tag ''requires vless address and port''),
        (protocol = ''vless'' \<and> blank username, outbound_error inbound tag ''requires vless users[0].id''),
        (protocol = ''vless'' \<and> \<not> blank meth \<and> trim (unwrap_or [] meth) \<noteq> ''xtls-rprx-vision'',
         outbound_error inbound tag (''supports only vless xtls-rprx-vision flow; flow '' @
           trim (unwrap_or [] meth) @ '' is not supported yet'')),
        (protocol = ''vless'' \<and> \<not> blank meth \<and> (tls = None \<or> transport \<noteq> None),
         outbound_error inbound tag ''supports vless flow only on tcp tls''),
        (protocol = ''vmess'' \<and> (blank address \<or> port = None), outbound_error inbound tag ''requires vmess address and port''),
        (protocol = ''vmess'' \<and> blank username, outbound_error inbound tag ''requires vmess users[0].id'')])
     (\<lambda>_. Ok (Some (tag, rendered_outbound tag protocol meth alter_id address port username password tls transport))))"

definition keli_core_rs_route_outbound ::
  "(string \<Rightarrow> json option) \<Rightarrow> inbound_plan \<Rightarrow> route_plan \<Rightarrow> (string \<times> json) option result" where
  "keli_core_rs_route_outbound pj inbound route =
     (case parse_route_outbound pj route of
        None \<Rightarrow> Ok None
      | Some (tag, outbound) \<Rightarrow>
          let protocol = to_ascii_lowercase (unwrap_or [] (map_option trim (Option.bind (json_get outbound ''protocol'') json_as_str)))
          in if protocol \<notin> set [''freedom'', ''socks'', ''socks5'', ''http'', ''shadowsocks'', ''trojan'', ''vless'', ''vmess'']
             then Err (''keli-core-rs route outbound '' @ tag @ '' protocol '' @ protocol @ '' on inbound '' @ ib_tag inbound @
               '' is not supported yet'')
             else
               and_then (if protocol \<in> set [''trojan'', ''vmess'', ''vless'']
                   then keli_core_rs_route_outbound_stream inbound tag outbound else Ok (None, None)) (\<lambda>stream.
                 finish_route_outbound inbound tag protocol stream (keli_core_rs_route_outbound_endpoint outbound)))"

section \<open>The targets of a route\<close>

definition is_keli_core_rs_ip_route_rule :: "string \<Rightarrow> bool" where
  "is_keli_core_rs_ip_route_rule rule0 =
     (let rule = trim_matches is_bracket (trim rule0); lower = to_ascii_lowercase rule
      in if (case strip_prefix ''ip:'' lower of Some v \<Rightarrow> prefix ''geoip:'' v | None \<Rightarrow> False) \<or> prefix ''geoip:'' lower
         then True
         else if parse_ip_addr rule \<noteq> None then True
         else case split_once slash rule of
                None \<Rightarrow> False
              | Some (ip, len) \<Rightarrow>
                  (case (parse_ip_addr (trim ip), parse_uint 255 (trim len)) of
                     (Some (IpV4 _), Some n) \<Rightarrow> n \<le> 32
                   | (Some (IpV6 _), Some n) \<Rightarrow> n \<le> 128
                   | _ \<Rightarrow> False))"

definition is_keli_core_rs_source_ip_route_rule :: "string \<Rightarrow> bool" where
  "is_keli_core_rs_source_ip_route_rule rule0 =
     (let rule = trim rule0
      in if \<not> prefix ''source_ip:'' (to_ascii_lowercase rule) then False
         else
           let v = trim (drop (length ''source_ip:'') rule)
           in is_keli_core_rs_ip_route_rule (unwrap_or v (strip_prefix ''ip:'' v)))"

definition is_port_route_item :: "string \<Rightarrow> bool" where
  "is_port_route_item item0 =
     (let item = trim item0
      in if item = [] then False
         else case split_once (CHR ''-'') item of
                Some (a, b) \<Rightarrow>
                  (case (parse_uint u16_max (trim a), parse_uint u16_max (trim b)) of
                     (Some start, Some end_port) \<Rightarrow> start \<le> end_port | _ \<Rightarrow> False)
              | None \<Rightarrow> parse_uint u16_max item \<noteq> None)"

definition is_keli_core_rs_port_route_rule :: "string \<Rightarrow> bool" where
  "is_keli_core_rs_port_route_rule rule = list_all is_port_route_item (split_on (CHR '','') rule)"

text \<open>The chain of \<open>strip_prefix\<close> tests that the route and the block targets share, up to \<open>source_ip:\<close>.\<close>

fun rule_chain :: "(string \<times> (string \<Rightarrow> bool)) list \<Rightarrow> string \<Rightarrow> bool" where
  "rule_chain [] rule = True"
| "rule_chain ((p, ok) # rest) rule = (case strip_prefix p rule of Some v \<Rightarrow> ok v | None \<Rightarrow> rule_chain rest rule)"

definition prefixed_rule_ok :: "string \<Rightarrow> bool" where
  "prefixed_rule_ok = rule_chain
     [(''ip:'', is_keli_core_rs_ip_route_rule),
      (''port:'', is_keli_core_rs_port_route_rule),
      (''network:'', \<lambda>v. trim v \<in> set [''tcp'', ''udp'']),
      (''domain:'', \<lambda>v. trim_start_matches (is_char (CHR ''.'')) (trim v) \<noteq> []),
      (''full:'', \<lambda>v. trim_matches is_bracket (trim v) \<noteq> []),
      (''keyword:'', \<lambda>v. trim v \<noteq> []),
      (''geoip:'', \<lambda>v. trim v \<noteq> []),
      (''geosite:'', \<lambda>v. trim v \<noteq> []),
      (''regexp:'', \<lambda>v. trim v \<noteq> []),
      (''protocol:'', \<lambda>v. trim v \<noteq> [])]"

definition route_target :: "inbound_plan \<Rightarrow> string \<Rightarrow> string result" where
  "route_target inbound rule0 =
     (let rule = trim rule0; normalized = to_ascii_lowercase rule
      in if rule = [] then Err (''keli-core-rs empty route rule on inbound '' @ ib_tag inbound @ '' is not supported'')
         else if \<not> prefixed_rule_ok normalized
         then Err (''keli-core-rs route rule '' @ rule @ '' on inbound '' @ ib_tag inbound @ '' is not supported yet'')
         else if prefix ''source_ip:'' normalized
         then Err (''keli-core-rs source_ip rule '' @ rule @ '' on inbound '' @ ib_tag inbound @
           '' is supported only by block action'')
         else Ok rule)"

definition keli_core_rs_route_targets :: "inbound_plan \<Rightarrow> route_plan \<Rightarrow> string list result" where
  "keli_core_rs_route_targets inbound route = collect_results (map (route_target inbound) (rp_match_rules route))"

definition block_target :: "inbound_plan \<Rightarrow> string \<Rightarrow> string result" where
  "block_target inbound rule0 =
     (let rule = trim rule0; normalized = to_ascii_lowercase rule
      in if rule = [] then Err (''keli-core-rs empty block rule on inbound '' @ ib_tag inbound @ '' is not supported'')
         else if \<not> prefixed_rule_ok normalized \<or>
           (prefix ''source_ip:'' normalized \<and> \<not> is_keli_core_rs_source_ip_route_rule rule)
         then Err (''keli-core-rs block rule '' @ rule @ '' on inbound '' @ ib_tag inbound @ '' is not supported yet'')
         else Ok rule)"

definition keli_core_rs_block_route_targets :: "inbound_plan \<Rightarrow> route_plan \<Rightarrow> string list result" where
  "keli_core_rs_block_route_targets inbound route = collect_results (map (block_target inbound) (rp_match_rules route))"

definition ip_target :: "inbound_plan \<Rightarrow> string \<Rightarrow> string result" where
  "ip_target inbound rule0 =
     (let rule = trim rule0; normalized = to_ascii_lowercase rule
      in if \<not> is_keli_core_rs_ip_route_rule rule
         then Err (''keli-core-rs block_ip rule '' @ rule @ '' on inbound '' @ ib_tag inbound @ '' is not supported yet'')
         else if prefix ''geoip:'' normalized \<or> prefix ''ip:geoip:'' normalized then Ok rule
         else Ok (''ip:'' @ rule))"

definition prefixed_keli_core_rs_ip_route_targets :: "inbound_plan \<Rightarrow> route_plan \<Rightarrow> string list result" where
  "prefixed_keli_core_rs_ip_route_targets inbound route = collect_results (map (ip_target inbound) (rp_match_rules route))"

definition prefixed_keli_core_rs_protocol_route_targets :: "inbound_plan \<Rightarrow> route_plan \<Rightarrow> string list result" where
  "prefixed_keli_core_rs_protocol_route_targets inbound route =
     collect_results (map (\<lambda>rule0. let rule = trim rule0
        in if rule = [] then Err (''keli-core-rs protocol rule on inbound '' @ ib_tag inbound @ '' is not supported yet'')
           else Ok (''protocol:'' @ rule)) (rp_match_rules route))"

definition prefixed_keli_core_rs_port_route_targets :: "inbound_plan \<Rightarrow> route_plan \<Rightarrow> string list result" where
  "prefixed_keli_core_rs_port_route_targets inbound route =
     collect_results (map (\<lambda>rule0. let rule = trim rule0
        in if \<not> is_keli_core_rs_port_route_rule rule
           then Err (''keli-core-rs block_port rule '' @ rule @ '' on inbound '' @ ib_tag inbound @ '' is not supported yet'')
           else Ok (''port:'' @ rule)) (rp_match_rules route))"

section \<open>Routes, outbounds and DNS of a plan\<close>

definition push_keli_core_rs_outbound_once :: "json list \<Rightarrow> string \<Rightarrow> json \<Rightarrow> json list" where
  "push_keli_core_rs_outbound_once outbounds tag outbound =
     (if list_ex (\<lambda>item. Option.bind (json_get item ''tag'') json_as_str = Some tag) outbounds then outbounds
      else outbounds @ [outbound])"

definition route_skipped :: "route_plan \<Rightarrow> bool" where
  "route_skipped route \<longleftrightarrow> rp_match_rules route = [] \<and> rp_action route \<noteq> ''default_out''"

fun collect_outbounds_loop ::
  "(string \<Rightarrow> json option) \<Rightarrow> inbound_plan \<Rightarrow> route_plan list \<Rightarrow> json list \<Rightarrow> json list result" where
  "collect_outbounds_loop pj inbound [] outbounds = Ok outbounds"
| "collect_outbounds_loop pj inbound (route # routes) outbounds =
     (if route_skipped route \<or> rp_action route \<notin> set [''route'', ''route_ip'', ''default_out''] \<or>
         keli_core_rs_route_outbound_is_blackhole pj route
      then collect_outbounds_loop pj inbound routes outbounds
      else and_then (keli_core_rs_route_outbound pj inbound route) (\<lambda>v.
        case v of
          Some (tag, outbound) \<Rightarrow>
            collect_outbounds_loop pj inbound routes (push_keli_core_rs_outbound_once outbounds tag outbound)
        | None \<Rightarrow> collect_outbounds_loop pj inbound routes outbounds))"

definition collect_keli_core_rs_route_outbounds ::
  "(string \<Rightarrow> json option) \<Rightarrow> inbound_plan \<Rightarrow> json list \<Rightarrow> json list result" where
  "collect_keli_core_rs_route_outbounds pj inbound outbounds = collect_outbounds_loop pj inbound (ib_routes inbound) outbounds"

definition block_route :: "string list \<Rightarrow> json" where
  "block_route targets = json_obj [(''targets'', json_strings targets), (''action'', JString ''block'')]"

definition outbound_route :: "string list \<Rightarrow> string \<Rightarrow> json \<Rightarrow> json" where
  "outbound_route targets tag outbound =
     json_obj [(''targets'', json_strings targets), (''action'', json_obj [(''outbound'', JString tag)]),
       (''outbound'', outbound)]"

text \<open>The rule of an action with an outbound: blocked by a blackhole, dropped without an outbound.\<close>

definition render_outbound_rule ::
  "(string \<Rightarrow> json option) \<Rightarrow> inbound_plan \<Rightarrow> route_plan \<Rightarrow> string list result \<Rightarrow> json list result" where
  "render_outbound_rule pj inbound route targets =
     (if keli_core_rs_route_outbound_is_blackhole pj route then map_ok (\<lambda>ts. [block_route ts]) targets
      else and_then (keli_core_rs_route_outbound pj inbound route) (\<lambda>v.
        case v of
          Some (tag, outbound) \<Rightarrow> map_ok (\<lambda>ts. [outbound_route ts tag outbound]) targets
        | None \<Rightarrow> Ok []))"

definition render_route :: "(string \<Rightarrow> json option) \<Rightarrow> inbound_plan \<Rightarrow> route_plan \<Rightarrow> json list result" where
  "render_route pj inbound route =
     (let act = rp_action route; block = map_ok (\<lambda>ts. [block_route ts])
      in if route_skipped route then Ok []
         else if act = ''block'' then block (keli_core_rs_block_route_targets inbound route)
         else if act = ''block_ip'' then block (prefixed_keli_core_rs_ip_route_targets inbound route)
         else if act = ''block_port'' then block (prefixed_keli_core_rs_port_route_targets inbound route)
         else if act = ''route'' then render_outbound_rule pj inbound route (keli_core_rs_route_targets inbound route)
         else if act = ''route_ip''
         then render_outbound_rule pj inbound route (prefixed_keli_core_rs_ip_route_targets inbound route)
         else if act = ''default_out'' then render_outbound_rule pj inbound route (Ok [''*''])
         else if act = ''protocol'' then block (prefixed_keli_core_rs_protocol_route_targets inbound route)
         else if act = ''dns'' then Ok []
         else Err (''keli-core-rs route action '' @ act @ '' on inbound '' @ ib_tag inbound @ '' is not supported yet''))"

definition render_keli_core_rs_routes_for_inbound ::
  "(string \<Rightarrow> json option) \<Rightarrow> inbound_plan \<Rightarrow> json list result" where
  "render_keli_core_rs_routes_for_inbound pj inbound =
     map_ok concat (collect_results (map (render_route pj inbound) (ib_routes inbound)))"

definition dns_server :: "inbound_plan \<Rightarrow> route_plan \<Rightarrow> json list result" where
  "dns_server inbound route =
     (if rp_action route \<noteq> ''dns'' then Ok []
      else case map_option trim (rp_action_value route) of
             None \<Rightarrow> Ok []
           | Some address \<Rightarrow>
               if address = [] then Ok []
               else if rp_match_rules route = [] then Ok [json_obj [(''address'', JString address)]]
               else map_ok (\<lambda>ts. [json_obj [(''address'', JString address), (''domains'', json_strings ts)]])
                 (keli_core_rs_route_targets inbound route))"

definition render_keli_core_rs_dns :: "core_plan \<Rightarrow> json result" where
  "render_keli_core_rs_dns plan =
     (let base = (if dns_plan_servers (cp_dns plan) = [] then [''1.1.1.1'', ''8.8.8.8''] else dns_plan_servers (cp_dns plan))
      in map_ok (\<lambda>extra.
           json_obj ([(''servers'', JArray (map (\<lambda>a. json_obj [(''address'', JString a)]) base @ concat extra)),
              (''query_strategy'', JString (keli_core_rs_query_strategy (dns_query_strategy (cp_dns plan))))] @
             (if dns_plan_block_private_ips (cp_dns plan) then [(''block_private_ips'', JBool True)] else []) @
             (if dns_plan_private_ip_allowlist (cp_dns plan) = [] then []
              else [(''private_ip_allowlist'', json_strings (dns_plan_private_ip_allowlist (cp_dns plan)))])))
         (collect_results (concat (map (\<lambda>inbound. map (dns_server inbound) (ib_routes inbound)) (cp_inbounds plan)))))"

section \<open>The configuration\<close>

definition keli_core_rs_protocol_name :: "inbound_plan \<Rightarrow> string" where
  "keli_core_rs_protocol_name inbound = (if ib_protocol inbound = ''hysteria'' then ''hysteria2'' else ib_protocol inbound)"

definition network_setting_string :: "json \<Rightarrow> string list \<Rightarrow> string option" where
  "network_setting_string settings keys =
     opt_filter non_empty (map_option trim
       (case List.map_filter (\<lambda>key. Option.bind (json_get settings key) json_as_str) keys of [] \<Rightarrow> None | v # _ \<Rightarrow> Some v))"

definition websocket_path_setting :: "json \<Rightarrow> string option" where
  "websocket_path_setting settings = network_setting_string settings [''path'']"

definition websocket_host_setting :: "json \<Rightarrow> string option" where
  "websocket_host_setting settings =
     or_else (network_setting_string settings [''Host'', ''host''])
       (Option.bind (json_get settings ''headers'') (\<lambda>h. network_setting_string h [''Host'', ''host'']))"

definition grpc_service_name_setting :: "json \<Rightarrow> string option" where
  "grpc_service_name_setting settings = network_setting_string settings [''serviceName'', ''service_name'']"

definition render_keli_core_rs_tls :: "inbound_plan \<Rightarrow> json" where
  "render_keli_core_rs_tls inbound =
     (if ib_security inbound \<notin> set [''tls'', ''reality''] then JNull
      else
        let reality = (if ib_security inbound = ''reality''
              then json_obj [(''dest'', JString (ib_reality_dest inbound)), (''server_port'', JNull),
                (''private_key'', JString (ib_reality_private_key inbound)), (''short_id'', JString (ib_reality_short_id inbound)),
                (''xver'', json_nat (ib_reality_xver inbound)),
                (''mldsa65_seed'', if trim (ib_reality_mldsa65_seed inbound) = [] then JNull
                   else JString (ib_reality_mldsa65_seed inbound))]
              else JNull);
            file = (\<lambda>f. if ib_security inbound = ''tls'' then JString f else JNull)
        in json_obj [(''server_name'', JString (ib_server_name inbound)), (''cert_file'', file (ib_cert_file inbound)),
             (''key_file'', file (ib_key_file inbound)), (''alpn'', json_strings (ib_alpn inbound)),
             (''reject_unknown_sni'', JBool (ib_reject_unknown_sni inbound)), (''reality'', reality)])"

definition render_keli_core_rs_transport :: "inbound_plan \<Rightarrow> json" where
  "render_keli_core_rs_transport inbound =
     (let network = keli_core_rs_transport_network inbound; ws = network \<in> set [''ws'', ''httpupgrade''];
          settings = ib_network_settings inbound
      in json_obj
        ([(''network'', JString network),
          (''path'', if ws then json_opt JString (websocket_path_setting settings) else JNull),
          (''host'', if ws then json_opt JString (websocket_host_setting settings) else JNull),
          (''service_name'', if network = ''grpc''
             then JString (unwrap_or ''GunService'' (grpc_service_name_setting settings)) else JNull),
          (''proxy_protocol'', JBool False)] @
         (if ib_protocol inbound = ''hysteria''
          then (if ib_ignore_client_bandwidth inbound then [(''ignore_client_bandwidth'', JBool True)]
                else (if ib_up_mbps inbound > 0 then [(''up_mbps'', json_nat (unat (ib_up_mbps inbound)))] else []) @
                     (if ib_down_mbps inbound > 0 then [(''down_mbps'', json_nat (unat (ib_down_mbps inbound)))] else [])) @
               (if trim (ib_obfs inbound) \<noteq> [] then [(''obfs'', JString (trim (ib_obfs inbound)))] else []) @
               (if trim (ib_obfs_password inbound) \<noteq> []
                then [(''obfs_password'', JString (trim (ib_obfs_password inbound)))] else [])
          else []) @
         (if ib_protocol inbound \<in> set [''tuic'', ''hysteria''] \<and> trim (ib_congestion_control inbound) \<noteq> []
          then [(''congestion_control'', JString (trim (ib_congestion_control inbound)))] else [])))"

definition render_keli_core_rs_user :: "inbound_user_plan \<Rightarrow> json" where
  "render_keli_core_rs_user user =
     json_obj [(''id'', json_nat (unat (iu_id user))), (''uuid'', JString (iu_uuid user)), (''password'', JNull),
       (''email'', JNull), (''speed_limit'', json_nat (unat (iu_speed_limit user))),
       (''device_limit'', json_nat (unat (iu_device_limit user)))]"

definition render_keli_core_rs_inbound ::
  "(string \<Rightarrow> json option) \<Rightarrow> bool \<Rightarrow> inbound_plan \<Rightarrow> json result" where
  "render_keli_core_rs_inbound pj include_users inbound =
     map_ok (\<lambda>routes. json_obj
       [(''tag'', JString (ib_tag inbound)), (''protocol'', JString (keli_core_rs_protocol_name inbound)),
        (''listen'', JString (ib_listen inbound)), (''port'', json_nat (unat (ib_port inbound))),
        (''cipher'', if ib_protocol inbound = ''shadowsocks'' then JString (ib_cipher inbound) else JNull),
        (''flow'', JString (ib_flow inbound)), (''padding_scheme'', json_strings (ib_padding_scheme inbound)),
        (''users'', JArray (if include_users then map render_keli_core_rs_user (ib_users inbound) else [])),
        (''transport'', render_keli_core_rs_transport inbound), (''tls'', render_keli_core_rs_tls inbound),
        (''sniffing'', json_obj [(''enabled'', JBool True), (''dest_override'', json_strings [''http'', ''tls''])]),
        (''routes'', JArray routes)])
       (render_keli_core_rs_routes_for_inbound pj inbound)"

definition render_keli_core_rs_inbounds ::
  "(string \<Rightarrow> json option) \<Rightarrow> bool \<Rightarrow> inbound_plan list \<Rightarrow> json list result" where
  "render_keli_core_rs_inbounds pj include_users inbounds =
     collect_results (map (render_keli_core_rs_inbound pj include_users) inbounds)"

definition render_keli_core_rs_policy :: json where
  "render_keli_core_rs_policy =
     json_obj [(''handshake_secs'', json_nat 60), (''connection_idle_secs'', json_nat 300), (''uplink_only_secs'', json_nat 1),
       (''downlink_only_secs'', json_nat 1), (''buffer_size_kib'', json_nat 128), (''sniffing_cache_millis'', json_nat 200),
       (''connect_timeout_secs'', json_nat 15)]"

definition keli_core_rs_instance_id :: "core_plan \<Rightarrow> string" where
  "keli_core_rs_instance_id plan =
     unwrap_or ''kelinode-rs'' (opt_filter non_empty (map_option trim (file_stem (cp_config_path plan))))"

definition direct_outbound :: json where
  "direct_outbound =
     json_obj [(''tag'', JString ''direct''), (''protocol'', JString ''freedom''), (''address'', JNull), (''port'', JNull)]"

fun collect_plan_outbounds ::
  "string option \<Rightarrow> (string \<Rightarrow> json option) \<Rightarrow> inbound_plan list \<Rightarrow> json list \<Rightarrow> json list result" where
  "collect_plan_outbounds allow pj [] outbounds = Ok outbounds"
| "collect_plan_outbounds allow pj (inbound # inbounds) outbounds =
     and_then (validate_keli_core_rs_inbound allow inbound) (\<lambda>_.
     and_then (collect_keli_core_rs_route_outbounds pj inbound outbounds) (\<lambda>outbounds'.
       collect_plan_outbounds allow pj inbounds outbounds'))"

definition render_keli_core_rs_config ::
  "string option \<Rightarrow> (string \<Rightarrow> json option) \<Rightarrow> core_plan \<Rightarrow> bool \<Rightarrow> json result" where
  "render_keli_core_rs_config allow pj plan include_users =
     and_then (collect_plan_outbounds allow pj (cp_inbounds plan) [direct_outbound]) (\<lambda>outbounds.
     and_then (render_keli_core_rs_dns plan) (\<lambda>dns.
     and_then (render_keli_core_rs_inbounds pj include_users (cp_inbounds plan)) (\<lambda>inbounds.
       Ok (json_obj
         [(''instance_id'', JString (keli_core_rs_instance_id plan)), (''log_level'', JString ''info''),
          (''policy'', render_keli_core_rs_policy), (''dns'', dns), (''inbounds'', JArray inbounds),
          (''outbounds'', JArray outbounds), (''routes'', JArray []),
          (''stats'', json_obj [(''enabled'', JBool True), (''per_user'', JBool True)])]))))"

definition render_core_config :: "string option \<Rightarrow> (string \<Rightarrow> json option) \<Rightarrow> core_plan \<Rightarrow> json result" where
  "render_core_config allow pj plan = (case cp_kind plan of KeliCoreRs \<Rightarrow> render_keli_core_rs_config allow pj plan True)"

definition render_core_config_without_users :: "string option \<Rightarrow> (string \<Rightarrow> json option) \<Rightarrow> core_plan \<Rightarrow> json result" where
  "render_core_config_without_users allow pj plan =
     (case cp_kind plan of KeliCoreRs \<Rightarrow> render_keli_core_rs_config allow pj plan False)"

section \<open>Outbounds that rules name\<close>

definition item_tag :: "json \<Rightarrow> string option" where
  "item_tag item = Option.bind (json_get item ''tag'') json_as_str"

definition rule_outbound_tag :: "json \<Rightarrow> string option" where
  "rule_outbound_tag rule =
     Option.bind (json_get rule ''action'') (\<lambda>a. Option.bind (json_get a ''outbound'') json_as_str)"

lemma rendered_outbound_tag [simp]:
  "item_tag (rendered_outbound tag protocol meth alter_id address port username password tls transport) = Some tag"
  by (simp add: item_tag_def rendered_outbound_def json_get_obj)

lemma finish_route_outbound_tag:
  "finish_route_outbound inbound t protocol stream ep = Inr (Some (tag, outbound)) \<Longrightarrow> tag = t \<and> item_tag outbound = Some t"
  by (cases stream; cases ep) (auto simp: finish_route_outbound_def and_then_Inr simp del: checks_Inr)

lemma route_outbound_tag:
  assumes "keli_core_rs_route_outbound pj inbound route = Inr (Some (tag, outbound))"
  shows "item_tag outbound = Some tag"
  using assms
  by (auto simp: keli_core_rs_route_outbound_def Let_def and_then_Inr split: option.splits if_splits
      dest!: finish_route_outbound_tag)

lemma push_once_tags:
  assumes "item_tag outbound = Some tag" "distinct (map item_tag outbounds)"
  shows "set (map item_tag (push_keli_core_rs_outbound_once outbounds tag outbound)) =
      insert (Some tag) (set (map item_tag outbounds))"
    "distinct (map item_tag (push_keli_core_rs_outbound_once outbounds tag outbound))"
proof -
  have "list_ex (\<lambda>item. Option.bind (json_get item ''tag'') json_as_str = Some tag) outbounds \<longleftrightarrow>
      Some tag \<in> set (map item_tag outbounds)" by (force simp: list_ex_iff item_tag_def image_iff)
  then show "set (map item_tag (push_keli_core_rs_outbound_once outbounds tag outbound)) =
      insert (Some tag) (set (map item_tag outbounds))"
    "distinct (map item_tag (push_keli_core_rs_outbound_once outbounds tag outbound))"
    using assms by (auto simp: push_keli_core_rs_outbound_once_def)
qed

text \<open>The outbound that a route asks for, if it is one of the routes that are given one.\<close>

definition wanted_tag :: "(string \<Rightarrow> json option) \<Rightarrow> inbound_plan \<Rightarrow> route_plan \<Rightarrow> string option" where
  "wanted_tag pj inbound route =
     (if route_skipped route \<or> rp_action route \<notin> set [''route'', ''route_ip'', ''default_out''] \<or>
         keli_core_rs_route_outbound_is_blackhole pj route then None
      else case keli_core_rs_route_outbound pj inbound route of Inr (Some (tag, _)) \<Rightarrow> Some tag | _ \<Rightarrow> None)"

lemma collect_loop_tags:
  assumes "collect_outbounds_loop pj inbound routes outbounds = Inr outs" "distinct (map item_tag outbounds)"
  shows "distinct (map item_tag outs) \<and> set (map item_tag outbounds) \<subseteq> set (map item_tag outs) \<and>
    (\<forall>route \<in> set routes. \<forall>tag. wanted_tag pj inbound route = Some tag \<longrightarrow> Some tag \<in> set (map item_tag outs))"
  using assms
proof (induction routes arbitrary: outbounds)
  case (Cons route routes)
  let ?skip = "route_skipped route \<or> rp_action route \<notin> set [''route'', ''route_ip'', ''default_out''] \<or>
      keli_core_rs_route_outbound_is_blackhole pj route"
  show ?case
  proof (cases ?skip)
    case True
    then have "wanted_tag pj inbound route = None" by (simp only: wanted_tag_def if_True)
    moreover have "collect_outbounds_loop pj inbound routes outbounds = Inr outs"
      using Cons.prems(1) True by (simp only: collect_outbounds_loop.simps if_True)
    ultimately show ?thesis using Cons.IH [OF _ Cons.prems(2)] by auto
  next
    case False
    with Cons.prems(1) have "and_then (keli_core_rs_route_outbound pj inbound route) (\<lambda>v. case v of
          Some (tag, outbound) \<Rightarrow> collect_outbounds_loop pj inbound routes (push_keli_core_rs_outbound_once outbounds tag outbound)
        | None \<Rightarrow> collect_outbounds_loop pj inbound routes outbounds) = Inr outs"
      by (simp only: collect_outbounds_loop.simps if_False)
    then obtain v where v: "keli_core_rs_route_outbound pj inbound route = Inr v"
      and rest: "(case v of
          Some (tag, outbound) \<Rightarrow> collect_outbounds_loop pj inbound routes (push_keli_core_rs_outbound_once outbounds tag outbound)
        | None \<Rightarrow> collect_outbounds_loop pj inbound routes outbounds) = Inr outs"
      by (auto simp: and_then_Inr)
    have w: "wanted_tag pj inbound route = map_option fst v"
      using False v by (cases v) (simp_all only: wanted_tag_def if_False, auto)
    show ?thesis
    proof (cases v)
      case None
      with rest w Cons.IH [OF _ Cons.prems(2)] show ?thesis by auto
    next
      case (Some p)
      obtain tag outbound where p: "p = (tag, outbound)" by (cases p)
      note push = push_once_tags [OF route_outbound_tag [OF v [unfolded Some p]] Cons.prems(2)]
      from rest Some p have "collect_outbounds_loop pj inbound routes (push_keli_core_rs_outbound_once outbounds tag outbound) = Inr outs"
        by simp
      from Cons.IH [OF this push(2)] push(1) w Some p show ?thesis by auto
    qed
  qed
qed simp

lemma collect_plan_tags:
  assumes "collect_plan_outbounds allow pj inbounds outbounds = Inr outs" "distinct (map item_tag outbounds)"
  shows "distinct (map item_tag outs) \<and> set (map item_tag outbounds) \<subseteq> set (map item_tag outs) \<and>
    (\<forall>inbound \<in> set inbounds. validate_keli_core_rs_inbound allow inbound = Inr () \<and>
      (\<forall>route \<in> set (ib_routes inbound). \<forall>tag. wanted_tag pj inbound route = Some tag \<longrightarrow> Some tag \<in> set (map item_tag outs)))"
  using assms
proof (induction inbounds arbitrary: outbounds)
  case (Cons inbound inbounds)
  from Cons.prems(1) obtain outs1 where o: "validate_keli_core_rs_inbound allow inbound = Inr ()"
    "collect_keli_core_rs_route_outbounds pj inbound outbounds = Inr outs1"
    "collect_plan_outbounds allow pj inbounds outs1 = Inr outs" by (auto simp: and_then_Inr)
  from collect_loop_tags [OF o(2) [unfolded collect_keli_core_rs_route_outbounds_def] Cons.prems(2)]
  have one: "distinct (map item_tag outs1)" "set (map item_tag outbounds) \<subseteq> set (map item_tag outs1)"
    "\<forall>route \<in> set (ib_routes inbound). \<forall>tag. wanted_tag pj inbound route = Some tag \<longrightarrow> Some tag \<in> set (map item_tag outs1)"
    by blast+
  from Cons.IH [OF o(3) one(1)] one o(1) show ?case by fastforce
qed simp

lemma rule_tags [simp]:
  "rule_outbound_tag (block_route targets) = None"
  "rule_outbound_tag (outbound_route targets tag outbound) = Some tag"
  by (simp_all add: rule_outbound_tag_def block_route_def outbound_route_def json_get_obj)

lemma map_ok_single: "map_ok (\<lambda>ts. [f ts]) r = Inr rules \<Longrightarrow> rule \<in> set rules \<Longrightarrow> \<exists>ts. rule = f ts"
  by (cases r) auto

lemma render_route_tag:
  assumes "render_route pj inbound route = Inr rules" "rule \<in> set rules" "rule_outbound_tag rule = Some tag"
  shows "wanted_tag pj inbound route = Some tag"
proof -
  have outbound: "keli_core_rs_route_outbound_is_blackhole pj route = False \<and>
      (\<exists>ob. keli_core_rs_route_outbound pj inbound route = Inr (Some (tag, ob)))"
    if "render_outbound_rule pj inbound route targets = Inr rules" for targets
  proof (cases "keli_core_rs_route_outbound_is_blackhole pj route")
    case True
    with that assms(2,3) show ?thesis by (auto simp: render_outbound_rule_def dest!: map_ok_single)
  next
    case False
    with that obtain v where v: "keli_core_rs_route_outbound pj inbound route = Inr v"
      "(case v of Some (tag, outbound) \<Rightarrow> map_ok (\<lambda>ts. [outbound_route ts tag outbound]) targets | None \<Rightarrow> Ok []) = Inr rules"
      by (auto simp: render_outbound_rule_def and_then_Inr)
    with assms(2,3) False show ?thesis by (auto split: option.splits prod.splits dest!: map_ok_single)
  qed
  have block: "map_ok (\<lambda>ts. [block_route ts]) r \<noteq> Inr rules" for r :: "string list result"
    using assms(2,3) by (auto dest: map_ok_single)
  have skip: "\<not> route_skipped route" using assms(1,2) by (auto simp: render_route_def)
  have "rp_action route \<in> set [''route'', ''route_ip'', ''default_out''] \<and>
      (\<exists>targets. render_outbound_rule pj inbound route targets = Inr rules)"
    using assms(1,2) skip block by (auto simp: render_route_def Let_def split: if_splits)
  then obtain targets where a: "rp_action route \<in> set [''route'', ''route_ip'', ''default_out'']"
    "render_outbound_rule pj inbound route targets = Inr rules" by blast
  from outbound [OF a(2)] obtain ob where "keli_core_rs_route_outbound pj inbound route = Inr (Some (tag, ob))"
    "\<not> keli_core_rs_route_outbound_is_blackhole pj route" by blast
  with a(1) skip show ?thesis by (auto simp: wanted_tag_def)
qed

definition config_items :: "json \<Rightarrow> string \<Rightarrow> json list" where
  "config_items config key = unwrap_or [] (Option.bind (json_get config key) json_as_array)"

lemma render_inbound_tag:
  assumes "render_keli_core_rs_inbound pj iu inbound = Inr item"
  shows "item_tag item = Some (ib_tag inbound)"
    "render_keli_core_rs_routes_for_inbound pj inbound = Inr (config_items item ''routes'')"
  using assms by (auto simp: render_keli_core_rs_inbound_def map_ok_Inr item_tag_def config_items_def json_get_obj)

lemma render_inbounds_items:
  assumes "render_keli_core_rs_inbounds pj iu inbounds = Inr items"
  shows "list_all2 (\<lambda>inbound item. render_keli_core_rs_inbound pj iu inbound = Inr item) inbounds items"
  using assms
  by (auto simp: render_keli_core_rs_inbounds_def collect_results_Inr list_all2_conv_all_nth list_eq_iff_nth_eq)

lemma render_config_Inr:
  assumes "render_keli_core_rs_config allow pj plan iu = Inr config"
  shows "collect_plan_outbounds allow pj (cp_inbounds plan) [direct_outbound] = Inr (config_items config ''outbounds'')"
    "render_keli_core_rs_inbounds pj iu (cp_inbounds plan) = Inr (config_items config ''inbounds'')"
  using assms by (auto simp: render_keli_core_rs_config_def and_then_Inr config_items_def json_get_obj)

lemma routes_wanted:
  assumes "render_keli_core_rs_routes_for_inbound pj inbound = Inr rules" "rule \<in> set rules"
    "rule_outbound_tag rule = Some tag"
  shows "\<exists>route \<in> set (ib_routes inbound). wanted_tag pj inbound route = Some tag"
proof -
  obtain rss where rss: "map (render_route pj inbound) (ib_routes inbound) = map Inr rss" "rules = concat rss"
    using assms(1) by (auto simp: render_keli_core_rs_routes_for_inbound_def map_ok_Inr collect_results_Inr)
  with assms(2) obtain rs where "rs \<in> set rss" "rule \<in> set rs" by auto
  moreover from this rss(1) have "Inr rs \<in> render_route pj inbound ` set (ib_routes inbound)"
    by (metis image_eqI image_set list.set_map)
  ultimately show ?thesis using render_route_tag assms(3) by (metis imageE)
qed

lemma rendered_inbound_tags:
  assumes "list_all2 (\<lambda>inbound item. render_keli_core_rs_inbound pj iu inbound = Inr item) inbounds items"
  shows "map item_tag items = map (Some \<circ> ib_tag) inbounds"
  using assms by (induction rule: list_all2_induct) (simp_all add: render_inbound_tag(1))

lemma rendered_inbound_source:
  assumes "list_all2 (\<lambda>inbound item. render_keli_core_rs_inbound pj iu inbound = Inr item) inbounds items"
    "item \<in> set items"
  shows "\<exists>inbound \<in> set inbounds. render_keli_core_rs_inbound pj iu inbound = Inr item"
  using assms by (induction rule: list_all2_induct) auto

lemma direct_outbound_tag: "item_tag direct_outbound = Some ''direct''"
  by (simp add: item_tag_def direct_outbound_def json_get_obj)

lemma config_outbound_tags:
  assumes "collect_plan_outbounds allow pj inbounds [direct_outbound] = Inr outs"
  shows "distinct (map item_tag outs)" "Some ''direct'' \<in> item_tag ` set outs"
    "inbound \<in> set inbounds \<Longrightarrow> validate_keli_core_rs_inbound allow inbound = Inr ()"
    "inbound \<in> set inbounds \<Longrightarrow> route \<in> set (ib_routes inbound) \<Longrightarrow> wanted_tag pj inbound route = Some tag \<Longrightarrow>
       Some tag \<in> item_tag ` set outs"
proof -
  have "distinct (map item_tag [direct_outbound])" by simp
  note t = collect_plan_tags [OF assms this, unfolded list.set_map]
  show "distinct (map item_tag outs)" by (rule conjunct1 [OF t])
  from conjunct1 [OF conjunct2 [OF t]] show "Some ''direct'' \<in> item_tag ` set outs" by (simp add: direct_outbound_tag)
  note rest = conjunct2 [OF conjunct2 [OF t]]
  show "validate_keli_core_rs_inbound allow inbound = Inr ()" if "inbound \<in> set inbounds" using rest that by blast
  show "Some tag \<in> item_tag ` set outs"
    if "inbound \<in> set inbounds" "route \<in> set (ib_routes inbound)" "wanted_tag pj inbound route = Some tag"
    using rest that by blast
qed

text \<open>
  C3: A rendered configuration is closed under its references. Every outbound that a routing rule of
  an inbound names is one of the outbounds of the configuration, no two outbounds share a tag, the
  direct outbound is present, the rendered inbounds are those of the plan in its order, and each of
  them passed validation.
\<close>

theorem rendered_config_closed:
  assumes "render_keli_core_rs_config allow pj plan include_users = Ok config"
  shows "(\<forall>item \<in> set (config_items config ''inbounds''). \<forall>rule \<in> set (config_items item ''routes''). \<forall>tag.
       rule_outbound_tag rule = Some tag \<longrightarrow> Some tag \<in> item_tag ` set (config_items config ''outbounds'')) \<and>
     distinct (map item_tag (config_items config ''outbounds'')) \<and>
     Some ''direct'' \<in> item_tag ` set (config_items config ''outbounds'') \<and>
     map item_tag (config_items config ''inbounds'') = map (Some \<circ> ib_tag) (cp_inbounds plan) \<and>
     (\<forall>inbound \<in> set (cp_inbounds plan). validate_keli_core_rs_inbound allow inbound = Ok ())"
proof (intro conjI ballI allI impI)
  note c = render_config_Inr [OF assms]
  note outs = config_outbound_tags [OF c(1)] and items = render_inbounds_items [OF c(2)]
  show "distinct (map item_tag (config_items config ''outbounds''))"
    "Some ''direct'' \<in> item_tag ` set (config_items config ''outbounds'')" by (rule outs(1), rule outs(2))
  show "map item_tag (config_items config ''inbounds'') = map (Some \<circ> ib_tag) (cp_inbounds plan)"
    by (rule rendered_inbound_tags [OF items])
  show "validate_keli_core_rs_inbound allow inbound = Ok ()" if "inbound \<in> set (cp_inbounds plan)" for inbound
    by (rule outs(3) [OF that])
  fix item rule tag
  assume "item \<in> set (config_items config ''inbounds'')" and rule: "rule \<in> set (config_items item ''routes'')"
    "rule_outbound_tag rule = Some tag"
  with rendered_inbound_source [OF items] obtain inbound where
    i: "inbound \<in> set (cp_inbounds plan)" "render_keli_core_rs_inbound pj include_users inbound = Inr item" by blast
  from routes_wanted [OF render_inbound_tag(2) [OF i(2)] rule]
  show "Some tag \<in> item_tag ` set (config_items config ''outbounds'')" using outs(4) [OF i(1)] by blast
qed

text \<open>A plan of one inbound whose default route leaves by an outbound of its own.\<close>

definition sample_pj :: "string \<Rightarrow> json option" where
  "sample_pj s = (if s = ''out'' then Some (json_obj [(''tag'', JString ''exit''), (''protocol'', JString ''freedom'')]) else None)"

definition sample_route :: route_plan where
  "sample_route = \<lparr>rp_id = 1, rp_action = ''default_out'', rp_match_rules = [], rp_action_value = Some ''out''\<rparr>"

definition sample_routed_plan :: "inbound_plan \<Rightarrow> core_plan" where
  "sample_routed_plan inbound =
     \<lparr>cp_kind = KeliCoreRs, cp_config_path = ''/etc/core.json'', cp_listen_tags = [ib_tag inbound],
      cp_inbounds = [inbound\<lparr>ib_routes := [sample_route]\<rparr>], cp_dns = dns_options_default\<rparr>"

lemma sample_inbound_accepted:
  "\<exists>inbound. build_inbound_plan sample_tls_node = Ok inbound \<and>
     validate_keli_core_rs_inbound None (inbound\<lparr>ib_routes := [sample_route]\<rparr>) = Ok ()"
proof -
  have "(case build_inbound_plan sample_tls_node of
      Inr inbound \<Rightarrow> validate_keli_core_rs_inbound None (inbound\<lparr>ib_routes := [sample_route]\<rparr>) = Ok () | Inl _ \<Rightarrow> False)"
    by code_simp
  then show ?thesis by (auto split: sum.splits)
qed

lemma sample_trim:
  "trim ''out'' = ''out''" "trim ''exit'' = ''exit''" "trim ''freedom'' = ''freedom''"
  "to_ascii_lowercase ''freedom'' = ''freedom''" "eq_ignore_ascii_case ''freedom'' ''blackhole'' = False"
  by code_simp+

lemma sample_route_parsed: "\<exists>ob. parse_route_outbound sample_pj sample_route = Some (''exit'', ob) \<and>
    json_get ob ''protocol'' = Some (JString ''freedom'')"
  by (simp add: parse_route_outbound_def sample_route_def sample_pj_def json_get_obj sample_trim Let_def)

lemma sample_route_outbound: "\<exists>ob. keli_core_rs_route_outbound sample_pj inbound sample_route = Inr (Some (''exit'', ob))"
  using sample_route_parsed
  by (auto simp: keli_core_rs_route_outbound_def finish_route_outbound_def split_beta sample_trim)

lemma sample_not_blackhole: "\<not> keli_core_rs_route_outbound_is_blackhole sample_pj sample_route"
  using sample_route_parsed by (auto simp: keli_core_rs_route_outbound_is_blackhole_def sample_trim)

lemma render_config_ok:
  assumes "collect_plan_outbounds allow pj (cp_inbounds plan) [direct_outbound] = Inr outs"
    "render_keli_core_rs_dns plan = Inr dns" "render_keli_core_rs_inbounds pj iu (cp_inbounds plan) = Inr items"
  shows "\<exists>config. render_keli_core_rs_config allow pj plan iu = Inr config"
  by (simp add: render_keli_core_rs_config_def assms)

lemma sample_rendered:
  assumes "validate_keli_core_rs_inbound None (inbound\<lparr>ib_routes := [sample_route]\<rparr>) = Ok ()"
  shows "\<exists>config item rule. render_keli_core_rs_config None sample_pj (sample_routed_plan inbound) True = Inr config \<and>
     item \<in> set (config_items config ''inbounds'') \<and> rule \<in> set (config_items item ''routes'') \<and>
     rule_outbound_tag rule = Some ''exit''"
proof -
  let ?i = "inbound\<lparr>ib_routes := [sample_route]\<rparr>"
  obtain ob where ob: "keli_core_rs_route_outbound sample_pj ?i sample_route = Inr (Some (''exit'', ob))"
    using sample_route_outbound by blast
  have act: "rp_action sample_route = ''default_out''" "\<not> route_skipped sample_route"
    by (simp_all add: sample_route_def route_skipped_def)
  have o: "\<exists>outs. collect_plan_outbounds None sample_pj [?i] [direct_outbound] = Inr outs"
    by (simp add: assms collect_keli_core_rs_route_outbounds_def act sample_not_blackhole ob)
  have d: "\<exists>dns. render_keli_core_rs_dns (sample_routed_plan inbound) = Inr dns"
    by (simp add: render_keli_core_rs_dns_def sample_routed_plan_def dns_server_def act)
  have r: "render_keli_core_rs_routes_for_inbound sample_pj ?i = Inr [outbound_route [''*''] ''exit'' ob]"
    by (simp add: render_keli_core_rs_routes_for_inbound_def render_route_def act render_outbound_rule_def
        sample_not_blackhole ob)
  then obtain item where item: "render_keli_core_rs_inbound sample_pj True ?i = Inr item"
    unfolding render_keli_core_rs_inbound_def by (simp only: map_ok.simps)
  have items: "render_keli_core_rs_inbounds sample_pj True (cp_inbounds (sample_routed_plan inbound)) = Inr [item]"
    by (simp add: render_keli_core_rs_inbounds_def sample_routed_plan_def item)
  have "cp_inbounds (sample_routed_plan inbound) = [?i]" by (simp add: sample_routed_plan_def)
  with o d items render_config_ok obtain config
    where c: "render_keli_core_rs_config None sample_pj (sample_routed_plan inbound) True = Inr config" by metis
  from render_config_Inr(2) [OF c] items render_inbound_tag(2) [OF item] r
  have "config_items config ''inbounds'' = [item]" "config_items item ''routes'' = [outbound_route [''*''] ''exit'' ob]"
    by simp_all
  with c rule_tags(2) show ?thesis by (metis list.set_intros(1))
qed

theorem rendered_config_closed_witness:
  "\<exists>inbound config. build_inbound_plan sample_tls_node = Ok inbound \<and>
     render_keli_core_rs_config None sample_pj (sample_routed_plan inbound) True = Ok config \<and>
     Some ''exit'' \<in> item_tag ` set (config_items config ''outbounds'')"
proof -
  obtain inbound where i: "build_inbound_plan sample_tls_node = Ok inbound"
    "validate_keli_core_rs_inbound None (inbound\<lparr>ib_routes := [sample_route]\<rparr>) = Ok ()"
    using sample_inbound_accepted by blast
  from sample_rendered [OF i(2)] obtain config item rule where
    c: "render_keli_core_rs_config None sample_pj (sample_routed_plan inbound) True = Inr config"
    "item \<in> set (config_items config ''inbounds'')" "rule \<in> set (config_items item ''routes'')"
    "rule_outbound_tag rule = Some ''exit''" by blast
  from rendered_config_closed [OF c(1)] c(2-4) have "Some ''exit'' \<in> item_tag ` set (config_items config ''outbounds'')"
    by blast
  with i(1) c(1) show ?thesis by blast
qed

end
