(* ===== verification/Process.thy ===== *)
theory Process
  imports Core_Plan Rust_Path Files
begin

text \<open>
  The supervision of the core process and its control endpoint (\<open>src/src/process.rs\<close>, the build
  without \<open>embedded-core\<close>). The operating system is an explicit table of child processes: spawning,
  waiting and killing may fail, by the faults the table carries, and a process may exit between two
  operations. The locale \<open>process_supervisor\<close> is the contract of the trait \<open>ProcessSupervisor\<close>; both
  supervisors of the source satisfy it.
\<close>

section \<open>Data\<close>

record process_spec =
  psp_name :: string
  psp_command :: string
  psp_args :: "string list"
  psp_working_dir :: "string option"
  psp_env :: "(string, string) btmap"

datatype process_state = Running | Stopped | Exited "int option"

record process_status =
  prs_name :: string
  prs_pid :: "u32 option"
  prs_state :: process_state
  prs_message :: string

definition status_running :: "string \<Rightarrow> u32 \<Rightarrow> process_status" where
  "status_running name pid = \<lparr>prs_name = name, prs_pid = Some pid, prs_state = Running, prs_message = ''running''\<rparr>"

definition status_stopped :: "string \<Rightarrow> string \<Rightarrow> process_status" where
  "status_stopped name message = \<lparr>prs_name = name, prs_pid = None, prs_state = Stopped, prs_message = message\<rparr>"

definition status_exited :: "string \<Rightarrow> int option \<Rightarrow> process_status" where
  "status_exited name code =
     \<lparr>prs_name = name, prs_pid = None, prs_state = Exited code,
      prs_message = (case code of Some v \<Rightarrow> ''exited with code '' @ int_to_string v | None \<Rightarrow> ''exited without code'')\<rparr>"

definition is_running :: "process_status \<Rightarrow> bool" where
  "is_running status \<longleftrightarrow> prs_state status = Running"

section \<open>Child processes\<close>

datatype child_state = Unused | Alive process_spec | Dead "int option"

record os_table =
  os_next :: nat
  os_child :: "nat \<Rightarrow> child_state"
  os_faults :: "string option list"

definition os_fault :: "os_table \<Rightarrow> string option \<times> os_table" where
  "os_fault os = (case os_faults os of [] \<Rightarrow> (None, os) | f # rest \<Rightarrow> (f, os\<lparr>os_faults := rest\<rparr>))"

definition os_spawn :: "process_spec \<Rightarrow> os_table \<Rightarrow> nat result \<times> os_table" where
  "os_spawn spec os =
     (case os_fault os of
        (Some e, os') \<Rightarrow> (Err e, os')
      | (None, os') \<Rightarrow>
          (Ok (os_next os'), os'\<lparr>os_next := Suc (os_next os'), os_child := (os_child os')(os_next os' := Alive spec)\<rparr>))"

text \<open>\<open>Child::id\<close>, \<open>Child::try_wait\<close>, \<open>Child::kill\<close> and \<open>Child::wait\<close>; a killed child has no exit code.\<close>

definition child_id :: "nat \<Rightarrow> u32" where
  "child_id h = word_of_nat h"

definition os_try_wait :: "nat \<Rightarrow> os_table \<Rightarrow> int option option result \<times> os_table" where
  "os_try_wait h os =
     (case os_fault os of
        (Some e, os') \<Rightarrow> (Err e, os')
      | (None, os') \<Rightarrow> (Ok (case os_child os' h of Dead code \<Rightarrow> Some code | _ \<Rightarrow> None), os'))"

definition os_kill :: "nat \<Rightarrow> os_table \<Rightarrow> unit result \<times> os_table" where
  "os_kill h os =
     (case os_fault os of
        (Some e, os') \<Rightarrow> (Err e, os')
      | (None, os') \<Rightarrow>
          (Ok (), os'\<lparr>os_child := (os_child os')(h := case os_child os' h of Dead code \<Rightarrow> Dead code | _ \<Rightarrow> Dead None)\<rparr>))"

definition os_wait :: "nat \<Rightarrow> os_table \<Rightarrow> int option result \<times> os_table" where
  "os_wait h os =
     (case os_fault os of
        (Some e, os') \<Rightarrow> (Err e, os')
      | (None, os') \<Rightarrow> (Ok (case os_child os' h of Dead code \<Rightarrow> code | _ \<Rightarrow> None), os'))"

section \<open>The system supervisor\<close>

record supervisor =
  sv_children :: "(string, nat) btmap"
  sv_statuses :: "(string, process_status) btmap"
  sv_os :: os_table

definition set_status :: "process_status \<Rightarrow> supervisor \<Rightarrow> supervisor" where
  "set_status status s = s\<lparr>sv_statuses := bt_insert (prs_name status) status (sv_statuses s)\<rparr>"

fun option_debug :: "int option \<Rightarrow> string" where
  "option_debug None = ''None''"
| "option_debug (Some v) = ''Some('' @ int_to_string v @ '')''"

definition sup_status :: "string \<Rightarrow> supervisor \<Rightarrow> process_status result \<times> supervisor" where
  "sup_status name s =
     (case bt_get (sv_children s) name of
        Some child \<Rightarrow>
          (case os_try_wait child (sv_os s) of
             (Inl e, os) \<Rightarrow> (Err (''inspect process '' @ name @ '': '' @ e), s\<lparr>sv_os := os\<rparr>)
           | (Inr None, os) \<Rightarrow> (Ok (status_running name (child_id child)), s\<lparr>sv_os := os\<rparr>)
           | (Inr (Some code), os) \<Rightarrow>
               (let status = status_exited name code
                in (Ok status, set_status status (s\<lparr>sv_os := os, sv_children := bt_remove name (sv_children s)\<rparr>))))
      | None \<Rightarrow> (Ok (unwrap_or (status_stopped name ''process was never started'') (bt_get (sv_statuses s) name)), s))"

definition sup_start :: "process_spec \<Rightarrow> supervisor \<Rightarrow> process_status result \<times> supervisor" where
  "sup_start spec s =
     (case sup_status (psp_name spec) s of
        (Inl e, s1) \<Rightarrow> (Err e, s1)
      | (Inr current, s1) \<Rightarrow>
          if is_running current then (Ok current, s1)
          else
            (case os_spawn spec (sv_os s1) of
               (Inl e, os) \<Rightarrow> (Err (''start process '' @ psp_name spec @ '': '' @ e), s1\<lparr>sv_os := os\<rparr>)
             | (Inr child, os) \<Rightarrow>
                 (let status = status_running (psp_name spec) (child_id child)
                  in (Ok status, set_status status
                        (s1\<lparr>sv_os := os, sv_children := bt_insert (psp_name spec) child (sv_children s1)\<rparr>)))))"

definition sup_stop :: "string \<Rightarrow> supervisor \<Rightarrow> process_status result \<times> supervisor" where
  "sup_stop name s =
     (case bt_get (sv_children s) name of
        None \<Rightarrow> (let status = status_stopped name ''process is not running'' in (Ok status, set_status status s))
      | Some child \<Rightarrow>
          let s1 = s\<lparr>sv_children := bt_remove name (sv_children s)\<rparr>
          in (case os_try_wait child (sv_os s1) of
                (Inl e, os) \<Rightarrow> (Err (''inspect process '' @ name @ '' before stop: '' @ e), s1\<lparr>sv_os := os\<rparr>)
              | (Inr (Some code), os) \<Rightarrow>
                  (let status = status_exited name code in (Ok status, set_status status (s1\<lparr>sv_os := os\<rparr>)))
              | (Inr None, os) \<Rightarrow>
                  (case os_kill child os of
                     (Inl e, os1) \<Rightarrow> (Err (''stop process '' @ name @ '': '' @ e), s1\<lparr>sv_os := os1\<rparr>)
                   | (Inr _, os1) \<Rightarrow>
                       (case os_wait child os1 of
                          (Inl e, os2) \<Rightarrow> (Err (''wait process '' @ name @ '': '' @ e), s1\<lparr>sv_os := os2\<rparr>)
                        | (Inr code, os2) \<Rightarrow>
                            (let status = \<lparr>prs_name = name, prs_pid = None, prs_state = Stopped,
                                   prs_message = ''stopped with code '' @ option_debug code\<rparr>
                             in (Ok status, set_status status (s1\<lparr>sv_os := os2\<rparr>)))))))"

definition sup_reload :: "process_spec \<Rightarrow> supervisor \<Rightarrow> process_status result \<times> supervisor" where
  "sup_reload spec s = io_then (sup_stop (psp_name spec) s) (\<lambda>_. sup_start spec)"

definition process_log_component :: "string \<Rightarrow> string" where
  "process_log_component name = (if sublist ''core'' name then ''core'' else ''process'')"

section \<open>The supervisor in memory\<close>

record memory_supervisor =
  ms_starts :: "process_spec list"
  ms_stops :: "string list"
  ms_statuses :: "(string, process_status) btmap"

definition mem_start :: "process_spec \<Rightarrow> memory_supervisor \<Rightarrow> process_status result \<times> memory_supervisor" where
  "mem_start spec s =
     (let starts = ms_starts s @ [spec]; status = status_running (psp_name spec) (word_of_nat (length starts))
      in (Ok status, s\<lparr>ms_starts := starts, ms_statuses := bt_insert (psp_name spec) status (ms_statuses s)\<rparr>))"

definition mem_stop :: "string \<Rightarrow> memory_supervisor \<Rightarrow> process_status result \<times> memory_supervisor" where
  "mem_stop name s =
     (let status = status_stopped name ''stopped''
      in (Ok status, s\<lparr>ms_stops := ms_stops s @ [name], ms_statuses := bt_insert name status (ms_statuses s)\<rparr>))"

definition mem_status :: "string \<Rightarrow> memory_supervisor \<Rightarrow> process_status result \<times> memory_supervisor" where
  "mem_status name s =
     (Ok (unwrap_or (status_stopped name ''process was never started'') (bt_get (ms_statuses s) name)), s)"

definition mem_reload :: "process_spec \<Rightarrow> memory_supervisor \<Rightarrow> process_status result \<times> memory_supervisor" where
  "mem_reload spec s = io_then (mem_stop (psp_name spec) s) (\<lambda>_. mem_start spec)"

section \<open>The control endpoint\<close>

record control_client =
  ccl_addr :: string
  ccl_token :: "string option"

text \<open>\<open>cwd\<close> is what \<open>env::current_dir\<close> answers, \<open>random\<close> what \<open>getrandom\<close> fills 32 bytes with.\<close>

definition absolute_process_path :: "string option \<Rightarrow> string \<Rightarrow> string" where
  "absolute_process_path cwd path =
     (if path \<noteq> [] \<and> hd path = slash then path
      else case cwd of Some dir \<Rightarrow> path_push dir path | None \<Rightarrow> path)"

definition keli_core_rs_control_addr :: "string option \<Rightarrow> string \<Rightarrow> string" where
  "keli_core_rs_control_addr cwd config_path =
     (let hash = fnv1a64 (str_bytes (absolute_process_path cwd config_path))
      in ''127.0.0.1:'' @ nat_to_string (unat (18080 + hash mod 1000)))"

definition keli_core_rs_control_token_path :: "string option \<Rightarrow> string \<Rightarrow> string" where
  "keli_core_rs_control_token_path cwd config_path = with_extension (absolute_process_path cwd config_path) ''control.token''"

definition generate_keli_core_rs_control_token :: "u8 list result \<Rightarrow> string result" where
  "generate_keli_core_rs_control_token random =
     (case random of
        Inl e \<Rightarrow> Err (''generate keli-core-rs control token: '' @ e)
      | Inr bytes \<Rightarrow> Ok (concat (map hex_byte bytes)))"

definition secure_keli_core_rs_control_token_file :: "string \<Rightarrow> file_store \<Rightarrow> unit result \<times> file_store" where
  "secure_keli_core_rs_control_token_file path fs =
     io_map_err (\<lambda>e. ''secure keli-core-rs control token '' @ path @ '': '' @ io_error_text e) (fs_set_permissions path fs)"

definition create_control_token :: "u8 list result \<Rightarrow> string \<Rightarrow> file_store \<Rightarrow> string result \<times> file_store" where
  "create_control_token random path fs =
     io_then (generate_keli_core_rs_control_token random, fs) (\<lambda>token fs.
     io_then (case path_parent path of
         None \<Rightarrow> (Ok (), fs)
       | Some parent \<Rightarrow> io_map_err (\<lambda>e. ''create keli-core-rs control token directory '' @ parent @ '': '' @ io_error_text e)
           (fs_create_dir_all parent fs)) (\<lambda>_ fs.
     io_then (io_map_err (\<lambda>e. ''write keli-core-rs control token '' @ path @ '': '' @ io_error_text e)
         (fs_write path (token @ [CHR 0x0A]) fs)) (\<lambda>_ fs.
     io_then (secure_keli_core_rs_control_token_file path fs) (\<lambda>_ fs. (Ok token, fs)))))"

definition keli_core_rs_control_token ::
  "u8 list result \<Rightarrow> string option \<Rightarrow> string \<Rightarrow> file_store \<Rightarrow> string result \<times> file_store" where
  "keli_core_rs_control_token random cwd config_path fs =
     (let path = keli_core_rs_control_token_path cwd config_path
      in case fs_read_to_string path fs of
           (Inl _, fs1) \<Rightarrow> create_control_token random path fs1
         | (Inr contents, fs1) \<Rightarrow>
             if trim contents = [] then create_control_token random path fs1
             else io_then (secure_keli_core_rs_control_token_file path fs1) (\<lambda>_ fs2. (Ok (trim contents), fs2)))"

definition keli_core_rs_control_client ::
  "u8 list result \<Rightarrow> string option \<Rightarrow> string \<Rightarrow> file_store \<Rightarrow> control_client result \<times> file_store" where
  "keli_core_rs_control_client random cwd config_path fs =
     (let path = absolute_process_path cwd config_path
      in io_then (keli_core_rs_control_token random cwd path fs) (\<lambda>token fs'.
           (Ok \<lparr>ccl_addr = keli_core_rs_control_addr cwd path, ccl_token = Some token\<rparr>, fs')))"

section \<open>The specification of the core process\<close>

definition core_kind_label :: "core_kind \<Rightarrow> string" where
  "core_kind_label kind = (case kind of KeliCoreRs \<Rightarrow> ''keli-core-rs'')"

definition DEFAULT_NATIVE_INSTALL_DIR :: string where
  "DEFAULT_NATIVE_INSTALL_DIR = ''/usr/local/kelinode''"

definition default_binary_command :: "string \<Rightarrow> string \<Rightarrow> file_store \<Rightarrow> string" where
  "default_binary_command binary_name install_dir fs =
     (let installed = path_push install_dir binary_name
      in if fs_files fs installed \<noteq> None then installed else binary_name)"

definition default_keli_core_rs_command :: "file_store \<Rightarrow> string" where
  "default_keli_core_rs_command fs = default_binary_command ''keli-core-rs'' DEFAULT_NATIVE_INSTALL_DIR fs"

definition default_core_command :: "core_kind \<Rightarrow> file_store \<Rightarrow> string option" where
  "default_core_command kind fs = (case kind of KeliCoreRs \<Rightarrow> Some (default_keli_core_rs_command fs))"

definition core_process_args :: "string option \<Rightarrow> core_kind \<Rightarrow> string \<Rightarrow> string list result" where
  "core_process_args cwd kind config_path =
     (case kind of KeliCoreRs \<Rightarrow> Ok [''run-config'', config_path, ''--control'', keli_core_rs_control_addr cwd config_path])"

definition join_process_path :: "string \<Rightarrow> string \<Rightarrow> string" where
  "join_process_path base segment =
     (if base \<noteq> [] \<and> hd base = slash then trim_end_matches is_slash base @ [slash] @ segment
      else path_push base segment)"

definition core_process_env ::
  "u8 list result \<Rightarrow> string option \<Rightarrow> string \<Rightarrow> file_store \<Rightarrow> (string, string) btmap result \<times> file_store" where
  "core_process_env random cwd config_path fs =
     (case path_parent config_path of
        None \<Rightarrow> (Ok [], fs)
      | Some config_dir \<Rightarrow>
          io_then (keli_core_rs_control_token random cwd config_path fs) (\<lambda>token fs'.
            (Ok (bt_insert ''KELI_CORE_CONTROL_TOKEN'' token
               (bt_insert ''KELI_CORE_GEOSITE_DIR'' (join_process_path config_dir ''geosite'')
                 (bt_insert ''KELI_CORE_GEOIP_DIR'' (join_process_path config_dir ''geoip'') []))), fs')))"

definition core_process_spec ::
  "u8 list result \<Rightarrow> string option \<Rightarrow> core_plan \<Rightarrow> string option \<Rightarrow> file_store \<Rightarrow> process_spec result \<times> file_store" where
  "core_process_spec random cwd plan command_override fs =
     (let override = (case map_option trim command_override of Some v \<Rightarrow> if v = [] then None else Some v | None \<Rightarrow> None)
      in case (case override of Some c \<Rightarrow> Some c | None \<Rightarrow> default_core_command (cp_kind plan) fs) of
           None \<Rightarrow> (Err ''core command is not configured'', fs)
         | Some c \<Rightarrow>
             (let config_path = absolute_process_path cwd (cp_config_path plan)
              in io_then (core_process_args cwd (cp_kind plan) config_path, fs) (\<lambda>args fs.
                 io_then (core_process_env random cwd config_path fs) (\<lambda>env fs.
                   (Ok \<lparr>psp_name = ''core:'' @ core_kind_label (cp_kind plan), psp_command = c, psp_args = args,
                      psp_working_dir = path_parent config_path, psp_env = env\<rparr>, fs)))))"

section \<open>The contract of a supervisor\<close>

locale process_supervisor =
  fixes start :: "process_spec \<Rightarrow> 's \<Rightarrow> process_status result \<times> 's"
    and stop :: "string \<Rightarrow> 's \<Rightarrow> process_status result \<times> 's"
    and status :: "string \<Rightarrow> 's \<Rightarrow> process_status result \<times> 's"
    and invar :: "'s \<Rightarrow> bool"
  assumes start_invar: "invar s \<Longrightarrow> invar (snd (start spec s))"
    and stop_invar: "invar s \<Longrightarrow> invar (snd (stop name s))"
    and status_invar: "invar s \<Longrightarrow> invar (snd (status name s))"
    and start_running: "invar s \<Longrightarrow> start spec s = (Inr st, s') \<Longrightarrow> prs_name st = psp_name spec \<and> is_running st"
    and start_status: "invar s \<Longrightarrow> start spec s = (Inr st, s') \<Longrightarrow> status (psp_name spec) s' = (Inr st', s'') \<Longrightarrow> is_running st'"
    and stop_stopped: "invar s \<Longrightarrow> stop name s = (Inr st, s') \<Longrightarrow> prs_name st = name \<and> \<not> is_running st"
    and stop_status: "invar s \<Longrightarrow> stop name s = (Inr st, s') \<Longrightarrow> status name s' = (Inr st', s'') \<Longrightarrow> \<not> is_running st'"
begin

lemma reload_running:
  assumes "invar s" "io_then (stop (psp_name spec) s) (\<lambda>_. start spec) = (Inr st, s')"
  shows "prs_name st = psp_name spec \<and> is_running st \<and> invar s' \<and>
    (\<forall>st' s''. status (psp_name spec) s' = (Inr st', s'') \<longrightarrow> is_running st')"
proof -
  from assms(2) obtain st1 s1 where stop: "stop (psp_name spec) s = (Inr st1, s1)" and start: "start spec s1 = (Inr st, s')"
    by (auto simp: io_then_Inr)
  have "invar s1" using stop_invar [OF assms(1), of "psp_name spec"] stop by simp
  then show ?thesis using start_running start_status start_invar [of s1 spec] start by fastforce
qed

end

lemma status_simps [simp]:
  "prs_name (status_running n pid) = n" "is_running (status_running n pid)"
  "prs_name (status_stopped n m) = n" "\<not> is_running (status_stopped n m)"
  "prs_name (status_exited n c) = n" "\<not> is_running (status_exited n c)"
  by (simp_all add: status_running_def status_stopped_def status_exited_def is_running_def)

text \<open>The tables of a supervisor: ordered, and every status is stored under its own name.\<close>

definition statuses_named :: "(string, process_status) btmap \<Rightarrow> bool" where
  "statuses_named m \<longleftrightarrow> (\<forall>name st. bt_get m name = Some st \<longrightarrow> prs_name st = name)"

lemma statuses_named_insert: "statuses_named m \<Longrightarrow> prs_name st = name \<Longrightarrow> statuses_named (bt_insert name st m)"
  by (simp add: statuses_named_def bt_get_insert)

definition sup_invar :: "supervisor \<Rightarrow> bool" where
  "sup_invar s \<longleftrightarrow> bt_invar (sv_children s) \<and> statuses_named (sv_statuses s)"

lemma set_status_simps [simp]:
  "sv_children (set_status st s) = sv_children s" "sv_os (set_status st s) = sv_os s"
  "sv_statuses (set_status st s) = bt_insert (prs_name st) st (sv_statuses s)"
  by (simp_all add: set_status_def)

lemmas sup_defs = sup_status_def sup_start_def sup_stop_def Let_def
lemmas sup_splits = prod.splits sum.splits option.splits

lemma sup_invar_set_status: "sup_invar s \<Longrightarrow> sup_invar (set_status st s)"
  by (simp add: sup_invar_def statuses_named_insert)

lemma sup_status_invar: "sup_invar s \<Longrightarrow> sup_invar (snd (sup_status name s))"
  by (auto simp: sup_status_def Let_def sup_invar_def bt_remove_invar statuses_named_insert split: sup_splits)

lemma sup_stop_invar: "sup_invar s \<Longrightarrow> sup_invar (snd (sup_stop name s))"
  by (auto simp: sup_stop_def Let_def sup_invar_def bt_remove_invar statuses_named_insert split: sup_splits)

lemma sup_start_invar: "sup_invar s \<Longrightarrow> sup_invar (snd (sup_start spec s))"
  using sup_status_invar [of s "psp_name spec"]
  by (auto simp: sup_start_def Let_def sup_invar_def bt_insert_invar statuses_named_insert split: sup_splits)

text \<open>Asking for the status tells whether the child is alive, and leaves a live child alone.\<close>

lemma os_fault_child: "os_fault os = (f, os') \<Longrightarrow> os_child os' = os_child os \<and> os_next os' = os_next os"
  by (auto simp: os_fault_def split: list.splits)

lemma try_wait_child: "os_try_wait h os = (r, os') \<Longrightarrow> os_child os' = os_child os \<and> os_next os' = os_next os"
  by (auto simp: os_try_wait_def dest: os_fault_child split: prod.splits option.splits)

lemma try_wait_None: "os_try_wait h os = (Inr None, os') \<Longrightarrow> \<nexists>code. os_child os h = Dead code"
  by (auto simp: os_try_wait_def dest!: os_fault_child split: prod.splits option.splits child_state.splits)

lemma try_wait_Some: "os_try_wait h os = (Inr (Some code), os') \<Longrightarrow> os_child os h = Dead code"
  by (auto simp: os_try_wait_def dest!: os_fault_child split: prod.splits option.splits child_state.splits)

lemma sup_status_running:
  assumes "sup_status name s = (Inr st, s1)" "is_running st" "sup_status name s1 = (Inr st', s2)"
  shows "is_running st'"
proof (cases "bt_get (sv_children s) name")
  case (Some child)
  with assms(1,2) have "s1 = s\<lparr>sv_os := snd (os_try_wait child (sv_os s))\<rparr>"
    "\<exists>os. os_try_wait child (sv_os s) = (Inr None, os)"
    by (auto simp: sup_status_def Let_def split: sup_splits)
  moreover from this have "\<nexists>code. os_child (sv_os s1) child = Dead code"
    using try_wait_None try_wait_child by fastforce
  ultimately show ?thesis
    using assms(3) Some by (auto simp: sup_status_def Let_def dest: try_wait_Some split: sup_splits)
qed (use assms in \<open>auto simp: sup_status_def\<close>)

lemma sup_status_name:
  assumes "sup_invar s" "sup_status name s = (Inr st, s')"
  shows "prs_name st = name"
proof (cases "bt_get (sv_children s) name")
  case None
  with assms show ?thesis
    by (cases "bt_get (sv_statuses s) name") (auto simp: sup_status_def sup_invar_def statuses_named_def)
qed (use assms in \<open>auto simp: sup_status_def Let_def split: sup_splits\<close>)

lemma spawn_child:
  "os_spawn spec os = (Inr h, os') \<Longrightarrow>
     os_child os' = (os_child os)(h := Alive spec) \<and> h = os_next os \<and> os_next os' = Suc (os_next os)"
  by (auto simp: os_spawn_def dest!: os_fault_child split: prod.splits option.splits)

lemma spawn_failed: "os_spawn spec os = (Inl e, os') \<Longrightarrow> os_child os' = os_child os \<and> os_next os' = os_next os"
  by (auto simp: os_spawn_def dest!: os_fault_child split: prod.splits option.splits)

lemma sup_start_cases:
  assumes "sup_start spec s = (Inr st, s')"
  obtains (already) "sup_status (psp_name spec) s = (Inr st, s')" "is_running st"
  | (spawned) current s1 h os where "sup_status (psp_name spec) s = (Inr current, s1)" "\<not> is_running current"
      "os_spawn spec (sv_os s1) = (Inr h, os)" "st = status_running (psp_name spec) (child_id h)"
      "s' = set_status st (s1\<lparr>sv_os := os, sv_children := bt_insert (psp_name spec) h (sv_children s1)\<rparr>)"
  using assms by (auto simp: sup_start_def Let_def split: prod.splits sum.splits if_splits)

lemma sup_start_status:
  assumes "sup_start spec s = (Inr st, s')" "sup_status (psp_name spec) s' = (Inr st', s'')"
  shows "is_running st'"
  using assms(1)
proof (cases rule: sup_start_cases)
  case already
  then show ?thesis using sup_status_running assms(2) by blast
next
  case (spawned current s1 h os)
  have "os_child (sv_os s') h = Alive spec" "bt_get (sv_children s') (psp_name spec) = Some h"
    using spawned spawn_child by (auto simp: bt_get_insert)
  then show ?thesis using assms(2) by (auto simp: sup_status_def Let_def dest: try_wait_Some split: sup_splits)
qed

lemma sup_stop_Inr:
  assumes "sup_stop name s = (Inr st, s')"
  shows "prs_name st = name \<and> \<not> is_running st \<and> bt_get (sv_statuses s') name = Some st \<and>
    sv_children s' = (if bt_get (sv_children s) name = None then sv_children s else bt_remove name (sv_children s))"
  using assms by (auto simp: sup_stop_def Let_def bt_get_insert is_running_def status_stopped_def status_exited_def split: sup_splits)

lemma sup_stop_status:
  assumes "sup_invar s" "sup_stop name s = (Inr st, s')" "sup_status name s' = (Inr st', s'')"
  shows "\<not> is_running st'"
proof -
  note stop = sup_stop_Inr [OF assms(2)]
  have "bt_get (sv_children s') name = None"
    using stop assms(1) by (auto simp: sup_invar_def bt_get_remove)
  with stop assms(3) show ?thesis by (auto simp: sup_status_def)
qed

interpretation system_supervisor: process_supervisor sup_start sup_stop sup_status sup_invar
proof
  fix s spec st s'
  assume "sup_invar s" "sup_start spec s = (Inr st, s')"
  from this(2) \<open>sup_invar s\<close> show "prs_name st = psp_name spec \<and> is_running st"
    by (cases rule: sup_start_cases) (auto dest: sup_status_name)
next
  fix s name st s'
  assume "sup_stop name s = (Inr st, s')"
  then show "prs_name st = name \<and> \<not> is_running st" using sup_stop_Inr by blast
qed (use sup_start_invar sup_stop_invar sup_status_invar sup_start_status sup_stop_status in blast)+

interpretation memory_supervisor: process_supervisor mem_start mem_stop mem_status "\<lambda>s. True"
  by unfold_locales (auto simp: mem_start_def mem_stop_def mem_status_def Let_def bt_get_insert)

section \<open>Runs of the system supervisor\<close>

text \<open>
  What may happen to a supervisor: its operations, in any order and with any failure to spawn or to
  inspect, and the exit of a child at any moment in between. A stop is part of a run only if it
  succeeded.
\<close>

definition supervisor_init :: "string option list \<Rightarrow> supervisor" where
  "supervisor_init faults = \<lparr>sv_children = [], sv_statuses = [], sv_os = \<lparr>os_next = 0, os_child = (\<lambda>_. Unused), os_faults = faults\<rparr>\<rparr>"

definition child_exits :: "nat \<Rightarrow> int option \<Rightarrow> supervisor \<Rightarrow> supervisor" where
  "child_exits h code s = s\<lparr>sv_os := (sv_os s)\<lparr>os_child := (os_child (sv_os s))(h := Dead code)\<rparr>\<rparr>"

inductive sup_reach :: "supervisor \<Rightarrow> bool" where
  init: "sup_reach (supervisor_init faults)"
| start: "sup_reach s \<Longrightarrow> sup_reach (snd (sup_start spec s))"
| status: "sup_reach s \<Longrightarrow> sup_reach (snd (sup_status name s))"
| stop: "sup_reach s \<Longrightarrow> sup_stop name s = (Inr st, s') \<Longrightarrow> sup_reach s'"
| exits: "sup_reach s \<Longrightarrow> os_child (sv_os s) h = Alive spec \<Longrightarrow> sup_reach (child_exits h code s)"

text \<open>Every live child is the one its supervisor keeps under the name it was started with.\<close>

definition supervised :: "supervisor \<Rightarrow> bool" where
  "supervised s \<longleftrightarrow> bt_invar (sv_children s) \<and>
     (\<forall>h spec. os_child (sv_os s) h = Alive spec \<longrightarrow> bt_get (sv_children s) (psp_name spec) = Some h) \<and>
     (\<forall>h. os_next (sv_os s) \<le> h \<longrightarrow> os_child (sv_os s) h = Unused) \<and>
     (\<forall>name h. bt_get (sv_children s) name = Some h \<longrightarrow> h < os_next (sv_os s))"

lemma supervised_status: "supervised s \<Longrightarrow> supervised (snd (sup_status name s))"
proof (cases "bt_get (sv_children s) name")
  case (Some child)
  assume s: "supervised s"
  obtain r os where w: "os_try_wait child (sv_os s) = (r, os)" by fastforce
  note c = try_wait_child [OF w]
  show ?thesis
  proof (cases r)
    case (Inl e)
    with s Some w c show ?thesis by (simp add: sup_status_def supervised_def)
  next
    case (Inr v)
    show ?thesis
    proof (cases v)
      case None
      with Inr s Some w c show ?thesis by (simp add: sup_status_def supervised_def)
    next
      case (Some code)
      with w Inr have "os_child (sv_os s) child = Dead code" by (auto dest: try_wait_Some)
      with Some Inr s w c \<open>bt_get (sv_children s) name = Some child\<close> show ?thesis
        by (fastforce simp: sup_status_def Let_def supervised_def bt_get_remove bt_remove_invar)
    qed
  qed
qed (simp add: sup_status_def)

lemma supervised_start: "supervised s \<Longrightarrow> supervised (snd (sup_start spec s))"
proof -
  assume s: "supervised s"
  obtain r s1 where st: "sup_status (psp_name spec) s = (r, s1)" by fastforce
  have s1: "supervised s1" using supervised_status [OF s, of "psp_name spec"] st by simp
  show ?thesis
  proof (cases r)
    case (Inr current)
    show ?thesis
    proof (cases "is_running current")
      case False
      have none: "bt_get (sv_children s1) (psp_name spec) = None"
        using st Inr False s by (auto simp: sup_status_def Let_def supervised_def bt_get_remove split: sup_splits)
      obtain r2 os where sp: "os_spawn spec (sv_os s1) = (r2, os)" by fastforce
      show ?thesis
      proof (cases r2)
        case (Inl e)
        with sp have "os_child os = os_child (sv_os s1)" "os_next os = os_next (sv_os s1)" using spawn_failed by auto
        with Inl sp st Inr False s1 show ?thesis by (simp add: sup_start_def supervised_def)
      next
        case (Inr h)
        with sp have os: "os_child os = (os_child (sv_os s1))(h := Alive spec)" "h = os_next (sv_os s1)" "os_next os = Suc h"
          using spawn_child by auto
        have "psp_name spec' \<noteq> psp_name spec" if "os_child (sv_os s1) h' = Alive spec'" for h' spec'
          using that none s1 unfolding supervised_def by (metis option.distinct(1))
        with os s1 show ?thesis
          using Inr sp st \<open>r = Inr current\<close> False
          by (auto simp: sup_start_def Let_def supervised_def bt_get_insert bt_insert_invar less_SucI)
      qed
    qed (use Inr st s1 in \<open>simp add: sup_start_def\<close>)
  qed (use st s1 in \<open>simp add: sup_start_def\<close>)
qed

lemma kill_child:
  "os_kill h os = (Inr u, os') \<Longrightarrow> \<exists>code. os_child os' = (os_child os)(h := Dead code) \<and> os_next os' = os_next os"
  by (auto simp: os_kill_def dest!: os_fault_child split: prod.splits option.splits child_state.splits)

lemma wait_child: "os_wait h os = (r, os') \<Longrightarrow> os_child os' = os_child os \<and> os_next os' = os_next os"
  by (auto simp: os_wait_def dest!: os_fault_child split: prod.splits option.splits)

lemma sup_stop_child:
  assumes "sup_stop name s = (Inr st, s')" "bt_get (sv_children s) name = Some h"
  shows "\<exists>code. os_child (sv_os s') = (os_child (sv_os s))(h := Dead code) \<and> os_next (sv_os s') = os_next (sv_os s)"
proof -
  obtain r os where w: "os_try_wait h (sv_os s) = (r, os)" by fastforce
  note c = try_wait_child [OF w]
  from assms w show ?thesis
  proof (cases r)
    case (Inr v)
    show ?thesis
    proof (cases v)
      case None
      with assms w Inr obtain os1 os2 code where "os_kill h os = (Inr (), os1)" "os_wait h os1 = (Inr code, os2)" "sv_os s' = os2"
        by (auto simp: sup_stop_def Let_def split: prod.splits sum.splits)
      with c show ?thesis using kill_child wait_child by metis
    next
      case (Some code)
      with w Inr have "os_child (sv_os s) h = Dead code" by (auto dest: try_wait_Some)
      with assms w Inr Some c show ?thesis by (auto simp: sup_stop_def Let_def fun_upd_idem intro!: exI [of _ code])
    qed
  qed (auto simp: sup_stop_def Let_def)
qed

lemma supervised_stop:
  assumes "supervised s" "sup_stop name s = (Inr st, s')"
  shows "supervised s'"
proof (cases "bt_get (sv_children s) name")
  case None
  with assms show ?thesis by (auto simp: sup_stop_def Let_def supervised_def)
next
  case (Some h)
  from sup_stop_child [OF assms(2) Some] obtain code where
    os: "os_child (sv_os s') = (os_child (sv_os s))(h := Dead code)" "os_next (sv_os s') = os_next (sv_os s)" by blast
  show ?thesis unfolding supervised_def
  proof (intro conjI allI impI)
    have ch: "sv_children s' = bt_remove name (sv_children s)" using sup_stop_Inr [OF assms(2)] Some by simp
    have inv: "bt_invar (sv_children s)" using assms(1) by (simp add: supervised_def)
    show "bt_invar (sv_children s')" using ch bt_remove_invar [OF inv] by simp
    note get = bt_get_remove [OF inv, of name]
    show "bt_get (sv_children s') (psp_name spec) = Some h'" if "os_child (sv_os s') h' = Alive spec" for h' spec
    proof -
      from that os have "os_child (sv_os s) h' = Alive spec" "h' \<noteq> h" by (auto split: if_splits)
      with assms(1) have "bt_get (sv_children s) (psp_name spec) = Some h'" unfolding supervised_def by blast
      with Some \<open>h' \<noteq> h\<close> ch get show ?thesis by auto
    qed
    have "h < os_next (sv_os s)" using assms(1) Some by (simp add: supervised_def)
    then show "os_child (sv_os s') h' = Unused" if "os_next (sv_os s') \<le> h'" for h'
      using that os assms(1) by (auto simp: supervised_def)
    show "h' < os_next (sv_os s')" if "bt_get (sv_children s') name' = Some h'" for name' h'
      using that ch get os assms(1) by (auto simp: supervised_def split: if_splits)
  qed
qed

lemma reach_supervised: "sup_reach s \<Longrightarrow> supervised s"
proof (induction rule: sup_reach.induct)
  case (init faults)
  show ?case by (simp add: supervisor_init_def supervised_def bt_invar_def bt_get_def)
next
  case (exits s h spec code)
  then show ?case unfolding supervised_def child_exits_def by (auto simp: not_le split: if_splits) 
qed (auto intro: supervised_start supervised_status supervised_stop)

text \<open>
  C34: However starts, status requests, successful stops, failures to spawn or inspect and exits of
  children interleave, at most one live process was ever started under a name, and the supervisor
  still holds it.
\<close>

theorem one_process_per_name:
  assumes "sup_reach s" "os_child (sv_os s) h = Alive spec"
  shows "bt_get (sv_children s) (psp_name spec) = Some h \<and>
    (\<forall>h' spec'. os_child (sv_os s) h' = Alive spec' \<and> psp_name spec' = psp_name spec \<longrightarrow> h' = h)"
  using reach_supervised [OF assms(1)] assms(2) unfolding supervised_def by (metis option.inject)

text \<open>
  A reload that reports success leaves the process running, as the system supervisor will itself
  answer until something else happens; so does the supervisor in memory.
\<close>

lemma reload_leaves_running:
  assumes "sup_invar s" "sup_reload spec s = (Ok st, s')" "mem_reload spec m = (Ok mst, m')"
  shows "is_running st \<and> prs_name st = psp_name spec \<and> sup_invar s' \<and>
    (\<forall>st' s''. sup_status (psp_name spec) s' = (Ok st', s'') \<longrightarrow> is_running st') \<and>
    is_running mst \<and> (\<forall>st' m''. mem_status (psp_name spec) m' = (Ok st', m'') \<longrightarrow> is_running st')"
  using system_supervisor.reload_running [OF assms(1) assms(2) [unfolded sup_reload_def]]
    memory_supervisor.reload_running [OF TrueI assms(3) [unfolded mem_reload_def]] by blast

text \<open>
  A stop that fails forgets the child and leaves its old status in place, so the name is reported as
  running from then on and starting it does nothing, whether or not the process is still there.
\<close>

lemma failed_stop_sticks:
  assumes "sup_invar s" "sup_stop (psp_name spec) s = (Inl e, s')" "bt_get (sv_statuses s) (psp_name spec) = Some st"
    "is_running st"
  shows "sup_status (psp_name spec) s' = (Inr st, s') \<and> sup_start spec s' = (Inr st, s')"
proof -
  have "bt_get (sv_children s') (psp_name spec) = None \<and> sv_statuses s' = sv_statuses s"
    using assms(1,2) by (auto simp: sup_stop_def Let_def sup_invar_def bt_get_remove split: sup_splits)
  with assms(3,4) have "sup_status (psp_name spec) s' = (Inr st, s')" by (simp add: sup_status_def)
  with assms(4) show ?thesis by (simp add: sup_start_def)
qed

section \<open>The control token\<close>

lemma hex_digit_plain: "n < 16 \<Longrightarrow> \<not> is_ws1 (hex_digit n) \<and> char_code (hex_digit n) < 128"
proof -
  assume "n < 16"
  then have "hex_digit n \<in> set ''0123456789abcdef''" unfolding hex_digit_def by (intro nth_mem) simp
  moreover have "\<forall>c \<in> set ''0123456789abcdef''. \<not> is_ws1 c \<and> char_code c < 128" by (simp add: is_ws1_def char_code_def)
  ultimately show ?thesis by blast
qed

lemma hex_byte_plain: "c \<in> set (hex_byte b) \<Longrightarrow> \<not> is_ws1 c \<and> char_code c < 128"
proof -
  assume "c \<in> set (hex_byte b)"
  moreover have "unat b < 256" using unsigned_less [of b] by simp
  then have "unat b div 16 < 16" "unat b mod 16 < 16" by auto
  ultimately show ?thesis using hex_digit_plain by (auto simp: hex_byte_def)
qed

lemma trim_line:
  assumes "\<forall>c \<in> set s. \<not> is_ws1 c \<and> char_code c < 128" "s \<noteq> []"
  shows "trim (s @ [CHR 0x0A]) = s"
proof -
  obtain c t where s: "s = c # t" using assms(2) by (cases s) auto
  have "ws_len (s @ [CHR 0x0A]) = 0"
    using assms(1) s by (auto simp: ws_len_def is_ws2_def is_ws3_def split: list.splits)
  then have "trim (s @ [CHR 0x0A]) = rev (trim_end_rev (CHR 0x0A # rev s))"
    by (simp add: trim_def trim_end_def trim_start_plain)
  also have "ws_len_rev (CHR 0x0A # rev s) = 1"
    by (auto simp: ws_len_rev_def is_ws1_def char_code_def split: list.splits)
  then have "trim_end_rev (CHR 0x0A # rev s) = trim_end_rev (rev s)" by (subst trim_end_rev.simps) simp
  also have "rev (trim_end_rev (rev s)) = trim_end s" by (simp add: trim_end_def)
  also have "trim_end s = trim s" using assms(1) s
    by (simp add: trim_def trim_start_plain ws_len_def is_ws2_def is_ws3_def split: list.splits)
  finally show ?thesis using trim_plain [OF assms(1)] by simp
qed

text \<open>A token file that can be read is not touched; its trimmed content is the token.\<close>

definition token_stored :: "string \<Rightarrow> string \<Rightarrow> file_store \<Rightarrow> bool" where
  "token_stored path token fs \<longleftrightarrow> token \<noteq> [] \<and>
     (\<exists>contents. fs_files fs path = Some contents \<and> utf8_valid contents \<and> trim contents = token)"

lemma stored_token_read:
  assumes "token_stored (keli_core_rs_control_token_path cwd config_path) token fs" "fs_faults fs = []"
  shows "keli_core_rs_control_token random cwd config_path fs = (Inr token, fs)"
  using assms
  by (auto simp: token_stored_def keli_core_rs_control_token_def Let_def fs_read_to_string_def fs_read_def next_fault_def
      secure_keli_core_rs_control_token_file_def fs_set_permissions_def)

lemma created_token_stored:
  assumes "create_control_token random path fs = (Inr token, fs')" "\<forall>bytes. random = Inr bytes \<longrightarrow> bytes \<noteq> []"
  shows "token_stored path token fs'"
proof -
  from assms(1) obtain fs1 fs2 where t: "generate_keli_core_rs_control_token random = Inr token"
    and w: "fs_write path (token @ [CHR 0x0A]) fs1 = (Inr (), fs2)"
    and sec: "secure_keli_core_rs_control_token_file path fs2 = (Inr (), fs')"
    by (auto simp: create_control_token_def io_then_Inr)
  from t obtain bytes where b: "random = Inr bytes" "token = concat (map hex_byte bytes)"
    by (auto simp: generate_keli_core_rs_control_token_def split: sum.splits)
  have plain: "\<forall>c \<in> set token. \<not> is_ws1 c \<and> char_code c < 128" using b(2) hex_byte_plain by auto
  have ne: "token \<noteq> []" using b assms(2) by (cases bytes) (auto simp: hex_byte_def)
  have "fs_files fs' = fs_files fs2"
    using sec fs_set_permissions_files [of path fs2] by (auto simp: secure_keli_core_rs_control_token_file_def)
  then have "fs_files fs' path = Some (token @ [CHR 0x0A])" using fs_write_Inr [OF w] by simp
  moreover have "utf8_valid (token @ [CHR 0x0A])"
    using plain by (intro utf8_ascii) (auto simp: list_all_iff char_code_def)
  ultimately show ?thesis using trim_line [OF plain ne] ne by (auto simp: token_stored_def)
qed

lemma control_token_stored:
  assumes "keli_core_rs_control_token random cwd config_path fs = (Inr token, fs')" "\<forall>bytes. random = Inr bytes \<longrightarrow> bytes \<noteq> []"
  shows "token_stored (keli_core_rs_control_token_path cwd config_path) token fs'"
proof -
  let ?p = "keli_core_rs_control_token_path cwd config_path"
  obtain r fs1 where r: "fs_read ?p fs = (r, fs1)" by fastforce
  show ?thesis
  proof (cases "\<exists>contents. r = Inr contents \<and> utf8_valid contents \<and> trim contents \<noteq> []")
    case True
    then obtain contents where c: "r = Inr contents" "utf8_valid contents" "trim contents \<noteq> []" by blast
    with assms(1) r have "token = trim contents" "io_map_err (\<lambda>e. ''secure keli-core-rs control token '' @ ?p @ '': '' @ io_error_text e)
        (fs_set_permissions ?p fs1) = (Inr (), fs')"
      by (auto simp: keli_core_rs_control_token_def Let_def fs_read_to_string_def io_then_Inr
          secure_keli_core_rs_control_token_file_def)
    then have "fs_files fs' = fs_files fs1" using fs_set_permissions_files [of ?p fs1] by simp
    with fs_read_Inr [of ?p fs contents fs1] r c \<open>token = trim contents\<close> show ?thesis by (auto simp: token_stored_def)
  next
    case False
    with assms(1) r have "create_control_token random ?p fs1 = (Inr token, fs')"
      by (cases r) (auto simp: keli_core_rs_control_token_def Let_def fs_read_to_string_def split: if_splits)
    then show ?thesis using created_token_stored assms(2) by blast
  qed
qed

text \<open>Asking for the token writes no file but the token file.\<close>

lemma secure_token_files: "fs_files (snd (secure_keli_core_rs_control_token_file path fs)) = fs_files fs"
  by (simp add: secure_keli_core_rs_control_token_file_def)

lemma io_then_frame:
  assumes "f (snd r) = v" "\<And>a s. r = (Inr a, s) \<Longrightarrow> f (snd (k a s)) = v"
  shows "f (snd (io_then r k)) = v"
  using assms by (cases "(r, k)" rule: io_then.cases) auto

lemma create_token_frame:
  assumes "q \<noteq> path"
  shows "fs_files (snd (create_control_token random path fs)) q = fs_files fs q"
  unfolding create_control_token_def
proof (rule io_then_frame [where f = "\<lambda>fs. fs_files fs q"])
  fix token s
  assume "(generate_keli_core_rs_control_token random, fs) = (Inr token, s)"
  then have s: "s = fs" by simp
  let ?dir = "\<lambda>fs. case path_parent path of None \<Rightarrow> (Ok (), fs)
      | Some parent \<Rightarrow> io_map_err (\<lambda>e. ''create keli-core-rs control token directory '' @ parent @ '': '' @ io_error_text e)
           (fs_create_dir_all parent fs)"
  have dir: "fs_files (snd (?dir fs)) = fs_files fs" by (simp split: option.splits)
  show "fs_files (snd (io_then (?dir s) (\<lambda>_ fs.
     io_then (io_map_err (\<lambda>e. ''write keli-core-rs control token '' @ path @ '': '' @ io_error_text e)
         (fs_write path (token @ [CHR 0x0A]) fs)) (\<lambda>_ fs.
     io_then (secure_keli_core_rs_control_token_file path fs) (\<lambda>_ fs. (Ok token, fs)))))) q = fs_files fs q"
  proof (rule io_then_frame [where f = "\<lambda>fs. fs_files fs q"])
    fix u s1
    assume "?dir s = (Inr u, s1)"
    with dir s have s1: "fs_files s1 = fs_files fs" by (metis snd_conv)
    show "fs_files (snd (io_then (io_map_err (\<lambda>e. ''write keli-core-rs control token '' @ path @ '': '' @ io_error_text e)
         (fs_write path (token @ [CHR 0x0A]) s1)) (\<lambda>_ fs.
     io_then (secure_keli_core_rs_control_token_file path fs) (\<lambda>_ fs. (Ok token, fs))))) q = fs_files fs q"
    proof (rule io_then_frame [where f = "\<lambda>fs. fs_files fs q"])
      show "fs_files (snd (io_map_err (\<lambda>e. ''write keli-core-rs control token '' @ path @ '': '' @ io_error_text e)
         (fs_write path (token @ [CHR 0x0A]) s1))) q = fs_files fs q"
        using fs_write_frame [OF assms] s1 by simp
      then have s2: "fs_files s2 q = fs_files fs q"
        if "io_map_err (\<lambda>e. ''write keli-core-rs control token '' @ path @ '': '' @ io_error_text e)
         (fs_write path (token @ [CHR 0x0A]) s1) = (Inr u', s2)" for u' s2 using that by simp
      show "fs_files (snd (io_then (secure_keli_core_rs_control_token_file path s2) (\<lambda>_ fs. (Ok token, fs)))) q = fs_files fs q"
        if "io_map_err (\<lambda>e. ''write keli-core-rs control token '' @ path @ '': '' @ io_error_text e)
         (fs_write path (token @ [CHR 0x0A]) s1) = (Inr u', s2)" for u' s2
        using s2 [OF that] secure_token_files [of path s2]
        by (intro io_then_frame [where f = "\<lambda>fs. fs_files fs q"]) (simp, metis snd_conv)
    qed
  qed (simp only: dir s)
qed simp

lemma control_token_frame:
  assumes "q \<noteq> keli_core_rs_control_token_path cwd config_path"
  shows "fs_files (snd (keli_core_rs_control_token random cwd config_path fs)) q = fs_files fs q"
proof -
  let ?p = "keli_core_rs_control_token_path cwd config_path"
  obtain r fs1 where r: "fs_read_to_string ?p fs = (r, fs1)" by fastforce
  have fs1: "fs_files fs1 = fs_files fs" using fs_read_to_string_files [of ?p fs] r by simp
  note create = create_token_frame [OF assms, of random fs1]
  have "fs_files (snd (io_then (secure_keli_core_rs_control_token_file ?p fs1) (\<lambda>_ fs2. (Ok token, fs2)))) q = fs_files fs q" for token :: string
    using secure_token_files [of ?p fs1] fs1
    by (intro io_then_frame [where f = "\<lambda>fs. fs_files fs q"]) (simp, metis snd_conv)
  with r create fs1 show ?thesis by (cases r) (simp_all add: keli_core_rs_control_token_def Let_def)
qed

lemma control_client_frame:
  assumes "q \<noteq> keli_core_rs_control_token_path cwd (absolute_process_path cwd config_path)"
  shows "fs_files (snd (keli_core_rs_control_client random cwd config_path fs)) q = fs_files fs q"
  unfolding keli_core_rs_control_client_def Let_def
  using control_token_frame [OF assms] by (intro io_then_frame [where f = "\<lambda>fs. fs_files fs q"]) (simp, metis snd_conv)

definition absolute_cwd :: "string option \<Rightarrow> bool" where
  "absolute_cwd cwd = (case cwd of Some dir \<Rightarrow> dir \<noteq> [] \<and> hd dir = slash | None \<Rightarrow> True)"

lemma absolute_idem [simp]:
  "absolute_cwd cwd \<Longrightarrow> absolute_process_path cwd (absolute_process_path cwd path) = absolute_process_path cwd path"
  by (auto simp: absolute_process_path_def absolute_cwd_def path_push_def split: option.splits)

lemma control_paths_absolute [simp]:
  assumes "absolute_cwd cwd"
  shows "keli_core_rs_control_token_path cwd (absolute_process_path cwd path) = keli_core_rs_control_token_path cwd path"
    "keli_core_rs_control_addr cwd (absolute_process_path cwd path) = keli_core_rs_control_addr cwd path"
    "keli_core_rs_control_token random cwd (absolute_process_path cwd path) = keli_core_rs_control_token random cwd path"
  using assms
  by (auto simp: keli_core_rs_control_token_path_def keli_core_rs_control_addr_def keli_core_rs_control_token_def Let_def fun_eq_iff)

lemma core_process_spec_Inr:
  assumes "core_process_spec random cwd plan command_override fs = (Inr spec, fs')" "absolute_cwd cwd"
    "path_parent (absolute_process_path cwd (cp_config_path plan)) \<noteq> None"
  shows "psp_args spec = [''run-config'', absolute_process_path cwd (cp_config_path plan), ''--control'',
      keli_core_rs_control_addr cwd (cp_config_path plan)] \<and>
    (\<exists>token. keli_core_rs_control_token random cwd (cp_config_path plan) fs = (Inr token, fs') \<and>
      bt_get (psp_env spec) ''KELI_CORE_CONTROL_TOKEN'' = Some token)"
  using assms
  by (cases "cp_kind plan")
    (auto simp: core_process_spec_def Let_def core_process_args_def core_process_env_def io_then_Inr bt_get_def
      split: option.splits)

text \<open>
  The process that is started and the client that controls it agree: a client made from the same
  configuration path, while the files are readable, connects to the address that is on the command line
  of the process and presents the token that is in its environment, and making it changes no file.
\<close>

lemma core_and_client_agree:
  assumes "core_process_spec random cwd plan command_override fs = (Ok spec, fs')" "fs_faults fs' = []"
    "absolute_cwd cwd" "\<forall>bytes. random = Ok bytes \<longrightarrow> bytes \<noteq> []"
    "path_parent (absolute_process_path cwd (cp_config_path plan)) \<noteq> None"
  shows "\<exists>client. keli_core_rs_control_client random' cwd (cp_config_path plan) fs' = (Ok client, fs') \<and>
    psp_args spec = [''run-config'', absolute_process_path cwd (cp_config_path plan), ''--control'', ccl_addr client] \<and>
    ccl_token client = bt_get (psp_env spec) ''KELI_CORE_CONTROL_TOKEN'' \<and> ccl_token client \<noteq> None \<and>
    ccl_token client \<noteq> Some []"
proof -
  from core_process_spec_Inr [OF assms(1,3,5)] obtain token where
    t: "keli_core_rs_control_token random cwd (cp_config_path plan) fs = (Inr token, fs')"
      "bt_get (psp_env spec) ''KELI_CORE_CONTROL_TOKEN'' = Some token"
    and args: "psp_args spec = [''run-config'', absolute_process_path cwd (cp_config_path plan), ''--control'',
      keli_core_rs_control_addr cwd (cp_config_path plan)]" by blast
  note stored = control_token_stored [OF t(1) assms(4)]
  have "keli_core_rs_control_client random' cwd (cp_config_path plan) fs' =
      (Inr \<lparr>ccl_addr = keli_core_rs_control_addr cwd (cp_config_path plan), ccl_token = Some token\<rparr>, fs')"
    using stored_token_read [OF stored assms(2)] assms(3) by (simp add: keli_core_rs_control_client_def)
  moreover have "token \<noteq> []" using stored by (simp add: token_stored_def)
  ultimately show ?thesis using t(2) args by simp
qed

section \<open>Witnesses\<close>

definition sample_spec :: process_spec where
  "sample_spec = \<lparr>psp_name = ''core'', psp_command = ''c'', psp_args = [], psp_working_dir = None, psp_env = []\<rparr>"

lemma sample_started: "sup_start sample_spec (supervisor_init []) =
    (Inr (status_running ''core'' 0), snd (sup_start sample_spec (supervisor_init []))) \<and>
    os_child (sv_os (snd (sup_start sample_spec (supervisor_init [])))) 0 = Alive sample_spec"
  by (simp add: sup_start_def sup_status_def supervisor_init_def bt_get_def os_spawn_def os_fault_def Let_def sample_spec_def
      child_id_def)

theorem one_process_per_name_witness:
  "sup_reach (snd (sup_start sample_spec (supervisor_init []))) \<and>
   bt_get (sv_children (snd (sup_start sample_spec (supervisor_init [])))) ''core'' = Some 0"
proof -
  have r: "sup_reach (snd (sup_start sample_spec (supervisor_init [])))" by (intro sup_reach.intros)
  from one_process_per_name [OF r conjunct2 [OF sample_started]] r show ?thesis by (simp add: sample_spec_def)
qed

lemma reload_leaves_running_witness:
  "\<exists>st s' mst m'. sup_reload sample_spec (supervisor_init []) = (Ok st, s') \<and> is_running st \<and>
     mem_reload sample_spec \<lparr>ms_starts = [], ms_stops = [], ms_statuses = []\<rparr> = (Ok mst, m') \<and> is_running mst"
proof -
  have i: "sup_invar (supervisor_init [])"
    by (simp add: sup_invar_def supervisor_init_def bt_invar_def statuses_named_def bt_get_def)
  have s: "\<exists>st s'. sup_reload sample_spec (supervisor_init []) = (Ok st, s')"
    by (simp add: sup_reload_def sup_stop_def sup_start_def sup_status_def supervisor_init_def bt_get_def os_spawn_def
        os_fault_def Let_def set_status_def sample_spec_def)
  have m: "\<exists>st s'. mem_reload sample_spec \<lparr>ms_starts = [], ms_stops = [], ms_statuses = []\<rparr> = (Ok st, s')"
    by (simp add: mem_reload_def mem_stop_def mem_start_def Let_def)
  from s m reload_leaves_running [OF i] show ?thesis by blast
qed

definition sample_core_plan :: core_plan where
  "sample_core_plan = \<lparr>cp_kind = KeliCoreRs, cp_config_path = ''/c/config.json'', cp_listen_tags = [], cp_inbounds = [],
     cp_dns = dns_options_default\<rparr>"

definition no_files :: file_store where
  "no_files = \<lparr>fs_files = (\<lambda>_. None), fs_faults = []\<rparr>"

lemma sample_paths:
  "path_parent ''/c/config.json'' = Some ''/c''" "path_parent ''/c/config.control.token'' = Some ''/c''"
  "with_extension ''/c/config.json'' ''control.token'' = ''/c/config.control.token''"
  by code_simp+

lemma core_and_client_agree_witness:
  "\<exists>spec fs' client. core_process_spec (Ok [1, 2]) None sample_core_plan None no_files = (Ok spec, fs') \<and>
     keli_core_rs_control_client (Err []) None ''/c/config.json'' fs' = (Ok client, fs') \<and> ccl_token client \<noteq> None"
proof -
  have a: "absolute_process_path None ''/c/config.json'' = ''/c/config.json''" by code_simp
  have s: "\<exists>spec fs'. core_process_spec (Ok [1, 2]) None sample_core_plan None no_files = (Ok spec, fs') \<and> fs_faults fs' = []"
    by (simp add: core_process_spec_def Let_def sample_core_plan_def a default_core_command_def core_process_args_def
        core_process_env_def sample_paths keli_core_rs_control_token_def keli_core_rs_control_token_path_def
        fs_read_to_string_def fs_read_def next_fault_def no_files_def create_control_token_def
        generate_keli_core_rs_control_token_def fs_create_dir_all_def fs_write_def set_file_def
        secure_keli_core_rs_control_token_file_def fs_set_permissions_def)
  then obtain spec fs' where c: "core_process_spec (Ok [1, 2]) None sample_core_plan None no_files = (Ok spec, fs')"
    "fs_faults fs' = []" by blast
  have "\<exists>client. keli_core_rs_control_client (Err []) None (cp_config_path sample_core_plan) fs' = (Ok client, fs') \<and>
      ccl_token client \<noteq> None"
    using core_and_client_agree [OF c, of "Err []"] by (simp add: absolute_cwd_def sample_core_plan_def a sample_paths) blast
  with c(1) show ?thesis by (auto simp: sample_core_plan_def)
qed

end
