(* ===== verification/Runtime.thy ===== *)
theory Runtime
  imports Core_Validate Rust_Path Machine Realtime Port_Forward Node_Manager
begin

text \<open>
  The bootstrap plan (\<open>src/src/runtime.rs\<close>): resolving the configuration with the machine profiles
  of the panels, building the core plan, dropping nodes whose listeners collide, and the derived port
  forwarding and realtime options. The panel is an explicit state \<open>'l\<close> with one function per request;
  the parameters \<open>dbg\<close> (the \<open>{:?}\<close> text of a string), \<open>ops\<close> (\<open>url::Url\<close>) and \<open>allow\<close> (the canary
  environment variable) are those of the theories this one composes.
\<close>

section \<open>Data\<close>

datatype runtime_mode = DirectNode | MachineBinding | Invalid

record runtime_bootstrap =
  rb_mode :: runtime_mode
  rb_node_count :: nat
  rb_machine_profile_count :: nat

record runtime_bootstrap_plan =
  rbp_bootstrap :: runtime_bootstrap
  rbp_resolved :: resolved_config
  rbp_node_count :: nat
  rbp_node_infos :: "node_info list"
  rbp_node_failures :: "node_failure list"
  rbp_core_plan :: "core_plan option"
  rbp_realtime_options :: "realtime_options list"
  rbp_hy2_port_forward :: hysteria_port_forward_status
  rbp_mieru_port_forward :: hysteria_port_forward_status
  rbp_subscription_proxy_only :: bool

record runtime_listener_spec =
  rls_tag :: string
  rls_protocol :: string
  rls_network :: string
  rls_listen :: string
  rls_port :: u16

definition node_config_default :: node_config where
  "node_config_default =
     \<lparr>nc_url = [], nc_token = [], nc_node_id = 0, nc_machine_id = 0, nc_timeout = 0, nc_config_dir = []\<rparr>"

section \<open>Bootstrap\<close>

definition bootstrap_from_resolved :: "resolved_config \<Rightarrow> runtime_bootstrap" where
  "bootstrap_from_resolved resolved =
     \<lparr>rb_mode = (if rm_enabled (rc_machine resolved) then MachineBinding
        else if rc_nodes resolved \<noteq> [] then DirectNode else Invalid),
      rb_node_count = length (rc_nodes resolved),
      rb_machine_profile_count = length (rm_profiles (rc_machine resolved))\<rparr>"

definition bootstrap_from_app_config :: "app_config \<Rightarrow> runtime_bootstrap" where
  "bootstrap_from_app_config config =
     (case resolve_runtime config of
        Inl _ \<Rightarrow> \<lparr>rb_mode = Invalid, rb_node_count = 0, rb_machine_profile_count = 0\<rparr>
      | Inr resolved \<Rightarrow> bootstrap_from_resolved resolved)"

section \<open>Merging the machine profiles\<close>

definition runtime_merge_subscription_proxy ::
  "subscription_proxy_config \<Rightarrow> subscription_proxy_config \<Rightarrow> subscription_proxy_config" where
  "runtime_merge_subscription_proxy target source =
     (if \<not> sp_enabled source then target
      else if \<not> sp_enabled target then source
      else target\<lparr>sp_https_listen := fill_if_empty (sp_https_listen target) (sp_https_listen source),
        sp_http_listen := fill_if_empty (sp_http_listen target) (sp_http_listen source),
        sp_cert_file := fill_if_empty (sp_cert_file target) (sp_cert_file source),
        sp_key_file := fill_if_empty (sp_key_file target) (sp_key_file source),
        sp_certificate_domain := fill_if_empty (sp_certificate_domain target) (sp_certificate_domain source),
        sp_challenge_dir := fill_if_empty (sp_challenge_dir target) (sp_challenge_dir source),
        sp_zerossl := merge_subscription_proxy_zerossl (sp_zerossl target) (sp_zerossl source),
        sp_site_id := fill_if_empty (sp_site_id target) (sp_site_id source),
        sp_upstream_base_url := fill_if_empty (sp_upstream_base_url target) (sp_upstream_base_url source),
        sp_subscribe_path := fill_if_empty (sp_subscribe_path target) (sp_subscribe_path source),
        sp_max_response_bytes := (if sp_max_response_bytes target = 0 then sp_max_response_bytes source
          else sp_max_response_bytes target),
        sp_allow_http_fallback := (if \<not> sp_allow_http_fallback target then sp_allow_http_fallback source
          else sp_allow_http_fallback target),
        sp_profiles := push_profiles (sp_profiles target) (sp_profiles source)\<rparr>)"

definition merge_agent_config :: "agent_config \<Rightarrow> agent_config \<Rightarrow> agent_config" where
  "merge_agent_config target source =
     target\<lparr>subscription_proxy := runtime_merge_subscription_proxy (subscription_proxy target) (subscription_proxy source)\<rparr>"

definition apply_machine_summary :: "resolved_config \<Rightarrow> machine_resolve_summary \<Rightarrow> resolved_config" where
  "apply_machine_summary resolved summary =
     resolved\<lparr>rc_nodes := rc_nodes resolved @ sum_nodes summary,
       rc_agent := merge_agent_config (rc_agent resolved) (sum_agent summary)\<rparr>"

fun fetch_profiles_loop ::
  "('l \<Rightarrow> machine_profile_config \<Rightarrow> machine_nodes_response result \<times> 'l) \<Rightarrow> machine_profile_config list \<Rightarrow> 'l \<Rightarrow>
   machine_profile_input list \<times> 'l" where
  "fetch_profiles_loop fetch [] l = ([], l)"
| "fetch_profiles_loop fetch (profile # profiles) l =
     (let (r, l1) = fetch l profile; (inputs, l2) = fetch_profiles_loop fetch profiles l1
      in (\<lparr>mpi_profile = profile, mpi_result = r\<rparr> # inputs, l2))"

definition resolve_machine_profiles_from_panel ::
  "('l \<Rightarrow> machine_profile_config \<Rightarrow> machine_nodes_response result \<times> 'l) \<Rightarrow> machine_profile_config list \<Rightarrow> bool \<Rightarrow> 'l \<Rightarrow>
   machine_resolve_summary result \<times> 'l" where
  "resolve_machine_profiles_from_panel fetch profiles continue_on_error l =
     (let (inputs, l') = fetch_profiles_loop fetch profiles l in (resolve_machine_profiles inputs continue_on_error, l'))"

definition resolve_runtime_with_machine_profiles ::
  "('l \<Rightarrow> machine_profile_config \<Rightarrow> machine_nodes_response result \<times> 'l) \<Rightarrow> app_config \<Rightarrow> 'l \<Rightarrow>
   resolved_config result \<times> 'l" where
  "resolve_runtime_with_machine_profiles fetch config l =
     (case resolve_runtime config of
        Inl e \<Rightarrow> (Err e, l)
      | Inr resolved \<Rightarrow>
          if rm_profiles (rc_machine resolved) = [] then (Ok resolved, l)
          else let (r, l') = resolve_machine_profiles_from_panel fetch (rm_profiles (rc_machine resolved))
                     (rm_continue_on_error (rc_machine resolved)) l
               in (map_ok (apply_machine_summary resolved) r, l'))"

section \<open>Listeners\<close>

definition node_config_for_info :: "resolved_config \<Rightarrow> u32 \<Rightarrow> string \<Rightarrow> node_config option" where
  "node_config_for_info resolved node_id tag =
     (case find (\<lambda>config. nc_node_id config = node_id \<and>
              prefix (''['' @ trim_end_matches is_slash (nc_url config) @ '']'') tag) (rc_nodes resolved) of
        Some config \<Rightarrow> Some config
      | None \<Rightarrow>
          (case filter (\<lambda>config. nc_node_id config = node_id) (rc_nodes resolved) of
             [first] \<Rightarrow> Some first
           | _ \<Rightarrow> None))"

definition normalize_runtime_listen :: "string \<Rightarrow> string" where
  "normalize_runtime_listen v =
     trim_end_matches (\<lambda>c. c = CHR '']'') (trim_start_matches (\<lambda>c. c = CHR ''['') (trim v))"

definition is_wildcard_listen :: "string \<Rightarrow> bool" where
  "is_wildcard_listen v \<longleftrightarrow> normalize_runtime_listen v \<in> set [[], ''0.0.0.0'', ''::'']"

definition runtime_listens_conflict :: "string \<Rightarrow> string \<Rightarrow> bool" where
  "runtime_listens_conflict left right \<longleftrightarrow> left = right \<or> is_wildcard_listen left \<or> is_wildcard_listen right"

definition runtime_listener_specs_conflict :: "runtime_listener_spec \<Rightarrow> runtime_listener_spec \<Rightarrow> bool" where
  "runtime_listener_specs_conflict existing next_spec \<longleftrightarrow>
     rls_network existing = rls_network next_spec \<and> rls_port existing = rls_port next_spec \<and>
     runtime_listens_conflict (rls_listen existing) (rls_listen next_spec)"

definition inbound_binds_tcp :: "inbound_plan \<Rightarrow> bool" where
  "inbound_binds_tcp inbound \<longleftrightarrow> ib_protocol inbound \<in>
     set [''socks'', ''http'', ''vless'', ''vmess'', ''trojan'', ''shadowsocks'', ''anytls'', ''mieru'', ''naive'']"

definition inbound_binds_udp :: "inbound_plan \<Rightarrow> bool" where
  "inbound_binds_udp inbound \<longleftrightarrow> ib_protocol inbound \<in> set [''hysteria'', ''hysteria2'', ''tuic''] \<or>
     (ib_protocol inbound = ''shadowsocks'' \<and> sublist ''udp'' (ib_network inbound))"

definition listener_spec :: "inbound_plan \<Rightarrow> string \<Rightarrow> runtime_listener_spec" where
  "listener_spec inbound network =
     \<lparr>rls_tag = ib_tag inbound, rls_protocol = ib_protocol inbound, rls_network = network,
      rls_listen = normalize_runtime_listen (ib_listen inbound), rls_port = ib_port inbound\<rparr>"

definition runtime_listener_specs :: "inbound_plan \<Rightarrow> runtime_listener_spec list" where
  "runtime_listener_specs inbound =
     (if inbound_binds_tcp inbound then [listener_spec inbound ''tcp''] else []) @
     (if inbound_binds_udp inbound then [listener_spec inbound ''udp''] else [])"

definition conflict_error :: "runtime_listener_spec \<Rightarrow> runtime_listener_spec \<Rightarrow> string" where
  "conflict_error spec existing =
     ''duplicate '' @ rls_network spec @ '' listen '' @ rls_listen spec @ '':'' @ nat_to_string (unat (rls_port spec)) @
     '' for inbound '' @ rls_tag spec @ '' ('' @ rls_protocol spec @ '') conflicts with '' @ rls_tag existing @ '' ('' @
     rls_protocol existing @ ''); change one node server port or listen address''"

text \<open>The specs of one inbound, added to \<open>seen\<close> up to the first that conflicts.\<close>

fun inbound_conflict ::
  "runtime_listener_spec list \<Rightarrow> runtime_listener_spec list \<Rightarrow> string option \<times> runtime_listener_spec list" where
  "inbound_conflict [] seen = (None, seen)"
| "inbound_conflict (spec # specs) seen =
     (case find (\<lambda>existing. runtime_listener_specs_conflict existing spec) seen of
        Some existing \<Rightarrow> (Some (conflict_error spec existing), seen)
      | None \<Rightarrow> inbound_conflict specs (seen @ [spec]))"

definition conflict_failure :: "resolved_config \<Rightarrow> node_info list \<Rightarrow> string \<Rightarrow> string \<Rightarrow> node_failure list" where
  "conflict_failure resolved infos tag error =
     (case find (\<lambda>node. ni_tag node = tag) infos of
        None \<Rightarrow> []
      | Some node \<Rightarrow>
          [\<lparr>nf_config = unwrap_or (node_config_default\<lparr>nc_node_id := ni_id node\<rparr>)
              (node_config_for_info resolved (ni_id node) (ni_tag node)),
            nf_error = error\<rparr>])"

fun conflict_loop ::
  "resolved_config \<Rightarrow> node_info list \<Rightarrow> inbound_plan list \<Rightarrow> runtime_listener_spec list \<Rightarrow> string btset \<Rightarrow>
   node_failure list \<Rightarrow> (string btset \<times> node_failure list) result" where
  "conflict_loop resolved infos [] seen skipped failures = Ok (skipped, failures)"
| "conflict_loop resolved infos (inbound # inbounds) seen skipped failures =
     (case inbound_conflict (runtime_listener_specs inbound) seen of
        (None, seen') \<Rightarrow> conflict_loop resolved infos inbounds seen' skipped failures
      | (Some error, seen') \<Rightarrow>
          if \<not> rm_continue_on_error (rc_machine resolved) then Err error
          else conflict_loop resolved infos inbounds seen' (bs_insert (ib_tag inbound) skipped)
                 (failures @ conflict_failure resolved infos (ib_tag inbound) error))"

definition retain_listeners :: "string btset \<Rightarrow> core_plan \<Rightarrow> core_plan" where
  "retain_listeners skipped plan =
     plan\<lparr>cp_inbounds := filter (\<lambda>inbound. \<not> bs_contains skipped (ib_tag inbound)) (cp_inbounds plan),
       cp_listen_tags := filter (\<lambda>tag. \<not> bs_contains skipped tag) (cp_listen_tags plan)\<rparr>"

definition filter_conflicting_runtime_listeners ::
  "resolved_config \<Rightarrow> node_info list \<Rightarrow> node_failure list \<Rightarrow> core_plan_bundle \<Rightarrow>
   (node_info list \<times> node_failure list \<times> core_plan_bundle) result" where
  "filter_conflicting_runtime_listeners resolved infos failures0 core_bundle =
     (case cpb_core core_bundle of
        None \<Rightarrow> Ok (infos, failures0, core_bundle)
      | Some core_plan \<Rightarrow>
          and_then (conflict_loop resolved infos (cp_inbounds core_plan) [] [] failures0) (\<lambda>(skipped, failures).
            if skipped = [] then Ok (infos, failures, core_bundle)
            else let plan = retain_listeners skipped core_plan
                 in Ok (filter (\<lambda>node. \<not> bs_contains skipped (ni_tag node)) infos, failures,
                      core_bundle\<lparr>cpb_core := if cp_inbounds plan = [] then None else Some plan\<rparr>)))"

section \<open>The plan\<close>

definition core_config_path :: "resolved_config \<Rightarrow> string" where
  "core_config_path resolved = path_push (kernel_config_dir (rc_kernel resolved)) ''config.json''"

definition runtime_apply_kernel_dns_options :: "resolved_config \<Rightarrow> core_plan_bundle \<Rightarrow> core_plan_bundle" where
  "runtime_apply_kernel_dns_options resolved b =
     b\<lparr>cpb_core := map_option (apply_kernel_dns_options (rc_kernel resolved)) (cpb_core b)\<rparr>"

definition resolve_realtime_options_for_nodes ::
  "'u url_ops \<Rightarrow> resolved_config \<Rightarrow> node_info list \<Rightarrow> realtime_options list" where
  "resolve_realtime_options_for_nodes ops resolved infos =
     List.map_filter (\<lambda>node. Option.bind (node_config_for_info resolved (ni_id node) (ni_tag node))
       (\<lambda>config. resolve_realtime_options ops (rc_realtime resolved) config node)) infos"

definition runtime_core_bundle ::
  "string option \<Rightarrow> resolved_config \<Rightarrow> node_info list \<Rightarrow> (string, user_info list) btmap \<Rightarrow> core_plan_bundle result" where
  "runtime_core_bundle allow resolved infos users =
     (if infos = [] then Ok \<lparr>cpb_core = None\<rparr>
      else and_then (core_kind_from_name (kernel_type (rc_kernel resolved))) (\<lambda>kind.
        split_core_plans_for_nodes_with_kind allow kind (core_config_path resolved) infos users))"

definition build_runtime_bootstrap_plan_with_users ::
  "(string \<Rightarrow> string) \<Rightarrow> 'u url_ops \<Rightarrow> string option \<Rightarrow> resolved_config \<Rightarrow> node_info list \<Rightarrow> node_failure list \<Rightarrow>
   (string, user_info list) btmap \<Rightarrow> runtime_bootstrap_plan result" where
  "build_runtime_bootstrap_plan_with_users dbg ops allow resolved infos0 failures0 users =
     and_then (runtime_core_bundle allow resolved infos0 users) (\<lambda>core_bundle.
     and_then (filter_conflicting_runtime_listeners resolved infos0 failures0
         (runtime_apply_kernel_dns_options resolved core_bundle)) (\<lambda>(infos, failures, core_bundle').
       let (hy2_rules, hy2_errors) = build_hysteria_port_forward_rules dbg infos
       in Ok \<lparr>rbp_bootstrap = bootstrap_from_resolved resolved, rbp_resolved = resolved,
            rbp_node_count = length infos, rbp_node_infos = infos, rbp_node_failures = failures,
            rbp_core_plan = cpb_core core_bundle',
            rbp_realtime_options = resolve_realtime_options_for_nodes ops resolved infos,
            rbp_hy2_port_forward = new_hysteria_port_forward_status hy2_rules hy2_errors False,
            rbp_mieru_port_forward = new_mieru_port_forward_status dbg infos False,
            rbp_subscription_proxy_only = (infos0 = [] \<and> sp_enabled (subscription_proxy (rc_agent resolved)))\<rparr>))"

definition build_runtime_bootstrap_plan ::
  "(string \<Rightarrow> string) \<Rightarrow> 'u url_ops \<Rightarrow> string option \<Rightarrow> resolved_config \<Rightarrow> node_info list \<Rightarrow> node_failure list \<Rightarrow>
   runtime_bootstrap_plan result" where
  "build_runtime_bootstrap_plan dbg ops allow resolved infos failures =
     build_runtime_bootstrap_plan_with_users dbg ops allow resolved infos failures []"

definition rebuild_runtime_plan_with_users ::
  "(string \<Rightarrow> string) \<Rightarrow> 'u url_ops \<Rightarrow> string option \<Rightarrow> runtime_bootstrap_plan \<Rightarrow> (string, user_info list) btmap \<Rightarrow>
   runtime_bootstrap_plan result" where
  "rebuild_runtime_plan_with_users dbg ops allow plan users =
     build_runtime_bootstrap_plan_with_users dbg ops allow (rbp_resolved plan) (rbp_node_infos plan) (rbp_node_failures plan) users"

section \<open>Starting from the configuration\<close>

text \<open>
  A panel answers three requests: the nodes of a machine profile, the settings of a node, and the
  users of a node. \<open>build_from_panel\<close> runs the loop of \<open>build_with_loader\<close> over the second;
  \<open>load_user_sets_from_panel\<close> is the loop below: an error in making the client is passed on as it is,
  one of the request names the node, and an unchanged list (\<open>None\<close>) is an empty one.
\<close>

datatype panel_failure = ClientFailure string | RequestFailure string

record 'l panel =
  panel_nodes :: "'l \<Rightarrow> machine_profile_config \<Rightarrow> machine_nodes_response result \<times> 'l"
  panel_node_info :: "'l \<Rightarrow> node_config \<Rightarrow> node_info option result \<times> 'l"
  panel_user_list :: "'l \<Rightarrow> node_config \<Rightarrow> (panel_failure + user_info list option) \<times> 'l"

fun load_user_sets_from_panel ::
  "'l panel \<Rightarrow> node_runtime list \<Rightarrow> 'l \<Rightarrow> node_user_set list result \<times> 'l" where
  "load_user_sets_from_panel p [] l = (Ok [], l)"
| "load_user_sets_from_panel p (runtime # runtimes) l =
     (case panel_user_list p l (nr_config runtime) of
        (Inl (ClientFailure e), l1) \<Rightarrow> (Err e, l1)
      | (Inl (RequestFailure e), l1) \<Rightarrow> (Err (format_node_error ''get user list'' (nr_config runtime) e), l1)
      | (Inr users, l1) \<Rightarrow>
          (let (r, l2) = load_user_sets_from_panel p runtimes l1
           in (map_ok (\<lambda>sets. node_user_set_of (nr_config runtime) (nr_info runtime) (unwrap_or [] users) # sets) r, l2)))"

definition build_node_manager_from_config ::
  "'l panel \<Rightarrow> app_config \<Rightarrow> 'l \<Rightarrow> (resolved_config \<times> node_manager) result \<times> 'l" where
  "build_node_manager_from_config p config l =
     (case resolve_runtime_with_machine_profiles (panel_nodes p) config l of
        (Inl e, l1) \<Rightarrow> (Err e, l1)
      | (Inr resolved, l1) \<Rightarrow>
          (let (r, l2) = build_with_loader (panel_node_info p) (rc_nodes resolved) (rc_realtime resolved)
                 \<lparr>nmo_continue_on_error = rm_continue_on_error (rc_machine resolved)\<rparr> l1
           in (map_ok (\<lambda>manager. (resolved, manager)) r, l2)))"

definition bootstrap_from_config ::
  "(string \<Rightarrow> string) \<Rightarrow> 'u url_ops \<Rightarrow> string option \<Rightarrow> 'l panel \<Rightarrow> app_config \<Rightarrow> 'l \<Rightarrow> runtime_bootstrap_plan result \<times> 'l" where
  "bootstrap_from_config dbg ops allow p config l =
     (let (r, l') = build_node_manager_from_config p config l
      in (and_then r (\<lambda>(resolved, manager).
            build_runtime_bootstrap_plan dbg ops allow resolved (node_infos manager) (nm_failures manager)), l'))"

definition bootstrap_from_config_with_users ::
  "(string \<Rightarrow> string) \<Rightarrow> 'u url_ops \<Rightarrow> string option \<Rightarrow> 'l panel \<Rightarrow> app_config \<Rightarrow> 'l \<Rightarrow> runtime_bootstrap_plan result \<times> 'l" where
  "bootstrap_from_config_with_users dbg ops allow p config l =
     (case build_node_manager_from_config p config l of
        (Inl e, l1) \<Rightarrow> (Err e, l1)
      | (Inr (resolved, manager), l1) \<Rightarrow>
          (let (r, l2) = load_user_sets_from_panel p (nm_runtimes manager) l1
           in (and_then r (\<lambda>sets. build_runtime_bootstrap_plan_with_users dbg ops allow resolved (node_infos manager)
                 (nm_failures manager) (users_by_node_tag sets)), l2)))"

section \<open>Conflicts\<close>

abbreviation specs_disjoint :: "runtime_listener_spec list \<Rightarrow> runtime_listener_spec list \<Rightarrow> bool" where
  "specs_disjoint xs ys \<equiv> \<forall>x \<in> set xs. \<forall>y \<in> set ys. \<not> runtime_listener_specs_conflict x y"

text \<open>No two inbounds at different places of a list ask for the same socket.\<close>

definition listeners_disjoint :: "inbound_plan list \<Rightarrow> bool" where
  "listeners_disjoint inbounds \<longleftrightarrow>
     sorted_wrt (\<lambda>a b. specs_disjoint (runtime_listener_specs a) (runtime_listener_specs b)) inbounds"

text \<open>
  The sockets an inbound takes: a network, a port and an address, where an unspecified address takes
  the port on every address.
\<close>

definition listen_addresses :: "string \<Rightarrow> string set" where
  "listen_addresses listen = (if normalize_runtime_listen listen \<in> {[], ''0.0.0.0'', ''::''} then UNIV else {listen})"

definition sockets :: "inbound_plan \<Rightarrow> (string \<times> u16 \<times> string) set" where
  "sockets inbound = (\<Union>spec \<in> set (runtime_listener_specs inbound). {rls_network spec} \<times> {rls_port spec} \<times> listen_addresses (rls_listen spec))"

lemma listens_conflict_addresses: "runtime_listens_conflict a b \<longleftrightarrow> listen_addresses a \<inter> listen_addresses b \<noteq> {}"
  by (auto simp: runtime_listens_conflict_def is_wildcard_listen_def listen_addresses_def)

lemma listeners_disjoint_sockets:
  "listeners_disjoint inbounds \<longleftrightarrow> sorted_wrt (\<lambda>a b. sockets a \<inter> sockets b = {}) inbounds"
proof -
  have "specs_disjoint (runtime_listener_specs a) (runtime_listener_specs b) \<longleftrightarrow> sockets a \<inter> sockets b = {}" for a b
    unfolding runtime_listener_specs_conflict_def listens_conflict_addresses sockets_def by fastforce
  then show ?thesis by (simp add: listeners_disjoint_def)
qed

lemma specs_networks: "sorted_wrt (\<lambda>x y. \<not> runtime_listener_specs_conflict x y) (runtime_listener_specs inbound)"
  by (simp add: runtime_listener_specs_def listener_spec_def runtime_listener_specs_conflict_def)

lemma inbound_conflict_None:
  "inbound_conflict specs seen = (None, seen') \<Longrightarrow> seen' = seen @ specs \<and> specs_disjoint seen specs"
proof (induction specs arbitrary: seen)
  case (Cons spec specs)
  then have "find (\<lambda>existing. runtime_listener_specs_conflict existing spec) seen = None"
    "inbound_conflict specs (seen @ [spec]) = (None, seen')" by (auto split: option.splits)
  with Cons.IH [of "seen @ [spec]"] show ?case by (auto simp: find_None_iff)
qed simp

lemma inbound_conflict_Some:
  "inbound_conflict specs seen = (Some e, seen') \<Longrightarrow> set seen \<subseteq> set seen' \<and> seen' \<noteq> seen @ specs"
proof (induction specs arbitrary: seen)
  case (Cons spec specs)
  show ?case
  proof (cases "find (\<lambda>existing. runtime_listener_specs_conflict existing spec) seen")
    case None
    with Cons.prems have "inbound_conflict specs (seen @ [spec]) = (Some e, seen')" by simp
    from Cons.IH [OF this] show ?thesis by auto
  qed (use Cons.prems in auto)
qed simp

lemma inbound_conflict_disjoint:
  "specs_disjoint seen specs \<Longrightarrow> sorted_wrt (\<lambda>x y. \<not> runtime_listener_specs_conflict x y) specs \<Longrightarrow>
     inbound_conflict specs seen = (None, seen @ specs)"
proof (induction specs arbitrary: seen)
  case (Cons spec specs)
  then have "find (\<lambda>existing. runtime_listener_specs_conflict existing spec) seen = None" by (auto simp: find_None_iff)
  with Cons show ?case by auto
qed simp

lemma conflict_loop_kept:
  assumes "conflict_loop resolved infos inbounds seen skipped failures = Inr (skipped', failures')"
  shows "set skipped \<subseteq> set skipped' \<and>
    (\<forall>inbound \<in> set inbounds. ib_tag inbound \<notin> set skipped' \<longrightarrow> specs_disjoint seen (runtime_listener_specs inbound)) \<and>
    listeners_disjoint (filter (\<lambda>inbound. ib_tag inbound \<notin> set skipped') inbounds) \<and>
    set skipped' \<subseteq> set skipped \<union> ib_tag ` set inbounds"
  using assms
proof (induction inbounds arbitrary: seen skipped failures)
  case (Cons inbound inbounds)
  obtain c seen1 where c: "inbound_conflict (runtime_listener_specs inbound) seen = (c, seen1)" by fastforce
  show ?case
  proof (cases c)
    case None
    with Cons.prems c have "conflict_loop resolved infos inbounds seen1 skipped failures = Inr (skipped', failures')" by simp
    note ih = Cons.IH [OF this]
    from inbound_conflict_None [OF c [unfolded None]] have "seen1 = seen @ runtime_listener_specs inbound"
      "specs_disjoint seen (runtime_listener_specs inbound)" by auto
    with ih show ?thesis by (auto simp: listeners_disjoint_def)
  next
    case (Some e)
    with Cons.prems c have "conflict_loop resolved infos inbounds seen1 (bs_insert (ib_tag inbound) skipped)
        (failures @ conflict_failure resolved infos (ib_tag inbound) e) = Inr (skipped', failures')"
      by (auto split: if_splits)
    note ih = Cons.IH [OF this]
    from inbound_conflict_Some [OF c [unfolded Some]] have "set seen \<subseteq> set seen1" by blast
    with ih show ?thesis by (auto simp: listeners_disjoint_def)
  qed
qed (simp add: listeners_disjoint_def)

lemma conflict_loop_disjoint:
  assumes "listeners_disjoint inbounds" "\<forall>inbound \<in> set inbounds. specs_disjoint seen (runtime_listener_specs inbound)"
  shows "conflict_loop resolved infos inbounds seen skipped failures = Inr (skipped, failures)"
  using assms
proof (induction inbounds arbitrary: seen)
  case (Cons inbound inbounds)
  have "inbound_conflict (runtime_listener_specs inbound) seen = (None, seen @ runtime_listener_specs inbound)"
    using Cons.prems(2) by (intro inbound_conflict_disjoint specs_networks) simp
  moreover have "conflict_loop resolved infos inbounds (seen @ runtime_listener_specs inbound) skipped failures = Inr (skipped, failures)"
    using Cons.prems by (intro Cons.IH) (auto simp: listeners_disjoint_def)
  ultimately show ?case by simp
qed simp

lemma conflict_loop_strict:
  assumes "\<not> rm_continue_on_error (rc_machine resolved)"
    "conflict_loop resolved infos inbounds seen skipped failures = Inr (skipped', failures')"
  shows "skipped' = skipped \<and> failures' = failures"
  using assms(2)
proof (induction inbounds arbitrary: seen)
  case (Cons inbound inbounds)
  obtain c seen1 where c: "inbound_conflict (runtime_listener_specs inbound) seen = (c, seen1)" by fastforce
  with Cons assms(1) show ?case by (cases c) auto
qed simp

section \<open>The core plan of the nodes\<close>

text \<open>What the core plan of a list of supported nodes is.\<close>

definition node_core ::
  "resolved_config \<Rightarrow> (string, user_info list) btmap \<Rightarrow> core_kind \<Rightarrow> node_info list \<Rightarrow> core_plan_bundle" where
  "node_core resolved users kind nodes = \<lparr>cpb_core = (if nodes = [] then None else Some (apply_kernel_dns_options (rc_kernel resolved)
     \<lparr>cp_kind = kind, cp_config_path = core_config_path resolved, cp_listen_tags = map ni_tag nodes,
      cp_inbounds = map (node_inbound users) nodes, cp_dns = dns_options_default\<rparr>))\<rparr>"

lemma node_core_inbounds:
  "cpb_core (node_core resolved users kind nodes) = Some core \<Longrightarrow>
     cp_inbounds core = map (node_inbound users) nodes \<and> cp_listen_tags core = map ni_tag nodes \<and>
     cp_config_path core = core_config_path resolved"
  by (auto simp: node_core_def apply_kernel_dns_options_def split: if_splits)

definition nodes_ready :: "string option \<Rightarrow> resolved_config \<Rightarrow> (string, user_info list) btmap \<Rightarrow> core_kind \<Rightarrow> node_info list \<Rightarrow> bool" where
  "nodes_ready allow resolved users kind infos \<longleftrightarrow>
     (infos = [] \<or> core_kind_from_name (kernel_type (rc_kernel resolved)) = Inr kind) \<and>
     (\<forall>node \<in> set (eligible_nodes users infos).
        node_supported_by_keli_core_rs allow (core_config_path resolved) node users = Inr ())"

lemma nodes_ready_filter: "nodes_ready allow resolved users kind infos \<Longrightarrow> nodes_ready allow resolved users kind (filter P infos)"
  by (auto simp: nodes_ready_def)

lemma nodes_ready_tags:
  assumes "nodes_ready allow resolved users kind infos" "node \<in> set (eligible_nodes users infos)"
  shows "ib_tag (node_inbound users node) = ni_tag node"
    "validate_keli_core_rs_inbound allow (node_inbound users node) = Inr ()"
  using assms split_core_plans_eq(2) by (auto simp: nodes_ready_def)

lemma core_bundle_ready:
  assumes "nodes_ready allow resolved users kind infos"
  shows "\<exists>b. runtime_core_bundle allow resolved infos users = Inr b \<and>
    runtime_apply_kernel_dns_options resolved b = node_core resolved users kind (eligible_nodes users infos)"
proof (cases "infos = []")
  case False
  with assms split_core_plans_eq(1) [where kind = kind and path = "core_config_path resolved" and users = users and nodes = infos
      and allow = allow] show ?thesis
    by (simp add: runtime_core_bundle_def nodes_ready_def node_core_def runtime_apply_kernel_dns_options_def)
qed (simp add: runtime_core_bundle_def node_core_def runtime_apply_kernel_dns_options_def)

lemma core_bundle_Inr:
  assumes "runtime_core_bundle allow resolved infos users = Inr b"
  shows "\<exists>kind. nodes_ready allow resolved users kind infos"
proof (cases "infos = []")
  case False
  with assms obtain kind where "core_kind_from_name (kernel_type (rc_kernel resolved)) = Inr kind"
    "split_core_plans_for_nodes_with_kind allow kind (core_config_path resolved) infos users = Inr b"
    by (auto simp: runtime_core_bundle_def and_then_Inr)
  with split_core_plans_supported show ?thesis unfolding nodes_ready_def by blast
qed (simp add: nodes_ready_def)

lemma retain_node_core:
  assumes "nodes \<noteq> []" "cpb_core (node_core resolved users kind nodes) = Some core"
    "\<forall>node \<in> set nodes. ib_tag (node_inbound users node) = ni_tag node"
  shows "(if cp_inbounds (retain_listeners skipped core) = [] then None else Some (retain_listeners skipped core)) =
      cpb_core (node_core resolved users kind (filter (\<lambda>node. ni_tag node \<notin> set skipped) nodes))"
    "filter (\<lambda>inbound. ib_tag inbound \<notin> set skipped) (cp_inbounds core) =
      map (node_inbound users) (filter (\<lambda>node. ni_tag node \<notin> set skipped) nodes)"
proof -
  have f: "filter (\<lambda>inbound. ib_tag inbound \<notin> set skipped) (map (node_inbound users) nodes) =
      map (node_inbound users) (filter (\<lambda>node. ni_tag node \<notin> set skipped) nodes)"
    using assms(3) by (induction nodes) auto
  have "filter (\<lambda>tag. tag \<notin> set skipped) (map ni_tag nodes) = map ni_tag (filter (\<lambda>node. ni_tag node \<notin> set skipped) nodes)"
    by (simp add: filter_map comp_def)
  with f assms(1,2) show "(if cp_inbounds (retain_listeners skipped core) = [] then None else Some (retain_listeners skipped core)) =
      cpb_core (node_core resolved users kind (filter (\<lambda>node. ni_tag node \<notin> set skipped) nodes))"
    by (auto simp: node_core_def apply_kernel_dns_options_def retain_listeners_def bs_contains_def)
  show "filter (\<lambda>inbound. ib_tag inbound \<notin> set skipped) (cp_inbounds core) =
      map (node_inbound users) (filter (\<lambda>node. ni_tag node \<notin> set skipped) nodes)"
    using f node_core_inbounds [OF assms(2)] by simp
qed

lemma filter_listeners_node_core:
  assumes "filter_conflicting_runtime_listeners resolved infos failures (node_core resolved users kind nodes) = Inr (infos', failures', b)"
    "\<forall>node \<in> set nodes. ib_tag (node_inbound users node) = ni_tag node"
  shows "\<exists>skipped. infos' = filter (\<lambda>node. ni_tag node \<notin> set skipped) infos \<and>
    b = node_core resolved users kind (filter (\<lambda>node. ni_tag node \<notin> set skipped) nodes) \<and>
    listeners_disjoint (map (node_inbound users) (filter (\<lambda>node. ni_tag node \<notin> set skipped) nodes)) \<and>
    set skipped \<subseteq> ni_tag ` set nodes"
proof (cases "nodes = []")
  case True
  with assms(1) show ?thesis
    by (intro exI [of _ "[]"]) (auto simp: filter_conflicting_runtime_listeners_def node_core_def listeners_disjoint_def)
next
  case False
  then obtain core where core: "cpb_core (node_core resolved users kind nodes) = Some core" by (simp add: node_core_def)
  with assms(1) obtain skipped where
    loop: "conflict_loop resolved infos (cp_inbounds core) [] [] failures = Inr (skipped, failures')"
    and res: "if skipped = [] then infos' = infos \<and> b = node_core resolved users kind nodes
      else infos' = filter (\<lambda>node. ni_tag node \<notin> set skipped) infos \<and>
        b = (node_core resolved users kind nodes)\<lparr>cpb_core :=
          if cp_inbounds (retain_listeners skipped core) = [] then None else Some (retain_listeners skipped core)\<rparr>"
    by (auto simp: filter_conflicting_runtime_listeners_def and_then_Inr Let_def bs_contains_def split: if_splits)
  note retain = retain_node_core [OF False core assms(2), of skipped]
  have "b = node_core resolved users kind (filter (\<lambda>node. ni_tag node \<notin> set skipped) nodes)"
    using res retain(1) by (cases "skipped = []") (simp_all add: node_core_def)
  moreover have "infos' = filter (\<lambda>node. ni_tag node \<notin> set skipped) infos" using res by (cases "skipped = []") simp_all
  moreover have "set skipped \<subseteq> ni_tag ` set nodes"
    using conflict_loop_kept [OF loop] node_core_inbounds [OF core] assms(2) by (auto simp: image_image)
  ultimately show ?thesis using conflict_loop_kept [OF loop] retain(2) by auto
qed

lemma filter_listeners_stable:
  assumes "listeners_disjoint (map (node_inbound users) nodes)"
  shows "filter_conflicting_runtime_listeners resolved infos failures (node_core resolved users kind nodes) =
    Inr (infos, failures, node_core resolved users kind nodes)"
proof (cases "cpb_core (node_core resolved users kind nodes)")
  case (Some core)
  have "conflict_loop resolved infos (cp_inbounds core) [] [] failures = Inr ([], failures)"
    using assms node_core_inbounds [OF Some] by (intro conflict_loop_disjoint) simp_all
  with Some show ?thesis by (simp add: filter_conflicting_runtime_listeners_def)
qed (simp add: filter_conflicting_runtime_listeners_def)

section \<open>Properties\<close>

lemma build_runtime_Inr:
  assumes "build_runtime_bootstrap_plan_with_users dbg ops allow resolved infos failures users = Inr plan"
  shows "\<exists>kind nodes. nodes_ready allow resolved users kind (rbp_node_infos plan) \<and>
    nodes = eligible_nodes users (rbp_node_infos plan) \<and>
    rbp_core_plan plan = cpb_core (node_core resolved users kind nodes) \<and> listeners_disjoint (map (node_inbound users) nodes) \<and>
    set (rbp_node_infos plan) \<subseteq> set infos"
proof -
  obtain b where b: "runtime_core_bundle allow resolved infos users = Inr b"
    using assms by (auto simp: build_runtime_bootstrap_plan_with_users_def and_then_Inr)
  from core_bundle_Inr [OF b] obtain kind where ready: "nodes_ready allow resolved users kind infos" by blast
  with b core_bundle_ready [OF ready]
  have dns: "runtime_apply_kernel_dns_options resolved b = node_core resolved users kind (eligible_nodes users infos)" by auto
  from assms b dns obtain infos' failures' b' where f: "filter_conflicting_runtime_listeners resolved infos failures
      (node_core resolved users kind (eligible_nodes users infos)) = Inr (infos', failures', b')"
    and plan: "rbp_node_infos plan = infos'" "rbp_core_plan plan = cpb_core b'"
    by (auto simp: build_runtime_bootstrap_plan_with_users_def and_then_Inr split_beta)
  from filter_listeners_node_core [OF f] nodes_ready_tags(1) [OF ready] obtain skipped where
    k: "infos' = filter (\<lambda>node. ni_tag node \<notin> set skipped) infos"
    "b' = node_core resolved users kind (filter (\<lambda>node. ni_tag node \<notin> set skipped) (eligible_nodes users infos))"
    "listeners_disjoint (map (node_inbound users) (filter (\<lambda>node. ni_tag node \<notin> set skipped) (eligible_nodes users infos)))"
    by blast
  moreover have "filter (\<lambda>node. ni_tag node \<notin> set skipped) (eligible_nodes users infos) = eligible_nodes users infos'"
    using k(1) by (auto intro: filter_cong)
  ultimately show ?thesis using plan nodes_ready_filter [OF ready] by auto
qed

text \<open>
  C6: Whatever the panel sent, the core plan of an accepted bootstrap plan can be started: no two of
  its inbounds ask for the same socket (a wildcard address takes the port on every address), every
  inbound passed validation and belongs to a node the plan keeps, the listen tags are those of the
  inbounds, and the nodes kept are among those that were asked for.
\<close>

theorem runtime_plan_startable:
  assumes "build_runtime_bootstrap_plan_with_users dbg ops allow resolved infos failures users = Ok plan"
    "rbp_core_plan plan = Some core"
  shows "sorted_wrt (\<lambda>a b. sockets a \<inter> sockets b = {}) (cp_inbounds core) \<and>
    (\<forall>inbound \<in> set (cp_inbounds core). validate_keli_core_rs_inbound allow inbound = Ok () \<and>
       ib_tag inbound \<in> ni_tag ` set (rbp_node_infos plan)) \<and>
    cp_listen_tags core = map ib_tag (cp_inbounds core) \<and> cp_config_path core = core_config_path resolved \<and>
    set (rbp_node_infos plan) \<subseteq> set infos"
proof -
  obtain kind where k: "nodes_ready allow resolved users kind (rbp_node_infos plan)"
    "rbp_core_plan plan = cpb_core (node_core resolved users kind (eligible_nodes users (rbp_node_infos plan)))"
    "listeners_disjoint (map (node_inbound users) (eligible_nodes users (rbp_node_infos plan)))"
    "set (rbp_node_infos plan) \<subseteq> set infos"
    using build_runtime_Inr [OF assms(1)] by blast
  have core: "cp_inbounds core = map (node_inbound users) (eligible_nodes users (rbp_node_infos plan)) \<and>
      cp_listen_tags core = map ni_tag (eligible_nodes users (rbp_node_infos plan)) \<and> cp_config_path core = core_config_path resolved"
    by (rule node_core_inbounds [OF k(2) [symmetric, unfolded assms(2)]])
  have tags: "map (ib_tag \<circ> node_inbound users) ns = map ni_tag ns" if "set ns \<subseteq> set (eligible_nodes users (rbp_node_infos plan))" for ns
    using that nodes_ready_tags(1) [OF k(1)] by (simp add: subset_iff)
  have "validate_keli_core_rs_inbound allow inbound = Ok () \<and> ib_tag inbound \<in> ni_tag ` set (rbp_node_infos plan)"
    if "inbound \<in> set (cp_inbounds core)" for inbound
  proof -
    from that core obtain node where "node \<in> set (eligible_nodes users (rbp_node_infos plan))" "inbound = node_inbound users node"
      by (simp only: list.set_map) blast
    with nodes_ready_tags [OF k(1)] show ?thesis by auto
  qed
  moreover have "cp_listen_tags core = map ib_tag (cp_inbounds core)"
    using core tags [OF subset_refl] by (simp only: map_map)
  moreover have "sorted_wrt (\<lambda>a b. sockets a \<inter> sockets b = {}) (cp_inbounds core)"
    using core k(3) by (simp only: flip: listeners_disjoint_sockets)
  moreover have "cp_config_path core = core_config_path resolved" using core by (simp only:)
  ultimately show ?thesis using k(4) by blast
qed

lemma build_runtime_ready:
  assumes "nodes_ready allow resolved users kind infos" "listeners_disjoint (map (node_inbound users) (eligible_nodes users infos))"
  shows "build_runtime_bootstrap_plan_with_users dbg ops allow resolved infos failures users =
    Inr \<lparr>rbp_bootstrap = bootstrap_from_resolved resolved, rbp_resolved = resolved, rbp_node_count = length infos,
      rbp_node_infos = infos, rbp_node_failures = failures,
      rbp_core_plan = cpb_core (node_core resolved users kind (eligible_nodes users infos)),
      rbp_realtime_options = resolve_realtime_options_for_nodes ops resolved infos,
      rbp_hy2_port_forward = new_hysteria_port_forward_status (fst (build_hysteria_port_forward_rules dbg infos))
        (snd (build_hysteria_port_forward_rules dbg infos)) False,
      rbp_mieru_port_forward = new_mieru_port_forward_status dbg infos False,
      rbp_subscription_proxy_only = (infos = [] \<and> sp_enabled (subscription_proxy (rc_agent resolved)))\<rparr>"
proof -
  obtain b where "runtime_core_bundle allow resolved infos users = Inr b"
    "runtime_apply_kernel_dns_options resolved b = node_core resolved users kind (eligible_nodes users infos)"
    using core_bundle_ready [OF assms(1)] by blast
  with filter_listeners_stable [OF assms(2)] show ?thesis
    by (simp add: build_runtime_bootstrap_plan_with_users_def split_beta)
qed

lemma build_runtime_fields:
  assumes "build_runtime_bootstrap_plan_with_users dbg ops allow resolved infos failures users = Inr plan"
  shows "rbp_bootstrap plan = bootstrap_from_resolved resolved" "rbp_resolved plan = resolved"
    "rbp_node_count plan = length (rbp_node_infos plan)"
    "rbp_realtime_options plan = resolve_realtime_options_for_nodes ops resolved (rbp_node_infos plan)"
    "rbp_hy2_port_forward plan = new_hysteria_port_forward_status (fst (build_hysteria_port_forward_rules dbg (rbp_node_infos plan)))
        (snd (build_hysteria_port_forward_rules dbg (rbp_node_infos plan))) False"
    "rbp_mieru_port_forward plan = new_mieru_port_forward_status dbg (rbp_node_infos plan) False"
  using assms by (auto simp: build_runtime_bootstrap_plan_with_users_def and_then_Inr split_beta)

text \<open>
  Rebuilding a plan with the users it was built with changes nothing: the same core plan, nodes,
  failures, realtime options and port forwarding. Only the flag of a proxy-only run is decided anew,
  from the nodes that are left.
\<close>

lemma rebuild_runtime_plan_stable:
  assumes "build_runtime_bootstrap_plan_with_users dbg ops allow resolved infos failures users = Ok plan"
  shows "rebuild_runtime_plan_with_users dbg ops allow plan users =
    Ok (plan\<lparr>rbp_subscription_proxy_only :=
      (rbp_node_infos plan = [] \<and> sp_enabled (subscription_proxy (rc_agent resolved)))\<rparr>)"
proof -
  obtain kind where k: "nodes_ready allow resolved users kind (rbp_node_infos plan)"
    "rbp_core_plan plan = cpb_core (node_core resolved users kind (eligible_nodes users (rbp_node_infos plan)))"
    "listeners_disjoint (map (node_inbound users) (eligible_nodes users (rbp_node_infos plan)))"
    using build_runtime_Inr [OF assms] by blast
  note fields = build_runtime_fields [OF assms]
  show ?thesis
    unfolding rebuild_runtime_plan_with_users_def fields(2) build_runtime_ready [OF k(1,3)]
    using fields k(2) by (cases plan) simp
qed

text \<open>
  A node that is asked for twice, in the local configuration and by a machine profile, say, collides
  with itself. Both copies have one tag and nodes are dropped by tag, so the node is lost altogether.
\<close>

lemma duplicate_node_lost:
  assumes "nodes_ready allow resolved users kind [node]" "\<not> waits_for_users users node"
    "runtime_listener_specs (node_inbound users node) \<noteq> []" "rm_continue_on_error (rc_machine resolved)"
  shows "\<exists>plan. build_runtime_bootstrap_plan_with_users dbg ops allow resolved [node, node] failures users = Inr plan \<and>
    rbp_node_infos plan = [] \<and> rbp_core_plan plan = None"
proof -
  let ?i = "node_inbound users node"
  have ready: "nodes_ready allow resolved users kind [node, node]" using assms(1) by (simp add: nodes_ready_def)
  have tag: "ib_tag ?i = ni_tag node" using nodes_ready_tags(1) [OF assms(1)] assms(2) by simp
  obtain b where b: "runtime_core_bundle allow resolved [node, node] users = Inr b"
    "runtime_apply_kernel_dns_options resolved b = node_core resolved users kind [node, node]"
    using core_bundle_ready [OF ready] assms(2) by auto
  obtain core where core: "cpb_core (node_core resolved users kind [node, node]) = Some core" by (simp add: node_core_def)
  have first: "inbound_conflict (runtime_listener_specs ?i) [] = (None, runtime_listener_specs ?i)"
    using inbound_conflict_disjoint [OF _ specs_networks, of "[]"] by simp
  obtain spec specs where s: "runtime_listener_specs ?i = spec # specs" using assms(3) by (cases "runtime_listener_specs ?i") auto
  have "runtime_listener_specs_conflict spec spec" by (simp add: runtime_listener_specs_conflict_def runtime_listens_conflict_def)
  then obtain e where second: "inbound_conflict (runtime_listener_specs ?i) (runtime_listener_specs ?i) =
      (Some e, runtime_listener_specs ?i)" using s by auto
  have loop: "conflict_loop resolved [node, node] (cp_inbounds core) [] [] failures =
      Inr ([ni_tag node], failures @ conflict_failure resolved [node, node] (ni_tag node) e)"
    using node_core_inbounds [OF core] first second assms(4) tag by simp
  have "cp_inbounds (retain_listeners [ni_tag node] core) = []"
    using node_core_inbounds [OF core] tag by (simp add: retain_listeners_def bs_contains_def)
  with loop core b show ?thesis
    by (simp add: build_runtime_bootstrap_plan_with_users_def filter_conflicting_runtime_listeners_def bs_contains_def split_beta)
qed

section \<open>Witnesses\<close>

definition sample_resolved :: resolved_config where
  "sample_resolved =
     \<lparr>rc_kernel = kernel_config_default,
      rc_realtime = \<lparr>rt_enabled = False, rt_url = [], rt_ping_interval = 0, rt_reconnect_interval = 0\<rparr>,
      rc_machine = \<lparr>rm_enabled = False, rm_continue_on_error = True, rm_profiles = []\<rparr>,
      rc_agent = agent_default, rc_nodes = [sample_node_config ''https://p'' 7]\<rparr>"

lemma sample_nodes_ready: "nodes_ready None sample_resolved [] KeliCoreRs [sample_tls_node]"
  and sample_node_waits: "\<not> waits_for_users [] sample_tls_node"
proof -
  have "core_kind_from_name (kernel_type (rc_kernel sample_resolved)) = Inr KeliCoreRs" by code_simp
  moreover have "node_supported_by_keli_core_rs None (core_config_path sample_resolved) sample_tls_node [] = Inr ()" by code_simp
  ultimately show "nodes_ready None sample_resolved [] KeliCoreRs [sample_tls_node]" by (simp add: nodes_ready_def)
  show "\<not> waits_for_users [] sample_tls_node" by code_simp
qed

lemma sample_plan_built:
  "\<exists>plan core. build_runtime_bootstrap_plan_with_users id text_urls None sample_resolved [sample_tls_node] [] [] = Inr plan \<and>
     rbp_core_plan plan = Some core \<and> length (cp_inbounds core) = 1"
  using sample_node_waits
  by (simp add: build_runtime_ready [OF sample_nodes_ready] listeners_disjoint_def node_core_def apply_kernel_dns_options_def)

theorem runtime_plan_startable_witness:
  "\<exists>plan core. build_runtime_bootstrap_plan_with_users id text_urls None sample_resolved [sample_tls_node] [] [] = Ok plan \<and>
     rbp_core_plan plan = Some core \<and> cp_listen_tags core = map ib_tag (cp_inbounds core) \<and> length (cp_inbounds core) = 1"
  using sample_plan_built runtime_plan_startable by metis

lemma rebuild_runtime_plan_stable_witness:
  "\<exists>plan. build_runtime_bootstrap_plan_with_users id text_urls None sample_resolved [sample_tls_node] [] [] = Ok plan \<and>
     is_ok (rebuild_runtime_plan_with_users id text_urls None plan [])"
  using sample_plan_built rebuild_runtime_plan_stable is_ok.simps(2) by metis

end
