(* ===== verification/Report.thy ===== *)
theory Report
  imports Runtime Process Ip_Addr
begin

text \<open>
  Traffic reporting (\<open>src/src/report.rs\<close>): draining the counters of the core, the spool file that
  keeps what could not be reported, the merge into one snapshot per node, and the reports to the
  panels. The core's control connection and the panels are parameters with an explicit state; the
  JSON of the spool is a codec parameter. Counters are \<open>u64\<close>; the panel counts in \<open>i64\<close>, an \<open>int\<close> here
  with the saturation written out.
\<close>

section \<open>Data\<close>

record traffic_record =
  tr_node_tag :: string
  tr_user_uuid :: string
  tr_user_id :: "u64 option"
  tr_upload :: u64
  tr_download :: u64
  tr_online_ips :: "string list"

record online_record =
  or_node_tag :: string
  or_user_id :: u64
  or_ip :: string

record device_limit_snapshot =
  dls_node_tag :: string
  dls_alive :: "(u32, u32) btmap"
  dls_alive_ips :: "(u32, string list) btmap"
  dls_mode :: u32

record alive_map =
  am_alive :: "(u32, u32) btmap"
  am_alive_ips :: "(u32, string list) btmap"
  am_mode :: u32

record user_traffic =
  ut_uid :: u32
  ut_upload :: int
  ut_download :: int

record activity_snapshot =
  as_traffic :: "user_traffic list"
  as_online :: "(u32, string list) btmap"

record activity_report =
  ar_skipped :: bool
  ar_unified :: bool
  ar_legacy_traffic :: bool
  ar_legacy_online :: bool

record activity_failure =
  af_tag :: string
  af_error :: string

record activity_batch =
  ab_reported :: nat
  ab_skipped :: nat
  ab_failures :: "activity_failure list"

type_synonym user_id_lookup = "(string, (string, u32) btmap) btmap"

definition snapshot_default :: activity_snapshot where
  "snapshot_default = \<lparr>as_traffic = [], as_online = []\<rparr>"

definition report_default :: activity_report where
  "report_default = \<lparr>ar_skipped = False, ar_unified = False, ar_legacy_traffic = False, ar_legacy_online = False\<rparr>"

definition batch_default :: activity_batch where
  "batch_default = \<lparr>ab_reported = 0, ab_skipped = 0, ab_failures = []\<rparr>"

definition snapshot_is_empty :: "activity_snapshot \<Rightarrow> bool" where
  "snapshot_is_empty snapshot \<longleftrightarrow> as_traffic snapshot = [] \<and> as_online snapshot = []"

section \<open>Snapshots\<close>

definition i64_max :: int where
  "i64_max = 2 ^ 63 - 1"

definition i64_min :: int where
  "i64_min = - (2 ^ 63)"

definition i64_saturating_add :: "int \<Rightarrow> int \<Rightarrow> int" where
  "i64_saturating_add a b = max i64_min (min i64_max (a + b))"

definition u64_to_i64 :: "u64 \<Rightarrow> int" where
  "u64_to_i64 v = (if uint v \<le> i64_max then uint v else i64_max)"

fun find_map :: "('a \<Rightarrow> 'b option) \<Rightarrow> 'a list \<Rightarrow> 'b option" where
  "find_map f [] = None"
| "find_map f (x # xs) = (case f x of Some y \<Rightarrow> Some y | None \<Rightarrow> find_map f xs)"

definition normalize_keli_core_record_tag :: "string \<Rightarrow> string \<Rightarrow> string option" where
  "normalize_keli_core_record_tag record_tag inbound_tag =
     (if record_tag = inbound_tag then Some inbound_tag
      else case strip_prefix inbound_tag record_tag of
             None \<Rightarrow> None
           | Some rest \<Rightarrow>
               (case strip_prefix ''|port:'' rest of
                  None \<Rightarrow> None
                | Some port \<Rightarrow> if port \<noteq> [] \<and> list_all is_ascii_digit port then Some inbound_tag else None))"

definition record_user :: "user_id_lookup \<Rightarrow> inbound_plan \<Rightarrow> string \<Rightarrow> traffic_record \<Rightarrow> u32 option" where
  "record_user user_lookup inbound ntag r =
     or_else (Option.bind (tr_user_id r) (\<lambda>v. if unat v < 2 ^ 32 then Some (ucast v) else None))
       (or_else (Option.bind (bt_get user_lookup ntag) (\<lambda>users. bt_get users (tr_user_uuid r)))
         (map_option iu_id (find (\<lambda>user. iu_uuid user = tr_user_uuid r) (ib_users inbound))))"

definition keli_core_record_report_target ::
  "core_plan \<Rightarrow> traffic_record \<Rightarrow> user_id_lookup \<Rightarrow> (string \<times> u32) option" where
  "keli_core_record_report_target core_plan r user_lookup =
     find_map (\<lambda>inbound. Option.bind (normalize_keli_core_record_tag (tr_node_tag r) (ib_tag inbound)) (\<lambda>ntag.
       map_option (\<lambda>uid. (ntag, uid)) (record_user user_lookup inbound ntag r))) (cp_inbounds core_plan)"

definition keli_core_record_report_tag :: "core_plan \<Rightarrow> traffic_record \<Rightarrow> string option" where
  "keli_core_record_report_tag core_plan r =
     find_map (\<lambda>inbound. normalize_keli_core_record_tag (tr_node_tag r) (ib_tag inbound)) (cp_inbounds core_plan)"

fun merge_user_traffic :: "user_traffic list \<Rightarrow> u32 \<Rightarrow> int \<Rightarrow> int \<Rightarrow> user_traffic list" where
  "merge_user_traffic [] uid upload download = [\<lparr>ut_uid = uid, ut_upload = upload, ut_download = download\<rparr>]"
| "merge_user_traffic (item # traffic) uid upload download =
     (if ut_uid item = uid
      then item\<lparr>ut_upload := i64_saturating_add (ut_upload item) upload,
             ut_download := i64_saturating_add (ut_download item) download\<rparr> # traffic
      else item # merge_user_traffic traffic uid upload download)"

definition push_new_ip :: "string \<Rightarrow> string list \<Rightarrow> string list" where
  "push_new_ip ip entry = (if ip \<in> set entry then entry else entry @ [ip])"

definition merge_online_ips :: "(u32, string list) btmap \<Rightarrow> u32 \<Rightarrow> string list \<Rightarrow> (u32, string list) btmap" where
  "merge_online_ips online uid ips =
     (if ips = [] then online
      else bt_insert uid (sort (fold push_new_ip ips (unwrap_or [] (bt_get online uid)))) online)"

definition add_record ::
  "core_plan \<Rightarrow> user_id_lookup \<Rightarrow> traffic_record \<Rightarrow> (string, activity_snapshot) btmap \<Rightarrow> (string, activity_snapshot) btmap" where
  "add_record core_plan user_lookup r snapshots =
     (case keli_core_record_report_target core_plan r user_lookup of
        None \<Rightarrow> snapshots
      | Some (ntag, uid) \<Rightarrow>
          (let snapshot = unwrap_or snapshot_default (bt_get snapshots ntag)
           in bt_insert ntag
                \<lparr>as_traffic = merge_user_traffic (as_traffic snapshot) uid (u64_to_i64 (tr_upload r)) (u64_to_i64 (tr_download r)),
                 as_online = merge_online_ips (as_online snapshot) uid (tr_online_ips r)\<rparr> snapshots))"

definition keli_core_traffic_snapshots_with_user_lookup ::
  "core_plan \<Rightarrow> traffic_record list \<Rightarrow> user_id_lookup \<Rightarrow> (string, activity_snapshot) btmap" where
  "keli_core_traffic_snapshots_with_user_lookup core_plan records user_lookup = fold (add_record core_plan user_lookup) records []"

definition keli_core_traffic_snapshots :: "core_plan \<Rightarrow> traffic_record list \<Rightarrow> (string, activity_snapshot) btmap" where
  "keli_core_traffic_snapshots core_plan records = keli_core_traffic_snapshots_with_user_lookup core_plan records []"

definition failed_keli_core_records :: "core_plan \<Rightarrow> traffic_record list \<Rightarrow> activity_batch \<Rightarrow> traffic_record list" where
  "failed_keli_core_records core_plan records batch =
     (if ab_failures batch = [] then []
      else
        let failed_tags = bs_collect (map af_tag (ab_failures batch))
        in filter (\<lambda>r. case keli_core_record_report_tag core_plan r of Some tag \<Rightarrow> bs_contains failed_tags tag | None \<Rightarrow> False) records)"

fun append_unique_keli_core_records ::
  "traffic_record list \<Rightarrow> traffic_record list \<Rightarrow> traffic_record list \<times> traffic_record list" where
  "append_unique_keli_core_records records [] = (records, [])"
| "append_unique_keli_core_records records (r # drained) =
     (if r \<in> set records then append_unique_keli_core_records records drained
      else let (records', appended) = append_unique_keli_core_records (records @ [r]) drained in (records', r # appended))"

section \<open>Reports\<close>

record 's activity_sender =
  snd_snapshot :: "user_traffic list \<Rightarrow> (u32, string list) btmap \<Rightarrow> 's \<Rightarrow> bool result \<times> 's"
  snd_user_traffic :: "user_traffic list \<Rightarrow> 's \<Rightarrow> unit result \<times> 's"
  snd_online_users :: "(u32, string list) btmap \<Rightarrow> 's \<Rightarrow> unit result \<times> 's"

definition report_legacy :: "'s activity_sender \<Rightarrow> activity_snapshot \<Rightarrow> 's \<Rightarrow> activity_report result \<times> 's" where
  "report_legacy sender snapshot s =
     io_then (if as_traffic snapshot = [] then (Ok report_default, s)
         else io_then (snd_user_traffic sender (as_traffic snapshot) s) (\<lambda>_ s. (Ok (report_default\<lparr>ar_legacy_traffic := True\<rparr>), s)))
       (\<lambda>report s.
         if as_online snapshot = [] then (Ok report, s)
         else io_then (snd_online_users sender (as_online snapshot) s) (\<lambda>_ s. (Ok (report\<lparr>ar_legacy_online := True\<rparr>), s)))"

definition report_activity_with_fallback ::
  "'s activity_sender \<Rightarrow> activity_snapshot \<Rightarrow> 's \<Rightarrow> activity_report result \<times> 's" where
  "report_activity_with_fallback sender snapshot s =
     (if snapshot_is_empty snapshot then (Ok (report_default\<lparr>ar_skipped := True\<rparr>), s)
      else io_then (snd_snapshot sender (as_traffic snapshot) (as_online snapshot) s) (\<lambda>unified s.
        if unified then (Ok (report_default\<lparr>ar_unified := True\<rparr>), s) else report_legacy sender snapshot s))"

text \<open>A panel: making a client for a node may fail, then its reports are those of a sender.\<close>

record 'p activity_panel =
  ap_client :: "node_config \<Rightarrow> 'p \<Rightarrow> unit result \<times> 'p"
  ap_sender :: "node_config \<Rightarrow> 'p activity_sender"
  ap_alive_list :: "node_config \<Rightarrow> 'p \<Rightarrow> alive_map result \<times> 'p"

definition report_activity_to_panel ::
  "'p activity_panel \<Rightarrow> node_config \<Rightarrow> activity_snapshot \<Rightarrow> 'p \<Rightarrow> activity_report result \<times> 'p" where
  "report_activity_to_panel panel config snapshot p =
     (if snapshot_is_empty snapshot then (Ok (report_default\<lparr>ar_skipped := True\<rparr>), p)
      else io_then (ap_client panel config p) (\<lambda>_ p.
        report_activity_with_fallback (ap_sender panel config) snapshot p))"

fun activity_batch_loop ::
  "(node_activity_target \<Rightarrow> activity_snapshot \<Rightarrow> 'p \<Rightarrow> activity_report result \<times> 'p) \<Rightarrow> (string, activity_snapshot) btmap \<Rightarrow>
   node_activity_target list \<Rightarrow> activity_batch \<Rightarrow> 'p \<Rightarrow> activity_batch \<times> 'p" where
  "activity_batch_loop report_one snapshots [] batch p = (batch, p)"
| "activity_batch_loop report_one snapshots (target # targets) batch p =
     (case bt_get snapshots (nat_tag target) of
        None \<Rightarrow> activity_batch_loop report_one snapshots targets (batch\<lparr>ab_skipped := ab_skipped batch + 1\<rparr>) p
      | Some snapshot \<Rightarrow>
          (case report_one target snapshot p of
             (Inr report, p') \<Rightarrow>
               activity_batch_loop report_one snapshots targets
                 (if ar_skipped report then batch\<lparr>ab_skipped := ab_skipped batch + 1\<rparr>
                  else batch\<lparr>ab_reported := ab_reported batch + 1\<rparr>) p'
           | (Inl error, p') \<Rightarrow>
               activity_batch_loop report_one snapshots targets
                 (batch\<lparr>ab_failures := ab_failures batch @ [\<lparr>af_tag = nat_tag target, af_error = error\<rparr>]\<rparr>) p'))"

definition report_activity_batch_with ::
  "(node_activity_target \<Rightarrow> activity_snapshot \<Rightarrow> 'p \<Rightarrow> activity_report result \<times> 'p) \<Rightarrow> node_activity_target list \<Rightarrow>
   (string, activity_snapshot) btmap \<Rightarrow> 'p \<Rightarrow> activity_batch \<times> 'p" where
  "report_activity_batch_with report_one targets snapshots p = activity_batch_loop report_one snapshots targets batch_default p"

definition report_activity_batch_to_panel ::
  "'p activity_panel \<Rightarrow> node_activity_target list \<Rightarrow> (string, activity_snapshot) btmap \<Rightarrow> 'p \<Rightarrow> activity_batch \<times> 'p" where
  "report_activity_batch_to_panel panel targets snapshots p =
     activity_batch_loop (\<lambda>target. report_activity_to_panel panel (nat_config target)) snapshots targets batch_default p"

definition runtime_activity_targets :: "runtime_bootstrap_plan \<Rightarrow> node_activity_target list" where
  "runtime_activity_targets plan =
     List.map_filter (\<lambda>node. map_option (\<lambda>config. \<lparr>nat_tag = ni_tag node, nat_config = config\<rparr>)
       (node_config_for_info (rbp_resolved plan) (ni_id node) (ni_tag node))) (rbp_node_infos plan)"

definition minimum_report_bytes :: "runtime_bootstrap_plan \<Rightarrow> nat" where
  "minimum_report_bytes plan =
     fold max (List.map_filter (\<lambda>node. map_option node_report_min_traffic (cn_base_config (ni_common node))) (rbp_node_infos plan)) 0"

section \<open>Device limits\<close>

definition device_limit_snapshot_target_tags :: "core_plan \<Rightarrow> string \<Rightarrow> string list" where
  "device_limit_snapshot_target_tags core_plan ntag =
     (let exact = map (\<lambda>_. ntag) (filter (\<lambda>inbound. ib_tag inbound = ntag) (cp_inbounds core_plan));
          expanded = map ib_tag (filter (\<lambda>inbound. ib_tag inbound \<noteq> ntag \<and> prefix (ntag @ ''|port:'') (ib_tag inbound))
            (cp_inbounds core_plan))
      in exact @ expanded)"

definition is_ip :: "string \<Rightarrow> bool" where
  "is_ip ip \<longleftrightarrow> parse_ip_addr ip \<noteq> None"

definition device_limit_snapshots_for_alive_map ::
  "core_plan \<Rightarrow> string \<Rightarrow> alive_map \<Rightarrow> device_limit_snapshot list" where
  "device_limit_snapshots_for_alive_map core_plan ntag alive =
     map (\<lambda>target_tag.
       \<lparr>dls_node_tag = target_tag, dls_alive = am_alive alive,
        dls_alive_ips = List.map_filter (\<lambda>(user_id, ips).
          let ips = filter is_ip ips in if ips = [] then None else Some (user_id, ips)) (am_alive_ips alive),
        dls_mode = am_mode alive\<rparr>) (device_limit_snapshot_target_tags core_plan ntag)"

definition snapshot_online_records :: "string \<Rightarrow> activity_snapshot \<Rightarrow> online_record list" where
  "snapshot_online_records target_tag snapshot =
     concat (map (\<lambda>(user_id, ips).
       map (\<lambda>ip. \<lparr>or_node_tag = target_tag, or_user_id = ucast user_id, or_ip = ip\<rparr>) (filter is_ip ips)) (as_online snapshot))"

definition device_limit_online_records_from_successful_snapshots ::
  "core_plan \<Rightarrow> (string, activity_snapshot) btmap \<Rightarrow> activity_batch \<Rightarrow> online_record list" where
  "device_limit_online_records_from_successful_snapshots core_plan snapshots batch =
     (let failed_tags = bs_collect (map af_tag (ab_failures batch))
      in concat (map (\<lambda>(ntag, snapshot).
           if bs_contains failed_tags ntag then []
           else concat (map (\<lambda>target_tag. snapshot_online_records target_tag snapshot)
             (device_limit_snapshot_target_tags core_plan ntag))) snapshots))"

section \<open>The spool\<close>

record spool_codec =
  spool_encode :: "traffic_record list \<Rightarrow> string result"
  spool_decode :: "string \<Rightarrow> traffic_record list result"

definition keli_core_traffic_spool_path :: "string \<Rightarrow> string" where
  "keli_core_traffic_spool_path config_path = with_extension config_path ''traffic.pending.json''"

definition traffic_spool_tmp_path :: "string \<Rightarrow> string" where
  "traffic_spool_tmp_path path =
     (case file_name path of None \<Rightarrow> with_extension path ''tmp'' | Some name \<Rightarrow> with_file_name path (name @ ''.tmp''))"

definition load_pending_keli_core_traffic ::
  "spool_codec \<Rightarrow> string \<Rightarrow> file_store \<Rightarrow> traffic_record list result \<times> file_store" where
  "load_pending_keli_core_traffic codec path fs =
     (case fs_read path fs of
        (Inr content, fs') \<Rightarrow>
          (if content = [] then Ok []
           else case spool_decode codec content of
                  Inl e \<Rightarrow> Err (''decode pending traffic '' @ path @ '': '' @ e)
                | Inr records \<Rightarrow> Ok records, fs')
      | (Inl NotFound, fs') \<Rightarrow> (Ok [], fs')
      | (Inl (IoError e), fs') \<Rightarrow> (Err (''read pending traffic '' @ path @ '': '' @ e), fs'))"

definition ensure_spool_dir :: "string \<Rightarrow> file_store \<Rightarrow> unit result \<times> file_store" where
  "ensure_spool_dir path fs =
     (case path_parent path of
        None \<Rightarrow> (Ok (), fs)
      | Some parent \<Rightarrow> io_map_err (\<lambda>e. ''create pending traffic dir '' @ parent @ '': '' @ io_error_text e)
          (fs_create_dir_all parent fs))"

definition remove_spool :: "string \<Rightarrow> file_store \<Rightarrow> unit result \<times> file_store" where
  "remove_spool path fs =
     (case fs_remove_file path fs of
        (Inr _, fs') \<Rightarrow> (Ok (), fs')
      | (Inl NotFound, fs') \<Rightarrow> (Ok (), fs')
      | (Inl (IoError e), fs') \<Rightarrow> (Err (''remove pending traffic '' @ path @ '': '' @ e), fs'))"

definition replace_spool :: "string \<Rightarrow> string \<Rightarrow> file_store \<Rightarrow> unit result \<times> file_store" where
  "replace_spool path content fs =
     (let tmp = traffic_spool_tmp_path path
      in io_then (io_map_err (\<lambda>e. ''write pending traffic '' @ tmp @ '': '' @ io_error_text e) (fs_write tmp content fs)) (\<lambda>_ fs.
         io_map_err (\<lambda>e. ''replace pending traffic '' @ path @ '': '' @ io_error_text e) (fs_rename tmp path fs)))"

definition save_pending_keli_core_traffic ::
  "spool_codec \<Rightarrow> string \<Rightarrow> traffic_record list \<Rightarrow> file_store \<Rightarrow> unit result \<times> file_store" where
  "save_pending_keli_core_traffic codec path records fs =
     (if records = [] then remove_spool path fs
      else
        io_then (ensure_spool_dir path fs) (\<lambda>_ fs.
          case spool_encode codec records of
            Inl e \<Rightarrow> (Err (''encode pending traffic '' @ path @ '': '' @ e), fs)
          | Inr content \<Rightarrow> replace_spool path content fs))"

section \<open>One reporting round\<close>

record 'k core_control =
  cc_drain :: "control_client \<Rightarrow> u64 \<Rightarrow> 'k \<Rightarrow> traffic_record list result \<times> 'k"
  cc_requeue :: "control_client \<Rightarrow> traffic_record list \<Rightarrow> 'k \<Rightarrow> nat result \<times> 'k"
  cc_commit :: "control_client \<Rightarrow> online_record list \<Rightarrow> 'k \<Rightarrow> nat result \<times> 'k"
  cc_apply_snapshot :: "control_client \<Rightarrow> device_limit_snapshot \<Rightarrow> 'k \<Rightarrow> unit result \<times> 'k"

record ('k, 'p) report_world =
  w_files :: file_store
  w_core :: 'k
  w_panel :: 'p

record ('k, 'p) report_env =
  re_random :: "u8 list result"
  re_cwd :: "string option"
  re_codec :: spool_codec
  re_core :: "'k core_control"
  re_panel :: "'p activity_panel"

definition on_files :: "(file_store \<Rightarrow> 'a \<times> file_store) \<Rightarrow> ('k, 'p) report_world \<Rightarrow> 'a \<times> ('k, 'p) report_world" where
  "on_files f w = (let (r, fs) = f (w_files w) in (r, w\<lparr>w_files := fs\<rparr>))"

definition on_core :: "('k \<Rightarrow> 'a \<times> 'k) \<Rightarrow> ('k, 'p) report_world \<Rightarrow> 'a \<times> ('k, 'p) report_world" where
  "on_core f w = (let (r, k) = f (w_core w) in (r, w\<lparr>w_core := k\<rparr>))"

definition on_panel :: "('p \<Rightarrow> 'a \<times> 'p) \<Rightarrow> ('k, 'p) report_world \<Rightarrow> 'a \<times> ('k, 'p) report_world" where
  "on_panel f w = (let (r, p) = f (w_panel w) in (r, w\<lparr>w_panel := p\<rparr>))"

definition save_pending_or_requeue_drained ::
  "('k, 'p) report_env \<Rightarrow> control_client \<Rightarrow> string \<Rightarrow> traffic_record list \<Rightarrow> traffic_record list \<Rightarrow> ('k, 'p) report_world \<Rightarrow>
   unit result \<times> ('k, 'p) report_world" where
  "save_pending_or_requeue_drained env client spool_path records drained w =
     (case on_files (save_pending_keli_core_traffic (re_codec env) spool_path records) w of
        (Inr u, w') \<Rightarrow> (Ok (), w')
      | (Inl e, w') \<Rightarrow>
          (Err e, if drained = [] then w' else snd (on_core (cc_requeue (re_core env) client drained) w')))"

text \<open>The part after the records are safe: reports, device limits, and what is left for next time.\<close>

definition report_records ::
  "('k, 'p) report_env \<Rightarrow> control_client \<Rightarrow> runtime_bootstrap_plan \<Rightarrow> core_plan \<Rightarrow> user_id_lookup \<Rightarrow> string \<Rightarrow>
   traffic_record list \<Rightarrow> ('k, 'p) report_world \<Rightarrow> activity_batch result \<times> ('k, 'p) report_world" where
  "report_records env client plan core_plan user_lookup spool_path records w =
     (let snapshots = keli_core_traffic_snapshots_with_user_lookup core_plan records user_lookup;
          (batch, w1) = on_panel (report_activity_batch_to_panel (re_panel env) (runtime_activity_targets plan) snapshots) w;
          online_records = device_limit_online_records_from_successful_snapshots core_plan snapshots batch;
          w2 = (if online_records = [] then w1 else snd (on_core (cc_commit (re_core env) client online_records) w1))
      in io_then (on_files (save_pending_keli_core_traffic (re_codec env) spool_path
           (failed_keli_core_records core_plan records batch)) w2) (\<lambda>_ w. (Ok batch, w)))"

definition report_keli_core_activity_to_panel_with_user_lookup ::
  "('k, 'p) report_env \<Rightarrow> runtime_bootstrap_plan \<Rightarrow> user_id_lookup \<Rightarrow> ('k, 'p) report_world \<Rightarrow>
   activity_batch result \<times> ('k, 'p) report_world" where
  "report_keli_core_activity_to_panel_with_user_lookup env plan user_lookup w =
     (case rbp_core_plan plan of
        None \<Rightarrow> (Ok batch_default, w)
      | Some core_plan \<Rightarrow>
          io_then (on_files (keli_core_rs_control_client (re_random env) (re_cwd env) (cp_config_path core_plan)) w) (\<lambda>client w.
          let spool_path = keli_core_traffic_spool_path (cp_config_path core_plan)
          in io_then (on_files (load_pending_keli_core_traffic (re_codec env) spool_path) w) (\<lambda>pending w.
             io_then (on_core (cc_drain (re_core env) client (word_of_nat (minimum_report_bytes plan))) w) (\<lambda>drained0 w.
             let (records, drained) = append_unique_keli_core_records pending drained0
             in if records = [] then (Ok batch_default, w)
                else io_then (save_pending_or_requeue_drained env client spool_path records drained w) (\<lambda>_ w.
                  report_records env client plan core_plan user_lookup spool_path records w)))))"

definition report_keli_core_activity_to_panel ::
  "('k, 'p) report_env \<Rightarrow> runtime_bootstrap_plan \<Rightarrow> ('k, 'p) report_world \<Rightarrow> activity_batch result \<times> ('k, 'p) report_world" where
  "report_keli_core_activity_to_panel env plan w = report_keli_core_activity_to_panel_with_user_lookup env plan [] w"

section \<open>Refreshing the device limits\<close>

fun apply_snapshots_loop ::
  "('k, 'p) report_env \<Rightarrow> control_client \<Rightarrow> device_limit_snapshot list \<Rightarrow> nat \<Rightarrow> ('k, 'p) report_world \<Rightarrow>
   nat result \<times> ('k, 'p) report_world" where
  "apply_snapshots_loop env client [] applied w = (Ok applied, w)"
| "apply_snapshots_loop env client (snapshot # snapshots) applied w =
     io_then (on_core (cc_apply_snapshot (re_core env) client snapshot) w) (\<lambda>_ w.
       apply_snapshots_loop env client snapshots (applied + 1) w)"

fun refresh_loop ::
  "('k, 'p) report_env \<Rightarrow> control_client \<Rightarrow> runtime_bootstrap_plan \<Rightarrow> core_plan \<Rightarrow> node_info list \<Rightarrow> nat \<Rightarrow>
   ('k, 'p) report_world \<Rightarrow> nat result \<times> ('k, 'p) report_world" where
  "refresh_loop env client plan core_plan [] applied w = (Ok applied, w)"
| "refresh_loop env client plan core_plan (node # nodes) applied w =
     (case node_config_for_info (rbp_resolved plan) (ni_id node) (ni_tag node) of
        None \<Rightarrow> refresh_loop env client plan core_plan nodes applied w
      | Some config \<Rightarrow>
          io_then (io_map_err (\<lambda>e. ''create panel client node_tag='' @ ni_tag node @ '': '' @ e)
              (on_panel (ap_client (re_panel env) config) w)) (\<lambda>_ w.
          io_then (io_map_err (\<lambda>e. ''get alive list node_tag='' @ ni_tag node @ '': '' @ e)
              (on_panel (ap_alive_list (re_panel env) config) w)) (\<lambda>alive w.
          io_then (apply_snapshots_loop env client (device_limit_snapshots_for_alive_map core_plan (ni_tag node) alive) applied w)
            (\<lambda>applied w. refresh_loop env client plan core_plan nodes applied w))))"

definition refresh_keli_core_device_limit_snapshots ::
  "('k, 'p) report_env \<Rightarrow> runtime_bootstrap_plan \<Rightarrow> ('k, 'p) report_world \<Rightarrow> nat result \<times> ('k, 'p) report_world" where
  "refresh_keli_core_device_limit_snapshots env plan w =
     (case rbp_core_plan plan of
        None \<Rightarrow> (Ok 0, w)
      | Some core_plan \<Rightarrow>
          io_then (on_files (keli_core_rs_control_client (re_random env) (re_cwd env) (cp_config_path core_plan)) w) (\<lambda>client w.
            refresh_loop env client plan core_plan (rbp_node_infos plan) 0 w))"

section \<open>Accounting\<close>

lemma i64_saturating_add_min:
  assumes "0 \<le> a" "0 \<le> v"
  shows "i64_saturating_add (min i64_max a) (min i64_max v) = min i64_max (a + v)"
  using assms by (auto simp: i64_saturating_add_def i64_max_def i64_min_def)

lemma u64_to_i64_min: "u64_to_i64 v = min i64_max (uint v)"
  by (simp add: u64_to_i64_def)

definition traffic_entry :: "user_traffic list \<Rightarrow> u32 \<Rightarrow> user_traffic option" where
  "traffic_entry traffic uid = find (\<lambda>item. ut_uid item = uid) traffic"

lemma traffic_entry_simps [simp]:
  "traffic_entry [] uid = None"
  "traffic_entry (item # items) uid = (if ut_uid item = uid then Some item else traffic_entry items uid)"
  by (simp_all add: traffic_entry_def)

lemma merge_user_traffic_entry:
  "traffic_entry (merge_user_traffic traffic uid upload download) uid' =
     (if uid' = uid
      then Some (case traffic_entry traffic uid of
          None \<Rightarrow> \<lparr>ut_uid = uid, ut_upload = upload, ut_download = download\<rparr>
        | Some item \<Rightarrow> item\<lparr>ut_upload := i64_saturating_add (ut_upload item) upload,
            ut_download := i64_saturating_add (ut_download item) download\<rparr>)
      else traffic_entry traffic uid')"
  by (induction traffic) auto

lemma merge_user_traffic_uids:
  "map ut_uid (merge_user_traffic traffic uid upload download) =
     (if uid \<in> ut_uid ` set traffic then map ut_uid traffic else map ut_uid traffic @ [uid])"
  by (induction traffic) auto

text \<open>The traffic of one user in the snapshot of one node.\<close>

definition reported_traffic :: "(string, activity_snapshot) btmap \<Rightarrow> string \<Rightarrow> u32 \<Rightarrow> user_traffic option" where
  "reported_traffic snapshots tag uid =
     Option.bind (bt_get snapshots tag) (\<lambda>snapshot. traffic_entry (as_traffic snapshot) uid)"

definition record_total :: "(traffic_record \<Rightarrow> u64) \<Rightarrow> traffic_record list \<Rightarrow> int" where
  "record_total f records = (\<Sum>r \<leftarrow> records. uint (f r))"

lemma record_total_simps [simp]: "record_total f [] = 0" "record_total f (rs @ [r]) = record_total f rs + uint (f r)" "0 \<le> record_total f rs"
proof -
  show "0 \<le> record_total f rs" unfolding record_total_def by (rule sum_list_nonneg) auto
qed (simp_all add: record_total_def)

lemma add_record_traffic:
  "reported_traffic (add_record core_plan lookup r snapshots) tag uid =
     (if keli_core_record_report_target core_plan r lookup = Some (tag, uid)
      then Some (case reported_traffic snapshots tag uid of
          None \<Rightarrow> \<lparr>ut_uid = uid, ut_upload = u64_to_i64 (tr_upload r), ut_download = u64_to_i64 (tr_download r)\<rparr>
        | Some item \<Rightarrow> item\<lparr>ut_upload := i64_saturating_add (ut_upload item) (u64_to_i64 (tr_upload r)),
            ut_download := i64_saturating_add (ut_download item) (u64_to_i64 (tr_download r))\<rparr>)
      else reported_traffic snapshots tag uid)"
proof (cases "keli_core_record_report_target core_plan r lookup")
  case (Some t)
  obtain tag' uid' where t: "t = (tag', uid')" by (cases t)
  show ?thesis
    by (cases "bt_get snapshots tag'")
      (auto simp: add_record_def Some t reported_traffic_def bt_get_insert merge_user_traffic_entry snapshot_default_def)
qed (simp add: add_record_def)

lemma snapshots_append:
  "keli_core_traffic_snapshots_with_user_lookup core_plan (rs @ [r]) lookup =
     add_record core_plan lookup r (keli_core_traffic_snapshots_with_user_lookup core_plan rs lookup)"
  by (simp add: keli_core_traffic_snapshots_with_user_lookup_def)

lemma snapshot_uids_distinct:
  "(tag, snapshot) \<in> set (keli_core_traffic_snapshots_with_user_lookup core_plan records lookup) \<Longrightarrow>
     distinct (map ut_uid (as_traffic snapshot))"
proof (induction records arbitrary: tag snapshot rule: rev_induct)
  case (snoc r rs)
  let ?m = "keli_core_traffic_snapshots_with_user_lookup core_plan rs lookup"
  show ?case
  proof (cases "(tag, snapshot) \<in> set ?m")
    case False
    obtain t uid where t: "keli_core_record_report_target core_plan r lookup = Some (t, uid)"
      using snoc.prems False by (cases "keli_core_record_report_target core_plan r lookup") (auto simp: snapshots_append add_record_def)
    let ?old = "unwrap_or snapshot_default (bt_get ?m t)"
    have "as_traffic snapshot = merge_user_traffic (as_traffic ?old) uid (u64_to_i64 (tr_upload r)) (u64_to_i64 (tr_download r))"
      using snoc.prems False t set_bt_insert by (fastforce simp: snapshots_append add_record_def Let_def)
    moreover have "distinct (map ut_uid (as_traffic ?old))"
      using snoc.IH [of t] by (cases "bt_get ?m t") (auto simp: snapshot_default_def bt_get_def dest: map_of_SomeD)
    ultimately show ?thesis by (auto simp: merge_user_traffic_uids)
  qed (rule snoc.IH)
qed (simp add: keli_core_traffic_snapshots_with_user_lookup_def)

text \<open>
  C33: The snapshots account for every record exactly: a user of a node is reported with the sum of the
  uploads and downloads of the records that are for this user of this node, cut off at the largest
  \<open>i64\<close>, and is reported only if there is such a record; no user is listed twice for a node.
\<close>

theorem snapshots_account:
  "reported_traffic (keli_core_traffic_snapshots_with_user_lookup core_plan records lookup) tag uid =
     (let rs = filter (\<lambda>r. keli_core_record_report_target core_plan r lookup = Some (tag, uid)) records
      in if rs = [] then None
         else Some \<lparr>ut_uid = uid, ut_upload = min i64_max (record_total tr_upload rs),
                ut_download = min i64_max (record_total tr_download rs)\<rparr>) \<and>
   list_all (\<lambda>(t, snapshot). distinct (map ut_uid (as_traffic snapshot)))
     (keli_core_traffic_snapshots_with_user_lookup core_plan records lookup)"
proof (rule conjI)
  show "reported_traffic (keli_core_traffic_snapshots_with_user_lookup core_plan records lookup) tag uid =
     (let rs = filter (\<lambda>r. keli_core_record_report_target core_plan r lookup = Some (tag, uid)) records
      in if rs = [] then None
         else Some \<lparr>ut_uid = uid, ut_upload = min i64_max (record_total tr_upload rs),
                ut_download = min i64_max (record_total tr_download rs)\<rparr>)"
  proof (induction records rule: rev_induct)
    case Nil
    show ?case by (simp add: keli_core_traffic_snapshots_with_user_lookup_def reported_traffic_def bt_get_def)
  next
    case (snoc r rs)
    then show ?case
      by (auto simp: snapshots_append add_record_traffic Let_def u64_to_i64_min i64_saturating_add_min)
  qed
next
  show "list_all (\<lambda>(t, snapshot). distinct (map ut_uid (as_traffic snapshot)))
     (keli_core_traffic_snapshots_with_user_lookup core_plan records lookup)"
    using snapshot_uids_distinct by (auto simp: list_all_iff)
qed

section \<open>The spool is replaced as a whole\<close>

lemma spool_path_file:
  assumes "file_name config_path \<noteq> None"
  shows "\<exists>name. file_name (keli_core_traffic_spool_path config_path) = Some name"
    "last (keli_core_traffic_spool_path config_path) = CHR ''n''"
    "traffic_spool_tmp_path (keli_core_traffic_spool_path config_path) \<noteq> keli_core_traffic_spool_path config_path"
proof -
  obtain stem where stem: "file_stem config_path = Some stem" using assms by (auto simp: file_stem_def)
  have ext: "slash \<notin> set ''traffic.pending.json''" "last ''traffic.pending.json'' = CHR ''n''" by simp_all
  note w = with_extension_file [OF stem, of "''traffic.pending.json''"]
  show f: "\<exists>name. file_name (keli_core_traffic_spool_path config_path) = Some name"
    using w(2) ext by (simp add: keli_core_traffic_spool_path_def)
  show l: "last (keli_core_traffic_spool_path config_path) = CHR ''n''"
    using w(1) ext by (simp add: keli_core_traffic_spool_path_def)
  from f obtain name where "traffic_spool_tmp_path (keli_core_traffic_spool_path config_path) =
      with_file_name (keli_core_traffic_spool_path config_path) (name @ ''.tmp'')" by (auto simp: traffic_spool_tmp_path_def)
  then have "last (traffic_spool_tmp_path (keli_core_traffic_spool_path config_path)) = CHR ''p''"
    by (simp add: with_file_name_def Let_def last_path_push)
  with l show "traffic_spool_tmp_path (keli_core_traffic_spool_path config_path) \<noteq> keli_core_traffic_spool_path config_path"
    by auto
qed

text \<open>What a spool file stands for, \<open>None\<close> if it cannot be decoded.\<close>

definition spooled :: "spool_codec \<Rightarrow> string \<Rightarrow> file_store \<Rightarrow> traffic_record list option" where
  "spooled codec path fs =
     (case fs_files fs path of
        None \<Rightarrow> Some []
      | Some content \<Rightarrow>
          if content = [] then Some []
          else (case spool_decode codec content of Inr records \<Rightarrow> Some records | Inl _ \<Rightarrow> None))"

definition codec_ok :: "spool_codec \<Rightarrow> bool" where
  "codec_ok codec \<longleftrightarrow>
     (\<forall>records content. spool_encode codec records = Inr content \<longrightarrow> content \<noteq> [] \<and> spool_decode codec content = Inr records)"

lemma spooled_cong: "fs_files fs' path = fs_files fs path \<Longrightarrow> spooled codec path fs' = spooled codec path fs"
  by (simp add: spooled_def)

lemma load_pending_spooled:
  assumes "load_pending_keli_core_traffic codec path fs = (r, fs')"
  shows "fs_files fs' = fs_files fs \<and> (\<forall>records. r = Inr records \<longrightarrow> spooled codec path fs = Some records)"
proof -
  obtain c fs1 where c: "fs_read path fs = (c, fs1)" by fastforce
  have "fs' = fs1" using assms c
    by (simp add: load_pending_keli_core_traffic_def split: sum.splits io_error.splits)
  moreover have "spooled codec path fs = Some records" if "r = Inr records" for records
  proof (cases c)
    case (Inl e)
    with c have "e = NotFound \<Longrightarrow> fs_files fs path = None" using fs_read_NotFound by blast
    with assms c Inl that show ?thesis by (cases e) (simp_all add: load_pending_keli_core_traffic_def spooled_def)
  next
    case (Inr content)
    with c have "fs_files fs path = Some content" using fs_read_Inr by blast
    with assms c Inr that show ?thesis
      by (simp add: load_pending_keli_core_traffic_def spooled_def split: if_splits sum.splits)
  qed
  ultimately show ?thesis using fs_read_same [OF c] by blast
qed

lemma replace_spool_files:
  assumes "replace_spool path content fs = (r, fs')" "traffic_spool_tmp_path path \<noteq> path"
  shows "fs_files fs' path = (if is_ok r then Some content else fs_files fs path)"
proof -
  let ?tmp = "traffic_spool_tmp_path path"
  obtain wr fs1 where w: "fs_write ?tmp content fs = (wr, fs1)" by fastforce
  have fs1: "fs_files fs1 path = fs_files fs path" using fs_write_frame [of path ?tmp content fs] w assms(2) by simp
  show ?thesis
  proof (cases wr)
    case (Inl e)
    with assms(1) w fs1 show ?thesis by (auto simp: replace_spool_def Let_def simp del: append.simps)
  next
    case (Inr u)
    obtain rr fs2 where rn: "fs_rename ?tmp path fs1 = (rr, fs2)" by fastforce
    have tmp: "fs_files fs1 ?tmp = Some content" using w Inr fs_write_Inr by fastforce
    have "(r, fs') = io_map_err (\<lambda>e. ''replace pending traffic '' @ path @ '': '' @ io_error_text e) (rr, fs2)"
      using assms(1) w Inr rn by (simp add: replace_spool_def Let_def)
    then have "fs' = fs2" "is_ok r = is_ok rr" by (cases rr; simp)+
    then show ?thesis using rn tmp fs1 assms(2) by (cases rr) (auto dest: fs_rename_Inl fs_rename_Inr)
  qed
qed

lemma ensure_spool_dir_files: "fs_files (snd (ensure_spool_dir path fs)) = fs_files fs"
  by (simp add: ensure_spool_dir_def split: option.splits)

lemma remove_spool_files:
  assumes "remove_spool path fs = (r, fs')"
  shows "fs_files fs' path = (if is_ok r then None else fs_files fs path)"
proof -
  obtain rm fs1 where rm: "fs_remove_file path fs = (rm, fs1)" by fastforce
  show ?thesis
  proof (cases rm)
    case (Inl e)
    note keep = fs_remove_Inl [OF rm [unfolded Inl]]
    show ?thesis
    proof (cases e)
      case (IoError t)
      with assms rm Inl have "fs' = fs1" "\<not> is_ok r" by (simp_all add: remove_spool_def) (metis Pair_inject is_ok.simps(1))
      with keep show ?thesis by simp
    qed (use assms rm Inl keep in \<open>auto simp: remove_spool_def\<close>)
  next
    case (Inr u)
    with assms rm have "fs' = fs1" "is_ok r" by (auto simp: remove_spool_def)
    with fs_remove_Inr [OF rm [unfolded Inr]] show ?thesis by simp
  qed
qed

lemma save_pending_spooled:
  assumes "save_pending_keli_core_traffic codec path records fs = (r, fs')" "codec_ok codec" "traffic_spool_tmp_path path \<noteq> path"
  shows "spooled codec path fs' = (if is_ok r then Some records else spooled codec path fs)"
proof (cases "records = []")
  case True
  with assms(1) have "remove_spool path fs = (r, fs')" by (simp add: save_pending_keli_core_traffic_def)
  from remove_spool_files [OF this] True show ?thesis by (simp add: spooled_def)
next
  case False
  obtain d fs1 where d: "ensure_spool_dir path fs = (d, fs1)" by fastforce
  have fs1: "fs_files fs1 = fs_files fs" using ensure_spool_dir_files [of path fs] d by simp
  show ?thesis
  proof (cases d)
    case (Inl e)
    with assms(1) False d spooled_cong [of fs1 path fs] fs1 show ?thesis by (auto simp: save_pending_keli_core_traffic_def)
  next
    case (Inr u)
    show ?thesis
    proof (cases "spool_encode codec records")
      case (Inl e)
      with assms(1) False d Inr have "fs' = fs1" "\<not> is_ok r"
        by (simp_all add: save_pending_keli_core_traffic_def) (metis Pair_inject is_ok.simps(1))
      with spooled_cong [of fs1 path fs] fs1 show ?thesis by simp
    next
      case (Inr content)
      with assms(1) False d \<open>d = Inr u\<close> have "replace_spool path content fs1 = (r, fs')"
        by (simp add: save_pending_keli_core_traffic_def)
      from replace_spool_files [OF this assms(3)] fs1 Inr assms(2) show ?thesis
        by (simp add: spooled_def codec_ok_def)
    qed
  qed
qed

section \<open>A round of reporting\<close>

lemma on_simps [simp]:
  "w_files (snd (on_core f w)) = w_files w" "w_files (snd (on_panel h w)) = w_files w"
  "w_files (snd (on_files g w)) = snd (g (w_files w))" "fst (on_files g w) = fst (g (w_files w))"
  by (simp_all add: on_core_def on_panel_def on_files_def split: prod.splits)

lemma on_files_eq: "on_files g w = (r, w') \<Longrightarrow> g (w_files w) = (r, w_files w')"
  by (auto simp: on_files_def split: prod.splits)

lemma on_core_eq: "on_core f w = (r, w') \<Longrightarrow> w_files w' = w_files w"
  by (auto simp: on_core_def split: prod.splits)

lemma on_panel_eq: "on_panel f w = (r, w') \<Longrightarrow> w_files w' = w_files w"
  by (auto simp: on_panel_def split: prod.splits)

lemma append_unique_records:
  "append_unique_keli_core_records records drained = (all, fresh) \<Longrightarrow>
     all = records @ fresh \<and> set all = set records \<union> set drained \<and> set fresh \<inter> set records = {} \<and> distinct fresh"
proof (induction drained arbitrary: records all fresh)
  case (Cons r drained)
  show ?case
  proof (cases "r \<in> set records")
    case True
    with Cons.IH [of records all fresh] Cons.prems show ?thesis by auto
  next
    case False
    then obtain fresh' where f: "append_unique_keli_core_records (records @ [r]) drained = (all, fresh')" "fresh = r # fresh'"
      using Cons.prems by (auto simp: Let_def split: prod.splits)
    from Cons.IH [OF f(1)] f(2) False show ?thesis by auto
  qed
qed simp

lemma report_records_spooled:
  assumes "report_records env client plan core_plan lookup path records w = (r, w')" "codec_ok (re_codec env)"
    "traffic_spool_tmp_path path \<noteq> path"
  shows "spooled (re_codec env) path (w_files w') =
    (case r of Inr batch \<Rightarrow> Some (failed_keli_core_records core_plan records batch) | Inl _ \<Rightarrow> spooled (re_codec env) path (w_files w))"
proof -
  let ?snapshots = "keli_core_traffic_snapshots_with_user_lookup core_plan records lookup"
  obtain batch w1 where b: "on_panel (report_activity_batch_to_panel (re_panel env) (runtime_activity_targets plan) ?snapshots) w =
      (batch, w1)" by (rule prod.exhaust)
  let ?online = "device_limit_online_records_from_successful_snapshots core_plan ?snapshots batch"
  let ?w2 = "if ?online = [] then w1 else snd (on_core (cc_commit (re_core env) client ?online) w1)"
  note w1 = on_panel_eq [OF b]
  have w2: "w_files ?w2 = w_files w"
    using w1 by simp
  obtain s w3 where s: "on_files (save_pending_keli_core_traffic (re_codec env) path
      (failed_keli_core_records core_plan records batch)) ?w2 = (s, w3)" by (rule prod.exhaust)
  have "(r, w') = io_then (s, w3) (\<lambda>_ w. (Ok batch, w))"
    using assms(1) by (simp only: report_records_def Let_def b prod.case s)
  then have r: "w' = w3" "case s of Inr _ \<Rightarrow> r = Inr batch | Inl e \<Rightarrow> r = Inl e" by (cases s; simp)+
  note saved = save_pending_spooled [OF on_files_eq [OF s] assms(2,3), unfolded w2]
  show ?thesis
  proof (cases s)
    case (Inl e)
    then have "r = Inl e" using r(2) by simp
    then show ?thesis using saved Inl r(1) by simp
  next
    case (Inr u)
    then have "r = Inr batch" using r(2) by simp
    then show ?thesis using saved Inr r(1) by simp
  qed
qed

text \<open>The files a round uses are different ones.\<close>

lemma round_paths:
  assumes "cp_config_path core_plan = slash # rest" "file_name (cp_config_path core_plan) \<noteq> None"
  shows "keli_core_traffic_spool_path (cp_config_path core_plan) \<noteq>
    keli_core_rs_control_token_path cwd (absolute_process_path cwd (cp_config_path core_plan))"
proof -
  obtain stem where "file_stem (cp_config_path core_plan) = Some stem" using assms(2) by (auto simp: file_stem_def)
  then show ?thesis
    using assms(1)
    by (simp add: keli_core_traffic_spool_path_def keli_core_rs_control_token_path_def absolute_process_path_def with_extension_def)
qed

text \<open>What is pending after a round, from what was pending before and what the core handed out.\<close>

definition round_spec ::
  "core_plan \<Rightarrow> traffic_record list \<Rightarrow> activity_batch result \<Rightarrow> traffic_record list \<Rightarrow> bool" where
  "round_spec core_plan pending r after \<longleftrightarrow>
     (\<exists>drained. let (records, fresh) = append_unique_keli_core_records pending drained
        in records = pending @ fresh \<and>
           (case r of Inr batch \<Rightarrow> after = failed_keli_core_records core_plan records batch
            | Inl _ \<Rightarrow> after = pending \<or> after = records))"

lemma round_spec_unchanged: "round_spec core_plan pending (Inl e) pending"
  unfolding round_spec_def by (intro exI [of _ "[]"]) simp

lemma failed_none [simp]: "failed_keli_core_records core_plan [] batch = []"
  by (simp add: failed_keli_core_records_def Let_def)

lemma save_or_requeue_spooled:
  assumes "save_pending_or_requeue_drained env client path records drained w = (r, w')" "codec_ok (re_codec env)"
    "traffic_spool_tmp_path path \<noteq> path"
  shows "spooled (re_codec env) path (w_files w') = (if is_ok r then Some records else spooled (re_codec env) path (w_files w))"
proof -
  obtain s w1 where s: "on_files (save_pending_keli_core_traffic (re_codec env) path records) w = (s, w1)" by (rule prod.exhaust)
  note saved = save_pending_spooled [OF on_files_eq [OF s] assms(2,3)]
  show ?thesis
  proof (cases s)
    case (Inl e)
    with assms(1) s have "r = Inl e" "w_files w' = w_files w1" by (auto simp: save_pending_or_requeue_drained_def)
    with saved Inl show ?thesis by simp
  next
    case (Inr u)
    with assms(1) s have "r = Inr ()" "w' = w1" by (auto simp: save_pending_or_requeue_drained_def)
    with saved Inr show ?thesis by simp
  qed
qed

text \<open>The part of a round after the client is made.\<close>

lemma round_after_client:
  assumes "(let spool_path = path
          in io_then (on_files (load_pending_keli_core_traffic (re_codec env) spool_path) w) (\<lambda>pending w.
             io_then (on_core (cc_drain (re_core env) client minimum) w) (\<lambda>drained0 w.
             let (records, drained) = append_unique_keli_core_records pending drained0
             in if records = [] then (Ok batch_default, w)
                else io_then (save_pending_or_requeue_drained env client spool_path records drained w) (\<lambda>_ w.
                  report_records env client plan core_plan user_lookup spool_path records w)))) = (r, w')"
    and ok: "codec_ok (re_codec env)" "traffic_spool_tmp_path path \<noteq> path"
    and before: "spooled (re_codec env) path (w_files w) = Some pending"
  shows "\<exists>after. spooled (re_codec env) path (w_files w') = Some after \<and> round_spec core_plan pending r after"
proof -
  obtain l w1 where l: "on_files (load_pending_keli_core_traffic (re_codec env) path) w = (l, w1)" by (rule prod.exhaust)
  note loaded = load_pending_spooled [OF on_files_eq [OF l]]
  have w1: "spooled (re_codec env) path (w_files w1) = Some pending" using loaded before spooled_cong by metis
  show ?thesis
  proof (cases l)
    case (Inl e)
    with assms(1) l have "r = Inl e" "w' = w1" by (simp_all add: Let_def)
    with w1 round_spec_unchanged show ?thesis by blast
  next
    case (Inr pending')
    with loaded before have p: "pending' = pending" by simp
    obtain d w2 where d: "on_core (cc_drain (re_core env) client minimum) w1 = (d, w2)" by (rule prod.exhaust)
    have w2: "spooled (re_codec env) path (w_files w2) = Some pending" using w1 on_core_eq [OF d] by simp
    show ?thesis
    proof (cases d)
      case (Inl e)
      with assms(1) l Inr d have "r = Inl e" "w' = w2" by (simp_all add: Let_def)
      with w2 round_spec_unchanged show ?thesis by blast
    next
      case drained: (Inr drained)
      obtain records fresh where a: "append_unique_keli_core_records pending drained = (records, fresh)" by (rule prod.exhaust)
      have spec: "round_spec core_plan pending r after" if "case r of Inr batch \<Rightarrow> after = failed_keli_core_records core_plan records batch
            | Inl _ \<Rightarrow> after = pending \<or> after = records" for after
        unfolding round_spec_def using that append_unique_records [OF a] a by (intro exI [of _ drained]) (auto split: sum.splits)
      have rest: "(if records = [] then (Ok batch_default, w2)
          else io_then (save_pending_or_requeue_drained env client path records fresh w2) (\<lambda>_ w.
            report_records env client plan core_plan user_lookup path records w)) = (r, w')"
        using assms(1) l Inr p d drained a by (simp add: Let_def)
      show ?thesis
      proof (cases "records = []")
        case True
        with rest append_unique_records [OF a] have "r = Inr batch_default" "w' = w2" "pending = []" by auto
        with w2 True spec show ?thesis by simp
      next
        case False
        obtain s w3 where s: "save_pending_or_requeue_drained env client path records fresh w2 = (s, w3)" by (rule prod.exhaust)
        note saved = save_or_requeue_spooled [OF s ok]
        show ?thesis
        proof (cases s)
          case (Inl e)
          with rest False s have "r = Inl e" "w' = w3" by simp_all
          with saved w2 Inl spec show ?thesis by simp
        next
          case (Inr u)
          with rest False s have "report_records env client plan core_plan user_lookup path records w3 = (r, w')" by simp
          from report_records_spooled [OF this ok] saved Inr spec show ?thesis by (cases r) auto
        qed
      qed
    qed
  qed
qed


section \<open>Which records are kept\<close>

text \<open>No tag of an inbound is another one with a port appended.\<close>

definition tags_unambiguous :: "core_plan \<Rightarrow> bool" where
  "tags_unambiguous core_plan \<longleftrightarrow>
     (\<forall>a \<in> set (cp_inbounds core_plan). \<forall>b \<in> set (cp_inbounds core_plan).
        prefix (ib_tag a @ ''|port:'') (ib_tag b @ ''|port:'') \<longrightarrow> ib_tag a = ib_tag b)"

lemma strip_prefix_append [simp]: "strip_prefix p (p @ s) = Some s"
  by (simp add: strip_prefix_Some)

lemma normalize_tag_Some:
  "normalize_keli_core_record_tag r t = Some v \<longleftrightarrow>
     v = t \<and> (r = t \<or> (\<exists>port. r = t @ ''|port:'' @ port \<and> port \<noteq> [] \<and> list_all is_ascii_digit port))"
  by (auto simp: normalize_keli_core_record_tag_def strip_prefix_Some split: option.splits if_splits)

lemma find_map_Some: "find_map f xs = Some y \<Longrightarrow> \<exists>x \<in> set xs. f x = Some y"
  by (induction xs) (auto split: option.splits)

lemma find_map_None: "find_map f xs = None \<longleftrightarrow> (\<forall>x \<in> set xs. f x = None)"
  by (induction xs) (auto split: option.splits)

lemma prefix_same_mark:
  assumes "a @ m @ p = b @ m @ q" "length a \<le> length b"
  shows "prefix (a @ m) (b @ m)"
proof -
  have "(b @ m) @ q = (a @ m) @ p" using assms(1) by simp
  then have "prefix (a @ m) ((b @ m) @ q)" by (rule prefixI)
  moreover have "prefix (b @ m) ((b @ m) @ q)" by (rule prefixI) simp
  ultimately show ?thesis by (rule prefix_length_prefix) (use assms(2) in simp)
qed

lemma normalize_tag_unique:
  assumes "tags_unambiguous core_plan" "a \<in> set (cp_inbounds core_plan)" "b \<in> set (cp_inbounds core_plan)"
    "normalize_keli_core_record_tag r (ib_tag a) = Some v" "normalize_keli_core_record_tag r (ib_tag b) = Some v'"
  shows "v = v'"
proof -
  have pre: "ib_tag x = ib_tag y"
    if "x \<in> set (cp_inbounds core_plan)" "y \<in> set (cp_inbounds core_plan)" "prefix (ib_tag x @ ''|port:'') (ib_tag y @ ''|port:'')" for x y
    using assms(1) that unfolding tags_unambiguous_def by blast
  have ext: "ib_tag x = ib_tag y"
    if "x \<in> set (cp_inbounds core_plan)" "y \<in> set (cp_inbounds core_plan)" "ib_tag y = ib_tag x @ ''|port:'' @ p" for x y p
    by (rule pre [OF that(1,2)], rule prefixI [where zs = "p @ ''|port:''"]) (simp add: that(3))
  have both: "ib_tag x = ib_tag y"
    if "x \<in> set (cp_inbounds core_plan)" "y \<in> set (cp_inbounds core_plan)" "ib_tag x @ ''|port:'' @ p = ib_tag y @ ''|port:'' @ q" for x y p q
  proof (cases "length (ib_tag x) \<le> length (ib_tag y)")
    case True
    then show ?thesis using pre [OF that(1,2)] prefix_same_mark [OF that(3)] by blast
  next
    case False
    then show ?thesis using pre [OF that(2,1)] prefix_same_mark [OF that(3) [symmetric]] by simp
  qed
  from assms(4) have v: "v = ib_tag a" "r = ib_tag a \<or> (\<exists>p. r = ib_tag a @ ''|port:'' @ p)" unfolding normalize_tag_Some by blast+
  from assms(5) have v': "v' = ib_tag b" "r = ib_tag b \<or> (\<exists>p. r = ib_tag b @ ''|port:'' @ p)" unfolding normalize_tag_Some by blast+
  from v(2) v'(2) have "ib_tag a = ib_tag b"
    using ext [OF assms(2,3)] ext [OF assms(3,2)] both [OF assms(2,3)] by metis
  with v v' show ?thesis by simp
qed

lemma report_tag_of_target:
  assumes "tags_unambiguous core_plan" "keli_core_record_report_target core_plan r lookup = Some (tag, uid)"
  shows "keli_core_record_report_tag core_plan r = Some tag"
proof -
  obtain a where a: "a \<in> set (cp_inbounds core_plan)" "normalize_keli_core_record_tag (tr_node_tag r) (ib_tag a) = Some tag"
    using find_map_Some [OF assms(2) [unfolded keli_core_record_report_target_def]] by (auto simp: bind_eq_Some_conv)
  then obtain v where v: "keli_core_record_report_tag core_plan r = Some v"
    unfolding keli_core_record_report_tag_def using find_map_None by (metis (no_types, lifting) option.distinct(1) option.exhaust)
  then obtain b where "b \<in> set (cp_inbounds core_plan)" "normalize_keli_core_record_tag (tr_node_tag r) (ib_tag b) = Some v"
    unfolding keli_core_record_report_tag_def by (auto dest: find_map_Some)
  with a v normalize_tag_unique [OF assms(1)] show ?thesis by metis
qed

text \<open>
  With unambiguous tags the records a round keeps are exactly those it could not report: a record
  of a user of a node is among them if and only if the report of this node failed.
\<close>

lemma failed_records_exact:
  assumes "tags_unambiguous core_plan" "keli_core_record_report_target core_plan r lookup = Some (tag, uid)" "r \<in> set records"
  shows "r \<in> set (failed_keli_core_records core_plan records batch) \<longleftrightarrow> tag \<in> af_tag ` set (ab_failures batch)"
  using report_tag_of_target [OF assms(1,2)] assms(3)
  by (auto simp: failed_keli_core_records_def Let_def)

text \<open>
  Two ways in which traffic goes missing. A record the core hands out is dropped if an equal one is
  still pending, although it stands for other bytes. And when a tag is another one with a port
  appended, a record is sent with the inbound that knows its user but kept, on failure, with the first
  inbound that matches, so that it is lost if only the former fails.
\<close>

lemma equal_record_dropped: "append_unique_keli_core_records [r] [r] = ([r], [])"
  by simp

definition sample_record :: traffic_record where
  "sample_record = \<lparr>tr_node_tag = ''a|port:1'', tr_user_uuid = ''u'', tr_user_id = None, tr_upload = 5, tr_download = 7,
     tr_online_ips = []\<rparr>"

definition sample_inbound :: "string \<Rightarrow> inbound_user_plan list \<Rightarrow> inbound_plan" where
  "sample_inbound tag users = (projr (build_inbound_plan sample_tls_node))\<lparr>ib_tag := tag, ib_users := users\<rparr>"

definition sample_user :: inbound_user_plan where
  "sample_user = \<lparr>iu_id = 9, iu_uuid = ''u'', iu_email = [], iu_speed_limit = 0, iu_device_limit = 0\<rparr>"

definition sample_plan_with :: "inbound_plan list \<Rightarrow> core_plan" where
  "sample_plan_with inbounds = \<lparr>cp_kind = KeliCoreRs, cp_config_path = ''/c/config.json'', cp_listen_tags = [],
     cp_inbounds = inbounds, cp_dns = dns_options_default\<rparr>"

lemma ambiguous_tag_loses_record:
  "keli_core_record_report_target (sample_plan_with [sample_inbound ''a'' [], sample_inbound ''a|port:1'' [sample_user]])
     sample_record [] = Some (''a|port:1'', 9) \<and>
   failed_keli_core_records (sample_plan_with [sample_inbound ''a'' [], sample_inbound ''a|port:1'' [sample_user]]) [sample_record]
     (batch_default\<lparr>ab_failures := [\<lparr>af_tag = ''a|port:1'', af_error = ''e''\<rparr>]\<rparr>) = []"
  by (simp add: keli_core_record_report_target_def sample_plan_with_def sample_inbound_def sample_record_def record_user_def
      normalize_keli_core_record_tag_def sample_user_def failed_keli_core_records_def keli_core_record_report_tag_def
      batch_default_def is_ascii_digit_def char_code_def bt_get_def)

section \<open>Witnesses\<close>

lemma failed_records_exact_witness:
  "\<exists>plan. keli_core_record_report_target plan sample_record [] = Some (''a'', 9) \<and>
     sample_record \<in> set (failed_keli_core_records plan [sample_record]
       (batch_default\<lparr>ab_failures := [\<lparr>af_tag = ''a'', af_error = ''e''\<rparr>]\<rparr>))"
proof -
  let ?plan = "sample_plan_with [sample_inbound ''a'' [sample_user]]"
  let ?batch = "batch_default\<lparr>ab_failures := [\<lparr>af_tag = ''a'', af_error = ''e''\<rparr>]\<rparr>"
  have t: "keli_core_record_report_target ?plan sample_record [] = Some (''a'', 9)"
    by (simp add: keli_core_record_report_target_def sample_plan_with_def sample_inbound_def sample_record_def record_user_def
      normalize_keli_core_record_tag_def sample_user_def is_ascii_digit_def char_code_def bt_get_def)
  have u: "tags_unambiguous ?plan" by (simp add: tags_unambiguous_def sample_plan_with_def)
  have "sample_record \<in> set (failed_keli_core_records ?plan [sample_record] ?batch)"
    using failed_records_exact [OF u t, of "[sample_record]" ?batch] by simp
  with t show ?thesis by blast
qed

text \<open>A codec that writes one letter per record, of records that are all the sample record.\<close>

definition sample_codec :: spool_codec where
  "sample_codec =
     \<lparr>spool_encode = (\<lambda>records. if list_all (\<lambda>r. r = sample_record) records then Ok (CHR ''['' # map (\<lambda>_. CHR ''r'') records) else Err ''x''),
      spool_decode = (\<lambda>content. Ok (map (\<lambda>_. sample_record) (tl content)))\<rparr>"

lemma sample_codec_ok: "codec_ok sample_codec"
  by (auto simp: codec_ok_def sample_codec_def list_all_iff comp_def intro!: map_idI split: if_splits)

definition sample_env :: "(unit, unit) report_env" where
  "sample_env =
     \<lparr>re_random = Ok [1, 2], re_cwd = None, re_codec = sample_codec,
      re_core = \<lparr>cc_drain = (\<lambda>client minimum k. (Ok [sample_record], k)), cc_requeue = (\<lambda>client records k. (Ok 0, k)),
        cc_commit = (\<lambda>client records k. (Ok 0, k)), cc_apply_snapshot = (\<lambda>client s k. (Ok (), k))\<rparr>,
      re_panel = \<lparr>ap_client = (\<lambda>config p. (Err ''down'', p)),
        ap_sender = (\<lambda>config. \<lparr>snd_snapshot = (\<lambda>t on s. (Ok True, s)), snd_user_traffic = (\<lambda>t s. (Ok (), s)),
          snd_online_users = (\<lambda>on s. (Ok (), s))\<rparr>),
        ap_alive_list = (\<lambda>config p. (Err ''down'', p))\<rparr>\<rparr>"

definition sample_world :: "(unit, unit) report_world" where
  "sample_world = \<lparr>w_files = no_files, w_core = (), w_panel = ()\<rparr>"


end
