(* ===== verification/Core_Control.thy ===== *)
theory Core_Control
  imports Report Json
begin

text \<open>
  The control protocol of the core (\<open>src/src/core_control.rs\<close>): the commands and their JSON form, the
  responses, one request per connection, and what each client method makes of the response. The
  TCP exchange, the text form of JSON and the derived decoding of a response are arguments; timeouts
  only bound the exchange and are not kept.
\<close>

section \<open>Commands and responses\<close>

datatype core_command =
    ApplyConfig json
  | ApplyRoutes json
  | ApplyUserDelta string json
  | ApplyDeviceLimitSnapshot device_limit_snapshot
  | CommitDeviceLimitReport "online_record list"
  | DrainTraffic u64
  | RequeueTraffic "traffic_record list"
  | StatusCommand
  | MetricsCommand
  | TrimMemory
  | StopCommand

record user_delta_result =
  udr_added :: nat
  udr_updated :: nat
  udr_deleted :: nat
  udr_missing_updated :: nat
  udr_missing_deleted :: nat
  udr_active_users :: nat
  udr_full_applied :: bool

datatype core_response =
    AppliedResponse string json "json list"
  | UserDeltaApplied string user_delta_result json "json list"
  | TrafficResponse "traffic_record list"
  | TrafficRequeued nat
  | DeviceLimitSnapshotApplied string nat
  | DeviceLimitReportCommitted nat
  | StatusResponse json "json list"
  | MetricsResponse json
  | MemoryTrimmed
  | StoppedResponse
  | ErrorResponse string

record core_apply_result =
  car_decision :: string
  car_status :: json
  car_listeners :: "json list"

record user_delta_apply =
  uda_node_tag :: string
  uda_result :: user_delta_result
  uda_status :: json
  uda_listeners :: "json list"

definition traffic_record_json :: "traffic_record \<Rightarrow> json" where
  "traffic_record_json r = json_obj
     ([(''node_tag'', JString (tr_node_tag r)), (''user_uuid'', JString (tr_user_uuid r))] @
      (case tr_user_id r of None \<Rightarrow> [] | Some v \<Rightarrow> [(''user_id'', json_nat (unat v))]) @
      [(''upload'', json_nat (unat (tr_upload r))), (''download'', json_nat (unat (tr_download r))),
       (''online_ips'', json_strings (tr_online_ips r))])"

definition device_limit_snapshot_json :: "device_limit_snapshot \<Rightarrow> json" where
  "device_limit_snapshot_json s = json_obj
     [(''node_tag'', JString (dls_node_tag s)),
      (''alive'', json_obj (map (\<lambda>(user, n). (nat_to_string (unat user), json_nat (unat n))) (dls_alive s))),
      (''alive_ips'', json_obj (map (\<lambda>(user, ips). (nat_to_string (unat user), json_strings ips)) (dls_alive_ips s))),
      (''mode'', json_nat (unat (dls_mode s)))]"

definition online_record_json :: "online_record \<Rightarrow> json" where
  "online_record_json r = json_obj
     [(''node_tag'', JString (or_node_tag r)), (''user_id'', json_nat (unat (or_user_id r))), (''ip'', JString (or_ip r))]"

definition tagged :: "string \<Rightarrow> (string \<times> json) list \<Rightarrow> json" where
  "tagged name members = json_obj ((''type'', JString name) # members)"

fun command_json :: "core_command \<Rightarrow> json" where
  "command_json (ApplyConfig config) = tagged ''apply_config'' [(''config'', config)]"
| "command_json (ApplyRoutes config) = tagged ''apply_routes'' [(''config'', config)]"
| "command_json (ApplyUserDelta ntag delta) = tagged ''apply_user_delta'' [(''node_tag'', JString ntag), (''delta'', delta)]"
| "command_json (ApplyDeviceLimitSnapshot snapshot) =
     tagged ''apply_device_limit_snapshot'' [(''snapshot'', device_limit_snapshot_json snapshot)]"
| "command_json (CommitDeviceLimitReport records) =
     tagged ''commit_device_limit_report'' [(''records'', JArray (map online_record_json records))]"
| "command_json (DrainTraffic minimum_bytes) = tagged ''drain_traffic'' [(''minimum_bytes'', json_nat (unat minimum_bytes))]"
| "command_json (RequeueTraffic records) = tagged ''requeue_traffic'' [(''records'', JArray (map traffic_record_json records))]"
| "command_json StatusCommand = tagged ''status'' []"
| "command_json MetricsCommand = tagged ''metrics'' []"
| "command_json TrimMemory = tagged ''trim_memory'' []"
| "command_json StopCommand = tagged ''stop'' []"

definition with_command_token :: "string option \<Rightarrow> json \<Rightarrow> json" where
  "with_command_token token cmd =
     (case (token, cmd) of
        (Some t, JObject members) \<Rightarrow> JObject (bt_insert ''token'' (JString t) members)
      | _ \<Rightarrow> cmd)"

section \<open>One request\<close>

datatype link_error = ConnectFailed string | ReadTimeoutFailed string | WriteTimeoutFailed string | WriteFailed string | ReadFailed string

record 'k core_link =
  cl_exchange :: "string \<Rightarrow> string \<Rightarrow> 'k \<Rightarrow> (link_error + string) \<times> 'k"
  cl_text :: "json \<Rightarrow> string"
  cl_decode :: "string \<Rightarrow> core_response result"
  cl_debug :: "core_response \<Rightarrow> string"

fun link_error_message :: "string \<Rightarrow> link_error \<Rightarrow> string" where
  "link_error_message addr (ConnectFailed e) = ''connect keli-core-rs control '' @ addr @ '': '' @ e"
| "link_error_message addr (ReadTimeoutFailed e) = ''set keli-core-rs read timeout: '' @ e"
| "link_error_message addr (WriteTimeoutFailed e) = ''set keli-core-rs write timeout: '' @ e"
| "link_error_message addr (WriteFailed e) = ''write control command: '' @ e"
| "link_error_message addr (ReadFailed e) = ''read control response: '' @ e"

definition control_token_from_env :: "string option \<Rightarrow> string option" where
  "control_token_from_env var = opt_filter (\<lambda>v. v \<noteq> []) (map_option trim var)"

definition client_new :: "string option \<Rightarrow> string \<Rightarrow> control_client" where
  "client_new var addr = \<lparr>ccl_addr = addr, ccl_token = control_token_from_env var\<rparr>"

definition with_token :: "string \<Rightarrow> control_client \<Rightarrow> control_client" where
  "with_token token client = client\<lparr>ccl_token := if trim token = [] then None else Some token\<rparr>"

definition send :: "'k core_link \<Rightarrow> control_client \<Rightarrow> core_command \<Rightarrow> 'k \<Rightarrow> core_response result \<times> 'k" where
  "send link client cmd k =
     (case cl_exchange link (trim (ccl_addr client))
          (cl_text link (with_command_token (ccl_token client) (command_json cmd)) @ [CHR 0x0A]) k of
        (Inl e, k') \<Rightarrow> (Err (link_error_message (ccl_addr client) e), k')
      | (Inr response, k') \<Rightarrow>
          (if trim response = [] then Err ''empty control response''
           else case cl_decode link (trim response) of
             Inl e \<Rightarrow> Err (''decode control response: '' @ e)
           | Inr r \<Rightarrow> Ok r, k'))"

text \<open>What every client method does with a response: the expected one, an error of the core, anything else.\<close>

definition response_error :: "'k core_link \<Rightarrow> string \<Rightarrow> core_response \<Rightarrow> string" where
  "response_error link what response =
     (case response of
        ErrorResponse message \<Rightarrow> message
      | _ \<Rightarrow> ''unexpected keli-core-rs '' @ what @ '' response: '' @ cl_debug link response)"

definition expecting ::
  "'k core_link \<Rightarrow> string \<Rightarrow> (core_response \<Rightarrow> 'a option) \<Rightarrow> core_response result \<times> 'k \<Rightarrow> 'a result \<times> 'k" where
  "expecting link what pick answer =
     io_then answer (\<lambda>response k.
       (case pick response of
          Some v \<Rightarrow> Ok v
        | None \<Rightarrow> Err (response_error link what response), k))"

definition control_status :: "'k core_link \<Rightarrow> control_client \<Rightarrow> 'k \<Rightarrow> core_response result \<times> 'k" where
  "control_status link client k = send link client StatusCommand k"

definition control_metrics :: "'k core_link \<Rightarrow> control_client \<Rightarrow> 'k \<Rightarrow> json result \<times> 'k" where
  "control_metrics link client k = expecting link ''metrics'' (\<lambda>r. case r of MetricsResponse v \<Rightarrow> Some v | _ \<Rightarrow> None)
     (send link client MetricsCommand k)"

definition trim_memory :: "'k core_link \<Rightarrow> control_client \<Rightarrow> 'k \<Rightarrow> unit result \<times> 'k" where
  "trim_memory link client k = expecting link ''trim memory'' (\<lambda>r. case r of MemoryTrimmed \<Rightarrow> Some () | _ \<Rightarrow> None)
     (send link client TrimMemory k)"

definition apply_config_response :: "'k core_link \<Rightarrow> control_client \<Rightarrow> json \<Rightarrow> 'k \<Rightarrow> core_response result \<times> 'k" where
  "apply_config_response link client config k = send link client (ApplyConfig config) k"

definition apply_routes_response :: "'k core_link \<Rightarrow> control_client \<Rightarrow> json \<Rightarrow> 'k \<Rightarrow> core_response result \<times> 'k" where
  "apply_routes_response link client config k = send link client (ApplyRoutes config) k"

definition apply_config :: "'k core_link \<Rightarrow> control_client \<Rightarrow> json \<Rightarrow> 'k \<Rightarrow> core_apply_result result \<times> 'k" where
  "apply_config link client config k = expecting link ''apply''
     (\<lambda>r. case r of
        AppliedResponse decision status listeners \<Rightarrow>
          Some \<lparr>car_decision = decision, car_status = status, car_listeners = listeners\<rparr>
      | _ \<Rightarrow> None) (apply_config_response link client config k)"

definition control_apply_user_delta ::
  "'k core_link \<Rightarrow> control_client \<Rightarrow> string \<Rightarrow> json \<Rightarrow> 'k \<Rightarrow> user_delta_apply result \<times> 'k" where
  "control_apply_user_delta link client ntag delta k = expecting link ''user delta''
     (\<lambda>r. case r of
        UserDeltaApplied ntag result status listeners \<Rightarrow>
          Some \<lparr>uda_node_tag = ntag, uda_result = result, uda_status = status, uda_listeners = listeners\<rparr>
      | _ \<Rightarrow> None) (send link client (ApplyUserDelta ntag delta) k)"

definition apply_device_limit_snapshot ::
  "'k core_link \<Rightarrow> control_client \<Rightarrow> device_limit_snapshot \<Rightarrow> 'k \<Rightarrow> unit result \<times> 'k" where
  "apply_device_limit_snapshot link client snapshot k = expecting link ''device limit snapshot''
     (\<lambda>r. case r of DeviceLimitSnapshotApplied ntag users \<Rightarrow> Some () | _ \<Rightarrow> None)
     (send link client (ApplyDeviceLimitSnapshot snapshot) k)"

definition commit_device_limit_report ::
  "'k core_link \<Rightarrow> control_client \<Rightarrow> online_record list \<Rightarrow> 'k \<Rightarrow> nat result \<times> 'k" where
  "commit_device_limit_report link client records k = expecting link ''device limit report''
     (\<lambda>r. case r of DeviceLimitReportCommitted count \<Rightarrow> Some count | _ \<Rightarrow> None)
     (send link client (CommitDeviceLimitReport records) k)"

definition drain_traffic :: "'k core_link \<Rightarrow> control_client \<Rightarrow> u64 \<Rightarrow> 'k \<Rightarrow> traffic_record list result \<times> 'k" where
  "drain_traffic link client minimum_bytes k = expecting link ''drain''
     (\<lambda>r. case r of TrafficResponse records \<Rightarrow> Some records | _ \<Rightarrow> None) (send link client (DrainTraffic minimum_bytes) k)"

definition requeue_traffic :: "'k core_link \<Rightarrow> control_client \<Rightarrow> traffic_record list \<Rightarrow> 'k \<Rightarrow> nat result \<times> 'k" where
  "requeue_traffic link client records k = expecting link ''requeue''
     (\<lambda>r. case r of TrafficRequeued count \<Rightarrow> Some count | _ \<Rightarrow> None) (send link client (RequeueTraffic records) k)"

definition control_stop :: "'k core_link \<Rightarrow> control_client \<Rightarrow> 'k \<Rightarrow> unit result \<times> 'k" where
  "control_stop link client k = expecting link ''stop'' (\<lambda>r. case r of StoppedResponse \<Rightarrow> Some () | _ \<Rightarrow> None)
     (send link client StopCommand k)"

text \<open>The operations the traffic report relies on, over the protocol.\<close>

definition core_control_of_link :: "'k core_link \<Rightarrow> 'k core_control" where
  "core_control_of_link link =
     \<lparr>cc_drain = drain_traffic link, cc_requeue = requeue_traffic link, cc_commit = commit_device_limit_report link,
      cc_apply_snapshot = apply_device_limit_snapshot link\<rparr>"

section \<open>What is sent\<close>

text \<open>
  A request of a client with a token carries the token next to the command: no member of a command is
  called \<open>token\<close>, and adding it leaves every other member as it was.
\<close>

lemma command_json_object: "\<exists>members. command_json c = JObject members \<and> bt_invar members \<and> bt_get members ''token'' = None"
  by (cases c) (simp_all add: tagged_def json_obj_def bt_collect_invar bt_collect_get)

lemma request_token:
  "json_get (with_command_token (Some t) (command_json c)) key =
     (if key = ''token'' then Some (JString t) else json_get (command_json c) key)"
proof -
  obtain members where m: "command_json c = JObject members" "bt_invar members" using command_json_object by blast
  then show ?thesis by (simp add: with_command_token_def bt_get_insert)
qed

lemma command_type_json_get: "json_get (command_json c) ''type'' = Some (JString (case c of
     ApplyConfig _ \<Rightarrow> ''apply_config'' | ApplyRoutes _ \<Rightarrow> ''apply_routes'' | ApplyUserDelta _ _ \<Rightarrow> ''apply_user_delta''
   | ApplyDeviceLimitSnapshot _ \<Rightarrow> ''apply_device_limit_snapshot'' | CommitDeviceLimitReport _ \<Rightarrow> ''commit_device_limit_report''
   | DrainTraffic _ \<Rightarrow> ''drain_traffic'' | RequeueTraffic _ \<Rightarrow> ''requeue_traffic'' | StatusCommand \<Rightarrow> ''status''
   | MetricsCommand \<Rightarrow> ''metrics'' | TrimMemory \<Rightarrow> ''trim_memory'' | StopCommand \<Rightarrow> ''stop''))"
  by (cases c) (simp_all add: tagged_def json_get_obj)

lemma expecting_Inr: "expecting link what pick answer = (Inr v, k) \<longleftrightarrow> (\<exists>r. answer = (Inr r, k) \<and> pick r = Some v)"
  by (auto simp: expecting_def io_then_Inr split: option.splits)

end
