(* ===== verification/Runner_Users.thy ===== *)
theory Runner_Users
  imports Core_Control
begin

text \<open>
  The user synchronisation of the runtime loop (\<open>src/src/runner.rs\<close>, with the saved state of
  \<open>src/src/user.rs\<close>): one cached list per node, refreshed from the panel as deltas or full lists,
  kept in a file, and passed on to the running core as user deltas. The panel, the control socket of
  the core, the file store, SHA-1 and the JSON encoding of the state are arguments.
\<close>

section \<open>The saved state\<close>

record sync_codec =
  sync_encode :: "user_sync_state \<Rightarrow> string result"
  sync_decode :: "string \<Rightarrow> user_sync_state result"

definition load_user_sync_state :: "sync_codec \<Rightarrow> string \<Rightarrow> file_store \<Rightarrow> user_sync_state result \<times> file_store" where
  "load_user_sync_state codec path fs =
     io_then (io_map_err (\<lambda>e. ''read user sync state '' @ path @ '': '' @ io_error_text e) (fs_read_to_string path fs)) (\<lambda>content fs.
       (case sync_decode codec content of
          Inl e \<Rightarrow> Err (''decode user sync state '' @ path @ '': '' @ e)
        | Inr state \<Rightarrow> Ok state, fs))"

definition ensure_sync_dir :: "string \<Rightarrow> file_store \<Rightarrow> unit result \<times> file_store" where
  "ensure_sync_dir path fs =
     (case path_parent path of
        None \<Rightarrow> (Ok (), fs)
      | Some parent \<Rightarrow> io_map_err (\<lambda>e. ''create user sync state dir '' @ parent @ '': '' @ io_error_text e) (fs_create_dir_all parent fs))"

definition replace_sync_file :: "string \<Rightarrow> string \<Rightarrow> file_store \<Rightarrow> unit result \<times> file_store" where
  "replace_sync_file path content fs =
     (let tmp = with_extension path ''json.tmp''
      in fs_replace (\<lambda>e. ''write user sync state '' @ tmp @ '': '' @ io_error_text e)
           (\<lambda>e. ''replace user sync state '' @ path @ '': '' @ io_error_text e) tmp path content fs)"

definition save_user_sync_state :: "sync_codec \<Rightarrow> string \<Rightarrow> user_sync_state \<Rightarrow> file_store \<Rightarrow> unit result \<times> file_store" where
  "save_user_sync_state codec path state fs =
     (case sync_encode codec state of
        Inl e \<Rightarrow> (Err (''encode user sync state '' @ path @ '': '' @ e), fs)
      | Inr content \<Rightarrow> io_then (ensure_sync_dir path fs) (\<lambda>_ fs. replace_sync_file path content fs))"

section \<open>Entries and what the panel and the core offer\<close>

record user_delta_change =
  ch_full :: bool
  ch_base_revision :: int
  ch_revision :: int
  ch_diff :: user_list_diff

record user_sync_entry =
  en_state :: user_sync_state
  en_delta_supported :: bool
  en_path :: string
  en_last_change :: "user_delta_change option"

type_synonym sync_map = "(string, user_sync_entry) btmap"
type_synonym users_by_tag = "(string, user_info list) btmap"

definition user_sync_state_default :: user_sync_state where
  "user_sync_state_default = \<lparr>st_revision = 0, st_users = [], updated_at = None\<rparr>"

record 'p user_panel =
  up_client :: "node_config \<Rightarrow> 'p \<Rightarrow> unit result \<times> 'p"
  up_user_delta :: "node_config \<Rightarrow> int \<Rightarrow> 'p \<Rightarrow> user_delta_body result \<times> 'p"
  up_user_list :: "node_config \<Rightarrow> 'p \<Rightarrow> user_info list option result \<times> 'p"

record ('k, 'p) runner_env =
  rn_random :: "u8 list result"
  rn_cwd :: "string option"
  rn_digest :: "string \<Rightarrow> u8 list"
  rn_state_dir :: "string option"
  rn_codec :: sync_codec
  rn_link :: "'k core_link"
  rn_panel :: "'p user_panel"

datatype refresh_payload_mode = FullSnapshots | TagMarkers

datatype delta_apply_outcome = Applied | Rebuild | Deferred

section \<open>Refreshing one node\<close>

definition load_runtime_user_sync_entry ::
  "('k, 'p) runner_env \<Rightarrow> node_config \<Rightarrow> file_store \<Rightarrow> user_sync_entry \<times> file_store" where
  "load_runtime_user_sync_entry env config fs =
     (let path = user_sync_state_path (rn_digest env) (rn_state_dir env) (nc_config_dir config) (nc_url config) (nc_node_id config);
          (r, fs') = load_user_sync_state (rn_codec env) path fs
      in (\<lparr>en_state = (case r of Inr state \<Rightarrow> state | Inl _ \<Rightarrow> user_sync_state_default), en_delta_supported = True,
           en_path = path, en_last_change = None\<rparr>, fs'))"

definition save_runtime_user_sync_entry :: "('k, 'p) runner_env \<Rightarrow> user_sync_entry \<Rightarrow> file_store \<Rightarrow> file_store" where
  "save_runtime_user_sync_entry env entry fs =
     (if trim (en_path entry) \<noteq> [] then snd (save_user_sync_state (rn_codec env) (en_path entry) (en_state entry) fs) else fs)"

definition user_delta_not_supported :: "string \<Rightarrow> bool" where
  "user_delta_not_supported error \<longleftrightarrow>
     (let error = to_ascii_lowercase error
      in sublist ''404'' error \<or> sublist ''405'' error \<or> sublist ''not found'' error \<or> sublist ''method not allowed'' error)"

definition user_list_diff_is_empty :: "user_list_diff \<Rightarrow> bool" where
  "user_list_diff_is_empty diff \<longleftrightarrow> diff_deleted diff = [] \<and> diff_added diff = [] \<and> diff_updated diff = []"

definition user_delta_body_is_revision_only :: "user_delta_body \<Rightarrow> bool" where
  "user_delta_body_is_revision_only delta \<longleftrightarrow> \<not> delta_full delta \<and> delta_deleted delta = [] \<and> delta_upsert delta = []"

definition runtime_user_delta_change :: "bool \<Rightarrow> int \<Rightarrow> int \<Rightarrow> user_list_diff \<Rightarrow> user_delta_change option" where
  "runtime_user_delta_change full base_revision revision diff =
     (if user_list_diff_is_empty diff \<and> base_revision = revision then None
      else Some \<lparr>ch_full = full, ch_base_revision = base_revision, ch_revision = revision, ch_diff = diff\<rparr>)"

definition set_state_revision :: "int \<Rightarrow> user_sync_entry \<Rightarrow> user_sync_entry" where
  "set_state_revision revision entry = entry\<lparr>en_state := (en_state entry)\<lparr>st_revision := revision\<rparr>\<rparr>"

definition apply_revision_only_user_delta ::
  "('k, 'p) runner_env \<Rightarrow> user_sync_entry \<Rightarrow> int \<Rightarrow> int \<Rightarrow> bool \<Rightarrow> file_store \<Rightarrow> user_sync_entry \<times> file_store" where
  "apply_revision_only_user_delta env entry base_revision revision native fs =
     (let entry' = (set_state_revision revision entry)
            \<lparr>en_last_change := if native then runtime_user_delta_change False base_revision revision empty_diff else None\<rparr>
      in (entry', if en_last_change entry' \<noteq> None then save_runtime_user_sync_entry env entry' fs else fs))"

abbreviation save_entry ::
  "('k, 'p) runner_env \<Rightarrow> user_sync_entry \<Rightarrow> ('k, 'p) report_world \<Rightarrow> ('k, 'p) report_world" where
  "save_entry env entry w \<equiv> w\<lparr>w_files := save_runtime_user_sync_entry env entry (w_files w)\<rparr>"

text \<open>A delta of the panel: a revision bump, no change at all, or a change.\<close>

definition apply_panel_delta ::
  "('k, 'p) runner_env \<Rightarrow> user_sync_entry \<Rightarrow> user_delta_body \<Rightarrow> bool \<Rightarrow> ('k, 'p) report_world \<Rightarrow>
   user_sync_entry \<times> ('k, 'p) report_world" where
  "apply_panel_delta env entry delta native w =
     (let base_revision = st_revision (en_state entry)
      in if user_delta_body_is_revision_only delta \<and> st_users (en_state entry) \<noteq> []
         then let (entry', fs) = apply_revision_only_user_delta env entry base_revision (delta_revision delta) native (w_files w)
              in (entry', w\<lparr>w_files := fs\<rparr>)
         else
           let change = runtime_user_delta_change (delta_full delta) base_revision (delta_revision delta)
                 (user_delta_body_diff (en_state entry) delta)
           in if change = None then ((set_state_revision (delta_revision delta) entry)\<lparr>en_last_change := None\<rparr>, w)
              else let entry' = entry\<lparr>en_state := step_state (apply_user_delta_body (en_state entry) delta), en_last_change := change\<rparr>
                   in (entry', save_entry env entry' w))"

definition apply_panel_list ::
  "('k, 'p) runner_env \<Rightarrow> user_sync_entry \<Rightarrow> user_info list \<Rightarrow> ('k, 'p) report_world \<Rightarrow>
   user_sync_entry \<times> ('k, 'p) report_world" where
  "apply_panel_list env entry users w =
     (let result = apply_full_user_list (en_state entry) users;
          change = runtime_user_delta_change True (st_revision (en_state entry)) (st_revision (en_state entry)) (step_diff result);
          entry' = entry\<lparr>en_state := step_state result, en_last_change := change\<rparr>
      in (entry', if change = None then w else save_entry env entry' w))"

definition panel_error :: "string \<Rightarrow> node_config \<Rightarrow> string \<Rightarrow> string" where
  "panel_error what config e =
     what @ '' ['' @ trim_end_matches is_slash (nc_url config) @ ''-'' @ nat_to_string (unat (nc_node_id config)) @ ''] error: '' @ e"

definition load_full_list ::
  "('k, 'p) runner_env \<Rightarrow> node_config \<Rightarrow> user_sync_entry \<Rightarrow> ('k, 'p) report_world \<Rightarrow>
   (unit result \<times> user_sync_entry) \<times> ('k, 'p) report_world" where
  "load_full_list env config entry w =
     (case on_panel (up_user_list (rn_panel env) config) w of
        (Inl e, w') \<Rightarrow> ((Err (panel_error ''get user list'' config e), entry), w')
      | (Inr users, w') \<Rightarrow>
          (let (entry', w'') = apply_panel_list env entry (unwrap_or [] users) w' in ((Ok (), entry'), w'')))"

definition load_users_for_node ::
  "('k, 'p) runner_env \<Rightarrow> node_config \<Rightarrow> user_sync_entry \<Rightarrow> bool \<Rightarrow> ('k, 'p) report_world \<Rightarrow>
   (unit result \<times> user_sync_entry) \<times> ('k, 'p) report_world" where
  "load_users_for_node env config entry native w =
     (if en_delta_supported entry then
        (case on_panel (up_user_delta (rn_panel env) config (st_revision (en_state entry))) w of
           (Inr delta, w') \<Rightarrow> (let (entry', w'') = apply_panel_delta env entry delta native w' in ((Ok (), entry'), w''))
         | (Inl e, w') \<Rightarrow>
             if user_delta_not_supported e then load_full_list env config (entry\<lparr>en_delta_supported := False\<rparr>) w'
             else ((Err (panel_error ''get user delta'' config e), entry), w'))
      else load_full_list env config entry w)"

section \<open>What a refresh tells the operator\<close>

text \<open>Counters are \<open>usize\<close>; the ones the code adds with \<open>saturating_add\<close> stop at \<open>usize::MAX\<close>.\<close>

definition usize_saturating_add :: "nat \<Rightarrow> nat \<Rightarrow> nat" where
  "usize_saturating_add a b = min u64_max (a + b)"

type_synonym revision_range = "int option \<times> int option"

definition update_revision_range :: "revision_range \<Rightarrow> int \<Rightarrow> revision_range" where
  "update_revision_range bounds revision =
     (Some (case fst bounds of None \<Rightarrow> revision | Some current \<Rightarrow> min current revision),
      Some (case snd bounds of None \<Rightarrow> revision | Some current \<Rightarrow> max current revision))"

definition revision_range_label :: "revision_range \<Rightarrow> string" where
  "revision_range_label bounds =
     (case bounds of
        (Some lo, Some hi) \<Rightarrow> if lo = hi then int_to_string lo else int_to_string lo @ ''..'' @ int_to_string hi
      | _ \<Rightarrow> ''unknown'')"

record delta_panel_summary =
  dp_nodes :: nat
  dp_full_snapshots :: nat
  dp_added :: nat
  dp_updated :: nat
  dp_deleted :: nat
  dp_cached_users :: nat
  dp_revisions :: revision_range

record delta_summary =
  ds_panels :: "(string, delta_panel_summary) btmap"
  ds_nodes :: nat
  ds_full_snapshots :: nat
  ds_added :: nat
  ds_updated :: nat
  ds_deleted :: nat
  ds_cached_users :: nat
  ds_base_revisions :: revision_range
  ds_revisions :: revision_range

record unchanged_panel_summary =
  upn_nodes :: nat
  upn_cached_users :: nat
  upn_revisions :: revision_range

record unchanged_summary =
  us_panels :: "(string, unchanged_panel_summary) btmap"
  us_snapshots :: "string btset"
  us_nodes :: nat
  us_cached_users :: nat
  us_unique_cached_users :: nat
  us_shared_cached_users :: nat
  us_unique_snapshots :: nat
  us_shared_entries :: nat
  us_revisions :: revision_range

definition delta_panel_summary_default :: delta_panel_summary where
  "delta_panel_summary_default =
     \<lparr>dp_nodes = 0, dp_full_snapshots = 0, dp_added = 0, dp_updated = 0, dp_deleted = 0, dp_cached_users = 0,
      dp_revisions = (None, None)\<rparr>"

definition delta_summary_default :: delta_summary where
  "delta_summary_default =
     \<lparr>ds_panels = [], ds_nodes = 0, ds_full_snapshots = 0, ds_added = 0, ds_updated = 0, ds_deleted = 0,
      ds_cached_users = 0, ds_base_revisions = (None, None), ds_revisions = (None, None)\<rparr>"

definition unchanged_panel_summary_default :: unchanged_panel_summary where
  "unchanged_panel_summary_default = \<lparr>upn_nodes = 0, upn_cached_users = 0, upn_revisions = (None, None)\<rparr>"

definition unchanged_summary_default :: unchanged_summary where
  "unchanged_summary_default =
     \<lparr>us_panels = [], us_snapshots = [], us_nodes = 0, us_cached_users = 0, us_unique_cached_users = 0,
      us_shared_cached_users = 0, us_unique_snapshots = 0, us_shared_entries = 0, us_revisions = (None, None)\<rparr>"

definition record_delta_panel :: "user_delta_change \<Rightarrow> nat \<Rightarrow> delta_panel_summary \<Rightarrow> delta_panel_summary" where
  "record_delta_panel change cached panel =
     panel\<lparr>dp_nodes := dp_nodes panel + 1,
       dp_full_snapshots := dp_full_snapshots panel + (if ch_full change then 1 else 0),
       dp_added := dp_added panel + length (diff_added (ch_diff change)),
       dp_updated := dp_updated panel + length (diff_updated (ch_diff change)),
       dp_deleted := dp_deleted panel + length (diff_deleted (ch_diff change)),
       dp_cached_users := dp_cached_users panel + cached,
       dp_revisions := update_revision_range (dp_revisions panel) (ch_revision change)\<rparr>"

definition record_delta_summary :: "node_config \<Rightarrow> user_sync_entry \<Rightarrow> delta_summary \<Rightarrow> delta_summary" where
  "record_delta_summary config entry s =
     (case en_last_change entry of
        None \<Rightarrow> s
      | Some change \<Rightarrow>
          let api_host = trim_end_matches is_slash (nc_url config);
              cached = length (st_users (en_state entry));
              panel = unwrap_or delta_panel_summary_default (bt_get (ds_panels s) api_host)
          in s\<lparr>ds_nodes := ds_nodes s + 1,
               ds_full_snapshots := ds_full_snapshots s + (if ch_full change then 1 else 0),
               ds_added := ds_added s + length (diff_added (ch_diff change)),
               ds_updated := ds_updated s + length (diff_updated (ch_diff change)),
               ds_deleted := ds_deleted s + length (diff_deleted (ch_diff change)),
               ds_cached_users := ds_cached_users s + cached,
               ds_base_revisions := update_revision_range (ds_base_revisions s) (ch_base_revision change),
               ds_revisions := update_revision_range (ds_revisions s) (ch_revision change),
               ds_panels := bt_insert api_host (record_delta_panel change cached panel) (ds_panels s)\<rparr>)"

text \<open>The bytes a snapshot is fingerprinted by: every number little endian, every \<open>uuid\<close> with its length.\<close>

fun le_string :: "nat \<Rightarrow> nat \<Rightarrow> string" where
  "le_string 0 v = []"
| "le_string (Suc n) v = char_of (v mod 256) # le_string n (v div 256)"

definition user_snapshot_bytes :: "user_info list \<Rightarrow> string" where
  "user_snapshot_bytes users =
     le_string 8 (length users) @
     concat (map (\<lambda>user. le_string 4 (unat (ui_id user)) @ le_string 8 (length (uuid user)) @ uuid user @
       le_string 4 (unat (speed_limit user)) @ le_string 4 (unat (device_limit user))) users)"

definition user_snapshot_fingerprint :: "(string \<Rightarrow> u8 list) \<Rightarrow> user_info list \<Rightarrow> string" where
  "user_snapshot_fingerprint digest users = concat (map hex_byte (digest (user_snapshot_bytes users)))"

definition record_snapshot :: "(string \<Rightarrow> u8 list) \<Rightarrow> user_info list \<Rightarrow> unchanged_summary \<Rightarrow> unchanged_summary" where
  "record_snapshot digest users s =
     (if users = [] then s
      else
        let fingerprint = user_snapshot_fingerprint digest users
        in if bs_contains (us_snapshots s) fingerprint
           then s\<lparr>us_shared_entries := usize_saturating_add (us_shared_entries s) 1,
                  us_shared_cached_users := usize_saturating_add (us_shared_cached_users s) (length users)\<rparr>
           else s\<lparr>us_snapshots := bs_insert fingerprint (us_snapshots s),
                  us_unique_snapshots := usize_saturating_add (us_unique_snapshots s) 1,
                  us_unique_cached_users := usize_saturating_add (us_unique_cached_users s) (length users)\<rparr>)"

definition record_unchanged_panel :: "user_sync_entry \<Rightarrow> unchanged_panel_summary \<Rightarrow> unchanged_panel_summary" where
  "record_unchanged_panel entry panel =
     panel\<lparr>upn_nodes := upn_nodes panel + 1,
       upn_cached_users := upn_cached_users panel + length (st_users (en_state entry)),
       upn_revisions := update_revision_range (upn_revisions panel) (st_revision (en_state entry))\<rparr>"

definition record_unchanged_summary ::
  "(string \<Rightarrow> u8 list) \<Rightarrow> node_config \<Rightarrow> user_sync_entry \<Rightarrow> unchanged_summary \<Rightarrow> unchanged_summary" where
  "record_unchanged_summary digest config entry s0 =
     (let api_host = trim_end_matches is_slash (nc_url config);
          s = record_snapshot digest (st_users (en_state entry))
            (s0\<lparr>us_nodes := us_nodes s0 + 1, us_cached_users := us_cached_users s0 + length (st_users (en_state entry))\<rparr>);
          panel = unwrap_or unchanged_panel_summary_default (bt_get (us_panels s) api_host)
      in s\<lparr>us_revisions := update_revision_range (us_revisions s) (st_revision (en_state entry)),
           us_panels := bt_insert api_host (record_unchanged_panel entry panel) (us_panels s)\<rparr>)"

definition panel_user_sync_log_message :: "node_config \<Rightarrow> string \<Rightarrow> user_sync_entry \<Rightarrow> string" where
  "panel_user_sync_log_message config ntag entry =
     (let api_host = trim_end_matches is_slash (nc_url config); node_id = nat_to_string (unat (nc_node_id config));
          users = nat_to_string (length (st_users (en_state entry)))
      in case en_last_change entry of
           Some change \<Rightarrow>
             let added = nat_to_string (length (diff_added (ch_diff change)));
                 updated = nat_to_string (length (diff_updated (ch_diff change)));
                 deleted = nat_to_string (length (diff_deleted (ch_diff change)));
                 revisions = '' base_revision='' @ int_to_string (ch_base_revision change) @ '' revision='' @ int_to_string (ch_revision change)
             in if ch_full change
                then ''panel full api_host='' @ api_host @ '' node_id='' @ node_id @ '' node_tag='' @ ntag @ '' users='' @ users @
                  '' added='' @ added @ '' updated='' @ updated @ '' deleted='' @ deleted @ revisions
                else ''panel delta api_host='' @ api_host @ '' node_id='' @ node_id @ '' node_tag='' @ ntag @ '' added='' @ added @
                  '' updated='' @ updated @ '' deleted='' @ deleted @ '' cached_users='' @ users @ revisions
         | None \<Rightarrow>
             ''panel unchanged api_host='' @ api_host @ '' node_id='' @ node_id @ '' node_tag='' @ ntag @ '' cached_users='' @ users @
             '' revision='' @ int_to_string (st_revision (en_state entry)))"

definition panel_user_sync_unchanged_summary_log_message :: "unchanged_summary \<Rightarrow> string option" where
  "panel_user_sync_unchanged_summary_log_message s =
     (if us_nodes s = 0 then None
      else Some (''panel unchanged summary panels='' @ nat_to_string (length (us_panels s)) @
        '' nodes='' @ nat_to_string (us_nodes s) @ '' cached_users='' @ nat_to_string (us_cached_users s) @
        '' unique_cached_users='' @ nat_to_string (us_unique_cached_users s) @
        '' shared_cached_users='' @ nat_to_string (us_shared_cached_users s) @
        '' unique_snapshots='' @ nat_to_string (us_unique_snapshots s) @
        '' shared_entries='' @ nat_to_string (us_shared_entries s) @ '' revisions='' @ revision_range_label (us_revisions s) @
        '' panel_breakdown='' @ join '';'' (map (\<lambda>(api_host, panel).
          api_host @ '':nodes='' @ nat_to_string (upn_nodes panel) @ '',cached_users='' @ nat_to_string (upn_cached_users panel) @
          '',revisions='' @ revision_range_label (upn_revisions panel)) (us_panels s))))"

definition panel_user_sync_delta_summary_log_message :: "delta_summary \<Rightarrow> string option" where
  "panel_user_sync_delta_summary_log_message s =
     (if ds_nodes s = 0 then None
      else Some (''panel delta summary panels='' @ nat_to_string (length (ds_panels s)) @
        '' nodes='' @ nat_to_string (ds_nodes s) @ '' full_snapshots='' @ nat_to_string (ds_full_snapshots s) @
        '' added='' @ nat_to_string (ds_added s) @ '' updated='' @ nat_to_string (ds_updated s) @
        '' deleted='' @ nat_to_string (ds_deleted s) @ '' cached_users='' @ nat_to_string (ds_cached_users s) @
        '' base_revisions='' @ revision_range_label (ds_base_revisions s) @ '' revisions='' @ revision_range_label (ds_revisions s) @
        '' panel_breakdown='' @ join '';'' (map (\<lambda>(api_host, panel).
          api_host @ '':nodes='' @ nat_to_string (dp_nodes panel) @ '',full_snapshots='' @ nat_to_string (dp_full_snapshots panel) @
          '',added='' @ nat_to_string (dp_added panel) @ '',updated='' @ nat_to_string (dp_updated panel) @
          '',deleted='' @ nat_to_string (dp_deleted panel) @ '',cached_users='' @ nat_to_string (dp_cached_users panel) @
          '',revisions='' @ revision_range_label (dp_revisions panel)) (ds_panels s))))"

text \<open>Rate limits of the two periodic log lines; the time of the last line is kept under a fixed key.\<close>

type_synonym log_times = "(string, int) btmap"

definition UNCHANGED_PANEL_USER_LOG_INTERVAL_SECS :: int where
  "UNCHANGED_PANEL_USER_LOG_INTERVAL_SECS = 60"

definition UNCHANGED_PANEL_USER_SUMMARY_LOG_KEY :: string where
  "UNCHANGED_PANEL_USER_SUMMARY_LOG_KEY = ''panel-user-sync-unchanged-summary''"

definition KELI_CORE_RELAY_METRICS_LOG_INTERVAL_SECS :: int where
  "KELI_CORE_RELAY_METRICS_LOG_INTERVAL_SECS = 60"

definition KELI_CORE_RELAY_METRICS_LOG_KEY :: string where
  "KELI_CORE_RELAY_METRICS_LOG_KEY = ''keli-core-relay-metrics''"

definition should_log_panel_user_sync_unchanged_at :: "string \<Rightarrow> int \<Rightarrow> log_times \<Rightarrow> bool \<times> log_times" where
  "should_log_panel_user_sync_unchanged_at key now logs =
     (case bt_get logs UNCHANGED_PANEL_USER_SUMMARY_LOG_KEY of
        Some prev \<Rightarrow>
          if prev \<le> now \<and> now - prev < UNCHANGED_PANEL_USER_LOG_INTERVAL_SECS then (False, logs)
          else (True, bt_insert UNCHANGED_PANEL_USER_SUMMARY_LOG_KEY now logs)
      | None \<Rightarrow> (True, bt_insert UNCHANGED_PANEL_USER_SUMMARY_LOG_KEY now logs))"

definition should_log_keli_core_relay_metrics_at :: "int \<Rightarrow> log_times \<Rightarrow> bool \<times> log_times" where
  "should_log_keli_core_relay_metrics_at now logs =
     (case bt_get logs KELI_CORE_RELAY_METRICS_LOG_KEY of
        Some prev \<Rightarrow>
          if prev \<le> now \<and> now - prev < KELI_CORE_RELAY_METRICS_LOG_INTERVAL_SECS then (False, logs)
          else (True, bt_insert KELI_CORE_RELAY_METRICS_LOG_KEY now logs)
      | None \<Rightarrow> (True, bt_insert KELI_CORE_RELAY_METRICS_LOG_KEY now logs))"

section \<open>Refreshing every node\<close>

definition runtime_plan_needs_cached_users :: "runtime_bootstrap_plan \<Rightarrow> string \<Rightarrow> user_sync_entry \<Rightarrow> bool" where
  "runtime_plan_needs_cached_users plan ntag entry \<longleftrightarrow>
     st_users (en_state entry) \<noteq> [] \<and>
     (let known = list_ex (\<lambda>node. ni_tag node = ntag) (rbp_node_infos plan)
      in case rbp_core_plan plan of
           None \<Rightarrow> known
         | Some core_plan \<Rightarrow>
             (case find (\<lambda>inbound. ib_tag inbound = ntag) (cp_inbounds core_plan) of
                Some inbound \<Rightarrow> ib_users inbound = []
              | None \<Rightarrow> known))"

fun share_sync_loop :: "(string \<Rightarrow> u8 list) \<Rightarrow> sync_map \<Rightarrow> (string, user_info list list) btmap \<Rightarrow> sync_map" where
  "share_sync_loop digest [] pool = []"
| "share_sync_loop digest ((tag, entry) # rest) pool =
     (let users = st_users (en_state entry)
      in if users = [] then (tag, entry) # share_sync_loop digest rest pool
         else
           let fingerprint = user_snapshot_fingerprint digest users;
               bucket = unwrap_or [] (bt_get pool fingerprint)
           in case find (\<lambda>candidate. candidate = users) bucket of
                Some existing \<Rightarrow>
                  (tag, entry\<lparr>en_state := (en_state entry)\<lparr>st_users := existing\<rparr>\<rparr>) #
                  share_sync_loop digest rest (bt_insert fingerprint bucket pool)
              | None \<Rightarrow> (tag, entry) # share_sync_loop digest rest (bt_insert fingerprint (bucket @ [users]) pool))"

definition share_user_sync_snapshots :: "(string \<Rightarrow> u8 list) \<Rightarrow> sync_map \<Rightarrow> sync_map" where
  "share_user_sync_snapshots digest sync = share_sync_loop digest sync []"

record refresh_state =
  rf_sync :: sync_map
  rf_users :: users_by_tag
  rf_delta :: delta_summary
  rf_unchanged :: unchanged_summary

text \<open>What a node adds to the answer: its tag when its users changed, its cached users when the plan has none.\<close>

definition refresh_payload ::
  "runtime_bootstrap_plan \<Rightarrow> refresh_payload_mode \<Rightarrow> string \<Rightarrow> user_sync_entry \<Rightarrow> users_by_tag \<Rightarrow> users_by_tag" where
  "refresh_payload plan mode ntag entry users =
     (if en_last_change entry \<noteq> None
      then bt_insert ntag (case mode of FullSnapshots \<Rightarrow> st_users (en_state entry) | TagMarkers \<Rightarrow> []) users
      else if runtime_plan_needs_cached_users plan ntag entry then bt_insert ntag (st_users (en_state entry)) users
      else users)"

definition refresh_record ::
  "('k, 'p) runner_env \<Rightarrow> runtime_bootstrap_plan \<Rightarrow> refresh_payload_mode \<Rightarrow> node_config \<Rightarrow> string \<Rightarrow> user_sync_entry \<Rightarrow>
   refresh_state \<Rightarrow> refresh_state" where
  "refresh_record env plan mode config ntag entry st =
     st\<lparr>rf_delta := (if en_last_change entry \<noteq> None then record_delta_summary config entry (rf_delta st) else rf_delta st),
        rf_unchanged := (if en_last_change entry \<noteq> None then rf_unchanged st
          else record_unchanged_summary (rn_digest env) config entry (rf_unchanged st)),
        rf_users := refresh_payload plan mode ntag entry (rf_users st)\<rparr>"

fun refresh_nodes ::
  "('k, 'p) runner_env \<Rightarrow> runtime_bootstrap_plan \<Rightarrow> refresh_payload_mode \<Rightarrow> node_info list \<Rightarrow> refresh_state \<Rightarrow>
   ('k, 'p) report_world \<Rightarrow> (unit result \<times> refresh_state) \<times> ('k, 'p) report_world" where
  "refresh_nodes env plan mode [] st w = ((Ok (), st), w)"
| "refresh_nodes env plan mode (node # nodes) st w =
     (case node_config_for_info (rbp_resolved plan) (ni_id node) (ni_tag node) of
        None \<Rightarrow> refresh_nodes env plan mode nodes st w
      | Some config \<Rightarrow>
          (case on_panel (up_client (rn_panel env) config) w of
             (Inl e, w1) \<Rightarrow> ((Err e, st), w1)
           | (Inr _, w1) \<Rightarrow>
               (let (entry, w2) =
                  (case bt_get (rf_sync st) (ni_tag node) of
                     Some entry \<Rightarrow> (entry, w1)
                   | None \<Rightarrow> on_files (load_runtime_user_sync_entry env config) w1)
                in case load_users_for_node env config entry (rbp_core_plan plan \<noteq> None) w2 of
                     ((Inr _, entry'), w3) \<Rightarrow>
                       refresh_nodes env plan mode nodes
                         (refresh_record env plan mode config (ni_tag node) entry'
                            (st\<lparr>rf_sync := bt_insert (ni_tag node) entry' (rf_sync st)\<rparr>)) w3
                   | ((Inl e, entry'), w3) \<Rightarrow>
                       (let st' = st\<lparr>rf_sync := bt_insert (ni_tag node) entry' (rf_sync st)\<rparr>
                        in if rm_continue_on_error (rc_machine (rbp_resolved plan))
                           then refresh_nodes env plan mode nodes st' w3
                           else ((Err e, st'), w3)))))"

definition refresh_state_init :: "sync_map \<Rightarrow> refresh_state" where
  "refresh_state_init sync =
     \<lparr>rf_sync = sync, rf_users = [], rf_delta = delta_summary_default, rf_unchanged = unchanged_summary_default\<rparr>"

definition load_users_by_node_tag_from_panel_with_state_and_mode ::
  "('k, 'p) runner_env \<Rightarrow> runtime_bootstrap_plan \<Rightarrow> refresh_payload_mode \<Rightarrow> sync_map \<Rightarrow> ('k, 'p) report_world \<Rightarrow>
   (users_by_tag result \<times> sync_map) \<times> ('k, 'p) report_world" where
  "load_users_by_node_tag_from_panel_with_state_and_mode env plan mode sync w =
     (case refresh_nodes env plan mode (rbp_node_infos plan) (refresh_state_init sync) w of
        ((Inl e, st), w') \<Rightarrow> ((Err e, rf_sync st), w')
      | ((Inr _, st), w') \<Rightarrow> ((Ok (rf_users st), share_user_sync_snapshots (rn_digest env) (rf_sync st)), w'))"

definition load_users_by_node_tag_from_panel ::
  "('k, 'p) runner_env \<Rightarrow> runtime_bootstrap_plan \<Rightarrow> ('k, 'p) report_world \<Rightarrow> users_by_tag result \<times> ('k, 'p) report_world" where
  "load_users_by_node_tag_from_panel env plan w =
     (let ((r, sync), w') = load_users_by_node_tag_from_panel_with_state_and_mode env plan FullSnapshots [] w in (r, w'))"

definition load_users_by_node_tag_from_panel_with_state ::
  "('k, 'p) runner_env \<Rightarrow> runtime_bootstrap_plan \<Rightarrow> sync_map \<Rightarrow> ('k, 'p) report_world \<Rightarrow>
   (users_by_tag result \<times> sync_map) \<times> ('k, 'p) report_world" where
  "load_users_by_node_tag_from_panel_with_state env plan sync w =
     load_users_by_node_tag_from_panel_with_state_and_mode env plan TagMarkers sync w"

section \<open>The saved state is replaced as a whole\<close>

lemma plain_path_named: "path \<noteq> [] \<Longrightarrow> last path \<noteq> slash \<Longrightarrow> last path \<noteq> CHR ''.'' \<Longrightarrow> file_name path \<noteq> None"
proof -
  assume p: "path \<noteq> []" "last path \<noteq> slash" "last path \<noteq> CHR ''.''"
  then have parts: "before_last_part path @ last_part path = path" by (simp add: path_core_parts path_core_plain)
  then have ne: "last_part path \<noteq> []" using p(1,2) before_last_part_end [of path] by (metis append_Nil2)
  then have "last (last_part path) = last path" using parts by (metis last_appendR)
  then have "last_part path \<notin> set [[], ''.'', ''..'']" using ne p(3) by auto
  then show ?thesis by (simp add: file_name_def)
qed

lemma sync_path_last: "user_sync_state_path digest env dir host node_id \<noteq> []"
  "last (user_sync_state_path digest env dir host node_id) = CHR ''n''"
  by (simp_all add: user_sync_state_path_def Let_def)

lemma sync_path_tmp:
  "with_extension (user_sync_state_path digest env dir host node_id) ''json.tmp'' \<noteq> user_sync_state_path digest env dir host node_id"
proof -
  let ?p = "user_sync_state_path digest env dir host node_id"
  have "file_name ?p \<noteq> None" by (rule plain_path_named) (simp_all add: sync_path_last)
  then obtain stem where "file_stem ?p = Some stem" by (auto simp: file_stem_def)
  from with_extension_file(1) [OF this, of "''json.tmp''"] have "last (with_extension ?p ''json.tmp'') = CHR ''p''" by simp
  moreover have "last ?p \<noteq> CHR ''p''" by (simp add: sync_path_last(2))
  ultimately show ?thesis by metis
qed

lemma ensure_sync_dir_files: "fs_files (snd (ensure_sync_dir path fs)) = fs_files fs"
  by (simp add: ensure_sync_dir_def split: option.splits)

lemma save_user_sync_state_files:
  assumes "save_user_sync_state codec path state fs = (r, fs')" "tmp = with_extension path ''json.tmp''" "tmp \<noteq> path"
  shows "fs_files fs' path = (if is_ok r then Some (projr (sync_encode codec state)) else fs_files fs path) \<and>
    (is_ok r \<longrightarrow> is_ok (sync_encode codec state)) \<and> (q \<noteq> path \<longrightarrow> q \<noteq> tmp \<longrightarrow> fs_files fs' q = fs_files fs q)"
proof -
  obtain d fs1 where d: "ensure_sync_dir path fs = (d, fs1)" by (rule prod.exhaust)
  then have fs1: "fs_files fs1 = fs_files fs" using ensure_sync_dir_files by (metis snd_conv)
  consider (err) e where "r = Inl e" "fs_files fs' = fs_files fs"
    | (ok) content where "sync_encode codec state = Inr content" "replace_sync_file path content fs1 = (r, fs')"
    using assms(1) d fs1 by (cases "sync_encode codec state"; cases d) (auto simp: save_user_sync_state_def)
  then show ?thesis
  proof cases
    case ok
    from fs_replace_files [OF ok(2) [unfolded replace_sync_file_def Let_def, folded assms(2)] assms(3), of q] show ?thesis using ok(1) fs1 by simp
  qed simp
qed

section \<open>What a recorded change says\<close>

text \<open>A diff read as an operation on the lookups of a user list: deletions first, then updates and additions.\<close>

definition replay_diff :: "user_list_diff \<Rightarrow> user_info list \<Rightarrow> string \<Rightarrow> user_info option" where
  "replay_diff diff old k = last_by_uuid (next_users (apply_user_delta old (diff_deleted diff) (diff_updated diff @ diff_added diff))) k"

lemma replay_diff_lookup:
  "replay_diff diff old k =
     (case last_by_uuid (diff_updated diff @ diff_added diff) k of
        Some u \<Rightarrow> Some u
      | None \<Rightarrow> if k \<in> uuid ` set (diff_deleted diff) then None else last_by_uuid old k)"
  by (simp add: replay_diff_def apply_user_delta_lookup)

lemma replay_empty: "user_list_diff_is_empty diff \<Longrightarrow> replay_diff diff old k = last_by_uuid old k"
  by (simp add: replay_diff_lookup user_list_diff_is_empty_def)

lemma empty_diff_is_empty [simp]: "user_list_diff_is_empty empty_diff"
  by (simp add: user_list_diff_is_empty_def empty_diff_def)

lemma replay_compare_user_list: "replay_diff (compare_user_list old new) old k = last_by_uuid new k"
  using keyed_values_get [OF keyed_user_refs, of new k]
  by (simp add: replay_diff_def compare_user_list_replay user_refs_get option.map_ident)

lemma replay_incremental:
  assumes "distinct (map uuid old)"
  shows "replay_diff (compare_incremental_delta old dels ups) old k = last_by_uuid (next_users (apply_user_delta old dels ups)) k"
proof -
  obtain m g p where l: "incremental_loop (bs_collect (map uuid dels)) old (user_refs_by_uuid ups) [] [] = (m, g, p)"
    by (metis prod_cases3)
  note out = incremental_loop_out [OF user_refs_invar assms l, unfolded user_refs_get]
  have m: "bt_get m k = (if k \<in> uuid ` set old \<and> k \<notin> uuid ` set dels then None else last_by_uuid ups k)" for k
    using out by (auto simp: image_iff)
  have "keyed (\<lambda>u. u) m" using out m last_by_uuid_SomeD by (auto simp: keyed_def split: if_splits)
  from keyed_values_get [OF this, of k] have added: "last_by_uuid (bt_values m) k = bt_get m k" by (simp add: option.map_ident)
  have gone: "k \<in> uuid ` set g \<longleftrightarrow> k \<in> uuid ` set old \<and> k \<in> uuid ` set dels" using out by (auto simp: image_iff)
  have p: "set p = {n. \<exists>u \<in> set old. uuid u \<notin> uuid ` set dels \<and> last_by_uuid ups (uuid u) = Some n \<and> u \<noteq> n}"
  proof -
    have "last_by_uuid ups (uuid u) = Some n \<and> user_changed u n \<longleftrightarrow> last_by_uuid ups (uuid u) = Some n \<and> u \<noteq> n" for u n
      using last_by_uuid_SomeD [of ups "uuid u" n] user_changed_iff [of u n] by auto
    moreover have "set p = {n. \<exists>u \<in> set old. uuid u \<notin> uuid ` set dels \<and> last_by_uuid ups (uuid u) = Some n \<and> user_changed u n}"
      using out by simp
    ultimately show ?thesis by simp
  qed
  have upd: "last_by_uuid p k = (if k \<in> uuid ` set old \<and> k \<notin> uuid ` set dels \<and> last_by_uuid ups k \<noteq> last_by_uuid old k
      then last_by_uuid ups k else None)"
  proof (cases "last_by_uuid p k")
    case None
    have "last_by_uuid ups k = last_by_uuid old k"
      if x: "x \<in> set old" "uuid x = k" and k: "k \<notin> uuid ` set dels" and a: "last_by_uuid ups k = Some a" for x a
    proof (rule ccontr)
      assume "last_by_uuid ups k \<noteq> last_by_uuid old k"
      then have "x \<noteq> a" using x a last_by_uuid_distinct [OF assms, of k x] by auto
      then have "a \<in> set p" using p x k a by auto
      moreover have "uuid a = k" using last_by_uuid_SomeD a by blast
      ultimately show False using None last_by_uuid_None [of p k] by auto
    qed
    then show ?thesis using None by (cases "last_by_uuid ups k") auto
  next
    case (Some n)
    then have "n \<in> set p" "uuid n = k" using last_by_uuid_SomeD by blast+
    then obtain u where u: "u \<in> set old" "uuid u \<notin> uuid ` set dels" "last_by_uuid ups (uuid u) = Some n" "u \<noteq> n"
      using p by auto
    moreover have "uuid u = k" using last_by_uuid_SomeD [OF u(3)] \<open>uuid n = k\<close> by simp
    ultimately show ?thesis using Some last_by_uuid_distinct [OF assms, of k u] by auto
  qed
  show ?thesis
    unfolding replay_diff_lookup apply_user_delta_lookup
    using added gone upd m [of k] last_by_uuid_None [of old k]
    by (auto simp: compare_incremental_delta_def l last_by_uuid_append split: option.splits if_splits)
qed

lemma replay_delta_body:
  assumes "distinct (map uuid (st_users st))"
  shows "replay_diff (user_delta_body_diff st d) (st_users st) k = last_by_uuid (st_users (step_state (apply_user_delta_body st d))) k"
proof (cases "delta_full d")
  case True
  then show ?thesis
    by (auto simp: user_delta_body_diff_def apply_user_delta_body_def Let_def replay_compare_user_list replay_empty)
next
  case False
  then show ?thesis using replay_incremental [OF assms, of "delta_deleted d" "delta_upsert d" k]
    by (auto simp: user_delta_body_diff_def apply_user_delta_body_def Let_def apply_user_delta_lookup)
qed

lemma replay_full_list:
  "replay_diff (step_diff (apply_full_user_list st us)) (st_users st) k = last_by_uuid (st_users (step_state (apply_full_user_list st us))) k"
  by (auto simp: apply_full_user_list_def replay_compare_user_list replay_empty)

text \<open>What the recorded change of an entry has to say about the step from one state to the next.\<close>

definition change_describes :: "user_sync_state \<Rightarrow> user_sync_entry \<Rightarrow> bool" where
  "change_describes before after \<longleftrightarrow>
     (case en_last_change after of
        None \<Rightarrow> \<forall>k. last_by_uuid (st_users (en_state after)) k = last_by_uuid (st_users before) k
      | Some change \<Rightarrow>
          ch_base_revision change = st_revision before \<and> ch_revision change = st_revision (en_state after) \<and>
          (\<forall>k. last_by_uuid (st_users (en_state after)) k = replay_diff (ch_diff change) (st_users before) k))"

lemma delta_change_cases:
  "runtime_user_delta_change full base revision diff = None \<longleftrightarrow> user_list_diff_is_empty diff \<and> base = revision"
  "runtime_user_delta_change full base revision diff = Some change \<Longrightarrow>
     ch_full change = full \<and> ch_base_revision change = base \<and> ch_revision change = revision \<and> ch_diff change = diff"
  by (auto simp: runtime_user_delta_change_def split: if_splits)

lemma apply_panel_delta_describes:
  assumes "apply_panel_delta env entry delta native w = (entry', w')" "distinct (map uuid (st_users (en_state entry)))"
  shows "change_describes (en_state entry) entry'"
proof (cases "user_delta_body_is_revision_only delta \<and> st_users (en_state entry) \<noteq> []")
  case True
  then have "entry' = fst (apply_revision_only_user_delta env entry (st_revision (en_state entry)) (delta_revision delta) native (w_files w))"
    using assms(1) by (auto simp: apply_panel_delta_def split: prod.splits)
  then show ?thesis
    by (auto simp: change_describes_def apply_revision_only_user_delta_def set_state_revision_def Let_def replay_empty
        dest: delta_change_cases(2) split: option.splits)
next
  case False
  let ?change = "runtime_user_delta_change (delta_full delta) (st_revision (en_state entry)) (delta_revision delta)
    (user_delta_body_diff (en_state entry) delta)"
  have rev: "st_revision (step_state (apply_user_delta_body (en_state entry) delta)) = delta_revision delta"
    by (simp add: apply_user_delta_body_def Let_def)
  show ?thesis
  proof (cases ?change)
    case None
    with False assms(1) have "entry' = (set_state_revision (delta_revision delta) entry)\<lparr>en_last_change := None\<rparr>"
      by (auto simp: apply_panel_delta_def Let_def)
    then show ?thesis by (simp add: change_describes_def set_state_revision_def)
  next
    case (Some change)
    with False assms(1)
    have e: "en_state entry' = step_state (apply_user_delta_body (en_state entry) delta)" "en_last_change entry' = Some change"
      by (auto simp: apply_panel_delta_def Let_def)
    show ?thesis using delta_change_cases(2) [OF Some] rev replay_delta_body [OF assms(2)] by (simp add: change_describes_def e)
  qed
qed

lemma apply_panel_list_describes:
  assumes "apply_panel_list env entry us w = (entry', w')"
  shows "change_describes (en_state entry) entry'"
proof -
  let ?r = "apply_full_user_list (en_state entry) us" and ?rev = "st_revision (en_state entry)"
  have e: "en_state entry' = step_state ?r" "en_last_change entry' = runtime_user_delta_change True ?rev ?rev (step_diff ?r)"
    using assms by (auto simp: apply_panel_list_def Let_def)
  have "st_revision (step_state ?r) = ?rev" by (simp add: apply_full_user_list_def)
  then show ?thesis
    using replay_full_list [of "en_state entry" us] replay_empty [of "step_diff ?r"]
    by (auto simp: change_describes_def e delta_change_cases(1) dest: delta_change_cases(2) split: option.splits)
qed

lemma load_full_list_Inr:
  assumes "load_full_list env config entry w = ((Inr u, entry'), w')"
  shows "\<exists>us w1 w2. apply_panel_list env entry us w1 = (entry', w2)"
  using assms by (auto simp: load_full_list_def split: prod.splits sum.splits)

lemma load_users_for_node_cases:
  assumes "load_users_for_node env config entry native w = ((Inr u, entry'), w')"
  obtains (delta) d w1 w2 where "apply_panel_delta env entry d native w1 = (entry', w2)"
    | (full) e us w1 w2 where "apply_panel_list env e us w1 = (entry', w2)" "en_state e = en_state entry"
proof (cases "en_delta_supported entry")
  case False
  then have "load_full_list env config entry w = ((Inr u, entry'), w')" using assms by (simp add: load_users_for_node_def)
  then show ?thesis using load_full_list_Inr full by blast
next
  case True
  obtain r w1 where r: "on_panel (up_user_delta (rn_panel env) config (st_revision (en_state entry))) w = (r, w1)"
    by (rule prod.exhaust)
  note def = assms [unfolded load_users_for_node_def r]
  show ?thesis
  proof (cases r)
    case (Inl e)
    with def True have "user_delta_not_supported e" by (cases "user_delta_not_supported e") simp_all
    with Inl def True have "load_full_list env config (entry\<lparr>en_delta_supported := False\<rparr>) w1 = ((Inr u, entry'), w')" by simp
    from load_full_list_Inr [OF this] show ?thesis using full by fastforce
  next
    case (Inr d)
    with def True show ?thesis using delta by (auto split: prod.splits)
  qed
qed

lemma load_users_for_node_describes:
  assumes "load_users_for_node env config entry native w = ((Inr u, entry'), w')" "distinct (map uuid (st_users (en_state entry)))"
  shows "change_describes (en_state entry) entry'"
  using assms(1)
proof (cases rule: load_users_for_node_cases)
  case delta
  then show ?thesis using apply_panel_delta_describes assms(2) by blast
next
  case full
  then show ?thesis using apply_panel_list_describes by metis
qed

section \<open>A whole refresh\<close>

lemma share_sync_loop_same:
  "share_sync_loop digest sync pool = sync"
proof (induction digest sync pool rule: share_sync_loop.induct)
  case (2 digest tag entry rest pool)
  have "find (\<lambda>candidate. candidate = users) bucket = Some existing \<Longrightarrow> existing = users" for users :: "user_info list" and bucket existing
    by (auto simp: find_Some_iff)
  then show ?case using 2 by (auto simp: Let_def split: option.splits)
qed simp

lemma share_user_sync_snapshots_same [simp]: "share_user_sync_snapshots digest sync = sync"
  by (simp add: share_user_sync_snapshots_def share_sync_loop_same)

definition node_refreshed :: "runtime_bootstrap_plan \<Rightarrow> string \<Rightarrow> user_sync_entry \<Rightarrow> user_sync_entry \<Rightarrow> bool \<Rightarrow> bool" where
  "node_refreshed plan ntag before after listed \<longleftrightarrow>
     change_describes (en_state before) after \<and>
       (listed \<longleftrightarrow> en_last_change after \<noteq> None \<or> runtime_plan_needs_cached_users plan ntag after) \<or>
     rm_continue_on_error (rc_machine (rbp_resolved plan)) \<and> en_state after = en_state before \<and> \<not> listed"

lemma load_full_list_Inl: "load_full_list env config entry w = ((Inl e, entry'), w') \<Longrightarrow> en_state entry' = en_state entry"
  by (auto simp: load_full_list_def split: prod.splits sum.splits)

lemma load_users_for_node_Inl:
  "load_users_for_node env config entry native w = ((Inl e, entry'), w') \<Longrightarrow> en_state entry' = en_state entry"
  by (auto simp: load_users_for_node_def dest: load_full_list_Inl split: prod.splits sum.splits if_splits)

lemma refresh_record_sync [simp]: "rf_sync (refresh_record env plan mode config ntag entry st) = rf_sync st"
  by (simp add: refresh_record_def)

lemma refresh_record_users:
  "rf_users (refresh_record env plan mode config ntag entry st) = refresh_payload plan mode ntag entry (rf_users st)"
  by (simp add: refresh_record_def)

lemma refresh_payload_get:
  assumes "bt_invar users"
  shows "bt_invar (refresh_payload plan mode ntag entry users)"
    "tag \<noteq> ntag \<Longrightarrow> bt_get (refresh_payload plan mode ntag entry users) tag = bt_get users tag"
    "bt_get users ntag = None \<Longrightarrow> bt_get (refresh_payload plan mode ntag entry users) ntag \<noteq> None \<longleftrightarrow>
       en_last_change entry \<noteq> None \<or> runtime_plan_needs_cached_users plan ntag entry"
  using assms by (auto simp: refresh_payload_def bt_get_insert bt_insert_invar)

text \<open>One node of the loop: skipped, refreshed, or failed and passed over.\<close>

lemma refresh_nodes_Cons:
  assumes "refresh_nodes env plan mode (node # nodes) st w = ((Inr u, st'), w')"
  obtains (skip) "node_config_for_info (rbp_resolved plan) (ni_id node) (ni_tag node) = None"
      "refresh_nodes env plan mode nodes st w = ((Inr u, st'), w')"
    | (loaded) config entry entry' v w1 w2 where
        "node_config_for_info (rbp_resolved plan) (ni_id node) (ni_tag node) = Some config"
        "bt_get (rf_sync st) (ni_tag node) \<noteq> None \<Longrightarrow> bt_get (rf_sync st) (ni_tag node) = Some entry"
        "load_users_for_node env config entry (rbp_core_plan plan \<noteq> None) w1 = ((Inr v, entry'), w2)"
        "refresh_nodes env plan mode nodes (refresh_record env plan mode config (ni_tag node) entry'
            (st\<lparr>rf_sync := bt_insert (ni_tag node) entry' (rf_sync st)\<rparr>)) w2 = ((Inr u, st'), w')"
    | (failed) config entry entry' e w1 w2 where
        "node_config_for_info (rbp_resolved plan) (ni_id node) (ni_tag node) = Some config"
        "bt_get (rf_sync st) (ni_tag node) \<noteq> None \<Longrightarrow> bt_get (rf_sync st) (ni_tag node) = Some entry"
        "load_users_for_node env config entry (rbp_core_plan plan \<noteq> None) w1 = ((Inl e, entry'), w2)"
        "rm_continue_on_error (rc_machine (rbp_resolved plan))"
        "refresh_nodes env plan mode nodes (st\<lparr>rf_sync := bt_insert (ni_tag node) entry' (rf_sync st)\<rparr>) w2 = ((Inr u, st'), w')"
proof (cases "node_config_for_info (rbp_resolved plan) (ni_id node) (ni_tag node)")
  case None
  with assms skip show ?thesis by simp
next
  case (Some config)
  obtain c w0 where c: "on_panel (up_client (rn_panel env) config) w = (c, w0)" by (rule prod.exhaust)
  obtain entry w1 where entry: "(case bt_get (rf_sync st) (ni_tag node) of Some entry \<Rightarrow> (entry, w0)
      | None \<Rightarrow> on_files (load_runtime_user_sync_entry env config) w0) = (entry, w1)" by (rule prod.exhaust)
  have same: "bt_get (rf_sync st) (ni_tag node) = Some entry" if "bt_get (rf_sync st) (ni_tag node) \<noteq> None"
    using entry that by auto
  obtain r entry' w2 where l: "load_users_for_node env config entry (rbp_core_plan plan \<noteq> None) w1 = ((r, entry'), w2)"
    by (metis prod.exhaust)
  note def = assms [unfolded refresh_nodes.simps Some option.case c]
  show ?thesis
  proof (cases c)
    case (Inl e)
    with def show ?thesis by simp
  next
    case c': (Inr v)
    note def' = def [unfolded c' prod.case sum.case Let_def entry l]
    show ?thesis
    proof (cases r)
      case (Inl e)
      with def' have ok: "rm_continue_on_error (rc_machine (rbp_resolved plan))"
        "refresh_nodes env plan mode nodes (st\<lparr>rf_sync := bt_insert (ni_tag node) entry' (rf_sync st)\<rparr>) w2 = ((Inr u, st'), w')"
        by (simp_all split: if_splits)
      show ?thesis by (rule failed [OF Some same l [unfolded Inl] ok])
    next
      case (Inr v)
      with def' have ok: "refresh_nodes env plan mode nodes (refresh_record env plan mode config (ni_tag node) entry'
          (st\<lparr>rf_sync := bt_insert (ni_tag node) entry' (rf_sync st)\<rparr>)) w2 = ((Inr u, st'), w')" by simp
      show ?thesis by (rule loaded [OF Some same l [unfolded Inr ] ok])
    qed
  qed
qed

lemma refresh_nodes_frame:
  assumes "refresh_nodes env plan mode nodes st w = ((Inr u, st'), w')" "bt_invar (rf_sync st)" "bt_invar (rf_users st)"
    "tag \<notin> ni_tag ` set nodes"
  shows "bt_get (rf_sync st') tag = bt_get (rf_sync st) tag \<and> bt_get (rf_users st') tag = bt_get (rf_users st) tag"
  using assms
proof (induction nodes arbitrary: st w)
  case (Cons node nodes)
  have tag: "tag \<noteq> ni_tag node" "tag \<notin> ni_tag ` set nodes" using Cons.prems(4) by auto
  from Cons.prems(1) show ?case
  proof (cases rule: refresh_nodes_Cons)
    case skip
    then show ?thesis using Cons.IH [OF skip(2) Cons.prems(2,3) tag(2)] by simp
  next
    case (loaded config entry entry' v w1 w2)
    from Cons.IH [OF loaded(4) _ _ tag(2)] Cons.prems(2,3) tag(1) show ?thesis
      by (simp add: bt_insert_invar bt_get_insert refresh_record_users refresh_payload_get)
  next
    case (failed config entry entry' e w1 w2)
    from Cons.IH [OF failed(5) _ _ tag(2)] Cons.prems(2,3) tag(1) show ?thesis by (simp add: bt_insert_invar bt_get_insert)
  qed
qed simp

lemma refresh_nodes_node:
  assumes "refresh_nodes env plan mode nodes st w = ((Inr u, st'), w')" "bt_invar (rf_sync st)" "bt_invar (rf_users st)"
    "distinct (map ni_tag nodes)" "node \<in> set nodes"
    "node_config_for_info (rbp_resolved plan) (ni_id node) (ni_tag node) \<noteq> None"
    "bt_get (rf_sync st) (ni_tag node) = Some before" "bt_get (rf_users st) (ni_tag node) = None"
    "distinct (map uuid (st_users (en_state before)))"
  shows "\<exists>after. bt_get (rf_sync st') (ni_tag node) = Some after \<and>
    node_refreshed plan (ni_tag node) before after (bt_contains_key (rf_users st') (ni_tag node))"
  using assms
proof (induction nodes arbitrary: st w)
  case (Cons n nodes)
  have d: "distinct (map ni_tag nodes)" and fresh: "ni_tag n \<notin> ni_tag ` set nodes" using Cons.prems(4) by auto
  note inv = bt_insert_invar [OF Cons.prems(2)]
  note get = bt_get_insert
  note frame = refresh_nodes_frame [OF _ _ _ fresh]
  have here: "node = n \<or> node \<in> set nodes \<and> ni_tag node \<noteq> ni_tag n" using Cons.prems(5) fresh by (metis image_eqI set_ConsD)
  from Cons.prems(1) show ?case
  proof (cases rule: refresh_nodes_Cons)
    case skip
    then have "node \<noteq> n" using Cons.prems(6) by auto
    then show ?thesis using Cons.IH [OF skip(2) Cons.prems(2,3) d _ Cons.prems(6-9)] here by blast
  next
    case (loaded config entry entry' v w1 w2)
    let ?st = "refresh_record env plan mode config (ni_tag n) entry' (st\<lparr>rf_sync := bt_insert (ni_tag n) entry' (rf_sync st)\<rparr>)"
    have users: "rf_users ?st = refresh_payload plan mode (ni_tag n) entry' (rf_users st)" by (simp add: refresh_record_users)
    have inv': "bt_invar (rf_sync ?st)" "bt_invar (rf_users ?st)" using inv Cons.prems(3) by (simp_all add: users refresh_payload_get(1))
    show ?thesis
    proof (cases "node = n")
      case True
      then have "entry = before" using loaded(2) Cons.prems(7) by auto
      then have "change_describes (en_state before) entry'" using load_users_for_node_describes [OF loaded(3)] Cons.prems(9) by simp
      then show ?thesis
        using frame [OF loaded(4) inv'] refresh_payload_get(3) [OF Cons.prems(3), of "ni_tag n" plan mode entry'] Cons.prems(8) True
        by (simp add: node_refreshed_def users get bt_contains_key_def)
    next
      case False
      with here have n: "node \<in> set nodes" "ni_tag node \<noteq> ni_tag n" by auto
      from Cons.IH [OF loaded(4) inv' d n(1) Cons.prems(6) _ _ Cons.prems(9)] show ?thesis
        using Cons.prems(3,7,8) n(2) by (simp add: users get refresh_payload_get(2))
    qed
  next
    case (failed config entry entry' e w1 w2)
    let ?st = "st\<lparr>rf_sync := bt_insert (ni_tag n) entry' (rf_sync st)\<rparr>"
    have inv': "bt_invar (rf_sync ?st)" "bt_invar (rf_users ?st)" using inv Cons.prems(3) by simp_all
    show ?thesis
    proof (cases "node = n")
      case True
      then have "entry = before" using failed(2) Cons.prems(7) by auto
      then have "en_state entry' = en_state before" using load_users_for_node_Inl [OF failed(3)] by simp
      then show ?thesis using frame [OF failed(5) inv'] failed(4) Cons.prems(8) True
        by (simp add: node_refreshed_def get bt_contains_key_def)
    next
      case False
      with here have n: "node \<in> set nodes" "ni_tag node \<noteq> ni_tag n" by auto
      from Cons.IH [OF failed(5) inv' d n(1) Cons.prems(6) _ _ Cons.prems(9)] show ?thesis
        using Cons.prems(7,8) n(2) by (simp add: get)
    qed
  qed
qed simp

section \<open>Properties\<close>


text \<open>The codec keeps a state, as UTF-8 text.\<close>

definition sync_codec_ok :: "sync_codec \<Rightarrow> bool" where
  "sync_codec_ok codec \<longleftrightarrow>
     (\<forall>state content. sync_encode codec state = Inr content \<longrightarrow> utf8_valid content \<and> sync_decode codec content = Inr state)"

definition saved_state :: "sync_codec \<Rightarrow> string \<Rightarrow> file_store \<Rightarrow> user_sync_state result" where
  "saved_state codec path fs = fst (load_user_sync_state codec path (fs\<lparr>fs_faults := []\<rparr>))"

lemma load_no_faults:
  "fst (fs_read_to_string path (fs\<lparr>fs_faults := []\<rparr>)) =
     (case fs_files fs path of None \<Rightarrow> Inl NotFound
      | Some content \<Rightarrow> if utf8_valid content then Inr content else Inl (IoError ''stream did not contain valid UTF-8''))"
  by (simp add: fs_read_to_string_def fs_read_def next_fault_def split: option.splits)

lemma saved_state_cong: "fs_files fs path = fs_files fs' path \<Longrightarrow> saved_state codec path fs = saved_state codec path fs'"
  using load_no_faults [of path fs] load_no_faults [of path fs']
  by (cases "fs_read_to_string path (fs\<lparr>fs_faults := []\<rparr>)"; cases "fs_read_to_string path (fs'\<lparr>fs_faults := []\<rparr>)";
      cases "fst (fs_read_to_string path (fs\<lparr>fs_faults := []\<rparr>))")
    (simp_all add: saved_state_def load_user_sync_state_def)

lemma saved_state_Inr:
  assumes "sync_codec_ok codec" "fs_files fs path = Some content" "sync_encode codec state = Inr content"
  shows "saved_state codec path fs = Inr state"
proof -
  have c: "utf8_valid content" "sync_decode codec content = Inr state" using assms(1,3) by (auto simp: sync_codec_ok_def)
  then have "fst (fs_read_to_string path (fs\<lparr>fs_faults := []\<rparr>)) = Inr content" using assms(2) by (simp add: load_no_faults)
  then show ?thesis using c(2)
    by (cases "fs_read_to_string path (fs\<lparr>fs_faults := []\<rparr>)") (simp add: saved_state_def load_user_sync_state_def)
qed

text \<open>
  C31: the saved state of a node survives every failed write. Whatever operations fail, and however much of a
  failed write reached the disk, a later start loads the new state when the save succeeded and the
  state saved before otherwise, and no file but the state and its temporary file is touched.
\<close>

theorem save_user_sync_state_durable:
  assumes "sync_codec_ok codec" "path = user_sync_state_path digest dir_env dir host node_id"
    "save_user_sync_state codec path state fs = (r, fs')"
  shows "saved_state codec path fs' = (if is_ok r then Inr state else saved_state codec path fs) \<and>
    (q = path \<or> q = with_extension path ''json.tmp'' \<or> fs_files fs' q = fs_files fs q)"
proof -
  define tmp where "tmp = with_extension path ''json.tmp''"
  have "tmp \<noteq> path" unfolding tmp_def assms(2) by (rule sync_path_tmp)
  note f = save_user_sync_state_files [OF assms(3) tmp_def this, of q]
  show ?thesis
  proof (cases "is_ok r")
    case True
    then obtain content where c: "sync_encode codec state = Inr content" "fs_files fs' path = Some content"
      using f by (cases "sync_encode codec state") auto
    show ?thesis using saved_state_Inr [OF assms(1) c(2,1)] f True by (simp only: tmp_def [symmetric] if_True) blast
  next
    case False
    then have "fs_files fs' path = fs_files fs path" using f by simp
    from saved_state_cong [OF this] show ?thesis using f False by (simp only: tmp_def [symmetric] if_False) blast
  qed
qed

section \<open>Witnesses\<close>

definition sample_user_info :: "u32 \<Rightarrow> string \<Rightarrow> user_info" where
  "sample_user_info i k = \<lparr>ui_id = i, uuid = k, speed_limit = 0, device_limit = 0\<rparr>"

definition sample_sync_codec :: sync_codec where
  "sample_sync_codec =
     \<lparr>sync_encode = (\<lambda>state. if state = user_sync_state_default then Ok ''x'' else Err ''e''),
      sync_decode = (\<lambda>content. if content = ''x'' then Ok user_sync_state_default else Err ''d'')\<rparr>"

definition sample_delta :: user_delta_body where
  "sample_delta = \<lparr>delta_full = False, delta_revision = 2, delta_users = [], delta_deleted = [], delta_upsert = [sample_user_info 2 ''v'']\<rparr>"

definition sample_runner_env :: "user_delta_body result \<Rightarrow> (unit, unit) runner_env" where
  "sample_runner_env answer =
     \<lparr>rn_random = Ok [1, 2], rn_cwd = None, rn_digest = (\<lambda>_. []), rn_state_dir = None, rn_codec = sample_sync_codec,
      rn_link = \<lparr>cl_exchange = (\<lambda>addr line k. (Inl (ConnectFailed ''refused''), k)), cl_text = (\<lambda>_. []), cl_decode = (\<lambda>_. Err ''d''),
        cl_debug = (\<lambda>_. [])\<rparr>,
      rn_panel = \<lparr>up_client = (\<lambda>config p. (Ok (), p)), up_user_delta = (\<lambda>config revision p. (answer, p)),
        up_user_list = (\<lambda>config p. (Ok None, p))\<rparr>\<rparr>"

definition sample_runtime_plan :: "core_plan option \<Rightarrow> runtime_bootstrap_plan" where
  "sample_runtime_plan core =
     \<lparr>rbp_bootstrap = bootstrap_from_resolved sample_resolved, rbp_resolved = sample_resolved, rbp_node_count = 1,
      rbp_node_infos = [sample_tls_node], rbp_node_failures = [], rbp_core_plan = core, rbp_realtime_options = [],
      rbp_hy2_port_forward = new_hysteria_port_forward_status [] [] False,
      rbp_mieru_port_forward = new_hysteria_port_forward_status [] [] False, rbp_subscription_proxy_only = False\<rparr>"

definition sample_entry :: user_sync_entry where
  "sample_entry = \<lparr>en_state = \<lparr>st_revision = 1, st_users = [sample_user_info 1 ''u''], updated_at = None\<rparr>,
     en_delta_supported = True, en_path = [], en_last_change = None\<rparr>"

definition sample_refresh :: "(users_by_tag result \<times> sync_map) \<times> (unit, unit) report_world" where
  "sample_refresh = load_users_by_node_tag_from_panel_with_state (sample_runner_env (Ok sample_delta)) (sample_runtime_plan None)
     [([], sample_entry)] sample_world"

lemma sample_refresh_result: "fst (fst sample_refresh) = Ok [([], [])]"
  by code_simp


theorem save_user_sync_state_durable_witness:
  "\<exists>r fs'. save_user_sync_state sample_sync_codec (user_sync_state_path (\<lambda>_. []) None ''/d'' ''h'' 1) user_sync_state_default no_files = (r, fs') \<and>
     saved_state sample_sync_codec (user_sync_state_path (\<lambda>_. []) None ''/d'' ''h'' 1) fs' = Ok user_sync_state_default"
proof -
  let ?p = "user_sync_state_path (\<lambda>_. []) None ''/d'' ''h'' 1"
  obtain r fs' where s: "save_user_sync_state sample_sync_codec ?p user_sync_state_default no_files = (r, fs')" by (rule prod.exhaust)
  have "is_ok (fst (save_user_sync_state sample_sync_codec ?p user_sync_state_default no_files))" by code_simp
  then have "is_ok r" using s by simp
  moreover have "sync_codec_ok sample_sync_codec"
    by (auto simp: sync_codec_ok_def sample_sync_codec_def char_code_def split: if_splits)
  ultimately show ?thesis using save_user_sync_state_durable [OF _ refl s] s by auto
qed

end
