(* ===== verification/Runner_Delta.thy ===== *)
theory Runner_Delta
  imports Runner_Users
begin

text \<open>
  Passing user changes on to the running core (\<open>src/src/runner.rs\<close>): the payloads of the control
  socket, the loop over the changed nodes with its fallback to a full snapshot, the revision
  baseline after a rebuild, the users a rebuild starts from, and the metrics of it all.
\<close>

section \<open>Counters\<close>

record user_delta_metrics =
  um_full_snapshot_fallback :: nat
  um_native_apply_success :: nat
  um_native_apply_failed :: nat
  um_skipped_port_range :: nat
  um_full_rebuild :: nat
  um_revision_baseline :: nat

definition u64_saturating_add :: "nat \<Rightarrow> nat \<Rightarrow> nat" where
  "u64_saturating_add a b = min u64_max (a + b)"

definition user_delta_metrics_default :: user_delta_metrics where
  "user_delta_metrics_default =
     \<lparr>um_full_snapshot_fallback = 0, um_native_apply_success = 0, um_native_apply_failed = 0, um_skipped_port_range = 0,
      um_full_rebuild = 0, um_revision_baseline = 0\<rparr>"

definition record_success :: "user_delta_metrics \<Rightarrow> user_delta_metrics" where
  "record_success m = m\<lparr>um_native_apply_success := u64_saturating_add (um_native_apply_success m) 1\<rparr>"

definition record_failed :: "user_delta_metrics \<Rightarrow> user_delta_metrics" where
  "record_failed m = m\<lparr>um_native_apply_failed := u64_saturating_add (um_native_apply_failed m) 1\<rparr>"

definition record_full_snapshot_fallback :: "user_delta_metrics \<Rightarrow> user_delta_metrics" where
  "record_full_snapshot_fallback m = m\<lparr>um_full_snapshot_fallback := u64_saturating_add (um_full_snapshot_fallback m) 1\<rparr>"

definition record_full_rebuild :: "user_delta_metrics \<Rightarrow> user_delta_metrics" where
  "record_full_rebuild m = m\<lparr>um_full_rebuild := u64_saturating_add (um_full_rebuild m) 1\<rparr>"

definition record_revision_baseline :: "nat \<Rightarrow> user_delta_metrics \<Rightarrow> user_delta_metrics" where
  "record_revision_baseline applied m = m\<lparr>um_revision_baseline := u64_saturating_add (um_revision_baseline m) applied\<rparr>"

definition status_value :: "user_delta_metrics \<Rightarrow> json" where
  "status_value m = json_obj
     [(''kelinode_user_delta_full_snapshot_fallback_total'', json_nat (um_full_snapshot_fallback m)),
      (''kelinode_user_delta_native_apply_success_total'', json_nat (um_native_apply_success m)),
      (''kelinode_user_delta_native_apply_failed_total'', json_nat (um_native_apply_failed m)),
      (''kelinode_user_delta_skipped_port_range_total'', json_nat (um_skipped_port_range m)),
      (''kelinode_user_delta_full_rebuild_total'', json_nat (um_full_rebuild m)),
      (''kelinode_user_delta_revision_baseline_total'', json_nat (um_revision_baseline m))]"

record snapshot_stats =
  ss_entries :: nat
  ss_cached_users :: nat
  ss_unique_snapshots :: nat
  ss_shared_entries :: nat
  ss_unique_cached_users :: nat
  ss_shared_cached_users :: nat

fun stats_loop ::
  "(string \<Rightarrow> u8 list) \<Rightarrow> user_sync_entry list \<Rightarrow> (string, user_info list list) btmap \<Rightarrow> snapshot_stats \<Rightarrow>
   snapshot_stats" where
  "stats_loop digest [] unique stats = stats"
| "stats_loop digest (entry # rest) unique stats =
     (let users = st_users (en_state entry)
      in if users = [] then stats_loop digest rest unique stats
         else
           let stats1 = stats\<lparr>ss_cached_users := usize_saturating_add (ss_cached_users stats) (length users)\<rparr>;
               fingerprint = user_snapshot_fingerprint digest users;
               bucket = unwrap_or [] (bt_get unique fingerprint)
           in if list_ex (\<lambda>candidate. candidate = users) bucket
              then stats_loop digest rest (bt_insert fingerprint bucket unique)
                (stats1\<lparr>ss_shared_entries := usize_saturating_add (ss_shared_entries stats1) 1,
                   ss_shared_cached_users := usize_saturating_add (ss_shared_cached_users stats1) (length users)\<rparr>)
              else stats_loop digest rest (bt_insert fingerprint (bucket @ [users]) unique)
                (stats1\<lparr>ss_unique_snapshots := usize_saturating_add (ss_unique_snapshots stats1) 1,
                   ss_unique_cached_users := usize_saturating_add (ss_unique_cached_users stats1) (length users)\<rparr>))"

definition user_sync_snapshot_stats :: "(string \<Rightarrow> u8 list) \<Rightarrow> sync_map \<Rightarrow> snapshot_stats" where
  "user_sync_snapshot_stats digest sync =
     stats_loop digest (bt_values sync) []
       \<lparr>ss_entries = length sync, ss_cached_users = 0, ss_unique_snapshots = 0, ss_shared_entries = 0,
        ss_unique_cached_users = 0, ss_shared_cached_users = 0\<rparr>"

definition user_sync_snapshot_status_value :: "(string \<Rightarrow> u8 list) \<Rightarrow> sync_map \<Rightarrow> json" where
  "user_sync_snapshot_status_value digest sync =
     (let stats = user_sync_snapshot_stats digest sync
      in json_obj
        [(''entries'', json_nat (ss_entries stats)), (''cached_users'', json_nat (ss_cached_users stats)),
         (''unique_cached_users'', json_nat (ss_unique_cached_users stats)),
         (''shared_cached_users'', json_nat (ss_shared_cached_users stats)),
         (''unique_snapshots'', json_nat (ss_unique_snapshots stats)), (''shared_entries'', json_nat (ss_shared_entries stats))])"

section \<open>The users a rebuild starts from\<close>

definition inbound_plan_users :: "inbound_plan \<Rightarrow> user_info list" where
  "inbound_plan_users inbound =
     map (\<lambda>user. \<lparr>ui_id = iu_id user, uuid = iu_uuid user, speed_limit = iu_speed_limit user, device_limit = iu_device_limit user\<rparr>)
       (ib_users inbound)"

definition latest_users_by_node_tag_for_core_plan :: "runtime_bootstrap_plan \<Rightarrow> sync_map \<Rightarrow> users_by_tag" where
  "latest_users_by_node_tag_for_core_plan plan sync =
     (case rbp_core_plan plan of
        None \<Rightarrow> []
      | Some core_plan \<Rightarrow>
          bt_collect (List.map_filter (\<lambda>inbound.
            let users = (case opt_filter (\<lambda>entry. st_users (en_state entry) \<noteq> []) (bt_get sync (ib_tag inbound)) of
                  Some entry \<Rightarrow> st_users (en_state entry)
                | None \<Rightarrow> inbound_plan_users inbound)
            in if users = [] then None else Some (ib_tag inbound, users)) (cp_inbounds core_plan)))"

definition user_sync_users_for_tags :: "sync_map \<Rightarrow> string list \<Rightarrow> users_by_tag \<Rightarrow> users_by_tag" where
  "user_sync_users_for_tags sync tags fallback =
     bt_collect (List.map_filter (\<lambda>tag.
       case bt_get sync tag of
         Some entry \<Rightarrow> Some (tag, st_users (en_state entry))
       | None \<Rightarrow> map_option (\<lambda>users. (tag, users)) (bt_get fallback tag)) tags)"

definition user_sync_users_for_runtime_rebuild ::
  "runtime_bootstrap_plan \<Rightarrow> sync_map \<Rightarrow> string list \<Rightarrow> users_by_tag \<Rightarrow> users_by_tag" where
  "user_sync_users_for_runtime_rebuild plan sync tags fallback =
     fold (\<lambda>(tag, users). bt_insert tag users) (user_sync_users_for_tags sync tags fallback)
       (latest_users_by_node_tag_for_core_plan plan sync)"

definition runtime_user_id_lookup_from_plan :: "runtime_bootstrap_plan \<Rightarrow> user_id_lookup" where
  "runtime_user_id_lookup_from_plan plan =
     (case rbp_core_plan plan of
        None \<Rightarrow> []
      | Some core_plan \<Rightarrow>
          bt_collect (map (\<lambda>inbound. (ib_tag inbound, bt_collect (map (\<lambda>user. (iu_uuid user, iu_id user)) (ib_users inbound))))
            (cp_inbounds core_plan)))"

fun sync_runtime_user_id_lookup_from_state :: "user_id_lookup \<Rightarrow> sync_map \<Rightarrow> string list \<Rightarrow> user_id_lookup" where
  "sync_runtime_user_id_lookup_from_state lookup sync [] = lookup"
| "sync_runtime_user_id_lookup_from_state lookup sync (tag # tags) =
     (case bt_get sync tag of
        None \<Rightarrow> sync_runtime_user_id_lookup_from_state lookup sync tags
      | Some entry \<Rightarrow>
          sync_runtime_user_id_lookup_from_state
            (bt_insert tag (bt_collect (map (\<lambda>user. (uuid user, ui_id user)) (st_users (en_state entry)))) lookup) sync tags)"

section \<open>Payloads and targets\<close>

definition keli_core_user_delta_user :: "u32 \<Rightarrow> user_info \<Rightarrow> json" where
  "keli_core_user_delta_user fallback user = json_obj
     [(''id'', json_nat (unat (ui_id user))), (''uuid'', JString (uuid user)), (''password'', JNull), (''email'', JNull),
      (''speed_limit'', json_nat (unat (speed_limit user))),
      (''device_limit'', json_nat (unat (effective_device_limit (device_limit user) fallback)))]"

definition keli_core_user_full_snapshot_payload :: "user_sync_entry \<Rightarrow> u32 \<Rightarrow> json" where
  "keli_core_user_full_snapshot_payload entry fallback = json_obj
     [(''full'', JArray (map (keli_core_user_delta_user fallback) (st_users (en_state entry)))),
      (''revision'', JString (int_to_string (st_revision (en_state entry))))]"

definition keli_core_user_delta_payload :: "user_delta_change \<Rightarrow> u32 \<Rightarrow> json" where
  "keli_core_user_delta_payload change fallback = json_obj
     [(''added'', JArray (map (keli_core_user_delta_user fallback) (diff_added (ch_diff change)))),
      (''updated'', JArray (map (keli_core_user_delta_user fallback) (diff_updated (ch_diff change)))),
      (''deleted'', JArray (map (\<lambda>user. JString (uuid user)) (diff_deleted (ch_diff change)))),
      (''base_revision'', JString (int_to_string (ch_base_revision change))),
      (''revision'', JString (int_to_string (ch_revision change)))]"

definition keli_core_device_limit_fallback_for_node :: "runtime_bootstrap_plan \<Rightarrow> string \<Rightarrow> u32" where
  "keli_core_device_limit_fallback_for_node plan ntag =
     (case find (\<lambda>node. ni_tag node = ntag) (rbp_node_infos plan) of
        Some node \<Rightarrow> node_device_limit_fallback node
      | None \<Rightarrow> 0)"

definition keli_core_user_delta_target_tags :: "core_plan \<Rightarrow> string \<Rightarrow> string list result" where
  "keli_core_user_delta_target_tags core_plan ntag =
     (let targets = map (\<lambda>_. ntag) (filter (\<lambda>inbound. ib_tag inbound = ntag) (cp_inbounds core_plan));
          expanded = map ib_tag (filter (\<lambda>inbound. ib_tag inbound \<noteq> ntag \<and> prefix (ntag @ ''|port:'') (ib_tag inbound))
            (cp_inbounds core_plan))
      in Ok (if targets = [] then expanded else targets))"

definition keli_core_user_delta_requires_full_snapshot :: "string \<Rightarrow> bool" where
  "keli_core_user_delta_requires_full_snapshot error \<longleftrightarrow>
     (let error = to_ascii_lowercase error in sublist ''revision mismatch'' error \<or> sublist ''full snapshot required'' error)"

definition keli_core_user_delta_missing_inbound :: "string \<Rightarrow> bool" where
  "keli_core_user_delta_missing_inbound error \<longleftrightarrow>
     (let error = to_ascii_lowercase error in sublist ''unknown inbound'' error \<or> sublist ''inbound not found'' error)"

definition count_device_limit :: "u32 \<Rightarrow> user_info \<Rightarrow> nat \<times> nat \<Rightarrow> nat \<times> nat" where
  "count_device_limit limit user counts =
     (let (fallback, explicit) = counts
      in if device_limit user > 0 then (fallback, usize_saturating_add explicit 1)
         else if limit > 0 then (usize_saturating_add fallback 1, explicit)
         else (fallback, explicit))"

definition user_device_limit_counts :: "user_info list \<Rightarrow> u32 \<Rightarrow> nat \<times> nat" where
  "user_device_limit_counts users limit = fold (count_device_limit limit) users (0, 0)"

definition bool_label :: "bool \<Rightarrow> string" where
  "bool_label b = (if b then ''true'' else ''false'')"

definition keli_core_user_delta_apply_log_message ::
  "string \<Rightarrow> string \<Rightarrow> user_delta_change \<Rightarrow> u32 \<Rightarrow> user_delta_apply \<Rightarrow> string" where
  "keli_core_user_delta_apply_log_message ntag target change limit result =
     (let (fallback_upserts, explicit_upserts) =
        user_device_limit_counts (diff_added (ch_diff change) @ diff_updated (ch_diff change)) limit
      in ''core delta applied node_tag='' @ ntag @ '' target_tag='' @ target @ '' added='' @ nat_to_string (udr_added (uda_result result)) @
         '' updated='' @ nat_to_string (udr_updated (uda_result result)) @ '' deleted='' @ nat_to_string (udr_deleted (uda_result result)) @
         '' active_users='' @ nat_to_string (udr_active_users (uda_result result)) @ '' full_applied='' @ bool_label (udr_full_applied (uda_result result)) @
         '' base_revision='' @ int_to_string (ch_base_revision change) @ '' revision='' @ int_to_string (ch_revision change) @
         '' fallback_device_limit='' @ nat_to_string (unat limit) @ '' fallback_applied_upserts='' @ nat_to_string fallback_upserts @
         '' explicit_device_limit_upserts='' @ nat_to_string explicit_upserts)"

definition keli_core_user_full_snapshot_apply_log_message ::
  "string \<Rightarrow> string \<Rightarrow> string \<Rightarrow> user_sync_entry \<Rightarrow> u32 \<Rightarrow> user_delta_apply \<Rightarrow> string" where
  "keli_core_user_full_snapshot_apply_log_message reason ntag target entry limit result =
     (let (fallback_users, explicit_users) = user_device_limit_counts (st_users (en_state entry)) limit
      in ''core full applied reason='' @ reason @ '' node_tag='' @ ntag @ '' target_tag='' @ target @
         '' users='' @ nat_to_string (length (st_users (en_state entry))) @
         '' active_users='' @ nat_to_string (udr_active_users (uda_result result)) @ '' revision='' @ int_to_string (st_revision (en_state entry)) @
         '' full_applied='' @ bool_label (udr_full_applied (uda_result result)) @ '' fallback_device_limit='' @ nat_to_string (unat limit) @
         '' fallback_applied_users='' @ nat_to_string fallback_users @ '' explicit_device_limit_users='' @ nat_to_string explicit_users)"

section \<open>Applying the changes to the running core\<close>

definition core_client ::
  "('k, 'p) runner_env \<Rightarrow> core_plan \<Rightarrow> ('k, 'p) report_world \<Rightarrow> control_client result \<times> ('k, 'p) report_world" where
  "core_client env core_plan w = on_files (keli_core_rs_control_client (rn_random env) (rn_cwd env) (cp_config_path core_plan)) w"

definition nonfatal_keli_core_memory_trim ::
  "('k, 'p) runner_env \<Rightarrow> control_client \<Rightarrow> ('k, 'p) report_world \<Rightarrow> ('k, 'p) report_world" where
  "nonfatal_keli_core_memory_trim env client w = snd (on_core (trim_memory (rn_link env) client) w)"

abbreviation core_apply_delta ::
  "('k, 'p) runner_env \<Rightarrow> control_client \<Rightarrow> string \<Rightarrow> json \<Rightarrow> ('k, 'p) report_world \<Rightarrow>
   user_delta_apply result \<times> ('k, 'p) report_world" where
  "core_apply_delta env client target payload w \<equiv> on_core (control_apply_user_delta (rn_link env) client target payload) w"

text \<open>One target: the delta, and a full snapshot where the core asks for one. \<open>None\<close> goes on with the next.\<close>

definition apply_full_to_target ::
  "('k, 'p) runner_env \<Rightarrow> control_client \<Rightarrow> bool \<Rightarrow> string \<Rightarrow> json \<Rightarrow> user_delta_metrics \<Rightarrow> ('k, 'p) report_world \<Rightarrow>
   (delta_apply_outcome option \<times> user_delta_metrics) \<times> ('k, 'p) report_world" where
  "apply_full_to_target env client continue_on_error target full_payload metrics w =
     (case core_apply_delta env client target full_payload w of
        (Inr result, w') \<Rightarrow> ((None, record_success metrics), nonfatal_keli_core_memory_trim env client w')
      | (Inl e, w') \<Rightarrow>
          ((Some (if continue_on_error \<and> keli_core_user_delta_missing_inbound e then Deferred else Rebuild), record_failed metrics), w'))"

definition apply_delta_to_target ::
  "('k, 'p) runner_env \<Rightarrow> control_client \<Rightarrow> bool \<Rightarrow> string \<Rightarrow> json \<Rightarrow> json \<Rightarrow> user_delta_metrics \<Rightarrow> ('k, 'p) report_world \<Rightarrow>
   (delta_apply_outcome option \<times> user_delta_metrics) \<times> ('k, 'p) report_world" where
  "apply_delta_to_target env client continue_on_error target payload full_payload metrics w =
     (case core_apply_delta env client target payload w of
        (Inr result, w') \<Rightarrow> ((None, record_success metrics), w')
      | (Inl e, w') \<Rightarrow>
          let metrics' = record_failed metrics
          in if continue_on_error \<and> keli_core_user_delta_missing_inbound e then ((Some Deferred, metrics'), w')
             else if \<not> keli_core_user_delta_requires_full_snapshot e then ((Some Rebuild, metrics'), w')
             else apply_full_to_target env client continue_on_error target full_payload (record_full_snapshot_fallback metrics') w')"

fun apply_delta_to_targets ::
  "('k, 'p) runner_env \<Rightarrow> control_client \<Rightarrow> bool \<Rightarrow> json \<Rightarrow> json \<Rightarrow> string list \<Rightarrow> user_delta_metrics \<Rightarrow> ('k, 'p) report_world \<Rightarrow>
   (delta_apply_outcome option \<times> user_delta_metrics) \<times> ('k, 'p) report_world" where
  "apply_delta_to_targets env client continue_on_error payload full_payload [] metrics w = ((None, metrics), w)"
| "apply_delta_to_targets env client continue_on_error payload full_payload (target # targets) metrics w =
     (case apply_delta_to_target env client continue_on_error target payload full_payload metrics w of
        ((None, metrics'), w') \<Rightarrow> apply_delta_to_targets env client continue_on_error payload full_payload targets metrics' w'
      | stop \<Rightarrow> stop)"

fun apply_delta_to_nodes ::
  "('k, 'p) runner_env \<Rightarrow> control_client \<Rightarrow> runtime_bootstrap_plan \<Rightarrow> core_plan \<Rightarrow> sync_map \<Rightarrow> string list \<Rightarrow>
   user_delta_metrics \<Rightarrow> ('k, 'p) report_world \<Rightarrow> (delta_apply_outcome \<times> user_delta_metrics) \<times> ('k, 'p) report_world" where
  "apply_delta_to_nodes env client plan core_plan sync [] metrics w = ((Applied, metrics), w)"
| "apply_delta_to_nodes env client plan core_plan sync (ntag # ntags) metrics w =
     (let continue_on_error = rm_continue_on_error (rc_machine (rbp_resolved plan))
      in case bt_get sync ntag of
           None \<Rightarrow> ((Rebuild, metrics), w)
         | Some entry \<Rightarrow>
             (case en_last_change entry of
                None \<Rightarrow> ((Rebuild, metrics), w)
              | Some change \<Rightarrow>
                  (case keli_core_user_delta_target_tags core_plan ntag of
                     Inl e \<Rightarrow> ((Rebuild, metrics), w)
                   | Inr targets \<Rightarrow>
                       if targets = [] then ((if continue_on_error then Deferred else Rebuild, metrics), w)
                       else
                         let limit = keli_core_device_limit_fallback_for_node plan ntag
                         in case apply_delta_to_targets env client continue_on_error (keli_core_user_delta_payload change limit)
                                   (keli_core_user_full_snapshot_payload entry limit) targets metrics w of
                              ((Some outcome, metrics'), w') \<Rightarrow> ((outcome, metrics'), w')
                            | ((None, metrics'), w') \<Rightarrow>
                                apply_delta_to_nodes env client plan core_plan sync ntags metrics'
                                  (nonfatal_keli_core_memory_trim env client w'))))"

definition try_apply_keli_core_rs_user_deltas ::
  "('k, 'p) runner_env \<Rightarrow> runtime_bootstrap_plan \<Rightarrow> sync_map \<Rightarrow> users_by_tag \<Rightarrow> user_delta_metrics \<Rightarrow> ('k, 'p) report_world \<Rightarrow>
   (delta_apply_outcome \<times> user_delta_metrics) \<times> ('k, 'p) report_world" where
  "try_apply_keli_core_rs_user_deltas env plan sync users metrics w =
     (case rbp_core_plan plan of
        None \<Rightarrow> ((Rebuild, metrics), w)
      | Some core_plan \<Rightarrow>
          if list_ex (\<lambda>ntag. unwrap_or True (map_option ch_full (Option.bind (bt_get sync ntag) en_last_change))) (bt_keys users)
          then ((Rebuild, metrics), w)
          else
            (case core_client env core_plan w of
               (Inl e, w') \<Rightarrow> ((Rebuild, metrics), w')
             | (Inr client, w') \<Rightarrow> apply_delta_to_nodes env client plan core_plan sync (bt_keys users) metrics w'))"

section \<open>The revision baseline after a rebuild\<close>

fun baseline_targets ::
  "('k, 'p) runner_env \<Rightarrow> control_client \<Rightarrow> json \<Rightarrow> string list \<Rightarrow> nat \<Rightarrow> ('k, 'p) report_world \<Rightarrow>
   nat option \<times> ('k, 'p) report_world" where
  "baseline_targets env client payload [] applied w = (Some applied, w)"
| "baseline_targets env client payload (target # targets) applied w =
     (case core_apply_delta env client target payload w of
        (Inr result, w') \<Rightarrow> baseline_targets env client payload targets (applied + 1) w'
      | (Inl e, w') \<Rightarrow> (None, w'))"

fun baseline_nodes ::
  "('k, 'p) runner_env \<Rightarrow> control_client \<Rightarrow> runtime_bootstrap_plan \<Rightarrow> core_plan \<Rightarrow> sync_map \<Rightarrow> string list \<Rightarrow> nat \<Rightarrow>
   ('k, 'p) report_world \<Rightarrow> nat \<times> ('k, 'p) report_world" where
  "baseline_nodes env client plan core_plan sync [] applied w = (applied, w)"
| "baseline_nodes env client plan core_plan sync (ntag # ntags) applied w =
     (case bt_get sync ntag of
        None \<Rightarrow> baseline_nodes env client plan core_plan sync ntags applied w
      | Some entry \<Rightarrow>
          (case keli_core_user_delta_target_tags core_plan ntag of
             Inl e \<Rightarrow> (0, w)
           | Inr targets \<Rightarrow>
               if targets = [] then baseline_nodes env client plan core_plan sync ntags applied w
               else
                 (case baseline_targets env client
                      (keli_core_user_full_snapshot_payload entry (keli_core_device_limit_fallback_for_node plan ntag)) targets applied w of
                    (None, w') \<Rightarrow> (0, w')
                  | (Some applied', w') \<Rightarrow> baseline_nodes env client plan core_plan sync ntags applied' w')))"

definition try_establish_keli_core_rs_revision_baseline ::
  "('k, 'p) runner_env \<Rightarrow> runtime_bootstrap_plan \<Rightarrow> sync_map \<Rightarrow> string list \<Rightarrow> ('k, 'p) report_world \<Rightarrow>
   nat \<times> ('k, 'p) report_world" where
  "try_establish_keli_core_rs_revision_baseline env plan sync ntags w =
     (case rbp_core_plan plan of
        None \<Rightarrow> (0, w)
      | Some core_plan \<Rightarrow>
          (case core_client env core_plan w of
             (Inl e, w') \<Rightarrow> (0, w')
           | (Inr client, w') \<Rightarrow> baseline_nodes env client plan core_plan sync ntags 0 w'))"

section \<open>Metrics of the core\<close>

definition keli_core_rs_metrics_snapshot ::
  "('k, 'p) runner_env \<Rightarrow> runtime_bootstrap_plan \<Rightarrow> ('k, 'p) report_world \<Rightarrow> json option result \<times> ('k, 'p) report_world" where
  "keli_core_rs_metrics_snapshot env plan w =
     (case rbp_core_plan plan of
        None \<Rightarrow> (Ok None, w)
      | Some core_plan \<Rightarrow>
          io_then (io_map_err (\<lambda>e. ''create keli-core-rs metrics client: '' @ e) (core_client env core_plan w)) (\<lambda>client w.
          io_then (io_map_err (\<lambda>e. ''fetch keli-core-rs metrics: '' @ e) (on_core (control_metrics (rn_link env) client) w)) (\<lambda>v w.
            (Ok (Some v), w))))"

definition metric_u64 :: "json \<Rightarrow> string \<Rightarrow> nat" where
  "metric_u64 metrics key = unwrap_or 0 (Option.bind (json_get metrics key) json_as_u64)"

definition metric_before :: "string \<times> nat \<Rightarrow> string \<times> nat \<Rightarrow> bool" where
  "metric_before l r \<longleftrightarrow> snd r < snd l \<or> snd l = snd r \<and> fst l \<le> fst r"

fun insert_metric :: "string \<times> nat \<Rightarrow> (string \<times> nat) list \<Rightarrow> (string \<times> nat) list" where
  "insert_metric x [] = [x]"
| "insert_metric x (y # ys) = (if metric_before x y then x # y # ys else y # insert_metric x ys)"

definition metric_top_counts :: "json \<Rightarrow> string \<Rightarrow> nat \<Rightarrow> string" where
  "metric_top_counts metrics key limit =
     (case Option.bind (json_get metrics key) json_as_object of
        None \<Rightarrow> ''-''
      | Some values \<Rightarrow>
          let counts = filter (\<lambda>(name, count). count > 0)
                (List.map_filter (\<lambda>(name, v). map_option (\<lambda>count. (name, count)) (json_as_u64 v)) values)
          in if counts = [] then ''-''
             else join '','' (map (\<lambda>(name, count). name @ '':'' @ nat_to_string count) (take limit (foldr insert_metric counts []))))"

definition keli_core_relay_metrics_log_message :: "json \<Rightarrow> string option" where
  "keli_core_relay_metrics_log_message metrics =
     (let native_workers = metric_u64 metrics ''keli_core_native_relay_workers'';
          native_idle = metric_u64 metrics ''keli_core_native_relay_idle'';
          native_pending = metric_u64 metrics ''keli_core_native_relay_pending'';
          soft_limit = metric_u64 metrics ''keli_core_native_relay_label_soft_limit'';
          pending_by_label = metric_top_counts metrics ''keli_core_native_relay_pending_by_label'' 5;
          queue_wait = metric_top_counts metrics ''keli_core_native_relay_queue_wait_ms_by_label'' 5;
          active_native = metric_top_counts metrics ''keli_core_native_relay_active'' 5;
          active_async = metric_top_counts metrics ''keli_core_async_relay_active'' 5;
          active_blocking = metric_top_counts metrics ''keli_core_detached_blocking_relay_active'' 5
      in if native_workers = 0 \<and> native_idle = 0 \<and> native_pending = 0 \<and> active_native = ''-'' \<and> active_async = ''-'' \<and>
            active_blocking = ''-'' then None
         else Some (''relay scheduler native_workers='' @ nat_to_string native_workers @ '' native_idle='' @ nat_to_string native_idle @
           '' native_pending='' @ nat_to_string native_pending @ '' native_label_soft_limit='' @ nat_to_string soft_limit @
           '' native_pending_by_label='' @ pending_by_label @ '' native_queue_wait_ms_by_label='' @ queue_wait @
           '' active_native='' @ active_native @ '' active_async='' @ active_async @ '' active_blocking='' @ active_blocking))"

section \<open>Statistics of the cached snapshots\<close>

definition cached_snapshots :: "user_sync_entry list \<Rightarrow> user_info list list" where
  "cached_snapshots entries = filter (\<lambda>users. users \<noteq> []) (map (\<lambda>entry. st_users (en_state entry)) entries)"

text \<open>The buckets hold the snapshots seen so far, whatever the digest is.\<close>

definition buckets_hold :: "(string \<Rightarrow> u8 list) \<Rightarrow> (string, user_info list list) btmap \<Rightarrow> user_info list set \<Rightarrow> bool" where
  "buckets_hold digest unique seen \<longleftrightarrow>
     (\<forall>users. users \<in> set (unwrap_or [] (bt_get unique (user_snapshot_fingerprint digest users))) \<longleftrightarrow> users \<in> seen)"

lemma buckets_hold_add:
  assumes "buckets_hold digest unique seen" "fp = user_snapshot_fingerprint digest users" "bucket = unwrap_or [] (bt_get unique fp)"
  shows "buckets_hold digest (bt_insert fp (bucket @ [users]) unique) (insert users seen)"
    "buckets_hold digest (bt_insert fp bucket unique) seen"
proof -
  have "us \<in> set (unwrap_or [] (bt_get unique (user_snapshot_fingerprint digest us))) \<longleftrightarrow> us \<in> seen" for us
    using assms(1) unfolding buckets_hold_def by blast
  then have get: "us \<in> set (unwrap_or [] (bt_get (bt_insert fp b unique) (user_snapshot_fingerprint digest us))) \<longleftrightarrow>
      (if user_snapshot_fingerprint digest us = fp then us \<in> set b else us \<in> seen)"
    "user_snapshot_fingerprint digest us = fp \<Longrightarrow> us \<in> set bucket \<longleftrightarrow> us \<in> seen" for us b
    using assms(3) by (auto simp only: bt_get_insert unwrap_or.simps split: if_splits)
  show "buckets_hold digest (bt_insert fp (bucket @ [users]) unique) (insert users seen)"
    "buckets_hold digest (bt_insert fp bucket unique) seen"
    unfolding buckets_hold_def get(1) using get(2) assms(2) by auto
qed

lemma usize_add_exact: "a + b \<le> u64_max \<Longrightarrow> usize_saturating_add a b = a + b"
  by (simp add: usize_saturating_add_def)

lemma sum_split_seen:
  fixes f :: "'a \<Rightarrow> nat"
  shows "(\<Sum>u \<in> set (x # xs) - seen. f u) = (if x \<in> seen then 0 else f x) + (\<Sum>u \<in> set xs - insert x seen. f u)"
proof (cases "x \<in> seen")
  case True
  then have eq: "set (x # xs) - seen = set xs - insert x seen" by auto
  show ?thesis unfolding eq using True by simp
next
  case False
  then have eq: "set (x # xs) - seen = insert x (set xs - insert x seen)" by auto
  show ?thesis unfolding eq using False by simp
qed

definition stats_ok :: "user_info list list \<Rightarrow> user_info list set \<Rightarrow> snapshot_stats \<Rightarrow> snapshot_stats \<Rightarrow> bool" where
  "stats_ok snaps seen before after \<longleftrightarrow>
     ss_entries after = ss_entries before \<and>
     ss_cached_users after = ss_cached_users before + sum_list (map length snaps) \<and>
     ss_unique_snapshots after = ss_unique_snapshots before + card (set snaps - seen) \<and>
     ss_unique_cached_users after = ss_unique_cached_users before + (\<Sum>u \<in> set snaps - seen. length u) \<and>
     ss_unique_snapshots after + ss_shared_entries after = ss_unique_snapshots before + ss_shared_entries before + length snaps \<and>
     ss_unique_cached_users after + ss_shared_cached_users after =
       ss_unique_cached_users before + ss_shared_cached_users before + sum_list (map length snaps)"

definition stats_room :: "snapshot_stats \<Rightarrow> user_info list list \<Rightarrow> bool" where
  "stats_room stats snaps \<longleftrightarrow>
     ss_cached_users stats + sum_list (map length snaps) \<le> u64_max \<and>
     ss_unique_cached_users stats + ss_shared_cached_users stats \<le> ss_cached_users stats \<and>
     ss_unique_snapshots stats + ss_shared_entries stats \<le> ss_cached_users stats"

lemma stats_loop_exact:
  assumes "buckets_hold digest unique seen" "stats_room stats (cached_snapshots entries)"
  shows "stats_ok (cached_snapshots entries) seen stats (stats_loop digest entries unique stats)"
  using assms
proof (induction entries arbitrary: unique seen stats)
  case Nil
  then show ?case by (simp add: stats_ok_def cached_snapshots_def)
next
  case (Cons entry entries)
  let ?us = "st_users (en_state entry)" and ?snaps = "cached_snapshots entries"
  show ?case
  proof (cases "?us = []")
    case True
    then show ?thesis using Cons by (simp add: cached_snapshots_def)
  next
    case False
    let ?stats1 = "stats\<lparr>ss_cached_users := ss_cached_users stats + length ?us\<rparr>"
    have snaps: "cached_snapshots (entry # entries) = ?us # ?snaps" using False by (simp add: cached_snapshots_def)
    have le: "length ?us \<ge> 1" using False by (simp add: Suc_leI)
    note room = Cons.prems(2) [unfolded stats_room_def snaps, simplified]
    have found: "list_ex (\<lambda>candidate. candidate = ?us) (unwrap_or [] (bt_get unique (user_snapshot_fingerprint digest ?us))) \<longleftrightarrow> ?us \<in> seen"
      using Cons.prems(1) by (simp add: buckets_hold_def list_ex_iff)
    note exact = usize_add_exact [of "ss_cached_users stats" "length ?us"]
      usize_add_exact [of "ss_shared_entries stats" 1] usize_add_exact [of "ss_shared_cached_users stats" "length ?us"]
      usize_add_exact [of "ss_unique_snapshots stats" 1] usize_add_exact [of "ss_unique_cached_users stats" "length ?us"]
    have cached: "usize_saturating_add (ss_cached_users stats) (length ?us) = ss_cached_users stats + length ?us"
      using room exact(1) by simp
    show ?thesis
    proof (cases "?us \<in> seen")
      case True
      let ?st = "?stats1\<lparr>ss_shared_entries := ss_shared_entries stats + 1, ss_shared_cached_users := ss_shared_cached_users stats + length ?us\<rparr>"
      have step: "stats_loop digest (entry # entries) unique stats =
          stats_loop digest entries (bt_insert (user_snapshot_fingerprint digest ?us)
            (unwrap_or [] (bt_get unique (user_snapshot_fingerprint digest ?us))) unique) ?st"
        using False found True cached exact(2,3) room le by (simp add: Let_def)
      have "stats_room ?st ?snaps" using room le by (simp add: stats_room_def)
      from Cons.IH [OF buckets_hold_add(2) [OF Cons.prems(1) refl refl, of ?us] this]
      have "stats_ok ?snaps seen ?st (stats_loop digest (entry # entries) unique stats)" unfolding step .
      moreover have "set (?us # ?snaps) - seen = set ?snaps - seen" using True by auto
      ultimately show ?thesis unfolding snaps stats_ok_def by simp
    next
      case new: False
      let ?st = "?stats1\<lparr>ss_unique_snapshots := ss_unique_snapshots stats + 1, ss_unique_cached_users := ss_unique_cached_users stats + length ?us\<rparr>"
      have step: "stats_loop digest (entry # entries) unique stats =
          stats_loop digest entries (bt_insert (user_snapshot_fingerprint digest ?us)
            (unwrap_or [] (bt_get unique (user_snapshot_fingerprint digest ?us)) @ [?us]) unique) ?st"
        using False found new cached exact(4,5) room le by (simp add: Let_def)
      have "stats_room ?st ?snaps" using room le by (simp add: stats_room_def)
      from Cons.IH [OF buckets_hold_add(1) [OF Cons.prems(1) refl refl, of ?us] this]
      have "stats_ok ?snaps (insert ?us seen) ?st (stats_loop digest (entry # entries) unique stats)" unfolding step .
      then show ?thesis
        using new sum_split_seen [of length ?us ?snaps seen] sum_split_seen [of "\<lambda>_. 1" ?us ?snaps seen]
        unfolding snaps stats_ok_def by simp
    qed
  qed
qed

text \<open>
  the status report counts cached snapshots exactly: the distinct non-empty lists and their users, the
  entries that share a list with an earlier one and their users, whatever the digest the lists are
  bucketed by (a collision of SHA-1 changes nothing).
\<close>

lemma snapshot_stats_exact:
  assumes "snaps = cached_snapshots (bt_values sync)" "sum_list (map length snaps) \<le> u64_max"
  shows "user_sync_snapshot_stats digest sync =
    \<lparr>ss_entries = length sync, ss_cached_users = sum_list (map length snaps), ss_unique_snapshots = card (set snaps),
     ss_shared_entries = length snaps - card (set snaps), ss_unique_cached_users = (\<Sum>u \<in> set snaps. length u),
     ss_shared_cached_users = sum_list (map length snaps) - (\<Sum>u \<in> set snaps. length u)\<rparr>"
proof -
  let ?zero = "\<lparr>ss_entries = length sync, ss_cached_users = 0, ss_unique_snapshots = 0, ss_shared_entries = 0,
    ss_unique_cached_users = 0, ss_shared_cached_users = 0\<rparr>"
  have "buckets_hold digest [] {}" by (simp add: buckets_hold_def bt_get_def)
  moreover have "stats_room ?zero snaps" using assms(2) by (simp add: stats_room_def)
  ultimately have "stats_ok snaps {} ?zero (user_sync_snapshot_stats digest sync)"
    unfolding user_sync_snapshot_stats_def assms(1) by (rule stats_loop_exact)
  then show ?thesis by (intro snapshot_stats.equality) (auto simp: stats_ok_def)
qed

section \<open>What the core has taken in\<close>

text \<open>
  What the loop relies on: a predicate \<open>took\<close> on the state of the core that holds of a target and a
  payload as soon as the core has confirmed that payload for the target, and that no later
  request takes back.
\<close>

definition core_confirms :: "('k, 'p) runner_env \<Rightarrow> (string \<Rightarrow> json \<Rightarrow> 'k \<Rightarrow> bool) \<Rightarrow> bool" where
  "core_confirms env took \<longleftrightarrow>
     (\<forall>client target payload k result k'.
        control_apply_user_delta (rn_link env) client target payload k = (Inr result, k') \<longrightarrow> took target payload k') \<and>
     (\<forall>target payload addr line k. took target payload k \<longrightarrow> took target payload (snd (cl_exchange (rn_link env) addr line k)))"

lemma send_core: "\<exists>addr line. snd (send link client cmd k) = snd (cl_exchange link addr line k)"
proof -
  let ?line = "cl_text link (with_command_token (ccl_token client) (command_json cmd)) @ [CHR 0x0A]"
  obtain r k' where x: "cl_exchange link (trim (ccl_addr client)) ?line k = (r, k')" by (rule prod.exhaust)
  then have "snd (send link client cmd k) = k'" unfolding send_def by (cases r) simp_all
  then show ?thesis using x by (metis snd_conv)
qed

lemma expecting_core: "snd (expecting link what pick answer) = snd answer"
  by (cases answer; cases "fst answer") (simp_all add: expecting_def)

lemma w_core_on_core: "w_core (snd (on_core f w)) = snd (f (w_core w))"
  by (simp add: on_core_def split: prod.splits)

lemma took_kept:
  assumes "core_confirms env took" "took target payload (w_core w)"
  shows "took target payload (w_core (snd (core_apply_delta env client t p w)))"
    "took target payload (w_core (nonfatal_keli_core_memory_trim env client w))"
proof -
  have keep: "took target payload (snd (cl_exchange (rn_link env) addr line (w_core w)))" for addr line
    using assms by (simp add: core_confirms_def)
  show "took target payload (w_core (snd (core_apply_delta env client t p w)))"
    using send_core [of "rn_link env" client "ApplyUserDelta t p" "w_core w"] keep
    by (metis control_apply_user_delta_def expecting_core w_core_on_core)
  show "took target payload (w_core (nonfatal_keli_core_memory_trim env client w))"
    using send_core [of "rn_link env" client TrimMemory "w_core w"] keep
    by (metis nonfatal_keli_core_memory_trim_def trim_memory_def expecting_core w_core_on_core)
qed

lemma took_applied:
  assumes "core_confirms env took" "core_apply_delta env client target payload w = (Inr result, w')"
  shows "took target payload (w_core w')"
  using assms by (auto simp: core_confirms_def on_core_def split: prod.splits)

lemma apply_delta_to_target_took:
  assumes "core_confirms env took" "apply_delta_to_target env client continue_on_error target payload full metrics w = ((None, metrics'), w')"
  shows "took target payload (w_core w') \<or> took target full (w_core w')"
    "took t p (w_core w) \<Longrightarrow> took t p (w_core w')"
proof -
  obtain r w1 where r: "core_apply_delta env client target payload w = (r, w1)" by (rule prod.exhaust)
  have k1: "took t p (w_core w) \<Longrightarrow> took t p (w_core w1)" for t p using took_kept(1) [OF assms(1), of t p w client target payload] r by simp
  have "(took target payload (w_core w') \<or> took target full (w_core w')) \<and> (took t p (w_core w) \<longrightarrow> took t p (w_core w'))" for t p
  proof (cases r)
    case (Inr result)
    with assms(2) r have "w' = w1" by (simp add: apply_delta_to_target_def)
    then show ?thesis using took_applied [OF assms(1) r [unfolded Inr]] k1 by blast
  next
    case (Inl e)
    obtain f w2 where f: "core_apply_delta env client target full w1 = (f, w2)" by (rule prod.exhaust)
    from assms(2) r Inl obtain m where "apply_full_to_target env client continue_on_error target full m w1 = ((None, metrics'), w')"
      by (auto simp: apply_delta_to_target_def Let_def split: if_splits)
    then obtain res where ok: "f = Inr res" "w' = nonfatal_keli_core_memory_trim env client w2"
      using f by (cases f) (auto simp: apply_full_to_target_def)
    have "took t p (w_core w1) \<Longrightarrow> took t p (w_core w2)" for t p using took_kept(1) [OF assms(1), of t p w1 client target full] f by simp
    then show ?thesis
      using took_applied [OF assms(1) f [unfolded ok(1)]] took_kept(2) [OF assms(1)] k1 ok(2) by metis
  qed
  then show "took target payload (w_core w') \<or> took target full (w_core w')" "took t p (w_core w) \<Longrightarrow> took t p (w_core w')" by blast+
qed

lemma apply_delta_to_targets_took:
  assumes "core_confirms env took" "apply_delta_to_targets env client continue_on_error payload full targets metrics w = ((None, metrics'), w')"
  shows "(\<forall>target \<in> set targets. took target payload (w_core w') \<or> took target full (w_core w')) \<and>
    (took t p (w_core w) \<longrightarrow> took t p (w_core w'))"
  using assms(2)
proof (induction targets arbitrary: metrics w t p)
  case (Cons target targets)
  obtain o1 m1 w1 where a: "apply_delta_to_target env client continue_on_error target payload full metrics w = ((o1, m1), w1)"
    by (metis prod.exhaust)
  with Cons.prems have "o1 = None" by (cases o1) auto
  note one = apply_delta_to_target_took [OF assms(1) a [unfolded this]]
  have rest: "apply_delta_to_targets env client continue_on_error payload full targets m1 w1 = ((None, metrics'), w')"
    using Cons.prems a \<open>o1 = None\<close> by simp
  note ih = Cons.IH [OF rest]
  show ?case using one ih by (metis set_ConsD)
qed simp

definition delta_taken ::
  "(string \<Rightarrow> json \<Rightarrow> 'k \<Rightarrow> bool) \<Rightarrow> runtime_bootstrap_plan \<Rightarrow> core_plan \<Rightarrow> sync_map \<Rightarrow> 'k \<Rightarrow> string \<Rightarrow> bool" where
  "delta_taken took plan core_plan sync k ntag \<longleftrightarrow>
     (\<exists>entry change targets.
        bt_get sync ntag = Some entry \<and> en_last_change entry = Some change \<and> targets \<noteq> [] \<and>
        keli_core_user_delta_target_tags core_plan ntag = Inr targets \<and>
        (let limit = keli_core_device_limit_fallback_for_node plan ntag
         in \<forall>target \<in> set targets. took target (keli_core_user_delta_payload change limit) k \<or>
              took target (keli_core_user_full_snapshot_payload entry limit) k))"

lemma delta_taken_mono:
  "delta_taken took plan core_plan sync k ntag \<Longrightarrow> (\<And>t p. took t p k \<Longrightarrow> took t p k') \<Longrightarrow> delta_taken took plan core_plan sync k' ntag"
  unfolding delta_taken_def Let_def by meson

lemma apply_delta_to_nodes_ConsE:
  assumes "apply_delta_to_nodes env client plan core_plan sync (ntag # ntags) metrics w = ((Applied, metrics'), w')"
  obtains entry change targets m1 w1 where "bt_get sync ntag = Some entry" "en_last_change entry = Some change"
    "keli_core_user_delta_target_tags core_plan ntag = Inr targets" "targets \<noteq> []"
    "apply_delta_to_targets env client (rm_continue_on_error (rc_machine (rbp_resolved plan)))
       (keli_core_user_delta_payload change (keli_core_device_limit_fallback_for_node plan ntag))
       (keli_core_user_full_snapshot_payload entry (keli_core_device_limit_fallback_for_node plan ntag)) targets metrics w = ((None, m1), w1)"
    "apply_delta_to_nodes env client plan core_plan sync ntags m1 (nonfatal_keli_core_memory_trim env client w1) = ((Applied, metrics'), w')"
proof -
  have outcome: "apply_delta_to_target env client c target payload full m w0 \<noteq> ((Some Applied, m'), w0')" for c target payload full m w0 m' w0'
    by (auto simp: apply_delta_to_target_def apply_full_to_target_def Let_def split: prod.splits sum.splits if_splits)
  have outcomes: "apply_delta_to_targets env client c payload full targets m w0 \<noteq> ((Some Applied, m'), w0')" for c payload full targets m w0 m' w0'
  proof (induction targets arbitrary: m w0)
    case (Cons target targets)
    then show ?case using outcome by (auto split: prod.splits option.splits)
  qed simp
  show ?thesis
    using assms that outcomes by (auto simp: Let_def split: option.splits sum.splits prod.splits if_splits)
qed

lemma apply_delta_to_nodes_took:
  assumes "core_confirms env took" "apply_delta_to_nodes env client plan core_plan sync ntags metrics w = ((Applied, metrics'), w')"
  shows "(\<forall>ntag \<in> set ntags. delta_taken took plan core_plan sync (w_core w') ntag) \<and> (took t p (w_core w) \<longrightarrow> took t p (w_core w'))"
  using assms(2)
proof (induction ntags arbitrary: metrics w t p)
  case (Cons ntag ntags)
  from Cons.prems obtain entry change targets m1 w1 where n: "bt_get sync ntag = Some entry" "en_last_change entry = Some change"
    "keli_core_user_delta_target_tags core_plan ntag = Inr targets" "targets \<noteq> []"
    "apply_delta_to_targets env client (rm_continue_on_error (rc_machine (rbp_resolved plan)))
       (keli_core_user_delta_payload change (keli_core_device_limit_fallback_for_node plan ntag))
       (keli_core_user_full_snapshot_payload entry (keli_core_device_limit_fallback_for_node plan ntag)) targets metrics w = ((None, m1), w1)"
    and rest: "apply_delta_to_nodes env client plan core_plan sync ntags m1 (nonfatal_keli_core_memory_trim env client w1) = ((Applied, metrics'), w')"
    by (rule apply_delta_to_nodes_ConsE)
  note here = apply_delta_to_targets_took [OF assms(1) n(5)]
  have keep: "took t p (w_core w1) \<Longrightarrow> took t p (w_core w')" for t p
    using took_kept(2) [OF assms(1)] Cons.IH [OF rest] by blast
  have "delta_taken took plan core_plan sync (w_core w1) ntag"
    unfolding delta_taken_def Let_def using n here by blast
  then have "delta_taken took plan core_plan sync (w_core w') ntag" using delta_taken_mono keep by metis
  then show ?case using Cons.IH [OF rest] here keep by auto
qed simp

text \<open>
  C27: when the loop reports a user change as applied, the core has confirmed it: for every changed node and
  every inbound of the node (its port-range inbounds where the node has no inbound of its own), either the delta
  of the change or the full list at the new revision. A change counts as applied on no other path.
\<close>

theorem applied_deltas_confirmed:
  assumes "core_confirms env took" "rbp_core_plan plan = Some core_plan"
    "try_apply_keli_core_rs_user_deltas env plan sync users metrics w = ((Applied, metrics'), w')" "ntag \<in> set (bt_keys users)"
  shows "delta_taken took plan core_plan sync (w_core w') ntag"
proof -
  obtain client w1 where "apply_delta_to_nodes env client plan core_plan sync (bt_keys users) metrics w1 = ((Applied, metrics'), w')"
    using assms(2,3) by (auto simp: try_apply_keli_core_rs_user_deltas_def split: prod.splits sum.splits if_splits)
  from apply_delta_to_nodes_took [OF assms(1) this] show ?thesis using assms(4) by blast
qed

section \<open>Where changes get lost\<close>

text \<open>
  A deferred change is forgotten: the loop leaves the entry as it is, and the next refresh in which the panel
  has nothing new clears the recorded change, so that it is never sent again (until a later change runs into a
  revision mismatch).
\<close>

lemma deferred_change_forgotten:
  assumes "en_delta_supported entry" "st_users (en_state entry) \<noteq> []"
    "on_panel (up_user_delta (rn_panel env) config (st_revision (en_state entry))) w = (Inr delta, w1)"
    "user_delta_body_is_revision_only delta" "delta_revision delta = st_revision (en_state entry)"
  shows "\<exists>entry' w'. load_users_for_node env config entry native w = ((Inr (), entry'), w') \<and> en_last_change entry' = None \<and>
    en_state entry' = en_state entry"
  using assms by (simp add: load_users_for_node_def apply_panel_delta_def apply_revision_only_user_delta_def set_state_revision_def
      runtime_user_delta_change_def Let_def split: prod.splits)

lemma bt_collect_map_filter:
  assumes "distinct (map f xs)" "x \<in> set xs"
  shows "bt_get (bt_collect (List.map_filter (\<lambda>x. map_option (Pair (f x)) (h x)) xs)) (f x) = h x"
proof -
  have other: "map_of (rev (List.map_filter (\<lambda>x. map_option (Pair (f x)) (h x)) xs)) k = None" if "k \<notin> f ` set xs" for k xs
    using that by (induction xs) (auto simp: map_filter_def map_add_def split: option.splits)
  have "map_of (rev (List.map_filter (\<lambda>x. map_option (Pair (f x)) (h x)) xs)) (f x) = h x"
    using assms
  proof (induction xs)
    case (Cons y ys)
    show ?case
    proof (cases "x \<in> set ys")
      case True
      then have "f x \<noteq> f y" using Cons.prems(1) by (metis distinct.simps(2) image_eqI list.map(2) set_map)
      then show ?thesis using Cons.IH Cons.prems(1) True by (cases "h y") (simp_all add: map_filter_def map_add_def split: option.splits)
    next
      case False
      then have "x = y" "f y \<notin> f ` set ys" using Cons.prems by auto
      then show ?thesis using other [of "f y" ys] by (cases "h y") (simp_all add: map_filter_def map_add_def)
    qed
  qed simp
  then show ?thesis by (simp add: bt_collect_get)
qed

text \<open>
  The users a restarted core is given: of an inbound whose last user the panel has deleted (so that the cached
  list is empty), the users the plan was built with, deleted ones included.
\<close>

lemma restart_revives_deleted_users:
  assumes "rbp_core_plan plan = Some core_plan" "distinct (map ib_tag (cp_inbounds core_plan))" "inbound \<in> set (cp_inbounds core_plan)"
    "ib_users inbound \<noteq> []" "bt_get sync (ib_tag inbound) = Some entry" "st_users (en_state entry) = []"
  shows "bt_get (latest_users_by_node_tag_for_core_plan plan sync) (ib_tag inbound) = Some (inbound_plan_users inbound)"
proof -
  define users where "users i = (case opt_filter (\<lambda>entry. st_users (en_state entry) \<noteq> []) (bt_get sync (ib_tag i)) of
      Some entry \<Rightarrow> st_users (en_state entry) | None \<Rightarrow> inbound_plan_users i)" for i
  have "latest_users_by_node_tag_for_core_plan plan sync = bt_collect (List.map_filter (\<lambda>i. map_option (Pair (ib_tag i))
      (if users i = [] then None else Some (users i))) (cp_inbounds core_plan))"
    by (simp add: latest_users_by_node_tag_for_core_plan_def assms(1) users_def Let_def if_distrib cong: if_cong)
  then have "bt_get (latest_users_by_node_tag_for_core_plan plan sync) (ib_tag inbound) = (if users inbound = [] then None else Some (users inbound))"
    using bt_collect_map_filter [OF assms(2,3), of "\<lambda>i. if users i = [] then None else Some (users i)"] by (simp only:)
  moreover have "users inbound = inbound_plan_users inbound" using assms(5,6) by (simp add: users_def opt_filter_def)
  ultimately show ?thesis using assms(4) by (simp add: inbound_plan_users_def)
qed

section \<open>Witnesses\<close>

definition sample_link :: "string list core_link" where
  "sample_link =
     \<lparr>cl_exchange = (\<lambda>addr line k. (Inr ''ok'', k @ [line])),
      cl_text = (\<lambda>v. case json_get v ''node_tag'' of Some (JString ntag) \<Rightarrow> ntag | _ \<Rightarrow> ''-''),
      cl_decode = (\<lambda>_. Ok (UserDeltaApplied [] \<lparr>udr_added = 0, udr_updated = 0, udr_deleted = 0, udr_missing_updated = 0,
        udr_missing_deleted = 0, udr_active_users = 0, udr_full_applied = False\<rparr> JNull [])), cl_debug = (\<lambda>_. [])\<rparr>"

definition sample_delta_env :: "(string list, unit) runner_env" where
  "sample_delta_env =
     \<lparr>rn_random = Ok [1, 2], rn_cwd = None, rn_digest = (\<lambda>_. []), rn_state_dir = None, rn_codec = sample_sync_codec,
      rn_link = sample_link,
      rn_panel = \<lparr>up_client = (\<lambda>config p. (Ok (), p)), up_user_delta = (\<lambda>config revision p. (Ok sample_delta, p)),
        up_user_list = (\<lambda>config p. (Ok None, p))\<rparr>\<rparr>"

definition sample_changed :: user_sync_entry where
  "sample_changed = sample_entry\<lparr>en_last_change := Some \<lparr>ch_full = False, ch_base_revision = 0, ch_revision = 1,
     ch_diff = \<lparr>diff_deleted = [], diff_added = [sample_user_info 1 ''u''], diff_updated = []\<rparr>\<rparr>\<rparr>"

definition sample_delta_plan :: runtime_bootstrap_plan where
  "sample_delta_plan = sample_runtime_plan (Some (sample_plan_with [sample_inbound ''a'' []]))"

definition sample_took :: "string \<Rightarrow> json \<Rightarrow> string list \<Rightarrow> bool" where
  "sample_took target payload k \<longleftrightarrow> target @ [CHR 0x0A] \<in> set k"

definition sample_apply :: "(delta_apply_outcome \<times> user_delta_metrics) \<times> (string list, unit) report_world" where
  "sample_apply = try_apply_keli_core_rs_user_deltas sample_delta_env sample_delta_plan [(''a'', sample_changed)] [(''a'', [])]
     user_delta_metrics_default \<lparr>w_files = no_files, w_core = [], w_panel = ()\<rparr>"

lemma sample_core_confirms: "core_confirms sample_delta_env sample_took"
proof -
  have "json_get (with_command_token tok (command_json (ApplyUserDelta target payload))) ''node_tag'' = Some (JString target)" for tok target payload
    by (cases tok) (simp_all add: with_command_token_def tagged_def json_obj_def bt_get_insert bt_collect_get)
  then show ?thesis
    by (auto simp: core_confirms_def sample_took_def sample_delta_env_def sample_link_def control_apply_user_delta_def
        expecting_Inr send_def split: if_splits)
qed

lemma sample_client: "\<exists>client fs'. keli_core_rs_control_client (Ok [1, 2]) None ''/c/config.json'' no_files = (Ok client, fs')"
proof -
  have a: "absolute_process_path None ''/c/config.json'' = ''/c/config.json''" by code_simp
  show ?thesis
    by (simp add: keli_core_rs_control_client_def Let_def a keli_core_rs_control_token_def keli_core_rs_control_token_path_def
        sample_paths fs_read_to_string_def fs_read_def next_fault_def no_files_def create_control_token_def
        generate_keli_core_rs_control_token_def fs_create_dir_all_def fs_write_def set_file_def
        secure_keli_core_rs_control_token_file_def fs_set_permissions_def)
qed

lemma sample_delta_accepted: "\<exists>res w'. core_apply_delta sample_delta_env client target payload w = (Inr res, w')"
proof -
  have "trim ''ok'' = ''ok''" by code_simp
  then show ?thesis
    by (simp add: control_apply_user_delta_def expecting_def send_def sample_link_def sample_delta_env_def on_core_def)
qed

lemma apply_delta_single:
  "core_apply_delta env client target payload w = (Inr res, w') \<Longrightarrow>
     apply_delta_to_targets env client c payload full [target] m w = ((None, record_success m), w')"
  by (simp add: apply_delta_to_target_def)

lemma sample_node_applied:
  "fst (fst (apply_delta_to_nodes sample_delta_env client sample_delta_plan (sample_plan_with [sample_inbound ''a'' []])
     [(''a'', sample_changed)] [''a''] m w)) = Applied"
proof -
  have targets: "keli_core_user_delta_target_tags (sample_plan_with [sample_inbound ''a'' []]) ''a'' = Inr [''a'']"
    by (simp add: keli_core_user_delta_target_tags_def sample_plan_with_def sample_inbound_def)
  obtain change where change: "en_last_change sample_changed = Some change" by (simp add: sample_changed_def)
  obtain res w' where "core_apply_delta sample_delta_env client ''a''
      (keli_core_user_delta_payload change (keli_core_device_limit_fallback_for_node sample_delta_plan ''a'')) w = (Inr res, w')"
    using sample_delta_accepted by blast
  note one = apply_delta_single [OF this]
  show ?thesis
    by (simp add: targets change one bt_get_def Let_def del: apply_delta_to_targets.simps)
qed

theorem applied_deltas_confirmed_witness:
  "fst (fst sample_apply) = Applied \<and>
   delta_taken sample_took sample_delta_plan (sample_plan_with [sample_inbound ''a'' []]) [(''a'', sample_changed)] (w_core (snd sample_apply)) ''a''"
proof -
  have core: "rbp_core_plan sample_delta_plan = Some (sample_plan_with [sample_inbound ''a'' []])"
    "cp_config_path (sample_plan_with [sample_inbound ''a'' []]) = ''/c/config.json''"
    by (simp_all add: sample_delta_plan_def sample_runtime_plan_def sample_plan_with_def)
  have small: "\<not> ch_full change" if "en_last_change sample_changed = Some change" for change
    using that by (auto simp: sample_changed_def)
  obtain change where change: "en_last_change sample_changed = Some change" by (simp add: sample_changed_def)
  obtain client fs' where "keli_core_rs_control_client (Ok [1, 2]) None ''/c/config.json'' no_files = (Ok client, fs')"
    using sample_client by blast
  then have "core_client sample_delta_env (sample_plan_with [sample_inbound ''a'' []]) \<lparr>w_files = no_files, w_core = [], w_panel = ()\<rparr> =
      (Ok client, \<lparr>w_files = fs', w_core = [], w_panel = ()\<rparr>)"
    by (simp add: core_client_def core on_files_def sample_delta_env_def)
  then have applied: "fst (fst sample_apply) = Applied"
    using sample_node_applied small change
    by (simp add: sample_apply_def try_apply_keli_core_rs_user_deltas_def core bt_keys_def bt_get_def
        del: apply_delta_to_nodes.simps)
  then have "sample_apply = ((Applied, snd (fst sample_apply)), snd sample_apply)" by (metis prod.collapse)
  from applied_deltas_confirmed [OF sample_core_confirms core(1) this [unfolded sample_apply_def], where ntag = "''a''"] applied
  show ?thesis by (simp add: bt_keys_def flip: sample_apply_def)
qed

lemma snapshot_stats_exact_witness:
  "cached_snapshots (bt_values [(''a'', sample_entry), (''b'', sample_entry)]) = [[sample_user_info 1 ''u''], [sample_user_info 1 ''u'']] \<and>
   user_sync_snapshot_stats (\<lambda>_. []) [(''a'', sample_entry), (''b'', sample_entry)] =
     \<lparr>ss_entries = 2, ss_cached_users = 2, ss_unique_snapshots = 1, ss_shared_entries = 1, ss_unique_cached_users = 1, ss_shared_cached_users = 1\<rparr>"
proof -
  have s: "cached_snapshots (bt_values [(''a'', sample_entry), (''b'', sample_entry)]) = [[sample_user_info 1 ''u''], [sample_user_info 1 ''u'']]"
    by (simp add: cached_snapshots_def bt_values_def sample_entry_def)
  show ?thesis using snapshot_stats_exact [OF s [symmetric], of "\<lambda>_. []"] s by simp
qed

end
