(* ===== verification/Core_Files.thy ===== *)
theory Core_Files
  imports Core_Routes Rust_Path Files Process
begin

text \<open>
  The files of the core (\<open>src/src/core.rs\<close>): the configuration streamed as JSON text, its atomic
  replacement, the fingerprint of its routes, and the fallback certificates. The text form of a
  JSON value, the PEM readers and the certificate generator are arguments.
\<close>

section \<open>Layout\<close>

record file_layout =
  cfl_config_path :: string
  cfl_config_dir :: string
  cfl_temp_config_path :: string

record core_config_write_result =
  cwr_path :: string
  cwr_bytes :: nat
  cwr_inbound_count :: nat
  cwr_changed :: bool
  cwr_route_config_changed :: bool

definition core_file_layout :: "string \<Rightarrow> file_layout" where
  "core_file_layout config_path =
     \<lparr>cfl_config_path = config_path, cfl_config_dir = unwrap_or ''.'' (path_parent config_path),
      cfl_temp_config_path = with_extension config_path ''json.tmp''\<rparr>"

section \<open>The configuration as text\<close>

text \<open>
  The writer appends to a vector, which cannot fail, so a field is the text it adds. \<open>txt\<close> is the compact
  text \<open>serde_json\<close> writes for a value; a derived \<open>Serialize\<close> writes the members of a struct in
  their order, a \<open>Value\<close> in the order of its map.
\<close>

type_synonym json_printer = "json \<Rightarrow> string"

definition write_json_field :: "json_printer \<Rightarrow> string \<Rightarrow> json \<Rightarrow> bool \<Rightarrow> string" where
  "write_json_field txt name v first = (if first then [] else '','') @ txt (JString name) @ '':'' @ txt v"

definition user_ref_text :: "json_printer \<Rightarrow> inbound_user_plan \<Rightarrow> string" where
  "user_ref_text txt user =
     ''{'' @ write_json_field txt ''id'' (json_nat (unat (iu_id user))) True @
     write_json_field txt ''uuid'' (JString (iu_uuid user)) False @ write_json_field txt ''password'' JNull False @
     write_json_field txt ''email'' JNull False @
     write_json_field txt ''speed_limit'' (json_nat (unat (iu_speed_limit user))) False @
     write_json_field txt ''device_limit'' (json_nat (unat (iu_device_limit user))) False @ ''}''"

fun separated :: "('a \<Rightarrow> string) \<Rightarrow> 'a list \<Rightarrow> bool \<Rightarrow> string" where
  "separated f [] first = []"
| "separated f (x # xs) first = (if first then [] else '','') @ f x @ separated f xs False"

definition write_keli_core_rs_inbound ::
  "json_printer \<Rightarrow> (string \<Rightarrow> json option) \<Rightarrow> bool \<Rightarrow> inbound_plan \<Rightarrow> string result" where
  "write_keli_core_rs_inbound txt pj include_users inbound =
     map_ok (\<lambda>routes.
       ''{'' @ write_json_field txt ''tag'' (JString (ib_tag inbound)) True @
       write_json_field txt ''protocol'' (JString (keli_core_rs_protocol_name inbound)) False @
       write_json_field txt ''listen'' (JString (ib_listen inbound)) False @
       write_json_field txt ''port'' (json_nat (unat (ib_port inbound))) False @
       write_json_field txt ''cipher'' (if ib_protocol inbound = ''shadowsocks'' then JString (ib_cipher inbound) else JNull) False @
       write_json_field txt ''flow'' (JString (ib_flow inbound)) False @
       write_json_field txt ''padding_scheme'' (json_strings (ib_padding_scheme inbound)) False @
       '','' @ [CHR 0x22] @ ''users'' @ [CHR 0x22] @ '':['' @
       (if include_users then separated (user_ref_text txt) (ib_users inbound) True else []) @ '']'' @
       write_json_field txt ''transport'' (render_keli_core_rs_transport inbound) False @
       write_json_field txt ''tls'' (render_keli_core_rs_tls inbound) False @
       write_json_field txt ''sniffing''
         (json_obj [(''enabled'', JBool True), (''dest_override'', json_strings [''http'', ''tls''])]) False @
       write_json_field txt ''routes'' (JArray routes) False @ ''}'')
       (render_keli_core_rs_routes_for_inbound pj inbound)"

definition render_keli_core_rs_config_bytes ::
  "json_printer \<Rightarrow> string option \<Rightarrow> (string \<Rightarrow> json option) \<Rightarrow> core_plan \<Rightarrow> bool \<Rightarrow> string result" where
  "render_keli_core_rs_config_bytes txt allow pj plan include_users =
     and_then (collect_plan_outbounds allow pj (cp_inbounds plan) [direct_outbound]) (\<lambda>outbounds.
     and_then (render_keli_core_rs_dns plan) (\<lambda>dns.
     and_then (collect_results (map (write_keli_core_rs_inbound txt pj include_users) (cp_inbounds plan))) (\<lambda>inbounds.
       Ok (''{'' @ write_json_field txt ''instance_id'' (JString (keli_core_rs_instance_id plan)) True @
         write_json_field txt ''log_level'' (JString ''info'') False @
         write_json_field txt ''policy'' render_keli_core_rs_policy False @ write_json_field txt ''dns'' dns False @
         '','' @ [CHR 0x22] @ ''inbounds'' @ [CHR 0x22] @ '':['' @ separated id inbounds True @ '']'' @
         write_json_field txt ''outbounds'' (JArray outbounds) False @ write_json_field txt ''routes'' (JArray []) False @
         write_json_field txt ''stats'' (json_obj [(''enabled'', JBool True), (''per_user'', JBool True)]) False @
         ''}'' @ [CHR 0x0A]))))"

section \<open>Certificates\<close>

record cert_tools =
  ct_certs_usable :: "string \<Rightarrow> bool"
  ct_key_usable :: "string \<Rightarrow> bool"
  ct_self_signed :: "string \<Rightarrow> (string \<times> string) result"

definition file_looks_usable :: "(string \<Rightarrow> bool) \<Rightarrow> string \<Rightarrow> file_store \<Rightarrow> bool \<times> file_store" where
  "file_looks_usable usable path fs =
     (case fs_read path fs of (Inr content, fs') \<Rightarrow> (usable content, fs') | (Inl _, fs') \<Rightarrow> (False, fs'))"

definition certificate_pair_looks_usable :: "cert_tools \<Rightarrow> string \<Rightarrow> string \<Rightarrow> file_store \<Rightarrow> bool \<times> file_store" where
  "certificate_pair_looks_usable tools cert_path key_path fs =
     (case file_looks_usable (ct_certs_usable tools) cert_path fs of
        (True, fs') \<Rightarrow> file_looks_usable (ct_key_usable tools) key_path fs'
      | (False, fs') \<Rightarrow> (False, fs'))"

definition is_quote_char :: "nat \<Rightarrow> char \<Rightarrow> bool" where
  "is_quote_char code c \<longleftrightarrow> char_code c = code"

definition bare_certificate_name :: "string \<Rightarrow> string" where
  "bare_certificate_name name =
     (case strip_prefix ''['' name of
        Some rest \<Rightarrow> (case split_once (CHR '']'') rest of Some (inside, _) \<Rightarrow> trim inside | None \<Rightarrow> name)
      | None \<Rightarrow>
          if length (filter (\<lambda>c. c = CHR '':'') name) = 1 then
            (case split_once (CHR '':'') name of
               Some (host, port) \<Rightarrow> if trim host \<noteq> [] \<and> list_all is_ascii_digit port then trim host else name
             | None \<Rightarrow> name)
          else name)"

definition normalize_certificate_name :: "string \<Rightarrow> string option" where
  "normalize_certificate_name v =
     (let name = trim (trim_matches (is_quote_char 39) (trim_matches (is_quote_char 34) (trim v)))
      in if name = [] then None
         else
           let bare = trim (trim_end_matches (\<lambda>c. c = CHR ''.'') (bare_certificate_name name))
           in if bare = [] then None else Some bare)"

definition self_signed_certificate_name :: "inbound_plan \<Rightarrow> string" where
  "self_signed_certificate_name inbound =
     unwrap_or ''localhost''
       (or_else (normalize_certificate_name (ib_server_name inbound)) (normalize_certificate_name (ib_reality_dest inbound)))"

text \<open>Outside Windows, \<open>replace_file\<close> is a rename.\<close>

definition replace_file :: "string \<Rightarrow> string \<Rightarrow> file_store \<Rightarrow> (io_error + unit) \<times> file_store" where
  "replace_file source target fs = fs_rename source target fs"

definition certificate_temp_path :: "string \<Rightarrow> string" where
  "certificate_temp_path path = with_extension path (unwrap_or ''pem'' (extension path) @ ''.tmp'')"

definition ensure_dir :: "string \<Rightarrow> string option \<Rightarrow> file_store \<Rightarrow> unit result \<times> file_store" where
  "ensure_dir what dir fs =
     (case dir of
        None \<Rightarrow> (Ok (), fs)
      | Some parent \<Rightarrow> io_map_err (\<lambda>e. ''create '' @ what @ '' dir '' @ parent @ '': '' @ io_error_text e) (fs_create_dir_all parent fs))"

definition write_certificate_file :: "string \<Rightarrow> string \<Rightarrow> file_store \<Rightarrow> unit result \<times> file_store" where
  "write_certificate_file path content fs =
     io_then (ensure_dir ''certificate'' (path_parent path) fs) (\<lambda>_ fs.
     io_then (fs_replace (\<lambda>e. ''write certificate temp '' @ certificate_temp_path path @ '': '' @ io_error_text e)
         (\<lambda>e. ''replace certificate '' @ path @ '': '' @ io_error_text e) (certificate_temp_path path) path content fs) (\<lambda>_ fs.
     io_map_err (\<lambda>e. ''set certificate permissions '' @ path @ '': '' @ io_error_text e) (fs_set_permissions path fs)))"

definition write_self_signed :: "cert_tools \<Rightarrow> inbound_plan \<Rightarrow> string \<Rightarrow> string \<Rightarrow> file_store \<Rightarrow> unit result \<times> file_store" where
  "write_self_signed tools inbound cert_path key_path fs =
     (let domain = self_signed_certificate_name inbound
      in case ct_self_signed tools domain of
           Inl e \<Rightarrow> (Err (''generate self-signed certificate for inbound '' @ ib_tag inbound @ '' domain '' @ domain @ '': '' @ e), fs)
         | Inr (cert, key) \<Rightarrow>
             io_then (write_certificate_file cert_path cert fs) (\<lambda>_ fs. write_certificate_file key_path key fs))"

definition ensure_inbound_certificate_pair :: "cert_tools \<Rightarrow> inbound_plan \<Rightarrow> file_store \<Rightarrow> unit result \<times> file_store" where
  "ensure_inbound_certificate_pair tools inbound fs =
     (let cert_path = trim (ib_cert_file inbound); key_path = trim (ib_key_file inbound)
      in if \<not> eq_ignore_ascii_case (ib_security inbound) ''tls'' \<or> cert_path = [] \<or> key_path = [] then (Ok (), fs)
         else (case certificate_pair_looks_usable tools cert_path key_path fs of
                 (True, fs') \<Rightarrow> (Ok (), fs')
               | (False, fs') \<Rightarrow> write_self_signed tools inbound cert_path key_path fs'))"

fun ensure_certificates_loop :: "cert_tools \<Rightarrow> inbound_plan list \<Rightarrow> file_store \<Rightarrow> unit result \<times> file_store" where
  "ensure_certificates_loop tools [] fs = (Ok (), fs)"
| "ensure_certificates_loop tools (inbound # inbounds) fs =
     io_then (ensure_inbound_certificate_pair tools inbound fs) (\<lambda>_ fs. ensure_certificates_loop tools inbounds fs)"

definition ensure_core_plan_certificates :: "cert_tools \<Rightarrow> core_plan \<Rightarrow> file_store \<Rightarrow> unit result \<times> file_store" where
  "ensure_core_plan_certificates tools plan fs = ensure_certificates_loop tools (cp_inbounds plan) fs"

section \<open>Writing the configuration\<close>

definition core_route_fingerprint_path :: "string \<Rightarrow> string" where
  "core_route_fingerprint_path config_path =
     (case file_name config_path of
        None \<Rightarrow> with_extension config_path ''routes.fingerprint''
      | Some name \<Rightarrow> with_file_name config_path (name @ ''.routes.fingerprint''))"

definition hex_u64 :: "u64 \<Rightarrow> string" where
  "hex_u64 v = map (\<lambda>i. hex_digit ((unat v div 16 ^ i) mod 16)) (rev [0..<16])"

definition route_fingerprint :: "string \<Rightarrow> string" where
  "route_fingerprint content = hex_u64 (fnv1a64 (str_bytes content)) @ [CHR 0x0A]"

definition write_route_fingerprint :: "string \<Rightarrow> string \<Rightarrow> file_store \<Rightarrow> unit result \<times> file_store" where
  "write_route_fingerprint path fingerprint fs =
     io_then (ensure_dir ''route fingerprint'' (path_parent path) fs) (\<lambda>_ fs.
       io_map_err (\<lambda>e. ''write route fingerprint '' @ path @ '': '' @ io_error_text e) (fs_write path fingerprint fs))"

definition write_result :: "string \<Rightarrow> string \<Rightarrow> nat \<Rightarrow> bool \<Rightarrow> core_config_write_result" where
  "write_result path content inbound_count changed =
     \<lparr>cwr_path = path, cwr_bytes = length content, cwr_inbound_count = inbound_count, cwr_changed = changed,
      cwr_route_config_changed = False\<rparr>"

definition replace_core_config :: "string \<Rightarrow> string \<Rightarrow> nat \<Rightarrow> file_store \<Rightarrow> core_config_write_result result \<times> file_store" where
  "replace_core_config path content inbound_count fs =
     (let tmp = cfl_temp_config_path (core_file_layout path)
      in io_then (fs_replace (\<lambda>e. ''write core config temp '' @ tmp @ '': '' @ io_error_text e)
             (\<lambda>e. ''replace core config '' @ path @ '': '' @ io_error_text e) tmp path content fs) (\<lambda>_ fs.
           (Ok (write_result path content inbound_count True), fs)))"

definition write_core_config_bytes ::
  "string \<Rightarrow> string \<Rightarrow> nat \<Rightarrow> file_store \<Rightarrow> core_config_write_result result \<times> file_store" where
  "write_core_config_bytes path content inbound_count fs =
     io_then (ensure_dir ''core config'' (Some (cfl_config_dir (core_file_layout path))) fs) (\<lambda>_ fs.
       (case fs_read path fs of
          (Inr old, fs') \<Rightarrow>
            if old = content then (Ok (write_result path content inbound_count False), fs')
            else replace_core_config path content inbound_count fs'
        | (Inl _, fs') \<Rightarrow> replace_core_config path content inbound_count fs'))"

definition write_core_config_value ::
  "json_printer \<Rightarrow> string \<Rightarrow> json \<Rightarrow> nat \<Rightarrow> file_store \<Rightarrow> core_config_write_result result \<times> file_store" where
  "write_core_config_value pretty path v inbound_count fs =
     write_core_config_bytes path (pretty v @ [CHR 0x0A]) inbound_count fs"

record core_writer =
  cw_txt :: json_printer
  cw_allow :: "string option"
  cw_json :: "string \<Rightarrow> json option"
  cw_certs :: cert_tools

text \<open>What is known of the routes before the write: their fingerprint, and the one on disk.\<close>

definition route_changed :: "string option \<Rightarrow> string \<Rightarrow> bool" where
  "route_changed previous fingerprint \<longleftrightarrow> (case previous of Some p \<Rightarrow> p \<noteq> fingerprint | None \<Rightarrow> False)"

definition finish_core_config ::
  "string \<Rightarrow> string \<Rightarrow> string option \<Rightarrow> core_config_write_result \<Rightarrow> file_store \<Rightarrow> core_config_write_result result \<times> file_store" where
  "finish_core_config fingerprint_path fingerprint previous result fs =
     (let result' = result\<lparr>cwr_route_config_changed := route_changed previous fingerprint\<rparr>
      in if cwr_changed result' \<or> previous = None
         then io_then (write_route_fingerprint fingerprint_path fingerprint fs) (\<lambda>_ fs. (Ok result', fs))
         else (Ok result', fs))"

definition write_core_config :: "core_writer \<Rightarrow> core_plan \<Rightarrow> file_store \<Rightarrow> core_config_write_result result \<times> file_store" where
  "write_core_config cw plan fs =
     io_then (ensure_core_plan_certificates (cw_certs cw) plan fs) (\<lambda>_ fs.
     io_then (render_keli_core_rs_config_bytes (cw_txt cw) (cw_allow cw) (cw_json cw) plan False, fs) (\<lambda>route_content fs.
       let fingerprint = route_fingerprint route_content;
           fingerprint_path = core_route_fingerprint_path (cp_config_path plan);
           (r, fs1) = fs_read_to_string fingerprint_path fs;
           previous = (case r of Inr p \<Rightarrow> Some p | Inl _ \<Rightarrow> None)
       in io_then (render_keli_core_rs_config_bytes (cw_txt cw) (cw_allow cw) (cw_json cw) plan True, fs1) (\<lambda>content fs.
          io_then (write_core_config_bytes (cp_config_path plan) content (length (cp_inbounds plan)) fs) (\<lambda>result fs.
            finish_core_config fingerprint_path fingerprint previous result fs))))"

section \<open>The text denotes the rendered value\<close>

text \<open>
  The texts of a value: what the printer writes for it, the comma-separated texts of its elements in
  brackets, or of its members in braces, in any order of the members.
\<close>

definition member_text :: "json_printer \<Rightarrow> string \<Rightarrow> string \<Rightarrow> string" where
  "member_text txt name s = txt (JString name) @ '':'' @ s"

inductive denotes :: "json_printer \<Rightarrow> string \<Rightarrow> json \<Rightarrow> bool" for pr where
  printed: "denotes pr (pr v) v"
| array: "list_all2 (denotes pr) ss vs \<Longrightarrow> denotes pr (''['' @ join '','' ss @ '']'') (JArray vs)"
| object: "\<forall>(name, s, v) \<in> set ms. denotes pr s v \<Longrightarrow>
     denotes pr (''{'' @ join '','' (map (\<lambda>(name, s, v). member_text pr name s) ms) @ ''}'')
       (json_obj (map (\<lambda>(name, s, v). (name, v)) ms))"

definition prints_names :: "json_printer \<Rightarrow> bool" where
  "prints_names pr \<longleftrightarrow> (\<forall>name \<in> set [''users'', ''inbounds'']. pr (JString name) = [CHR 0x22] @ name @ [CHR 0x22])"

lemma separated_join: "separated f xs True = join '','' (map f xs)"
proof -
  have rest: "separated f (x # xs) False = '','' @ join '','' (map f (x # xs))" for x xs
    by (induction xs arbitrary: x) auto
  show ?thesis
  proof (cases xs)
    case (Cons x ys)
    then show ?thesis using rest by (cases ys) auto
  qed simp
qed

lemma write_json_field_member:
  "write_json_field pr name v True = member_text pr name (pr v)"
  "write_json_field pr name v False = '','' @ member_text pr name (pr v)"
  by (simp_all add: write_json_field_def member_text_def)

lemma denotes_members:
  assumes "list_all2 (\<lambda>(name, s) (name', v). name = name' \<and> denotes pr s v) ms vs"
  shows "denotes pr (''{'' @ join '','' (map (\<lambda>(name, s). member_text pr name s) ms) @ ''}'') (json_obj vs)"
proof -
  let ?m = "\<lambda>((name, s), (name', v)). (name :: string, s :: string, v :: json)"
  have len: "length ms = length vs" using assms by (rule list_all2_lengthD)
  have "\<forall>(name, s, v) \<in> set (map ?m (zip ms vs)). denotes pr s v"
    using assms by (auto simp: list_all2_iff)
  moreover have "map (\<lambda>(name, s, v). member_text pr name s) (map ?m (zip ms vs)) = map (\<lambda>(name, s). member_text pr name s) ms"
    using len by (induction ms vs rule: list_induct2) (auto split: prod.splits)
  moreover have "map (\<lambda>(name, s, v). (name, v)) (map ?m (zip ms vs)) = vs"
    using len assms by (induction ms vs rule: list_induct2) (auto split: prod.splits)
  ultimately show ?thesis using denotes.object by metis
qed

lemma user_ref_denotes: "denotes pr (user_ref_text pr user) (render_keli_core_rs_user user)"
proof -
  let ?vs = "[(''id'', json_nat (unat (iu_id user))), (''uuid'', JString (iu_uuid user)), (''password'', JNull), (''email'', JNull),
    (''speed_limit'', json_nat (unat (iu_speed_limit user))), (''device_limit'', json_nat (unat (iu_device_limit user)))]"
  have "denotes pr (''{'' @ join '','' (map (\<lambda>(name, s). member_text pr name s) (map (\<lambda>(n, v). (n, pr v)) ?vs)) @ ''}'') (json_obj ?vs)"
    by (rule denotes_members) (simp add: denotes.printed)
  then show ?thesis by (simp add: user_ref_text_def write_json_field_member render_keli_core_rs_user_def)
qed

lemma separated_denotes:
  "list_all2 (denotes pr) (map f xs) vs \<Longrightarrow> denotes pr (''['' @ separated f xs True @ '']'') (JArray vs)"
  by (simp only: separated_join denotes.array)

lemma users_denote:
  "denotes pr (''['' @ (if include_users then separated (user_ref_text pr) users True else []) @ '']'')
     (JArray (if include_users then map render_keli_core_rs_user users else []))"
  using separated_denotes [of pr "user_ref_text pr" users "map render_keli_core_rs_user users"] separated_denotes [of pr "user_ref_text pr" "[]" "[]"]
  by (auto simp: list_all2_conv_all_nth user_ref_denotes)

lemma literal_member:
  assumes "prints_names pr"
  shows "member_text pr ''users'' s = [CHR 0x22] @ ''users'' @ [CHR 0x22] @ '':'' @ s"
    "member_text pr ''inbounds'' s = [CHR 0x22] @ ''inbounds'' @ [CHR 0x22] @ '':'' @ s"
  using assms by (auto simp: prints_names_def member_text_def)

lemma collect_results_rel:
  "list_all2 (rel_sum (=) R) rs ss \<Longrightarrow> rel_sum (=) (list_all2 R) (collect_results rs) (collect_results ss)"
proof (induction rule: list_all2_induct)
  case (Cons r rs s ss)
  then show ?case by (cases r; cases s; cases "collect_results rs"; cases "collect_results ss") auto
qed simp

lemma inbound_text_denotes:
  assumes names: "prints_names pr"
  shows "rel_sum (=) (denotes pr) (write_keli_core_rs_inbound pr pj include_users inbound)
    (render_keli_core_rs_inbound pj include_users inbound)"
proof (cases "render_keli_core_rs_routes_for_inbound pj inbound")
  case (Inr routes)
  let ?pre = "[(''tag'', JString (ib_tag inbound)), (''protocol'', JString (keli_core_rs_protocol_name inbound)),
    (''listen'', JString (ib_listen inbound)), (''port'', json_nat (unat (ib_port inbound))),
    (''cipher'', if ib_protocol inbound = ''shadowsocks'' then JString (ib_cipher inbound) else JNull),
    (''flow'', JString (ib_flow inbound)), (''padding_scheme'', json_strings (ib_padding_scheme inbound))]"
  let ?post = "[(''transport'', render_keli_core_rs_transport inbound), (''tls'', render_keli_core_rs_tls inbound),
    (''sniffing'', json_obj [(''enabled'', JBool True), (''dest_override'', json_strings [''http'', ''tls''])]),
    (''routes'', JArray routes)]"
  let ?printed = "map (\<lambda>(n, v). (n, pr v))"
  define users where "users = (if include_users then separated (user_ref_text pr) (ib_users inbound) True else [])"
  have u: "denotes pr (''['' @ users @ '']'') (JArray (if include_users then map render_keli_core_rs_user (ib_users inbound) else []))"
    unfolding users_def by (rule users_denote)
  have "denotes pr (''{'' @ join '','' (map (\<lambda>(name, s). member_text pr name s) (?printed ?pre @ [(''users'', ''['' @ users @ '']'')] @ ?printed ?post)) @ ''}'')
      (json_obj (?pre @ [(''users'', JArray (if include_users then map render_keli_core_rs_user (ib_users inbound) else []))] @ ?post))"
    by (rule denotes_members) (use u in \<open>simp add: denotes.printed\<close>)
  then show ?thesis
    using Inr
    by (simp add: literal_member [OF names] write_keli_core_rs_inbound_def render_keli_core_rs_inbound_def  write_json_field_member flip: users_def)
qed (simp add: write_keli_core_rs_inbound_def render_keli_core_rs_inbound_def )

text \<open>
  C25: The configuration streamed field by field, with borrowed users, is a text of the value
  \<open>render_keli_core_rs_config\<close> builds, followed by a line feed, with and without the users; a
  plan one of the two refuses, the other refuses with the same message.
\<close>

theorem config_text_denotes:
  assumes names: "prints_names pr"
  shows "rel_sum (=) (\<lambda>content config. \<exists>text. content = text @ [CHR 0x0A] \<and> denotes pr text config)
    (render_keli_core_rs_config_bytes pr allow pj plan include_users) (render_keli_core_rs_config allow pj plan include_users)"
proof -
  define ws where "ws = collect_results (map (write_keli_core_rs_inbound pr pj include_users) (cp_inbounds plan))"
  define rs where "rs = render_keli_core_rs_inbounds pj include_users (cp_inbounds plan)"
  have inbounds: "rel_sum (=) (list_all2 (denotes pr)) ws rs"
    unfolding ws_def rs_def render_keli_core_rs_inbounds_def
    by (rule collect_results_rel) (simp add: list_all2_conv_all_nth inbound_text_denotes [OF names])
  show ?thesis
  proof (cases "collect_plan_outbounds allow pj (cp_inbounds plan) [direct_outbound]"; cases "render_keli_core_rs_dns plan"; cases ws)
    fix outbounds dns texts
    assume ok: "collect_plan_outbounds allow pj (cp_inbounds plan) [direct_outbound] = Inr outbounds"
      "render_keli_core_rs_dns plan = Inr dns" "ws = Inr texts"
    obtain vs where vs: "rs = Inr vs" "list_all2 (denotes pr) texts vs" using inbounds ok(3) by (cases rs) auto
    let ?pre = "[(''instance_id'', JString (keli_core_rs_instance_id plan)), (''log_level'', JString ''info''),
      (''policy'', render_keli_core_rs_policy), (''dns'', dns)]"
    let ?post = "[(''outbounds'', JArray outbounds), (''routes'', JArray []),
      (''stats'', json_obj [(''enabled'', JBool True), (''per_user'', JBool True)])]"
    let ?printed = "map (\<lambda>(n, v). (n, pr v))"
    define body where "body = separated id texts True"
    have b: "denotes pr (''['' @ body @ '']'') (JArray vs)"
      unfolding body_def using vs(2) by (intro separated_denotes) simp
    have "denotes pr (''{'' @ join '','' (map (\<lambda>(name, s). member_text pr name s)
        (?printed ?pre @ [(''inbounds'', ''['' @ body @ '']'')] @ ?printed ?post)) @ ''}'')
      (json_obj (?pre @ [(''inbounds'', JArray vs)] @ ?post))"
      by (rule denotes_members) (use b in \<open>simp add: denotes.printed\<close>)
    then show ?thesis
      using ok vs(1)
      by (simp add: literal_member [OF names] render_keli_core_rs_config_bytes_def render_keli_core_rs_config_def write_json_field_member
          flip: ws_def rs_def body_def)
  qed (use inbounds in \<open>cases rs; simp add: render_keli_core_rs_config_bytes_def render_keli_core_rs_config_def flip: ws_def rs_def\<close>)+
qed

definition sample_printer :: json_printer where
  "sample_printer v = (case v of JString s \<Rightarrow> [CHR 0x22] @ s @ [CHR 0x22] | _ \<Rightarrow> ''null'')"

definition sample_file_plan :: core_plan where
  "sample_file_plan =
     \<lparr>cp_kind = KeliCoreRs, cp_config_path = ''core.json'', cp_listen_tags = [], cp_inbounds = [], cp_dns = dns_options_default\<rparr>"

theorem config_text_denotes_witness:
  "rel_sum (=) (\<lambda>content config. \<exists>text. content = text @ [CHR 0x0A] \<and> denotes sample_printer text config)
     (render_keli_core_rs_config_bytes sample_printer None (\<lambda>_. None) sample_file_plan True)
     (render_keli_core_rs_config None (\<lambda>_. None) sample_file_plan True)"
  by (rule config_text_denotes) (simp add: prints_names_def sample_printer_def)

section \<open>What a write leaves on disk\<close>

definition config_path_apart :: "core_plan \<Rightarrow> bool" where
  "config_path_apart plan \<longleftrightarrow>
     cfl_temp_config_path (core_file_layout (cp_config_path plan)) \<noteq> cp_config_path plan \<and>
     core_route_fingerprint_path (cp_config_path plan) \<noteq> cp_config_path plan \<and>
     (\<forall>inbound \<in> set (cp_inbounds plan). \<forall>file \<in> set [ib_cert_file inbound, ib_key_file inbound].
        trim file \<noteq> cp_config_path plan \<and> certificate_temp_path (trim file) \<noteq> cp_config_path plan)"

lemma io_then_keeps:
  assumes "I (snd r)" and "\<And>a. fst r = Inr a \<Longrightarrow> I (snd (k a (snd r)))"
  shows "I (snd (io_then r k))"
  using assms by (cases "(r, k)" rule: io_then.cases) auto

lemma ensure_dir_files [simp]: "fs_files (snd (ensure_dir what dir fs)) = fs_files fs"
  by (simp add: ensure_dir_def split: option.split)

lemma file_looks_usable_files [simp]: "fs_files (snd (file_looks_usable usable path fs)) = fs_files fs"
  by (auto dest: fs_read_same simp: file_looks_usable_def split: prod.splits sum.splits)

lemma file_looks_usable_same: "file_looks_usable usable path fs = (b, fs') \<Longrightarrow> fs_files fs' = fs_files fs"
  using file_looks_usable_files [of usable path fs] by simp

lemma certificate_pair_files [simp]: "fs_files (snd (certificate_pair_looks_usable tools cert key fs)) = fs_files fs"
  by (auto dest: file_looks_usable_same simp: certificate_pair_looks_usable_def split: prod.splits bool.splits)

lemma certificate_pair_same: "certificate_pair_looks_usable tools cert key fs = (b, fs') \<Longrightarrow> fs_files fs' = fs_files fs"
  using certificate_pair_files [of tools cert key fs] by simp

lemma fs_replace_frame: "q \<noteq> tmp \<Longrightarrow> q \<noteq> path \<Longrightarrow> fs_files (snd (fs_replace we re tmp path content fs)) q = fs_files fs q"
  unfolding fs_replace_def
  by (rule io_then_keeps [where I = "\<lambda>s. fs_files s q = fs_files fs q"]) (auto simp: fs_write_frame fs_rename_frame)

lemma write_certificate_file_frame:
  assumes "q \<noteq> path" and "q \<noteq> certificate_temp_path path"
  shows "fs_files (snd (write_certificate_file path content fs)) q = fs_files fs q"
  unfolding write_certificate_file_def
  using assms by (intro io_then_keeps [where I = "\<lambda>s. fs_files s q = fs_files fs q"]) (simp_all add: fs_replace_frame)

lemma ensure_pair_frame:
  assumes "\<And>file. file \<in> set [ib_cert_file inbound, ib_key_file inbound] \<Longrightarrow> q \<noteq> trim file \<and> q \<noteq> certificate_temp_path (trim file)"
  shows "fs_files (snd (ensure_inbound_certificate_pair tools inbound fs)) q = fs_files fs q"
proof -
  have w: "fs_files (snd (write_self_signed tools inbound (trim (ib_cert_file inbound)) (trim (ib_key_file inbound)) s)) q = fs_files s q" for s
    unfolding write_self_signed_def Let_def using assms
    by (auto split: sum.split intro!: io_then_keeps [where I = "\<lambda>s'. fs_files s' q = fs_files s q"] simp: write_certificate_file_frame)
  show ?thesis
    using w
    by (auto dest!: certificate_pair_same simp: ensure_inbound_certificate_pair_def Let_def split: prod.split bool.split)
qed

lemma ensure_certificates_frame:
  assumes "\<And>inbound file. inbound \<in> set inbounds \<Longrightarrow> file \<in> set [ib_cert_file inbound, ib_key_file inbound] \<Longrightarrow>
      q \<noteq> trim file \<and> q \<noteq> certificate_temp_path (trim file)"
  shows "fs_files (snd (ensure_certificates_loop tools inbounds fs)) q = fs_files fs q"
  using assms
proof (induction inbounds arbitrary: fs)
  case (Cons inbound inbounds)
  have head: "fs_files (snd (ensure_inbound_certificate_pair tools inbound fs)) q = fs_files fs q"
    by (rule ensure_pair_frame) (use Cons.prems in auto)
  have rest: "fs_files (snd (ensure_certificates_loop tools inbounds s)) q = fs_files s q" for s
    by (rule Cons.IH) (rule Cons.prems, auto)
  show ?case
    unfolding ensure_certificates_loop.simps
    by (rule io_then_keeps [where I = "\<lambda>s. fs_files s q = fs_files fs q"]) (simp_all add: head rest)
qed simp

lemma write_core_config_bytes_files:
  assumes w: "write_core_config_bytes path content n fs = (r, fs')"
    and ne: "cfl_temp_config_path (core_file_layout path) \<noteq> path"
  shows "case r of
      Inr result \<Rightarrow> fs_files fs' path = Some content \<and> cwr_bytes result = length content \<and>
        (\<not> cwr_changed result \<longrightarrow> fs_files fs path = Some content)
    | Inl e \<Rightarrow> fs_files fs' path = fs_files fs path"
proof -
  define dir where "dir = Some (cfl_config_dir (core_file_layout path))"
  obtain dr fs1 where d: "ensure_dir ''core config'' dir fs = (dr, fs1)" by (rule prod.exhaust)
  have fs1: "fs_files fs1 = fs_files fs" using ensure_dir_files [of "''core config''" dir fs] d by simp
  obtain rr fs2 where rd: "fs_read path fs1 = (rr, fs2)" by (rule prod.exhaust)
  have fs2: "fs_files fs2 = fs_files fs" using fs_read_same [OF rd] fs1 by simp
  have same: "fs_files fs path = Some content" if "rr = Inr content" using fs_read_Inr rd that fs1 by metis
  define tmp where "tmp = cfl_temp_config_path (core_file_layout path)"
  obtain pr fs3 where p: "fs_replace (\<lambda>e. ''write core config temp '' @ tmp @ '': '' @ io_error_text e)
      (\<lambda>e. ''replace core config '' @ path @ '': '' @ io_error_text e) tmp path content fs2 = (pr, fs3)" by (rule prod.exhaust)
  have fs3: "fs_files fs3 path = (if is_ok pr then Some content else fs_files fs path)"
    using fs_replace_files [OF p, of path] ne fs2 unfolding tmp_def by simp
  show ?thesis
    using w d rd p fs1 fs2 fs3 same
    by (cases dr; cases rr; cases pr)
      (auto simp: write_core_config_bytes_def replace_core_config_def write_result_def Let_def
        simp flip: tmp_def dir_def split: if_splits)
qed

lemma finish_core_config_files:
  assumes f: "finish_core_config path fingerprint previous result fs = (r, fs')" and "q \<noteq> path"
  shows "fs_files fs' q = fs_files fs q \<and>
    (\<forall>result'. r = Inr result' \<longrightarrow> cwr_bytes result' = cwr_bytes result \<and> cwr_changed result' = cwr_changed result)"
proof -
  have "fs_files (snd (write_route_fingerprint path fingerprint fs)) q = fs_files fs q"
    unfolding write_route_fingerprint_def
    by (rule io_then_keeps [where I = "\<lambda>s. fs_files s q = fs_files fs q"]) (simp_all add: fs_write_frame \<open>q \<noteq> path\<close>)
  then show ?thesis
    using f by (cases "write_route_fingerprint path fingerprint fs"; cases "fst (write_route_fingerprint path fingerprint fs)")
      (auto simp: finish_core_config_def Let_def split: if_splits)
qed

text \<open>
  C24: Whatever operations fail, the configuration file holds the old content or the whole of the new
  one after \<open>write_core_config\<close>; when it returns a result it holds the new one, and a result
  that says unchanged is true of the file found before.
\<close>

theorem write_core_config_atomic:
  assumes "config_path_apart plan" and "write_core_config cw plan fs = (r, fs')"
  shows "case r of
      Inr result \<Rightarrow> \<exists>content. render_keli_core_rs_config_bytes (cw_txt cw) (cw_allow cw) (cw_json cw) plan True = Inr content \<and>
        fs_files fs' (cp_config_path plan) = Some content \<and> cwr_bytes result = length content \<and>
        (\<not> cwr_changed result \<longrightarrow> fs_files fs (cp_config_path plan) = Some content)
    | Inl e \<Rightarrow> fs_files fs' (cp_config_path plan) = fs_files fs (cp_config_path plan) \<or>
        (\<exists>content. render_keli_core_rs_config_bytes (cw_txt cw) (cw_allow cw) (cw_json cw) plan True = Inr content \<and>
           fs_files fs' (cp_config_path plan) = Some content)"
proof -
  define path fpath where "path = cp_config_path plan" and "fpath = core_route_fingerprint_path path"
  define full where "full = render_keli_core_rs_config_bytes (cw_txt cw) (cw_allow cw) (cw_json cw) plan True"
  define bare where "bare = render_keli_core_rs_config_bytes (cw_txt cw) (cw_allow cw) (cw_json cw) plan False"
  have apart: "cfl_temp_config_path (core_file_layout path) \<noteq> path" "fpath \<noteq> path"
    using assms(1) by (auto simp: config_path_apart_def path_def fpath_def)
  obtain cr fs1 where c: "ensure_core_plan_certificates (cw_certs cw) plan fs = (cr, fs1)" by (rule prod.exhaust)
  have fs1: "fs_files fs1 path = fs_files fs path"
    using ensure_certificates_frame [of "cp_inbounds plan" path "cw_certs cw" fs] assms(1) c
    by (fastforce simp: ensure_core_plan_certificates_def config_path_apart_def path_def)
  obtain fr fs2 where f: "fs_read_to_string fpath fs1 = (fr, fs2)" by (rule prod.exhaust)
  have fs2: "fs_files fs2 = fs_files fs1" using fs_read_to_string_files [of fpath fs1] f by simp
  define previous where "previous = (case fr of Inr p \<Rightarrow> Some p | Inl _ \<Rightarrow> None)"
  show ?thesis
  proof (cases "\<exists>u routes content. cr = Inr u \<and> bare = Inr routes \<and> full = Inr content")
    case False
    then have "\<not> is_ok r \<and> (fs' = fs1 \<or> fs' = fs2)"
      using assms(2) c f by (cases cr; cases bare; cases full)
        (auto simp: write_core_config_def Let_def simp flip: full_def bare_def path_def fpath_def)
    then show ?thesis using fs1 fs2 unfolding path_def by (cases r) auto
  next
    case True
    then obtain u routes content where ok: "cr = Inr u" "bare = Inr routes" "full = Inr content" by blast
    obtain wr fs3 where w: "write_core_config_bytes path content (length (cp_inbounds plan)) fs2 = (wr, fs3)" by (rule prod.exhaust)
    note bytes = write_core_config_bytes_files [OF w apart(1)]
    have eq: "(r, fs') = io_then (wr, fs3) (finish_core_config fpath (route_fingerprint routes) previous)"
      using assms(2) c f ok w
      by (simp add: write_core_config_def Let_def previous_def flip: full_def bare_def path_def fpath_def)
    show ?thesis
    proof (cases wr)
      case (Inl e)
      then show ?thesis using eq bytes fs1 fs2 unfolding path_def by simp
    next
      case (Inr result)
      then have fin: "finish_core_config fpath (route_fingerprint routes) previous result fs3 = (r, fs')" using eq by simp
      show ?thesis
        using finish_core_config_files [OF fin apart(2) [symmetric]] bytes Inr ok(3) fs1 fs2
        unfolding full_def path_def by (cases r) auto
    qed
  qed
qed

definition sample_writer :: core_writer where
  "sample_writer =
     \<lparr>cw_txt = sample_printer, cw_allow = None, cw_json = \<lambda>_. None,
      cw_certs = \<lparr>ct_certs_usable = \<lambda>_. False, ct_key_usable = \<lambda>_. False, ct_self_signed = \<lambda>_. Inl ''unavailable''\<rparr>\<rparr>"

text \<open>A disk whose first write fails after one byte, and an older configuration.\<close>

definition sample_disk :: file_store where
  "sample_disk = \<lparr>fs_files = [''core.json'' \<mapsto> ''old''], fs_faults = [None, None, None, Some \<lparr>fault_text = ''full'', fault_written = Some 1\<rparr>]\<rparr>"

lemma sample_file_plan_apart: "config_path_apart sample_file_plan"
  by code_simp

theorem write_core_config_atomic_witness:
  "config_path_apart sample_file_plan \<and>
   (case fst (write_core_config sample_writer sample_file_plan sample_disk) of
      Inr result \<Rightarrow> \<exists>content. render_keli_core_rs_config_bytes sample_printer None (\<lambda>_. None) sample_file_plan True = Inr content \<and>
        fs_files (snd (write_core_config sample_writer sample_file_plan sample_disk)) ''core.json'' = Some content
    | Inl e \<Rightarrow> fs_files (snd (write_core_config sample_writer sample_file_plan sample_disk)) ''core.json'' = Some ''old'' \<or>
        (\<exists>content. render_keli_core_rs_config_bytes sample_printer None (\<lambda>_. None) sample_file_plan True = Inr content \<and>
           fs_files (snd (write_core_config sample_writer sample_file_plan sample_disk)) ''core.json'' = Some content))"
proof -
  have "cp_config_path sample_file_plan = ''core.json''" "fs_files sample_disk ''core.json'' = Some ''old''"
    "cw_txt sample_writer = sample_printer" "cw_allow sample_writer = None" "cw_json sample_writer = (\<lambda>_. None)"
    by (simp_all add: sample_file_plan_def sample_disk_def sample_writer_def)
  then show ?thesis
    using write_core_config_atomic [OF sample_file_plan_apart prod.collapse [symmetric], of sample_writer sample_disk] sample_file_plan_apart
    by (auto split: sum.splits)
qed

end
