(* ===== verification/Health.thy ===== *)
theory Health
  imports Runner_Delta
begin

text \<open>
  The status a machine reports to its panel (\<open>src/src/health.rs\<close>): the resource readings, the
  state of the runtime and of the core, and the gray-rollout summary of the core's metrics. The
  sampling of the resources is the caller's; the version marker is read from the file store.
\<close>

section \<open>Data\<close>

record usage_snapshot =
  us_total :: u64
  us_used :: u64

text \<open>The processor load is kept as the JSON number it is reported as.\<close>

record resource_snapshot =
  res_cpu :: json
  res_mem :: usage_snapshot
  res_swap :: usage_snapshot
  res_disk :: usage_snapshot
  res_net :: "json option"
  res_ip :: "json option"
  res_system :: "json option"
  res_uptime :: "u64 option"

record subscription_proxy_status =
  sps_status :: string
  sps_enabled :: bool
  sps_running :: bool
  sps_mode :: string
  sps_https_listen :: string
  sps_profiles :: nat
  sps_website_profiles :: nat
  sps_certificate_domain :: string
  sps_certificate_owner_site_id :: string
  sps_certificate_id :: string
  sps_need_certificate :: bool
  sps_csr_pem :: string
  sps_validation_ready :: bool
  sps_cert_not_after :: string
  sps_last_error :: string

record health_report_input =
  hri_version :: string
  hri_resources :: resource_snapshot
  hri_core :: "process_status option"
  hri_subscription_proxy :: "subscription_proxy_status option"
  hri_upgrade :: "json option"
  hri_metrics :: "json option"

record node_failure_payload =
  nfp_api_host :: string
  nfp_node_id :: u32
  nfp_machine_id :: u32
  nfp_node_type :: string
  nfp_error :: string

definition HEALTH_INSTALL_DIR :: string where
  "HEALTH_INSTALL_DIR = ''/usr/local/kelinode''"

definition INSTALLED_CORE_VERSION_FILES :: "(string \<times> string) list" where
  "INSTALLED_CORE_VERSION_FILES = [(''keli-core-rs'', ''.keli-core-rs_version'')]"

definition NATIVE_CORE_BUSY_OPEN_FDS_THRESHOLD :: nat where
  "NATIVE_CORE_BUSY_OPEN_FDS_THRESHOLD = 3000"

definition NATIVE_CORE_BUSY_ACTIVE_CONNECTION_THRESHOLD :: nat where
  "NATIVE_CORE_BUSY_ACTIVE_CONNECTION_THRESHOLD = 200"

definition NATIVE_CORE_BUSY_ASYNC_RELAY_THRESHOLD :: nat where
  "NATIVE_CORE_BUSY_ASYNC_RELAY_THRESHOLD = 128"

definition PKG_VERSION :: string where
  "PKG_VERSION = ''0.1.311''"

section \<open>Reading a metric\<close>

type_synonym json_map = "(string \<times> json) list"

definition nested_metric_u64 :: "json_map \<Rightarrow> string \<Rightarrow> string \<Rightarrow> nat" where
  "nested_metric_u64 metrics part key =
     unwrap_or 0 (Option.bind (Option.bind (Option.bind (bt_get metrics part) json_as_object) (\<lambda>m. bt_get m key)) json_as_u64)"

definition nested_metric_object_u64 :: "json_map \<Rightarrow> string \<Rightarrow> string \<Rightarrow> string \<Rightarrow> nat" where
  "nested_metric_object_u64 metrics part object_key key =
     unwrap_or 0 (Option.bind (Option.bind (Option.bind (Option.bind (Option.bind (bt_get metrics part) json_as_object)
       (\<lambda>m. bt_get m object_key)) json_as_object) (\<lambda>m. bt_get m key)) json_as_u64)"

text \<open>The sum of \<open>u64\<close> values wraps in a release build.\<close>

definition nested_metric_object_sum_u64 :: "json_map \<Rightarrow> string \<Rightarrow> string \<Rightarrow> nat" where
  "nested_metric_object_sum_u64 metrics part object_key =
     unwrap_or 0 (map_option (\<lambda>m. sum_list (List.map_filter (\<lambda>e. json_as_u64 (snd e)) m) mod 2 ^ 64)
       (Option.bind (Option.bind (Option.bind (bt_get metrics part) json_as_object) (\<lambda>m. bt_get m object_key)) json_as_object))"

section \<open>The counters of the gray-rollout summary\<close>

definition gh_native_success :: "json_map \<Rightarrow> nat" where
  "gh_native_success metrics = nested_metric_u64 metrics ''user_delta'' ''kelinode_user_delta_native_apply_success_total''"

definition gh_native_failed :: "json_map \<Rightarrow> nat" where
  "gh_native_failed metrics = nested_metric_u64 metrics ''user_delta'' ''kelinode_user_delta_native_apply_failed_total''"

definition gh_full_snapshot_fallback :: "json_map \<Rightarrow> nat" where
  "gh_full_snapshot_fallback metrics = nested_metric_u64 metrics ''user_delta'' ''kelinode_user_delta_full_snapshot_fallback_total''"

definition gh_revision_baseline :: "json_map \<Rightarrow> nat" where
  "gh_revision_baseline metrics = nested_metric_u64 metrics ''user_delta'' ''kelinode_user_delta_revision_baseline_total''"

definition gh_full_rebuild :: "json_map \<Rightarrow> nat" where
  "gh_full_rebuild metrics = nested_metric_u64 metrics ''user_delta'' ''kelinode_user_delta_full_rebuild_total''"

definition gh_core_apply_total :: "json_map \<Rightarrow> nat" where
  "gh_core_apply_total metrics = nested_metric_u64 metrics ''keli_core_rs'' ''keli_core_user_delta_apply_total''"

definition gh_core_incremental :: "json_map \<Rightarrow> nat" where
  "gh_core_incremental metrics = nested_metric_u64 metrics ''keli_core_rs'' ''keli_core_user_delta_incremental_total''"

definition gh_core_full_snapshot :: "json_map \<Rightarrow> nat" where
  "gh_core_full_snapshot metrics = nested_metric_u64 metrics ''keli_core_rs'' ''keli_core_user_delta_full_snapshot_total''"

definition gh_revision_mismatch :: "json_map \<Rightarrow> nat" where
  "gh_revision_mismatch metrics = nested_metric_u64 metrics ''keli_core_rs'' ''keli_core_user_delta_revision_mismatch_total''"

definition gh_current_revision_missing :: "json_map \<Rightarrow> nat" where
  "gh_current_revision_missing metrics = nested_metric_u64 metrics ''keli_core_rs'' ''keli_core_user_delta_current_revision_missing_total''"

definition gh_core_apply_errors :: "json_map \<Rightarrow> nat" where
  "gh_core_apply_errors metrics = nested_metric_u64 metrics ''keli_core_rs'' ''keli_core_user_delta_apply_error_total''"

definition gh_core_apply_duration_count :: "json_map \<Rightarrow> nat" where
  "gh_core_apply_duration_count metrics = nested_metric_object_u64 metrics ''keli_core_rs'' ''keli_core_user_delta_apply_duration_ms'' ''count''"

definition gh_core_apply_duration_last_ms :: "json_map \<Rightarrow> nat" where
  "gh_core_apply_duration_last_ms metrics = nested_metric_object_u64 metrics ''keli_core_rs'' ''keli_core_user_delta_apply_duration_ms'' ''last_ms''"

definition gh_core_apply_duration_max_ms :: "json_map \<Rightarrow> nat" where
  "gh_core_apply_duration_max_ms metrics = nested_metric_object_u64 metrics ''keli_core_rs'' ''keli_core_user_delta_apply_duration_ms'' ''max_ms''"

definition gh_quic_total_limit :: "json_map \<Rightarrow> nat" where
  "gh_quic_total_limit metrics = nested_metric_object_u64 metrics ''keli_core_rs'' ''keli_core_quic_resource'' ''total_limit''"

definition gh_quic_active_connections :: "json_map \<Rightarrow> nat" where
  "gh_quic_active_connections metrics = nested_metric_object_u64 metrics ''keli_core_rs'' ''keli_core_quic_resource'' ''active_connections''"

definition gh_quic_available_connections :: "json_map \<Rightarrow> nat" where
  "gh_quic_available_connections metrics = nested_metric_object_u64 metrics ''keli_core_rs'' ''keli_core_quic_resource'' ''available_connections''"

definition gh_quic_listener_count :: "json_map \<Rightarrow> nat" where
  "gh_quic_listener_count metrics = nested_metric_object_u64 metrics ''keli_core_rs'' ''keli_core_quic_resource'' ''listener_count''"

definition gh_quic_per_listener_soft_limit :: "json_map \<Rightarrow> nat" where
  "gh_quic_per_listener_soft_limit metrics = nested_metric_object_u64 metrics ''keli_core_rs'' ''keli_core_quic_resource'' ''per_listener_soft_limit''"

definition gh_tls_handshake_failure_total :: "json_map \<Rightarrow> nat" where
  "gh_tls_handshake_failure_total metrics = nested_metric_u64 metrics ''keli_core_rs'' ''keli_core_tls_handshake_failure_total''"

definition gh_tls_handshake_backoff_reject_total :: "json_map \<Rightarrow> nat" where
  "gh_tls_handshake_backoff_reject_total metrics = nested_metric_u64 metrics ''keli_core_rs'' ''keli_core_tls_handshake_backoff_reject_total''"

definition gh_tls_handshake_backoff_active_ips :: "json_map \<Rightarrow> nat" where
  "gh_tls_handshake_backoff_active_ips metrics = nested_metric_u64 metrics ''keli_core_rs'' ''keli_core_tls_handshake_backoff_active_ips''"

definition gh_tls_handshake_backoff_blocked_ips :: "json_map \<Rightarrow> nat" where
  "gh_tls_handshake_backoff_blocked_ips metrics = nested_metric_u64 metrics ''keli_core_rs'' ''keli_core_tls_handshake_backoff_blocked_ips''"

definition gh_tcp_auth_failure_total :: "json_map \<Rightarrow> nat" where
  "gh_tcp_auth_failure_total metrics = nested_metric_u64 metrics ''keli_core_rs'' ''keli_core_tcp_auth_failure_total''"

definition gh_tcp_auth_backoff_reject_total :: "json_map \<Rightarrow> nat" where
  "gh_tcp_auth_backoff_reject_total metrics = nested_metric_u64 metrics ''keli_core_rs'' ''keli_core_tcp_auth_backoff_reject_total''"

definition gh_tcp_auth_backoff_active_ips :: "json_map \<Rightarrow> nat" where
  "gh_tcp_auth_backoff_active_ips metrics = nested_metric_u64 metrics ''keli_core_rs'' ''keli_core_tcp_auth_backoff_active_ips''"

definition gh_tcp_auth_backoff_blocked_ips :: "json_map \<Rightarrow> nat" where
  "gh_tcp_auth_backoff_blocked_ips metrics = nested_metric_u64 metrics ''keli_core_rs'' ''keli_core_tcp_auth_backoff_blocked_ips''"

definition gh_dns_resolve_total :: "json_map \<Rightarrow> nat" where
  "gh_dns_resolve_total metrics = nested_metric_object_u64 metrics ''keli_core_rs'' ''keli_core_dns'' ''keli_core_dns_resolve_total''"

definition gh_dns_system_query_total :: "json_map \<Rightarrow> nat" where
  "gh_dns_system_query_total metrics = nested_metric_object_u64 metrics ''keli_core_rs'' ''keli_core_dns'' ''keli_core_dns_system_query_total''"

definition gh_dns_configured_query_total :: "json_map \<Rightarrow> nat" where
  "gh_dns_configured_query_total metrics = nested_metric_object_u64 metrics ''keli_core_rs'' ''keli_core_dns'' ''keli_core_dns_configured_query_total''"

definition gh_dns_positive_cache_hit_total :: "json_map \<Rightarrow> nat" where
  "gh_dns_positive_cache_hit_total metrics = nested_metric_object_u64 metrics ''keli_core_rs'' ''keli_core_dns'' ''keli_core_dns_positive_cache_hit_total''"

definition gh_dns_negative_cache_hit_total :: "json_map \<Rightarrow> nat" where
  "gh_dns_negative_cache_hit_total metrics = nested_metric_object_u64 metrics ''keli_core_rs'' ''keli_core_dns'' ''keli_core_dns_negative_cache_hit_total''"

definition gh_dns_resolve_error_total :: "json_map \<Rightarrow> nat" where
  "gh_dns_resolve_error_total metrics = nested_metric_object_u64 metrics ''keli_core_rs'' ''keli_core_dns'' ''keli_core_dns_resolve_error_total''"

definition gh_dns_private_ip_filter_total :: "json_map \<Rightarrow> nat" where
  "gh_dns_private_ip_filter_total metrics = nested_metric_object_u64 metrics ''keli_core_rs'' ''keli_core_dns'' ''keli_core_dns_private_ip_filter_total''"

definition gh_dns_private_ip_block_total :: "json_map \<Rightarrow> nat" where
  "gh_dns_private_ip_block_total metrics = nested_metric_object_u64 metrics ''keli_core_rs'' ''keli_core_dns'' ''keli_core_dns_private_ip_block_total''"

definition gh_connection_error_total :: "json_map \<Rightarrow> nat" where
  "gh_connection_error_total metrics = nested_metric_object_sum_u64 metrics ''keli_core_rs'' ''keli_core_connection_error_total''"

definition gh_core_connection_active_total :: "json_map \<Rightarrow> nat" where
  "gh_core_connection_active_total metrics = nested_metric_u64 metrics ''keli_core_rs'' ''keli_core_connection_active_total''"

definition gh_core_connection_active_blocking :: "json_map \<Rightarrow> nat" where
  "gh_core_connection_active_blocking metrics = nested_metric_u64 metrics ''keli_core_rs'' ''keli_core_connection_active_blocking''"

definition gh_core_connection_active_async :: "json_map \<Rightarrow> nat" where
  "gh_core_connection_active_async metrics = nested_metric_u64 metrics ''keli_core_rs'' ''keli_core_connection_active_async''"

definition gh_core_process_open_fds :: "json_map \<Rightarrow> nat" where
  "gh_core_process_open_fds metrics = nested_metric_u64 metrics ''keli_core_rs'' ''keli_core_process_open_fds''"

definition gh_core_process_rss_bytes :: "json_map \<Rightarrow> nat" where
  "gh_core_process_rss_bytes metrics = nested_metric_u64 metrics ''keli_core_rs'' ''keli_core_process_rss_bytes''"

definition gh_core_process_peak_rss_bytes :: "json_map \<Rightarrow> nat" where
  "gh_core_process_peak_rss_bytes metrics = nested_metric_u64 metrics ''keli_core_rs'' ''keli_core_process_peak_rss_bytes''"

definition gh_core_process_anonymous_rss_bytes :: "json_map \<Rightarrow> nat" where
  "gh_core_process_anonymous_rss_bytes metrics = nested_metric_u64 metrics ''keli_core_rs'' ''keli_core_process_anonymous_rss_bytes''"

definition gh_core_process_file_rss_bytes :: "json_map \<Rightarrow> nat" where
  "gh_core_process_file_rss_bytes metrics = nested_metric_u64 metrics ''keli_core_rs'' ''keli_core_process_file_rss_bytes''"

definition gh_core_process_data_bytes :: "json_map \<Rightarrow> nat" where
  "gh_core_process_data_bytes metrics = nested_metric_u64 metrics ''keli_core_rs'' ''keli_core_process_data_bytes''"

definition gh_core_process_threads :: "json_map \<Rightarrow> nat" where
  "gh_core_process_threads metrics = nested_metric_u64 metrics ''keli_core_rs'' ''keli_core_process_threads''"

definition gh_core_process_cpu_percent_x100 :: "json_map \<Rightarrow> nat" where
  "gh_core_process_cpu_percent_x100 metrics = nested_metric_u64 metrics ''keli_core_rs'' ''keli_core_process_cpu_percent_x100''"

definition gh_core_native_relay_active_total :: "json_map \<Rightarrow> nat" where
  "gh_core_native_relay_active_total metrics = nested_metric_object_sum_u64 metrics ''keli_core_rs'' ''keli_core_native_relay_active''"

definition gh_core_async_relay_active_total :: "json_map \<Rightarrow> nat" where
  "gh_core_async_relay_active_total metrics = nested_metric_object_sum_u64 metrics ''keli_core_rs'' ''keli_core_async_relay_active''"

definition gh_core_detached_blocking_relay_active_total :: "json_map \<Rightarrow> nat" where
  "gh_core_detached_blocking_relay_active_total metrics = nested_metric_object_sum_u64 metrics ''keli_core_rs'' ''keli_core_detached_blocking_relay_active''"

definition gh_core_native_relay_pending :: "json_map \<Rightarrow> nat" where
  "gh_core_native_relay_pending metrics = nested_metric_u64 metrics ''keli_core_rs'' ''keli_core_native_relay_pending''"

definition gh_hy2_connection_timeout_total :: "json_map \<Rightarrow> nat" where
  "gh_hy2_connection_timeout_total metrics = nested_metric_object_u64 metrics ''keli_core_rs'' ''keli_core_connection_error_total'' ''hysteria2.connection.timeout''"

definition gh_hy2_tcp_relay_timeout_total :: "json_map \<Rightarrow> nat" where
  "gh_hy2_tcp_relay_timeout_total metrics = nested_metric_object_u64 metrics ''keli_core_rs'' ''keli_core_connection_error_total'' ''hysteria2.tcp_relay.timeout''"

definition gh_vless_tcp_auth_failed_total :: "json_map \<Rightarrow> nat" where
  "gh_vless_tcp_auth_failed_total metrics = nested_metric_object_u64 metrics ''keli_core_rs'' ''keli_core_connection_error_total'' ''vless.tcp.auth_failed''"

definition gh_vless_tcp_upstream_timeout_total :: "json_map \<Rightarrow> nat" where
  "gh_vless_tcp_upstream_timeout_total metrics = nested_metric_object_u64 metrics ''keli_core_rs'' ''keli_core_connection_error_total'' ''vless.tcp.upstream_timeout''"

definition gh_vless_tcp_upstream_connect_failed_total :: "json_map \<Rightarrow> nat" where
  "gh_vless_tcp_upstream_connect_failed_total metrics = nested_metric_object_u64 metrics ''keli_core_rs'' ''keli_core_connection_error_total'' ''vless.tcp.upstream_connect_failed''"

definition gh_vless_tcp_dns_private_blocked_total :: "json_map \<Rightarrow> nat" where
  "gh_vless_tcp_dns_private_blocked_total metrics = nested_metric_object_u64 metrics ''keli_core_rs'' ''keli_core_connection_error_total'' ''vless.tcp.dns_private_blocked''"

definition gh_runtime_core_full_snapshot :: "json_map \<Rightarrow> nat" where
  "gh_runtime_core_full_snapshot metrics = gh_core_full_snapshot metrics - gh_revision_baseline metrics"

definition gh_quic_utilization_pct :: "json_map \<Rightarrow> nat" where
  "gh_quic_utilization_pct metrics =
     (if gh_quic_total_limit metrics = 0 then 0
      else min u64_max (gh_quic_active_connections metrics * 100) div gh_quic_total_limit metrics)"

definition gh_abuse_backoff_pressure :: "json_map \<Rightarrow> bool" where
  "gh_abuse_backoff_pressure metrics \<longleftrightarrow>
     gh_tls_handshake_backoff_reject_total metrics > 0 \<or> gh_tls_handshake_backoff_blocked_ips metrics > 0 \<or>
     gh_tcp_auth_backoff_reject_total metrics > 0 \<or> gh_tcp_auth_backoff_blocked_ips metrics > 0"

definition gh_dns_guard_activity :: "json_map \<Rightarrow> bool" where
  "gh_dns_guard_activity metrics \<longleftrightarrow>
     gh_dns_private_ip_filter_total metrics > 0 \<or> gh_dns_private_ip_block_total metrics > 0 \<or>
     gh_vless_tcp_dns_private_blocked_total metrics > 0"

definition gh_dns_resolve_pressure :: "json_map \<Rightarrow> bool" where
  "gh_dns_resolve_pressure metrics \<longleftrightarrow> gh_dns_resolve_error_total metrics > 0"

definition gh_connection_error_pressure :: "json_map \<Rightarrow> bool" where
  "gh_connection_error_pressure metrics \<longleftrightarrow>
     gh_hy2_connection_timeout_total metrics > 0 \<or> gh_hy2_tcp_relay_timeout_total metrics > 0 \<or>
     gh_vless_tcp_upstream_timeout_total metrics > 0 \<or> gh_vless_tcp_upstream_connect_failed_total metrics > 0"

definition gh_metrics_failure :: "json_map \<Rightarrow> bool" where
  "gh_metrics_failure metrics \<longleftrightarrow> bt_get metrics ''keli_core_rs_error'' \<noteq> None"

definition gh_core_apply_successes :: "json_map \<Rightarrow> nat" where
  "gh_core_apply_successes metrics = u64_saturating_add (gh_core_incremental metrics) (gh_runtime_core_full_snapshot metrics)"

definition gh_native_apply_recovered :: "json_map \<Rightarrow> bool" where
  "gh_native_apply_recovered metrics \<longleftrightarrow> gh_native_failed metrics > 0 \<and> gh_native_success metrics > gh_native_failed metrics"

definition gh_core_apply_recovered :: "json_map \<Rightarrow> bool" where
  "gh_core_apply_recovered metrics \<longleftrightarrow>
     gh_core_apply_errors metrics > 0 \<and> gh_core_apply_successes metrics > gh_core_apply_errors metrics"

definition gh_full_rebuild_recovered :: "json_map \<Rightarrow> bool" where
  "gh_full_rebuild_recovered metrics \<longleftrightarrow>
     gh_full_rebuild metrics > 0 \<and> (gh_native_success metrics > 0 \<or> gh_core_apply_successes metrics > 0)"

definition gh_apply_error_recovered :: "json_map \<Rightarrow> bool" where
  "gh_apply_error_recovered metrics \<longleftrightarrow>
     gh_native_apply_recovered metrics \<or> gh_core_apply_recovered metrics \<or> gh_full_rebuild_recovered metrics"

definition gh_native_apply_unhealthy :: "json_map \<Rightarrow> bool" where
  "gh_native_apply_unhealthy metrics \<longleftrightarrow> gh_native_failed metrics > 0 \<and> \<not> gh_native_apply_recovered metrics"

definition gh_core_apply_unhealthy :: "json_map \<Rightarrow> bool" where
  "gh_core_apply_unhealthy metrics \<longleftrightarrow> gh_core_apply_errors metrics > 0 \<and> \<not> gh_core_apply_recovered metrics"

definition gh_nothing_reported :: "json_map \<Rightarrow> bool" where
  "gh_nothing_reported metrics \<longleftrightarrow>
     (\<forall>n \<in> set [
        gh_native_success metrics, gh_native_failed metrics, gh_full_snapshot_fallback metrics, gh_revision_baseline metrics,
        gh_full_rebuild metrics, gh_core_apply_total metrics, gh_core_incremental metrics, gh_core_full_snapshot metrics,
        gh_revision_mismatch metrics, gh_current_revision_missing metrics, gh_core_apply_errors metrics,
        gh_quic_total_limit metrics, gh_tls_handshake_failure_total metrics, gh_tls_handshake_backoff_reject_total metrics,
        gh_tls_handshake_backoff_active_ips metrics, gh_tls_handshake_backoff_blocked_ips metrics,
        gh_tcp_auth_failure_total metrics, gh_tcp_auth_backoff_reject_total metrics, gh_tcp_auth_backoff_active_ips metrics,
        gh_tcp_auth_backoff_blocked_ips metrics, gh_dns_resolve_total metrics, gh_dns_system_query_total metrics,
        gh_dns_configured_query_total metrics, gh_dns_positive_cache_hit_total metrics,
        gh_dns_negative_cache_hit_total metrics, gh_dns_resolve_error_total metrics, gh_dns_private_ip_filter_total metrics,
        gh_dns_private_ip_block_total metrics, gh_connection_error_total metrics, gh_core_connection_active_total metrics,
        gh_core_connection_active_blocking metrics, gh_core_connection_active_async metrics, gh_core_process_open_fds metrics,
        gh_core_process_rss_bytes metrics, gh_core_process_peak_rss_bytes metrics, gh_core_process_anonymous_rss_bytes metrics,
        gh_core_process_file_rss_bytes metrics, gh_core_process_data_bytes metrics, gh_core_process_threads metrics,
        gh_core_process_cpu_percent_x100 metrics, gh_core_native_relay_active_total metrics,
        gh_core_async_relay_active_total metrics, gh_core_detached_blocking_relay_active_total metrics,
        gh_core_native_relay_pending metrics].
        n = 0) \<and> \<not> gh_metrics_failure metrics"

section \<open>The verdict\<close>

text \<open>The entries of a list whose condition holds, in order: a vector pushed to under each condition.\<close>

definition when_entries :: "(bool \<times> 'a) list \<Rightarrow> 'a list" where
  "when_entries entries = map snd (filter fst entries)"

definition gh_busy_reasons :: "json_map \<Rightarrow> string list" where
  "gh_busy_reasons metrics = when_entries
     [(gh_core_process_open_fds metrics \<ge> NATIVE_CORE_BUSY_OPEN_FDS_THRESHOLD, ''fd_high''),
      (gh_core_connection_active_total metrics \<ge> NATIVE_CORE_BUSY_ACTIVE_CONNECTION_THRESHOLD, ''connection_active_high''),
      (gh_core_async_relay_active_total metrics \<ge> NATIVE_CORE_BUSY_ASYNC_RELAY_THRESHOLD, ''async_relay_active_high''),
      (gh_core_native_relay_pending metrics > 0, ''native_relay_pending'')]"

definition gh_reasons :: "json_map \<Rightarrow> string list" where
  "gh_reasons metrics = when_entries
     [(gh_metrics_failure metrics, ''metrics_unavailable''), (gh_native_failed metrics > 0, ''native_apply_failed''),
      (gh_core_apply_errors metrics > 0, ''core_apply_error''), (gh_full_rebuild metrics > 0, ''full_rebuild''),
      (gh_full_snapshot_fallback metrics > 0, ''full_snapshot_fallback''), (gh_revision_mismatch metrics > 0, ''revision_mismatch''),
      (gh_current_revision_missing metrics > 0, ''current_revision_missing''),
      (gh_quic_utilization_pct metrics \<ge> 90, ''quic_resource_high''),
      (gh_tls_handshake_backoff_reject_total metrics > 0 \<or> gh_tls_handshake_backoff_blocked_ips metrics > 0, ''tls_handshake_backoff''),
      (gh_tcp_auth_backoff_reject_total metrics > 0 \<or> gh_tcp_auth_backoff_blocked_ips metrics > 0, ''tcp_auth_backoff''),
      (gh_dns_resolve_error_total metrics > 0, ''dns_resolve_error''),
      (gh_dns_private_ip_block_total metrics > 0, ''dns_private_ip_block''),
      (gh_hy2_connection_timeout_total metrics > 0 \<or> gh_hy2_tcp_relay_timeout_total metrics > 0, ''hy2_timeout''),
      (gh_vless_tcp_upstream_timeout_total metrics > 0 \<or> gh_vless_tcp_upstream_connect_failed_total metrics > 0, ''vless_upstream_error''),
      (gh_vless_tcp_dns_private_blocked_total metrics > 0, ''vless_dns_private_block'')]"

definition gh_mode :: "json_map \<Rightarrow> string" where
  "gh_mode metrics =
     (if gh_metrics_failure metrics \<or> gh_native_apply_unhealthy metrics \<or> gh_core_apply_unhealthy metrics then ''degraded''
      else if gh_full_rebuild metrics > 0 \<and> \<not> gh_full_rebuild_recovered metrics then ''full_rebuild''
      else if gh_full_snapshot_fallback metrics > 0 \<or> gh_revision_mismatch metrics > 0 \<or>
        gh_current_revision_missing metrics > 0 \<or> gh_apply_error_recovered metrics then ''fallback_repaired''
      else if gh_native_success metrics > 0 then ''native_delta''
      else ''unknown'')"

definition gh_warning :: "json_map \<Rightarrow> string" where
  "gh_warning metrics =
     (if gh_quic_utilization_pct metrics \<ge> 90 then ''QUIC resource usage is high; hold gray rollout until capacity is adjusted''
      else if gh_abuse_backoff_pressure metrics then ''client abuse backoff observed; monitor CPU and auth failure rate before widening''
      else if gh_dns_resolve_pressure metrics then ''DNS resolve errors observed; verify upstream DNS before widening''
      else if gh_connection_error_pressure metrics
        then ''native core connection errors observed; inspect HY2/VLESS counters before widening''
      else if gh_mode metrics = ''degraded'' then ''native core metrics unavailable or apply errors observed''
      else if gh_mode metrics = ''full_rebuild'' then ''native user delta fell back to full plan rebuild''
      else if gh_mode metrics = ''fallback_repaired'' then ''full snapshot fallback observed; monitor for repetition''
      else [])"

definition gh_mode_gate :: "string \<Rightarrow> string" where
  "gh_mode_gate mode =
     (if mode = ''native_delta'' then ''allow_widen'' else if mode = ''fallback_repaired'' then ''hold_monitor''
      else if mode = ''full_rebuild'' \<or> mode = ''degraded'' then ''hold_rollback'' else ''hold'')"

text \<open>The four overrides of the gate, in turn.\<close>

definition hold_if :: "bool \<Rightarrow> string \<Rightarrow> string" where
  "hold_if pressure gate = (if pressure \<and> gate = ''allow_widen'' then ''hold_monitor'' else gate)"

definition gh_gate :: "json_map \<Rightarrow> string" where
  "gh_gate metrics =
     hold_if (gh_connection_error_pressure metrics) (hold_if (gh_dns_resolve_pressure metrics)
       (hold_if (gh_abuse_backoff_pressure metrics) (hold_if (gh_quic_utilization_pct metrics \<ge> 90) (gh_mode_gate (gh_mode metrics)))))"

definition gh_verdict :: "json_map \<Rightarrow> (string \<times> json) list" where
  "gh_verdict metrics =
     [(''mode'', JString (gh_mode metrics)), (''gate'', JString (gh_gate metrics)),
      (''can_widen'', JBool (gh_gate metrics = ''allow_widen'')),
      (''rollback_recommended'', JBool (gh_gate metrics = ''hold_rollback'')), (''warning'', JString (gh_warning metrics)),
      (''apply_error_recovered'', JBool (gh_apply_error_recovered metrics)),
      (''metrics_available'', JBool (\<not> gh_metrics_failure metrics)), (''dns_guard_activity'', JBool (gh_dns_guard_activity metrics)),
      (''busy'', JBool (gh_busy_reasons metrics \<noteq> [])), (''busy_reason'', JString (join '','' (gh_busy_reasons metrics))),
      (''reasons'', json_strings (gh_reasons metrics))]"

definition gh_counters :: "json_map \<Rightarrow> (string \<times> nat) list" where
  "gh_counters metrics = [
      (''native_apply_success_total'', gh_native_success metrics), (''native_apply_failed_total'', gh_native_failed metrics),
      (''full_snapshot_fallback_total'', gh_full_snapshot_fallback metrics),
      (''revision_baseline_total'', gh_revision_baseline metrics), (''full_rebuild_total'', gh_full_rebuild metrics),
      (''core_apply_total'', gh_core_apply_total metrics), (''core_incremental_total'', gh_core_incremental metrics),
      (''core_full_snapshot_total'', gh_core_full_snapshot metrics),
      (''runtime_core_full_snapshot_total'', gh_runtime_core_full_snapshot metrics),
      (''revision_mismatch_total'', gh_revision_mismatch metrics),
      (''current_revision_missing_total'', gh_current_revision_missing metrics),
      (''core_apply_error_total'', gh_core_apply_errors metrics),
      (''core_apply_duration_count'', gh_core_apply_duration_count metrics),
      (''core_apply_duration_last_ms'', gh_core_apply_duration_last_ms metrics),
      (''core_apply_duration_max_ms'', gh_core_apply_duration_max_ms metrics),
      (''quic_total_limit'', gh_quic_total_limit metrics), (''quic_active_connections'', gh_quic_active_connections metrics),
      (''quic_available_connections'', gh_quic_available_connections metrics),
      (''quic_listener_count'', gh_quic_listener_count metrics),
      (''quic_per_listener_soft_limit'', gh_quic_per_listener_soft_limit metrics),
      (''quic_utilization_pct'', gh_quic_utilization_pct metrics),
      (''tls_handshake_failure_total'', gh_tls_handshake_failure_total metrics),
      (''tls_handshake_backoff_reject_total'', gh_tls_handshake_backoff_reject_total metrics),
      (''tls_handshake_backoff_active_ips'', gh_tls_handshake_backoff_active_ips metrics),
      (''tls_handshake_backoff_blocked_ips'', gh_tls_handshake_backoff_blocked_ips metrics),
      (''tcp_auth_failure_total'', gh_tcp_auth_failure_total metrics),
      (''tcp_auth_backoff_reject_total'', gh_tcp_auth_backoff_reject_total metrics),
      (''tcp_auth_backoff_active_ips'', gh_tcp_auth_backoff_active_ips metrics),
      (''tcp_auth_backoff_blocked_ips'', gh_tcp_auth_backoff_blocked_ips metrics),
      (''dns_resolve_total'', gh_dns_resolve_total metrics), (''dns_system_query_total'', gh_dns_system_query_total metrics),
      (''dns_configured_query_total'', gh_dns_configured_query_total metrics),
      (''dns_positive_cache_hit_total'', gh_dns_positive_cache_hit_total metrics),
      (''dns_negative_cache_hit_total'', gh_dns_negative_cache_hit_total metrics),
      (''dns_resolve_error_total'', gh_dns_resolve_error_total metrics),
      (''dns_private_ip_filter_total'', gh_dns_private_ip_filter_total metrics),
      (''dns_private_ip_block_total'', gh_dns_private_ip_block_total metrics),
      (''connection_error_total'', gh_connection_error_total metrics),
      (''hy2_connection_timeout_total'', gh_hy2_connection_timeout_total metrics),
      (''hy2_tcp_relay_timeout_total'', gh_hy2_tcp_relay_timeout_total metrics),
      (''vless_tcp_auth_failed_total'', gh_vless_tcp_auth_failed_total metrics),
      (''vless_tcp_upstream_timeout_total'', gh_vless_tcp_upstream_timeout_total metrics),
      (''vless_tcp_upstream_connect_failed_total'', gh_vless_tcp_upstream_connect_failed_total metrics),
      (''vless_tcp_dns_private_blocked_total'', gh_vless_tcp_dns_private_blocked_total metrics),
      (''core_connection_active_total'', gh_core_connection_active_total metrics),
      (''core_connection_active_blocking'', gh_core_connection_active_blocking metrics),
      (''core_connection_active_async'', gh_core_connection_active_async metrics),
      (''core_process_open_fds'', gh_core_process_open_fds metrics),
      (''core_process_rss_bytes'', gh_core_process_rss_bytes metrics),
      (''core_process_peak_rss_bytes'', gh_core_process_peak_rss_bytes metrics),
      (''core_process_anonymous_rss_bytes'', gh_core_process_anonymous_rss_bytes metrics),
      (''core_process_file_rss_bytes'', gh_core_process_file_rss_bytes metrics),
      (''core_process_data_bytes'', gh_core_process_data_bytes metrics),
      (''core_process_threads'', gh_core_process_threads metrics),
      (''core_process_cpu_percent_x100'', gh_core_process_cpu_percent_x100 metrics),
      (''core_native_relay_active_total'', gh_core_native_relay_active_total metrics),
      (''core_async_relay_active_total'', gh_core_async_relay_active_total metrics),
      (''core_detached_blocking_relay_active_total'', gh_core_detached_blocking_relay_active_total metrics),
      (''core_native_relay_pending'', gh_core_native_relay_pending metrics)]"

definition native_core_gray_health_value :: "json_map \<Rightarrow> json" where
  "native_core_gray_health_value metrics =
     (if gh_nothing_reported metrics then JNull
      else json_obj (map (\<lambda>(key, n). (key, json_nat n)) (gh_counters metrics) @ gh_verdict metrics))"

definition metrics_value :: "json \<Rightarrow> json" where
  "metrics_value metrics =
     (case metrics of
        JObject m \<Rightarrow>
          (let summary = native_core_gray_health_value m
           in if summary = JNull then metrics else JObject (bt_insert ''native_core_gray_health'' summary m))
      | _ \<Rightarrow> metrics)"

section \<open>The parts of the status\<close>

definition usage_value :: "usage_snapshot \<Rightarrow> json" where
  "usage_value usage = json_obj [(''total'', json_nat (unat (us_total usage))), (''used'', json_nat (unat (us_used usage)))]"

definition version_value :: "string \<Rightarrow> json" where
  "version_value version = (if trim version = [] then JString (''v'' @ PKG_VERSION) else JString (trim version))"

fun runtime_mode_label :: "runtime_mode \<Rightarrow> string" where
  "runtime_mode_label DirectNode = ''direct_node''"
| "runtime_mode_label MachineBinding = ''machine_binding''"
| "runtime_mode_label Invalid = ''invalid''"

fun process_state_label :: "process_state \<Rightarrow> string" where
  "process_state_label Running = ''running''"
| "process_state_label Stopped = ''stopped''"
| "process_state_label (Exited code) = ''exited''"

definition runtime_node_status :: "resolved_config \<Rightarrow> node_info \<Rightarrow> json" where
  "runtime_node_status resolved node =
     (let config = node_config_for_info resolved (ni_id node) (ni_tag node)
      in json_obj
        [(''api_host'', JString (unwrap_or [] (map_option (\<lambda>c. trim_end_matches is_slash (nc_url c)) config))),
         (''machine_id'', json_nat (unat (unwrap_or 0 (map_option nc_machine_id config)))), (''node_id'', json_nat (unat (ni_id node))),
         (''node_type'', JString ''v2node''), (''protocol'', JString (protocol_as_str (ni_protocol node))), (''tag'', JString (ni_tag node)),
         (''listen_ip'', JString (cn_listen_ip (ni_common node))), (''server_port'', json_nat (unat (cn_server_port (ni_common node)))),
         (''port'', JString (cn_port (ni_common node))), (''status'', JString ''configured'')])"

definition runtime_node_statuses_value :: "runtime_bootstrap_plan \<Rightarrow> json" where
  "runtime_node_statuses_value plan = JArray (map (runtime_node_status (rbp_resolved plan)) (rbp_node_infos plan))"

definition runtime_value :: "runtime_bootstrap_plan \<Rightarrow> json" where
  "runtime_value plan = json_obj
     [(''agent'', JString ''kelinode-rs''), (''mode'', JString (runtime_mode_label (rb_mode (rbp_bootstrap plan)))),
      (''nodes'', json_nat (rbp_node_count plan)), (''configured_nodes'', json_nat (length (rc_nodes (rbp_resolved plan)))),
      (''node_statuses'', runtime_node_statuses_value plan),
      (''machine_profiles'', json_nat (rb_machine_profile_count (rbp_bootstrap plan))),
      (''subscription_proxy_only'', JBool (rbp_subscription_proxy_only plan))]"

definition read_installed_version_marker :: "string \<Rightarrow> string \<Rightarrow> file_store \<Rightarrow> string option \<times> file_store" where
  "read_installed_version_marker install_dir name fs =
     (case fs_read_to_string (path_push install_dir name) fs of
        (Inl _, fs') \<Rightarrow> (None, fs')
      | (Inr version, fs') \<Rightarrow> (if trim version = [] then None else Some (trim version), fs'))"

fun installed_versions :: "string \<Rightarrow> (string \<times> string) list \<Rightarrow> (string, json) btmap \<Rightarrow> file_store \<Rightarrow> (string, json) btmap \<times> file_store" where
  "installed_versions install_dir [] versions fs = (versions, fs)"
| "installed_versions install_dir ((component, name) # rest) versions fs =
     (case read_installed_version_marker install_dir name fs of
        (None, fs') \<Rightarrow> installed_versions install_dir rest versions fs'
      | (Some version, fs') \<Rightarrow> installed_versions install_dir rest (bt_insert component (JString version) versions) fs')"

definition installed_core_versions_value :: "string \<Rightarrow> file_store \<Rightarrow> json \<times> file_store" where
  "installed_core_versions_value install_dir fs =
     (case installed_versions install_dir INSTALLED_CORE_VERSION_FILES [] fs of (versions, fs') \<Rightarrow> (JObject versions, fs'))"

fun option_list :: "'a option \<Rightarrow> 'a list" where
  "option_list None = []"
| "option_list (Some x) = [x]"

record limit_counts =
  lc_users :: nat
  lc_speed :: nat
  lc_device :: nat
  lc_enforced :: nat

definition count_limits :: "inbound_user_plan \<Rightarrow> limit_counts \<Rightarrow> limit_counts" where
  "count_limits user c =
     (let speed = iu_speed_limit user > 0; device = iu_device_limit user > 0
      in \<lparr>lc_users = lc_users c + 1, lc_speed = lc_speed c + of_bool speed, lc_device = lc_device c + of_bool device,
          lc_enforced = lc_enforced c + of_bool (speed \<or> device)\<rparr>)"

definition plan_limit_counts :: "core_plan option \<Rightarrow> limit_counts" where
  "plan_limit_counts core =
     fold (\<lambda>plan. fold (\<lambda>inbound. fold count_limits (ib_users inbound)) (cp_inbounds plan)) (option_list core)
       \<lparr>lc_users = 0, lc_speed = 0, lc_device = 0, lc_enforced = 0\<rparr>"

definition user_limit_value :: "runtime_bootstrap_plan \<Rightarrow> json" where
  "user_limit_value plan =
     (let c = plan_limit_counts (rbp_core_plan plan); active = lc_speed c > 0 \<or> lc_device c > 0
      in json_obj
        [(''users'', json_nat (lc_users c)), (''speed_limited_users'', json_nat (lc_speed c)),
         (''device_limited_users'', json_nat (lc_device c)), (''enforced_limited_users'', json_nat (lc_enforced c)),
         (''pending_limited_users'', json_nat 0), (''active'', JBool active),
         (''enforcement'', JString (if active then ''keli_core_rs'' else ''none_required'')), (''warning'', JString [])])"

definition process_status_value :: "process_status \<Rightarrow> json" where
  "process_status_value status = json_obj
     [(''name'', JString (prs_name status)), (''pid'', json_opt (\<lambda>p. json_nat (unat p)) (prs_pid status)),
      (''state'', JString (process_state_label (prs_state status))), (''message'', JString (prs_message status))]"

definition core_value :: "runtime_bootstrap_plan \<Rightarrow> process_status option \<Rightarrow> file_store \<Rightarrow> json \<times> file_store" where
  "core_value plan status fs =
     (case installed_core_versions_value HEALTH_INSTALL_DIR fs of (versions, fs') \<Rightarrow>
       (json_obj
          [(''configured'', JBool (rbp_core_plan plan \<noteq> None)),
           (''config_path'', json_opt (\<lambda>core. JString (cp_config_path core)) (rbp_core_plan plan)),
           (''inbounds'', json_nat (unwrap_or 0 (map_option (\<lambda>core. length (cp_inbounds core)) (rbp_core_plan plan)))),
           (''versions'', versions), (''user_limits'', user_limit_value plan), (''status'', json_opt process_status_value status)], fs'))"

definition hy2_rule_value :: "hysteria_port_forward_rule_spec \<Rightarrow> json" where
  "hy2_rule_value rule = json_obj
     [(''protocol'', JString (rsp_protocol rule)), (''match_rule'', JString (rsp_match_rule rule)),
      (''target_port'', json_nat (unat (rsp_target_port rule))), (''spec'', JString (rsp_spec rule))]"

definition hy2_tool_value :: "hysteria_port_forward_tool_status \<Rightarrow> json" where
  "hy2_tool_value status = json_obj
     [(''tool'', JString (tst_tool status)), (''available'', JBool (tst_available status)),
      (''current'', json_strings (tst_current status)), (''expected'', json_strings (tst_expected status)),
      (''missing'', json_strings (tst_missing status)), (''extra'', json_strings (tst_extra status)),
      (''stale_chain'', JBool (tst_stale_chain status)), (''error'', JString (tst_error status))]"

definition hy2_port_forward_value :: "hysteria_port_forward_status \<Rightarrow> json" where
  "hy2_port_forward_value status = json_obj
     [(''enabled'', JBool (pst_enabled status)), (''running_as_root'', JBool (pst_running_as_root status)),
      (''expected_rules'', JArray (map hy2_rule_value (pst_expected_rules status))),
      (''tools'', JArray (map hy2_tool_value (pst_tools status))), (''errors'', json_strings (pst_errors status))]"

definition subscription_proxy_status_value :: "subscription_proxy_status \<Rightarrow> json" where
  "subscription_proxy_status_value status = json_obj
     [(''status'', JString (sps_status status)), (''enabled'', JBool (sps_enabled status)), (''running'', JBool (sps_running status)),
      (''mode'', JString (sps_mode status)), (''https_listen'', JString (sps_https_listen status)),
      (''profiles'', json_nat (sps_profiles status)), (''website_profiles'', json_nat (sps_website_profiles status)),
      (''certificate_domain'', JString (sps_certificate_domain status)),
      (''certificate_owner_site_id'', JString (sps_certificate_owner_site_id status)),
      (''certificate_id'', JString (sps_certificate_id status)), (''need_certificate'', JBool (sps_need_certificate status)),
      (''csr_pem'', JString (sps_csr_pem status)), (''validation_ready'', JBool (sps_validation_ready status)),
      (''cert_not_after'', JString (sps_cert_not_after status)), (''last_error'', JString (sps_last_error status))]"

definition agent_value :: "agent_config \<Rightarrow> subscription_proxy_status option \<Rightarrow> json" where
  "agent_value agent status =
     (let proxy = subscription_proxy agent
      in case status of
           Some st \<Rightarrow> json_obj [(''subscription_proxy'', subscription_proxy_status_value st)]
         | None \<Rightarrow>
             if \<not> sp_enabled proxy then JNull
             else json_obj [(''subscription_proxy'', json_obj
               [(''enabled'', JBool (sp_enabled proxy)), (''https_listen'', JString (sp_https_listen proxy)),
                (''http_listen'', JString (sp_http_listen proxy)), (''certificate_domain'', JString (sp_certificate_domain proxy)),
                (''site_id'', JString (sp_site_id proxy)), (''upstream_base_url'', JString (sp_upstream_base_url proxy)),
                (''subscribe_path'', JString (sp_subscribe_path proxy)),
                (''profiles'', JArray (map (\<lambda>p. json_obj [(''site_id'', JString (spp_site_id p)),
                   (''upstream_base_url'', JString (spp_upstream_base_url p)), (''subscribe_path'', JString (spp_subscribe_path p))])
                   (sp_profiles proxy))),
                (''website_profiles'', JArray (map (\<lambda>p. json_obj [(''site_id'', JString (wpp_site_id p)),
                   (''upstream_base_url'', JString (wpp_upstream_base_url p)), (''path_prefix'', JString (wpp_path_prefix p))])
                   (sp_website_profiles proxy)))])])"

section \<open>The payload\<close>

definition v2node_failure :: "string \<Rightarrow> u32 \<Rightarrow> u32 \<Rightarrow> string \<Rightarrow> node_failure_payload" where
  "v2node_failure api_host node_id machine_id error =
     \<lparr>nfp_api_host = api_host, nfp_node_id = node_id, nfp_machine_id = machine_id, nfp_node_type = ''v2node'', nfp_error = error\<rparr>"

definition node_failure_payloads :: "node_failure list \<Rightarrow> u32 \<Rightarrow> node_failure_payload list" where
  "node_failure_payloads failures fallback_machine_id =
     map (\<lambda>failure. v2node_failure (trim_end_matches is_slash (nc_url (nf_config failure))) (nc_node_id (nf_config failure))
       (if nc_machine_id (nf_config failure) = 0 then fallback_machine_id else nc_machine_id (nf_config failure)) (nf_error failure)) failures"

definition node_failure_value :: "node_failure_payload \<Rightarrow> json" where
  "node_failure_value p = json_obj
     [(''api_host'', JString (nfp_api_host p)), (''node_id'', json_nat (unat (nfp_node_id p))),
      (''machine_id'', json_nat (unat (nfp_machine_id p))), (''node_type'', JString (nfp_node_type p)), (''error'', JString (nfp_error p))]"

definition status_entries :: "u32 \<Rightarrow> runtime_bootstrap_plan \<Rightarrow> health_report_input \<Rightarrow> json \<Rightarrow> (string \<times> json) list" where
  "status_entries machine_id plan input core =
     (let res = hri_resources input; agent = agent_value (rc_agent (rbp_resolved plan)) (hri_subscription_proxy input)
      in [(''cpu'', res_cpu res), (''mem'', usage_value (res_mem res)), (''swap'', usage_value (res_swap res)),
          (''disk'', usage_value (res_disk res)), (''net'', unwrap_or JNull (res_net res)), (''ip'', unwrap_or (json_obj []) (res_ip res)),
          (''system'', unwrap_or JNull (res_system res)), (''uptime'', json_opt (\<lambda>u. json_nat (unat u)) (res_uptime res)),
          (''version'', version_value (hri_version input)), (''runtime'', runtime_value plan), (''core'', core),
          (''hy2_port_forward'', hy2_port_forward_value (rbp_hy2_port_forward plan)),
          (''mieru_port_forward'', hy2_port_forward_value (rbp_mieru_port_forward plan)),
          (''node_failures'', JArray (map node_failure_value (node_failure_payloads (rbp_node_failures plan) machine_id)))] @
         (if agent = JNull then [] else [(''agent'', agent)]) @
         map (\<lambda>u. (''upgrade'', u)) (option_list (hri_upgrade input)) @
         map (\<lambda>m. (''metrics'', metrics_value m)) (option_list (hri_metrics input)))"

definition build_machine_status_payload ::
  "u32 \<Rightarrow> runtime_bootstrap_plan \<Rightarrow> health_report_input \<Rightarrow> file_store \<Rightarrow> machine_status_payload \<times> file_store" where
  "build_machine_status_payload machine_id plan input fs =
     (case core_value plan (hri_core input) fs of (core, fs') \<Rightarrow>
       (fold (\<lambda>(key, v). insert_status key v) (status_entries machine_id plan input core) (machine_status_payload_new machine_id), fs'))"

section \<open>When a rollout may widen\<close>

definition gray_trouble :: "json_map \<Rightarrow> nat list" where
  "gray_trouble metrics =
     [gh_native_failed metrics, gh_core_apply_errors metrics, gh_full_rebuild metrics, gh_full_snapshot_fallback metrics,
      gh_revision_mismatch metrics, gh_current_revision_missing metrics, gh_tls_handshake_backoff_reject_total metrics,
      gh_tls_handshake_backoff_blocked_ips metrics, gh_tcp_auth_backoff_reject_total metrics, gh_tcp_auth_backoff_blocked_ips metrics,
      gh_dns_resolve_error_total metrics, gh_hy2_connection_timeout_total metrics, gh_hy2_tcp_relay_timeout_total metrics,
      gh_vless_tcp_upstream_timeout_total metrics, gh_vless_tcp_upstream_connect_failed_total metrics]"

lemmas gh_recovery = gh_native_apply_recovered_def gh_core_apply_recovered_def gh_full_rebuild_recovered_def
  gh_apply_error_recovered_def gh_native_apply_unhealthy_def gh_core_apply_unhealthy_def

lemma gh_mode_native:
  "gh_mode metrics = ''native_delta'' \<longleftrightarrow>
     gh_native_success metrics > 0 \<and> \<not> gh_metrics_failure metrics \<and> gh_native_failed metrics = 0 \<and> gh_core_apply_errors metrics = 0 \<and>
     gh_full_rebuild metrics = 0 \<and> gh_full_snapshot_fallback metrics = 0 \<and> gh_revision_mismatch metrics = 0 \<and>
     gh_current_revision_missing metrics = 0"
  by (auto simp: gh_mode_def gh_recovery)

lemma gh_gate_allow:
  "gh_gate metrics = ''allow_widen'' \<longleftrightarrow>
     gh_mode metrics = ''native_delta'' \<and> gh_quic_utilization_pct metrics < 90 \<and> \<not> gh_abuse_backoff_pressure metrics \<and>
     \<not> gh_dns_resolve_pressure metrics \<and> \<not> gh_connection_error_pressure metrics"
  by (auto simp: gh_gate_def hold_if_def gh_mode_gate_def)

lemma gh_gate_rollback:
  "gh_gate metrics = ''hold_rollback'' \<longleftrightarrow> gh_mode metrics = ''full_rebuild'' \<or> gh_mode metrics = ''degraded''"
  by (auto simp: gh_gate_def hold_if_def gh_mode_gate_def)

lemma gh_mode_rollback:
  "gh_mode metrics = ''full_rebuild'' \<or> gh_mode metrics = ''degraded'' \<longleftrightarrow>
     gh_metrics_failure metrics \<or>
     gh_native_failed metrics > 0 \<and> gh_native_success metrics \<le> gh_native_failed metrics \<or>
     gh_core_apply_errors metrics > 0 \<and> gh_core_apply_successes metrics \<le> gh_core_apply_errors metrics \<or>
     gh_full_rebuild metrics > 0 \<and> gh_native_success metrics = 0 \<and> gh_core_apply_successes metrics = 0"
  by (auto simp: gh_mode_def gh_recovery)

lemma gh_reported:
  "gh_native_success metrics > 0 \<or> gh_metrics_failure metrics \<or> gh_native_failed metrics > 0 \<or> gh_core_apply_errors metrics > 0 \<or>
   gh_full_rebuild metrics > 0 \<Longrightarrow> \<not> gh_nothing_reported metrics"
  by (auto simp: gh_nothing_reported_def)

lemma gray_value_get:
  assumes "\<not> gh_nothing_reported metrics" and "key \<in> set [''can_widen'', ''rollback_recommended'']"
  shows "json_get (native_core_gray_health_value metrics) key = map_of (gh_verdict metrics) key"
  using assms by (auto simp: native_core_gray_health_value_def json_get_obj gh_verdict_def)

text \<open>
  C30: The summary lets a gray rollout widen exactly when native deltas were applied, no error, fallback,
  backoff, DNS or connection counter is above zero, the metrics were read and QUIC use is below
  nine tenths; it recommends a rollback exactly when the metrics are missing or failures outnumber
  the later successes.
\<close>

theorem gray_gate_exact:
  "(json_get (native_core_gray_health_value metrics) ''can_widen'' = Some (JBool True) \<longleftrightarrow>
     gh_native_success metrics > 0 \<and> \<not> gh_metrics_failure metrics \<and> sum_list (gray_trouble metrics) = 0 \<and>
     gh_quic_utilization_pct metrics < 90) \<and>
   (json_get (native_core_gray_health_value metrics) ''rollback_recommended'' = Some (JBool True) \<longleftrightarrow>
     gh_metrics_failure metrics \<or>
     gh_native_failed metrics > 0 \<and> gh_native_success metrics \<le> gh_native_failed metrics \<or>
     gh_core_apply_errors metrics > 0 \<and> gh_core_apply_successes metrics \<le> gh_core_apply_errors metrics \<or>
     gh_full_rebuild metrics > 0 \<and> gh_native_success metrics = 0 \<and> gh_core_apply_successes metrics = 0)"
proof (intro conjI)
  have "json_get (native_core_gray_health_value metrics) key =
      (if gh_nothing_reported metrics then None else map_of (gh_verdict metrics) key)"
    if "key \<in> set [''can_widen'', ''rollback_recommended'']" for key
    using gray_value_get [OF _ that] by (auto simp: native_core_gray_health_value_def)
  then have get: "json_get (native_core_gray_health_value metrics) ''can_widen'' = Some (JBool True) \<longleftrightarrow>
      \<not> gh_nothing_reported metrics \<and> gh_gate metrics = ''allow_widen''"
    "json_get (native_core_gray_health_value metrics) ''rollback_recommended'' = Some (JBool True) \<longleftrightarrow>
      \<not> gh_nothing_reported metrics \<and> gh_gate metrics = ''hold_rollback''"
    by (simp_all add: gh_verdict_def)
  show "json_get (native_core_gray_health_value metrics) ''can_widen'' = Some (JBool True) \<longleftrightarrow>
     gh_native_success metrics > 0 \<and> \<not> gh_metrics_failure metrics \<and> sum_list (gray_trouble metrics) = 0 \<and>
     gh_quic_utilization_pct metrics < 90"
    unfolding get gh_gate_allow gh_mode_native gray_trouble_def
    using gh_reported [of metrics]
    by (auto simp: gh_abuse_backoff_pressure_def gh_dns_resolve_pressure_def gh_connection_error_pressure_def)
  show "json_get (native_core_gray_health_value metrics) ''rollback_recommended'' = Some (JBool True) \<longleftrightarrow>
     gh_metrics_failure metrics \<or>
     gh_native_failed metrics > 0 \<and> gh_native_success metrics \<le> gh_native_failed metrics \<or>
     gh_core_apply_errors metrics > 0 \<and> gh_core_apply_successes metrics \<le> gh_core_apply_errors metrics \<or>
     gh_full_rebuild metrics > 0 \<and> gh_native_success metrics = 0 \<and> gh_core_apply_successes metrics = 0"
    unfolding get gh_gate_rollback gh_mode_rollback using gh_reported [of metrics] by blast
qed

lemma plan_limit_counts_exact:
  "plan_limit_counts core =
     (let users = concat (map (\<lambda>plan. concat (map ib_users (cp_inbounds plan))) (option_list core))
      in \<lparr>lc_users = length users, lc_speed = length (filter (\<lambda>u. iu_speed_limit u > 0) users),
          lc_device = length (filter (\<lambda>u. iu_device_limit u > 0) users),
          lc_enforced = length (filter (\<lambda>u. iu_speed_limit u > 0 \<or> iu_device_limit u > 0) users)\<rparr>)"
proof -
  have one: "fold count_limits users c =
      \<lparr>lc_users = lc_users c + length users, lc_speed = lc_speed c + length (filter (\<lambda>u. iu_speed_limit u > 0) users),
       lc_device = lc_device c + length (filter (\<lambda>u. iu_device_limit u > 0) users),
       lc_enforced = lc_enforced c + length (filter (\<lambda>u. iu_speed_limit u > 0 \<or> iu_device_limit u > 0) users)\<rparr>" for users c
    by (induction users arbitrary: c) (simp_all add: count_limits_def Let_def)
  have nested: "fold (\<lambda>inbound. fold count_limits (ib_users inbound)) inbounds c = fold count_limits (concat (map ib_users inbounds)) c" for inbounds c
    by (induction inbounds arbitrary: c) (simp_all add: fold_append)
  show ?thesis by (cases core) (simp_all add: plan_limit_counts_def nested one Let_def)
qed

end
