(* ===== verification/Control.thy ===== *)
theory Control
  imports Health Core_Files Upgrade Ip_Addr
begin

text \<open>
  Applying a runtime plan (\<open>src/src/control.rs\<close>): the core's configuration and process, the port
  forwards, and the status reported to the panels. The supervisor, the firewall commands, the control
  channel, the sockets and the panels are arguments; \<open>trim_embedded_core_process_memory\<close> does
  nothing in a build without the embedded core.
\<close>

section \<open>Data\<close>

record runtime_control_options =
  rco_machine_id :: u32
  rco_core_command :: "string option"
  rco_start_core :: bool
  rco_hot_apply :: bool
  rco_user_delta_applied :: bool
  rco_repair_port_forward :: bool
  rco_health :: health_report_input

definition CLEAN_PORT_FORWARD_LOG_INTERVAL_SECS :: int where
  "CLEAN_PORT_FORWARD_LOG_INTERVAL_SECS = 300"

record clean_log_state =
  cls_summary :: "string option"
  cls_last_secs :: int

record runtime_apply_result =
  ra_core_config :: "core_config_write_result option"
  ra_core_process :: "process_status option"
  ra_hy2 :: hysteria_port_forward_status
  ra_mieru :: hysteria_port_forward_status
  ra_machine_status :: machine_status_payload

record runtime_panel_action =
  pa_reload :: bool
  pa_upgrade :: "machine_upgrade_command option"

record runtime_tick_options =
  to_control :: runtime_control_options
  to_report_to_panel :: bool
  to_users :: "(string, user_info list) btmap"

datatype runtime_loop_signal = Continue | Reload | UpgradeSignal machine_upgrade_command

record runtime_tick_result =
  tr_apply :: runtime_apply_result
  tr_panel_action :: runtime_panel_action
  tr_signal :: runtime_loop_signal

record hot_apply_error =
  he_message :: string
  he_fallback_reload :: bool

definition hot_fallback :: "string \<Rightarrow> hot_apply_error" where
  "hot_fallback message = \<lparr>he_message = message, he_fallback_reload = True\<rparr>"

definition hot_fatal :: "string \<Rightarrow> hot_apply_error" where
  "hot_fatal message = \<lparr>he_message = message, he_fallback_reload = False\<rparr>"

record control_listener_spec =
  cls_tag :: string
  cls_protocol :: string
  cls_network :: string
  cls_listen :: string
  cls_port :: u16

section \<open>Environment and world\<close>

text \<open>
  The trait \<open>ProcessSupervisor\<close> as a record of its four methods. A token that has to be made
  takes its random bytes from \<open>ce_random\<close>, one entry per place that may make one.
\<close>

record 'p supervisor_ops =
  so_start :: "process_spec \<Rightarrow> 'p \<Rightarrow> process_status result \<times> 'p"
  so_stop :: "string \<Rightarrow> 'p \<Rightarrow> process_status result \<times> 'p"
  so_reload :: "process_spec \<Rightarrow> 'p \<Rightarrow> process_status result \<times> 'p"
  so_status :: "string \<Rightarrow> 'p \<Rightarrow> process_status result \<times> 'p"

datatype log_level = LogInfo | LogWarn

record ('p, 'x, 'k) control_env =
  ce_sup :: "'p supervisor_ops"
  ce_fw :: "'x port_forward_executor"
  ce_link :: "'k core_link"
  ce_writer :: core_writer
  ce_random :: "nat \<Rightarrow> u8 list result"
  ce_cwd :: "string option"
  ce_bind :: "string \<Rightarrow> ip_addr \<Rightarrow> u16 \<Rightarrow> unit result"
  ce_dbg :: "string \<Rightarrow> string"
  ce_now :: int

record ('p, 'x, 'k) control_world =
  w_sup :: 'p
  w_fw :: 'x
  w_channel :: 'k
  w_fs :: file_store
  w_log :: "(log_level \<times> string \<times> string) list"
  w_hy2_clean :: clean_log_state
  w_mieru_clean :: clean_log_state

definition on_sup :: "('p \<Rightarrow> 'a \<times> 'p) \<Rightarrow> ('p, 'x, 'k) control_world \<Rightarrow> 'a \<times> ('p, 'x, 'k) control_world" where
  "on_sup f w = (case f (w_sup w) of (r, p) \<Rightarrow> (r, w\<lparr>w_sup := p\<rparr>))"

definition on_fs :: "(file_store \<Rightarrow> 'a \<times> file_store) \<Rightarrow> ('p, 'x, 'k) control_world \<Rightarrow> 'a \<times> ('p, 'x, 'k) control_world" where
  "on_fs f w = (case f (w_fs w) of (r, fs) \<Rightarrow> (r, w\<lparr>w_fs := fs\<rparr>))"

definition on_channel :: "('k \<Rightarrow> 'a \<times> 'k) \<Rightarrow> ('p, 'x, 'k) control_world \<Rightarrow> 'a \<times> ('p, 'x, 'k) control_world" where
  "on_channel f w = (case f (w_channel w) of (r, k) \<Rightarrow> (r, w\<lparr>w_channel := k\<rparr>))"

definition on_fw :: "('x \<Rightarrow> 'a \<times> 'x) \<Rightarrow> ('p, 'x, 'k) control_world \<Rightarrow> 'a \<times> ('p, 'x, 'k) control_world" where
  "on_fw f w = (case f (w_fw w) of (r, x) \<Rightarrow> (r, w\<lparr>w_fw := x\<rparr>))"

definition log_line :: "log_level \<Rightarrow> string \<Rightarrow> string \<Rightarrow> ('p, 'x, 'k) control_world \<Rightarrow> ('p, 'x, 'k) control_world" where
  "log_line level component text w = w\<lparr>w_log := w_log w @ [(level, component, text)]\<rparr>"

section \<open>The text of a socket address\<close>

fun hex_text_loop :: "nat \<Rightarrow> nat \<Rightarrow> string" where
  "hex_text_loop 0 n = []"
| "hex_text_loop (Suc k) n = (if n < 16 then [hex_digit n] else hex_text_loop k (n div 16) @ [hex_digit (n mod 16)])"

text \<open>A group has at most four digits.\<close>

definition group_text :: "nat \<Rightarrow> string" where
  "group_text n = hex_text_loop 4 n"

definition ipv4_text :: "nat list \<Rightarrow> string" where
  "ipv4_text octets = join ''.'' (map nat_to_string octets)"

text \<open>The first longest run of zero groups, as a start and a length.\<close>

fun zero_span :: "nat list \<Rightarrow> nat \<Rightarrow> nat \<times> nat \<Rightarrow> nat \<times> nat \<Rightarrow> nat \<times> nat" where
  "zero_span [] i current longest = longest"
| "zero_span (g # gs) i current longest =
     (if g = 0 then
        let current' = (if snd current = 0 then (i, 1) else (fst current, snd current + 1))
        in zero_span gs (i + 1) current' (if snd current' > snd longest then current' else longest)
      else zero_span gs (i + 1) (0, 0) longest)"

definition ipv6_text :: "nat list \<Rightarrow> string" where
  "ipv6_text groups =
     (if take 6 groups = [0, 0, 0, 0, 0, 65535] \<and> length groups = 8
      then ''::ffff:'' @ ipv4_text (concat (map (\<lambda>g. [g div 256, g mod 256]) (drop 6 groups)))
      else
        let (start, len) = zero_span groups 0 (0, 0) (0, 0); part = (\<lambda>gs. join '':'' (map group_text gs))
        in if len > 1 then part (take start groups) @ ''::'' @ part (drop (start + len) groups) else part groups)"

fun socket_text :: "ip_addr \<Rightarrow> u16 \<Rightarrow> string" where
  "socket_text (IpV4 octets) port = ipv4_text octets @ '':'' @ nat_to_string (unat port)"
| "socket_text (IpV6 groups) port = ''['' @ ipv6_text groups @ '']:'' @ nat_to_string (unat port)"

section \<open>Listeners\<close>

definition normalize_control_listen :: "string \<Rightarrow> string" where
  "normalize_control_listen v = trim_end_matches (\<lambda>c. c = CHR '']'') (trim_start_matches (\<lambda>c. c = CHR ''['') (trim v))"

definition control_inbound_binds_tcp :: "inbound_plan \<Rightarrow> bool" where
  "control_inbound_binds_tcp inbound \<longleftrightarrow> ib_protocol inbound \<in>
     set [''socks'', ''http'', ''vless'', ''vmess'', ''trojan'', ''shadowsocks'', ''anytls'', ''mieru'']"

definition control_inbound_binds_udp :: "inbound_plan \<Rightarrow> bool" where
  "control_inbound_binds_udp inbound \<longleftrightarrow> ib_protocol inbound \<in> set [''hysteria'', ''hysteria2'', ''tuic''] \<or>
     (ib_protocol inbound = ''shadowsocks'' \<and> sublist ''udp'' (ib_network inbound))"

definition control_listener :: "inbound_plan \<Rightarrow> string \<Rightarrow> control_listener_spec" where
  "control_listener inbound network =
     \<lparr>cls_tag = ib_tag inbound, cls_protocol = ib_protocol inbound, cls_network = network,
      cls_listen = normalize_control_listen (ib_listen inbound), cls_port = ib_port inbound\<rparr>"

definition control_listener_specs :: "inbound_plan \<Rightarrow> control_listener_spec list" where
  "control_listener_specs inbound =
     (if control_inbound_binds_tcp inbound then [control_listener inbound ''tcp''] else []) @
     (if control_inbound_binds_udp inbound then [control_listener inbound ''udp''] else [])"

definition candidate_listener_addrs :: "string \<Rightarrow> ip_addr list" where
  "candidate_listener_addrs listen =
     (let listen = normalize_control_listen listen
      in if listen = [] \<or> listen = ''0.0.0.0'' \<or> listen = ''::'' then [IpV6 (replicate 8 0), IpV4 (replicate 4 0)]
         else (case parse_ip_addr listen of Some ip \<Rightarrow> [ip] | None \<Rightarrow> []))"

fun bind_loop ::
  "(ip_addr \<Rightarrow> unit result) \<Rightarrow> ip_addr list \<Rightarrow> (ip_addr \<times> string) option \<Rightarrow> (ip_addr \<times> string) option" where
  "bind_loop bind [] last_error = last_error"
| "bind_loop bind (addr # addrs) last_error =
     (case bind addr of Inr _ \<Rightarrow> None | Inl e \<Rightarrow> bind_loop bind addrs (Some (addr, e)))"

definition check_listener_available ::
  "(string \<Rightarrow> ip_addr \<Rightarrow> u16 \<Rightarrow> unit result) \<Rightarrow> control_listener_spec \<Rightarrow> unit result" where
  "check_listener_available bind spec =
     (case bind_loop (\<lambda>addr. bind (cls_network spec) addr (cls_port spec)) (candidate_listener_addrs (cls_listen spec)) None of
        None \<Rightarrow> Ok ()
      | Some (addr, e) \<Rightarrow>
          Err (cls_network spec @ '' listener '' @ socket_text addr (cls_port spec) @ '' for inbound '' @ cls_tag spec @ '' ('' @
            cls_protocol spec @ '') is unavailable: '' @ e))"

fun first_error :: "('a \<Rightarrow> unit result) \<Rightarrow> 'a list \<Rightarrow> string option" where
  "first_error f [] = None"
| "first_error f (x # xs) = (case f x of Inl e \<Rightarrow> Some e | Inr _ \<Rightarrow> first_error f xs)"

definition first_unavailable_listener_error ::
  "(string \<Rightarrow> ip_addr \<Rightarrow> u16 \<Rightarrow> unit result) \<Rightarrow> inbound_plan \<Rightarrow> string option" where
  "first_unavailable_listener_error bind inbound = first_error (check_listener_available bind) (control_listener_specs inbound)"

text \<open>The loop over the inbounds: the tags to skip and the failures to report.\<close>

definition listener_failure :: "runtime_bootstrap_plan \<Rightarrow> string \<Rightarrow> string \<Rightarrow> node_failure list" where
  "listener_failure plan tag error =
     (case find (\<lambda>node. ni_tag node = tag) (rbp_node_infos plan) of
        None \<Rightarrow> []
      | Some node \<Rightarrow>
          [\<lparr>nf_config = unwrap_or (node_config_default\<lparr>nc_node_id := ni_id node\<rparr>)
              (node_config_for_info (rbp_resolved plan) (ni_id node) (ni_tag node)),
            nf_error = error\<rparr>])"

fun unavailable_loop ::
  "(string \<Rightarrow> ip_addr \<Rightarrow> u16 \<Rightarrow> unit result) \<Rightarrow> runtime_bootstrap_plan \<Rightarrow> inbound_plan list \<Rightarrow> string btset \<Rightarrow> node_failure list \<Rightarrow>
   ('p, 'x, 'k) control_world \<Rightarrow> string btset \<times> node_failure list \<times> ('p, 'x, 'k) control_world" where
  "unavailable_loop bind plan [] skipped failures w = (skipped, failures, w)"
| "unavailable_loop bind plan (inbound # inbounds) skipped failures w =
     (case first_unavailable_listener_error bind inbound of
        None \<Rightarrow> unavailable_loop bind plan inbounds skipped failures w
      | Some error \<Rightarrow>
          unavailable_loop bind plan inbounds (bs_insert (ib_tag inbound) skipped)
            (failures @ listener_failure plan (ib_tag inbound) error)
            (log_line LogWarn ''core''
              (''skipping node because listener is unavailable tag='' @ ib_tag inbound @ '' error='' @ error) w))"

definition skip_listeners ::
  "string btset \<Rightarrow> node_failure list \<Rightarrow> core_plan \<Rightarrow> runtime_bootstrap_plan \<Rightarrow> core_plan \<times> runtime_bootstrap_plan" where
  "skip_listeners skipped failures core_plan plan =
     (let infos = filter (\<lambda>node. \<not> bs_contains skipped (ni_tag node)) (rbp_node_infos plan)
      in (core_plan\<lparr>cp_inbounds := filter (\<lambda>inbound. \<not> bs_contains skipped (ib_tag inbound)) (cp_inbounds core_plan),
            cp_listen_tags := filter (\<lambda>tag. \<not> bs_contains skipped tag) (cp_listen_tags core_plan)\<rparr>,
          plan\<lparr>rbp_node_infos := infos, rbp_node_count := length infos, rbp_node_failures := rbp_node_failures plan @ failures\<rparr>))"

definition filter_unavailable_keli_core_rs_listeners ::
  "('p, 'x, 'k) control_env \<Rightarrow> runtime_control_options \<Rightarrow> core_plan \<Rightarrow> runtime_bootstrap_plan \<Rightarrow> ('p, 'x, 'k) control_world \<Rightarrow>
   (core_plan \<times> runtime_bootstrap_plan) result \<times> ('p, 'x, 'k) control_world" where
  "filter_unavailable_keli_core_rs_listeners env options core_plan plan w =
     (if \<not> rm_continue_on_error (rc_machine (rbp_resolved plan)) then (Ok (core_plan, plan), w)
      else
        io_then (on_fs (core_process_spec (ce_random env 0) (ce_cwd env) core_plan (rco_core_command options)) w) (\<lambda>spec w.
          case on_sup (so_status (ce_sup env) (psp_name spec)) w of (r, w1) \<Rightarrow>
            if (case r of Inr status \<Rightarrow> is_running status | Inl _ \<Rightarrow> False) then (Ok (core_plan, plan), w1)
            else
              (case unavailable_loop (ce_bind env) plan (cp_inbounds core_plan) [] [] w1 of (skipped, failures, w2) \<Rightarrow>
                (if skipped = [] then Ok (core_plan, plan) else Ok (skip_listeners skipped failures core_plan plan), w2))))"

section \<open>The log of the port forwards\<close>

definition total_hy2_missing_rules :: "hysteria_port_forward_status \<Rightarrow> nat" where
  "total_hy2_missing_rules status = sum_list (map (\<lambda>t. length (tst_missing t)) (pst_tools status))"

definition tool_state_text :: "hysteria_port_forward_tool_status \<Rightarrow> string" where
  "tool_state_text t =
     tst_tool t @ ''('' @
     (if \<not> tst_available t then ''unavailable''
      else if tst_error t \<noteq> [] then ''error:'' @ tst_error t
      else ''current='' @ nat_to_string (length (tst_current t)) @ '' expected='' @ nat_to_string (length (tst_expected t)) @
        '' missing='' @ nat_to_string (length (tst_missing t)) @ '' extra='' @ nat_to_string (length (tst_extra t))) @ '')''"

definition dash_if_empty :: "string \<Rightarrow> string" where
  "dash_if_empty s = (if s = [] then ''-'' else s)"

definition hy2_node_text :: "node_info \<Rightarrow> string" where
  "hy2_node_text info =
     (let port = trim (cn_port (ni_common info)); ports = trim (cn_ports (ni_common info))
      in nat_to_string (unat (ni_id info)) @ '':server_port='' @ nat_to_string (unat (cn_server_port (ni_common info))) @
         '' external='' @ (if port \<noteq> [] then port else dash_if_empty ports))"

definition hy2_port_forward_node_summary :: "node_info list \<Rightarrow> string" where
  "hy2_port_forward_node_summary infos =
     (let nodes = map hy2_node_text (filter (\<lambda>info. ni_protocol info = Hysteria2) infos)
      in if nodes = [] then ''-'' else join '','' nodes)"

definition mieru_node_text :: "node_info \<Rightarrow> string" where
  "mieru_node_text info =
     (let port = trim (cn_port (ni_common info)); ports = trim (cn_ports (ni_common info)); transport = trim (cn_transport (ni_common info))
      in nat_to_string (unat (ni_id info)) @ '':server_port='' @ nat_to_string (unat (cn_server_port (ni_common info))) @
         '' external='' @ (if ports \<noteq> [] then ports else dash_if_empty port) @ '' transport='' @ (if transport = [] then ''TCP'' else transport))"

definition mieru_port_forward_node_summary :: "node_info list \<Rightarrow> string" where
  "mieru_port_forward_node_summary infos =
     (let nodes = map mieru_node_text (filter (\<lambda>info. ni_protocol info = Mieru) infos)
      in if nodes = [] then ''-'' else join '','' nodes)"

definition port_forward_summary :: "string \<Rightarrow> string \<Rightarrow> hysteria_port_forward_status \<Rightarrow> bool \<Rightarrow> string" where
  "port_forward_summary label nodes status repaired =
     label @ '' port-forward '' @ (if repaired then ''repair'' else ''inspect'') @ '' root='' @ bool_to_string (pst_running_as_root status) @
     '' expected='' @ nat_to_string (length (pst_expected_rules status)) @ '' missing='' @ nat_to_string (total_hy2_missing_rules status) @
     '' errors='' @ nat_to_string (length (pst_errors status)) @ '' first_rule='' @
     (case pst_expected_rules status of [] \<Rightarrow> ''-'' | rule # _ \<Rightarrow> rsp_spec rule) @ '' nodes='' @ nodes @
     '' tools='' @ dash_if_empty (join '','' (map tool_state_text (pst_tools status)))"

definition hy2_port_forward_summary :: "hysteria_port_forward_status \<Rightarrow> bool \<Rightarrow> node_info list \<Rightarrow> string" where
  "hy2_port_forward_summary status repaired infos =
     port_forward_summary ''hy2'' (hy2_port_forward_node_summary infos) status repaired"

definition mieru_port_forward_summary :: "hysteria_port_forward_status \<Rightarrow> bool \<Rightarrow> node_info list \<Rightarrow> string" where
  "mieru_port_forward_summary status repaired infos =
     port_forward_summary ''mieru'' (mieru_port_forward_node_summary infos) status repaired"

definition should_log_clean_port_forward_status_at :: "clean_log_state \<Rightarrow> string \<Rightarrow> int \<Rightarrow> bool \<times> clean_log_state" where
  "should_log_clean_port_forward_status_at state summary now =
     (if cls_summary state = Some summary \<and> cls_last_secs state \<le> now \<and>
         now - cls_last_secs state < CLEAN_PORT_FORWARD_LOG_INTERVAL_SECS
      then (False, state) else (True, \<lparr>cls_summary = Some summary, cls_last_secs = now\<rparr>))"

definition quiet_port_forward :: "protocol \<Rightarrow> hysteria_port_forward_status \<Rightarrow> node_info list \<Rightarrow> bool" where
  "quiet_port_forward protocol status infos \<longleftrightarrow>
     \<not> pst_enabled status \<or>
     filter (\<lambda>info. ni_protocol info = protocol) infos = [] \<and> pst_expected_rules status = [] \<and> pst_errors status = []"

definition log_hy2_port_forward_status ::
  "int \<Rightarrow> hysteria_port_forward_status \<Rightarrow> bool \<Rightarrow> node_info list \<Rightarrow> ('p, 'x, 'k) control_world \<Rightarrow> ('p, 'x, 'k) control_world" where
  "log_hy2_port_forward_status now status repaired infos w =
     (let summary = hy2_port_forward_summary status repaired infos
      in if quiet_port_forward Hysteria2 status infos then w
         else if pst_errors status = [] \<and> total_hy2_missing_rules status = 0 then
           (case should_log_clean_port_forward_status_at (w_hy2_clean w) summary now of
              (True, state) \<Rightarrow> log_line LogInfo ''rules'' summary (w\<lparr>w_hy2_clean := state\<rparr>)
            | (False, state) \<Rightarrow> w\<lparr>w_hy2_clean := state\<rparr>)
         else log_line LogWarn ''rules'' summary w)"

definition log_mieru_port_forward_status ::
  "int \<Rightarrow> hysteria_port_forward_status \<Rightarrow> bool \<Rightarrow> node_info list \<Rightarrow> ('p, 'x, 'k) control_world \<Rightarrow> ('p, 'x, 'k) control_world" where
  "log_mieru_port_forward_status now status repaired infos w =
     (let summary = mieru_port_forward_summary status repaired infos
      in if quiet_port_forward Mieru status infos then w
         else if pst_errors status = [] \<and> total_hy2_missing_rules status = 0 then
           (case should_log_clean_port_forward_status_at (w_mieru_clean w) summary now of
              (True, state) \<Rightarrow> log_line LogInfo ''rules'' summary (w\<lparr>w_mieru_clean := state\<rparr>)
            | (False, state) \<Rightarrow> w\<lparr>w_mieru_clean := state\<rparr>)
         else log_line LogWarn ''rules'' summary w)"

section \<open>The core process\<close>

definition trim_keli_core_rs_memory ::
  "('p, 'x, 'k) control_env \<Rightarrow> control_client \<Rightarrow> ('p, 'x, 'k) control_world \<Rightarrow> ('p, 'x, 'k) control_world" where
  "trim_keli_core_rs_memory env client w =
     (case on_channel (trim_memory (ce_link env) client) w of
        (Inr _, w') \<Rightarrow> w'
      | (Inl e, w') \<Rightarrow> log_line LogWarn ''core'' (''keli-core-rs memory trim skipped error='' @ e) w')"

definition hot_applied ::
  "('p, 'x, 'k) control_env \<Rightarrow> control_client \<Rightarrow> string \<Rightarrow> process_status \<Rightarrow> ('p, 'x, 'k) control_world \<Rightarrow>
   (hot_apply_error + process_status option) \<times> ('p, 'x, 'k) control_world" where
  "hot_applied env client message current w =
     (Inr (Some (current\<lparr>prs_message := message\<rparr>)), trim_keli_core_rs_memory env client w)"

definition hot_apply_config ::
  "('p, 'x, 'k) control_env \<Rightarrow> core_plan \<Rightarrow> control_client \<Rightarrow> process_status \<Rightarrow> ('p, 'x, 'k) control_world \<Rightarrow>
   (hot_apply_error + process_status option) \<times> ('p, 'x, 'k) control_world" where
  "hot_apply_config env core_plan client current w =
     (case render_core_config (cw_allow (ce_writer env)) (cw_json (ce_writer env)) core_plan of
        Inl e \<Rightarrow> (Inl (hot_fatal e), w)
      | Inr config \<Rightarrow>
          (case on_channel (apply_config_response (ce_link env) client config) w of
             (Inl e, w') \<Rightarrow> (Inl (hot_fallback e), w')
           | (Inr response, w') \<Rightarrow>
               (case response of
                  AppliedResponse decision status listeners \<Rightarrow>
                    hot_applied env client (''hot applied keli-core-rs config ('' @ decision @ '')'') current w'
                | ErrorResponse message \<Rightarrow> (Inl (hot_fatal (''keli-core-rs rejected hot config: '' @ message)), w')
                | _ \<Rightarrow> (Inl (hot_fallback (''unexpected keli-core-rs apply response: '' @ cl_debug (ce_link env) response)), w'))))"

definition hot_apply_routes ::
  "('p, 'x, 'k) control_env \<Rightarrow> core_plan \<Rightarrow> control_client \<Rightarrow> process_status \<Rightarrow> ('p, 'x, 'k) control_world \<Rightarrow>
   (hot_apply_error + process_status option) \<times> ('p, 'x, 'k) control_world" where
  "hot_apply_routes env core_plan client current w =
     (case render_core_config_without_users (cw_allow (ce_writer env)) (cw_json (ce_writer env)) core_plan of
        Inl e \<Rightarrow> (Inl (hot_fatal e), w)
      | Inr config \<Rightarrow>
          (case on_channel (apply_routes_response (ce_link env) client config) w of
             (Inl e, w') \<Rightarrow> hot_apply_config env core_plan client current w'
           | (Inr response, w') \<Rightarrow>
               (case response of
                  AppliedResponse decision status listeners \<Rightarrow>
                    hot_applied env client (''hot applied keli-core-rs routes ('' @ decision @ '')'') current w'
                | ErrorResponse message \<Rightarrow> hot_apply_config env core_plan client current w'
                | _ \<Rightarrow> (Inl (hot_fallback (''unexpected keli-core-rs route apply response: '' @ cl_debug (ce_link env) response)), w'))))"

definition try_hot_apply_keli_core_rs_config ::
  "('p, 'x, 'k) control_env \<Rightarrow> core_plan \<Rightarrow> process_spec \<Rightarrow> bool \<Rightarrow> ('p, 'x, 'k) control_world \<Rightarrow>
   (hot_apply_error + process_status option) \<times> ('p, 'x, 'k) control_world" where
  "try_hot_apply_keli_core_rs_config env core_plan spec route_config_changed w =
     io_then (io_map_err hot_fallback (on_sup (so_status (ce_sup env) (psp_name spec)) w)) (\<lambda>current w.
       if \<not> is_running current then (Inr None, w)
       else
         io_then (io_map_err hot_fallback
             (on_fs (keli_core_rs_control_client (ce_random env 2) (ce_cwd env) (cp_config_path core_plan)) w)) (\<lambda>client w.
           if route_config_changed then hot_apply_routes env core_plan client current w
           else hot_apply_config env core_plan client current w))"

definition kept_running :: "('p, 'x, 'k) control_env \<Rightarrow> string \<Rightarrow> ('p, 'x, 'k) control_world \<Rightarrow>
    process_status option \<times> ('p, 'x, 'k) control_world" where
  "kept_running env name w =
     (case on_sup (so_status (ce_sup env) name) w of
        (Inr status, w') \<Rightarrow>
          (if is_running status then Some (status\<lparr>prs_message := ''kept running after keli-core-rs user delta apply''\<rparr>) else None, w')
      | (Inl _, w') \<Rightarrow> (None, w'))"

definition reload_with_message ::
  "('p, 'x, 'k) control_env \<Rightarrow> process_spec \<Rightarrow> string option \<Rightarrow> ('p, 'x, 'k) control_world \<Rightarrow>
   process_status result \<times> ('p, 'x, 'k) control_world" where
  "reload_with_message env spec message w =
     io_then (on_sup (so_reload (ce_sup env) spec) w) (\<lambda>status w.
       (Ok (case message of Some m \<Rightarrow> status\<lparr>prs_message := m\<rparr> | None \<Rightarrow> status), w))"

definition apply_changed_core ::
  "('p, 'x, 'k) control_env \<Rightarrow> runtime_control_options \<Rightarrow> core_plan \<Rightarrow> bool \<Rightarrow> process_spec \<Rightarrow> ('p, 'x, 'k) control_world \<Rightarrow>
   process_status result \<times> ('p, 'x, 'k) control_world" where
  "apply_changed_core env options core_plan route_config_changed spec w =
     (if rco_hot_apply options then
        (case try_hot_apply_keli_core_rs_config env core_plan spec route_config_changed w of
           (Inr (Some status), w') \<Rightarrow> (Ok status, w')
         | (Inr None, w') \<Rightarrow> reload_with_message env spec None w'
         | (Inl error, w') \<Rightarrow>
             if he_fallback_reload error
             then reload_with_message env spec (Some (''reloaded after keli-core-rs hot apply failed: '' @ he_message error)) w'
             else (Err (he_message error), w'))
      else reload_with_message env spec None w)"

definition apply_core_process ::
  "('p, 'x, 'k) control_env \<Rightarrow> runtime_control_options \<Rightarrow> core_plan \<Rightarrow> core_config_write_result \<Rightarrow> ('p, 'x, 'k) control_world \<Rightarrow>
   process_status result \<times> ('p, 'x, 'k) control_world" where
  "apply_core_process env options core_plan written w =
     io_then (on_fs (core_process_spec (ce_random env 1) (ce_cwd env) core_plan (rco_core_command options)) w) (\<lambda>spec w.
       if \<not> cwr_changed written then on_sup (so_start (ce_sup env) spec) w
       else
         (case (if rco_user_delta_applied options then kept_running env (psp_name spec) w else (None, w)) of
            (Some status, w') \<Rightarrow> (Ok status, w')
          | (None, w') \<Rightarrow> apply_changed_core env options core_plan (cwr_route_config_changed written) spec w'))"

definition PRIMARY_CORE_PROCESS_NAMES :: "string list" where
  "PRIMARY_CORE_PROCESS_NAMES = [''core:keli-core-rs'']"

definition primary_core_process_name :: "core_kind \<Rightarrow> string option" where
  "primary_core_process_name kind = (case kind of KeliCoreRs \<Rightarrow> Some ''core:keli-core-rs'')"

definition stop_if_running ::
  "('p, 'x, 'k) control_env \<Rightarrow> string \<Rightarrow> ('p, 'x, 'k) control_world \<Rightarrow> unit result \<times> ('p, 'x, 'k) control_world" where
  "stop_if_running env name w =
     io_then (on_sup (so_status (ce_sup env) name) w) (\<lambda>status w.
       if is_running status then io_then (on_sup (so_stop (ce_sup env) name) w) (\<lambda>_ w. (Ok (), w)) else (Ok (), w))"

fun stop_others ::
  "('p, 'x, 'k) control_env \<Rightarrow> string option \<Rightarrow> string list \<Rightarrow> ('p, 'x, 'k) control_world \<Rightarrow> unit result \<times> ('p, 'x, 'k) control_world" where
  "stop_others env active [] w = (Ok (), w)"
| "stop_others env active (name # names) w =
     (if Some name = active then stop_others env active names w
      else io_then (stop_if_running env name w) (\<lambda>_ w. stop_others env active names w))"

definition stop_unmanaged_core_processes ::
  "('p, 'x, 'k) control_env \<Rightarrow> runtime_bootstrap_plan \<Rightarrow> ('p, 'x, 'k) control_world \<Rightarrow> unit result \<times> ('p, 'x, 'k) control_world" where
  "stop_unmanaged_core_processes env plan w =
     stop_others env (Option.bind (rbp_core_plan plan) (\<lambda>core_plan. primary_core_process_name (cp_kind core_plan)))
       PRIMARY_CORE_PROCESS_NAMES w"

section \<open>Applying a plan\<close>

definition select_core_plan ::
  "('p, 'x, 'k) control_env \<Rightarrow> runtime_control_options \<Rightarrow> runtime_bootstrap_plan \<Rightarrow> ('p, 'x, 'k) control_world \<Rightarrow>
   runtime_bootstrap_plan result \<times> ('p, 'x, 'k) control_world" where
  "select_core_plan env options plan w =
     (case rbp_core_plan plan of
        None \<Rightarrow> (Ok plan, w)
      | Some core_plan \<Rightarrow>
          io_then (if rco_start_core options then filter_unavailable_keli_core_rs_listeners env options core_plan plan w
                   else (Ok (core_plan, plan), w)) (\<lambda>(core_plan, plan) w.
            (Ok (plan\<lparr>rbp_core_plan := if cp_inbounds core_plan = [] then None else Some core_plan\<rparr>), w)))"

definition apply_core ::
  "('p, 'x, 'k) control_env \<Rightarrow> runtime_control_options \<Rightarrow> core_plan option \<Rightarrow> ('p, 'x, 'k) control_world \<Rightarrow>
   (core_config_write_result option \<times> process_status option) result \<times> ('p, 'x, 'k) control_world" where
  "apply_core env options core w =
     (case core of
        None \<Rightarrow> (Ok (None, None), w)
      | Some core_plan \<Rightarrow>
          io_then (on_fs (write_core_config (ce_writer env) core_plan) w) (\<lambda>written w.
            if rco_start_core options
            then io_then (apply_core_process env options core_plan written w) (\<lambda>status w. (Ok (Some written, Some status), w))
            else (Ok (Some written, None), w)))"

definition apply_hy2 ::
  "('p, 'x, 'k) control_env \<Rightarrow> bool \<Rightarrow> node_info list \<Rightarrow> ('p, 'x, 'k) control_world \<Rightarrow>
   hysteria_port_forward_status \<times> ('p, 'x, 'k) control_world" where
  "apply_hy2 env repair infos w =
     (case on_fw (if repair then repair_hysteria_port_forward (ce_dbg env) (ce_fw env) infos
                  else inspect_hysteria_port_forward (ce_dbg env) (ce_fw env) infos) w of
        (status, w') \<Rightarrow> (status, log_hy2_port_forward_status (ce_now env) status repair infos w'))"

definition apply_mieru ::
  "('p, 'x, 'k) control_env \<Rightarrow> bool \<Rightarrow> node_info list \<Rightarrow> ('p, 'x, 'k) control_world \<Rightarrow>
   hysteria_port_forward_status \<times> ('p, 'x, 'k) control_world" where
  "apply_mieru env repair infos w =
     (case on_fw (if repair then repair_mieru_port_forward (ce_dbg env) (ce_fw env) infos
                  else inspect_mieru_port_forward (ce_dbg env) (ce_fw env) infos) w of
        (status, w') \<Rightarrow> (status, log_mieru_port_forward_status (ce_now env) status repair infos w'))"

definition apply_runtime_plan ::
  "('p, 'x, 'k) control_env \<Rightarrow> runtime_control_options \<Rightarrow> runtime_bootstrap_plan \<Rightarrow> ('p, 'x, 'k) control_world \<Rightarrow>
   runtime_apply_result result \<times> ('p, 'x, 'k) control_world" where
  "apply_runtime_plan env options plan w =
     io_then (if rco_start_core options then stop_unmanaged_core_processes env plan w else (Ok (), w)) (\<lambda>_ w.
     io_then (select_core_plan env options plan w) (\<lambda>report_plan w.
     io_then (apply_core env options (rbp_core_plan report_plan) w) (\<lambda>(written, process) w.
       let (hy2, w1) = apply_hy2 env (rco_repair_port_forward options) (rbp_node_infos report_plan) w;
           (mieru, w2) = apply_mieru env (rco_repair_port_forward options) (rbp_node_infos report_plan) w1;
           report_plan = report_plan\<lparr>rbp_hy2_port_forward := hy2, rbp_mieru_port_forward := mieru\<rparr>;
           health = (if hri_core (rco_health options) = None then (rco_health options)\<lparr>hri_core := process\<rparr> else rco_health options);
           (payload, w3) = on_fs (build_machine_status_payload (rco_machine_id options) report_plan health) w2
       in (Ok \<lparr>ra_core_config = written, ra_core_process = process, ra_hy2 = hy2, ra_mieru = mieru, ra_machine_status = payload\<rparr>, w3))))"

section \<open>Reporting to the panels\<close>

record client_options =
  co_api_host :: string
  co_machine_id :: u32

type_synonym 'l status_reporter = "client_options \<Rightarrow> machine_status_payload \<Rightarrow> 'l \<Rightarrow> machine_status_response result \<times> 'l"

definition runtime_panel_action_of :: "machine_status_response \<Rightarrow> runtime_panel_action" where
  "runtime_panel_action_of response = \<lparr>pa_reload = ms_reload response, pa_upgrade = ms_upgrade response\<rparr>"

definition merge_runtime_panel_action :: "runtime_panel_action \<Rightarrow> runtime_panel_action \<Rightarrow> runtime_panel_action" where
  "merge_runtime_panel_action target new =
     \<lparr>pa_reload = (pa_reload target \<or> pa_reload new),
      pa_upgrade = (case pa_upgrade target of None \<Rightarrow> pa_upgrade new | Some u \<Rightarrow> Some u)\<rparr>"

definition panel_action_default :: runtime_panel_action where
  "panel_action_default = \<lparr>pa_reload = False, pa_upgrade = None\<rparr>"

definition status_row_matches_client :: "json \<Rightarrow> string \<Rightarrow> nat \<Rightarrow> bool" where
  "status_row_matches_client row api_host machine_id \<longleftrightarrow>
     unwrap_or [] (map_option (trim_end_matches is_slash) (Option.bind (json_get row ''api_host'') json_as_str)) = api_host \<and>
     unwrap_or 0 (Option.bind (json_get row ''machine_id'') json_as_u64) = machine_id"

definition retain_failures :: "(json \<Rightarrow> bool) \<Rightarrow> (string, json) btmap \<Rightarrow> (string, json) btmap" where
  "retain_failures keep status =
     (case bt_get status ''node_failures'' of
        Some (JArray failures) \<Rightarrow> bt_insert ''node_failures'' (JArray (filter keep failures)) status
      | _ \<Rightarrow> status)"

definition retain_node_statuses :: "(json \<Rightarrow> bool) \<Rightarrow> (string, json) btmap \<Rightarrow> (string, json) btmap" where
  "retain_node_statuses keep status =
     (case bt_get status ''runtime'' of
        Some (JObject runtime) \<Rightarrow>
          (case bt_get runtime ''node_statuses'' of
             Some (JArray rows) \<Rightarrow>
               (let rows = filter keep rows; count = json_nat (length rows)
                in bt_insert ''runtime'' (JObject (bt_insert ''configured_nodes'' count (bt_insert ''nodes'' count
                     (bt_insert ''node_statuses'' (JArray rows) runtime)))) status)
           | _ \<Rightarrow> status)
      | _ \<Rightarrow> status)"

definition machine_status_payload_for_client :: "machine_status_payload \<Rightarrow> client_options \<Rightarrow> machine_status_payload" where
  "machine_status_payload_for_client payload client =
     (let keep = (\<lambda>row. status_row_matches_client row (trim_end_matches is_slash (co_api_host client)) (unat (co_machine_id client)))
      in \<lparr>msp_machine_id = if co_machine_id client > 0 then co_machine_id client else msp_machine_id payload,
          msp_status = retain_node_statuses keep (retain_failures keep (msp_status payload))\<rparr>)"

definition report_machine_status_payload ::
  "'l status_reporter \<Rightarrow> client_options \<Rightarrow> machine_status_payload \<Rightarrow> 'l \<Rightarrow> runtime_panel_action result \<times> 'l" where
  "report_machine_status_payload report client payload l =
     (case report client payload l of (Inr response, l') \<Rightarrow> (Ok (runtime_panel_action_of response), l') | (Inl e, l') \<Rightarrow> (Err e, l'))"

definition report_runtime_apply_result ::
  "'l status_reporter \<Rightarrow> client_options \<Rightarrow> runtime_apply_result \<Rightarrow> 'l \<Rightarrow> runtime_panel_action result \<times> 'l" where
  "report_runtime_apply_result report client result l = report_machine_status_payload report client (ra_machine_status result) l"

fun report_loop ::
  "'l status_reporter \<Rightarrow> machine_status_payload \<Rightarrow> client_options list \<Rightarrow> nat \<Rightarrow> string list \<Rightarrow> runtime_panel_action \<Rightarrow> 'l \<Rightarrow>
   nat \<times> string list \<times> runtime_panel_action \<times> 'l" where
  "report_loop report payload [] reported errors act l = (reported, errors, act, l)"
| "report_loop report payload (client # clients) reported errors act l =
     (case report_machine_status_payload report client (machine_status_payload_for_client payload client) l of
        (Inr new, l') \<Rightarrow> report_loop report payload clients (reported + 1) errors (merge_runtime_panel_action act new) l'
      | (Inl e, l') \<Rightarrow>
          report_loop report payload clients reported
            (errors @ [trim_end_matches is_slash (co_api_host client) @ ''#'' @ nat_to_string (unat (co_machine_id client)) @ '': '' @ e])
            act l')"

definition report_runtime_apply_result_to_panels ::
  "'l status_reporter \<Rightarrow> client_options list \<Rightarrow> runtime_apply_result \<Rightarrow> 'l \<Rightarrow> runtime_panel_action result \<times> 'l" where
  "report_runtime_apply_result_to_panels report clients result l =
     (case report_loop report (ra_machine_status result) clients 0 [] panel_action_default l of (reported, errors, act, l') \<Rightarrow>
       (if reported = 0 \<and> errors \<noteq> [] then Err (''all machine status reports failed: '' @ join ''; '' errors) else Ok act, l'))"

section \<open>One tick\<close>

fun runtime_loop_signal_of :: "runtime_panel_action \<Rightarrow> runtime_loop_signal" where
  "runtime_loop_signal_of act =
     (case pa_upgrade act of Some upgrade \<Rightarrow> UpgradeSignal upgrade | None \<Rightarrow> if pa_reload act then Reload else Continue)"

definition run_runtime_tick ::
  "('p, 'x, 'k) control_env \<Rightarrow> 'u url_ops \<Rightarrow> 'l status_reporter \<Rightarrow> client_options option \<Rightarrow> runtime_tick_options \<Rightarrow>
   runtime_bootstrap_plan \<Rightarrow> ('p, 'x, 'k) control_world \<times> 'l \<Rightarrow> runtime_tick_result result \<times> ('p, 'x, 'k) control_world \<times> 'l" where
  "run_runtime_tick env ops report client options plan wl =
     (let (w, l) = wl
      in case (if to_users options = [] then Ok plan
               else rebuild_runtime_plan_with_users (ce_dbg env) ops (cw_allow (ce_writer env)) plan (to_users options)) of
           Inl e \<Rightarrow> (Err e, w, l)
         | Inr active_plan \<Rightarrow>
             (case apply_runtime_plan env (to_control options) active_plan w of
                (Inl e, w') \<Rightarrow> (Err e, w', l)
              | (Inr applied, w') \<Rightarrow>
                  (case (if \<not> to_report_to_panel options then (Ok panel_action_default, l)
                         else case client of
                           None \<Rightarrow> (Err ''runtime tick requested panel report without panel client'', l)
                         | Some c \<Rightarrow> report_runtime_apply_result report c applied l) of
                     (Inl e, l') \<Rightarrow> (Err e, w', l')
                   | (Inr act, l') \<Rightarrow>
                       (Ok \<lparr>tr_apply = applied, tr_panel_action = act, tr_signal = runtime_loop_signal_of act\<rparr>, w', l'))))"

definition handle_runtime_signal ::
  "(string \<Rightarrow> bool) \<Rightarrow> ('y \<Rightarrow> upgrade_launch_plan \<Rightarrow> unit result \<times> 'y) \<Rightarrow> runtime_loop_signal \<Rightarrow> string \<Rightarrow> int \<Rightarrow> upgrade_manager \<times> 'y \<Rightarrow>
   upgrade_status option result \<times> upgrade_manager \<times> 'y" where
  "handle_runtime_signal tool_exists launch signal current_version now st =
     (case signal of
        UpgradeSignal cmd \<Rightarrow> upgrade_request tool_exists launch cmd current_version now st
      | Continue \<Rightarrow> (Ok None, st)
      | Reload \<Rightarrow> (Ok None, st))"

section \<open>The core runs after it was applied\<close>

definition supervisor_of ::
  "(process_spec \<Rightarrow> 'p \<Rightarrow> process_status result \<times> 'p) \<Rightarrow> (string \<Rightarrow> 'p \<Rightarrow> process_status result \<times> 'p) \<Rightarrow>
   (string \<Rightarrow> 'p \<Rightarrow> process_status result \<times> 'p) \<Rightarrow> 'p supervisor_ops" where
  "supervisor_of start stop status =
     \<lparr>so_start = start, so_stop = stop, so_reload = \<lambda>spec s. io_then (stop (psp_name spec) s) (\<lambda>_. start spec), so_status = status\<rparr>"

lemma on_fs_frame: "on_fs f w = (r, w') \<Longrightarrow> w_sup w' = w_sup w \<and> w_channel w' = w_channel w"
  by (auto simp: on_fs_def split: prod.splits)

lemma on_channel_sup: "on_channel f w = (r, w') \<Longrightarrow> w_sup w' = w_sup w"
  by (auto simp: on_channel_def split: prod.splits)

lemma on_sup_eq: "on_sup f w = (r, w') \<longleftrightarrow> (\<exists>p. f (w_sup w) = (r, p) \<and> w' = w\<lparr>w_sup := p\<rparr>)"
  by (auto simp: on_sup_def split: prod.splits)

lemma trim_sup [simp]: "w_sup (trim_keli_core_rs_memory env client w) = w_sup w"
  by (auto simp: trim_keli_core_rs_memory_def log_line_def dest: on_channel_sup split: prod.splits sum.splits)

text \<open>What an attempt over the control channel leaves: the supervisor, and the state it reported.\<close>

definition hot_ok :: "'p \<Rightarrow> process_status \<Rightarrow> (hot_apply_error + process_status option) \<times> ('p, 'x, 'k) control_world \<Rightarrow> bool" where
  "hot_ok p current res \<longleftrightarrow>
     w_sup (snd res) = p \<and> (case fst res of Inr (Some st) \<Rightarrow> prs_state st = prs_state current | Inr None \<Rightarrow> False | Inl _ \<Rightarrow> True)"

lemma hot_applied_ok: "w_sup w = p \<Longrightarrow> hot_ok p current (hot_applied env client message current w)"
  by (simp add: hot_ok_def hot_applied_def)

lemma hot_error_ok: "w_sup w = p \<Longrightarrow> hot_ok p current (Inl e, w)"
  by (simp add: hot_ok_def)

lemma hot_config_ok: "hot_ok (w_sup w) current (hot_apply_config env core_plan client current w)"
  by (auto simp: hot_apply_config_def hot_applied_ok hot_error_ok dest: on_channel_sup
      split: sum.split prod.split core_response.split)

lemma hot_routes_ok: "hot_ok (w_sup w) current (hot_apply_routes env core_plan client current w)"
proof -
  have "hot_ok (w_sup w) current (hot_apply_config env core_plan client current w')" if "w_sup w' = w_sup w" for w'
    using hot_config_ok [of w'] that by simp
  then show ?thesis
    by (auto simp: hot_apply_routes_def hot_applied_ok hot_error_ok dest: on_channel_sup
        split: sum.split prod.split core_response.split)
qed

lemma hot_apply_keeps_process:
  assumes "try_hot_apply_keli_core_rs_config env core_plan spec changed w = (r, w')"
  shows "w_sup w' = snd (so_status (ce_sup env) (psp_name spec) (w_sup w)) \<and>
    (\<forall>st. r = Inr (Some st) \<longrightarrow> (\<exists>current. fst (so_status (ce_sup env) (psp_name spec) (w_sup w)) = Inr current \<and>
       is_running current \<and> is_running st))"
proof -
  obtain sr p where s: "so_status (ce_sup env) (psp_name spec) (w_sup w) = (sr, p)" by (rule prod.exhaust)
  define w1 where "w1 = w\<lparr>w_sup := p\<rparr>"
  have on: "on_sup (so_status (ce_sup env) (psp_name spec)) w = (sr, w1)" by (simp add: on_sup_def s w1_def)
  obtain cr w2 where c: "on_fs (keli_core_rs_control_client (ce_random env 2) (ce_cwd env) (cp_config_path core_plan)) w1 = (cr, w2)"
    by (rule prod.exhaust)
  have w2: "w_sup w2 = p" using on_fs_frame [OF c] by (simp add: w1_def)
  show ?thesis
  proof (cases sr)
    case (Inl e)
    then show ?thesis using assms s on by (auto simp: try_hot_apply_keli_core_rs_config_def w1_def)
  next
    case (Inr current)
    have ok: "hot_ok p current (hot_apply_routes env core_plan client current w2)"
      "hot_ok p current (hot_apply_config env core_plan client current w2)" for client
      using hot_routes_ok [of w2 current env core_plan client] hot_config_ok [of w2 current env core_plan client] w2 by simp_all
    have "hot_ok p current (r, w') \<and> is_running current \<or> r = Inr None \<and> w' = w1"
    proof (cases cr)
      case (Inl e)
      then show ?thesis
        using assms on Inr c hot_error_ok [OF w2]
        by (cases "is_running current") (auto simp: try_hot_apply_keli_core_rs_config_def hot_ok_def)
    next
      case (Inr client)
      then show ?thesis
        using assms on \<open>sr = Inr current\<close> c ok [of client]
        by (cases "is_running current"; cases changed) (auto simp: try_hot_apply_keli_core_rs_config_def)
    qed
    then have "w_sup w' = p \<and> (\<forall>st. r = Inr (Some st) \<longrightarrow> is_running current \<and> is_running st)"
      by (auto simp: hot_ok_def w1_def is_running_def)
    then show ?thesis using s Inr by auto
  qed
qed

lemma core_spec_name: "core_process_spec random cwd plan command_override fs = (Inr spec, fs') \<Longrightarrow> psp_name spec = ''core:keli-core-rs''"
  by (cases "cp_kind plan") (auto simp: core_process_spec_def core_kind_label_def Let_def io_then_Inr split: option.splits)

text \<open>A status that says running, and that the supervisor repeats if it is asked again.\<close>

definition shown_running :: "(string \<Rightarrow> 'p \<Rightarrow> process_status result \<times> 'p) \<Rightarrow> string \<Rightarrow> process_status \<Rightarrow> 'p \<Rightarrow> bool" where
  "shown_running status name st s \<longleftrightarrow> is_running st \<and> (\<forall>st' s'. status name s = (Inr st', s') \<longrightarrow> is_running st')"

locale core_supervisor = process_supervisor +
  assumes status_running: "status name s = (Inr st, s1) \<Longrightarrow> is_running st \<Longrightarrow> status name s1 = (Inr st', s2) \<Longrightarrow> is_running st'"
begin

lemma started: "invar s \<Longrightarrow> start spec s = (Inr st, s') \<Longrightarrow> shown_running status (psp_name spec) st s'"
  using start_running start_status unfolding shown_running_def by blast

lemma reloaded:
  assumes "ce_sup env = supervisor_of start stop status" "invar (w_sup w)" "reload_with_message env spec message w = (Inr st, w')"
  shows "shown_running status (psp_name spec) st (w_sup w')"
proof -
  obtain st0 p0 st1 p1 where "stop (psp_name spec) (w_sup w) = (Inr st0, p0)" "start spec p0 = (Inr st1, p1)"
    "st = (case message of Some m \<Rightarrow> st1\<lparr>prs_message := m\<rparr> | None \<Rightarrow> st1)" "w' = w\<lparr>w_sup := p1\<rparr>"
    using assms(1,3) by (auto simp: reload_with_message_def supervisor_of_def io_then_Inr on_sup_eq)
  moreover have "invar p0" using stop_invar [OF assms(2)] calculation(1) by (metis snd_conv)
  ultimately show ?thesis
    using started by (auto simp: shown_running_def is_running_def split: option.splits)
qed

lemma changed_applied:
  assumes env: "ce_sup env = supervisor_of start stop status" and inv: "invar (w_sup w)"
    and r: "apply_changed_core env options core_plan changed spec w = (Inr st, w')"
  shows "shown_running status (psp_name spec) st (w_sup w')"
proof (cases "rco_hot_apply options")
  case False
  then show ?thesis using r reloaded [OF env inv] by (simp add: apply_changed_core_def)
next
  case True
  obtain hr w1 where h: "try_hot_apply_keli_core_rs_config env core_plan spec changed w = (hr, w1)" by (rule prod.exhaust)
  note kept = hot_apply_keeps_process [OF h]
  have sup: "so_status (ce_sup env) = status" by (simp add: env supervisor_of_def)
  have inv1: "invar (w_sup w1)" using kept status_invar [OF inv] by (simp add: sup)
  show ?thesis
  proof (cases "\<exists>st0. hr = Inr (Some st0)")
    case True
    then obtain st0 current where "st = st0" "w' = w1" "is_running current" "is_running st0"
      "fst (status (psp_name spec) (w_sup w)) = Inr current"
      using kept r h \<open>rco_hot_apply options\<close> by (auto simp: apply_changed_core_def sup)
    then show ?thesis using kept status_running by (metis prod.collapse shown_running_def sup)
  next
    case False
    then obtain message where "reload_with_message env spec message w1 = (Inr st, w')"
      using r h \<open>rco_hot_apply options\<close> by (auto simp: apply_changed_core_def split: sum.splits option.splits if_splits)
    then show ?thesis by (rule reloaded [OF env inv1])
  qed
qed

lemma kept:
  assumes env: "ce_sup env = supervisor_of start stop status" and inv: "invar (w_sup w)"
    and r: "kept_running env name w = (ko, w')"
  shows "invar (w_sup w') \<and> (\<forall>st. ko = Some st \<longrightarrow> shown_running status name st (w_sup w'))"
proof -
  obtain sr p where s: "status name (w_sup w) = (sr, p)" by (rule prod.exhaust)
  have w': "w' = w\<lparr>w_sup := p\<rparr>"
    using r s by (auto simp: kept_running_def env supervisor_of_def on_sup_def split: sum.splits)
  have "invar p" using status_invar [OF inv, of name] s by simp
  moreover have "shown_running status name st p" if some: "ko = Some st" for st
  proof -
    obtain current where "sr = Inr current" "is_running current" "prs_state st = prs_state current"
      using some r s by (auto simp: kept_running_def env supervisor_of_def on_sup_def split: sum.splits if_splits)
    then show ?thesis using s status_running [of name "w_sup w" current p] unfolding shown_running_def is_running_def by metis
  qed
  ultimately show ?thesis by (simp add: w')
qed

lemma core_applied:
  assumes env: "ce_sup env = supervisor_of start stop status" and inv: "invar (w_sup w)"
    and r: "apply_core_process env options core_plan written w = (Inr st, w')"
  shows "shown_running status ''core:keli-core-rs'' st (w_sup w')"
proof -
  define f where "f = core_process_spec (ce_random env 1) (ce_cwd env) core_plan (rco_core_command options)"
  obtain sr w1 where o: "on_fs f w = (sr, w1)" by (rule prod.exhaust)
  note run = r [unfolded apply_core_process_def, folded f_def]
  obtain spec where spec: "sr = Inr spec" using run o by (cases sr) auto
  have w1: "invar (w_sup w1)" using on_fs_frame [OF o] inv by simp
  have "f (w_fs w) = (Inr spec, snd (f (w_fs w)))" using o spec by (auto simp: on_fs_def split: prod.splits)
  then have name: "psp_name spec = ''core:keli-core-rs''" unfolding f_def by (rule core_spec_name)
  obtain ko w2 where k: "kept_running env (psp_name spec) w1 = (ko, w2)" by (rule prod.exhaust)
  note kept = kept [OF env w1 k]
  show ?thesis
  proof (cases "cwr_changed written")
    case False
    then obtain p where "start spec (w_sup w1) = (Inr st, p)" "w' = w1\<lparr>w_sup := p\<rparr>"
      using run o spec by (auto simp: env supervisor_of_def on_sup_eq)
    then show ?thesis using started [OF w1, of spec] name by simp
  next
    case True
    define g where "g = apply_changed_core env options core_plan (cwr_route_config_changed written) spec"
    have g: "shown_running status (psp_name spec) st (w_sup w')" if "g v = (Inr st, w')" "invar (w_sup v)" for v
      using changed_applied [OF env that(2)] that(1) unfolding g_def by blast
    have "(case (if rco_user_delta_applied options then (ko, w2) else (None, w1)) of
        (Some status, w') \<Rightarrow> (Ok status, w') | (None, w') \<Rightarrow> g w') = (Inr st, w')"
      using run o spec k True by (cases "rco_user_delta_applied options"; cases ko) (simp_all add: g_def)
    then show ?thesis using kept g [of w1] g [of w2] w1 name by (auto split: if_splits option.splits)
  qed
qed

end

interpretation system_core: core_supervisor sup_start sup_stop sup_status sup_invar
  by unfold_locales (rule sup_status_running)

interpretation memory_core: core_supervisor mem_start mem_stop mem_status "\<lambda>s. True"
  by unfold_locales (auto simp: mem_status_def)

definition system_ops :: "supervisor supervisor_ops" where
  "system_ops = \<lparr>so_start = sup_start, so_stop = sup_stop, so_reload = sup_reload, so_status = sup_status\<rparr>"

lemma system_ops_of: "system_ops = supervisor_of sup_start sup_stop sup_status"
  by (simp add: system_ops_def supervisor_of_def fun_eq_iff sup_reload_def)


text \<open>
  An unchanged configuration is not sent to the core: after a rejected hot apply, whose configuration
  is already on disk, the next application finds it unchanged and leaves the running core as it is.
\<close>

lemma unchanged_config_not_applied:
  assumes "\<not> cwr_changed written" and "apply_core_process env options core_plan written w = (r, w')"
  shows "w_channel w' = w_channel w"
proof -
  obtain sr w1 where o: "on_fs (core_process_spec (ce_random env 1) (ce_cwd env) core_plan (rco_core_command options)) w = (sr, w1)"
    by (rule prod.exhaust)
  have "w_channel w1 = w_channel w" using on_fs_frame [OF o] by simp
  then show ?thesis
    using assms o by (cases sr) (auto simp: apply_core_process_def on_sup_eq)
qed

section \<open>Skipped listeners are reported\<close>

lemma bs_member_insert: "bs_contains (bs_insert x s) y \<longleftrightarrow> y = x \<or> bs_contains s y"
  by (auto simp: bs_contains_def)

lemma unavailable_loop_skipped:
  assumes "unavailable_loop bind plan inbounds skipped failures w = (skipped', failures', w')"
  shows "(bs_contains skipped' tag \<longleftrightarrow> bs_contains skipped tag \<or>
      (\<exists>inbound \<in> set inbounds. ib_tag inbound = tag \<and> first_unavailable_listener_error bind inbound \<noteq> None)) \<and>
    failures' = failures @ concat (map (\<lambda>inbound. case first_unavailable_listener_error bind inbound of
        None \<Rightarrow> [] | Some error \<Rightarrow> listener_failure plan (ib_tag inbound) error) inbounds) \<and>
    w_sup w' = w_sup w \<and> w_channel w' = w_channel w \<and> w_fs w' = w_fs w"
  using assms
proof (induction inbounds arbitrary: skipped failures w)
  case (Cons inbound inbounds)
  then show ?case
    by (cases "first_unavailable_listener_error bind inbound") (fastforce simp: bs_member_insert log_line_def)+
qed simp

definition tag_available :: "(string \<Rightarrow> ip_addr \<Rightarrow> u16 \<Rightarrow> unit result) \<Rightarrow> core_plan \<Rightarrow> string \<Rightarrow> bool" where
  "tag_available bind core_plan tag \<longleftrightarrow>
     list_all (\<lambda>inbound. ib_tag inbound = tag \<longrightarrow> first_unavailable_listener_error bind inbound = None) (cp_inbounds core_plan)"

definition failure_reported :: "runtime_bootstrap_plan \<Rightarrow> node_info \<Rightarrow> string \<Rightarrow> bool" where
  "failure_reported plan node error \<longleftrightarrow>
     list_ex (\<lambda>failure. nf_error failure = error \<and> nc_node_id (nf_config failure) = ni_id node) (rbp_node_failures plan)"

lemma node_config_for_info_id: "node_config_for_info resolved nid tag = Some config \<Longrightarrow> nc_node_id config = nid"
  unfolding node_config_for_info_def
  by (auto simp: find_Some_iff filter_eq_Cons_iff split: option.splits list.splits)

lemma listener_failure_node:
  assumes "find (\<lambda>node. ni_tag node = tag) (rbp_node_infos plan) = Some node"
  shows "\<exists>failure. listener_failure plan tag error = [failure] \<and> nf_error failure = error \<and> nc_node_id (nf_config failure) = ni_id node"
  using assms
  by (cases "node_config_for_info (rbp_resolved plan) (ni_id node) (ni_tag node)")
    (auto simp: listener_failure_def dest: node_config_for_info_id)

lemma unavailable_loop_keep:
  assumes "unavailable_loop bind plan (cp_inbounds core_plan) [] [] w = (skipped, failures, w')"
  shows "\<not> bs_contains skipped tag \<longleftrightarrow> tag_available bind core_plan tag"
  using unavailable_loop_skipped [OF assms, of tag] by (auto simp: tag_available_def bs_contains_def list_all_iff)

lemma unavailable_loop_failures:
  assumes loop: "unavailable_loop bind plan inbounds [] [] w = (skipped, failures, w')"
    and "inbound \<in> set inbounds" "first_unavailable_listener_error bind inbound = Some error"
    and node: "find (\<lambda>node. ni_tag node = ib_tag inbound) (rbp_node_infos plan) = Some node"
  shows "\<exists>failure \<in> set failures. nf_error failure = error \<and> nc_node_id (nf_config failure) = ni_id node"
proof -
  obtain failure where f: "listener_failure plan (ib_tag inbound) error = [failure]" "nf_error failure = error"
    "nc_node_id (nf_config failure) = ni_id node"
    using listener_failure_node [OF node] by blast
  have "failure \<in> set failures"
    using unavailable_loop_skipped [OF loop] assms(2,3) f(1) by (auto intro!: bexI [of _ inbound])
  then show ?thesis using f by blast
qed


section \<open>What a panel is told\<close>

text \<open>The rows of a status are those of one panel: the host without its final slashes, and the machine.\<close>

definition of_client :: "client_options \<Rightarrow> string \<Rightarrow> u32 \<Rightarrow> bool" where
  "of_client client url machine_id \<longleftrightarrow>
     trim_end_matches is_slash url = trim_end_matches is_slash (co_api_host client) \<and> machine_id = co_machine_id client"

lemma u32_as_u64: "json_as_u64 (json_nat (unat (m :: u32))) = Some (unat m)"
proof -
  have "unat m < 2 ^ 32" using unsigned_less [of m] by simp
  then show ?thesis by (simp add: json_nat_def)
qed

lemma u32_zero_as_u64: "json_as_u64 (json_nat 0) = Some 0"
  by (simp add: json_nat_def)

lemma failure_row_matches:
  "status_row_matches_client (node_failure_value p) (trim_end_matches is_slash (co_api_host client)) (unat (co_machine_id client)) \<longleftrightarrow>
     of_client client (nfp_api_host p) (nfp_machine_id p)"
  by (simp add: status_row_matches_client_def node_failure_value_def json_get_obj u32_as_u64 of_client_def word_unat_eq_iff)

definition node_host :: "resolved_config \<Rightarrow> node_info \<Rightarrow> string \<times> u32" where
  "node_host resolved node =
     (case node_config_for_info resolved (ni_id node) (ni_tag node) of
        Some config \<Rightarrow> (nc_url config, nc_machine_id config) | None \<Rightarrow> ([], 0))"

lemma node_row_matches:
  "status_row_matches_client (runtime_node_status resolved node) (trim_end_matches is_slash (co_api_host client))
       (unat (co_machine_id client)) \<longleftrightarrow>
     of_client client (fst (node_host resolved node)) (snd (node_host resolved node))"
  by (cases "node_config_for_info resolved (ni_id node) (ni_tag node)")
    (auto simp: status_row_matches_client_def runtime_node_status_def json_get_obj u32_as_u64 of_client_def node_host_def Let_def
      word_unat_eq_iff trim_end_matches_def u32_zero_as_u64)

lemma fold_insert_status:
  "msp_status (fold (\<lambda>(key, v). insert_status key v) es p) = fold (\<lambda>(key, v). bt_insert key v) es (msp_status p)"
  by (induction es arbitrary: p) (auto simp: insert_status_def)

lemma status_payload_get:
  assumes "build_machine_status_payload machine_id plan input fs = (payload, fs')"
  shows "bt_invar (msp_status payload) \<and>
    bt_get (msp_status payload) ''node_failures'' =
      Some (JArray (map node_failure_value (node_failure_payloads (rbp_node_failures plan) machine_id))) \<and>
    bt_get (msp_status payload) ''runtime'' = Some (runtime_value plan)"
proof -
  obtain core where p: "payload = fold (\<lambda>(key, v). insert_status key v) (status_entries machine_id plan input core) (machine_status_payload_new machine_id)"
    using assms by (auto simp: build_machine_status_payload_def split: prod.splits)
  have st: "msp_status payload = bt_collect (status_entries machine_id plan input core)"
    by (simp add: p fold_insert_status machine_status_payload_new_def bt_collect_def)
  have "map_of (rev (status_entries machine_id plan input core)) ''node_failures'' =
      Some (JArray (map node_failure_value (node_failure_payloads (rbp_node_failures plan) machine_id)))"
    "map_of (rev (status_entries machine_id plan input core)) ''runtime'' = Some (runtime_value plan)"
    by (cases "hri_upgrade input"; cases "hri_metrics input"; simp add: status_entries_def Let_def)+
  then show ?thesis by (simp add: st bt_collect_invar bt_collect_get)
qed

lemma runtime_value_object:
  "\<exists>m. runtime_value plan = JObject m \<and> bt_invar m \<and>
     bt_get m ''node_statuses'' = Some (JArray (map (runtime_node_status (rbp_resolved plan)) (rbp_node_infos plan)))"
  by (simp add: runtime_value_def json_obj_def bt_collect_invar bt_collect_get runtime_node_statuses_value_def)

definition client_nodes :: "client_options \<Rightarrow> runtime_bootstrap_plan \<Rightarrow> node_info list" where
  "client_nodes client plan =
     filter (\<lambda>node. of_client client (fst (node_host (rbp_resolved plan) node)) (snd (node_host (rbp_resolved plan) node))) (rbp_node_infos plan)"

definition client_failures :: "client_options \<Rightarrow> u32 \<Rightarrow> runtime_bootstrap_plan \<Rightarrow> node_failure_payload list" where
  "client_failures client machine_id plan =
     filter (\<lambda>p. of_client client (nfp_api_host p) (nfp_machine_id p)) (node_failure_payloads (rbp_node_failures plan) machine_id)"

text \<open>
  C29: The status sent to a panel carries the node failures and the node rows of that panel's machine, all of
  them and no other, whatever other panels the machine serves, with the number of rows as its node counts.
\<close>

theorem panel_told_own_nodes:
  assumes "build_machine_status_payload machine_id plan input fs = (payload, fs')"
  shows "bt_get (msp_status (machine_status_payload_for_client payload client)) ''node_failures'' =
      Some (JArray (map node_failure_value (client_failures client machine_id plan))) \<and>
    (\<exists>runtime. bt_get (msp_status (machine_status_payload_for_client payload client)) ''runtime'' = Some (JObject runtime) \<and>
       bt_get runtime ''node_statuses'' = Some (JArray (map (runtime_node_status (rbp_resolved plan)) (client_nodes client plan))) \<and>
       bt_get runtime ''nodes'' = Some (json_nat (length (client_nodes client plan))))"
proof -
  note get = status_payload_get [OF assms(1)]
  obtain m where m: "runtime_value plan = JObject m" "bt_invar m"
    "bt_get m ''node_statuses'' = Some (JArray (map (runtime_node_status (rbp_resolved plan)) (rbp_node_infos plan)))"
    using runtime_value_object by blast
  define keep where "keep = (\<lambda>row. status_row_matches_client row (trim_end_matches is_slash (co_api_host client)) (unat (co_machine_id client)))"
  have f: "filter keep (map node_failure_value ps) = map node_failure_value (filter (\<lambda>p. of_client client (nfp_api_host p) (nfp_machine_id p)) ps)" for ps
    by (induction ps) (simp_all add: keep_def failure_row_matches)
  have r: "filter keep (map (runtime_node_status (rbp_resolved plan)) (rbp_node_infos plan)) = map (runtime_node_status (rbp_resolved plan)) (client_nodes client plan)"
    unfolding client_nodes_def by (simp add: filter_map comp_def keep_def node_row_matches)
  have told: "msp_status (machine_status_payload_for_client payload client) = retain_node_statuses keep (retain_failures keep (msp_status payload))"
    by (simp add: machine_status_payload_for_client_def Let_def keep_def)
  show ?thesis
    unfolding told using get m
    by (simp add: retain_failures_def retain_node_statuses_def bt_get_insert f r Let_def client_failures_def)
qed

section \<open>What the panels ask for\<close>

text \<open>The answers of the panels, asked one after the other.\<close>

fun answers :: "'l status_reporter \<Rightarrow> machine_status_payload \<Rightarrow> client_options list \<Rightarrow> 'l \<Rightarrow> machine_status_response result list" where
  "answers report payload [] l = []"
| "answers report payload (client # clients) l =
     (case report client (machine_status_payload_for_client payload client) l of (r, l') \<Rightarrow> r # answers report payload clients l')"

abbreviation accepted :: "machine_status_response result list \<Rightarrow> machine_status_response list" where
  "accepted rs \<equiv> List.map_filter (\<lambda>r. case r of Inr response \<Rightarrow> Some response | Inl _ \<Rightarrow> None) rs"

lemma merge_fields:
  "pa_reload (merge_runtime_panel_action a b) \<longleftrightarrow> pa_reload a \<or> pa_reload b"
  "pa_upgrade (merge_runtime_panel_action a b) = (case pa_upgrade a of None \<Rightarrow> pa_upgrade b | Some u \<Rightarrow> Some u)"
  by (simp_all add: merge_runtime_panel_action_def)

lemma report_loop_merges:
  assumes "report_loop report payload clients reported errors act l = (reported', errors', act', l')"
  shows "reported' = reported + length (accepted (answers report payload clients l)) \<and>
    length errors' = length errors + (length clients - length (accepted (answers report payload clients l))) \<and>
    length (accepted (answers report payload clients l)) \<le> length clients \<and>
    (pa_reload act' \<longleftrightarrow> pa_reload act \<or> list_ex ms_reload (accepted (answers report payload clients l))) \<and>
    pa_upgrade act' = (case pa_upgrade act of Some u \<Rightarrow> Some u
      | None \<Rightarrow> Option.bind (find (\<lambda>response. ms_upgrade response \<noteq> None) (accepted (answers report payload clients l))) ms_upgrade)"
  using assms
proof (induction clients arbitrary: reported errors act l)
  case Nil
  then show ?case by (simp add: List.map_filter_def split: option.split)
next
  case (Cons client clients)
  obtain r l1 where r: "report client (machine_status_payload_for_client payload client) l = (r, l1)" by (rule prod.exhaust)
  define oks where "oks = accepted (answers report payload clients l1)"
  note IH = Cons.IH [where l = l1, folded oks_def]
  show ?case
  proof (cases r)
    case (Inl e)
    define line where "line = trim_end_matches is_slash (co_api_host client) @ ''#'' @ nat_to_string (unat (co_machine_id client)) @ '': '' @ e"
    have oks: "accepted (answers report payload (client # clients) l) = oks" using r Inl by (simp add: oks_def List.map_filter_simps)
    have "report_loop report payload clients reported (errors @ [line]) act l1 = (reported', errors', act', l')"
      using Cons.prems r Inl by (simp add: report_machine_status_payload_def line_def)
    from IH [OF this] show ?thesis unfolding oks by (simp add: Suc_diff_le)
  next
    case (Inr response)
    have oks: "accepted (answers report payload (client # clients) l) = response # oks" using r Inr by (simp add: oks_def List.map_filter_simps)
    have "report_loop report payload clients (reported + 1) errors (merge_runtime_panel_action act (runtime_panel_action_of response)) l1 =
        (reported', errors', act', l')"
      using Cons.prems r Inr by (simp add: report_machine_status_payload_def)
    from IH [OF this] show ?thesis unfolding oks by (simp add: merge_fields runtime_panel_action_of_def split: option.split)
  qed
qed

text \<open>What the answers of the panels, in their order, make the machine do.\<close>

definition panels_signal :: "machine_status_response list \<Rightarrow> runtime_loop_signal" where
  "panels_signal responses =
     (case find (\<lambda>response. ms_upgrade response \<noteq> None) responses of
        Some response \<Rightarrow> UpgradeSignal (the (ms_upgrade response))
      | None \<Rightarrow> if list_ex ms_reload responses then Reload else Continue)"

lemma report_to_panels_signal:
  "case fst (report_runtime_apply_result_to_panels report clients result l) of
     Inl e \<Rightarrow> clients \<noteq> [] \<and> accepted (answers report (ra_machine_status result) clients l) = []
   | Inr act \<Rightarrow> \<not> (clients \<noteq> [] \<and> accepted (answers report (ra_machine_status result) clients l) = []) \<and>
       runtime_loop_signal_of act = panels_signal (accepted (answers report (ra_machine_status result) clients l))"
proof -
  define oks where "oks = accepted (answers report (ra_machine_status result) clients l)"
  obtain reported errors act l' where loop: "report_loop report (ra_machine_status result) clients 0 [] panel_action_default l = (reported, errors, act, l')"
    by (rule prod_cases4)
  have m: "reported = length oks" "length errors = length clients - length oks" "length oks \<le> length clients"
    "pa_reload act \<longleftrightarrow> list_ex ms_reload oks"
    "pa_upgrade act = Option.bind (find (\<lambda>response. ms_upgrade response \<noteq> None) oks) ms_upgrade"
    using report_loop_merges [OF loop] by (simp_all add: panel_action_default_def flip: oks_def)
  have found: "\<exists>u. ms_upgrade response = Some u" if "find (\<lambda>response. ms_upgrade response \<noteq> None) oks = Some response" for response
    using that by (auto simp: find_Some_iff)
  have signal: "runtime_loop_signal_of act =
      (case find (\<lambda>response. ms_upgrade response \<noteq> None) oks of
         Some response \<Rightarrow> UpgradeSignal (the (ms_upgrade response))
       | None \<Rightarrow> if list_ex ms_reload oks then Reload else Continue)"
    using m(4,5) found by (cases "find (\<lambda>response. ms_upgrade response \<noteq> None) oks") auto
  have failed: "reported = 0 \<and> errors \<noteq> [] \<longleftrightarrow> clients \<noteq> [] \<and> oks = []"
    using m(1,2,3) by (metis diff_zero length_0_conv)
  show ?thesis
    unfolding report_runtime_apply_result_to_panels_def loop oks_def [symmetric] prod.case failed
    using signal by (simp add: panels_signal_def)
qed

text \<open>
  Asked in turn, the panels make the machine upgrade when one of those that answered sends an upgrade (the first
  one counts), else reload when one of them asks for it, else go on; the report fails exactly when there
  are panels and none of them answered.
\<close>

lemma panels_decide_signal:
  "case fst (report_runtime_apply_result_to_panels report clients result l) of
     Inl e \<Rightarrow> clients \<noteq> [] \<and> accepted (answers report (ra_machine_status result) clients l) = []
   | Inr act \<Rightarrow> \<not> (clients \<noteq> [] \<and> accepted (answers report (ra_machine_status result) clients l) = []) \<and>
       runtime_loop_signal_of act =
         (case find (\<lambda>response. ms_upgrade response \<noteq> None) (accepted (answers report (ra_machine_status result) clients l)) of
            Some response \<Rightarrow> UpgradeSignal (the (ms_upgrade response))
          | None \<Rightarrow> if list_ex ms_reload (accepted (answers report (ra_machine_status result) clients l)) then Reload else Continue)"
  by (rule report_to_panels_signal [unfolded panels_signal_def])

section \<open>Witnesses\<close>

definition sample_health :: health_report_input where
  "sample_health =
     (let none = \<lparr>us_total = 0, us_used = 0\<rparr>
      in \<lparr>hri_version = [], hri_resources = \<lparr>res_cpu = JNull, res_mem = none, res_swap = none, res_disk = none, res_net = None,
            res_ip = None, res_system = None, res_uptime = None\<rparr>,
          hri_core = None, hri_subscription_proxy = None, hri_upgrade = None, hri_metrics = None\<rparr>)"

definition sample_options :: runtime_control_options where
  "sample_options =
     \<lparr>rco_machine_id = 1, rco_core_command = None, rco_start_core = True, rco_hot_apply = True, rco_user_delta_applied = False,
      rco_repair_port_forward = False, rco_health = sample_health\<rparr>"

text \<open>Every socket is taken and no firewall tool is installed.\<close>

definition sample_control_env :: "(supervisor, unit, unit) control_env" where
  "sample_control_env =
     \<lparr>ce_sup = system_ops,
      ce_fw = \<lparr>is_tool_available = (\<lambda>x tool. (False, x)), command_output = (\<lambda>x cmd. (Err [], x)), run_command = (\<lambda>x cmd. (Err [], x)),
        running_as_root = (\<lambda>x. False)\<rparr>,
      ce_link = rn_link (sample_runner_env (Ok sample_delta)), ce_writer = sample_writer, ce_random = (\<lambda>_. Ok [1, 2]), ce_cwd = None,
      ce_bind = (\<lambda>network addr port. Err ''in use''), ce_dbg = (\<lambda>s. s), ce_now = 0\<rparr>"

definition sample_control_world :: "(supervisor, unit, unit) control_world" where
  "sample_control_world =
     \<lparr>w_sup = supervisor_init [], w_fw = (), w_channel = (), w_fs = no_files, w_log = [],
      w_hy2_clean = \<lparr>cls_summary = None, cls_last_secs = 0\<rparr>, w_mieru_clean = \<lparr>cls_summary = None, cls_last_secs = 0\<rparr>\<rparr>"

definition sample_control_plan :: core_plan where
  "sample_control_plan = sample_core_plan\<lparr>cp_inbounds := [sample_inbound ''a'' []]\<rparr>"

lemma sample_spec_ok: "\<exists>spec fs'. core_process_spec (Ok [1, 2]) None sample_control_plan None no_files = (Ok spec, fs')"
proof -
  have a: "absolute_process_path None ''/c/config.json'' = ''/c/config.json''" by code_simp
  show ?thesis
    by (simp add: core_process_spec_def Let_def sample_core_plan_def sample_control_plan_def a default_core_command_def core_process_args_def
        core_process_env_def sample_paths keli_core_rs_control_token_def keli_core_rs_control_token_path_def
        fs_read_to_string_def fs_read_def next_fault_def no_files_def create_control_token_def
        generate_keli_core_rs_control_token_def fs_create_dir_all_def fs_write_def set_file_def
        secure_keli_core_rs_control_token_file_def fs_set_permissions_def)
qed

lemma sample_on_spec:
  "\<exists>spec fs'. on_fs (core_process_spec (ce_random sample_control_env i) (ce_cwd sample_control_env) sample_control_plan
     (rco_core_command sample_options)) sample_control_world = (Ok spec, sample_control_world\<lparr>w_fs := fs'\<rparr>)"
proof -
  obtain spec fs' where "core_process_spec (Ok [1, 2]) None sample_control_plan None no_files = (Ok spec, fs')"
    using sample_spec_ok by blast
  then show ?thesis by (simp add: on_fs_def sample_control_env_def sample_options_def sample_control_world_def)
qed


definition sample_tolerant_plan :: runtime_bootstrap_plan where
  "sample_tolerant_plan = sample_runtime_plan (Some sample_control_plan)"


theorem panel_told_own_nodes_witness:
  "bt_get (msp_status (machine_status_payload_for_client
       (fst (build_machine_status_payload 1 (sample_runtime_plan None) sample_health no_files)) \<lparr>co_api_host = ''https://other'', co_machine_id = 2\<rparr>))
     ''node_failures'' = Some (JArray [])"
proof -
  have "client_failures \<lparr>co_api_host = ''https://other'', co_machine_id = 2\<rparr> 1 (sample_runtime_plan None) = []"
    by (simp add: client_failures_def node_failure_payloads_def sample_runtime_plan_def)
  then show ?thesis
    using panel_told_own_nodes [OF prod.collapse [symmetric], where machine_id = 1 and plan = "sample_runtime_plan None" and
        client = "\<lparr>co_api_host = ''https://other'', co_machine_id = 2\<rparr>"] by simp
qed

end
