(* ===== verification/Runtime_Loop.thy ===== *)
theory Runtime_Loop
  imports Control Realtime
begin

text \<open>
  The main loop (\<open>src/src/runner.rs\<close>): ticks until a signal, an error or the last tick, with and
  without events from the realtime channel, and the worker that turns realtime messages into events.
  The callbacks, the transport and the outcome of each wait are arguments. A loop that never returns
  is \<open>None\<close>; the tick counter is a \<open>nat\<close>, a \<open>usize\<close> it exceeds after more than
  \<open>10 ^ 19\<close> ticks only.
\<close>

section \<open>Options and exits\<close>

record loop_options =
  lo_control :: runtime_control_options
  lo_max_ticks :: "nat option"
  lo_tick_interval :: nat
  lo_user_refresh_interval :: nat
  lo_panel_report_interval :: nat

definition loop_options_default :: "runtime_control_options \<Rightarrow> loop_options" where
  "loop_options_default control =
     \<lparr>lo_control = control, lo_max_ticks = None, lo_tick_interval = 60, lo_user_refresh_interval = 1, lo_panel_report_interval = 1\<rparr>"

datatype loop_exit_reason = MaxTicks | Shutdown | ExitSignal runtime_loop_signal

record loop_exit =
  lx_ticks :: nat
  lx_reason :: loop_exit_reason

datatype loop_event_kind = ReloadEvent | RefreshUsersEvent

record loop_event =
  ev_kind :: loop_event_kind
  ev_reply :: bool

record loop_event_reply =
  er_status :: string
  er_message :: string

definition reply_queued :: "string \<Rightarrow> loop_event_reply" where
  "reply_queued message = \<lparr>er_status = ''queued'', er_message = message\<rparr>"

definition reply_applied :: "string \<Rightarrow> loop_event_reply" where
  "reply_applied message = \<lparr>er_status = ''applied'', er_message = message\<rparr>"

record 'c loop_callbacks =
  cb_refresh_users :: "'c \<Rightarrow> users_by_tag result \<times> 'c"
  cb_run_tick :: "runtime_tick_options \<Rightarrow> 'c \<Rightarrow> runtime_loop_signal result \<times> 'c"
  cb_sleep :: "nat \<Rightarrow> 'c \<Rightarrow> unit result \<times> 'c"

section \<open>Ticks\<close>

definition should_run :: "nat \<Rightarrow> nat \<Rightarrow> bool" where
  "should_run tick interval \<longleftrightarrow> interval > 0 \<and> tick mod interval = 0"

definition at_max :: "loop_options \<Rightarrow> nat \<Rightarrow> bool" where
  "at_max options ticks \<longleftrightarrow> (case lo_max_ticks options of Some max_ticks \<Rightarrow> max_ticks \<le> ticks | None \<Rightarrow> False)"

definition loop_tick :: "'c loop_callbacks \<Rightarrow> loop_options \<Rightarrow> nat \<Rightarrow> 'c \<Rightarrow> runtime_loop_signal result \<times> 'c" where
  "loop_tick cb options ticks c =
     io_then (if should_run ticks (lo_user_refresh_interval options) then cb_refresh_users cb c else (Ok [], c)) (\<lambda>users c.
       cb_run_tick cb \<lparr>to_control = lo_control options, to_report_to_panel = should_run ticks (lo_panel_report_interval options),
         to_users = users\<rparr> c)"

text \<open>What the end of a pass does: a pause, or a wait that an event may end.\<close>

datatype wait_outcome = TimedOut | Received loop_event | ChannelClosed

definition loop_pause :: "'c loop_callbacks \<Rightarrow> loop_options \<Rightarrow> 'c \<Rightarrow> runtime_loop_signal result \<times> 'c" where
  "loop_pause cb options c =
     (if lo_tick_interval options > 0
      then io_then (cb_sleep cb (lo_tick_interval options) c) (\<lambda>_ c. (Ok Continue, c)) else (Ok Continue, c))"

partial_function (option) loop_from ::
  "'c loop_callbacks \<Rightarrow> loop_options \<Rightarrow> (nat \<Rightarrow> 'c \<Rightarrow> runtime_loop_signal result \<times> 'c) \<Rightarrow> nat \<Rightarrow> 'c \<Rightarrow> (loop_exit result \<times> 'c) option" where
  "loop_from cb options pause ticks c =
     (if at_max options ticks then Some (Ok \<lparr>lx_ticks = ticks, lx_reason = MaxTicks\<rparr>, c)
      else case loop_tick cb options (Suc ticks) c of
        (Inl e, c1) \<Rightarrow> Some (Err e, c1)
      | (Inr signal, c1) \<Rightarrow>
          if signal \<noteq> Continue then Some (Ok \<lparr>lx_ticks = Suc ticks, lx_reason = ExitSignal signal\<rparr>, c1)
          else if at_max options (Suc ticks) then Some (Ok \<lparr>lx_ticks = Suc ticks, lx_reason = MaxTicks\<rparr>, c1)
          else (case pause (Suc ticks) c1 of
             (Inl e, c2) \<Rightarrow> Some (Err e, c2)
           | (Inr signal, c2) \<Rightarrow>
               if signal \<noteq> Continue then Some (Ok \<lparr>lx_ticks = Suc ticks, lx_reason = ExitSignal signal\<rparr>, c2)
               else loop_from cb options pause (Suc ticks) c2))"

definition run_runtime_loop :: "'c loop_callbacks \<Rightarrow> loop_options \<Rightarrow> 'c \<Rightarrow> (loop_exit result \<times> 'c) option" where
  "run_runtime_loop cb options c = loop_from cb options (\<lambda>_. loop_pause cb options) 0 c"

definition run_runtime_loop_async :: "'c loop_callbacks \<Rightarrow> loop_options \<Rightarrow> 'c \<Rightarrow> (loop_exit result \<times> 'c) option" where
  "run_runtime_loop_async cb options c = loop_from cb options (\<lambda>_. loop_pause cb options) 0 c"

section \<open>Events\<close>

definition event_outcome ::
  "'c loop_callbacks \<Rightarrow> loop_options \<Rightarrow> loop_event_kind \<Rightarrow> 'c \<Rightarrow> (runtime_loop_signal \<times> loop_event_reply) result \<times> 'c" where
  "event_outcome cb options kind c =
     (case kind of
        ReloadEvent \<Rightarrow> (Ok (Reload, reply_queued ''reload queued''), c)
      | RefreshUsersEvent \<Rightarrow>
          io_then (cb_refresh_users cb c) (\<lambda>users c.
            if users = [] then (Ok (Continue, reply_applied ''user refresh no changes''), c)
            else
              io_then (cb_run_tick cb \<lparr>to_control = lo_control options, to_report_to_panel = False, to_users = users\<rparr> c) (\<lambda>signal c.
                (Ok (signal, reply_applied ''user refresh applied''), c))))"

text \<open>The replies that were asked for are kept in the order in which they are sent.\<close>

definition handle_runtime_loop_event ::
  "'c loop_callbacks \<Rightarrow> loop_options \<Rightarrow> loop_event \<Rightarrow> 'c \<times> loop_event_reply result list \<Rightarrow>
   runtime_loop_signal result \<times> 'c \<times> loop_event_reply result list" where
  "handle_runtime_loop_event cb options event st =
     (case event_outcome cb options (ev_kind event) (fst st) of (result, c) \<Rightarrow>
       (map_ok fst result, c, if ev_reply event then snd st @ [map_ok snd result] else snd st))"

definition wait_for_event ::
  "'c loop_callbacks \<Rightarrow> loop_options \<Rightarrow> (nat \<Rightarrow> wait_outcome) \<Rightarrow> nat \<Rightarrow> 'c \<times> loop_event_reply result list \<Rightarrow>
   runtime_loop_signal result \<times> 'c \<times> loop_event_reply result list" where
  "wait_for_event cb options waits ticks st =
     (if lo_tick_interval options > 0 then
        (case waits ticks of
           Received event \<Rightarrow> handle_runtime_loop_event cb options event st
         | _ \<Rightarrow> (Ok Continue, st))
      else (Ok Continue, st))"

definition with_replies :: "'c loop_callbacks \<Rightarrow> ('c \<times> loop_event_reply result list) loop_callbacks" where
  "with_replies cb =
     \<lparr>cb_refresh_users = (\<lambda>(c, rs). case cb_refresh_users cb c of (r, c') \<Rightarrow> (r, c', rs)),
      cb_run_tick = (\<lambda>options (c, rs). case cb_run_tick cb options c of (r, c') \<Rightarrow> (r, c', rs)),
      cb_sleep = (\<lambda>d (c, rs). case cb_sleep cb d c of (r, c') \<Rightarrow> (r, c', rs))\<rparr>"

definition run_runtime_loop_async_with_events ::
  "'c loop_callbacks \<Rightarrow> loop_options \<Rightarrow> (nat \<Rightarrow> wait_outcome) \<Rightarrow> 'c \<Rightarrow>
   (loop_exit result \<times> 'c \<times> loop_event_reply result list) option" where
  "run_runtime_loop_async_with_events cb options waits c =
     loop_from (with_replies cb) options (wait_for_event cb options waits) 0 (c, [])"

section \<open>The realtime worker\<close>

definition runtime_loop_event_for_task :: "realtime_task \<Rightarrow> (loop_event_kind \<times> string \<times> string) option" where
  "runtime_loop_event_for_task task =
     (case task of
        TaskConfigCheck \<Rightarrow> Some (ReloadEvent, ''config'', ''reload queued'')
      | TaskForceReload \<Rightarrow> Some (ReloadEvent, ''config'', ''reload queued'')
      | TaskUserSync \<Rightarrow> Some (RefreshUsersEvent, ''users'', ''user refresh queued'')
      | _ \<Rightarrow> None)"

text \<open>Handing an event to the loop: the channel is closed, the reply is dropped, or it arrives.\<close>

datatype event_answer = ReceiverClosed | ReplyDropped | Replied "loop_event_reply result"

record 't realtime_link =
  rl_send :: "realtime_message \<Rightarrow> 't \<Rightarrow> unit result \<times> 't"
  rl_recv :: "'t \<Rightarrow> realtime_message option result \<times> 't"
  rl_event :: "loop_event_kind \<Rightarrow> 't \<Rightarrow> event_answer \<times> 't"
  rl_now :: "'t \<Rightarrow> int"

fun final_receipt :: "event_answer \<Rightarrow> string \<times> string" where
  "final_receipt ReceiverClosed = (''failed'', ''runtime event receiver closed'')"
| "final_receipt ReplyDropped = (''failed'', ''runtime event reply dropped'')"
| "final_receipt (Replied (Inr reply)) = (er_status reply, er_message reply)"
| "final_receipt (Replied (Inl e)) = (''failed'', e)"

definition send_realtime_runtime_event ::
  "'t realtime_link \<Rightarrow> loop_event_kind \<Rightarrow> string \<Rightarrow> realtime_message \<Rightarrow> string \<Rightarrow> 't \<Rightarrow> unit result \<times> 't" where
  "send_realtime_runtime_event link kind topic source queued_message t =
     io_then (rl_send link (build_realtime_receipt topic source ''received'' queued_message (rl_now link t)) t) (\<lambda>_ t.
       (case rl_event link kind t of (answer, t1) \<Rightarrow>
         rl_send link (build_realtime_receipt topic source (fst (final_receipt answer)) (snd (final_receipt answer)) (rl_now link t1)) t1))"

definition handle_realtime_message :: "'t realtime_link \<Rightarrow> realtime_message \<Rightarrow> 't \<Rightarrow> unit result \<times> 't" where
  "handle_realtime_message link message t =
     (case realtime_runtime_task message (rl_now link t) of
        TaskPong pong \<Rightarrow> rl_send link pong t
      | task \<Rightarrow>
          (case runtime_loop_event_for_task task of
             None \<Rightarrow> (Ok (), t)
           | Some (kind, topic, queued_message) \<Rightarrow> send_realtime_runtime_event link kind topic message queued_message t))"

partial_function (option) serve_messages :: "'t realtime_link \<Rightarrow> 't \<Rightarrow> (unit result \<times> 't) option" where
  "serve_messages link t =
     (case rl_recv link t of
        (Inl e, t1) \<Rightarrow> Some (Err e, t1)
      | (Inr None, t1) \<Rightarrow> Some (Ok (), t1)
      | (Inr (Some message), t1) \<Rightarrow>
          (case handle_realtime_message link message t1 of
             (Inl e, t2) \<Rightarrow> Some (Err e, t2)
           | (Inr _, t2) \<Rightarrow> serve_messages link t2))"

definition serve_realtime_runtime_transport :: "'t realtime_link \<Rightarrow> realtime_options \<Rightarrow> 't \<Rightarrow> (unit result \<times> 't) option" where
  "serve_realtime_runtime_transport link options t =
     (case rl_send link (message_ping options (rl_now link t) None) t of
        (Inl e, t1) \<Rightarrow> Some (Err e, t1)
      | (Inr _, t1) \<Rightarrow> serve_messages link t1)"

section \<open>Passes of the loop\<close>

text \<open>The state after a number of whole passes, each of which went on; \<open>None\<close> when one did not.\<close>

fun passes ::
  "'c loop_callbacks \<Rightarrow> loop_options \<Rightarrow> (nat \<Rightarrow> 'c \<Rightarrow> runtime_loop_signal result \<times> 'c) \<Rightarrow> nat \<Rightarrow> nat \<Rightarrow> 'c \<Rightarrow> 'c option" where
  "passes cb options pause ticks 0 c = Some c"
| "passes cb options pause ticks (Suc n) c =
     (if at_max options ticks then None
      else case loop_tick cb options (Suc ticks) c of
        (Inr Continue, c1) \<Rightarrow>
          if at_max options (Suc ticks) then None
          else (case pause (Suc ticks) c1 of (Inr Continue, c2) \<Rightarrow> passes cb options pause (Suc ticks) n c2 | _ \<Rightarrow> None)
      | _ \<Rightarrow> None)"

lemmas pass_splits = if_splits prod.splits sum.splits runtime_loop_signal.splits

lemma passes_loop: "passes cb options pause ticks n c = Some c' \<Longrightarrow> loop_from cb options pause ticks c = loop_from cb options pause (ticks + n) c'"
proof (induction n arbitrary: ticks c)
  case (Suc n)
  then obtain c1 c2 where "\<not> at_max options ticks" "loop_tick cb options (Suc ticks) c = (Inr Continue, c1)"
    "\<not> at_max options (Suc ticks)" "pause (Suc ticks) c1 = (Inr Continue, c2)" "passes cb options pause (Suc ticks) n c2 = Some c'"
    by (auto split: pass_splits)
  with Suc.IH show ?case by (subst loop_from.simps) simp
qed simp

lemma loop_returns: "passes cb options pause ticks n c = None \<Longrightarrow> loop_from cb options pause ticks c \<noteq> None"
proof (induction n arbitrary: ticks c)
  case (Suc n)
  then show ?case by (subst loop_from.simps) (auto split: pass_splits)
qed simp

lemma loop_returned:
  assumes "loop_from cb options pause ticks c = Some y"
  shows "\<exists>n. passes cb options pause ticks n c = None"
proof (rule loop_from.raw_induct [where P = "\<lambda>cb options pause ticks c y. \<exists>n. passes cb options pause ticks n c = None", OF _ assms])
  fix f :: "'c loop_callbacks \<Rightarrow> loop_options \<Rightarrow> (nat \<Rightarrow> 'c \<Rightarrow> runtime_loop_signal result \<times> 'c) \<Rightarrow> nat \<Rightarrow> 'c \<Rightarrow> (loop_exit result \<times> 'c) option"
    and cb options pause ticks c y
  assume IH: "\<And>cb options pause ticks c y. f cb options pause ticks c = Some y \<Longrightarrow> \<exists>n. passes cb options pause ticks n c = None"
    and body: "(if at_max options ticks then Some (Ok \<lparr>lx_ticks = ticks, lx_reason = MaxTicks\<rparr>, c)
      else case loop_tick cb options (Suc ticks) c of
        (Inl e, c1) \<Rightarrow> Some (Err e, c1)
      | (Inr signal, c1) \<Rightarrow>
          if signal \<noteq> Continue then Some (Ok \<lparr>lx_ticks = Suc ticks, lx_reason = ExitSignal signal\<rparr>, c1)
          else if at_max options (Suc ticks) then Some (Ok \<lparr>lx_ticks = Suc ticks, lx_reason = MaxTicks\<rparr>, c1)
          else (case pause (Suc ticks) c1 of
             (Inl e, c2) \<Rightarrow> Some (Err e, c2)
           | (Inr signal, c2) \<Rightarrow>
               if signal \<noteq> Continue then Some (Ok \<lparr>lx_ticks = Suc ticks, lx_reason = ExitSignal signal\<rparr>, c2)
               else f cb options pause (Suc ticks) c2)) = Some y"
  show "\<exists>n. passes cb options pause ticks n c = None"
  proof (cases "passes cb options pause ticks 1 c")
    case (Some c2)
    then obtain c1 where p: "\<not> at_max options ticks" "loop_tick cb options (Suc ticks) c = (Inr Continue, c1)"
      "\<not> at_max options (Suc ticks)" "pause (Suc ticks) c1 = (Inr Continue, c2)"
      by (auto split: pass_splits)
    then have "f cb options pause (Suc ticks) c2 = Some y" using body by simp
    from IH [OF this] obtain n where "passes cb options pause (Suc ticks) n c2 = None" by blast
    then have "passes cb options pause ticks (Suc n) c = None" using p by simp
    then show ?thesis by blast
  qed blast
qed

lemma loop_runs_on: "loop_from cb options pause ticks c = None \<longleftrightarrow> (\<forall>n. passes cb options pause ticks n c \<noteq> None)"
  using loop_returns loop_returned by (metis not_None_eq)

lemma loop_bounded:
  assumes "lo_max_ticks options = Some m"
  shows "\<exists>r c'. loop_from cb options pause ticks c = Some (r, c') \<and>
    (\<forall>ex. r = Inr ex \<longrightarrow> lx_ticks ex \<le> max m ticks \<and> (lx_reason ex = MaxTicks \<longrightarrow> lx_ticks ex = max m ticks))"
proof (induction "m - ticks" arbitrary: ticks c)
  case 0
  then show ?case using assms by (subst loop_from.simps) (simp add: at_max_def max_def)
next
  case (Suc d)
  then have lt: "ticks < m" "d = m - Suc ticks" by auto
  obtain r c1 where t: "loop_tick cb options (Suc ticks) c = (r, c1)" by (rule prod.exhaust)
  obtain r2 c2 where p: "pause (Suc ticks) c1 = (r2, c2)" by (rule prod.exhaust)
  note IH = Suc.hyps(1) [OF lt(2), of c2]
  show ?case
    using assms lt(1) IH t p
    by (subst loop_from.simps) (auto simp: at_max_def max_def split: sum.splits if_splits)
qed

text \<open>
  C12: With a limit on the ticks the loop returns, whatever the callbacks answer and whichever events arrive: an
  exit has at most that many ticks, and exactly that many when the limit is its reason.
\<close>

theorem limited_loop_returns:
  assumes "lo_max_ticks options = Some m"
  shows "(\<exists>r c'. run_runtime_loop cb options c = Some (r, c') \<and>
      (\<forall>ex. r = Inr ex \<longrightarrow> lx_ticks ex \<le> m \<and> (lx_reason ex = MaxTicks \<longrightarrow> lx_ticks ex = m))) \<and>
    (\<exists>r st'. run_runtime_loop_async_with_events cb options waits c = Some (r, st') \<and>
      (\<forall>ex. r = Inr ex \<longrightarrow> lx_ticks ex \<le> m \<and> (lx_reason ex = MaxTicks \<longrightarrow> lx_ticks ex = m)))"
  using loop_bounded [OF assms, of cb "\<lambda>_. loop_pause cb options" 0 c]
    loop_bounded [OF assms, of "with_replies cb" "wait_for_event cb options waits" 0 "(c, [])"]
  by (simp add: run_runtime_loop_def run_runtime_loop_async_with_events_def)

section \<open>Signals\<close>

lemma with_replies_tick:
  "loop_tick (with_replies cb) options n (c, rs) = (case loop_tick cb options n c of (r, c') \<Rightarrow> (r, c', rs))"
proof (cases "cb_refresh_users cb c")
  case (Pair r c1)
  then show ?thesis by (cases r) (simp_all add: loop_tick_def with_replies_def)
qed

text \<open>
  C11: After any number of passes that went on, a tick that gives a signal ends the loop with that signal at that
  tick, and so does the wait after a tick when a reload event arrives in it, which is answered as queued.
\<close>

theorem signal_ends_loop:
  assumes "passes (with_replies cb) options (wait_for_event cb options waits) 0 k (c, []) = Some (ck, replies)"
    and "\<not> at_max options k" and "loop_tick cb options (Suc k) ck = (Inr signal, c1)"
  shows "(signal \<noteq> Continue \<longrightarrow>
      run_runtime_loop_async_with_events cb options waits c =
        Some (Ok \<lparr>lx_ticks = Suc k, lx_reason = ExitSignal signal\<rparr>, c1, replies)) \<and>
    (signal = Continue \<and> \<not> at_max options (Suc k) \<and> lo_tick_interval options > 0 \<and>
       waits (Suc k) = Received \<lparr>ev_kind = ReloadEvent, ev_reply = True\<rparr> \<longrightarrow>
      run_runtime_loop_async_with_events cb options waits c =
        Some (Ok \<lparr>lx_ticks = Suc k, lx_reason = ExitSignal Reload\<rparr>, c1, replies @ [Ok (reply_queued ''reload queued'')]))"
proof -
  have "run_runtime_loop_async_with_events cb options waits c =
      loop_from (with_replies cb) options (wait_for_event cb options waits) k (ck, replies)"
    using passes_loop [OF assms(1)] by (simp add: run_runtime_loop_async_with_events_def)
  then show ?thesis
    using assms(2,3)
    by (simp add: loop_from.simps [of "with_replies cb" options _ k] with_replies_tick wait_for_event_def handle_runtime_loop_event_def
        event_outcome_def)
qed

section \<open>What a client gives the loop\<close>

lemma loop_exit_allowed:
  assumes "loop_from cb options pause ticks c = Some (Inr ex, c')" and "lx_reason ex = ExitSignal signal" and "invar c"
    and tick: "\<And>n c s c'. loop_tick cb options n c = (Inr s, c') \<Longrightarrow> invar c \<Longrightarrow> invar c' \<and> (s = Continue \<or> allowed s)"
    and wait: "\<And>n c s c'. pause n c = (Inr s, c') \<Longrightarrow> invar c \<Longrightarrow> invar c' \<and> (s = Continue \<or> allowed s)"
  shows "allowed signal"
proof -
  obtain n where "passes cb options pause ticks n c = None" using loop_returned [OF assms(1)] by blast
  then show ?thesis using assms(1-3)
  proof (induction n arbitrary: ticks c)
    case (Suc n)
    then have "\<not> at_max options ticks" by (auto simp: loop_from.simps [of cb options pause ticks])
    then obtain s1 c1 where t: "loop_tick cb options (Suc ticks) c = (Inr s1, c1)"
      using Suc.prems(2) by (auto simp: loop_from.simps [of cb options pause ticks] split: prod.splits sum.splits)
    show ?case
    proof (cases "s1 = Continue \<and> \<not> at_max options (Suc ticks)")
      case True
      with Suc.prems(2) t \<open>\<not> at_max options ticks\<close> obtain s2 c2 where w: "pause (Suc ticks) c1 = (Inr s2, c2)"
        by (auto simp: loop_from.simps [of cb options pause ticks] split: prod.splits sum.splits)
      have invar: "invar c2" "s2 = Continue \<or> allowed s2" using tick [OF t Suc.prems(4)] wait [OF w] by blast+
      show ?thesis
        using Suc.prems(1-3) Suc.IH [of "Suc ticks" c2] invar t w True \<open>\<not> at_max options ticks\<close>
        by (cases "s2 = Continue") (auto simp: loop_from.simps [of cb options pause ticks])
    next
      case False
      then show ?thesis
        using Suc.prems(2,3) tick [OF t Suc.prems(4)] t \<open>\<not> at_max options ticks\<close>
        by (auto simp: loop_from.simps [of cb options pause ticks] split: if_splits)
    qed
  qed simp
qed

text \<open>
  A client of the loop keeps an invariant of its state in every callback that succeeds, and its ticks give no signal but
  those it allows. A loop over such a client, with or without events, ends with an allowed signal.
\<close>

locale loop_client =
  fixes cb :: "'c loop_callbacks" and invar :: "'c \<Rightarrow> bool" and allowed :: "runtime_loop_signal \<Rightarrow> bool"
  assumes refresh_keeps: "cb_refresh_users cb c = (Inr users, c') \<Longrightarrow> invar c \<Longrightarrow> invar c'"
    and run_keeps: "cb_run_tick cb tick_options c = (Inr signal, c') \<Longrightarrow> invar c \<Longrightarrow> invar c' \<and> (signal = Continue \<or> allowed signal)"
    and sleep_keeps: "cb_sleep cb d c = (Inr u, c') \<Longrightarrow> invar c \<Longrightarrow> invar c'"
    and reload_allowed: "allowed Reload"
begin

lemma tick_allowed: "loop_tick cb options n c = (Inr signal, c') \<Longrightarrow> invar c \<Longrightarrow> invar c' \<and> (signal = Continue \<or> allowed signal)"
  by (auto simp: loop_tick_def io_then_Inr split: if_splits dest: refresh_keeps run_keeps)

lemma pause_allowed: "loop_pause cb options c = (Inr signal, c') \<Longrightarrow> invar c \<Longrightarrow> invar c' \<and> (signal = Continue \<or> allowed signal)"
  by (auto simp: loop_pause_def io_then_Inr split: if_splits dest: sleep_keeps)

lemma event_allowed:
  "event_outcome cb options kind c = (Inr (signal, reply), c') \<Longrightarrow> invar c \<Longrightarrow> invar c' \<and> (signal = Continue \<or> allowed signal)"
  by (cases kind) (auto simp: event_outcome_def io_then_Inr reload_allowed split: if_splits dest: refresh_keeps run_keeps)

lemma wait_allowed:
  assumes "wait_for_event cb options waits n st = (Inr signal, st')" and "invar (fst st)"
  shows "invar (fst st') \<and> (signal = Continue \<or> allowed signal)"
proof (cases "lo_tick_interval options > 0 \<and> (\<exists>event. waits n = Received event)")
  case True
  then obtain event where "handle_runtime_loop_event cb options event st = (Inr signal, st')"
    using assms(1) by (auto simp: wait_for_event_def)
  then obtain reply where "event_outcome cb options (ev_kind event) (fst st) = (Inr (signal, reply), fst st')"
    by (auto simp: handle_runtime_loop_event_def map_ok_Inr split: prod.splits)
  then show ?thesis using event_allowed assms(2) by blast
next
  case False
  then have "(Inr signal, st') = (Inr Continue, st)"
    using assms(1) by (cases "waits n") (auto simp: wait_for_event_def split: if_splits)
  then show ?thesis using assms(2) by simp
qed

lemma loop_ends_allowed:
  assumes "run_runtime_loop cb options c = Some (Inr ex, c')" and "invar c" and "lx_reason ex = ExitSignal signal"
  shows "allowed signal"
  using loop_exit_allowed [of cb options _ 0 c ex c' signal invar allowed] assms tick_allowed pause_allowed
  unfolding run_runtime_loop_def by blast

lemma event_loop_ends_allowed:
  assumes "run_runtime_loop_async_with_events cb options waits c = Some (Inr ex, st)" and "invar c" and "lx_reason ex = ExitSignal signal"
  shows "allowed signal"
proof (rule loop_exit_allowed [OF assms(1) [unfolded run_runtime_loop_async_with_events_def] assms(3)])
  show "invar (fst (c, []))" using assms(2) by simp
  show "invar (fst st') \<and> (s = Continue \<or> allowed s)"
    if "loop_tick (with_replies cb) options n st = (Inr s, st')" "invar (fst st)" for n st s st'
    using that tick_allowed by (cases st) (auto simp: with_replies_tick split: prod.splits)
  show "invar (fst st') \<and> (s = Continue \<or> allowed s)"
    if "wait_for_event cb options waits n st = (Inr s, st')" "invar (fst st)" for n st s st'
    using wait_allowed [OF that] .
qed

end

section \<open>Witnesses\<close>

text \<open>Callbacks that count the ticks and ask for a reload at the second one.\<close>

definition sample_callbacks :: "nat loop_callbacks" where
  "sample_callbacks =
     \<lparr>cb_refresh_users = (\<lambda>c. (Ok [], c)), cb_run_tick = (\<lambda>options c. (Ok (if c = 1 then Reload else Continue), Suc c)),
      cb_sleep = (\<lambda>d c. (Ok (), c))\<rparr>"

definition sample_loop_options :: loop_options where
  "sample_loop_options = (loop_options_default sample_options)\<lparr>lo_max_ticks := Some 5\<rparr>"

theorem limited_loop_returns_witness:
  "\<exists>r c'. run_runtime_loop sample_callbacks sample_loop_options 0 = Some (r, c') \<and> (\<forall>ex. r = Inr ex \<longrightarrow> lx_ticks ex \<le> 5)"
proof -
  have "lo_max_ticks sample_loop_options = Some 5" by (simp add: sample_loop_options_def)
  from limited_loop_returns [OF this, of sample_callbacks 0] show ?thesis by fast
qed

lemma sample_ticks:
  "loop_tick sample_callbacks sample_loop_options n c = (Ok (if c = 1 then Reload else Continue), Suc c)"
  by (simp add: loop_tick_def sample_callbacks_def)

lemma sample_at_max: "at_max sample_loop_options n \<longleftrightarrow> 5 \<le> n"
  by (simp add: at_max_def sample_loop_options_def)

theorem signal_ends_loop_witness:
  "run_runtime_loop_async_with_events sample_callbacks sample_loop_options (\<lambda>_. TimedOut) 0 =
     Some (Ok \<lparr>lx_ticks = 2, lx_reason = ExitSignal Reload\<rparr>, 2, [])"
proof -
  have p: "passes (with_replies sample_callbacks) sample_loop_options (wait_for_event sample_callbacks sample_loop_options (\<lambda>_. TimedOut)) 0 1 (0, []) =
      Some (1, [])"
    by (simp add: with_replies_tick sample_ticks wait_for_event_def sample_at_max)
  have m: "\<not> at_max sample_loop_options 1" by (simp add: sample_at_max)
  have t: "loop_tick sample_callbacks sample_loop_options (Suc 1) 1 = (Inr Reload, 2)" by (simp add: sample_ticks)
  from signal_ends_loop [OF p m t] show ?thesis by (simp add: numeral_2_eq_2)
qed

end
