(* ===== verification/Runner.thy ===== *)
theory Runner
  imports Runtime_Loop
begin

text \<open>
  The callbacks of the main loop over the panels (\<open>PanelRuntimeLoop\<close> of \<open>src/src/runner.rs\<close>):
  refreshing the users, and one tick that brings user changes to the core, applies the plan and
  reports. Sampling the machine and the status of the subscription proxy are arguments.
\<close>

section \<open>State and environment\<close>

record ('p, 'x, 'k, 'l, 's) panel_loop =
  pl_plan :: runtime_bootstrap_plan
  pl_clients :: "client_options list"
  pl_version :: string
  pl_refresh_health :: bool
  pl_public_ip_probe :: bool
  pl_upgrade_status :: "json option"
  pl_sampler :: 's
  pl_proxy :: "subscription_proxy_status option"
  pl_lookup :: user_id_lookup
  pl_sync :: sync_map
  pl_metrics :: user_delta_metrics
  pl_world :: "('p, 'x, 'k) control_world"
  pl_panel :: 'l
  pl_relay_logs :: log_times

record ('p, 'x, 'k, 'l, 's, 'u) loop_env =
  le_control :: "('p, 'x, 'k) control_env"
  le_runner :: "('k, 'l) runner_env"
  le_report :: "('k, 'l) report_env"
  le_status :: "'l status_reporter"
  le_urls :: "'u url_ops"
  le_sample :: "bool \<Rightarrow> 's \<Rightarrow> resource_snapshot \<times> 's"

definition panel_loop_new ::
  "runtime_bootstrap_plan \<Rightarrow> client_options option \<Rightarrow> 's \<Rightarrow> ('p, 'x, 'k) control_world \<Rightarrow> 'l \<Rightarrow> ('p, 'x, 'k, 'l, 's) panel_loop" where
  "panel_loop_new plan client sampler w l =
     \<lparr>pl_plan = plan, pl_clients = option_list client, pl_version = [], pl_refresh_health = False, pl_public_ip_probe = False,
      pl_upgrade_status = None, pl_sampler = sampler, pl_proxy = None, pl_lookup = runtime_user_id_lookup_from_plan plan, pl_sync = [],
      pl_metrics = user_delta_metrics_default, pl_world = w, pl_panel = l, pl_relay_logs = []\<rparr>"

definition with_health_refresh :: "string \<Rightarrow> ('p, 'x, 'k, 'l, 's) panel_loop \<Rightarrow> ('p, 'x, 'k, 'l, 's) panel_loop" where
  "with_health_refresh version s = s\<lparr>pl_version := version, pl_refresh_health := True\<rparr>"

definition with_public_ip_probe :: "bool \<Rightarrow> ('p, 'x, 'k, 'l, 's) panel_loop \<Rightarrow> ('p, 'x, 'k, 'l, 's) panel_loop" where
  "with_public_ip_probe enabled s = s\<lparr>pl_public_ip_probe := enabled\<rparr>"

definition with_upgrade_status :: "json option \<Rightarrow> ('p, 'x, 'k, 'l, 's) panel_loop \<Rightarrow> ('p, 'x, 'k, 'l, 's) panel_loop" where
  "with_upgrade_status status s = s\<lparr>pl_upgrade_status := status\<rparr>"

definition with_panel_clients :: "client_options list \<Rightarrow> ('p, 'x, 'k, 'l, 's) panel_loop \<Rightarrow> ('p, 'x, 'k, 'l, 's) panel_loop" where
  "with_panel_clients clients s = s\<lparr>pl_clients := clients\<rparr>"

text \<open>A step over the files, the control channel and the panels, and one over the control world.\<close>

definition on_report :: "(('k, 'l) report_world \<Rightarrow> 'a \<times> ('k, 'l) report_world) \<Rightarrow> ('p, 'x, 'k, 'l, 's) panel_loop \<Rightarrow>
    'a \<times> ('p, 'x, 'k, 'l, 's) panel_loop" where
  "on_report f s =
     (case f \<lparr>w_files = w_fs (pl_world s), w_core = w_channel (pl_world s), w_panel = pl_panel s\<rparr> of (r, w) \<Rightarrow>
       (r, s\<lparr>pl_world := (pl_world s)\<lparr>w_fs := w_files w, w_channel := w_core w\<rparr>, pl_panel := w_panel w\<rparr>))"

definition on_world :: "(('p, 'x, 'k) control_world \<Rightarrow> 'a \<times> ('p, 'x, 'k) control_world) \<Rightarrow> ('p, 'x, 'k, 'l, 's) panel_loop \<Rightarrow>
    'a \<times> ('p, 'x, 'k, 'l, 's) panel_loop" where
  "on_world f s = (case f (pl_world s) of (r, w) \<Rightarrow> (r, s\<lparr>pl_world := w\<rparr>))"

definition say :: "log_level \<Rightarrow> string \<Rightarrow> string \<Rightarrow> ('p, 'x, 'k, 'l, 's) panel_loop \<Rightarrow> ('p, 'x, 'k, 'l, 's) panel_loop" where
  "say level component message s = s\<lparr>pl_world := log_line level component message (pl_world s)\<rparr>"

section \<open>The core process and its users\<close>

definition core_running ::
  "('p, 'x, 'k) control_env \<Rightarrow> nat \<Rightarrow> core_plan \<Rightarrow> string option \<Rightarrow> ('p, 'x, 'k) control_world \<Rightarrow> bool result \<times> ('p, 'x, 'k) control_world" where
  "core_running env i core_plan cmd w =
     io_then (on_fs (core_process_spec (ce_random env i) (ce_cwd env) core_plan cmd) w) (\<lambda>spec w.
     io_then (on_sup (so_status (ce_sup env) (psp_name spec)) w) (\<lambda>status w. (Ok (is_running status), w)))"

definition keli_core_rs_process_is_running ::
  "('p, 'x, 'k) control_env \<Rightarrow> runtime_bootstrap_plan \<Rightarrow> string option \<Rightarrow> ('p, 'x, 'k) control_world \<Rightarrow>
   bool option result \<times> ('p, 'x, 'k) control_world" where
  "keli_core_rs_process_is_running env plan cmd w =
     (case rbp_core_plan plan of
        None \<Rightarrow> (Ok None, w)
      | Some core_plan \<Rightarrow> io_then (core_running env 3 core_plan cmd w) (\<lambda>running w. (Ok (Some running), w)))"

definition ensure_keli_core_rs_restart_uses_latest_users ::
  "('p, 'x, 'k) control_env \<Rightarrow> 'u url_ops \<Rightarrow> sync_map \<Rightarrow> string option \<Rightarrow> runtime_bootstrap_plan \<Rightarrow> ('p, 'x, 'k) control_world \<Rightarrow>
   runtime_bootstrap_plan option result \<times> ('p, 'x, 'k) control_world" where
  "ensure_keli_core_rs_restart_uses_latest_users env ops sync cmd plan w =
     (case rbp_core_plan plan of
        None \<Rightarrow> (Ok None, w)
      | Some core_plan \<Rightarrow>
          io_then (core_running env 4 core_plan cmd w) (\<lambda>running w.
            let users = latest_users_by_node_tag_for_core_plan plan sync
            in if running \<or> users = [] then (Ok None, w)
               else (map_ok Some (rebuild_runtime_plan_with_users (ce_dbg env) ops (cw_allow (ce_writer env)) plan users), w)))"

section \<open>User changes\<close>

definition panel_refresh_users ::
  "('p, 'x, 'k, 'l, 's, 'u) loop_env \<Rightarrow> ('p, 'x, 'k, 'l, 's) panel_loop \<Rightarrow> users_by_tag result \<times> ('p, 'x, 'k, 'l, 's) panel_loop" where
  "panel_refresh_users env s =
     (case on_report (load_users_by_node_tag_from_panel_with_state (le_runner env) (pl_plan s) (pl_sync s)) s of
        ((r, sync), s') \<Rightarrow> (r, s'\<lparr>pl_sync := sync\<rparr>))"

definition clear_change :: "string \<Rightarrow> sync_map \<Rightarrow> sync_map" where
  "clear_change ntag sync =
     (case bt_get sync ntag of Some entry \<Rightarrow> bt_insert ntag (entry\<lparr>en_last_change := None\<rparr>) sync | None \<Rightarrow> sync)"

datatype tick_step = Finished runtime_loop_signal | Proceed runtime_tick_options "string list"

definition user_delta_outcome ::
  "('p, 'x, 'k, 'l, 's, 'u) loop_env \<Rightarrow> bool option \<Rightarrow> users_by_tag \<Rightarrow> ('p, 'x, 'k, 'l, 's) panel_loop \<Rightarrow>
   delta_apply_outcome \<times> ('p, 'x, 'k, 'l, 's) panel_loop" where
  "user_delta_outcome env running users s =
     (if unwrap_or True running then
        (case on_report (try_apply_keli_core_rs_user_deltas (le_runner env) (pl_plan s) (pl_sync s) users (pl_metrics s)) s of
           ((outcome, metrics), s') \<Rightarrow> (outcome, s'\<lparr>pl_metrics := metrics\<rparr>))
      else (Rebuild, s))"

definition tags_text :: "string list \<Rightarrow> string" where
  "tags_text tags = '' tags='' @ nat_to_string (length tags)"

definition users_applied ::
  "runtime_tick_options \<Rightarrow> string list \<Rightarrow> ('p, 'x, 'k, 'l, 's) panel_loop \<Rightarrow> tick_step result \<times> ('p, 'x, 'k, 'l, 's) panel_loop" where
  "users_applied options tags s =
     (let s1 = say LogInfo ''core'' (''user delta applied natively'' @ tags_text tags) s;
          s2 = s1\<lparr>pl_lookup := sync_runtime_user_id_lookup_from_state (pl_lookup s1) (pl_sync s1) tags,
                  pl_sync := fold clear_change tags (pl_sync s1)\<rparr>
      in (Ok (if to_report_to_panel options
              then Proceed (options\<lparr>to_control := (to_control options)\<lparr>rco_user_delta_applied := True\<rparr>, to_users := []\<rparr>) []
              else Finished Continue), s2))"

definition users_deferred ::
  "runtime_tick_options \<Rightarrow> string list \<Rightarrow> ('p, 'x, 'k, 'l, 's) panel_loop \<Rightarrow> tick_step result \<times> ('p, 'x, 'k, 'l, 's) panel_loop" where
  "users_deferred options tags s =
     (Ok (if to_report_to_panel options then Proceed (options\<lparr>to_users := []\<rparr>) [] else Finished Continue),
      say LogWarn ''core'' (''user delta deferred; keeping runtime unchanged'' @ tags_text tags) s)"

definition users_rebuilt ::
  "('p, 'x, 'k, 'l, 's, 'u) loop_env \<Rightarrow> bool option \<Rightarrow> runtime_tick_options \<Rightarrow> string list \<Rightarrow> ('p, 'x, 'k, 'l, 's) panel_loop \<Rightarrow>
   tick_step result \<times> ('p, 'x, 'k, 'l, 's) panel_loop" where
  "users_rebuilt env running options tags s =
     (let s1 = (if running = Some False
                then say LogInfo ''core'' (''user delta uses full runtime rebuild because native core is not running'' @ tags_text tags) s
                else say LogWarn ''core'' (''user delta fell back to full runtime rebuild'' @ tags_text tags) s);
          s2 = s1\<lparr>pl_metrics := record_full_rebuild (pl_metrics s1)\<rparr>
      in case rebuild_runtime_plan_with_users (ce_dbg (le_control env)) (le_urls env) (cw_allow (ce_writer (le_control env))) (pl_plan s2)
             (user_sync_users_for_runtime_rebuild (pl_plan s2) (pl_sync s2) tags (to_users options)) of
           Inl e \<Rightarrow> (Err e, s2)
         | Inr plan \<Rightarrow>
             (Ok (Proceed (options\<lparr>to_users := []\<rparr>) tags), s2\<lparr>pl_plan := plan, pl_lookup := runtime_user_id_lookup_from_plan plan\<rparr>))"

definition apply_user_changes ::
  "('p, 'x, 'k, 'l, 's, 'u) loop_env \<Rightarrow> runtime_tick_options \<Rightarrow> ('p, 'x, 'k, 'l, 's) panel_loop \<Rightarrow>
   tick_step result \<times> ('p, 'x, 'k, 'l, 's) panel_loop" where
  "apply_user_changes env options s =
     (if to_users options = [] then (Ok (Proceed options []), s)
      else
        io_then (on_world (keli_core_rs_process_is_running (le_control env) (pl_plan s) (rco_core_command (to_control options))) s) (\<lambda>running s.
          let tags = bt_keys (to_users options)
          in case user_delta_outcome env running (to_users options) s of
               (Applied, s1) \<Rightarrow> users_applied options tags s1
             | (Deferred, s1) \<Rightarrow> users_deferred options tags s1
             | (Rebuild, s1) \<Rightarrow> users_rebuilt env running options tags s1))"

section \<open>Health and metrics\<close>

definition refresh_runtime_health ::
  "string \<Rightarrow> json option \<Rightarrow> resource_snapshot \<Rightarrow> runtime_tick_options \<Rightarrow> runtime_tick_options" where
  "refresh_runtime_health version upgrade_status resources options =
     options\<lparr>to_control := (to_control options)\<lparr>rco_health := (rco_health (to_control options))
       \<lparr>hri_version := version, hri_resources := resources, hri_upgrade := upgrade_status\<rparr>\<rparr>\<rparr>"

definition refresh_subscription_proxy_health :: "subscription_proxy_status \<Rightarrow> runtime_tick_options \<Rightarrow> runtime_tick_options" where
  "refresh_subscription_proxy_health status options =
     options\<lparr>to_control := (to_control options)\<lparr>rco_health := (rco_health (to_control options))\<lparr>hri_subscription_proxy := Some status\<rparr>\<rparr>\<rparr>"

definition refresh_health ::
  "('p, 'x, 'k, 'l, 's, 'u) loop_env \<Rightarrow> runtime_tick_options \<Rightarrow> ('p, 'x, 'k, 'l, 's) panel_loop \<Rightarrow>
   runtime_tick_options \<times> ('p, 'x, 'k, 'l, 's) panel_loop" where
  "refresh_health env options s =
     (let (options1, s1) =
        (if pl_refresh_health s then
           (case le_sample env (pl_public_ip_probe s) (pl_sampler s) of (resources, sampler) \<Rightarrow>
             (refresh_runtime_health (pl_version s) (pl_upgrade_status s) resources options, s\<lparr>pl_sampler := sampler\<rparr>))
         else (options, s))
      in (case pl_proxy s1 of Some status \<Rightarrow> refresh_subscription_proxy_health status options1 | None \<Rightarrow> options1, s1))"

definition log_relay_metrics :: "int \<Rightarrow> json \<Rightarrow> ('p, 'x, 'k, 'l, 's) panel_loop \<Rightarrow> ('p, 'x, 'k, 'l, 's) panel_loop" where
  "log_relay_metrics now metrics s =
     (case keli_core_relay_metrics_log_message metrics of
        None \<Rightarrow> s
      | Some message \<Rightarrow>
          (case should_log_keli_core_relay_metrics_at now (pl_relay_logs s) of
             (True, logs) \<Rightarrow> say LogInfo ''core'' message (s\<lparr>pl_relay_logs := logs\<rparr>)
           | (False, logs) \<Rightarrow> s\<lparr>pl_relay_logs := logs\<rparr>))"

definition collect_metrics ::
  "('p, 'x, 'k, 'l, 's, 'u) loop_env \<Rightarrow> runtime_tick_options \<Rightarrow> ('p, 'x, 'k, 'l, 's) panel_loop \<Rightarrow>
   runtime_tick_options \<times> ('p, 'x, 'k, 'l, 's) panel_loop" where
  "collect_metrics env options s =
     (let base = [(''user_delta'', status_value (pl_metrics s)),
            (''user_sync'', user_sync_snapshot_status_value (rn_digest (le_runner env)) (pl_sync s))];
          (r, s1) = on_report (keli_core_rs_metrics_snapshot (le_runner env) (pl_plan s)) s;
          (entries, s2) =
            (case r of
               Inr (Some core_metrics) \<Rightarrow> ([(''keli_core_rs'', core_metrics)], log_relay_metrics (ce_now (le_control env)) core_metrics s1)
             | Inr None \<Rightarrow> ([], s1)
             | Inl e \<Rightarrow> ([(''keli_core_rs_error'', json_obj [(''message'', JString e)])], s1))
      in (options\<lparr>to_control := (to_control options)\<lparr>rco_health := (rco_health (to_control options))
            \<lparr>hri_metrics := Some (json_obj (base @ entries))\<rparr>\<rparr>\<rparr>, s2))"

section \<open>Reports that do not stop the loop\<close>

definition nonfatal_panel_status_report ::
  "runtime_panel_action result \<Rightarrow> ('p, 'x, 'k, 'l, 's) panel_loop \<Rightarrow> runtime_panel_action \<times> ('p, 'x, 'k, 'l, 's) panel_loop" where
  "nonfatal_panel_status_report r s =
     (case r of
        Inr act \<Rightarrow> (act, s)
      | Inl e \<Rightarrow> (panel_action_default, say LogWarn ''panel'' (''machine status report failed; keeping runtime alive error='' @ e) s))"

definition nonfatal_keli_core_activity_report ::
  "activity_batch result \<Rightarrow> ('p, 'x, 'k, 'l, 's) panel_loop \<Rightarrow> ('p, 'x, 'k, 'l, 's) panel_loop" where
  "nonfatal_keli_core_activity_report r s =
     (case r of Inr _ \<Rightarrow> s | Inl e \<Rightarrow> say LogWarn ''panel'' (''traffic report failed; keeping runtime alive error='' @ e) s)"

definition nonfatal_keli_core_device_limit_snapshot ::
  "nat result \<Rightarrow> ('p, 'x, 'k, 'l, 's) panel_loop \<Rightarrow> ('p, 'x, 'k, 'l, 's) panel_loop" where
  "nonfatal_keli_core_device_limit_snapshot r s =
     (case r of Inr _ \<Rightarrow> s | Inl e \<Rightarrow> say LogWarn ''core'' (''device limit alive refresh failed; keeping runtime alive error='' @ e) s)"

section \<open>One tick\<close>

definition restart_users ::
  "('p, 'x, 'k, 'l, 's, 'u) loop_env \<Rightarrow> runtime_control_options \<Rightarrow> ('p, 'x, 'k, 'l, 's) panel_loop \<Rightarrow>
   unit result \<times> ('p, 'x, 'k, 'l, 's) panel_loop" where
  "restart_users env options s =
     (if \<not> rco_start_core options then (Ok (), s)
      else io_then (on_world (ensure_keli_core_rs_restart_uses_latest_users (le_control env) (le_urls env) (pl_sync s)
            (rco_core_command options) (pl_plan s)) s) (\<lambda>rebuilt s.
          (Ok (), case rebuilt of
             Some plan \<Rightarrow> s\<lparr>pl_plan := plan, pl_lookup := runtime_user_id_lookup_from_plan plan\<rparr>
           | None \<Rightarrow> s)))"

definition apply_tick ::
  "('p, 'x, 'k, 'l, 's, 'u) loop_env \<Rightarrow> runtime_tick_options \<Rightarrow> ('p, 'x, 'k, 'l, 's) panel_loop \<Rightarrow>
   runtime_tick_result result \<times> ('p, 'x, 'k, 'l, 's) panel_loop" where
  "apply_tick env options s =
     (case run_runtime_tick (le_control env) (le_urls env) (le_status env) None (options\<lparr>to_report_to_panel := False\<rparr>) (pl_plan s)
          (pl_world s, pl_panel s) of
        (r, w, l) \<Rightarrow> (r, s\<lparr>pl_world := w, pl_panel := l\<rparr>))"

definition establish_baseline ::
  "('p, 'x, 'k, 'l, 's, 'u) loop_env \<Rightarrow> string list \<Rightarrow> ('p, 'x, 'k, 'l, 's) panel_loop \<Rightarrow> ('p, 'x, 'k, 'l, 's) panel_loop" where
  "establish_baseline env tags s =
     (if tags = [] then s
      else (case on_report (try_establish_keli_core_rs_revision_baseline (le_runner env) (pl_plan s) (pl_sync s) tags) s of
              (applied, s1) \<Rightarrow> if applied > 0 then s1\<lparr>pl_metrics := record_revision_baseline applied (pl_metrics s1)\<rparr> else s1))"

definition report_tick ::
  "('p, 'x, 'k, 'l, 's, 'u) loop_env \<Rightarrow> runtime_apply_result \<Rightarrow> ('p, 'x, 'k, 'l, 's) panel_loop \<Rightarrow>
   runtime_loop_signal \<times> ('p, 'x, 'k, 'l, 's) panel_loop" where
  "report_tick env applied s =
     (let (r, l) = report_runtime_apply_result_to_panels (le_status env) (pl_clients s) applied (pl_panel s);
          (act, s1) = nonfatal_panel_status_report r (s\<lparr>pl_panel := l\<rparr>);
          (batch, s2) = on_report (report_keli_core_activity_to_panel_with_user_lookup (le_report env) (pl_plan s1) (pl_lookup s1)) s1
      in (runtime_loop_signal_of act, nonfatal_keli_core_activity_report batch s2))"

definition finish_tick ::
  "('p, 'x, 'k, 'l, 's, 'u) loop_env \<Rightarrow> runtime_tick_options \<Rightarrow> string list \<Rightarrow> ('p, 'x, 'k, 'l, 's) panel_loop \<Rightarrow>
   runtime_loop_signal result \<times> ('p, 'x, 'k, 'l, 's) panel_loop" where
  "finish_tick env options tags s =
     (if to_report_to_panel options \<and> pl_clients s = []
      then (Err ''runtime tick requested panel report without panel client'', s)
      else io_then (apply_tick env options s) (\<lambda>result s.
        let (r, s1) = on_report (refresh_keli_core_device_limit_snapshots (le_report env) (pl_plan s)) (establish_baseline env tags s);
            s2 = nonfatal_keli_core_device_limit_snapshot r s1
        in if to_report_to_panel options
           then (case report_tick env (tr_apply result) s2 of (signal, s3) \<Rightarrow> (Ok signal, s3))
           else (Ok (tr_signal result), s2)))"

definition panel_run_tick ::
  "('p, 'x, 'k, 'l, 's, 'u) loop_env \<Rightarrow> runtime_tick_options \<Rightarrow> ('p, 'x, 'k, 'l, 's) panel_loop \<Rightarrow>
   runtime_loop_signal result \<times> ('p, 'x, 'k, 'l, 's) panel_loop" where
  "panel_run_tick env options s =
     io_then (apply_user_changes env options s) (\<lambda>step s.
       case step of
         Finished signal \<Rightarrow> (Ok signal, s)
       | Proceed options tags \<Rightarrow>
           (case refresh_health env options s of (options1, s1) \<Rightarrow>
             (case collect_metrics env options1 s1 of (options2, s2) \<Rightarrow>
               io_then (restart_users env (to_control options2) s2) (\<lambda>_ s3. finish_tick env options2 tags s3))))"

definition panel_callbacks ::
  "('p, 'x, 'k, 'l, 's, 'u) loop_env \<Rightarrow> (nat \<Rightarrow> ('p, 'x, 'k, 'l, 's) panel_loop \<Rightarrow> unit result \<times> ('p, 'x, 'k, 'l, 's) panel_loop) \<Rightarrow>
   ('p, 'x, 'k, 'l, 's) panel_loop loop_callbacks" where
  "panel_callbacks env sleep = \<lparr>cb_refresh_users = panel_refresh_users env, cb_run_tick = panel_run_tick env, cb_sleep = sleep\<rparr>"

section \<open>What a tick returns\<close>

lemma loop_env_convs:
  "le_control (env\<lparr>le_status := status, le_report := report\<rparr>) = le_control env"
  "le_runner (env\<lparr>le_status := status, le_report := report\<rparr>) = le_runner env"
  "le_urls (env\<lparr>le_status := status, le_report := report\<rparr>) = le_urls env"
  "le_sample (env\<lparr>le_status := status, le_report := report\<rparr>) = le_sample env"
  by simp_all

lemma users_rebuilt_with_reporters: "users_rebuilt (env\<lparr>le_status := status, le_report := report\<rparr>) = users_rebuilt env"
  by (unfold users_rebuilt_def loop_env_convs) (rule refl)

lemma user_delta_outcome_with_reporters:
  "user_delta_outcome (env\<lparr>le_status := status, le_report := report\<rparr>) = user_delta_outcome env"
  by (unfold user_delta_outcome_def loop_env_convs) (rule refl)

lemma apply_user_changes_with_reporters:
  "apply_user_changes (env\<lparr>le_status := status, le_report := report\<rparr>) = apply_user_changes env"
  by (unfold apply_user_changes_def users_rebuilt_with_reporters user_delta_outcome_with_reporters loop_env_convs) (rule refl)

lemma refresh_health_with_reporters: "refresh_health (env\<lparr>le_status := status, le_report := report\<rparr>) = refresh_health env"
  by (unfold refresh_health_def loop_env_convs) (rule refl)

lemma collect_metrics_with_reporters: "collect_metrics (env\<lparr>le_status := status, le_report := report\<rparr>) = collect_metrics env"
  by (unfold collect_metrics_def loop_env_convs) (rule refl)

lemma restart_users_with_reporters: "restart_users (env\<lparr>le_status := status, le_report := report\<rparr>) = restart_users env"
  by (unfold restart_users_def loop_env_convs) (rule refl)

lemma quiet_tick: "(if \<not> to_report_to_panel (options\<lparr>to_report_to_panel := False\<rparr>) then a else b) = a"
  by simp

lemma apply_tick_with_reporters: "apply_tick (env\<lparr>le_status := status, le_report := report\<rparr>) = apply_tick env"
  by (unfold apply_tick_def run_runtime_tick_def quiet_tick loop_env_convs) (rule refl)

lemma apply_tick_signal: "fst (apply_tick env options s) = Inr result \<Longrightarrow> tr_signal result = Continue"
  by (auto simp: apply_tick_def run_runtime_tick_def panel_action_default_def split: prod.splits sum.splits if_splits)

lemma report_tick_signal:
  "fst (report_tick env applied s) =
     panels_signal (accepted (answers (le_status env) (ra_machine_status applied) (pl_clients s) (pl_panel s)))"
proof -
  obtain r l where r: "report_runtime_apply_result_to_panels (le_status env) (pl_clients s) applied (pl_panel s) = (r, l)"
    by (rule prod.exhaust)
  have "fst (report_tick env applied s) = runtime_loop_signal_of (case r of Inl _ \<Rightarrow> panel_action_default | Inr act \<Rightarrow> act)"
    by (cases r) (simp_all add: report_tick_def r nonfatal_panel_status_report_def Let_def split: prod.split)
  then show ?thesis
    using report_to_panels_signal [of "pl_clients s" "le_status env" applied "pl_panel s"]
    by (cases r) (simp_all add: r panels_signal_def panel_action_default_def)
qed

lemma clients_kept [simp]:
  "pl_clients (snd (on_report f s)) = pl_clients s"
  "pl_clients (snd (on_world g s)) = pl_clients s"
  "pl_clients (say level component message s) = pl_clients s"
  "pl_clients (nonfatal_keli_core_device_limit_snapshot r s) = pl_clients s"
  "pl_clients (snd (apply_tick env options s)) = pl_clients s"
  by (simp_all add: on_report_def on_world_def say_def nonfatal_keli_core_device_limit_snapshot_def apply_tick_def split: prod.split sum.split)

lemma clients_of_step:
  "on_report f s = (x, s') \<Longrightarrow> pl_clients s' = pl_clients s"
  "on_world g s = (y, s') \<Longrightarrow> pl_clients s' = pl_clients s"
  "apply_tick env options s = (z, s') \<Longrightarrow> pl_clients s' = pl_clients s"
  using clients_kept(1) [of f s] clients_kept(2) [of g s] clients_kept(5) [of env options s] by simp_all

lemma baseline_keeps_clients [simp]: "pl_clients (establish_baseline env tags s) = pl_clients s"
  by (auto simp: establish_baseline_def split: prod.split dest: clients_of_step)

text \<open>A result without its value: whether it is an error, and which.\<close>

abbreviation verdict :: "'a result \<Rightarrow> unit result" where
  "verdict r \<equiv> map_ok (\<lambda>_. ()) r"

lemma verdict_io_then:
  assumes "\<And>a s. verdict (fst (k a s)) = verdict (fst (k' a s))"
  shows "verdict (fst (io_then r k)) = verdict (fst (io_then r k'))"
  using assms by (cases "(r, k)" rule: io_then.cases) auto

lemma finish_tick_verdict:
  "verdict (fst (finish_tick env options tags s)) =
     (if to_report_to_panel options \<and> pl_clients s = [] then Err ''runtime tick requested panel report without panel client''
      else verdict (fst (apply_tick env options s)))"
  by (cases "apply_tick env options s"; cases "fst (apply_tick env options s)")
     (simp_all add: finish_tick_def Let_def split: prod.split)

lemma finish_tick_signal:
  assumes "finish_tick env options tags s = (Inr signal, s')"
  shows "if to_report_to_panel options
     then pl_clients s \<noteq> [] \<and> (\<exists>status l. signal = panels_signal (accepted (answers (le_status env) status (pl_clients s) l)))
     else signal = Continue"
proof -
  obtain result s1 where t: "apply_tick env options s = (Inr result, s1)" and clients: "to_report_to_panel options \<Longrightarrow> pl_clients s \<noteq> []"
    using assms by (auto simp: finish_tick_def io_then_Inr split: if_splits)
  show ?thesis
  proof (cases "to_report_to_panel options")
    case True
    obtain r s2 where o: "on_report (refresh_keli_core_device_limit_snapshots (le_report env) (pl_plan s1)) (establish_baseline env tags s1) = (r, s2)"
      by (rule prod.exhaust)
    have "signal = fst (report_tick env (tr_apply result) (nonfatal_keli_core_device_limit_snapshot r s2))"
      using assms t True clients by (auto simp: finish_tick_def o split: prod.splits)
    then show ?thesis using True clients clients_of_step(1) [OF o] clients_of_step(3) [OF t] by (auto simp: report_tick_signal)
  next
    case False
    then show ?thesis using assms t apply_tick_signal [of env options s result] by (auto simp: finish_tick_def Let_def split: prod.splits)
  qed
qed

text \<open>
  C10: No answer of a panel and no failure to report stops the loop: a tick fails or succeeds as it would with any other
  way to report the status and the activity, and with the same error.
\<close>

theorem tick_survives_reports:
  "map_ok (\<lambda>_. ()) (fst (panel_run_tick (env\<lparr>le_status := status, le_report := report\<rparr>) options s)) =
     map_ok (\<lambda>_. ()) (fst (panel_run_tick env options s))"
  unfolding panel_run_tick_def apply_user_changes_with_reporters refresh_health_with_reporters collect_metrics_with_reporters
    restart_users_with_reporters
  by (rule verdict_io_then)
     (auto split: tick_step.split prod.split intro!: verdict_io_then simp: finish_tick_verdict apply_tick_with_reporters)

text \<open>The steps before the tick keep the panels and whether to report.\<close>

lemma changes_keep:
  assumes "apply_user_changes env options s = (Inr step, s')"
  shows "pl_clients s' = pl_clients s \<and>
    (case step of Finished signal \<Rightarrow> signal = Continue \<and> \<not> to_report_to_panel options
     | Proceed options' _ \<Rightarrow> to_report_to_panel options' = to_report_to_panel options)"
proof (cases "to_users options = []")
  case True
  then show ?thesis using assms by (auto simp: apply_user_changes_def)
next
  case False
  then obtain running s1 where r: "on_world (keli_core_rs_process_is_running (le_control env) (pl_plan s) (rco_core_command (to_control options))) s =
      (Inr running, s1)"
    using assms by (auto simp: apply_user_changes_def io_then_Inr)
  obtain outcome s2 where o: "user_delta_outcome env running (to_users options) s1 = (outcome, s2)" by (rule prod.exhaust)
  have clients: "pl_clients s2 = pl_clients s"
    using o clients_of_step(2) [OF r] by (auto simp: user_delta_outcome_def split: prod.splits if_splits dest: clients_of_step)
  show ?thesis
    using assms False r o clients
    by (cases outcome)
       (auto simp: apply_user_changes_def users_applied_def users_deferred_def users_rebuilt_def Let_def split: if_splits sum.splits)
qed

lemma refresh_health_keeps:
  "refresh_health env options s = (options', s') \<Longrightarrow>
     pl_clients s' = pl_clients s \<and> to_report_to_panel options' = to_report_to_panel options"
  by (auto simp: refresh_health_def refresh_runtime_health_def refresh_subscription_proxy_health_def Let_def
      split: prod.splits if_splits option.splits)

lemma log_relay_metrics_keeps [simp]: "pl_clients (log_relay_metrics now metrics s) = pl_clients s"
  by (simp add: log_relay_metrics_def split: option.split prod.split bool.split)

lemma collect_metrics_keeps:
  "collect_metrics env options s = (options', s') \<Longrightarrow>
     pl_clients s' = pl_clients s \<and> to_report_to_panel options' = to_report_to_panel options"
  by (auto simp: collect_metrics_def Let_def split: prod.splits sum.splits option.splits dest: clients_of_step)

lemma restart_users_keeps: "restart_users env options s = (r, s') \<Longrightarrow> pl_clients s' = pl_clients s"
proof (cases "rco_start_core options")
  case True
  define f where "f = ensure_keli_core_rs_restart_uses_latest_users (le_control env) (le_urls env) (pl_sync s) (rco_core_command options) (pl_plan s)"
  obtain rebuilt s1 where o: "on_world f s = (rebuilt, s1)" by (rule prod.exhaust)
  assume "restart_users env options s = (r, s')"
  then show ?thesis using True o clients_of_step(2) [OF o] by (cases rebuilt) (auto simp: restart_users_def f_def split: option.splits)
qed (simp add: restart_users_def)

lemma report_tick_keeps: "report_tick env applied s = (signal, s') \<Longrightarrow> pl_clients s' = pl_clients s"
  by (auto simp: report_tick_def nonfatal_panel_status_report_def nonfatal_keli_core_activity_report_def Let_def
      split: prod.splits sum.splits dest!: clients_of_step)

lemma finish_tick_keeps:
  assumes "finish_tick env options tags s = (Inr signal, s')"
  shows "pl_clients s' = pl_clients s"
proof -
  obtain result s1 where t: "apply_tick env options s = (Inr result, s1)" and c: "\<not> (to_report_to_panel options \<and> pl_clients s = [])"
    using assms by (auto simp: finish_tick_def io_then_Inr split: if_splits)
  obtain r s2 where o: "on_report (refresh_keli_core_device_limit_snapshots (le_report env) (pl_plan s1)) (establish_baseline env tags s1) = (r, s2)"
    by (rule prod.exhaust)
  obtain signal' s3 where q: "report_tick env (tr_apply result) (nonfatal_keli_core_device_limit_snapshot r s2) = (signal', s3)"
    by (rule prod.exhaust)
  have "s' = (if to_report_to_panel options then s3 else nonfatal_keli_core_device_limit_snapshot r s2)"
    using assms c by (auto simp: finish_tick_def t o q Let_def split: if_splits)
  then show ?thesis using report_tick_keeps [OF q] clients_of_step(1) [OF o] clients_of_step(3) [OF t] by simp
qed

text \<open>What a tick that returns says and keeps.\<close>

lemma run_tick_signal:
  assumes "panel_run_tick env options s = (Inr signal, s')"
  shows "pl_clients s' = pl_clients s \<and> (if to_report_to_panel options
     then pl_clients s \<noteq> [] \<and> (\<exists>status l. signal = panels_signal (accepted (answers (le_status env) status (pl_clients s) l)))
     else signal = Continue)"
proof -
  obtain step s1 where a: "apply_user_changes env options s = (Inr step, s1)"
    and k: "(case step of Finished signal \<Rightarrow> (Ok signal, s1)
       | Proceed options tags \<Rightarrow>
           (case refresh_health env options s1 of (options1, s1) \<Rightarrow>
             (case collect_metrics env options1 s1 of (options2, s2) \<Rightarrow>
               io_then (restart_users env (to_control options2) s2) (\<lambda>_ s3. finish_tick env options2 tags s3)))) = (Inr signal, s')"
    using assms by (auto simp: panel_run_tick_def io_then_Inr)
  show ?thesis
  proof (cases step)
    case (Finished sig)
    then show ?thesis using changes_keep [OF a] k by auto
  next
    case (Proceed options0 tags)
    obtain options1 s2 options2 s3 s4 u where "refresh_health env options0 s1 = (options1, s2)" "collect_metrics env options1 s2 = (options2, s3)"
      "restart_users env (to_control options2) s3 = (Inr u, s4)" and fin: "finish_tick env options2 tags s4 = (Inr signal, s')"
      using k Proceed by (auto simp: io_then_Inr split: prod.splits)
    note steps = refresh_health_keeps [OF this(1)] collect_metrics_keeps [OF this(2)] restart_users_keeps [OF this(3)] finish_tick_signal [OF fin]
    have "pl_clients s4 = pl_clients s" "to_report_to_panel options2 = to_report_to_panel options"
      using steps changes_keep [OF a] Proceed by simp_all
    then show ?thesis using steps(4) finish_tick_keeps [OF fin] by (cases "to_report_to_panel options") simp_all
  qed
qed

text \<open>
  C9: A tick that returns tells the loop what the panels it reported to have answered: to upgrade when one of those that
  answered sends an upgrade, else to reload when one of them asks for it, else to go on, also when none of them
  answered. A tick that does not report only goes on, and one that reports has panels to report to.
\<close>

theorem tick_follows_panels:
  assumes "panel_run_tick env options s = (Inr signal, s')"
  shows "if to_report_to_panel options
     then pl_clients s \<noteq> [] \<and> (\<exists>status l. signal = panels_signal (accepted (answers (le_status env) status (pl_clients s) l)))
     else signal = Continue"
  using run_tick_signal [OF assms] by (rule conjunct2)

section \<open>The loop over the panels\<close>

text \<open>An upgrade is allowed when one of the panels has sent it in an answer to a report.\<close>

definition sent_by_panel :: "'l status_reporter \<Rightarrow> client_options list \<Rightarrow> runtime_loop_signal \<Rightarrow> bool" where
  "sent_by_panel report clients signal \<longleftrightarrow>
     (case signal of
        UpgradeSignal cmd \<Rightarrow> \<exists>client \<in> set clients. \<exists>payload l response l'.
          report client payload l = (Inr response, l') \<and> ms_upgrade response = Some cmd
      | _ \<Rightarrow> True)"

lemma answered:
  "Inr response \<in> set (answers report payload clients l) \<Longrightarrow>
     \<exists>client \<in> set clients. \<exists>payload l l'. report client payload l = (Inr response, l')"
proof (induction clients arbitrary: l)
  case (Cons client clients)
  then show ?case by (cases "report client (machine_status_payload_for_client payload client) l") auto
qed simp

lemma accepted_answer: "response \<in> set (accepted rs) \<longleftrightarrow> Inr response \<in> set rs"
  by (auto simp: List.map_filter_def split: sum.splits)

lemma panels_signal_sent: "sent_by_panel report clients (panels_signal (accepted (answers report payload clients l)))"
proof (cases "find (\<lambda>response. ms_upgrade response \<noteq> None) (accepted (answers report payload clients l))")
  case (Some response)
  then have "response \<in> set (accepted (answers report payload clients l))" "ms_upgrade response \<noteq> None"
    by (auto simp: find_Some_iff)
  then show ?thesis using answered Some by (fastforce simp: panels_signal_def sent_by_panel_def accepted_answer)
qed (simp add: panels_signal_def sent_by_panel_def)

interpretation panel_client: loop_client "panel_callbacks env (\<lambda>_ s. (Ok (), s))" "\<lambda>s. pl_clients s = clients"
    "sent_by_panel (le_status env) clients" for env clients
proof
  show "pl_clients c' = clients"
    if "cb_refresh_users (panel_callbacks env (\<lambda>_ s. (Ok (), s))) c = (Inr users, c')" "pl_clients c = clients" for c users c'
    using that by (auto simp: panel_callbacks_def panel_refresh_users_def split: prod.splits dest: clients_of_step)
  show "pl_clients c' = clients \<and> (signal = Continue \<or> sent_by_panel (le_status env) clients signal)"
    if "cb_run_tick (panel_callbacks env (\<lambda>_ s. (Ok (), s))) options c = (Inr signal, c')" "pl_clients c = clients" for c options signal c'
    using that run_tick_signal [of env options c signal c']
    by (auto simp: panel_callbacks_def panels_signal_sent split: if_splits)
  show "pl_clients c' = clients"
    if "cb_sleep (panel_callbacks env (\<lambda>_ s. (Ok (), s))) d c = (Inr u, c')" "pl_clients c = clients" for c d u c'
    using that by (simp add: panel_callbacks_def)
  show "sent_by_panel (le_status env) clients Reload" by (simp add: sent_by_panel_def)
qed

section \<open>Witnesses\<close>

text \<open>A loop with one panel and what it answers, on a plan with no core.\<close>

definition sample_panel_env :: "machine_status_response \<Rightarrow> (supervisor, unit, unit, unit, unit, unit) loop_env" where
  "sample_panel_env response =
     \<lparr>le_control = sample_control_env, le_runner = sample_runner_env (Ok sample_delta), le_report = sample_env,
      le_status = (\<lambda>client payload l. (Ok response, l)),
      le_urls = \<lparr>url_parse = (\<lambda>_. Err ''relative URL''), url_scheme = (\<lambda>_. []), url_set_scheme = (\<lambda>_ u. u), url_set_path = (\<lambda>_ u. u),
        url_clear_query = (\<lambda>u. u), url_clear_fragment = (\<lambda>u. u), url_append_pair = (\<lambda>_ _ u. u), url_to_string = (\<lambda>_. [])\<rparr>,
      le_sample = (\<lambda>probe s. (hri_resources sample_health, s))\<rparr>"

definition sample_panel_loop :: "(supervisor, unit, unit, unit, unit) panel_loop" where
  "sample_panel_loop = panel_loop_new (sample_runtime_plan None) (Some \<lparr>co_api_host = ''https://p'', co_machine_id = 1\<rparr>) () sample_control_world ()"

definition sample_tick_options :: runtime_tick_options where
  "sample_tick_options = \<lparr>to_control = sample_options\<lparr>rco_start_core := False\<rparr>, to_report_to_panel = True, to_users = []\<rparr>"

lemma apply_without_core:
  assumes "rbp_core_plan plan = None" and "\<not> rco_start_core options"
  shows "\<exists>applied w'. apply_runtime_plan env options plan w = (Inr applied, w')"
  using assms by (simp add: apply_runtime_plan_def select_core_plan_def apply_core_def Let_def split: prod.split)

lemma tick_without_core:
  assumes "rbp_core_plan (pl_plan s) = None" and "\<not> rco_start_core (to_control options)" and "to_users options = []"
  shows "verdict (fst (apply_tick env options s)) = Ok ()"
  using assms(3) apply_without_core [OF assms(1,2), of "le_control env" "pl_world s"]
  by (auto simp: apply_tick_def run_runtime_tick_def)

lemma sample_tick_ok: "verdict (fst (panel_run_tick (sample_panel_env response) sample_tick_options sample_panel_loop)) = Ok ()"
proof -
  obtain options2 s2 where m: "collect_metrics (sample_panel_env response) sample_tick_options sample_panel_loop = (options2, s2)" by (rule prod.exhaust)
  have c: "pl_clients s2 \<noteq> []" "rbp_core_plan (pl_plan s2) = None" "\<not> rco_start_core (to_control options2)" "to_users options2 = []"
    using m by (auto simp: collect_metrics_def Let_def sample_panel_loop_def panel_loop_new_def sample_tick_options_def sample_runtime_plan_def
        log_relay_metrics_def say_def on_report_def split: prod.splits sum.splits option.splits if_splits bool.splits)
  have "refresh_health (sample_panel_env response) sample_tick_options sample_panel_loop = (sample_tick_options, sample_panel_loop)"
    by (simp add: refresh_health_def sample_panel_loop_def panel_loop_new_def)
  moreover have "apply_user_changes (sample_panel_env response) sample_tick_options sample_panel_loop = (Ok (Proceed sample_tick_options []), sample_panel_loop)"
    by (simp add: apply_user_changes_def sample_tick_options_def)
  moreover have "restart_users (sample_panel_env response) (to_control options2) s2 = (Ok (), s2)" using c(3) by (simp add: restart_users_def)
  ultimately show ?thesis using c m by (simp add: panel_run_tick_def finish_tick_verdict tick_without_core)
qed

lemma sample_tick_signal:
  "\<exists>s'. panel_run_tick (sample_panel_env response) sample_tick_options sample_panel_loop = (Inr (panels_signal [response]), s')"
proof -
  obtain signal s' where r: "panel_run_tick (sample_panel_env response) sample_tick_options sample_panel_loop = (Inr signal, s')"
    using sample_tick_ok [of response]
    by (cases "panel_run_tick (sample_panel_env response) sample_tick_options sample_panel_loop";
        cases "fst (panel_run_tick (sample_panel_env response) sample_tick_options sample_panel_loop)") auto
  have "to_report_to_panel sample_tick_options" by (simp add: sample_tick_options_def)
  with run_tick_signal [OF r] obtain status l
    where "signal = panels_signal (accepted (answers (le_status (sample_panel_env response)) status (pl_clients sample_panel_loop) l))" by auto
  then have "signal = panels_signal [response]"
    by (simp add: sample_panel_env_def sample_panel_loop_def panel_loop_new_def List.map_filter_simps)
  then show ?thesis using r by blast
qed

theorem tick_follows_panels_witness:
  "\<exists>signal s'. panel_run_tick (sample_panel_env \<lparr>ms_reload = True, ms_upgrade = None\<rparr>) sample_tick_options sample_panel_loop = (Inr signal, s') \<and>
     signal = Reload"
proof -
  let ?env = "sample_panel_env \<lparr>ms_reload = True, ms_upgrade = None\<rparr>"
  obtain signal s' where r: "panel_run_tick ?env sample_tick_options sample_panel_loop = (Inr signal, s')"
    using sample_tick_signal by blast
  have "to_report_to_panel sample_tick_options" by (simp add: sample_tick_options_def)
  with tick_follows_panels [OF r] obtain status l
    where "signal = panels_signal (accepted (answers (le_status ?env) status (pl_clients sample_panel_loop) l))" by auto
  then have "signal = Reload"
    by (simp add: sample_panel_env_def sample_panel_loop_def panel_loop_new_def panels_signal_def List.map_filter_simps)
  then show ?thesis using r by blast
qed

end
