(* ===== verification/Proxy_Http.thy ===== *)
theory Proxy_Http
  imports Core_Routes Files Ip_Addr
begin

text \<open>
  The HTTP side of the subscription proxy (\<open>src/src/subscription_proxy.rs\<close>): reading and parsing a
  request, routing it, the upstream request it becomes, the upstream response and its rendering. A connection
  is the sequence of what its reads deliver; fetching from upstream is an argument.
\<close>

section \<open>Requests and responses\<close>

definition DEFAULT_CHALLENGE_DIR :: string where
  "DEFAULT_CHALLENGE_DIR = ''/etc/kelinode/subproxy/challenges''"

definition DEFAULT_MAX_RESPONSE_BYTES :: u64 where
  "DEFAULT_MAX_RESPONSE_BYTES = 10 * 1024 * 1024"

definition DEFAULT_MAX_REQUEST_BODY_BYTES :: nat where
  "DEFAULT_MAX_REQUEST_BODY_BYTES = 10 * 1024 * 1024"

type_synonym header_map = "(string, string) btmap"

record proxy_request =
  rq_method :: string
  rq_path :: string
  rq_raw_query :: string
  rq_host :: string
  rq_remote_addr :: string
  rq_headers :: header_map
  rq_body :: string

record rewrite_context =
  rc_upstream_base_url :: string
  rc_proxy_path_prefix :: string

record upstream_request =
  uq_method :: string
  uq_url :: string
  uq_headers :: header_map
  uq_body :: string
  uq_head_only :: bool
  uq_follow_redirects :: bool
  uq_response_rewrite :: "rewrite_context option"

record upstream_response =
  up_status :: u16
  up_headers :: header_map
  up_set_cookie :: "string list"
  up_body :: string
  up_content_length :: "u64 option"

record client_response =
  cr_status :: u16
  cr_headers :: header_map
  cr_set_cookie :: "string list"
  cr_body :: string

datatype proxy_route = HealthRoute | ChallengeFile string | Upstream upstream_request

datatype route_error = RouteNotFound | MethodNotAllowed | BadGateway string

fun route_status_code :: "route_error \<Rightarrow> u16" where
  "route_status_code RouteNotFound = 404"
| "route_status_code MethodNotAllowed = 405"
| "route_status_code (BadGateway _) = 502"

section \<open>Text\<close>

abbreviation crlf :: string where
  "crlf \<equiv> [CHR 0x0D, CHR 0x0A]"

definition proxy_first_non_empty :: "string \<Rightarrow> string \<Rightarrow> string" where
  "proxy_first_non_empty value fallback = (if value = [] then fallback else value)"

definition trim_subscription_path :: "string \<Rightarrow> string" where
  "trim_subscription_path value = trim_matches is_slash (trim value)"

text \<open>\<open>str::split\<close> at a string and \<open>str::split_whitespace\<close>.\<close>

lemma split_once_str_length: "split_once_str pat s = Some (a, b) \<Longrightarrow> pat \<noteq> [] \<Longrightarrow> length b < length s"
proof (induction s arbitrary: a)
  case (Cons c s)
  then show ?case by (cases pat) (fastforce split: if_splits)+
qed simp

function split_str :: "string \<Rightarrow> string \<Rightarrow> string list" where
  "split_str pat s =
     (if pat = [] then [s] else case split_once_str pat s of None \<Rightarrow> [s] | Some (a, b) \<Rightarrow> a # split_str pat b)"
  by pat_completeness auto
termination
  by (relation "measure (\<lambda>(pat, s). length s)") (auto dest: split_once_str_length)

declare split_str.simps [simp del]

fun take_word :: "string \<Rightarrow> string \<times> string" where
  "take_word [] = ([], [])"
| "take_word (c # s) = (if 0 < ws_len (c # s) then ([], c # s) else case take_word s of (w, r) \<Rightarrow> (c # w, r))"

text \<open>The next part of \<open>split_whitespace\<close> and what is left.\<close>

definition next_word :: "string \<Rightarrow> (string \<times> string) option" where
  "next_word s = (if trim_start s = [] then None else Some (take_word (trim_start s)))"

fun str_contains :: "string \<Rightarrow> string \<Rightarrow> bool" where
  "str_contains pat [] \<longleftrightarrow> pat = []"
| "str_contains pat (c # s) \<longleftrightarrow> take (length pat) (c # s) = pat \<or> str_contains pat s"

section \<open>Parsing a request\<close>

fun http_header_end :: "string \<Rightarrow> nat option" where
  "http_header_end [] = None"
| "http_header_end (c # s) = (if take 4 (c # s) = crlf @ crlf then Some 0 else map_option Suc (http_header_end s))"

definition ok_or :: "string \<Rightarrow> 'a option \<Rightarrow> 'a result" where
  "ok_or e v = (case v of Some x \<Rightarrow> Ok x | None \<Rightarrow> Err e)"

fun parse_header_lines :: "string list \<Rightarrow> header_map \<Rightarrow> header_map result" where
  "parse_header_lines [] headers = Ok headers"
| "parse_header_lines (line # lines) headers =
     (if trim line = [] then parse_header_lines lines headers
      else case split_once (CHR '':'') line of
        None \<Rightarrow> Err ''invalid http header''
      | Some (key, value) \<Rightarrow>
          if trim key = [] then Err ''invalid http header''
          else parse_header_lines lines (bt_insert (trim key) (trim value) headers))"

definition parse_request_line :: "string \<Rightarrow> (string \<times> string \<times> string) result" where
  "parse_request_line line =
     and_then (ok_or ''missing http method'' (next_word line)) (\<lambda>(method, rest1).
     and_then (ok_or ''missing http target'' (next_word rest1)) (\<lambda>(target, rest2).
     and_then (ok_or ''missing http version'' (next_word rest2)) (\<lambda>(version, _).
       if strip_prefix ''HTTP/'' version = None then Err ''invalid http version''
       else
         let (path, query) = (case split_once (CHR ''?'') target of Some pq \<Rightarrow> pq | None \<Rightarrow> (target, []))
         in if path = [] \<or> \<not> starts_with_slash path then Err ''invalid http path'' else Ok (method, path, query))))"

definition find_header :: "string \<Rightarrow> header_map \<Rightarrow> string option" where
  "find_header name headers = map_option snd (find (\<lambda>(key, _). eq_ignore_ascii_case key name) headers)"

definition parse_subscription_proxy_http_request :: "string \<Rightarrow> string \<Rightarrow> proxy_request result" where
  "parse_subscription_proxy_http_request raw remote_addr =
     (case http_header_end raw of
        None \<Rightarrow> Err ''incomplete http request''
      | Some header_end \<Rightarrow>
          let head = take header_end raw
          in if \<not> utf8_valid head then Err ''invalid utf-8 request''
             else case split_str crlf head of
               [] \<Rightarrow> Err ''missing http request line''
             | request_line # lines \<Rightarrow>
                 and_then (parse_request_line request_line) (\<lambda>(method, path, query).
                 map_ok (\<lambda>headers.
                     \<lparr>rq_method = method, rq_path = path, rq_raw_query = query, rq_host = unwrap_or [] (find_header ''host'' headers),
                      rq_remote_addr = remote_addr, rq_headers = headers, rq_body = drop (header_end + 4) raw\<rparr>)
                   (parse_header_lines lines [])))"

section \<open>Rendering a response\<close>

definition http_reason_phrase :: "u16 \<Rightarrow> string" where
  "http_reason_phrase status =
     (if status = 200 then ''OK'' else if status = 301 then ''Moved Permanently'' else if status = 302 then ''Found''
      else if status = 303 then ''See Other'' else if status = 307 then ''Temporary Redirect''
      else if status = 308 then ''Permanent Redirect'' else if status = 400 then ''Bad Request''
      else if status = 404 then ''Not Found'' else if status = 405 then ''Method Not Allowed''
      else if status = 502 then ''Bad Gateway'' else ''OK'')"

definition header_name_char :: "char \<Rightarrow> bool" where
  "header_name_char c \<longleftrightarrow> c \<in> set ''!#$%&*+-.^_`|~'' \<or> c = CHR 0x27 \<or> is_ascii_alphanumeric c"

definition valid_http_header_name :: "string \<Rightarrow> bool" where
  "valid_http_header_name value \<longleftrightarrow> value \<noteq> [] \<and> list_all header_name_char value"

definition valid_http_header_value :: "string \<Rightarrow> bool" where
  "valid_http_header_value value \<longleftrightarrow> \<not> list_ex (\<lambda>c. c = CHR 0x0D \<or> c = CHR 0x0A) value"

definition header_line :: "string \<Rightarrow> string \<Rightarrow> string" where
  "header_line key value = key @ '': '' @ value @ crlf"

definition render_subscription_proxy_http_response :: "client_response \<Rightarrow> string" where
  "render_subscription_proxy_http_response response =
     ''HTTP/1.1 '' @ nat_to_string (unat (cr_status response)) @ '' '' @ http_reason_phrase (cr_status response) @ crlf @
     ''Content-Length: '' @ nat_to_string (length (cr_body response)) @ crlf @
     ''Connection: close'' @ crlf @
     concat (map (\<lambda>(key, value). if valid_http_header_name key \<and> valid_http_header_value value then header_line key value else [])
       (cr_headers response)) @
     concat (map (\<lambda>value. if valid_http_header_value value then header_line ''Set-Cookie'' value else []) (cr_set_cookie response)) @
     crlf @ cr_body response"

abbreviation plain_text_headers :: header_map where
  "plain_text_headers \<equiv> [(''Content-Type'', ''text/plain; charset=utf-8'')]"

fun route_error_message :: "route_error \<Rightarrow> string" where
  "route_error_message RouteNotFound = ''not found''"
| "route_error_message MethodNotAllowed = ''method not allowed''"
| "route_error_message (BadGateway _) = ''bad gateway''"

definition subscription_proxy_error_response :: "route_error \<Rightarrow> client_response" where
  "subscription_proxy_error_response e =
     \<lparr>cr_status = route_status_code e, cr_headers = plain_text_headers, cr_set_cookie = [], cr_body = route_error_message e @ [CHR 0x0A]\<rparr>"

definition subscription_proxy_bad_request_response :: "string \<Rightarrow> client_response" where
  "subscription_proxy_bad_request_response e =
     \<lparr>cr_status = 400, cr_headers = plain_text_headers, cr_set_cookie = [], cr_body = e @ [CHR 0x0A]\<rparr>"

section \<open>Tokens\<close>

definition unreserved :: "char \<Rightarrow> bool" where
  "unreserved c \<longleftrightarrow> is_ascii_alphanumeric c \<or> c \<in> set ''-_.~''"

definition upper_hex :: "nat \<Rightarrow> char" where
  "upper_hex n = ''0123456789ABCDEF'' ! n"

definition percent_encode_path_segment :: "string \<Rightarrow> string" where
  "percent_encode_path_segment value =
     concat (map (\<lambda>c. if unreserved c then [c] else [CHR ''%'', upper_hex (char_code c div 16), upper_hex (char_code c mod 16)]) value)"

definition hex_value :: "char \<Rightarrow> nat option" where
  "hex_value c =
     (let n = char_code c
      in if 48 \<le> n \<and> n \<le> 57 then Some (n - 48)
         else if 97 \<le> n \<and> n \<le> 102 then Some (n - 97 + 10)
         else if 65 \<le> n \<and> n \<le> 70 then Some (n - 65 + 10)
         else None)"

fun percent_decode_loop :: "string \<Rightarrow> string result" where
  "percent_decode_loop [] = Ok []"
| "percent_decode_loop (c # s) =
     (if c = CHR ''%'' then
        (case s of
           hi # lo # rest \<Rightarrow>
             (case (hex_value hi, hex_value lo) of
                (Some h, Some l) \<Rightarrow> map_ok (\<lambda>out. char_of (16 * h + l) # out) (percent_decode_loop rest)
              | _ \<Rightarrow> Err ''invalid escaped token'')
         | _ \<Rightarrow> Err ''invalid escaped token'')
      else map_ok (\<lambda>out. c # out) (percent_decode_loop s))"

definition percent_decode_path_segment :: "string \<Rightarrow> string result" where
  "percent_decode_path_segment value =
     and_then (percent_decode_loop value) (\<lambda>out. if utf8_valid out then Ok out else Err ''invalid escaped token'')"

section \<open>Headers that are passed on\<close>

definition is_hop_by_hop_header :: "string \<Rightarrow> bool" where
  "is_hop_by_hop_header key \<longleftrightarrow>
     to_ascii_lowercase key \<in> {''connection'', ''keep-alive'', ''proxy-authenticate'', ''proxy-authorization'', ''te'', ''trailer'',
       ''transfer-encoding'', ''upgrade''}"

definition forwarded_headers :: "header_map \<Rightarrow> header_map" where
  "forwarded_headers source =
     filter (\<lambda>(key, _). \<not> is_hop_by_hop_header key \<and> \<not> eq_ignore_ascii_case key ''host'' \<and>
       \<not> eq_ignore_ascii_case key ''content-length'') source"

definition client_ip :: "string \<Rightarrow> string option" where
  "client_ip remote_addr =
     (let addr = trim remote_addr;
          plain = (if length (filter (\<lambda>c. c = CHR '':'') addr) = 1
                   then (case rsplit_once (CHR '':'') addr of
                           Some (host, port) \<Rightarrow> if host \<noteq> [] \<and> list_all is_ascii_digit port then host else addr
                         | None \<Rightarrow> addr)
                   else addr)
      in if addr = [] then None
         else case strip_prefix ''['' addr of
           Some rest \<Rightarrow> (case split_once (CHR '']'') rest of Some (host, _) \<Rightarrow> Some host | None \<Rightarrow> Some plain)
         | None \<Rightarrow> Some plain)"

definition append_forwarded_for :: "string \<Rightarrow> header_map \<Rightarrow> header_map" where
  "append_forwarded_for ip0 headers =
     (let ip = trim ip0;
          existing_key = unwrap_or ''X-Forwarded-For'' (find (\<lambda>key. eq_ignore_ascii_case key ''X-Forwarded-For'') (bt_keys headers));
          existing = unwrap_or [] (map_option trim (bt_get headers existing_key))
      in if ip = [] then headers
         else bt_insert existing_key (if existing = [] then ip else existing @ '', '' @ ip) headers)"

definition upstream_forwarded_headers :: "proxy_request \<Rightarrow> header_map" where
  "upstream_forwarded_headers request =
     (let h1 = forwarded_headers (rq_headers request);
          h2 = (if trim (rq_host request) \<noteq> [] then bt_insert ''X-Forwarded-Host'' (trim (rq_host request)) h1 else h1);
          h3 = bt_insert ''X-Forwarded-Proto'' ''https'' h2
      in case client_ip (rq_remote_addr request) of Some ip \<Rightarrow> append_forwarded_for ip h3 | None \<Rightarrow> h3)"

section \<open>Upstream addresses\<close>

definition is_valid_upstream_base_url :: "string \<Rightarrow> bool" where
  "is_valid_upstream_base_url value =
     (case or_else (strip_prefix ''https://'' value) (strip_prefix ''http://'' value) of
        None \<Rightarrow> False
      | Some after_scheme \<Rightarrow> (case split_on slash after_scheme of host # _ \<Rightarrow> trim host \<noteq> [] | [] \<Rightarrow> False))"

definition with_query :: "string \<Rightarrow> string \<Rightarrow> string" where
  "with_query url raw_query =
     (let query = trim_start_matches (\<lambda>c. c = CHR ''?'') raw_query in if query \<noteq> [] then url @ ''?'' @ query else url)"

definition build_subscription_upstream_url :: "subscription_proxy_profile \<Rightarrow> string \<Rightarrow> string \<Rightarrow> string result" where
  "build_subscription_upstream_url profile token raw_query =
     (let base = trim_trailing_slashes (trim (spp_upstream_base_url profile));
          subscribe_path = proxy_first_non_empty (trim_subscription_path (spp_subscribe_path profile)) ''s''
      in if \<not> is_valid_upstream_base_url base then Err ''invalid base url''
         else if trim token = [] then Err ''empty subscription token''
         else Ok (with_query (base @ ''/'' @ subscribe_path @ ''/'' @ percent_encode_path_segment (trim token)) raw_query))"

definition build_website_upstream_url :: "website_proxy_profile \<Rightarrow> string \<Rightarrow> string \<Rightarrow> string result" where
  "build_website_upstream_url profile upstream_path raw_query =
     (let base = trim_trailing_slashes (trim (wpp_upstream_base_url profile));
          path = (if trim upstream_path = [] then ''/'' else upstream_path);
          url = (if path = ''/'' then base @ ''/'' else base @ ''/'' @ trim_start_matches is_slash path)
      in if \<not> is_valid_upstream_base_url base then Err ''invalid base url'' else Ok (with_query url raw_query))"

definition is_allowed_website_proxy_method :: "string \<Rightarrow> bool" where
  "is_allowed_website_proxy_method method \<longleftrightarrow>
     method \<in> {''GET'', ''HEAD'', ''POST'', ''PUT'', ''PATCH'', ''DELETE'', ''OPTIONS''}"

definition website_proxy_path_matches :: "string \<Rightarrow> string \<Rightarrow> bool" where
  "website_proxy_path_matches pre request_path \<longleftrightarrow>
     pre = ''/'' \<or> request_path = pre \<or> (case strip_prefix pre request_path of Some rest \<Rightarrow> starts_with_slash rest | None \<Rightarrow> False)"

definition website_proxy_upstream_path :: "string \<Rightarrow> string \<Rightarrow> string" where
  "website_proxy_upstream_path pre request_path =
     (if pre = ''/'' then (if request_path = [] then ''/'' else request_path)
      else
        let stripped = unwrap_or request_path (strip_prefix pre request_path)
        in if stripped = [] then ''/'' else if starts_with_slash stripped then stripped else ''/'' @ stripped)"

text \<open>\<open>Iterator::max_by_key\<close>: the last element of the largest key.\<close>

fun last_max_by :: "('a \<Rightarrow> nat) \<Rightarrow> 'a list \<Rightarrow> 'a option" where
  "last_max_by key [] = None"
| "last_max_by key (x # xs) =
     (case last_max_by key xs of None \<Rightarrow> Some x | Some y \<Rightarrow> if key x \<le> key y then Some y else Some x)"

definition website_proxy_match ::
  "website_proxy_profile list \<Rightarrow> string \<Rightarrow> (website_proxy_profile \<times> string \<times> string) option" where
  "website_proxy_match profiles path =
     (let request_path = (if path = [] then ''/'' else path)
      in last_max_by (\<lambda>(_, pre, _). length pre)
           (List.map_filter (\<lambda>profile.
              let pre = normalize_proxy_path_prefix (wpp_path_prefix profile)
              in if website_proxy_path_matches pre request_path then Some (profile, pre, website_proxy_upstream_path pre request_path) else None)
            profiles))"

section \<open>Routing\<close>

abbreviation map_gateway :: "'a result \<Rightarrow> route_error + 'a" where
  "map_gateway r \<equiv> map_sum BadGateway (\<lambda>x. x) r"

definition plan_subscription_route :: "subscription_proxy_profile list \<Rightarrow> proxy_request \<Rightarrow> string \<Rightarrow> string \<Rightarrow> route_error + proxy_route" where
  "plan_subscription_route profiles request method rest =
     (if method \<noteq> ''GET'' \<and> method \<noteq> ''HEAD'' then Inl MethodNotAllowed
      else case split_once slash rest of
        None \<Rightarrow> Inl RouteNotFound
      | Some (site_id, token_part) \<Rightarrow>
          if trim site_id = [] \<or> trim token_part = [] then Inl RouteNotFound
          else case find (\<lambda>profile. eq_ignore_ascii_case (spp_site_id profile) site_id) profiles of
            None \<Rightarrow> Inl RouteNotFound
          | Some profile \<Rightarrow>
              and_then (map_gateway (percent_decode_path_segment token_part)) (\<lambda>token.
                if trim token = [] then Inl RouteNotFound
                else and_then (map_gateway (build_subscription_upstream_url profile token (rq_raw_query request))) (\<lambda>url.
                  Inr (Upstream \<lparr>uq_method = method, uq_url = url, uq_headers = upstream_forwarded_headers request, uq_body = [],
                    uq_head_only = eq_ignore_ascii_case (trim (rq_method request)) ''HEAD'', uq_follow_redirects = True,
                    uq_response_rewrite = None\<rparr>))))"

definition plan_website_route :: "website_proxy_profile list \<Rightarrow> proxy_request \<Rightarrow> string \<Rightarrow> route_error + proxy_route" where
  "plan_website_route website_profiles request method =
     (if \<not> is_allowed_website_proxy_method method then Inl MethodNotAllowed
      else case website_proxy_match website_profiles (rq_path request) of
        None \<Rightarrow> Inl RouteNotFound
      | Some (profile, path_prefix, upstream_path) \<Rightarrow>
          and_then (map_gateway (build_website_upstream_url profile upstream_path (rq_raw_query request))) (\<lambda>url.
            let head_only = (method = ''HEAD'')
            in Inr (Upstream \<lparr>uq_method = method, uq_url = url, uq_headers = upstream_forwarded_headers request,
                 uq_body = (if head_only then [] else rq_body request), uq_head_only = head_only, uq_follow_redirects = False,
                 uq_response_rewrite = Some \<lparr>rc_upstream_base_url = trim_trailing_slashes (trim (wpp_upstream_base_url profile)),
                   rc_proxy_path_prefix = path_prefix\<rparr>\<rparr>)))"

definition plan_subscription_proxy_request ::
  "subscription_proxy_profile list \<Rightarrow> website_proxy_profile list \<Rightarrow> proxy_request \<Rightarrow> route_error + proxy_route" where
  "plan_subscription_proxy_request profiles website_profiles request =
     (let method = to_ascii_uppercase (trim (rq_method request))
      in if rq_path request = ''/health''
         then if method \<noteq> ''GET'' \<and> method \<noteq> ''HEAD'' then Inl MethodNotAllowed else Inr HealthRoute
         else case strip_prefix ''/sub/'' (rq_path request) of
           Some rest \<Rightarrow> plan_subscription_route profiles request method rest
         | None \<Rightarrow> plan_website_route website_profiles request method)"

definition challenge_request_file_name :: "string \<Rightarrow> string option" where
  "challenge_request_file_name path =
     (let name = trim path
      in if name = [] \<or> slash \<in> set name \<or> str_contains ''..'' name \<or> CHR 0x5C \<in> set name then None else Some name)"

definition plan_subscription_proxy_http_request :: "subscription_proxy_config \<Rightarrow> proxy_request \<Rightarrow> route_error + proxy_route" where
  "plan_subscription_proxy_http_request config request =
     (let method = to_ascii_uppercase (trim (rq_method request))
      in if method \<noteq> ''GET'' \<and> method \<noteq> ''HEAD'' then Inl MethodNotAllowed
         else if rq_path request = ''/health'' then Inr HealthRoute
         else case Option.bind (strip_prefix ''/.well-known/pki-validation/'' (rq_path request)) challenge_request_file_name of
           None \<Rightarrow> Inl RouteNotFound
         | Some name \<Rightarrow>
             Inr (ChallengeFile (join_posix_path (proxy_first_non_empty (trim (sp_challenge_dir config)) DEFAULT_CHALLENGE_DIR) name)))"

section \<open>Responses of the upstream\<close>

definition prefixed_proxy_path :: "string \<Rightarrow> string \<Rightarrow> string" where
  "prefixed_proxy_path pre path0 =
     (let path = (if trim path0 = [] then ''/'' else path0)
      in if strip_prefix ''?'' path \<noteq> None then (if pre = ''/'' then ''/'' @ path else pre @ path)
         else if pre = ''/'' then (if starts_with_slash path then path else ''/'' @ path)
         else if path = ''/'' then pre
         else trim_end_matches is_slash pre @ ''/'' @ trim_start_matches is_slash path)"

definition rewrite_website_location :: "string \<Rightarrow> rewrite_context \<Rightarrow> string" where
  "rewrite_website_location value0 rewrite =
     (let base = trim_trailing_slashes (trim (rc_upstream_base_url rewrite));
          pre = normalize_proxy_path_prefix (rc_proxy_path_prefix rewrite);
          value = trim value0;
          elsewhere = (if starts_with_slash value then prefixed_proxy_path pre value else value)
      in case strip_prefix base value of
           Some rest \<Rightarrow>
             if rest = [] \<or> starts_with_slash rest \<or> strip_prefix ''?'' rest \<noteq> None
             then prefixed_proxy_path pre (proxy_first_non_empty rest ''/'') else elsewhere
         | None \<Rightarrow> elsewhere)"

definition starts_with_header_attr :: "string \<Rightarrow> string \<Rightarrow> bool" where
  "starts_with_header_attr value name \<longleftrightarrow>
     eq_ignore_ascii_case (take (length name) value) name \<and> (case drop (length name) value of c # _ \<Rightarrow> c = CHR ''='' | [] \<Rightarrow> False)"

fun cookie_attributes :: "string \<Rightarrow> string list \<Rightarrow> string list \<times> bool" where
  "cookie_attributes pre [] = ([], False)"
| "cookie_attributes pre (part # parts) =
     (let trimmed = trim part; (output, has_path) = cookie_attributes pre parts
      in if eq_ignore_ascii_case trimmed ''domain'' \<or> starts_with_header_attr trimmed ''domain'' then (output, has_path)
         else if starts_with_header_attr trimmed ''path''
         then ((if pre \<noteq> ''/'' then ''Path='' @ pre else trimmed) # output, True)
         else (trimmed # output, has_path))"

definition rewrite_website_set_cookie :: "string \<Rightarrow> rewrite_context \<Rightarrow> string" where
  "rewrite_website_set_cookie value rewrite =
     (let pre = normalize_proxy_path_prefix (rc_proxy_path_prefix rewrite)
      in case split_on (CHR '';'') value of
           [] \<Rightarrow> value
         | first # parts \<Rightarrow>
             (case cookie_attributes pre parts of (output, has_path) \<Rightarrow>
               join ''; '' ((trim first # output) @ (if pre \<noteq> ''/'' \<and> \<not> has_path then [''Path='' @ pre] else []))))"

fun move_cookies :: "string list \<Rightarrow> header_map \<Rightarrow> string list \<Rightarrow> header_map \<times> string list" where
  "move_cookies [] headers cookies = (headers, cookies)"
| "move_cookies (key # keys) headers cookies =
     (case bt_get headers key of
        Some value \<Rightarrow> move_cookies keys (bt_remove key headers) (cookies @ [value])
      | None \<Rightarrow> move_cookies keys headers cookies)"

definition rewrite_response_headers :: "header_map \<Rightarrow> string list \<Rightarrow> rewrite_context option \<Rightarrow> header_map \<times> string list" where
  "rewrite_response_headers headers0 extra rewrite =
     (case move_cookies (filter (\<lambda>key. eq_ignore_ascii_case key ''set-cookie'') (bt_keys headers0)) headers0 extra of (headers, cookies) \<Rightarrow>
       (case rewrite of
          None \<Rightarrow> (headers, cookies)
        | Some context \<Rightarrow>
            (map (\<lambda>(key, value). (key, if eq_ignore_ascii_case key ''location'' then rewrite_website_location value context else value)) headers,
             map (\<lambda>value. rewrite_website_set_cookie value context) cookies)))"

definition response_limit :: "u64 \<Rightarrow> u64" where
  "response_limit max_response_bytes = (if max_response_bytes = 0 then DEFAULT_MAX_RESPONSE_BYTES else max_response_bytes)"

definition plan_subscription_proxy_response ::
  "upstream_response \<Rightarrow> u64 \<Rightarrow> bool \<Rightarrow> rewrite_context option \<Rightarrow> route_error + client_response" where
  "plan_subscription_proxy_response response max_response_bytes head_only rewrite =
     (let limit = response_limit max_response_bytes
      in if (case up_content_length response of Some len \<Rightarrow> len > limit | None \<Rightarrow> False) \<or> length (up_body response) > unat limit
         then Inl (BadGateway ''upstream response too large'')
         else case rewrite_response_headers (forwarded_headers (up_headers response)) (up_set_cookie response) rewrite of
           (headers, cookies) \<Rightarrow>
             Inr \<lparr>cr_status = up_status response, cr_headers = headers, cr_set_cookie = cookies,
               cr_body = (if head_only then [] else up_body response)\<rparr>)"

definition plan_subscription_proxy_health_response :: "bool \<Rightarrow> client_response" where
  "plan_subscription_proxy_health_response head_only =
     \<lparr>cr_status = 200, cr_headers = [(''Content-Type'', ''application/json'')], cr_set_cookie = [],
      cr_body = (if head_only then [] else [CHR 0x7B, CHR 0x22] @ ''status'' @ [CHR 0x22, CHR '':'', CHR 0x22] @ ''ok'' @ [CHR 0x22, CHR 0x7D])\<rparr>"

section \<open>Handlers\<close>

definition is_head :: "proxy_request \<Rightarrow> bool" where
  "is_head request = eq_ignore_ascii_case (trim (rq_method request)) ''HEAD''"

definition handle_subscription_proxy_request ::
  "subscription_proxy_profile list \<Rightarrow> website_proxy_profile list \<Rightarrow> proxy_request \<Rightarrow> u64 \<Rightarrow>
   (upstream_request \<Rightarrow> 'w \<Rightarrow> (route_error + upstream_response) \<times> 'w) \<Rightarrow> 'w \<Rightarrow> (route_error + client_response) \<times> 'w" where
  "handle_subscription_proxy_request profiles website_profiles request max_response_bytes fetch_upstream w =
     (case plan_subscription_proxy_request profiles website_profiles request of
        Inl e \<Rightarrow> (Inl e, w)
      | Inr HealthRoute \<Rightarrow> (Inr (plan_subscription_proxy_health_response (is_head request)), w)
      | Inr (Upstream upstream) \<Rightarrow>
          io_then (fetch_upstream upstream w) (\<lambda>response w.
            (plan_subscription_proxy_response response max_response_bytes (uq_head_only upstream) (uq_response_rewrite upstream), w))
      | Inr (ChallengeFile _) \<Rightarrow> (Inl RouteNotFound, w))"

definition read_subscription_proxy_file_optional :: "string \<Rightarrow> file_store \<Rightarrow> string option result \<times> file_store" where
  "read_subscription_proxy_file_optional path fs =
     (case fs_read path fs of
        (Inr content, fs') \<Rightarrow> (Ok (Some content), fs')
      | (Inl NotFound, fs') \<Rightarrow> (Ok None, fs')
      | (Inl (IoError e), fs') \<Rightarrow> (Err (''read subscription proxy file '' @ path @ '': '' @ e), fs'))"

definition handle_subscription_proxy_http_request ::
  "subscription_proxy_config \<Rightarrow> proxy_request \<Rightarrow> (string \<Rightarrow> 'w \<Rightarrow> string option result \<times> 'w) \<Rightarrow> 'w \<Rightarrow> (route_error + client_response) \<times> 'w" where
  "handle_subscription_proxy_http_request config request read_file w =
     (case plan_subscription_proxy_http_request config request of
        Inl e \<Rightarrow> (Inl e, w)
      | Inr HealthRoute \<Rightarrow> (Inr (plan_subscription_proxy_health_response (is_head request)), w)
      | Inr (ChallengeFile path) \<Rightarrow>
          (case read_file path w of
             (Inl e, w') \<Rightarrow> (Inl (BadGateway e), w')
           | (Inr None, w') \<Rightarrow> (Inl RouteNotFound, w')
           | (Inr (Some body), w') \<Rightarrow>
               (Inr \<lparr>cr_status = 200, cr_headers = plain_text_headers, cr_set_cookie = [], cr_body = (if is_head request then [] else body)\<rparr>, w'))
      | Inr (Upstream _) \<Rightarrow> (Inl RouteNotFound, w))"

definition error_to_response :: "(route_error + client_response) \<Rightarrow> client_response" where
  "error_to_response r = (case r of Inl e \<Rightarrow> subscription_proxy_error_response e | Inr response \<Rightarrow> response)"

section \<open>Reading a request from a connection\<close>

text \<open>
  What the reads of a connection deliver, in order: bytes or an error; at the end of the sequence, and at an
  empty delivery, a read says that the connection is closed. A read with a smaller buffer leaves the rest of a
  delivery for the next one.
\<close>

datatype delivery = Data string | ReadError string

type_synonym connection = "delivery list"

fun read_some :: "nat \<Rightarrow> connection \<Rightarrow> string result \<times> connection" where
  "read_some n [] = (Ok [], [])"
| "read_some n (ReadError e # ds) = (Err e, ds)"
| "read_some n (Data s # ds) = (Ok (take n s), if length s \<le> n then ds else Data (drop n s) # ds)"

definition has_blank_line :: "string \<Rightarrow> bool" where
  "has_blank_line s \<longleftrightarrow> http_header_end s \<noteq> None"

function read_head_loop :: "nat \<Rightarrow> string \<Rightarrow> connection \<Rightarrow> string result \<times> connection" where
  "read_head_loop max_header_bytes output ds =
     (case read_some 1024 ds of
        (Inl e, ds') \<Rightarrow> (Err (''read subscription proxy request: '' @ e), ds')
      | (Inr chunk, ds') \<Rightarrow>
          if chunk = [] then (Err ''incomplete http request'', ds')
          else if length (output @ chunk) > max_header_bytes then (Err ''http request header too large'', ds')
          else if has_blank_line (output @ chunk) then (Ok (output @ chunk), ds')
          else read_head_loop max_header_bytes (output @ chunk) ds')"
  by pat_completeness auto
termination
  by (relation "measure (\<lambda>(max_header_bytes, output, ds). Suc max_header_bytes - length output)") (auto simp flip: length_greater_0_conv)

declare read_head_loop.simps [simp del]

definition read_subscription_proxy_http_request_head :: "nat \<Rightarrow> connection \<Rightarrow> string result \<times> connection" where
  "read_subscription_proxy_http_request_head max_header_bytes ds = read_head_loop max_header_bytes [] ds"

text \<open>\<open>Read::read_exact\<close>.\<close>

function read_exact :: "nat \<Rightarrow> connection \<Rightarrow> string result \<times> connection" where
  "read_exact n ds =
     (if n = 0 then (Ok [], ds)
      else case read_some n ds of
        (Inl e, ds') \<Rightarrow> (Err e, ds')
      | (Inr chunk, ds') \<Rightarrow>
          if chunk = [] then (Err ''failed to fill whole buffer'', ds')
          else case read_exact (n - length chunk) ds' of (r, ds'') \<Rightarrow> (map_ok (\<lambda>rest. chunk @ rest) r, ds''))"
  by pat_completeness auto
termination
  by (relation "measure fst") (auto simp flip: length_greater_0_conv)

declare read_exact.simps [simp del]

fun content_length_loop :: "string list \<Rightarrow> nat option \<Rightarrow> nat option result" where
  "content_length_loop [] len = Ok len"
| "content_length_loop (line # lines) len =
     (case split_once (CHR '':'') line of
        None \<Rightarrow> content_length_loop lines len
      | Some (key, value) \<Rightarrow>
          if \<not> eq_ignore_ascii_case (trim key) ''content-length'' then content_length_loop lines len
          else case parse_uint (2 ^ 64 - 1) (trim value) of
            None \<Rightarrow> Err ''invalid content-length header''
          | Some parsed \<Rightarrow>
              if (case len of Some existing \<Rightarrow> existing \<noteq> parsed | None \<Rightarrow> False) then Err ''conflicting content-length headers''
              else content_length_loop lines (Some parsed))"

definition request_content_length :: "string \<Rightarrow> nat option result" where
  "request_content_length head =
     (if \<not> utf8_valid head then Err ''invalid utf-8 request'' else content_length_loop (drop 1 (split_str crlf head)) None)"

definition request_has_chunked_body :: "string \<Rightarrow> bool" where
  "request_has_chunked_body head \<longleftrightarrow>
     utf8_valid head \<and>
     list_ex (\<lambda>line. case split_once (CHR '':'') line of
         None \<Rightarrow> False
       | Some (key, value) \<Rightarrow>
           eq_ignore_ascii_case (trim key) ''transfer-encoding'' \<and>
           list_ex (\<lambda>part. eq_ignore_ascii_case (trim part) ''chunked'') (split_on (CHR '','') value))
       (drop 1 (split_str crlf head))"

definition read_request_body :: "nat \<Rightarrow> nat \<Rightarrow> nat \<Rightarrow> string \<Rightarrow> connection \<Rightarrow> string result \<times> connection" where
  "read_request_body body_start content_length max_body_bytes raw ds =
     (let already_read = length raw - body_start
      in if content_length > max_body_bytes then (Err ''http request body too large'', ds)
         else if already_read > content_length then (Ok (take (body_start + content_length) raw), ds)
         else if content_length - already_read = 0 then (Ok raw, ds)
         else case read_exact (content_length - already_read) ds of
           (Inl e, ds') \<Rightarrow> (Err (''read subscription proxy request body: '' @ e), ds')
         | (Inr body, ds') \<Rightarrow> (Ok (raw @ body), ds'))"

definition read_subscription_proxy_http_request :: "nat \<Rightarrow> nat \<Rightarrow> connection \<Rightarrow> string result \<times> connection" where
  "read_subscription_proxy_http_request max_header_bytes max_body_bytes ds =
     io_then (read_subscription_proxy_http_request_head max_header_bytes ds) (\<lambda>raw ds.
       case http_header_end raw of
         None \<Rightarrow> (Err ''incomplete http request'', ds)
       | Some header_end \<Rightarrow>
           (case request_content_length (take header_end raw) of
              Inl e \<Rightarrow> (Err e, ds)
            | Inr None \<Rightarrow>
                if request_has_chunked_body (take header_end raw) then (Err ''chunked request bodies are not supported'', ds)
                else (Ok (take (header_end + 4) raw), ds)
            | Inr (Some content_length) \<Rightarrow> read_request_body (header_end + 4) content_length max_body_bytes raw ds))"

text \<open>One connection: what is written back, or the error of reading turned into a response.\<close>

definition serve_subscription_proxy_stream ::
  "(proxy_request \<Rightarrow> 'w \<Rightarrow> client_response \<times> 'w) \<Rightarrow> string \<Rightarrow> connection \<Rightarrow> 'w \<Rightarrow> string \<times> 'w" where
  "serve_subscription_proxy_stream handler remote_addr ds w =
     (case and_then (fst (read_subscription_proxy_http_request (32 * 1024) DEFAULT_MAX_REQUEST_BODY_BYTES ds))
          (\<lambda>raw. parse_subscription_proxy_http_request raw remote_addr) of
        Inl e \<Rightarrow> (render_subscription_proxy_http_response (subscription_proxy_bad_request_response e), w)
      | Inr request \<Rightarrow> (case handler request w of (response, w') \<Rightarrow> (render_subscription_proxy_http_response response, w')))"

text \<open>\<open>Read::take\<close> and \<open>read_to_end\<close>: everything up to a limit.\<close>

function read_up_to :: "nat \<Rightarrow> connection \<Rightarrow> string result \<times> connection" where
  "read_up_to n ds =
     (if n = 0 then (Ok [], ds)
      else case read_some n ds of
        (Inl e, ds') \<Rightarrow> (Err e, ds')
      | (Inr chunk, ds') \<Rightarrow>
          if chunk = [] then (Ok [], ds')
          else case read_up_to (n - length chunk) ds' of (r, ds'') \<Rightarrow> (map_ok (\<lambda>rest. chunk @ rest) r, ds''))"
  by pat_completeness auto
termination
  by (relation "measure fst") (auto simp flip: length_greater_0_conv)

declare read_up_to.simps [simp del]

definition read_limited_upstream_body :: "u64 \<Rightarrow> connection \<Rightarrow> string result \<times> connection" where
  "read_limited_upstream_body max_response_bytes ds =
     (let limit = response_limit max_response_bytes
      in case read_up_to (min (unat limit + 1) (2 ^ 64 - 1)) ds of
           (Inl e, ds') \<Rightarrow> (Err (''read upstream response: '' @ e), ds')
         | (Inr body, ds') \<Rightarrow> (if length body > unat limit then Err ''upstream response too large'' else Ok body, ds'))"

section \<open>Tokens survive the way to the upstream\<close>

lemma unreserved_not_percent: "unreserved c \<Longrightarrow> c \<noteq> CHR ''%''"
  by (auto simp: unreserved_def is_ascii_alphanumeric_def is_ascii_digit_def is_ascii_uppercase_def is_ascii_lowercase_def char_code_def)

lemma hex_value_upper_hex: "n < 16 \<Longrightarrow> hex_value (upper_hex n) = Some n"
proof -
  have "list_all (\<lambda>n. hex_value (upper_hex n) = Some n) [0..<16]" by code_simp
  then show "n < 16 \<Longrightarrow> hex_value (upper_hex n) = Some n" by (simp add: list_all_iff)
qed

lemma decode_encoded: "percent_decode_loop (percent_encode_path_segment s) = Ok s"
proof (induction s)
  case (Cons c s)
  have "char_code c < 256" by (simp add: char_code_def)
  then have "hex_value (upper_hex (char_code c div 16)) = Some (char_code c div 16)" "hex_value (upper_hex (char_code c mod 16)) = Some (char_code c mod 16)"
    by (simp_all add: hex_value_upper_hex)
  moreover have "char_of (16 * (char_code c div 16) + char_code c mod 16) = c" by (simp add: char_code_def)
  ultimately show ?case using Cons.IH by (auto simp: percent_encode_path_segment_def unreserved_not_percent)
qed (simp add: percent_encode_path_segment_def)

text \<open>
  C22: Escaping a token for the upstream address and reading it back gives the token, for every string there is.
\<close>

theorem token_round_trip:
  "percent_decode_path_segment (percent_encode_path_segment token) = (if utf8_valid token then Ok token else Err ''invalid escaped token'')"
  by (simp add: percent_decode_path_segment_def decode_encoded)

section \<open>A response is not split\<close>

lemma header_end_skip: "CHR 0x0D \<notin> set l \<Longrightarrow> http_header_end (l @ s) = map_option ((+) (length l)) (http_header_end s)"
  by (induction l; cases "http_header_end s") auto

lemma header_end_crlf:
  "http_header_end (crlf @ s) = (if take 2 s = crlf then Some 0 else map_option (\<lambda>n. n + 2) (http_header_end s))"
  by (auto simp: option.map_comp comp_def)

definition unbroken_line :: "string \<Rightarrow> bool" where
  "unbroken_line l \<longleftrightarrow> l \<noteq> [] \<and> CHR 0x0D \<notin> set l"

lemma header_end_lines:
  "ls \<noteq> [] \<Longrightarrow> list_all unbroken_line ls \<Longrightarrow> http_header_end (join crlf ls @ crlf @ crlf @ body) = Some (length (join crlf ls))"
proof (induction crlf ls rule: join.induct)
  case (2 p)
  then show ?case by (simp add: unbroken_line_def header_end_skip)
next
  case (3 p q ps)
  have "take 2 (join crlf (q # ps) @ crlf @ crlf @ body) \<noteq> crlf"
    using 3(3) by (cases q; cases ps) (auto simp: unbroken_line_def)
  then show ?case using 3 by (simp add: unbroken_line_def header_end_skip header_end_crlf [simplified])
qed simp

lemma split_once_str_plain: "CHR 0x0D \<notin> set l \<Longrightarrow> split_once_str crlf l = None"
  by (induction l) (auto split: list.splits simp: take_Cons')

lemma split_once_str_line: "CHR 0x0D \<notin> set l \<Longrightarrow> split_once_str crlf (l @ crlf @ s) = Some (l, s)"
  by (induction l) (auto simp: take_Cons')

lemma split_str_lines: "ls \<noteq> [] \<Longrightarrow> list_all unbroken_line ls \<Longrightarrow> split_str crlf (join crlf ls) = ls"
proof (induction crlf ls rule: join.induct)
  case (2 p)
  then show ?case by (subst split_str.simps) (simp add: unbroken_line_def split_once_str_plain)
next
  case (3 p q ps)
  then show ?case by (subst split_str.simps) (simp add: unbroken_line_def split_once_str_line [simplified])
qed simp

text \<open>The lines a response is meant to have.\<close>

definition response_lines :: "client_response \<Rightarrow> string list" where
  "response_lines response =
     [''HTTP/1.1 '' @ nat_to_string (unat (cr_status response)) @ '' '' @ http_reason_phrase (cr_status response),
      ''Content-Length: '' @ nat_to_string (length (cr_body response)), ''Connection: close''] @
     map (\<lambda>(key, value). key @ '': '' @ value)
       (filter (\<lambda>(key, value). valid_http_header_name key \<and> valid_http_header_value value) (cr_headers response)) @
     map (\<lambda>value. ''Set-Cookie: '' @ value) (filter valid_http_header_value (cr_set_cookie response))"

lemma concat_lines: "concat (map (\<lambda>l. l @ crlf) ls) @ crlf = (if ls = [] then crlf else join crlf ls @ crlf @ crlf)"
  by (induction crlf ls rule: join.induct) auto

definition one_line :: "string \<Rightarrow> bool" where
  "one_line s \<longleftrightarrow> CHR 0x0D \<notin> set s \<and> CHR 0x0A \<notin> set s"

lemma not_header_char: "\<not> header_name_char (CHR 0x0D)" "\<not> header_name_char (CHR 0x0A)"
  "\<not> is_ascii_digit (CHR 0x0D)" "\<not> is_ascii_digit (CHR 0x0A)"
  by code_simp+

lemma header_value_plain: "valid_http_header_value value \<Longrightarrow> one_line value"
  by (auto simp: valid_http_header_value_def list_ex_iff one_line_def)

lemma header_name_plain: "valid_http_header_name key \<Longrightarrow> one_line key"
  using not_header_char(1,2) by (auto simp: valid_http_header_name_def list_all_iff one_line_def)

lemma nat_to_string_plain: "one_line (nat_to_string n)"
  using nat_to_string_digits [of n] not_header_char(3,4) by (auto simp: list_all_iff one_line_def)

lemma reason_phrase_plain: "one_line (http_reason_phrase status)"
  by (simp add: http_reason_phrase_def one_line_def)

lemma one_line_append [simp]: "one_line (s @ t) \<longleftrightarrow> one_line s \<and> one_line t"
  by (auto simp: one_line_def)

lemma one_line_texts [simp]: "one_line ''HTTP/1.1 ''" "one_line '' ''" "one_line '': ''" "one_line ''Content-Length: ''"
  "one_line ''Connection: close''" "one_line ''Set-Cookie: ''"
  by (simp_all add: one_line_def)

lemma response_lines_single: "list_all one_line (response_lines response)"
  unfolding response_lines_def list_all_append list.pred_inject list.pred_map
  by (intro conjI)
     (auto simp only: comp_def list_all_iff list.set empty_iff set_filter mem_Collect_eq case_prod_beta one_line_append one_line_texts nat_to_string_plain reason_phrase_plain
        header_value_plain header_name_plain)

lemma response_lines_plain: "list_all unbroken_line (response_lines response)"
  using response_lines_single by (auto simp: list_all_iff one_line_def unbroken_line_def response_lines_def)

lemma rendered_lines:
  "render_subscription_proxy_http_response response = join crlf (response_lines response) @ crlf @ crlf @ cr_body response"
proof -
  have h: "concat (map (\<lambda>(key, value). if valid_http_header_name key \<and> valid_http_header_value value then header_line key value else []) hs) =
      concat (map (\<lambda>l. l @ crlf) (map (\<lambda>(key, value). key @ '': '' @ value)
        (filter (\<lambda>(key, value). valid_http_header_name key \<and> valid_http_header_value value) hs)))" for hs
    by (induction hs) (auto simp: header_line_def split: if_splits)
  have c: "concat (map (\<lambda>value. if valid_http_header_value value then header_line ''Set-Cookie'' value else []) cs) =
      concat (map (\<lambda>l. l @ crlf) (map (\<lambda>value. ''Set-Cookie: '' @ value) (filter valid_http_header_value cs)))" for cs
    by (induction cs) (auto simp: header_line_def)
  have "render_subscription_proxy_http_response response = (concat (map (\<lambda>l. l @ crlf) (response_lines response)) @ crlf) @ cr_body response"
    unfolding render_subscription_proxy_http_response_def response_lines_def h c by simp
  then show ?thesis unfolding concat_lines by (simp add: response_lines_def)
qed

text \<open>
  C16: Whatever header names, header values and cookies the upstream sent, the rendered response has the lines it is
  meant to have, its first blank line is the one before the body, and the body that follows has the announced
  length: no header can end the head early or add a line, not even for a reader that takes a bare line feed as the
  end of a line.
\<close>

theorem response_not_split:
  "let raw = render_subscription_proxy_http_response response
   in \<exists>header_end. http_header_end raw = Some header_end \<and> split_str crlf (take header_end raw) = response_lines response \<and>
        list_all (\<lambda>l. CHR 0x0D \<notin> set l \<and> CHR 0x0A \<notin> set l) (split_str crlf (take header_end raw)) \<and>
        drop (header_end + 4) raw = cr_body response"
proof -
  define head where "head = join crlf (response_lines response)"
  have ne: "response_lines response \<noteq> []" by (simp add: response_lines_def)
  have "http_header_end (render_subscription_proxy_http_response response) = Some (length head)"
    unfolding rendered_lines head_def by (rule header_end_lines [OF ne response_lines_plain])
  moreover have "split_str crlf head = response_lines response" unfolding head_def by (rule split_str_lines [OF ne response_lines_plain])
  ultimately show ?thesis
    using response_lines_single [of response, unfolded one_line_def [abs_def]] by (simp add: rendered_lines Let_def flip: head_def)
qed

end
