(* ===== verification/Proxy_Routes.thy ===== *)
theory Proxy_Routes
  imports Proxy_Http
begin

text \<open>
  What the routes of the subscription proxy promise: where an upstream request goes and what it carries, which
  profile serves a website path, which file answers a certificate challenge, and how much of a connection is read.
\<close>

lemma find_holds: "find P xs = Some x \<Longrightarrow> x \<in> set xs \<and> P x"
  by (auto simp: find_Some_iff)

section \<open>Headers of an upstream request\<close>

definition clean_header :: "string \<Rightarrow> bool" where
  "clean_header key \<longleftrightarrow> \<not> is_hop_by_hop_header key \<and> to_ascii_lowercase key \<noteq> ''host'' \<and> to_ascii_lowercase key \<noteq> ''content-length''"

definition clean_headers :: "header_map \<Rightarrow> bool" where
  "clean_headers headers \<longleftrightarrow> list_all (\<lambda>(key, _). clean_header key) headers"

lemma lowercase_literals [simp]:
  "to_ascii_lowercase ''host'' = ''host''" "to_ascii_lowercase ''content-length'' = ''content-length''"
  "to_ascii_lowercase ''X-Forwarded-Host'' = ''x-forwarded-host''" "to_ascii_lowercase ''X-Forwarded-Proto'' = ''x-forwarded-proto''"
  "to_ascii_lowercase ''X-Forwarded-For'' = ''x-forwarded-for''"
  by code_simp+

lemma forwarded_clean: "clean_headers (forwarded_headers source)"
  by (auto simp: clean_headers_def clean_header_def forwarded_headers_def list_all_iff eq_ignore_ascii_case_def)

lemma insert_clean: "clean_headers headers \<Longrightarrow> clean_header key \<Longrightarrow> clean_headers (bt_insert key v headers)"
  using set_bt_insert [of key v headers] by (fastforce simp: clean_headers_def list_all_iff)

lemma forwarded_key_clean: "to_ascii_lowercase key = ''x-forwarded-for'' \<Longrightarrow> clean_header key"
  by (simp add: clean_header_def is_hop_by_hop_header_def)

lemma append_forwarded_clean: "clean_headers headers \<Longrightarrow> clean_headers (append_forwarded_for ip headers)"
proof -
  define key where "key = unwrap_or ''X-Forwarded-For'' (find (\<lambda>key. eq_ignore_ascii_case key ''X-Forwarded-For'') (bt_keys headers))"
  have "to_ascii_lowercase key = ''x-forwarded-for''"
    by (cases "find (\<lambda>key. eq_ignore_ascii_case key ''X-Forwarded-For'') (bt_keys headers)")
       (auto simp: key_def eq_ignore_ascii_case_def dest: find_holds)
  then show "clean_headers headers \<Longrightarrow> clean_headers (append_forwarded_for ip headers)"
    by (simp add: append_forwarded_for_def Let_def insert_clean forwarded_key_clean flip: key_def)
qed

lemma upstream_headers_clean: "clean_headers (upstream_forwarded_headers request)"
  by (auto simp: upstream_forwarded_headers_def Let_def clean_header_def is_hop_by_hop_header_def
      intro!: append_forwarded_clean insert_clean forwarded_clean split: option.split)

section \<open>Where an upstream request goes\<close>

definition proxy_base :: "string \<Rightarrow> string" where
  "proxy_base url = trim_trailing_slashes (trim url)"

lemma with_query_append: "\<exists>rest. \<forall>url. with_query url query = url @ rest"
  by (auto simp: with_query_def Let_def)

lemma subscription_url_below:
  assumes "build_subscription_upstream_url profile token query = Inr url"
  shows "is_valid_upstream_base_url (proxy_base (spp_upstream_base_url profile)) \<and>
    (\<exists>rest. url = proxy_base (spp_upstream_base_url profile) @ ''/'' @ rest)"
proof -
  obtain rest where "\<And>url. with_query url query = url @ rest" using with_query_append by blast
  then show ?thesis using assms by (auto simp: build_subscription_upstream_url_def proxy_base_def Let_def split: if_splits)
qed

lemma website_url_below:
  assumes "build_website_upstream_url profile path query = Inr url"
  shows "is_valid_upstream_base_url (proxy_base (wpp_upstream_base_url profile)) \<and>
    (\<exists>rest. url = proxy_base (wpp_upstream_base_url profile) @ ''/'' @ rest)"
proof -
  obtain rest where "\<And>url. with_query url query = url @ rest" using with_query_append by blast
  then show ?thesis using assms by (auto simp: build_website_upstream_url_def proxy_base_def Let_def split: if_splits)
qed

lemma map_gateway_Inr: "map_gateway r = Inr x \<longleftrightarrow> r = Inr x"
  by (cases r) auto

lemma subscription_route_upstream:
  assumes "plan_subscription_route profiles request method rest = Inr (Upstream u)"
  shows "uq_headers u = upstream_forwarded_headers request \<and>
    (\<exists>profile \<in> set profiles. \<exists>token. build_subscription_upstream_url profile token (rq_raw_query request) = Inr (uq_url u))"
  using assms
  by (fastforce simp: plan_subscription_route_def and_then_Inr map_gateway_Inr dest!: find_holds split: if_splits option.splits prod.splits)

lemma last_max_by_Some:
  "last_max_by key xs = Some x \<Longrightarrow> x \<in> set xs \<and> (\<forall>y \<in> set xs. key y \<le> key x)"
proof (induction xs arbitrary: x)
  case (Cons y ys)
  show ?case
  proof (cases "last_max_by key ys")
    case None
    then have "ys = []" by (cases ys) (auto split: option.splits if_splits)
    then show ?thesis using Cons.prems by simp
  next
    case (Some z)
    from Cons.IH [OF this] Some Cons.prems show ?thesis by (auto split: if_splits)
  qed
qed simp

lemma last_max_by_None: "last_max_by key xs = None \<longleftrightarrow> xs = []"
  by (cases xs) (auto split: option.splits)

abbreviation site_prefix :: "website_proxy_profile \<Rightarrow> string" where
  "site_prefix profile \<equiv> normalize_proxy_path_prefix (wpp_path_prefix profile)"

lemma matched_profiles:
  "x \<in> set (List.map_filter (\<lambda>profile.
      let pre = site_prefix profile
      in if website_proxy_path_matches pre path then Some (profile, pre, website_proxy_upstream_path pre path) else None) profiles) \<longleftrightarrow>
   (\<exists>profile \<in> set profiles. website_proxy_path_matches (site_prefix profile) path \<and>
      x = (profile, site_prefix profile, website_proxy_upstream_path (site_prefix profile) path))"
  by (auto simp: map_filter_def Let_def split: if_splits)

lemma website_match_profile:
  "website_proxy_match profiles path = Some (profile, pre, upstream_path) \<Longrightarrow> profile \<in> set profiles"
  unfolding website_proxy_match_def Let_def by (drule last_max_by_Some) (auto simp: matched_profiles [unfolded Let_def])

lemma website_route_upstream:
  assumes "plan_website_route profiles request method = Inr (Upstream u)"
  shows "uq_headers u = upstream_forwarded_headers request \<and>
    (\<exists>profile \<in> set profiles. \<exists>path. build_website_upstream_url profile path (rq_raw_query request) = Inr (uq_url u))"
  using assms
  by (fastforce simp: plan_website_route_def and_then_Inr map_gateway_Inr Let_def dest!: website_match_profile split: if_splits option.splits prod.splits)


section \<open>Which profile serves a website path\<close>

lemma upstream_path_split:
  assumes "website_proxy_path_matches pre path" "path \<noteq> []"
  shows "if pre = ''/'' then website_proxy_upstream_path pre path = path
    else path = pre \<and> website_proxy_upstream_path pre path = ''/'' \<or> path = pre @ website_proxy_upstream_path pre path"
proof -
  consider "pre = ''/''" | "path = pre" | rest where "path = pre @ rest" "starts_with_slash rest"
    using assms(1) by (auto simp: website_proxy_path_matches_def strip_prefix_Some split: option.splits)
  then show ?thesis
  proof cases
    case 2
    have "strip_prefix pre pre = Some []" by (simp add: strip_prefix_Some)
    then show ?thesis using 2 by (simp add: website_proxy_upstream_path_def assms(2))
  next
    case 3
    then have "strip_prefix pre path = Some rest" "rest \<noteq> []" by (auto simp: strip_prefix_Some starts_with_slash_def)
    then show ?thesis using 3 by (simp add: website_proxy_upstream_path_def)
  qed (use assms(2) in \<open>simp add: website_proxy_upstream_path_def\<close>)
qed

text \<open>
  C21: Of the profiles whose prefix covers a path, as whole segments, one with the longest prefix serves it, and what
  it asks the upstream for is the path without the prefix; a path is refused exactly when no prefix covers it.
\<close>

theorem website_longest_prefix:
  assumes "path \<noteq> []"
  shows "case website_proxy_match profiles path of
     None \<Rightarrow> \<forall>profile \<in> set profiles. \<not> website_proxy_path_matches (site_prefix profile) path
   | Some (profile, pre, upstream_path) \<Rightarrow>
       profile \<in> set profiles \<and> pre = site_prefix profile \<and> website_proxy_path_matches pre path \<and>
       (\<forall>other \<in> set profiles. website_proxy_path_matches (site_prefix other) path \<longrightarrow> length (site_prefix other) \<le> length pre) \<and>
       (if pre = ''/'' then upstream_path = path else path = pre \<and> upstream_path = ''/'' \<or> path = pre @ upstream_path)"
proof -
  define matching where "matching = List.map_filter (\<lambda>profile.
      let pre = site_prefix profile
      in if website_proxy_path_matches pre path then Some (profile, pre, website_proxy_upstream_path pre path) else None) profiles"
  have m: "website_proxy_match profiles path = last_max_by (\<lambda>(_, pre, _). length pre) matching"
    using assms by (simp add: website_proxy_match_def matching_def Let_def)
  note members = matched_profiles [of _ path profiles, folded matching_def]
  show ?thesis
  proof (cases "website_proxy_match profiles path")
    case None
    then have "set matching = {}" by (simp add: m last_max_by_None)
    then show ?thesis using None members by auto
  next
    case (Some x)
    obtain profile pre upstream_path where x: "x = (profile, pre, upstream_path)" by (rule prod_cases3)
    have "(profile, pre, upstream_path) \<in> set matching" and longest: "\<forall>y \<in> set matching. (case y of (_, p, _) \<Rightarrow> length p) \<le> length pre"
      using last_max_by_Some [of "\<lambda>(_, pre, _). length pre" matching x] Some by (auto simp: m x)
    then have p: "profile \<in> set profiles" "pre = site_prefix profile" "website_proxy_path_matches pre path"
      "upstream_path = website_proxy_upstream_path pre path" by (auto simp: members)
    have "length (site_prefix other) \<le> length pre" if "other \<in> set profiles" "website_proxy_path_matches (site_prefix other) path" for other
      using longest members that by fastforce
    moreover have "if pre = ''/'' then upstream_path = path else path = pre \<and> upstream_path = ''/'' \<or> path = pre @ upstream_path"
      unfolding p(4) by (rule upstream_path_split [OF p(3) assms])
    ultimately show ?thesis unfolding Some x option.case prod.case using p(1-3) by blast
  qed
qed

section \<open>The file of a certificate challenge\<close>

lemma str_contains_sublist: "str_contains pat s \<longleftrightarrow> (\<exists>a b. s = a @ pat @ b)"
proof (induction s)
  case (Cons c s)
  have "take (length pat) (c # s) = pat \<longleftrightarrow> (\<exists>b. c # s = pat @ b)" by (metis append_eq_conv_conj append_take_drop_id)
  then show ?case using Cons.IH by (auto simp: Cons_eq_append_conv)
qed simp

text \<open>
  C19: The file that answers a certificate challenge lies directly in the challenge directory: its path is the
  directory, one slash and a name without slashes, backslashes and double dots, whatever the request asked for.
\<close>

theorem challenge_file_contained:
  assumes "plan_subscription_proxy_http_request config request = Inr (ChallengeFile path)"
  shows "\<exists>name. path = trim_end_matches is_slash (proxy_first_non_empty (trim (sp_challenge_dir config)) DEFAULT_CHALLENGE_DIR) @ ''/'' @ name \<and>
    name \<noteq> [] \<and> slash \<notin> set name \<and> CHR 0x5C \<notin> set name \<and> (\<nexists>a b. name = a @ ''..'' @ b)"
proof -
  obtain rest name where "challenge_request_file_name rest = Some name"
    and path: "path = join_posix_path (proxy_first_non_empty (trim (sp_challenge_dir config)) DEFAULT_CHALLENGE_DIR) name"
    using assms by (auto simp: plan_subscription_proxy_http_request_def Let_def bind_eq_Some_conv split: if_splits option.splits)
  then have name: "name \<noteq> []" "slash \<notin> set name" "CHR 0x5C \<notin> set name" "\<not> str_contains ''..'' name"
    by (auto simp: challenge_request_file_name_def Let_def split: if_splits)
  then have "trim_start_matches is_slash name = name"
    by (cases name) (auto simp: trim_start_matches_def is_slash_def)
  then show ?thesis using name path by (auto simp: join_posix_path_def str_contains_sublist)
qed

section \<open>How much of a connection is read\<close>

lemma header_end_room: "http_header_end s = Some n \<Longrightarrow> n + 4 \<le> length s"
proof (induction s arbitrary: n)
  case (Cons c s)
  show ?case
  proof (cases "take 4 (c # s) = crlf @ crlf")
    case True
    have "length (take 4 (c # s)) = 4" unfolding True by simp
    then show ?thesis using True Cons.prems by simp
  qed (use Cons in auto)
qed simp

lemma header_end_prefix: "http_header_end s = Some n \<Longrightarrow> http_header_end (s @ t) = Some n"
proof (induction s arbitrary: n)
  case (Cons c s)
  from header_end_room [OF Cons.prems] have "take 4 (c # s @ t) = take 4 (c # s)" by simp
  then show ?case using Cons by (auto split: if_splits)
qed simp

lemma header_end_take: "http_header_end s = Some n \<Longrightarrow> n + 4 \<le> k \<Longrightarrow> http_header_end (take k s) = Some n"
proof (induction s arbitrary: n k)
  case (Cons c s)
  then obtain j where j: "k = Suc j" by (cases k) auto
  with Cons.prems(2) have "take 4 (take k (c # s)) = take 4 (c # s)" by simp
  then show ?case using Cons j by (auto split: if_splits simp del: take_Suc)
qed simp

lemma read_head_loop_Ok:
  "read_head_loop max_header got ds = (Inr raw, ds') \<Longrightarrow> has_blank_line raw \<and> length raw \<le> max_header"
proof (induction max_header got ds rule: read_head_loop.induct)
  case (1 max_header got ds)
  obtain r ds1 where r: "read_some 1024 ds = (r, ds1)" by (rule prod.exhaust)
  show ?case
  proof (cases r)
    case (Inr chunk)
    show ?thesis
      using 1 r Inr by (subst (asm) (2) read_head_loop.simps) (auto split: if_splits)
  qed (use 1(2) r in \<open>simp add: read_head_loop.simps\<close>)
qed

lemma read_exact_Ok: "read_exact n ds = (Inr body, ds') \<Longrightarrow> length body = n"
proof (induction n ds arbitrary: body ds' rule: read_exact.induct)
  case (1 n ds)
  obtain r ds1 where r: "read_some n ds = (r, ds1)" by (rule prod.exhaust)
  show ?case
  proof (cases "n = 0")
    case True
    then show ?thesis using 1(2) by (simp add: read_exact.simps)
  next
    case False
    then obtain chunk where chunk: "r = Inr chunk" "chunk \<noteq> []"
      using 1(2) r by (cases r) (auto simp: read_exact.simps split: if_splits)
    obtain r2 ds2 where r2: "read_exact (n - length chunk) ds1 = (r2, ds2)" by (rule prod.exhaust)
    have "(map_ok (\<lambda>rest. chunk @ rest) r2, ds2) = (Inr body, ds')"
      using 1(2) False r chunk r2 by (subst (asm) read_exact.simps) simp
    then obtain rest where "r2 = Inr rest" "body = chunk @ rest" by (cases r2) auto
    moreover have "length chunk \<le> n" using r chunk by (cases "(n, ds)" rule: read_some.cases) auto
    ultimately show ?thesis using 1(1) [OF False r [symmetric] chunk, of rest ds2] r2 by simp
  qed
qed


section \<open>Two gaps\<close>

text \<open>
  A token of two dots is passed on unescaped, as a path segment that leads out of the subscription path when the
  address is resolved.
\<close>

lemma dots_leave_subscribe_path:
  "percent_decode_path_segment ''%2e%2e'' = Ok ''..''"
  "build_subscription_upstream_url \<lparr>spp_site_id = ''a'', spp_upstream_base_url = ''https://p'', spp_subscribe_path = ''s''\<rparr> ''..'' [] =
     Ok ''https://p/s/..''"
  by code_simp+

text \<open>A forwarding header that the client sends in lower case reaches the upstream beside the one of the proxy.\<close>

definition sample_proxy_request :: "string \<Rightarrow> string \<Rightarrow> header_map \<Rightarrow> proxy_request" where
  "sample_proxy_request method path headers =
     \<lparr>rq_method = method, rq_path = path, rq_raw_query = [], rq_host = [], rq_remote_addr = ''192.0.2.1:5'', rq_headers = headers, rq_body = []\<rparr>"

lemma forwarded_proto_spoofed:
  "upstream_forwarded_headers (sample_proxy_request ''GET'' ''/'' [(''x-forwarded-proto'', ''http'')]) =
     [(''X-Forwarded-For'', ''192.0.2.1''), (''X-Forwarded-Proto'', ''https''), (''x-forwarded-proto'', ''http'')]"
  by code_simp

section \<open>Witnesses\<close>

definition sample_website :: "string \<Rightarrow> website_proxy_profile" where
  "sample_website pre = \<lparr>wpp_site_id = ''w'', wpp_upstream_base_url = ''https://w/'', wpp_path_prefix = pre\<rparr>"

definition sample_upstream :: upstream_request where
  "sample_upstream =
     \<lparr>uq_method = ''GET'', uq_url = ''https://w/x'', uq_headers = [(''X-Forwarded-For'', ''192.0.2.1''), (''X-Forwarded-Proto'', ''https'')],
      uq_body = [], uq_head_only = False, uq_follow_redirects = False,
      uq_response_rewrite = Some \<lparr>rc_upstream_base_url = ''https://w'', rc_proxy_path_prefix = ''/app''\<rparr>\<rparr>"


theorem website_longest_prefix_witness:
  "website_proxy_match [sample_website ''/'', sample_website ''/app''] ''/app/x'' = Some (sample_website ''/app'', ''/app'', ''/x'')"
proof -
  have m: "website_proxy_match [sample_website ''/'', sample_website ''/app''] ''/app/x'' = Some (sample_website ''/app'', ''/app'', ''/x'')"
    by code_simp
  have "''/app/x'' \<noteq> ([] :: string)" by simp
  from website_longest_prefix [OF this, of "[sample_website ''/'', sample_website ''/app'']"] m show ?thesis by simp
qed

definition sample_proxy_config :: subscription_proxy_config where
  "sample_proxy_config =
     \<lparr>sp_enabled = True, sp_https_listen = [], sp_http_listen = [], sp_cert_file = [], sp_key_file = [], sp_certificate_domain = [],
      sp_challenge_dir = ''/c/'', sp_zerossl = \<lparr>zs_status = [], zs_certificate_id = [], zs_validation_path = [], zs_validation_content = [],
        zs_certificate_pem = [], zs_ca_bundle_pem = [], zs_expires_at = []\<rparr>,
      sp_site_id = [], sp_upstream_base_url = [], sp_subscribe_path = [], sp_allow_http_fallback = True, sp_max_response_bytes = 0,
      sp_profiles = [], sp_website_profiles = [sample_website ''/app'']\<rparr>"

theorem challenge_file_contained_witness:
  "\<exists>name. ''/c/f.txt'' = trim_end_matches is_slash ''/c/'' @ ''/'' @ name \<and> slash \<notin> set name"
proof -
  have "plan_subscription_proxy_http_request sample_proxy_config (sample_proxy_request ''GET'' ''/.well-known/pki-validation/f.txt'' []) =
      Inr (ChallengeFile ''/c/f.txt'')"
    by code_simp
  moreover have "proxy_first_non_empty (trim (sp_challenge_dir sample_proxy_config)) DEFAULT_CHALLENGE_DIR = ''/c/''" by code_simp
  ultimately show ?thesis using challenge_file_contained [of sample_proxy_config] by metis
qed

definition sample_request_text :: string where
  "sample_request_text = ''POST / HTTP/1.1'' @ crlf @ ''Content-Length: 2'' @ crlf @ crlf @ ''ab''"

lemma sample_request_head: "take 34 sample_request_text = ''POST / HTTP/1.1'' @ crlf @ ''Content-Length: 2''"
  by code_simp

lemma sample_request_end: "http_header_end sample_request_text = Some 34"
  by code_simp

lemma sample_request_length: "request_content_length (take 34 sample_request_text) = Inr (Some 2)"
proof -
  have "split_str crlf (''POST / HTTP/1.1'' @ crlf @ ''Content-Length: 2'') = [''POST / HTTP/1.1'', ''Content-Length: 2'']"
    "utf8_valid (''POST / HTTP/1.1'' @ crlf @ ''Content-Length: 2'')" "trim '' 2'' = ''2''"
    "eq_ignore_ascii_case (trim ''Content-Length'') ''content-length''" "is_ascii_digit (CHR ''2'')" "digits_value 0 ''2'' = 2"
    by code_simp+
  moreover have "parse_uint (2 ^ 64 - 1) ''2'' = Some 2"
    using calculation(5,6) by (simp add: parse_uint_def parse_digits_def)
  ultimately show ?thesis unfolding request_content_length_def sample_request_head by simp
qed

lemma sample_request_read:
  "read_subscription_proxy_http_request 64 8 [Data (take 20 sample_request_text), Data (drop 20 sample_request_text @ ''GET'')] =
     (Inr sample_request_text, [])"
proof -
  have "read_subscription_proxy_http_request_head 64 [Data (take 20 sample_request_text), Data (drop 20 sample_request_text @ ''GET'')] =
      (Inr (sample_request_text @ ''GET''), [])"
    by code_simp
  moreover have "take 34 (sample_request_text @ ''GET'') = take 34 sample_request_text" by code_simp
  moreover have "read_request_body 38 2 8 (sample_request_text @ ''GET'') [] = (Inr sample_request_text, [])" by code_simp
  ultimately show ?thesis
    unfolding read_subscription_proxy_http_request_def
    using sample_request_length header_end_prefix [OF sample_request_end, of "''GET''"] by simp
qed


end
