(* ===== verification/Proxy_Manager.thy ===== *)
theory Proxy_Manager
  imports Proxy_Routes Control
begin

text \<open>
  The configuration, the certificate and the servers of the subscription proxy (\<open>src/src/subscription_proxy.rs\<close>).
  Binding a socket, the openssl program and the readers of PEM files are arguments; a server is the address it
  is bound to and what it serves, since its thread only runs the handlers of \<open>Proxy_Http\<close>.
\<close>

section \<open>Configuration\<close>

definition DEFAULT_HTTPS_LISTEN :: string where
  "DEFAULT_HTTPS_LISTEN = ''0.0.0.0:443''"

fun normalize_profiles :: "subscription_proxy_profile list \<Rightarrow> string btset \<Rightarrow> subscription_proxy_profile list result" where
  "normalize_profiles [] seen = Ok []"
| "normalize_profiles (profile # rest) seen =
     (let site_id = trim (spp_site_id profile);
          base = trim_trailing_slashes (trim (spp_upstream_base_url profile));
          path = proxy_first_non_empty (trim_subscription_path (spp_subscribe_path profile)) ''s''
      in if site_id = [] \<or> base = [] then normalize_profiles rest seen
         else if \<not> is_valid_upstream_base_url base then Err (''invalid subscription proxy upstream for site '' @ site_id)
         else if bs_contains seen (to_ascii_lowercase site_id) then normalize_profiles rest seen
         else map_ok (\<lambda>profiles. \<lparr>spp_site_id = site_id, spp_upstream_base_url = base, spp_subscribe_path = path\<rparr> # profiles)
                (normalize_profiles rest (bs_insert (to_ascii_lowercase site_id) seen)))"

definition website_key :: "string \<Rightarrow> string \<Rightarrow> string" where
  "website_key site_id path_prefix = to_ascii_lowercase site_id @ [CHR 0x00] @ path_prefix"

fun normalize_website_profiles :: "website_proxy_profile list \<Rightarrow> string btset \<Rightarrow> website_proxy_profile list result" where
  "normalize_website_profiles [] seen = Ok []"
| "normalize_website_profiles (profile # rest) seen =
     (let site_id = trim (wpp_site_id profile);
          base = trim_trailing_slashes (trim (wpp_upstream_base_url profile));
          path_prefix = normalize_proxy_path_prefix (wpp_path_prefix profile)
      in if site_id = [] \<or> base = [] then normalize_website_profiles rest seen
         else if \<not> is_valid_upstream_base_url base then Err (''invalid website proxy upstream for site '' @ site_id)
         else if bs_contains seen (website_key site_id path_prefix) then normalize_website_profiles rest seen
         else map_ok (\<lambda>profiles. \<lparr>wpp_site_id = site_id, wpp_upstream_base_url = base, wpp_path_prefix = path_prefix\<rparr> # profiles)
                (normalize_website_profiles rest (bs_insert (website_key site_id path_prefix) seen)))"

definition normalize_fields :: "subscription_proxy_config \<Rightarrow> subscription_proxy_config" where
  "normalize_fields source =
     source\<lparr>sp_https_listen := proxy_first_non_empty (trim (sp_https_listen source)) DEFAULT_HTTPS_LISTEN,
       sp_http_listen := trim (sp_http_listen source), sp_cert_file := trim (sp_cert_file source),
       sp_key_file := trim (sp_key_file source), sp_certificate_domain := trim (sp_certificate_domain source),
       sp_challenge_dir := proxy_first_non_empty (trim (sp_challenge_dir source)) DEFAULT_CHALLENGE_DIR,
       sp_site_id := trim (sp_site_id source),
       sp_upstream_base_url := trim_trailing_slashes (trim (sp_upstream_base_url source)),
       sp_subscribe_path := trim_subscription_path (sp_subscribe_path source),
       sp_max_response_bytes := response_limit (sp_max_response_bytes source)\<rparr>"

definition own_profile :: "subscription_proxy_config \<Rightarrow> subscription_proxy_profile list" where
  "own_profile config =
     (if sp_site_id config \<noteq> [] \<or> sp_upstream_base_url config \<noteq> []
      then [\<lparr>spp_site_id = sp_site_id config, spp_upstream_base_url = sp_upstream_base_url config,
              spp_subscribe_path = sp_subscribe_path config\<rparr>] else [])"

definition normalize_subscription_proxy_config :: "subscription_proxy_config \<Rightarrow> subscription_proxy_config result" where
  "normalize_subscription_proxy_config source =
     (let config = normalize_fields source
      in and_then (normalize_profiles (sp_profiles config @ own_profile config) []) (\<lambda>profiles.
         and_then (normalize_website_profiles (sp_website_profiles config) []) (\<lambda>website_profiles.
           let enabled = (sp_enabled config \<or> profiles \<noteq> [] \<or> website_profiles \<noteq> [])
           in if enabled \<and> profiles = [] \<and> website_profiles = [] then Err ''subscription proxy enabled without profiles''
              else Ok (config\<lparr>sp_profiles := profiles, sp_website_profiles := website_profiles, sp_enabled := enabled\<rparr>))))"

text \<open>The address the certificate is for.\<close>

fun ipv4_is_public :: "nat list \<Rightarrow> bool" where
  "ipv4_is_public [a, b, c, d] \<longleftrightarrow>
     \<not> (a = 10 \<or> (a = 172 \<and> 16 \<le> b \<and> b \<le> 31) \<or> (a = 192 \<and> b = 168) \<or> a = 127 \<or> (a = 169 \<and> b = 254) \<or>
        (224 \<le> a \<and> a \<le> 239) \<or> (a = 255 \<and> b = 255 \<and> c = 255 \<and> d = 255) \<or> (a = 0 \<and> b = 0 \<and> c = 0 \<and> d = 0))"
| "ipv4_is_public _ \<longleftrightarrow> False"

definition detect_valid_public_ipv4 :: "('s \<Rightarrow> string result \<times> 's) \<Rightarrow> 's \<Rightarrow> string option \<times> 's" where
  "detect_valid_public_ipv4 detect s =
     (case detect s of
        (Inl _, s') \<Rightarrow> (None, s')
      | (Inr ipv4, s') \<Rightarrow>
          (case read_ipv4_addr (trim ipv4) of
             Some (octets, []) \<Rightarrow> (if ipv4_is_public octets then Some (ipv4_text octets) else None, s')
           | _ \<Rightarrow> (None, s')))"

definition resolve_subscription_certificate_domain ::
  "string \<Rightarrow> ('s \<Rightarrow> string result \<times> 's) \<Rightarrow> 's \<Rightarrow> (string \<times> bool) \<times> 's" where
  "resolve_subscription_certificate_domain domain0 detect s =
     (let domain = trim domain0
      in case parse_ip_addr domain of
           Some (IpV6 _) \<Rightarrow>
             (case detect_valid_public_ipv4 detect s of
                (None, s') \<Rightarrow> ((domain, False), s')
              | (Some ipv4, s') \<Rightarrow> ((ipv4, ipv4 \<noteq> domain), s'))
         | _ \<Rightarrow>
             if domain \<noteq> [] then ((domain, False), s)
             else (case detect_valid_public_ipv4 detect s of
                (None, s') \<Rightarrow> (([], False), s')
              | (Some ipv4, s') \<Rightarrow> ((ipv4, True), s')))"

definition normalize_subscription_proxy_config_with_public_ipv4 ::
  "subscription_proxy_config \<Rightarrow> ('s \<Rightarrow> string result \<times> 's) \<Rightarrow> 's \<Rightarrow> subscription_proxy_config result \<times> 's" where
  "normalize_subscription_proxy_config_with_public_ipv4 source detect s =
     (case normalize_subscription_proxy_config source of
        Inl e \<Rightarrow> (Err e, s)
      | Inr config \<Rightarrow>
          if sp_enabled config
          then (case resolve_subscription_certificate_domain (sp_certificate_domain config) detect s of
                  ((domain, _), s') \<Rightarrow> (Ok (config\<lparr>sp_certificate_domain := domain\<rparr>), s'))
          else (Ok config, s))"

section \<open>Certificate files\<close>

record proxy_file_write =
  fw_path :: string
  fw_content :: string
  fw_mode :: nat

datatype serve_mode = Https | HttpFallback

definition validation_file_name :: "string \<Rightarrow> string option" where
  "validation_file_name path =
     (let cleaned = trim_end_matches is_slash (trim path); name = trim (last (split_on slash cleaned))
      in if name = [] \<or> name = ''.'' \<or> name = ''..'' \<or> CHR 0x5C \<in> set name then None else Some name)"

definition validation_content_string :: "string \<Rightarrow> string" where
  "validation_content_string content = trim content @ [CHR 0x0A]"

definition plan_subscription_proxy_validation_file :: "subscription_proxy_config \<Rightarrow> proxy_file_write option result" where
  "plan_subscription_proxy_validation_file config =
     (let path = trim (zs_validation_path (sp_zerossl config)); content = trim (zs_validation_content (sp_zerossl config))
      in if path = [] \<or> content = [] then Ok None
         else case validation_file_name path of
           None \<Rightarrow> Err (''invalid validation path: '' @ path)
         | Some name \<Rightarrow>
             Ok (Some \<lparr>fw_path = join_posix_path (proxy_first_non_empty (trim (sp_challenge_dir config)) DEFAULT_CHALLENGE_DIR) name,
               fw_content = validation_content_string content, fw_mode = 420\<rparr>))"

definition plan_subscription_proxy_certificate_file :: "subscription_proxy_config \<Rightarrow> proxy_file_write option result" where
  "plan_subscription_proxy_certificate_file config =
     (let certificate = trim (zs_certificate_pem (sp_zerossl config)); cert_file = trim (sp_cert_file config);
          ca_bundle = trim (zs_ca_bundle_pem (sp_zerossl config))
      in if certificate = [] then Ok None
         else if cert_file = [] then Err ''subscription proxy cert file is empty''
         else Ok (Some \<lparr>fw_path = cert_file,
                fw_content = certificate @ (if ca_bundle \<noteq> [] then [CHR 0x0A] @ ca_bundle else []) @ [CHR 0x0A], fw_mode = 420\<rparr>))"

definition subscription_proxy_file_readable :: "string \<Rightarrow> file_store \<Rightarrow> bool \<times> file_store" where
  "subscription_proxy_file_readable path fs =
     (if trim path = [] then (False, fs)
      else case next_fault fs of
        (Some _, fs') \<Rightarrow> (False, fs')
      | (None, fs') \<Rightarrow> (fs_files fs (trim path) \<noteq> None, fs'))"

definition set_subscription_proxy_file_mode :: "string \<Rightarrow> file_store \<Rightarrow> unit result \<times> file_store" where
  "set_subscription_proxy_file_mode path fs =
     io_map_err (\<lambda>e. ''chmod subscription proxy file '' @ path @ '': '' @ io_error_text e) (fs_set_permissions path fs)"

definition create_proxy_dir :: "string \<Rightarrow> string \<Rightarrow> file_store \<Rightarrow> unit result \<times> file_store" where
  "create_proxy_dir what path fs =
     (case path_parent path of
        None \<Rightarrow> (Ok (), fs)
      | Some parent \<Rightarrow>
          if parent = [] then (Ok (), fs)
          else io_map_err (\<lambda>e. ''create subscription proxy '' @ what @ '' '' @ parent @ '': '' @ io_error_text e) (fs_create_dir_all parent fs))"

definition write_subscription_proxy_file :: "proxy_file_write \<Rightarrow> file_store \<Rightarrow> unit result \<times> file_store" where
  "write_subscription_proxy_file w fs =
     (let path = trim (fw_path w)
      in if path = [] then (Err ''subscription proxy file path is empty'', fs)
         else io_then (create_proxy_dir ''dir'' path fs) (\<lambda>_ fs.
              io_then (io_map_err (\<lambda>e. ''write subscription proxy file '' @ path @ '': '' @ io_error_text e) (fs_write path (fw_content w) fs)) (\<lambda>_ fs.
                set_subscription_proxy_file_mode path fs)))"

section \<open>Certificate requests\<close>

record csr_plan =
  csr_key_file :: string
  csr_common_name :: string
  csr_subject_alt_name :: string
  csr_generate_key :: bool

text \<open>A character of category Cc: up to U+001F, U+007F, and U+0080 to U+009F in their UTF-8 form.\<close>

fun has_control :: "string \<Rightarrow> bool" where
  "has_control [] = False"
| "has_control (c # s) =
     (char_code c < 32 \<or> char_code c = 127 \<or>
      (char_code c = 194 \<and> (case s of d # _ \<Rightarrow> 128 \<le> char_code d \<and> char_code d \<le> 159 | [] \<Rightarrow> False)) \<or> has_control s)"

definition proxy_certificate_name :: "string \<Rightarrow> string result" where
  "proxy_certificate_name v =
     (let name = trim v
      in if name = [] then Err ''subscription proxy certificate domain is empty''
         else if has_control name \<or> list_ex (\<lambda>c. c = slash \<or> c = CHR '','' \<or> c = CHR 0x5C) name
         then Err (''invalid subscription proxy certificate domain: '' @ name)
         else Ok name)"

text \<open>\<open>trim_start_matches\<close> at a string of two characters.\<close>

fun trim_wildcards :: "string \<Rightarrow> string" where
  "trim_wildcards (c # d # s) = (if c = CHR ''*'' \<and> d = CHR ''.'' then trim_wildcards s else c # d # s)"
| "trim_wildcards s = s"

definition valid_dns_label :: "string \<Rightarrow> bool" where
  "valid_dns_label label \<longleftrightarrow>
     label \<noteq> [] \<and> length label \<le> 63 \<and> list_all (\<lambda>c. is_ascii_alphanumeric c \<or> c = CHR ''-'') label \<and>
     hd label \<noteq> CHR ''-'' \<and> last label \<noteq> CHR ''-''"

definition is_valid_dns_certificate_name :: "string \<Rightarrow> bool" where
  "is_valid_dns_certificate_name name0 \<longleftrightarrow>
     (let name = trim_wildcards (trim name0)
      in name \<noteq> [] \<and> length name \<le> 253 \<and> list_all valid_dns_label (split_on (CHR ''.'') name))"

fun ip_text :: "ip_addr \<Rightarrow> string" where
  "ip_text (IpV4 octets) = ipv4_text octets"
| "ip_text (IpV6 groups) = ipv6_text groups"

definition certificate_subject_alt_name :: "string \<Rightarrow> string result" where
  "certificate_subject_alt_name name =
     (case parse_ip_addr name of
        Some ip \<Rightarrow> Ok (''IP:'' @ ip_text ip)
      | None \<Rightarrow>
          if \<not> is_valid_dns_certificate_name name then Err (''invalid subscription proxy certificate domain: '' @ name)
          else Ok (''DNS:'' @ name))"

definition plan_subscription_proxy_csr :: "string \<Rightarrow> string \<Rightarrow> bool \<Rightarrow> csr_plan result" where
  "plan_subscription_proxy_csr key_file0 domain key_exists =
     (let key_file = trim key_file0
      in if key_file = [] then Err ''subscription proxy key file is empty''
         else and_then (proxy_certificate_name domain) (\<lambda>common_name.
              and_then (certificate_subject_alt_name common_name) (\<lambda>subject_alt_name.
                Ok \<lparr>csr_key_file = key_file, csr_common_name = common_name, csr_subject_alt_name = subject_alt_name,
                  csr_generate_key = \<not> key_exists\<rparr>)))"

text \<open>What the openssl program leaves: its output and, when it fails, the text of its status and of its error stream.\<close>

record program_output =
  po_success :: bool
  po_stdout :: string
  po_stderr :: string
  po_status :: string

type_synonym openssl = "string list \<Rightarrow> file_store \<Rightarrow> program_output result \<times> file_store"

definition run_openssl :: "openssl \<Rightarrow> string list \<Rightarrow> file_store \<Rightarrow> string result \<times> file_store" where
  "run_openssl openssl args fs =
     (case openssl args fs of
        (Inl e, fs') \<Rightarrow> (Err (''run openssl: '' @ e), fs')
      | (Inr result, fs') \<Rightarrow>
          if po_success result then (Ok (po_stdout result), fs')
          else
            let stderr = trim (po_stderr result); detail = (if stderr = [] then ''exit status '' @ po_status result else stderr)
            in (Err (''openssl '' @ join '' '' args @ '' failed: '' @ detail), fs'))"

definition csr_key :: "openssl \<Rightarrow> csr_plan \<Rightarrow> file_store \<Rightarrow> unit result \<times> file_store" where
  "csr_key openssl plan fs =
     (if \<not> csr_generate_key plan then (Ok (), fs)
      else io_then (create_proxy_dir ''key dir'' (csr_key_file plan) fs) (\<lambda>_ fs.
           io_then (run_openssl openssl [''genrsa'', ''-out'', csr_key_file plan, ''2048''] fs) (\<lambda>_ fs.
             set_subscription_proxy_file_mode (csr_key_file plan) fs)))"

definition ensure_subscription_proxy_csr_with_openssl ::
  "openssl \<Rightarrow> (string \<Rightarrow> string) \<Rightarrow> string \<Rightarrow> string \<Rightarrow> file_store \<Rightarrow> string result \<times> file_store" where
  "ensure_subscription_proxy_csr_with_openssl openssl utf8_error key_file domain fs =
     (case subscription_proxy_file_readable key_file fs of (readable, fs0) \<Rightarrow>
       (case plan_subscription_proxy_csr key_file domain readable of
          Inl e \<Rightarrow> (Err e, fs0)
        | Inr plan \<Rightarrow>
            io_then (csr_key openssl plan fs0) (\<lambda>_ fs.
            io_then (run_openssl openssl
                [''req'', ''-new'', ''-sha256'', ''-batch'', ''-key'', csr_key_file plan, ''-subj'', ''/CN='' @ csr_common_name plan, ''-addext'',
                 ''subjectAltName='' @ csr_subject_alt_name plan] fs) (\<lambda>text_bytes fs.
              (if utf8_valid text_bytes then Ok text_bytes else Err (''decode openssl csr output: '' @ utf8_error text_bytes), fs)))))"

section \<open>The state of the certificate\<close>

definition proxy_status_default :: subscription_proxy_status where
  "proxy_status_default =
     \<lparr>sps_status = [], sps_enabled = False, sps_running = False, sps_mode = [], sps_https_listen = [], sps_profiles = 0,
      sps_website_profiles = 0, sps_certificate_domain = [], sps_certificate_owner_site_id = [], sps_certificate_id = [],
      sps_need_certificate = False, sps_csr_pem = [], sps_validation_ready = False, sps_cert_not_after = [], sps_last_error = []\<rparr>"

text \<open>The callbacks of \<open>apply\<close>, over a state they share.\<close>

record 's proxy_callbacks =
  pc_not_after :: "string \<Rightarrow> 's \<Rightarrow> string \<times> 's"
  pc_csr :: "string \<Rightarrow> string \<Rightarrow> 's \<Rightarrow> string result \<times> 's"
  pc_readable :: "string \<Rightarrow> 's \<Rightarrow> bool \<times> 's"
  pc_write :: "proxy_file_write \<Rightarrow> 's \<Rightarrow> unit result \<times> 's"

definition subscription_proxy_cert_not_after ::
  "'s proxy_callbacks \<Rightarrow> string \<Rightarrow> string \<Rightarrow> 's \<Rightarrow> string \<times> 's" where
  "subscription_proxy_cert_not_after cb cert_file expires_at s =
     (case pc_not_after cb cert_file s of (v, s') \<Rightarrow> (proxy_first_non_empty (trim v) (trim expires_at), s'))"

text \<open>Both files, asked in order; the key only when the certificate is there.\<close>

definition cert_files_readable :: "'s proxy_callbacks \<Rightarrow> subscription_proxy_config \<Rightarrow> 's \<Rightarrow> bool \<times> 's" where
  "cert_files_readable cb config s =
     (case pc_readable cb (trim (sp_cert_file config)) s of
        (False, s') \<Rightarrow> (False, s')
      | (True, s') \<Rightarrow> pc_readable cb (trim (sp_key_file config)) s')"

definition initial_certificate_status :: "subscription_proxy_config \<Rightarrow> string \<Rightarrow> subscription_proxy_status" where
  "initial_certificate_status config not_after =
     proxy_status_default\<lparr>sps_certificate_domain := trim (sp_certificate_domain config),
       sps_certificate_id := trim (zs_certificate_id (sp_zerossl config)), sps_cert_not_after := not_after\<rparr>"

definition csr_status ::
  "'s proxy_callbacks \<Rightarrow> subscription_proxy_config \<Rightarrow> subscription_proxy_status \<Rightarrow> 's \<Rightarrow> subscription_proxy_status \<times> 's" where
  "csr_status cb config status s =
     (let domain = trim (sp_certificate_domain config)
      in if domain = [] then (status, s)
         else case pc_csr cb (trim (sp_key_file config)) domain s of
           (Inl e, s') \<Rightarrow> (status\<lparr>sps_last_error := e\<rparr>, s')
         | (Inr csr_pem, s') \<Rightarrow>
             (case cert_files_readable cb config s' of
                (readable, s'') \<Rightarrow>
                  (status\<lparr>sps_csr_pem := csr_pem, sps_need_certificate := (if readable then sps_need_certificate status else True)\<rparr>, s'')))"

definition prepare_subscription_proxy_certificate_status ::
  "'s proxy_callbacks \<Rightarrow> subscription_proxy_config \<Rightarrow> 's \<Rightarrow> subscription_proxy_status \<times> 's" where
  "prepare_subscription_proxy_certificate_status cb config s =
     (case subscription_proxy_cert_not_after cb (trim (sp_cert_file config)) (zs_expires_at (sp_zerossl config)) s of
        (not_after, s') \<Rightarrow> csr_status cb config (initial_certificate_status config not_after) s')"

definition write_validation_file ::
  "'s proxy_callbacks \<Rightarrow> subscription_proxy_config \<Rightarrow> subscription_proxy_status \<Rightarrow> 's \<Rightarrow> subscription_proxy_status \<times> 's" where
  "write_validation_file cb config status s =
     (case plan_subscription_proxy_validation_file config of
        Inl e \<Rightarrow> (status\<lparr>sps_last_error := e\<rparr>, s)
      | Inr None \<Rightarrow> (status, s)
      | Inr (Some w) \<Rightarrow>
          (case pc_write cb w s of
             (Inr _, s') \<Rightarrow> (status\<lparr>sps_validation_ready := True\<rparr>, s')
           | (Inl e, s') \<Rightarrow> (status\<lparr>sps_last_error := e\<rparr>, s')))"

definition write_proxy_certificate ::
  "'s proxy_callbacks \<Rightarrow> subscription_proxy_config \<Rightarrow> subscription_proxy_status \<Rightarrow> 's \<Rightarrow> subscription_proxy_status \<times> 's" where
  "write_proxy_certificate cb config status s =
     (case plan_subscription_proxy_certificate_file config of
        Inl e \<Rightarrow> (status\<lparr>sps_last_error := e\<rparr>, s)
      | Inr None \<Rightarrow> (status, s)
      | Inr (Some w) \<Rightarrow>
          (case pc_write cb w s of
             (Inr _, s') \<Rightarrow>
               (case subscription_proxy_cert_not_after cb (trim (sp_cert_file config)) (zs_expires_at (sp_zerossl config)) s' of
                  (not_after, s'') \<Rightarrow> (status\<lparr>sps_cert_not_after := not_after\<rparr>, s''))
           | (Inl e, s') \<Rightarrow> (status\<lparr>sps_last_error := e\<rparr>, s')))"

definition prepare_subscription_proxy_certificate_status_with_file_writes ::
  "'s proxy_callbacks \<Rightarrow> subscription_proxy_config \<Rightarrow> 's \<Rightarrow> subscription_proxy_status \<times> 's" where
  "prepare_subscription_proxy_certificate_status_with_file_writes cb config s =
     (case subscription_proxy_cert_not_after cb (trim (sp_cert_file config)) (zs_expires_at (sp_zerossl config)) s of
        (not_after, s1) \<Rightarrow>
          (case write_validation_file cb config (initial_certificate_status config not_after) s1 of
             (status2, s2) \<Rightarrow>
               (case write_proxy_certificate cb config status2 s2 of (status3, s3) \<Rightarrow> csr_status cb config status3 s3)))"

section \<open>What to apply\<close>

datatype proxy_apply_action = ApplyDisabled | ApplyUnchanged | ApplyStart | ApplyError

record proxy_apply_plan =
  ap_action :: proxy_apply_action
  ap_fingerprint :: string
  ap_status :: subscription_proxy_status
  ap_serve_mode :: "serve_mode option"
  ap_profiles :: "subscription_proxy_profile list"
  ap_website_profiles :: "website_proxy_profile list"

definition subscription_proxy_certificate_owner_site_id :: "subscription_proxy_profile list \<Rightarrow> string" where
  "subscription_proxy_certificate_owner_site_id profiles =
     unwrap_or [] (find (\<lambda>site_id. site_id \<noteq> []) (map (\<lambda>profile. trim (spp_site_id profile)) profiles))"

definition plan_subscription_proxy_serve_mode :: "'s proxy_callbacks \<Rightarrow> subscription_proxy_config \<Rightarrow> 's \<Rightarrow> serve_mode result \<times> 's" where
  "plan_subscription_proxy_serve_mode cb config s =
     (case cert_files_readable cb config s of (readable, s') \<Rightarrow>
       (if readable then Ok Https
        else if sp_allow_http_fallback config then Ok HttpFallback
        else Err (''subscription proxy certificate files are not readable: cert='' @ trim (sp_cert_file config) @ '' key='' @ trim (sp_key_file config)),
        s'))"

text \<open>Sorting is stable, so the two sorts of the website profiles are the order by prefix, then by site.\<close>

definition subscription_proxy_fingerprint :: "subscription_proxy_config \<Rightarrow> string" where
  "subscription_proxy_fingerprint config =
     join [CHR 0x00]
       ([trim (sp_https_listen config), trim (sp_http_listen config), trim (sp_cert_file config), trim (sp_key_file config),
         trim (sp_certificate_domain config), trim (sp_challenge_dir config), trim (zs_certificate_id (sp_zerossl config)),
         trim (zs_validation_path (sp_zerossl config)), trim (zs_validation_content (sp_zerossl config)),
         trim (zs_certificate_pem (sp_zerossl config)), trim (zs_ca_bundle_pem (sp_zerossl config)),
         bool_to_string (sp_allow_http_fallback config), nat_to_string (unat (sp_max_response_bytes config))] @
        concat (map (\<lambda>profile. [trim (spp_site_id profile), trim_end_matches is_slash (spp_upstream_base_url profile),
            trim_matches is_slash (spp_subscribe_path profile)]) (sort_key spp_site_id (sp_profiles config))) @
        concat (map (\<lambda>profile. [trim (wpp_site_id profile), trim_end_matches is_slash (wpp_upstream_base_url profile),
            normalize_proxy_path_prefix (wpp_path_prefix profile)])
          (sort_key wpp_path_prefix (sort_key wpp_site_id (sp_website_profiles config)))))"

definition if_set :: "string \<Rightarrow> string \<Rightarrow> string" where
  "if_set new old = (if new = [] then old else new)"

definition merge_subscription_proxy_status :: "subscription_proxy_status \<Rightarrow> subscription_proxy_status \<Rightarrow> subscription_proxy_status" where
  "merge_subscription_proxy_status target source =
     target\<lparr>sps_certificate_domain := if_set (sps_certificate_domain source) (sps_certificate_domain target),
       sps_certificate_owner_site_id := if_set (sps_certificate_owner_site_id source) (sps_certificate_owner_site_id target),
       sps_certificate_id := if_set (sps_certificate_id source) (sps_certificate_id target),
       sps_need_certificate := sps_need_certificate source, sps_csr_pem := sps_csr_pem source,
       sps_validation_ready := sps_validation_ready source,
       sps_cert_not_after := if_set (sps_cert_not_after source) (sps_cert_not_after target),
       sps_last_error := if_set (sps_last_error source) (sps_last_error target)\<rparr>"

fun serve_mode_text :: "serve_mode \<Rightarrow> string" where
  "serve_mode_text Https = ''https''"
| "serve_mode_text HttpFallback = ''http''"

definition disabled_plan :: proxy_apply_plan where
  "disabled_plan =
     \<lparr>ap_action = ApplyDisabled, ap_fingerprint = [],
      ap_status = proxy_status_default\<lparr>sps_status := ''disabled'', sps_enabled := False, sps_running := False, sps_mode := ''disabled''\<rparr>,
      ap_serve_mode = None, ap_profiles = [], ap_website_profiles = []\<rparr>"

definition applied_status :: "subscription_proxy_config \<Rightarrow> serve_mode result \<Rightarrow> subscription_proxy_status" where
  "applied_status config served =
     (let status = proxy_status_default\<lparr>sps_enabled := True, sps_https_listen := trim (sp_https_listen config),
            sps_profiles := length (sp_profiles config), sps_website_profiles := length (sp_website_profiles config),
            sps_certificate_owner_site_id := subscription_proxy_certificate_owner_site_id (sp_profiles config)\<rparr>
      in case served of
           Inr mode \<Rightarrow> status\<lparr>sps_status := ''running'', sps_running := True, sps_mode := serve_mode_text mode\<rparr>
         | Inl e \<Rightarrow> status\<lparr>sps_status := ''error'', sps_running := False, sps_mode := ''error'', sps_last_error := e\<rparr>)"

definition plan_subscription_proxy_apply ::
  "'s proxy_callbacks \<Rightarrow> subscription_proxy_config \<Rightarrow> string \<Rightarrow> subscription_proxy_status \<Rightarrow> 's \<Rightarrow> proxy_apply_plan \<times> 's" where
  "plan_subscription_proxy_apply cb config current certificate_status s =
     (if \<not> sp_enabled config \<or> (sp_profiles config = [] \<and> sp_website_profiles config = []) then (disabled_plan, s)
      else
        let fingerprint = subscription_proxy_fingerprint config
        in if current \<noteq> [] \<and> current = fingerprint
           then (\<lparr>ap_action = ApplyUnchanged, ap_fingerprint = fingerprint, ap_status = certificate_status, ap_serve_mode = None,
                   ap_profiles = sp_profiles config, ap_website_profiles = sp_website_profiles config\<rparr>, s)
           else case plan_subscription_proxy_serve_mode cb config s of (served, s') \<Rightarrow>
             (\<lparr>ap_action = (case served of Inr _ \<Rightarrow> ApplyStart | Inl _ \<Rightarrow> ApplyError), ap_fingerprint = fingerprint,
               ap_status = merge_subscription_proxy_status (applied_status config served) certificate_status,
               ap_serve_mode = (case served of Inr mode \<Rightarrow> Some mode | Inl _ \<Rightarrow> None),
               ap_profiles = sp_profiles config, ap_website_profiles = sp_website_profiles config\<rparr>, s'))"

section \<open>Servers\<close>

record http_server_plan =
  hs_listen :: string
  hs_challenge_dir :: string

record main_server_plan =
  ms_listen :: string
  ms_mode :: serve_mode
  ms_cert_file :: string
  ms_key_file :: string
  ms_max_response_bytes :: u64
  ms_profiles :: "subscription_proxy_profile list"
  ms_website_profiles :: "website_proxy_profile list"

datatype proxy_service = MainService main_server_plan | ChallengeService subscription_proxy_config

record server_handle =
  sh_listen :: string
  sh_service :: proxy_service

text \<open>
  The sockets and the TLS library: binding an address while those of a list are in use, switching the socket to
  non-blocking, the certificates and the key of a PEM file, and the configuration made from them.
\<close>

record server_ops =
  sv_bind :: "string \<Rightarrow> string list \<Rightarrow> string result"
  sv_nonblocking :: "string \<Rightarrow> unit result"
  sv_certs :: "string \<Rightarrow> string list result"
  sv_key :: "string \<Rightarrow> string option result"
  sv_versions :: "unit result"
  sv_tls :: "string list \<Rightarrow> string \<Rightarrow> unit result"

definition plan_subscription_proxy_http_server :: "subscription_proxy_config \<Rightarrow> http_server_plan option" where
  "plan_subscription_proxy_http_server config =
     (let listen = trim (sp_http_listen config)
      in if listen = [] then None
         else Some \<lparr>hs_listen = listen, hs_challenge_dir = proxy_first_non_empty (trim (sp_challenge_dir config)) DEFAULT_CHALLENGE_DIR\<rparr>)"

definition plan_subscription_proxy_main_server :: "subscription_proxy_config \<Rightarrow> serve_mode \<Rightarrow> main_server_plan" where
  "plan_subscription_proxy_main_server config mode =
     \<lparr>ms_listen = proxy_first_non_empty (trim (sp_https_listen config)) DEFAULT_HTTPS_LISTEN, ms_mode = mode,
      ms_cert_file = trim (sp_cert_file config), ms_key_file = trim (sp_key_file config),
      ms_max_response_bytes = response_limit (sp_max_response_bytes config), ms_profiles = sp_profiles config,
      ms_website_profiles = sp_website_profiles config\<rparr>"

definition spawn_server :: "string \<Rightarrow> server_ops \<Rightarrow> string list \<Rightarrow> string \<Rightarrow> proxy_service \<Rightarrow> server_handle result" where
  "spawn_server what ops used listen service =
     (case sv_bind ops listen used of
        Inl e \<Rightarrow> Err (''bind subscription proxy '' @ what @ '' '' @ listen @ '': '' @ e)
      | Inr bound \<Rightarrow>
          (case sv_nonblocking ops listen of
             Inl e \<Rightarrow> Err (''set subscription proxy '' @ what @ '' nonblocking '' @ listen @ '': '' @ e)
           | Inr _ \<Rightarrow> Ok \<lparr>sh_listen = bound, sh_service = service\<rparr>))"

definition open_proxy_file :: "string \<Rightarrow> string \<Rightarrow> file_store \<Rightarrow> string result \<times> file_store" where
  "open_proxy_file what path fs =
     io_map_err (\<lambda>e. ''open subscription proxy '' @ what @ '' file '' @ path @ '': '' @ io_error_text e) (fs_read path fs)"

definition load_subscription_proxy_certs :: "server_ops \<Rightarrow> string \<Rightarrow> file_store \<Rightarrow> string list result \<times> file_store" where
  "load_subscription_proxy_certs ops cert_file fs =
     io_then (open_proxy_file ''cert'' cert_file fs) (\<lambda>content fs.
       case sv_certs ops content of
         Inl e \<Rightarrow> (Err (''parse subscription proxy cert file '' @ cert_file @ '': '' @ e), fs)
       | Inr certs \<Rightarrow>
           (if certs = [] then Err (''subscription proxy cert file '' @ cert_file @ '' has no certificates'') else Ok certs, fs))"

definition load_subscription_proxy_private_key :: "server_ops \<Rightarrow> string \<Rightarrow> file_store \<Rightarrow> string result \<times> file_store" where
  "load_subscription_proxy_private_key ops key_file fs =
     io_then (open_proxy_file ''key'' key_file fs) (\<lambda>content fs.
       case sv_key ops content of
         Inl e \<Rightarrow> (Err (''parse subscription proxy key file '' @ key_file @ '': '' @ e), fs)
       | Inr None \<Rightarrow> (Err (''subscription proxy key file '' @ key_file @ '' has no private key''), fs)
       | Inr (Some key) \<Rightarrow> (Ok key, fs))"

definition load_subscription_proxy_tls_config :: "server_ops \<Rightarrow> string \<Rightarrow> string \<Rightarrow> file_store \<Rightarrow> unit result \<times> file_store" where
  "load_subscription_proxy_tls_config ops cert_file0 key_file0 fs =
     (let cert_file = trim cert_file0; key_file = trim key_file0
      in if cert_file = [] \<or> key_file = [] then (Err ''subscription proxy HTTPS requires cert_file and key_file'', fs)
         else io_then (load_subscription_proxy_certs ops cert_file fs) (\<lambda>certs fs.
              io_then (load_subscription_proxy_private_key ops key_file fs) (\<lambda>key fs.
                (case sv_versions ops of
                   Inl e \<Rightarrow> Err (''configure subscription proxy TLS versions: '' @ e)
                 | Inr _ \<Rightarrow>
                     (case sv_tls ops certs key of
                        Inl e \<Rightarrow> Err (''load subscription proxy TLS certificate: '' @ e)
                      | Inr _ \<Rightarrow> Ok ()), fs))))"

definition spawn_subscription_proxy_main_http_fallback_server ::
  "server_ops \<Rightarrow> string list \<Rightarrow> main_server_plan \<Rightarrow> server_handle result" where
  "spawn_subscription_proxy_main_http_fallback_server ops used plan =
     (if ms_mode plan \<noteq> HttpFallback then Err ''subscription proxy main server only supports HTTP fallback in this runtime''
      else spawn_server ''server'' ops used (ms_listen plan) (MainService plan))"

definition spawn_subscription_proxy_main_https_server ::
  "server_ops \<Rightarrow> string list \<Rightarrow> main_server_plan \<Rightarrow> file_store \<Rightarrow> server_handle result \<times> file_store" where
  "spawn_subscription_proxy_main_https_server ops used plan fs =
     (if ms_mode plan \<noteq> Https then (Err ''subscription proxy HTTPS server requires https mode'', fs)
      else io_then (load_subscription_proxy_tls_config ops (ms_cert_file plan) (ms_key_file plan) fs) (\<lambda>_ fs.
        (spawn_server ''HTTPS server'' ops used (ms_listen plan) (MainService plan), fs)))"

definition spawn_subscription_proxy_http_challenge_server ::
  "server_ops \<Rightarrow> string list \<Rightarrow> subscription_proxy_config \<Rightarrow> server_handle option result" where
  "spawn_subscription_proxy_http_challenge_server ops used config =
     (case plan_subscription_proxy_http_server config of
        None \<Rightarrow> Ok None
      | Some plan \<Rightarrow> map_ok Some (spawn_server ''server'' ops used (hs_listen plan) (ChallengeService (config\<lparr>sp_challenge_dir := hs_challenge_dir plan\<rparr>))))"

section \<open>The manager\<close>

record proxy_manager =
  pm_fingerprint :: string
  pm_status :: subscription_proxy_status
  pm_main_server :: "server_handle option"
  pm_http_server :: "server_handle option"

definition proxy_manager_new :: proxy_manager where
  "proxy_manager_new = \<lparr>pm_fingerprint = [], pm_status = proxy_status_default, pm_main_server = None, pm_http_server = None\<rparr>"

definition manager_apply ::
  "'s proxy_callbacks \<Rightarrow> subscription_proxy_config \<Rightarrow> proxy_manager \<Rightarrow> 's \<Rightarrow> proxy_apply_plan result \<times> proxy_manager \<times> 's" where
  "manager_apply cb source m s =
     (case normalize_subscription_proxy_config source of
        Inl e \<Rightarrow> (Err e, m, s)
      | Inr config \<Rightarrow>
          (case prepare_subscription_proxy_certificate_status_with_file_writes cb config s of (certificate_status, s1) \<Rightarrow>
            (case plan_subscription_proxy_apply cb config (pm_fingerprint m) certificate_status s1 of (plan0, s2) \<Rightarrow>
              let plan = (if ap_action plan0 = ApplyUnchanged
                          then plan0\<lparr>ap_status := merge_subscription_proxy_status (pm_status m) (ap_status plan0)\<rparr> else plan0)
              in (Ok plan,
                  m\<lparr>pm_fingerprint := (if ap_action plan = ApplyDisabled then [] else ap_fingerprint plan), pm_status := ap_status plan\<rparr>, s2))))"

definition used_addresses :: "proxy_manager \<Rightarrow> string list" where
  "used_addresses m = map sh_listen (option_list (pm_main_server m) @ option_list (pm_http_server m))"

definition stop_main_server :: "proxy_manager \<Rightarrow> proxy_manager" where
  "stop_main_server m = m\<lparr>pm_main_server := None\<rparr>"

definition stop_servers :: "proxy_manager \<Rightarrow> proxy_manager" where
  "stop_servers m = (stop_main_server m)\<lparr>pm_http_server := None\<rparr>"

text \<open>The new server is bound first; the one it replaces is dropped, and so stopped, by the assignment.\<close>

definition replace_http_server ::
  "server_ops \<Rightarrow> subscription_proxy_config \<Rightarrow> proxy_manager \<Rightarrow> unit result \<times> proxy_manager" where
  "replace_http_server ops config m =
     (case spawn_subscription_proxy_http_challenge_server ops (used_addresses m) config of
        Inl e \<Rightarrow> (Err e, m)
      | Inr server \<Rightarrow> (Ok (), m\<lparr>pm_http_server := server\<rparr>))"

definition sync_servers_for_apply_plan ::
  "server_ops \<Rightarrow> subscription_proxy_config \<Rightarrow> proxy_apply_plan \<Rightarrow> proxy_manager \<times> file_store \<Rightarrow> unit result \<times> proxy_manager \<times> file_store" where
  "sync_servers_for_apply_plan ops config plan st =
     (let (m, fs) = st
      in case ap_action plan of
           ApplyDisabled \<Rightarrow> (Ok (), stop_servers m, fs)
         | ApplyUnchanged \<Rightarrow> (Ok (), m, fs)
         | ApplyError \<Rightarrow> (case replace_http_server ops config (stop_main_server m) of (r, m') \<Rightarrow> (r, m', fs))
         | ApplyStart \<Rightarrow>
             (case replace_http_server ops config m of
                (Inl e, m') \<Rightarrow> (Err e, m', fs)
              | (Inr _, m') \<Rightarrow>
                  (case ap_serve_mode plan of
                     None \<Rightarrow> (Ok (), stop_main_server m', fs)
                   | Some mode \<Rightarrow>
                       let main_plan = plan_subscription_proxy_main_server config mode;
                           (r, fs') = (case mode of
                               HttpFallback \<Rightarrow> (spawn_subscription_proxy_main_http_fallback_server ops (used_addresses m') main_plan, fs)
                             | Https \<Rightarrow> spawn_subscription_proxy_main_https_server ops (used_addresses m') main_plan fs)
                       in case r of
                            Inl e \<Rightarrow> (Err e, m', fs')
                          | Inr server \<Rightarrow> (Ok (), m'\<lparr>pm_main_server := Some server\<rparr>, fs'))))"

definition file_callbacks :: "(string \<Rightarrow> string \<Rightarrow> file_store \<Rightarrow> string result \<times> file_store) \<Rightarrow> file_store proxy_callbacks" where
  "file_callbacks csr =
     \<lparr>pc_not_after = (\<lambda>_ fs. ([], fs)), pc_csr = csr, pc_readable = subscription_proxy_file_readable, pc_write = write_subscription_proxy_file\<rparr>"

definition apply_with_file_system ::
  "(string \<Rightarrow> string \<Rightarrow> file_store \<Rightarrow> string result \<times> file_store) \<Rightarrow> subscription_proxy_config \<Rightarrow> proxy_manager \<Rightarrow> file_store \<Rightarrow>
   proxy_apply_plan result \<times> proxy_manager \<times> file_store" where
  "apply_with_file_system csr config m fs = manager_apply (file_callbacks csr) config m fs"

definition apply_and_start_with_file_system ::
  "server_ops \<Rightarrow> (string \<Rightarrow> string \<Rightarrow> file_store \<Rightarrow> string result \<times> file_store) \<Rightarrow> subscription_proxy_config \<Rightarrow> proxy_manager \<Rightarrow> file_store \<Rightarrow>
   proxy_apply_plan result \<times> proxy_manager \<times> file_store" where
  "apply_and_start_with_file_system ops csr source m fs =
     (case normalize_subscription_proxy_config source of
        Inl e \<Rightarrow> (Err e, m, fs)
      | Inr config \<Rightarrow>
          (case apply_with_file_system csr config m fs of
             (Inl e, m1, fs1) \<Rightarrow> (Err e, m1, fs1)
           | (Inr plan, m1, fs1) \<Rightarrow>
               (case sync_servers_for_apply_plan ops config plan (m1, fs1) of
                  (Inr _, m2, fs2) \<Rightarrow> (Ok plan, m2, fs2)
                | (Inl e, m2, fs2) \<Rightarrow>
                    (Err e, m2\<lparr>pm_status := (pm_status m2)\<lparr>sps_status := ''error'', sps_running := False, sps_mode := ''error'',
                       sps_last_error := e\<rparr>\<rparr>, fs2))))"

section \<open>A normalized configuration\<close>

lemma normalize_profiles_ok:
  "normalize_profiles profiles seen = Inr kept \<Longrightarrow>
     distinct (map (to_ascii_lowercase \<circ> spp_site_id) kept) \<and>
     (\<forall>profile \<in> set kept. \<not> bs_contains seen (to_ascii_lowercase (spp_site_id profile)) \<and> spp_site_id profile \<noteq> [] \<and>
        is_valid_upstream_base_url (spp_upstream_base_url profile))"
proof (induction profiles arbitrary: seen kept)
  case (Cons profile rest)
  define site where "site = trim (spp_site_id profile)"
  define base where "base = trim_trailing_slashes (trim (spp_upstream_base_url profile))"
  note step = Cons.prems [simplified, folded site_def base_def]
  consider "normalize_profiles rest seen = Inr kept"
    | tail first where "normalize_profiles rest (bs_insert (to_ascii_lowercase site) seen) = Inr tail" "kept = first # tail"
      "spp_site_id first = site" "is_valid_upstream_base_url (spp_upstream_base_url first)" "site \<noteq> []"
      "\<not> bs_contains seen (to_ascii_lowercase site)"
    using step by (auto simp: Let_def map_ok_Inr split: if_splits)
  then show ?case
  proof cases
    case 1
    then show ?thesis by (rule Cons.IH)
  next
    case 2
    from Cons.IH [OF 2(1)] show ?thesis using 2(2-6) by (auto simp: bs_member_insert)
  qed
qed simp

abbreviation website_profile_key :: "website_proxy_profile \<Rightarrow> string" where
  "website_profile_key profile \<equiv> website_key (wpp_site_id profile) (wpp_path_prefix profile)"

lemma normalize_website_profiles_ok:
  "normalize_website_profiles profiles seen = Inr kept \<Longrightarrow>
     distinct (map website_profile_key kept) \<and>
     (\<forall>profile \<in> set kept. \<not> bs_contains seen (website_profile_key profile) \<and> wpp_site_id profile \<noteq> [] \<and>
        is_valid_upstream_base_url (wpp_upstream_base_url profile))"
proof (induction profiles arbitrary: seen kept)
  case (Cons profile rest)
  define site where "site = trim (wpp_site_id profile)"
  define base where "base = trim_trailing_slashes (trim (wpp_upstream_base_url profile))"
  define pre where "pre = normalize_proxy_path_prefix (wpp_path_prefix profile)"
  note step = Cons.prems [simplified, folded site_def base_def pre_def]
  consider "normalize_website_profiles rest seen = Inr kept"
    | tail first where "normalize_website_profiles rest (bs_insert (website_key site pre) seen) = Inr tail" "kept = first # tail"
      "wpp_site_id first = site" "wpp_path_prefix first = pre" "is_valid_upstream_base_url (wpp_upstream_base_url first)" "site \<noteq> []"
      "\<not> bs_contains seen (website_key site pre)"
    using step by (auto simp: Let_def map_ok_Inr split: if_splits)
  then show ?case
  proof cases
    case 1
    then show ?thesis by (rule Cons.IH)
  next
    case 2
    from Cons.IH [OF 2(1)] show ?thesis using 2(2-7) by (auto simp: bs_member_insert)
  qed
qed simp

text \<open>
  C23: A configuration that is accepted has a response limit, profiles with different sites (without regard to case) and
  websites with different sites and prefixes, each with a name and a usable upstream address, and is enabled
  exactly when it has one of them.
\<close>

theorem normalized_config_ok:
  assumes "normalize_subscription_proxy_config source = Inr config"
  shows "distinct (map (to_ascii_lowercase \<circ> spp_site_id) (sp_profiles config)) \<and>
    distinct (map (\<lambda>profile. website_key (wpp_site_id profile) (wpp_path_prefix profile)) (sp_website_profiles config)) \<and>
    (\<forall>profile \<in> set (sp_profiles config). spp_site_id profile \<noteq> [] \<and> is_valid_upstream_base_url (spp_upstream_base_url profile)) \<and>
    (\<forall>profile \<in> set (sp_website_profiles config). wpp_site_id profile \<noteq> [] \<and> is_valid_upstream_base_url (wpp_upstream_base_url profile)) \<and>
    (sp_enabled config \<longleftrightarrow> sp_profiles config \<noteq> [] \<or> sp_website_profiles config \<noteq> []) \<and>
    sp_max_response_bytes config \<noteq> 0"
proof -
  define fields where "fields = normalize_fields source"
  have limit: "sp_max_response_bytes fields \<noteq> 0"
    by (simp add: fields_def normalize_fields_def response_limit_def DEFAULT_MAX_RESPONSE_BYTES_def)
  obtain profiles websites where "normalize_profiles (sp_profiles fields @ own_profile fields) [] = Inr profiles"
    "normalize_website_profiles (sp_website_profiles fields) [] = Inr websites"
    and config: "config = fields\<lparr>sp_profiles := profiles, sp_website_profiles := websites,
      sp_enabled := sp_enabled fields \<or> profiles \<noteq> [] \<or> websites \<noteq> []\<rparr>"
    "\<not> ((sp_enabled fields \<or> profiles \<noteq> [] \<or> websites \<noteq> []) \<and> profiles = [] \<and> websites = [])"
    using assms by (auto simp: normalize_subscription_proxy_config_def and_then_Inr fields_def Let_def split: if_splits)
  note kept = normalize_profiles_ok [OF this(1)] normalize_website_profiles_ok [OF this(2)]
  show ?thesis using kept config limit by auto
qed

section \<open>The manager and its servers\<close>

definition served_as_said :: "proxy_manager \<Rightarrow> bool" where
  "served_as_said m \<longleftrightarrow>
     (sps_running (pm_status m) \<longrightarrow>
       (\<exists>listen plan. pm_main_server m = Some \<lparr>sh_listen = listen, sh_service = MainService plan\<rparr> \<and>
          serve_mode_text (ms_mode plan) = sps_mode (pm_status m)))"

lemma merge_status_frame [simp]:
  "sps_running (merge_subscription_proxy_status target source) = sps_running target"
  "sps_mode (merge_subscription_proxy_status target source) = sps_mode target"
  "sps_status (merge_subscription_proxy_status target source) = sps_status target"
  by (simp_all add: merge_subscription_proxy_status_def)

lemma plan_apply_cases:
  assumes "plan_subscription_proxy_apply cb config current cert s = (plan, s')"
  shows "case ap_action plan of
     ApplyDisabled \<Rightarrow> \<not> sps_running (ap_status plan)
   | ApplyUnchanged \<Rightarrow> True
   | ApplyError \<Rightarrow> \<not> sps_running (ap_status plan)
   | ApplyStart \<Rightarrow> \<exists>mode. ap_serve_mode plan = Some mode \<and> sps_mode (ap_status plan) = serve_mode_text mode"
  using assms
  by (auto simp: plan_subscription_proxy_apply_def disabled_plan_def applied_status_def proxy_status_default_def Let_def
      split: if_splits prod.splits sum.splits)

lemma manager_apply_frame:
  assumes "manager_apply cb config m s = (r, m', s')"
  shows "pm_main_server m' = pm_main_server m \<and>
    (case r of Inl e \<Rightarrow> m' = m
     | Inr plan \<Rightarrow> pm_status m' = ap_status plan \<and>
         (case ap_action plan of
            ApplyDisabled \<Rightarrow> \<not> sps_running (ap_status plan)
          | ApplyUnchanged \<Rightarrow> sps_running (ap_status plan) = sps_running (pm_status m) \<and> sps_mode (ap_status plan) = sps_mode (pm_status m)
          | ApplyError \<Rightarrow> \<not> sps_running (ap_status plan)
          | ApplyStart \<Rightarrow> \<exists>mode. ap_serve_mode plan = Some mode \<and> sps_mode (ap_status plan) = serve_mode_text mode))"
proof (cases "normalize_subscription_proxy_config config")
  case (Inr normalized)
  obtain cert s1 where c: "prepare_subscription_proxy_certificate_status_with_file_writes cb normalized s = (cert, s1)" by (rule prod.exhaust)
  obtain plan0 s2 where p: "plan_subscription_proxy_apply cb normalized (pm_fingerprint m) cert s1 = (plan0, s2)" by (rule prod.exhaust)
  show ?thesis
    using assms Inr c p plan_apply_cases [OF p] by (cases "ap_action plan0") (auto simp: manager_apply_def Let_def)
qed (use assms in \<open>auto simp: manager_apply_def\<close>)

lemma fst_io_then_Inr: "fst (io_then r k) = Inr b \<longleftrightarrow> (\<exists>a s. r = (Inr a, s) \<and> fst (k a s) = Inr b)"
  by (cases "(r, k)" rule: io_then.cases) auto

lemma spawn_server_service: "spawn_server what ops used listen service = Inr h \<Longrightarrow> sh_service h = service"
  by (auto simp: spawn_server_def split: sum.splits)

lemma replace_http_frame: "replace_http_server ops config m = (r, m') \<Longrightarrow> pm_main_server m' = pm_main_server m \<and> pm_status m' = pm_status m"
  by (auto simp: replace_http_server_def split: sum.splits)

lemma sync_servers_served:
  assumes "sync_servers_for_apply_plan ops config plan (m, fs) = (Inr u, m', fs')"
  shows "pm_status m' = pm_status m \<and>
    (case ap_action plan of
       ApplyUnchanged \<Rightarrow> m' = m
     | ApplyStart \<Rightarrow>
         \<forall>mode. ap_serve_mode plan = Some mode \<longrightarrow>
           (\<exists>listen served. pm_main_server m' = Some \<lparr>sh_listen = listen, sh_service = MainService served\<rparr> \<and> ms_mode served = mode)
     | _ \<Rightarrow> pm_main_server m' = None)"
proof (cases "ap_action plan")
  case ApplyStart
  obtain r1 m1 where http: "replace_http_server ops config m = (r1, m1)" by (rule prod.exhaust)
  have ok: "r1 = Inr ()" using assms ApplyStart http by (cases r1) (auto simp: sync_servers_for_apply_plan_def)
  show ?thesis
  proof (cases "ap_serve_mode plan")
    case None
    then show ?thesis using assms ApplyStart http ok replace_http_frame [OF http] by (auto simp: sync_servers_for_apply_plan_def stop_main_server_def)
  next
    case (Some mode)
    define main_plan where "main_plan = plan_subscription_proxy_main_server config mode"
    have mode: "ms_mode main_plan = mode" by (simp add: main_plan_def plan_subscription_proxy_main_server_def)
    obtain server where server: "m' = m1\<lparr>pm_main_server := Some server\<rparr>"
      and "spawn_subscription_proxy_main_http_fallback_server ops (used_addresses m1) main_plan = Inr server \<or>
        fst (spawn_subscription_proxy_main_https_server ops (used_addresses m1) main_plan fs) = Inr server"
      using assms ApplyStart http ok Some
      by (cases mode) (auto simp: sync_servers_for_apply_plan_def Let_def main_plan_def split: sum.splits prod.splits)
    then have "sh_service server = MainService main_plan"
      by (auto simp: spawn_subscription_proxy_main_http_fallback_server_def spawn_subscription_proxy_main_https_server_def fst_io_then_Inr
          dest: spawn_server_service split: if_splits)
    then show ?thesis
      using ApplyStart Some server mode replace_http_frame [OF http] by (cases server) auto
  qed
qed (use assms in \<open>auto simp: sync_servers_for_apply_plan_def stop_servers_def stop_main_server_def dest: replace_http_frame split: prod.splits\<close>)

lemma apply_and_start_served:
  assumes "served_as_said m" and "apply_and_start_with_file_system ops csr source m fs = (r, m', fs')"
  shows "served_as_said m'"
proof (cases "normalize_subscription_proxy_config source")
  case (Inl e)
  then show ?thesis using assms by (simp add: apply_and_start_with_file_system_def)
next
  case (Inr config)
  obtain r1 m1 fs1 where a: "manager_apply (file_callbacks csr) config m fs = (r1, m1, fs1)" by (rule prod_cases3)
  note frame = manager_apply_frame [OF a]
  show ?thesis
  proof (cases r1)
    case (Inl e)
    then show ?thesis using assms Inr a frame by (auto simp: apply_and_start_with_file_system_def apply_with_file_system_def)
  next
    case plan: (Inr plan)
    obtain r2 m2 fs2 where sync: "sync_servers_for_apply_plan ops config plan (m1, fs1) = (r2, m2, fs2)" by (rule prod_cases3)
    show ?thesis
    proof (cases r2)
      case (Inl e)
      then show ?thesis
        using assms(2) Inr a plan sync by (auto simp: apply_and_start_with_file_system_def apply_with_file_system_def served_as_said_def)
    next
      case ok: (Inr u)
      then have "m' = m2" using assms(2) Inr a plan sync by (auto simp: apply_and_start_with_file_system_def apply_with_file_system_def)
      moreover have "served_as_said m2"
        using sync_servers_served [OF sync [unfolded ok]] frame plan assms(1)
        by (cases "ap_action plan") (auto simp: served_as_said_def)
      ultimately show ?thesis by simp
    qed
  qed
qed

text \<open>The managers that any sequence of configurations leads to, whatever happens to files and sockets in between.\<close>

inductive proxy_reachable :: "proxy_manager \<Rightarrow> bool" where
  proxy_start: "proxy_reachable proxy_manager_new"
| proxy_apply: "proxy_reachable m \<Longrightarrow> apply_and_start_with_file_system ops csr source m fs = (r, m', fs') \<Longrightarrow> proxy_reachable m'"


section \<open>Applying a configuration again\<close>

lemma join_not_Nil: "join [CHR 0x00] (p # q # ps) \<noteq> []"
  by simp

lemma fingerprint_not_Nil: "subscription_proxy_fingerprint config \<noteq> []"
  unfolding subscription_proxy_fingerprint_def append_Cons by (rule join_not_Nil)

lemma applied_fingerprint:
  assumes "manager_apply cb source m s = (Inr plan, m', s')" and "ap_action plan \<noteq> ApplyDisabled"
  obtains config where "normalize_subscription_proxy_config source = Inr config" "pm_fingerprint m' = subscription_proxy_fingerprint config"
    "\<not> (\<not> sp_enabled config \<or> sp_profiles config = [] \<and> sp_website_profiles config = [])"
  using assms
  by (auto simp: manager_apply_def plan_subscription_proxy_apply_def disabled_plan_def Let_def split: sum.splits prod.splits if_splits)

text \<open>
  A configuration that was applied, even one whose servers could not be started, is unchanged when it is applied
  again: the certificate is looked at, and nothing is started.
\<close>

lemma failed_start_not_retried:
  assumes "manager_apply cb source m s = (Inr plan, m1, s1)" and "ap_action plan \<noteq> ApplyDisabled"
    and "pm_fingerprint m2 = pm_fingerprint m1" and "manager_apply cb' source m2 s2 = (r, m3, s3)"
  shows "\<exists>plan'. r = Inr plan' \<and> ap_action plan' = ApplyUnchanged"
proof -
  obtain config where "normalize_subscription_proxy_config source = Inr config" "pm_fingerprint m1 = subscription_proxy_fingerprint config"
    "\<not> (\<not> sp_enabled config \<or> sp_profiles config = [] \<and> sp_website_profiles config = [])"
    using applied_fingerprint [OF assms(1,2)] by blast
  then show ?thesis
    using assms(3,4) fingerprint_not_Nil [of config]
    by (auto simp: manager_apply_def plan_subscription_proxy_apply_def Let_def split: prod.splits if_splits)
qed

text \<open>
  A changed configuration with the same challenge address cannot start: the new server is bound while the old one
  still holds the address.
\<close>

lemma replace_binds_before_stop:
  assumes "\<And>listen used. listen \<in> set used \<Longrightarrow> sv_bind ops listen used = Err e"
    and "pm_http_server m = Some old" and "sh_listen old = trim (sp_http_listen config)" and "trim (sp_http_listen config) \<noteq> []"
  shows "replace_http_server ops config m = (Err (''bind subscription proxy server '' @ trim (sp_http_listen config) @ '': '' @ e), m)"
  using assms
  by (simp add: replace_http_server_def spawn_subscription_proxy_http_challenge_server_def plan_subscription_proxy_http_server_def
      spawn_server_def used_addresses_def Let_def)

section \<open>Witnesses\<close>

definition sample_server_ops :: server_ops where
  "sample_server_ops =
     \<lparr>sv_bind = (\<lambda>listen used. if listen \<in> set used then Err ''in use'' else Ok listen), sv_nonblocking = (\<lambda>_. Ok ()), sv_certs = (\<lambda>_. Err ''none''),
      sv_key = (\<lambda>_. Ok None), sv_versions = Ok (), sv_tls = (\<lambda>_ _. Ok ())\<rparr>"

definition sample_started :: "proxy_apply_plan result \<times> proxy_manager \<times> file_store" where
  "sample_started = apply_and_start_with_file_system sample_server_ops (\<lambda>_ _ fs. (Err ''no openssl'', fs)) (sample_proxy_config\<lparr>sp_max_response_bytes := 9\<rparr>) proxy_manager_new no_files"


theorem normalized_config_ok_witness:
  "\<exists>config. normalize_subscription_proxy_config sample_proxy_config = Inr config \<and> sp_enabled config \<and> sp_max_response_bytes config \<noteq> 0"
proof -
  have "is_ok (normalize_subscription_proxy_config sample_proxy_config)" by code_simp
  then obtain config where c: "normalize_subscription_proxy_config sample_proxy_config = Inr config" by (auto simp: is_ok_iff)
  have "case normalize_subscription_proxy_config sample_proxy_config of Inr config \<Rightarrow> sp_website_profiles config \<noteq> [] | Inl _ \<Rightarrow> False" by code_simp
  then show ?thesis using normalized_config_ok [OF c] c by simp
qed

end
