(* ===== verification/Agent.thy ===== *)
theory Agent
  imports Runner Proxy_Manager
begin

text \<open>
  The command line and the start of the agent (\<open>src/src/main.rs\<close>): arguments, the preflight check of a gray
  release, the panels to report to, the options of the main loop, stopping, and the loop over reloads and
  upgrades. Building the plan and one run of the main loop are arguments of that last loop.
\<close>

section \<open>Arguments\<close>

definition DEFAULT_SERVICE_NAME :: string where
  "DEFAULT_SERVICE_NAME = ''kelinode''"

text \<open>\<open>trim_start_matches\<close> at a string.\<close>

function trim_start_str :: "string \<Rightarrow> string \<Rightarrow> string" where
  "trim_start_str pat s = (if pat = [] then s else case strip_prefix pat s of Some rest \<Rightarrow> trim_start_str pat rest | None \<Rightarrow> s)"
  by pat_completeness auto
termination
  by (relation "measure (\<lambda>(pat, s). length s)") (auto simp: strip_prefix_Some)

declare trim_start_str.simps [simp del]

abbreviation starts_with_str :: "string \<Rightarrow> string \<Rightarrow> bool" where
  "starts_with_str pat s \<equiv> strip_prefix pat s \<noteq> None"

fun config_path_loop :: "string list \<Rightarrow> string option \<Rightarrow> string option result" where
  "config_path_loop [] path = Ok path"
| "config_path_loop (arg # args) path =
     (if arg = ''--config'' \<or> arg = ''-c''
      then (case args of [] \<Rightarrow> Err (arg @ '' requires a config path'') | v # rest \<Rightarrow> config_path_loop rest (Some v))
      else if starts_with_str ''--config='' arg then config_path_loop args (Some (trim_start_str ''--config='' arg))
      else if starts_with_str ''-c='' arg then config_path_loop args (Some (trim_start_str ''-c='' arg))
      else if arg = ''--'' then Ok (case args of v # _ \<Rightarrow> Some v | [] \<Rightarrow> path)
      else if starts_with_str ''-'' arg then Err (''unknown config option '' @ arg)
      else config_path_loop args (Some arg))"

definition config_path_from_args :: "string list \<Rightarrow> string \<Rightarrow> string result" where
  "config_path_from_args args default_path = map_ok (unwrap_or default_path) (config_path_loop args None)"

datatype rules_action = RulesStatus | RulesRepair | RulesCleanup

definition parse_rules_args :: "string list \<Rightarrow> (rules_action \<times> string list) result" where
  "parse_rules_args args =
     (case args of
        [] \<Rightarrow> Ok (RulesStatus, [])
      | first # rest \<Rightarrow>
          if starts_with_str ''-'' first then Ok (RulesStatus, args)
          else if first = ''status'' then Ok (RulesStatus, rest)
          else if first = ''repair'' then Ok (RulesRepair, rest)
          else if first = ''cleanup'' \<or> first = ''clean'' then Ok (RulesCleanup, rest)
          else Err (''unknown rules action: '' @ first))"

record log_options =
  lg_tail :: nat
  lg_follow :: bool
  lg_raw :: bool

definition parse_tail :: "string \<Rightarrow> string \<Rightarrow> nat result" where
  "parse_tail option_name v =
     (case parse_uint (2 ^ 64 - 1) v of
        Some n \<Rightarrow> if n = 0 then Err (option_name @ '' requires a positive integer'') else Ok n
      | None \<Rightarrow> Err (option_name @ '' requires a positive integer''))"

fun log_args_loop :: "string list \<Rightarrow> log_options \<Rightarrow> log_options result" where
  "log_args_loop [] options = Ok options"
| "log_args_loop (arg # args) options =
     (if arg = ''--tail'' \<or> arg = ''-n''
      then (case args of
              [] \<Rightarrow> Err (arg @ '' requires a line count'')
            | v # rest \<Rightarrow> (case parse_tail arg v of Inl e \<Rightarrow> Err e | Inr n \<Rightarrow> log_args_loop rest (options\<lparr>lg_tail := n\<rparr>)))
      else if starts_with_str ''--tail='' arg
      then (case parse_tail ''--tail'' (trim_start_str ''--tail='' arg) of Inl e \<Rightarrow> Err e | Inr n \<Rightarrow> log_args_loop args (options\<lparr>lg_tail := n\<rparr>))
      else if arg = ''--no-follow'' then log_args_loop args (options\<lparr>lg_follow := False\<rparr>)
      else if arg = ''--follow'' \<or> arg = ''-f'' then log_args_loop args (options\<lparr>lg_follow := True\<rparr>)
      else if arg = ''--raw'' then log_args_loop args (options\<lparr>lg_raw := True\<rparr>)
      else Err (''unknown log option '' @ arg))"

definition parse_log_args :: "string list \<Rightarrow> log_options result" where
  "parse_log_args args = log_args_loop args \<lparr>lg_tail = 200, lg_follow = True, lg_raw = False\<rparr>"

definition log_command_args :: "log_options \<Rightarrow> string list" where
  "log_command_args options =
     [''-u'', DEFAULT_SERVICE_NAME, ''-n'', nat_to_string (lg_tail options), ''--no-pager''] @
     (if lg_raw options then [] else [''--output'', ''cat'']) @ (if lg_follow options then [''-f''] else [])"

section \<open>Preflight\<close>

record preflight_report =
  pf_details :: "string list"
  pf_warnings :: "string list"
  pf_errors :: "string list"

fun runtime_mode_text :: "runtime_mode \<Rightarrow> string" where
  "runtime_mode_text DirectNode = ''DirectNode''"
| "runtime_mode_text MachineBinding = ''MachineBinding''"
| "runtime_mode_text Invalid = ''Invalid''"

definition preflight_wildcard_listen :: "string \<Rightarrow> bool" where
  "preflight_wildcard_listen v \<longleftrightarrow> trim v \<in> {[], ''0.0.0.0'', ''::'', ''[::]''}"

abbreviation add_error :: "string \<Rightarrow> preflight_report \<Rightarrow> preflight_report" where
  "add_error e report \<equiv> report\<lparr>pf_errors := pf_errors report @ [e]\<rparr>"

abbreviation add_warning :: "string \<Rightarrow> preflight_report \<Rightarrow> preflight_report" where
  "add_warning w report \<equiv> report\<lparr>pf_warnings := pf_warnings report @ [w]\<rparr>"

abbreviation add_detail :: "string \<Rightarrow> preflight_report \<Rightarrow> preflight_report" where
  "add_detail d report \<equiv> report\<lparr>pf_details := pf_details report @ [d]\<rparr>"

definition node_capability :: "node_info \<Rightarrow> capability_entry result" where
  "node_capability node =
     and_then (build_inbound_plan node) (\<lambda>inbound.
       case keli_core_rs_inbound_capability inbound of
         Inl e \<Rightarrow> Err (''native capability classify failed for inbound '' @ ib_tag inbound @ '': '' @ e)
       | Inr entry \<Rightarrow> Ok entry)"

definition push_capability_finding :: "string option \<Rightarrow> node_info \<Rightarrow> preflight_report \<Rightarrow> preflight_report" where
  "push_capability_finding allow node report =
     (case node_capability node of
        Inl e \<Rightarrow> add_error e report
      | Inr entry \<Rightarrow>
          (case ce_decision entry of
             RenderNative \<Rightarrow> report
           | RenderNativeWithWarning \<Rightarrow> add_warning (''native capability warning: '' @ gate_message entry) report
           | FallbackGo \<Rightarrow> add_error (''native capability blocker: '' @ gate_message entry) report
           | Reject _ \<Rightarrow>
               if entry_allowed_by_explicit_canary_allow_list entry allow
               then add_warning (''native capability canary override env='' @ NATIVE_CANARY_ALLOW_ENV @ '': '' @ gate_message entry) report
               else add_error (''native capability blocker: '' @ gate_message entry) report))"

definition push_native_capability_preflight_findings ::
  "string option \<Rightarrow> runtime_bootstrap_plan \<Rightarrow> preflight_report \<Rightarrow> preflight_report" where
  "push_native_capability_preflight_findings allow plan report = fold (push_capability_finding allow) (rbp_node_infos plan) report"

definition failure_text :: "node_failure \<Rightarrow> string" where
  "failure_text failure =
     ''api_host='' @ nc_url (nf_config failure) @ '' node_id='' @ nat_to_string (unat (nc_node_id (nf_config failure))) @
     '' machine_id='' @ nat_to_string (unat (nc_machine_id (nf_config failure))) @ '' error='' @ nf_error failure"

definition check_inbound :: "inbound_plan \<Rightarrow> preflight_report \<Rightarrow> preflight_report" where
  "check_inbound inbound report =
     (let report1 = (if preflight_wildcard_listen (ib_listen inbound) then report
            else add_warning (''inbound '' @ ib_tag inbound @ '' listens on explicit address '' @ ib_listen inbound @
              ''; automatic dual-stack wildcard does not apply'') report)
      in if ib_port inbound = 0 then add_error (''inbound '' @ ib_tag inbound @ '' has empty server port'') report1 else report1)"

definition check_core_plan :: "core_plan \<Rightarrow> preflight_report \<Rightarrow> preflight_report" where
  "check_core_plan core_plan report =
     (let report1 = add_detail (''native_inbounds='' @ nat_to_string (length (cp_inbounds core_plan))) report;
          report2 = (if cp_inbounds core_plan = [] then add_error ''native core plan has no inbounds'' report1 else report1);
          report3 = (if list_all (\<lambda>inbound. ib_users inbound = []) (cp_inbounds core_plan)
            then add_warning ''preflight checks node config without panel user list; verify user sync and ApplyUserDelta during the smoke window'' report2
            else report2)
      in fold check_inbound (cp_inbounds core_plan) report3)"

definition native_gray_preflight_report :: "string option \<Rightarrow> runtime_bootstrap_plan \<Rightarrow> preflight_report" where
  "native_gray_preflight_report allow plan =
     (let report0 = \<lparr>pf_details = [''mode='' @ runtime_mode_text (rb_mode (rbp_bootstrap plan)),
            ''resolved_nodes='' @ nat_to_string (length (rbp_node_infos plan)),
            ''machine_profiles='' @ nat_to_string (length (rm_profiles (rc_machine (rbp_resolved plan))))], pf_warnings = [], pf_errors = []\<rparr>;
          report1 = fold (\<lambda>failure. add_error (''node resolve failed: '' @ failure_text failure)) (rbp_node_failures plan) report0;
          report2 = push_native_capability_preflight_findings allow plan report1
      in case rbp_core_plan plan of
           None \<Rightarrow> add_error ''no primary core plan was built for this config'' report2
         | Some core_plan \<Rightarrow> check_core_plan core_plan report2)"

definition run_native_gray_preflight :: "string option \<Rightarrow> runtime_bootstrap_plan result \<Rightarrow> preflight_report" where
  "run_native_gray_preflight allow bootstrap =
     (case bootstrap of
        Inr plan \<Rightarrow> native_gray_preflight_report allow plan
      | Inl e \<Rightarrow> \<lparr>pf_details = [], pf_warnings = [], pf_errors = [''runtime plan failed: '' @ e]\<rparr>)"

section \<open>Panels and options\<close>

record panel_client_options =
  pco_api_host :: string
  pco_token :: string
  pco_node_id :: u32
  pco_machine_id :: u32
  pco_timeout :: u64
  pco_config_dir :: string

definition panel_options_from_node :: "node_config \<Rightarrow> panel_client_options" where
  "panel_options_from_node config =
     \<lparr>pco_api_host = nc_url config, pco_token = nc_token config, pco_node_id = nc_node_id config, pco_machine_id = nc_machine_id config,
      pco_timeout = (if nc_timeout config = 0 then 30 else nc_timeout config), pco_config_dir = nc_config_dir config\<rparr>"

definition panel_options_from_machine_profile :: "machine_profile_config \<Rightarrow> panel_client_options" where
  "panel_options_from_machine_profile profile =
     \<lparr>pco_api_host = mp_url profile, pco_token = mp_token profile, pco_node_id = 0, pco_machine_id = mp_machine_id profile,
      pco_timeout = (if mp_timeout profile = 0 then 30 else mp_timeout profile), pco_config_dir = mp_config_dir profile\<rparr>"

text \<open>\<open>PanelClient::new\<close>: the checks of the identity; building the HTTP client is an argument.\<close>

definition panel_client_new :: "(panel_client_options \<Rightarrow> unit result) \<Rightarrow> panel_client_options \<Rightarrow> panel_client_options result" where
  "panel_client_new build options =
     (if trim (pco_api_host options) = [] then Err ''api_host is required''
      else if trim (pco_token options) = [] then Err ''token is required''
      else if pco_node_id options = 0 \<and> pco_machine_id options = 0 then Err ''node_id or machine_id is required''
      else map_ok (\<lambda>_. options) (build options))"

definition machine_client_key :: "string \<Rightarrow> u32 \<Rightarrow> string \<Rightarrow> string" where
  "machine_client_key url machine_id token =
     trim_end_matches is_slash url @ ''#'' @ nat_to_string (unat machine_id) @ ''#'' @ token"

fun add_clients ::
  "(panel_client_options \<Rightarrow> unit result) \<Rightarrow> ('a \<Rightarrow> string) \<Rightarrow> ('a \<Rightarrow> panel_client_options) \<Rightarrow> 'a list \<Rightarrow> string btset \<Rightarrow>
   panel_client_options list \<Rightarrow> (string btset \<times> panel_client_options list) result" where
  "add_clients build key options [] seen clients = Ok (seen, clients)"
| "add_clients build key options (x # xs) seen clients =
     (if bs_contains seen (key x) then add_clients build key options xs seen clients
      else and_then (panel_client_new build (options x)) (\<lambda>client.
        add_clients build key options xs (bs_insert (key x) seen) (clients @ [client])))"

definition machine_panel_clients ::
  "(panel_client_options \<Rightarrow> unit result) \<Rightarrow> resolved_config \<Rightarrow> panel_client_options list result" where
  "machine_panel_clients build resolved =
     and_then (add_clients build (\<lambda>config. machine_client_key (nc_url config) (nc_machine_id config) (nc_token config)) panel_options_from_node
         (filter (\<lambda>config. nc_machine_id config > 0) (rc_nodes resolved)) [] []) (\<lambda>(seen, clients).
       map_ok snd (add_clients build (\<lambda>profile. machine_client_key (mp_url profile) (mp_machine_id profile) (mp_token profile))
         panel_options_from_machine_profile (filter (\<lambda>profile. mp_machine_id profile > 0) (rm_profiles (rc_machine resolved))) seen clients))"

definition node_tick_seconds :: "node_info \<Rightarrow> nat option" where
  "node_tick_seconds node =
     (let push = ni_push_interval node; pull = ni_pull_interval node;
          seconds = (if push = 0 then pull else if pull = 0 then push else min push pull)
      in if seconds > 0 then Some seconds else None)"

definition runtime_tick_interval :: "runtime_bootstrap_plan \<Rightarrow> nat" where
  "runtime_tick_interval plan =
     (case List.map_filter node_tick_seconds (rbp_node_infos plan) of [] \<Rightarrow> 60 | s # ss \<Rightarrow> fold min ss s)"

definition non_empty_command_override :: "string \<Rightarrow> string option" where
  "non_empty_command_override v = (if trim v = [] then None else Some (trim v))"

definition options_machine_id :: "resolved_config \<Rightarrow> u32" where
  "options_machine_id resolved =
     unwrap_or 0 (find (\<lambda>i. i > 0) (map nc_machine_id (rc_nodes resolved) @ map mp_machine_id (rm_profiles (rc_machine resolved))))"

definition runtime_loop_options :: "health_report_input \<Rightarrow> runtime_bootstrap_plan \<Rightarrow> bool \<Rightarrow> loop_options" where
  "runtime_loop_options health plan report_to_panel =
     \<lparr>lo_control = \<lparr>rco_machine_id = options_machine_id (rbp_resolved plan),
        rco_core_command = non_empty_command_override (core_command (rc_kernel (rbp_resolved plan))), rco_start_core = True,
        rco_hot_apply = True, rco_user_delta_applied = False, rco_repair_port_forward = True, rco_health = health\<rparr>,
      lo_max_ticks = None,
      lo_tick_interval = (if runtime_tick_interval plan = 0 then 60 else runtime_tick_interval plan),
      lo_user_refresh_interval = 1, lo_panel_report_interval = (if report_to_panel then 1 else 0)\<rparr>"

section \<open>Starting and stopping\<close>

definition start_subscription_proxy_manager ::
  "server_ops \<Rightarrow> openssl \<Rightarrow> (string \<Rightarrow> string) \<Rightarrow> runtime_bootstrap_plan \<Rightarrow> file_store \<Rightarrow> (proxy_manager \<times> string option) option \<times> file_store" where
  "start_subscription_proxy_manager ops openssl utf8_error plan fs =
     (let config = subscription_proxy (rc_agent (rbp_resolved plan))
      in if \<not> sp_enabled config then (None, fs)
         else case apply_and_start_with_file_system ops (ensure_subscription_proxy_csr_with_openssl openssl utf8_error) config proxy_manager_new fs of
           (Inl e, m, fs') \<Rightarrow> (Some (m, Some (''start failed error='' @ e)), fs')
         | (Inr _, m, fs') \<Rightarrow> (Some (m, None), fs'))"

definition stop_core_for_plan ::
  "('p, 'x, 'k) control_env \<Rightarrow> runtime_bootstrap_plan \<Rightarrow> ('p, 'x, 'k) control_world \<Rightarrow> unit result \<times> ('p, 'x, 'k) control_world" where
  "stop_core_for_plan env plan w =
     (case rbp_core_plan plan of
        None \<Rightarrow> (Ok (), w)
      | Some core_plan \<Rightarrow>
          io_then (on_fs (core_process_spec (ce_random env 5) (ce_cwd env) core_plan
              (non_empty_command_override (core_command (rc_kernel (rbp_resolved plan))))) w) (\<lambda>spec w.
          io_then (on_sup (so_stop (ce_sup env) (psp_name spec)) w) (\<lambda>_ w. (Ok (), w))))"

definition cleanup_hy2_port_forward_on_shutdown ::
  "('p, 'x, 'k) control_env \<Rightarrow> ('p, 'x, 'k) control_world \<Rightarrow> ('p, 'x, 'k) control_world" where
  "cleanup_hy2_port_forward_on_shutdown env w =
     (case on_fw (cleanup_hysteria_port_forward (ce_fw env)) w of
        (status, w1) \<Rightarrow>
          let w2 = (if pst_errors status \<noteq> [] then log_line LogWarn ''hy2'' (''port forwarding cleanup: '' @ join ''; '' (pst_errors status)) w1 else w1)
          in fold (\<lambda>tool. log_line LogWarn ''hy2'' (''port forwarding cleanup tool='' @ tst_tool tool @ '' error='' @ tst_error tool))
               (filter (\<lambda>tool. tst_error tool \<noteq> []) (pst_tools status)) w2)"

text \<open>
  The loop over the runs of the agent: \<open>once\<close> is one run, from reading the configuration to the end of the main loop,
  given the upgrade manager whose status it reports; \<open>upgrade\<close> handles an upgrade command. \<open>None\<close> is an
  agent that runs for ever.
\<close>

partial_function (option) run_agent ::
  "(upgrade_manager \<Rightarrow> 'w \<Rightarrow> loop_exit result \<times> 'w) \<Rightarrow> (machine_upgrade_command \<Rightarrow> upgrade_manager \<times> 'w \<Rightarrow> upgrade_manager \<times> 'w) \<Rightarrow>
   upgrade_manager \<times> 'w \<Rightarrow> (unit result \<times> upgrade_manager \<times> 'w) option" where
  "run_agent once upgrade st =
     (case once (fst st) (snd st) of
        (Inl e, w) \<Rightarrow> Some (Err e, fst st, w)
      | (Inr ex, w) \<Rightarrow>
          (case lx_reason ex of
             MaxTicks \<Rightarrow> Some (Ok (), fst st, w)
           | Shutdown \<Rightarrow> Some (Ok (), fst st, w)
           | ExitSignal signal \<Rightarrow>
               run_agent once upgrade (case signal of UpgradeSignal cmd \<Rightarrow> upgrade cmd (fst st, w) | _ \<Rightarrow> (fst st, w))))"

section \<open>A preflight without errors\<close>

lemma findings_errors:
  "pf_errors (push_capability_finding allow node report) = [] \<longleftrightarrow>
     pf_errors report = [] \<and> (\<exists>entry. node_capability node = Inr entry \<and>
       (renders (ce_decision entry) \<or> entry_allowed_by_explicit_canary_allow_list entry allow))"
  by (cases "node_capability node"; cases "ce_decision (projr (node_capability node))")
     (auto simp: push_capability_finding_def entry_allowed_by_explicit_canary_allow_list_def)

lemma fold_findings_errors:
  "pf_errors (fold (push_capability_finding allow) nodes report) = [] \<longleftrightarrow>
     pf_errors report = [] \<and> (\<forall>node \<in> set nodes. \<exists>entry. node_capability node = Inr entry \<and>
       (renders (ce_decision entry) \<or> entry_allowed_by_explicit_canary_allow_list entry allow))"
  by (induction nodes arbitrary: report) (auto simp: findings_errors)

lemma check_inbound_errors: "pf_errors (check_inbound inbound report) = [] \<longleftrightarrow> pf_errors report = [] \<and> ib_port inbound \<noteq> 0"
  by (simp add: check_inbound_def Let_def)

lemma check_inbounds_errors:
  "pf_errors (fold check_inbound inbounds report) = [] \<longleftrightarrow> pf_errors report = [] \<and> (\<forall>inbound \<in> set inbounds. ib_port inbound \<noteq> 0)"
  by (induction inbounds arbitrary: report) (auto simp: check_inbound_errors)

lemma failures_errors:
  "pf_errors (fold (\<lambda>failure. add_error (f failure)) failures report) = [] \<longleftrightarrow> pf_errors report = [] \<and> failures = []"
  by (induction failures arbitrary: report) auto

text \<open>
  C14: A preflight reports no error exactly when the plan was built, no node failed, every node has an inbound that the
  native core can render (or that the canary list allows), and there is a core plan with at least one inbound,
  each with a port.
\<close>

theorem preflight_exact:
  "pf_errors (run_native_gray_preflight allow bootstrap) = [] \<longleftrightarrow>
     (case bootstrap of
        Inl _ \<Rightarrow> False
      | Inr plan \<Rightarrow>
          rbp_node_failures plan = [] \<and>
          list_all (\<lambda>node. case node_capability node of
              Inl _ \<Rightarrow> False
            | Inr entry \<Rightarrow> renders (ce_decision entry) \<or> entry_allowed_by_explicit_canary_allow_list entry allow) (rbp_node_infos plan) \<and>
          (case rbp_core_plan plan of
             None \<Rightarrow> False
           | Some core_plan \<Rightarrow> cp_inbounds core_plan \<noteq> [] \<and> list_all (\<lambda>inbound. ib_port inbound \<noteq> 0) (cp_inbounds core_plan)))"
proof (cases bootstrap)
  case (Inr plan)
  have sum: "(\<exists>entry. r = Inr entry \<and> P entry) \<longleftrightarrow> (case r of Inl _ \<Rightarrow> False | Inr entry \<Rightarrow> P entry)" for r :: "capability_entry result" and P
    by (cases r) auto
  show ?thesis
    by (cases "rbp_core_plan plan")
       (auto simp: Inr run_native_gray_preflight_def native_gray_preflight_report_def push_native_capability_preflight_findings_def Let_def
        check_core_plan_def check_inbounds_errors fold_findings_errors failures_errors sum list_all_iff)
qed (simp add: run_native_gray_preflight_def)

section \<open>One client for each machine\<close>

definition client_key :: "panel_client_options \<Rightarrow> string" where
  "client_key client = machine_client_key (pco_api_host client) (pco_machine_id client) (pco_token client)"

lemma panel_client_new_Inr: "panel_client_new build options = Inr client \<Longrightarrow> client = options"
  by (auto simp: panel_client_new_def map_ok_Inr split: if_splits)

lemma add_clients_keys:
  assumes "add_clients build key options xs seen clients = Inr (seen', clients')" and "\<And>x. client_key (options x) = key x"
    and "set seen = set (map client_key clients)" and "distinct (map client_key clients)"
  shows "set seen' = set (map client_key clients') \<and> distinct (map client_key clients') \<and> set seen' = set seen \<union> key ` set xs"
  using assms(1,3,4)
proof (induction xs arbitrary: seen clients)
  case (Cons x xs)
  show ?case
  proof (cases "key x \<in> set seen")
    case True
    then have "add_clients build key options xs seen clients = Inr (seen', clients')" using Cons.prems(1) by (simp add: bs_contains_def)
    from Cons.IH [OF this Cons.prems(2,3)] True show ?thesis by auto
  next
    case False
    then obtain client where "panel_client_new build (options x) = Inr client"
      and rest: "add_clients build key options xs (bs_insert (key x) seen) (clients @ [client]) = Inr (seen', clients')"
      using Cons.prems(1) by (auto simp: bs_contains_def and_then_Inr)
    then have "client_key client = key x" using panel_client_new_Inr assms(2) by metis
    then show ?thesis using Cons.IH [OF rest] Cons.prems(2,3) False by auto
  qed
qed auto

definition node_machine_key :: "node_config \<Rightarrow> string" where
  "node_machine_key config = machine_client_key (nc_url config) (nc_machine_id config) (nc_token config)"

definition profile_machine_key :: "machine_profile_config \<Rightarrow> string" where
  "profile_machine_key profile = machine_client_key (mp_url profile) (mp_machine_id profile) (mp_token profile)"

lemma option_keys:
  "client_key (panel_options_from_node config) = node_machine_key config"
  "client_key (panel_options_from_machine_profile profile) = profile_machine_key profile"
  by (simp_all add: client_key_def node_machine_key_def profile_machine_key_def panel_options_from_node_def panel_options_from_machine_profile_def)

lemma panel_clients_added:
  assumes "add_clients build node_machine_key panel_options_from_node nodes [] [] = Inr (seen1, clients1)"
    and "add_clients build profile_machine_key panel_options_from_machine_profile profiles seen1 clients1 = Inr (seen2, clients)"
  shows "distinct (map client_key clients) \<and> client_key ` set clients = node_machine_key ` set nodes \<union> profile_machine_key ` set profiles"
proof -
  have start: "set ([] :: string btset) = set (map client_key [])" "distinct (map client_key [])" by simp_all
  note one = add_clients_keys [OF assms(1) option_keys(1) start]
  note two = add_clients_keys [OF assms(2) option_keys(2) conjunct1 [OF one] conjunct1 [OF conjunct2 [OF one]]]
  show ?thesis using one two by (metis list.set(1) set_map sup_bot.left_neutral)
qed


section \<open>The interval of the ticks\<close>

lemma fold_min_le: "fold min ss (s :: nat) \<le> s \<and> (\<forall>x \<in> set ss. fold min ss s \<le> x) \<and> fold min ss s \<in> insert s (set ss)"
proof (induction ss arbitrary: s)
  case (Cons a ss)
  from Cons.IH [of "min a s"] show ?case by (auto simp: min_def split: if_splits)
qed simp

text \<open>The main loop always pauses between its ticks, for no longer than a node asks to be looked at.\<close>

lemma tick_interval_bounds:
  "0 < lo_tick_interval (runtime_loop_options health plan report)"
  "node \<in> set (rbp_node_infos plan) \<Longrightarrow> node_tick_seconds node = Some s \<Longrightarrow> lo_tick_interval (runtime_loop_options health plan report) \<le> s"
proof -
  show "0 < lo_tick_interval (runtime_loop_options health plan report)" by (simp add: runtime_loop_options_def)
next
  assume "node \<in> set (rbp_node_infos plan)" "node_tick_seconds node = Some s"
  then have m: "s \<in> set (List.map_filter node_tick_seconds (rbp_node_infos plan))"
    by (force simp: map_filter_def)
  have pos: "\<forall>x \<in> set (List.map_filter node_tick_seconds (rbp_node_infos plan)). 0 < x"
    by (auto simp: map_filter_def node_tick_seconds_def Let_def split: if_splits)
  show "lo_tick_interval (runtime_loop_options health plan report) \<le> s"
  proof (cases "List.map_filter node_tick_seconds (rbp_node_infos plan)")
    case (Cons t ts)
    then have "runtime_tick_interval plan \<le> s \<and> runtime_tick_interval plan \<noteq> 0"
      using m pos fold_min_le [of ts t] by (auto simp: runtime_tick_interval_def)
    then show ?thesis by (simp add: runtime_loop_options_def)
  qed (use m in simp)
qed

section \<open>The agent goes on after a signal\<close>

text \<open>The state after a number of runs that all ended with a signal.\<close>

fun agent_runs ::
  "(upgrade_manager \<Rightarrow> 'w \<Rightarrow> loop_exit result \<times> 'w) \<Rightarrow> (machine_upgrade_command \<Rightarrow> upgrade_manager \<times> 'w \<Rightarrow> upgrade_manager \<times> 'w) \<Rightarrow>
   nat \<Rightarrow> upgrade_manager \<times> 'w \<Rightarrow> (upgrade_manager \<times> 'w) option" where
  "agent_runs once upgrade 0 st = Some st"
| "agent_runs once upgrade (Suc n) st =
     (case once (fst st) (snd st) of
        (Inr ex, w) \<Rightarrow>
          (case lx_reason ex of
             ExitSignal signal \<Rightarrow> agent_runs once upgrade n (case signal of UpgradeSignal cmd \<Rightarrow> upgrade cmd (fst st, w) | _ \<Rightarrow> (fst st, w))
           | _ \<Rightarrow> None)
      | _ \<Rightarrow> None)"

lemma agent_runs_on: "agent_runs once upgrade n st = Some st' \<Longrightarrow> run_agent once upgrade st = run_agent once upgrade st'"
proof (induction n arbitrary: st)
  case (Suc n)
  from Suc.prems show ?case
    by (subst run_agent.simps) (auto split: sum.splits prod.splits loop_exit_reason.splits dest: Suc.IH)
qed simp


section \<open>Witnesses\<close>

definition sample_machine_node :: "string \<Rightarrow> node_config" where
  "sample_machine_node url = node_config_default\<lparr>nc_url := url, nc_token := ''t'', nc_node_id := 3, nc_machine_id := 7\<rparr>"

definition sample_machine_config :: resolved_config where
  "sample_machine_config = sample_resolved\<lparr>rc_nodes := [sample_machine_node ''https://p/'', sample_machine_node ''https://p'']\<rparr>"


text \<open>A run that asks for a reload, then one that is shut down.\<close>

definition sample_once :: "upgrade_manager \<Rightarrow> nat \<Rightarrow> loop_exit result \<times> nat" where
  "sample_once m n = (Ok \<lparr>lx_ticks = 1, lx_reason = (if n = 0 then ExitSignal Reload else Shutdown)\<rparr>, Suc n)"


end
