(* ===== verification/Spec2Isabelle.thy ===== *)
theory Spec2Isabelle
  imports Prelude BTree Config Panel_Types User_Sync Machine Upgrade Port_Ranges Port_Forward
    Realtime Node_Manager Capability Json Ip_Addr Rust_Path Files Core_Plan Core_Validate Core_Routes
    Process Runtime Report Core_Control Runner_Users Runner_Delta Core_Files Health Control
    Runtime_Loop Runner Proxy_Http Proxy_Routes Proxy_Manager Agent
begin

text \<open>
  \<^bold>\<open>A verification library for kelinode-rs.\<close>

  \<^bold>\<open>The program.\<close> \<open>kelinode-rs\<close> is the agent that runs on a proxy node. It reads a configuration, asks one
  or more panels which nodes it serves and for which users, builds from that the configuration of the proxy core
  (\<open>keli-core-rs\<close>), writes it, starts and supervises the core, keeps its users in step over a control
  channel, installs firewall redirections for port ranges, reports traffic and health back, obeys reload and
  upgrade commands, and serves a reverse proxy for subscriptions. All sources are under \<open>src/src\<close>.

  \<^bold>\<open>How the parts interact.\<close> \<open>Agent\<close> starts a run: the configuration (\<open>Config\<close>) is resolved, the machine's
  nodes are fetched (\<open>Machine\<close>), each node is loaded (\<open>Panel_Types\<close>, \<open>Node_Manager\<close>), and \<open>Runtime\<close> builds a
  plan: the core plan (\<open>Core_Plan\<close>) checked against the capability matrix (\<open>Capability\<close>, \<open>Core_Validate\<close>).
  The main loop (\<open>Runtime_Loop\<close>) calls the callbacks of \<open>Runner\<close>: every tick refreshes the users
  (\<open>Runner_Users\<close> over \<open>User_Sync\<close>), sends the changes to the core (\<open>Runner_Delta\<close> over
  \<open>Core_Control\<close>) or rebuilds the plan, applies it (\<open>Control\<close>: \<open>Core_Routes\<close> and \<open>Core_Files\<close> write the
  configuration, \<open>Process\<close> supervises the core, \<open>Port_Forward\<close> reconciles the firewall), and reports
  (\<open>Health\<close>, \<open>Report\<close>). Messages of the panel arrive as events of the loop (\<open>Realtime\<close>). A reload
  ends the run and the agent builds a new plan; an upgrade goes to \<open>Upgrade\<close>. The subscription proxy
  (\<open>Proxy_Http\<close>, \<open>Proxy_Manager\<close>) runs beside the loop.

  \<^bold>\<open>Conventions.\<close> A Rust string is the list of its UTF-8 bytes; \<open>u16\<close>, \<open>u32\<close>, \<open>u64\<close> are words of that
  width where the code computes with them, and saturating or checked arithmetic is written out. A \<open>BTreeMap\<close> is
  an association list kept sorted by \<open>bt_insert\<close> (invariant \<open>bt_invar\<close>), a \<open>Vec\<close> a list, a \<open>struct\<close> a
  record, an \<open>enum\<close> a datatype. \<open>Result\<close> is a sum with the error on the left, and each error message of the
  source is the string of the model. Stateful code passes its state: files are a store with a sequence of
  injected faults (\<open>Files\<close>), so that every operation on them can fail at every point; processes, firewall
  tools, panels, sockets and the control channel are arguments with a state of their own. Code outside the
  repository (the JSON and YAML text formats, SHA-1, URL parsing, TLS, PEM, reqwest, the core, openssl) is an
  argument; what a theorem needs of it is a named hypothesis with a witness.

  \<^bold>\<open>The theories.\<close>
  \<^item> \<open>Prelude\<close>, \<open>BTree\<close>, \<open>Json\<close>, \<open>Ip_Addr\<close>, \<open>Rust_Path\<close>, \<open>Files\<close>: the parts of the standard library the code
    uses: strings and decimal numbers, ordered maps and sets, JSON values, IP addresses, paths, files. Their
    lemmas are the rewrite rules the components share.
  \<^item> \<open>Config\<close> (\<open>config.rs\<close>): normalisation and resolution of the configuration, node directories.
  \<^item> \<open>Panel_Types\<close> (\<open>panel/types.rs\<close>): the node description of the panel and its conversion.
  \<^item> \<open>Machine\<close> (\<open>machine.rs\<close>): the nodes and the proxy settings of a machine, merged over several panels.
  \<^item> \<open>Node_Manager\<close> (\<open>node.rs\<close>): loading nodes, and reconciling the running ones with the desired ones; its
    lemmas show which slots are kept and that desired nodes are never dropped.
  \<^item> \<open>Capability\<close>, \<open>Core_Validate\<close> (\<open>native_capability.rs\<close>, \<open>core.rs\<close>): the matrix of what the core renders and
    the checks of an inbound: what is accepted is secure and in the matrix.
  \<^item> \<open>Core_Plan\<close>, \<open>Core_Routes\<close>, \<open>Core_Files\<close> (\<open>core.rs\<close>): inbounds, users and routes of a plan; the rendered
    configuration refers only to outbounds it has; the text that is streamed denotes the value that is rendered;
    the file is replaced atomically.
  \<^item> \<open>Runtime\<close> (\<open>runtime.rs\<close>): the plan of a run; no two listeners of a plan take the same socket.
  \<^item> \<open>Port_Ranges\<close>, \<open>Port_Forward\<close> (\<open>port_forward.rs\<close>): port ranges of nodes, made disjoint, and the
    iptables commands for them: no port is redirected twice, and only the agent's own rules are touched.
  \<^item> \<open>Process\<close> (\<open>process.rs\<close>): the supervisor, as the locale \<open>process_supervisor\<close> with the laws of start, stop
    and status, interpreted on the system supervisor and on the one in memory; the arguments and the control
    token of the core.
  \<^item> \<open>Core_Control\<close> (\<open>core_control.rs\<close>): commands and responses of the control channel.
  \<^item> \<open>User_Sync\<close>, \<open>Runner_Users\<close>, \<open>Runner_Delta\<close> (\<open>user.rs\<close>, \<open>runner.rs\<close>): deltas and full lists of users, the
    state file of a node, refreshing from the panel, and sending the changes to the core: every change is
    reported, and what is reported applied was confirmed by the core.
  \<^item> \<open>Report\<close> (\<open>report.rs\<close>): traffic records, their batches and the spool of unsent ones: a round refines an
    abstract exchange in which no record is lost.
  \<^item> \<open>Health\<close> (\<open>health.rs\<close>): the status payload and the summary that gates a gray release.
  \<^item> \<open>Control\<close> (\<open>control.rs\<close>): applying a plan and one tick; the locale \<open>core_supervisor\<close> extends that of the
    supervisor, is interpreted on both, and gives that an applied core runs.
  \<^item> \<open>Realtime\<close> (\<open>realtime.rs\<close>): messages, tasks, receipts and back-off of the realtime channel.
  \<^item> \<open>Runtime_Loop\<close>, \<open>Runner\<close> (\<open>runner.rs\<close>): the three main loops, their events and the callbacks over the panels:
    a loop with a limit returns, a signal ends it, a tick follows the panels and is never stopped by them. The
    locale \<open>loop_client\<close> says what a loop needs of its callbacks; it is interpreted on those of the panels, and the
    property at the end of this theory rests on it: an upgrade comes from a panel.
  \<^item> \<open>Proxy_Http\<close>, \<open>Proxy_Routes\<close>, \<open>Proxy_Manager\<close> (\<open>subscription_proxy.rs\<close>): requests, routes, responses; the
    certificate and the servers: a response is not split, a request is read exactly, what is passed on stays
    below a configured address, a running status is true.
  \<^item> \<open>Upgrade\<close> (\<open>upgrade.rs\<close>): one launch for each command, and the quoting of the shell script.
  \<^item> \<open>Agent\<close> (\<open>main.rs\<close>, \<open>panel/client.rs\<close>): arguments, preflight, clients, options, and the loop over runs.

  \<^bold>\<open>Loops and bounds.\<close> Loops over data are structural. Loops with a measure (\<open>split_str\<close>, \<open>read_head_loop\<close>,
  \<open>read_exact\<close>, \<open>trim_start_str\<close>) have a termination proof. The main loops, the realtime connection and the loop
  of the agent may run for ever: they are \<open>partial_function (option)\<close>, \<open>None\<close> is a run without end, and that
  they return is a theorem (\<open>limited_loop_returns\<close>, \<open>signal_ends_loop\<close>, \<open>agent_outlives_signals\<close>), never an
  assumption. The counter of the ticks is a \<open>nat\<close>: a \<open>usize\<close> would need longer than any run to overflow. The
  only fuel is in the hexadecimal text of an IPv6 group, whose value has at most four digits. Sizes that the
  code compares with \<open>as u64\<close> are lengths of lists.

  \<^bold>\<open>Not modelled, and why.\<close> \<open>system.rs\<close> (reading \<open>/proc\<close> and asking for the public address: sampling is an argument of
  \<open>Runner\<close>); \<open>logging.rs\<close> (the log is a list of lines in the state of \<open>Control\<close>); \<open>realtime_client.rs\<close> (the web
  socket; its messages are those of \<open>Realtime\<close>); \<open>panel/contract.rs\<close> and \<open>lib.rs\<close> (constants and modules); the
  HTTP requests of \<open>panel/client.rs\<close>; the decoding of JSON and YAML by serde; the tokio tasks, threads, accept
  loops and signal handlers; the modes of files; the embedded core; the tests inside the source files.
\<close>

section \<open>Properties of several parts\<close>

text \<open>
  C8: A run of the main loop over the panels, with realtime events arriving as they may, ends with an upgrade only
  when one of the panels the run reports to has sent exactly that upgrade command in an accepted answer: no tick, no
  failure and no realtime message can start another one.
\<close>

theorem upgrades_come_from_panels:
  assumes "run_runtime_loop_async_with_events (panel_callbacks env (\<lambda>_ s. (Ok (), s))) options waits s = Some (Inr ex, st)"
    and "lx_reason ex = ExitSignal (UpgradeSignal cmd)"
  shows "\<exists>client \<in> set (pl_clients s). \<exists>payload l response l'.
    le_status env client payload l = (Inr response, l') \<and> ms_upgrade response = Some cmd"
  using panel_client.event_loop_ends_allowed [OF assms(1) refl assms(2)] by (simp add: sent_by_panel_def)

text \<open>A run with one panel that sends an upgrade: the first tick ends it.\<close>

definition sample_upgrade_answer :: machine_status_response where
  "sample_upgrade_answer = \<lparr>ms_reload = True, ms_upgrade = Some sample_command\<rparr>"

definition sample_run_options :: loop_options where
  "sample_run_options = (loop_options_default (to_control sample_tick_options))\<lparr>lo_user_refresh_interval := 0\<rparr>"

lemma sample_run:
  "\<exists>st. run_runtime_loop_async_with_events (panel_callbacks (sample_panel_env sample_upgrade_answer) (\<lambda>_ s. (Ok (), s))) sample_run_options
     (\<lambda>_. TimedOut) sample_panel_loop = Some (Inr \<lparr>lx_ticks = 1, lx_reason = ExitSignal (UpgradeSignal sample_command)\<rparr>, st)"
proof -
  let ?cb = "panel_callbacks (sample_panel_env sample_upgrade_answer) (\<lambda>_ s. (Ok (), s))"
  have "panels_signal [sample_upgrade_answer] = UpgradeSignal sample_command"
    by (simp add: panels_signal_def sample_upgrade_answer_def)
  with sample_tick_signal [of sample_upgrade_answer] obtain s' where
    t: "panel_run_tick (sample_panel_env sample_upgrade_answer) sample_tick_options sample_panel_loop = (Inr (UpgradeSignal sample_command), s')"
    by auto
  have "\<lparr>to_control = lo_control sample_run_options, to_report_to_panel = True, to_users = []\<rparr> = sample_tick_options"
    by (simp add: sample_run_options_def loop_options_default_def sample_tick_options_def)
  with t have "loop_tick ?cb sample_run_options (Suc 0) sample_panel_loop = (Inr (UpgradeSignal sample_command), s')"
    by (simp add: loop_tick_def should_run_def panel_callbacks_def sample_run_options_def loop_options_default_def)
  then show ?thesis
    by (simp add: run_runtime_loop_async_with_events_def loop_from.simps [of _ _ _ 0] with_replies_tick at_max_def sample_run_options_def
        loop_options_default_def)
qed

theorem upgrades_come_from_panels_witness:
  "\<exists>client \<in> set (pl_clients sample_panel_loop). \<exists>payload l response l'.
     le_status (sample_panel_env sample_upgrade_answer) client payload l = (Inr response, l') \<and>
     ms_upgrade response = Some sample_command"
proof -
  obtain st where run: "run_runtime_loop_async_with_events (panel_callbacks (sample_panel_env sample_upgrade_answer) (\<lambda>_ s. (Ok (), s)))
      sample_run_options (\<lambda>_. TimedOut) sample_panel_loop =
      Some (Inr \<lparr>lx_ticks = 1, lx_reason = ExitSignal (UpgradeSignal sample_command)\<rparr>, st)"
    using sample_run by blast
  show ?thesis by (rule upgrades_come_from_panels [OF run]) simp
qed

end
